(* ===== verification/Prelude.thy ===== *)
theory Prelude
  imports Complex_Main
begin

text \<open>
  Shared material of the development: JavaScript's exceptional results (\<open>res\<close>), the
  string operations the sources use (\<open>split\<close>, \<open>padStart\<close>, \<open>substr\<close>, \<open>toString\<close> of an
  integer) and the arithmetic facts on truncating division that the fixed-point code rests on.
\<close>

named_theorems dec_simps \<open>a Decimal method applied to Decimal arguments, in closed form\<close>

named_theorems js_defs \<open>definitions of the JavaScript string operations\<close>

section \<open>Exceptions\<close>

text \<open>
  \<open>Error\<close> is \<^verbatim>\<open>new Error(...)\<close>, \<open>Thrown\<close> a thrown string, \<open>AssertionError\<close> a failed
  \<^verbatim>\<open>assert\<close>, \<open>TypeError\<close> and \<open>ReferenceError\<close> what the engine raises on a missing member and on
  an undeclared name, \<open>RangeError\<close> what \<^verbatim>\<open>repeat\<close> raises on a negative count.
\<close>

datatype js_error =
    Error string
  | Thrown string
  | AssertionError string
  | TypeError string
  | ReferenceError string
  | RangeError string

type_synonym 'a res = "js_error + 'a"

definition bind_res :: "'a res \<Rightarrow> ('a \<Rightarrow> 'b res) \<Rightarrow> 'b res" where
  "bind_res m f = (case m of Inl e \<Rightarrow> Inl e | Inr x \<Rightarrow> f x)"

definition assert_res :: "string \<Rightarrow> bool \<Rightarrow> unit res" where
  "assert_res msg b = (if b then Inr () else Inl (AssertionError msg))"

fun map_res :: "('a \<Rightarrow> 'b res) \<Rightarrow> 'a list \<Rightarrow> 'b list res" where
  "map_res f [] = Inr []"
| "map_res f (x # xs) =
     bind_res (f x) (\<lambda>y. bind_res (map_res f xs) (\<lambda>ys. Inr (y # ys)))"

definition is_ok :: "'a res \<Rightarrow> bool" where
  "is_ok m = (case m of Inl _ \<Rightarrow> False | Inr _ \<Rightarrow> True)"

section \<open>Strings and numbers\<close>

definition is_digit :: "char \<Rightarrow> bool" where
  "is_digit c \<longleftrightarrow> 48 \<le> (of_char c :: nat) \<and> (of_char c :: nat) \<le> 57"

definition digit_char :: "nat \<Rightarrow> char" where
  "digit_char d = char_of (48 + d)"

definition char_digit :: "char \<Rightarrow> nat" where
  "char_digit c = of_char c - 48"

fun show_nat :: "nat \<Rightarrow> string" where
  "show_nat n = (if n < 10 then [digit_char n] else show_nat (n div 10) @ [digit_char (n mod 10)])"

declare show_nat.simps [simp del]

definition show_int :: "int \<Rightarrow> string" where
  "show_int i = (if i < 0 then CHR ''-'' # show_nat (nat (- i)) else show_nat (nat i))"

definition parse_nat :: "string \<Rightarrow> nat" where
  "parse_nat s = foldl (\<lambda>a c. 10 * a + char_digit c) 0 s"

fun split_on :: "char \<Rightarrow> string \<Rightarrow> string list" where
  "split_on c [] = [[]]"
| "split_on c (x # xs) =
     (if x = c then [] # split_on c xs
      else (case split_on c xs of [] \<Rightarrow> [[x]] | y # ys \<Rightarrow> (x # y) # ys))"

fun join_strings :: "string \<Rightarrow> string list \<Rightarrow> string" where
  "join_strings sep [] = []"
| "join_strings sep [x] = x"
| "join_strings sep (x # y # ys) = x @ sep @ join_strings sep (y # ys)"

definition padStart :: "nat \<Rightarrow> char \<Rightarrow> string \<Rightarrow> string" where
  "padStart n c s = replicate (n - length s) c @ s"

definition padEnd :: "nat \<Rightarrow> char \<Rightarrow> string \<Rightarrow> string" where
  "padEnd n c s = s @ replicate (n - length s) c"

definition strip_end :: "char \<Rightarrow> string \<Rightarrow> string" where
  "strip_end c s = rev (dropWhile (\<lambda>x. x = c) (rev s))"

lemmas [js_defs] = padStart_def padEnd_def strip_end_def

section \<open>The exception monad\<close>

lemma bind_res_simps [simp]:
  "bind_res (Inl e) f = Inl e"
  "bind_res (Inr x) f = f x"
  by (simp_all add: bind_res_def)

lemma bind_res_assoc: "bind_res (bind_res m f) g = bind_res m (\<lambda>x. bind_res (f x) g)"
  by (cases m) simp_all

lemma bind_res_eq_Inr: "bind_res m f = Inr y \<longleftrightarrow> (\<exists>x. m = Inr x \<and> f x = Inr y)"
  by (cases m) simp_all

lemma bind_res_eq_Inl: "bind_res m f = Inl e \<longleftrightarrow> m = Inl e \<or> (\<exists>x. m = Inr x \<and> f x = Inl e)"
  by (cases m) simp_all

lemma bind_res_cong [fundef_cong]:
  "m = n \<Longrightarrow> (\<And>x. n = Inr x \<Longrightarrow> f x = g x) \<Longrightarrow> bind_res m f = bind_res n g"
  by (cases n) simp_all

lemma assert_res_simps [simp]:
  "b \<Longrightarrow> assert_res msg b = Inr ()"
  "\<not> b \<Longrightarrow> assert_res msg b = Inl (AssertionError msg)"
  by (simp_all add: assert_res_def)

lemma is_ok_simps [simp]: "is_ok (Inr x)" "\<not> is_ok (Inl e)"
  by (simp_all add: is_ok_def)

lemma is_ok_bind: "is_ok (bind_res m f) \<longleftrightarrow> (\<exists>x. m = Inr x \<and> is_ok (f x))"
  by (cases m) simp_all

lemma map_res_Inr_all: "(\<And>x. x \<in> set xs \<Longrightarrow> f x = Inr (g x)) \<Longrightarrow> map_res f xs = Inr (map g xs)"
  by (induction xs) simp_all

lemma map_res_length: "map_res f xs = Inr ys \<Longrightarrow> length ys = length xs"
  by (induction xs arbitrary: ys) (auto simp: bind_res_eq_Inr)

lemma map_res_nth:
  "map_res f xs = Inr ys \<Longrightarrow> i < length xs \<Longrightarrow> f (xs ! i) = Inr (ys ! i)"
  by (induction xs arbitrary: ys i) (auto simp: bind_res_eq_Inr nth_Cons split: nat.splits)

section \<open>Digits\<close>

lemma of_char_digit_char: "d < 10 \<Longrightarrow> of_char (digit_char d) = 48 + d"
  by (simp add: digit_char_def)

lemma is_digit_digit_char [simp]: "d < 10 \<Longrightarrow> is_digit (digit_char d)"
  by (simp add: is_digit_def of_char_digit_char)

lemma char_digit_digit_char [simp]: "d < 10 \<Longrightarrow> char_digit (digit_char d) = d"
  by (simp add: char_digit_def of_char_digit_char)

lemma is_digit_non_digits [simp]:
  "\<not> is_digit (CHR ''.'')" "\<not> is_digit (CHR ''e'')" "\<not> is_digit (CHR ''-'')"
  "\<not> is_digit (CHR ''+'')" "\<not> is_digit (CHR '','')" "is_digit (CHR ''0'')"
  by (simp_all add: is_digit_def)

lemma char_digit_bound: "is_digit c \<Longrightarrow> char_digit c < 10"
  by (auto simp: is_digit_def char_digit_def)

lemma char_digit_0 [simp]: "char_digit (CHR ''0'') = 0"
  by (simp add: char_digit_def)

lemma digit_char_0: "digit_char 0 = CHR ''0''"
proof -
  have "char_of (of_char (CHR ''0'') :: nat) = CHR ''0''"
    by (rule char_of_char)
  then show ?thesis by (simp add: digit_char_def)
qed

lemma digit_char_eq_0_iff: "d < 10 \<Longrightarrow> digit_char d = CHR ''0'' \<longleftrightarrow> d = 0"
  by (metis char_digit_0 char_digit_digit_char digit_char_0)

lemma digit_char_char_digit: "is_digit c \<Longrightarrow> digit_char (char_digit c) = c"
  by (simp add: is_digit_def digit_char_def char_digit_def)

lemma show_nat_nonempty [simp]: "show_nat n \<noteq> []"
  by (subst show_nat.simps) simp

lemma show_nat_small: "n < 10 \<Longrightarrow> show_nat n = [digit_char n]"
  by (subst show_nat.simps) simp

lemma show_nat_big: "10 \<le> n \<Longrightarrow> show_nat n = show_nat (n div 10) @ [digit_char (n mod 10)]"
  by (subst show_nat.simps) simp

lemma show_nat_digits: "list_all is_digit (show_nat n)"
proof (induction n rule: show_nat.induct)
  case (1 n)
  then show ?case
    by (cases "n < 10") (simp_all add: show_nat_small show_nat_big)
qed

lemma show_nat_is_digit: "c \<in> set (show_nat n) \<Longrightarrow> is_digit c"
  using show_nat_digits [of n] by (simp add: list_all_iff)

lemma show_nat_no_dot [simp]: "CHR ''.'' \<notin> set (show_nat n)" "CHR ''e'' \<notin> set (show_nat n)"
  using show_nat_is_digit by fastforce+

section \<open>Reading digits\<close>

lemma parse_nat_foldl:
  "foldl (\<lambda>a c. 10 * a + char_digit c) a s = a * 10 ^ length s + parse_nat s"
proof (induction s arbitrary: a)
  case (Cons c s)
  have "parse_nat (c # s) = char_digit c * 10 ^ length s + parse_nat s"
    using Cons.IH [of "char_digit c"] by (simp add: parse_nat_def)
  then show ?case
    using Cons.IH [of "10 * a + char_digit c"] by (simp add: algebra_simps)
qed (simp add: parse_nat_def)

lemma parse_nat_Nil [simp]: "parse_nat [] = 0"
  by (simp add: parse_nat_def)

lemma parse_nat_Cons: "parse_nat (c # s) = char_digit c * 10 ^ length s + parse_nat s"
  using parse_nat_foldl [of "char_digit c" s] by (simp add: parse_nat_def)

lemma parse_nat_append: "parse_nat (s @ t) = parse_nat s * 10 ^ length t + parse_nat t"
  using parse_nat_foldl [of "parse_nat s" t] by (simp add: parse_nat_def)

lemma parse_nat_zeros [simp]: "parse_nat (replicate k (CHR ''0'')) = 0"
  by (induction k) (simp_all add: parse_nat_Cons)

lemma parse_nat_pad_start [simp]: "parse_nat (padStart n (CHR ''0'') s) = parse_nat s"
  by (simp add: padStart_def parse_nat_append)

lemma parse_nat_append_zeros:
  "parse_nat (s @ replicate k (CHR ''0'')) = parse_nat s * 10 ^ k"
  by (simp add: parse_nat_append)

lemma parse_nat_bound: "list_all is_digit s \<Longrightarrow> parse_nat s < 10 ^ length s"
proof (induction s)
  case (Cons c s)
  have "char_digit c * 10 ^ length s \<le> 9 * 10 ^ length s"
    using Cons.prems char_digit_bound [of c] by simp
  moreover have "parse_nat s < 10 ^ length s"
    using Cons by simp
  ultimately have "char_digit c * 10 ^ length s + parse_nat s < 9 * 10 ^ length s + 10 ^ length s"
    by (rule add_le_less_mono)
  then show ?case by (simp add: parse_nat_Cons)
qed simp

lemma parse_show_nat [simp]: "parse_nat (show_nat n) = n"
proof (induction n rule: show_nat.induct)
  case (1 n)
  then show ?case
    by (cases "n < 10") (simp_all add: show_nat_small show_nat_big parse_nat_append parse_nat_Cons)
qed

lemma show_nat_length_le: "n < 10 ^ k \<Longrightarrow> 0 < k \<Longrightarrow> length (show_nat n) \<le> k"
proof (induction n arbitrary: k rule: show_nat.induct)
  case (1 n)
  show ?case
  proof (cases "n < 10")
    case True
    then show ?thesis using "1.prems" by (simp add: show_nat_small)
  next
    case False
    then obtain j where k: "k = Suc j" and j: "0 < j"
      using "1.prems" by (cases k; cases "k = 1") auto
    have "n div 10 < 10 ^ j"
      using "1.prems" k by (simp add: less_mult_imp_div_less)
    then have "length (show_nat (n div 10)) \<le> j"
      using "1.IH" [of j] False j by simp
    then show ?thesis using False k by (simp add: show_nat_big)
  qed
qed

lemma length_padStart: "length s \<le> n \<Longrightarrow> length (padStart n c s) = n"
  by (simp add: padStart_def)

lemma padStart_digits:
  "list_all is_digit s \<Longrightarrow> list_all is_digit (padStart n (CHR ''0'') s)"
  by (auto simp: padStart_def list_all_iff)

lemma strip_end_append:
  "\<exists>k. s = strip_end c s @ replicate k c"
proof -
  have "s = rev (dropWhile (\<lambda>x. x = c) (rev s)) @ rev (takeWhile (\<lambda>x. x = c) (rev s))"
    by (metis rev_append rev_rev_ident takeWhile_dropWhile_id)
  moreover have "takeWhile (\<lambda>x. x = c) (rev s)
      = replicate (length (takeWhile (\<lambda>x. x = c) (rev s))) c"
    by (intro replicate_length_same [symmetric]) (auto dest: set_takeWhileD)
  ultimately show ?thesis
    unfolding strip_end_def by (metis rev_replicate)
qed

lemma strip_end_last: "strip_end c s \<noteq> [] \<Longrightarrow> last (strip_end c s) \<noteq> c"
  using hd_dropWhile [of "\<lambda>x. x = c" "rev s"] by (simp add: strip_end_def last_rev)

section \<open>Splitting\<close>

lemma split_on_nonempty [simp]: "split_on c s \<noteq> []"
  by (induction s) (auto split: list.splits)

lemma split_on_notin: "c \<notin> set s \<Longrightarrow> split_on c s = [s]"
  by (induction s) auto

lemma split_on_append: "c \<notin> set s \<Longrightarrow> split_on c (s @ c # t) = s # split_on c t"
  by (induction s) auto

lemma split_on_two:
  "c \<notin> set s \<Longrightarrow> c \<notin> set t \<Longrightarrow> split_on c (s @ c # t) = [s, t]"
  by (simp add: split_on_append split_on_notin)

lemma split_on_first: "split_on c s ! 0 = takeWhile (\<lambda>x. x \<noteq> c) s"
proof (induction s)
  case (Cons x xs)
  then show ?case by (cases "split_on c xs") auto
qed simp

lemma length_split_on_first: "c \<in> set s \<Longrightarrow> length (split_on c s ! 0) < length s"
  unfolding split_on_first by (induction s) auto

section \<open>Truncating division\<close>

lemma div_mult_le_nat: "(a::nat) div b * b \<le> a"
  by simp

lemma less_div_mult_add: "0 < b \<Longrightarrow> (a::nat) < (a div b + 1) * b"
  using dividend_less_div_times [of b a] by (simp add: algebra_simps)

lemma div_add_le:
  assumes "0 < (c::nat)"
  shows "a div c + b div c \<le> (a + b) div c"
proof -
  have "(a div c + b div c) * c \<le> a + b"
    using div_mult_le_nat [of a c] div_mult_le_nat [of b c] by (simp add: distrib_right add_mono)
  with assms show ?thesis by (simp add: less_eq_div_iff_mult_less_eq)
qed

lemma ceil_div_bounds:
  assumes "0 < (b::nat)"
  shows "a \<le> (a + (b - 1)) div b * b" and "(a + (b - 1)) div b * b \<le> a + (b - 1)"
proof -
  have "a + (b - 1) < ((a + (b - 1)) div b + 1) * b"
    using assms by (rule less_div_mult_add)
  then show "a \<le> (a + (b - 1)) div b * b"
    using assms by (simp add: algebra_simps)
qed simp

lemma int_div_nonneg_nat: "int a div int b = int (a div b)"
  by (simp add: zdiv_int)

end
