(* ===== verification/Decimal.thy ===== *)
theory Decimal
  imports Prelude "HOL-Library.Word"
begin

text \<open>
  The fixed-point number class of \<^verbatim>\<open>packages/lib-base/src/Decimal.ts\<close>: \<open>Decimal\<close>, \<open>Difference\<close>
  and \<open>Percent\<close>. A \<open>BigNumber\<close> is the integer it stands for. The class keeps a non-negative
  \<open>BigNumber\<close> (its constructor throws on a negative one), so the datatype holds a \<open>nat\<close> and
  the constructor \<open>new_Decimal\<close> takes the integer. A JavaScript number that is only converted by
  \<open>toString()\<close> is given by the string that conversion yields; the exponent of \<open>pow\<close> is either an
  integer or not one. The only character of the source outside ASCII, the infinity sign, is one
  list element (\<open>infinity_sign\<close>), as it is one UTF-16 code unit.
\<close>

unbundle bit_operations_syntax

section \<open>Representation\<close>

definition PRECISION :: nat where
  "PRECISION = 18"

definition getDigits :: "nat \<Rightarrow> nat" where
  "getDigits numDigits = 10 ^ numDigits"

definition DIGITS :: nat where
  "DIGITS = getDigits PRECISION"

definition MAX_UINT_256 :: nat where
  "MAX_UINT_256 = 0xffffffffffffffffffffffffffffffffffffffffffffffffffffffffffffffff"

definition magnitudes :: "string list" where
  "magnitudes = [[], ''K'', ''M'', ''B'', ''T'']"

datatype decimal = Decimal (bigNumber: nat)

datatype decimalish =
    DecimalV decimal   \<comment> \<open>an instance of \<open>Decimal\<close>\<close>
  | NumberV string     \<comment> \<open>a number, by its \<open>toString()\<close>\<close>
  | StringV string
  | OtherV             \<comment> \<open>any other value\<close>

datatype js_number = Integral int | NonIntegral

definition new_Decimal :: "int \<Rightarrow> decimal res" where
  "new_Decimal b =
     (if b < 0 then Inl (Error ''negatives not supported by Decimal'')
      else Inr (Decimal (nat b)))"

definition fromBigNumberString :: "int \<Rightarrow> decimal res" where
  "fromBigNumberString bigNumberString = new_Decimal bigNumberString"

definition INFINITY :: decimal where
  "INFINITY = Decimal MAX_UINT_256"

definition ZERO :: decimal where
  "ZERO = Decimal 0"

definition HALF :: decimal where
  "HALF = Decimal (5 * 10 ^ 17)"

definition ONE :: decimal where
  "ONE = Decimal (10 ^ 18)"

section \<open>Reading\<close>

text \<open>\<open>stringRepresentationFormat\<close>: the greedy matcher of
  \<^verbatim>\<open>^[0-9]*(\.[0-9]*)?(e[-+]?[0-9]+)?$\<close>.\<close>

definition skip_sign :: "string \<Rightarrow> string" where
  "skip_sign s =
     (case s of [] \<Rightarrow> [] | c # t \<Rightarrow> if c = CHR ''-'' \<or> c = CHR ''+'' then t else s)"

definition matches_exponent :: "string \<Rightarrow> bool" where
  "matches_exponent s =
     (case s of
        [] \<Rightarrow> True
      | c # t \<Rightarrow> c = CHR ''e'' \<and> skip_sign t \<noteq> [] \<and> list_all is_digit (skip_sign t))"

definition matches_format :: "string \<Rightarrow> bool" where
  "matches_format s =
     (let r = dropWhile is_digit s in
      matches_exponent
        (case r of
           [] \<Rightarrow> []
         | c # t \<Rightarrow> if c = CHR ''.'' then dropWhile is_digit t else r))"

definition bad_format :: "string \<Rightarrow> js_error" where
  "bad_format repr =
     Error (''bad decimal format: '' @ [CHR 0x22] @ repr @ [CHR 0x22])"

text \<open>\<open>mantissa += "0".repeat(...)\<close> or \<open>mantissa.substr(0, PRECISION)\<close>.\<close>

definition fit_mantissa :: "string \<Rightarrow> string" where
  "fit_mantissa mantissa =
     (if length mantissa < PRECISION
      then mantissa @ replicate (PRECISION - length mantissa) (CHR ''0'')
      else take PRECISION mantissa)"

function Decimal_fromString :: "string \<Rightarrow> decimal res" where
  "Decimal_fromString repr =
     (if repr = [] \<or> \<not> matches_format repr
      then Inl (bad_format repr)
      else if CHR ''e'' \<in> set repr then
        (let parts = split_on (CHR ''e'') repr;
             coefficient = parts ! 0;
             exponent = parts ! 1
         in if take 1 exponent = ''-''
            then bind_res (Decimal_fromString coefficient)
                   (\<lambda>d. new_Decimal (int (bigNumber d) div 10 ^ parse_nat (drop 1 exponent)))
            else bind_res (Decimal_fromString coefficient)
                   (\<lambda>d. new_Decimal (int (bigNumber d) * 10 ^ parse_nat
                      (if take 1 exponent = ''+'' then drop 1 exponent else exponent))))
      else if CHR ''.'' \<notin> set repr
      then new_Decimal (int (parse_nat repr) * int DIGITS)
      else
        (let parts = split_on (CHR ''.'') repr;
             characteristic = parts ! 0;
             mantissa = parts ! 1
         in new_Decimal (int (parse_nat characteristic) * int DIGITS
              + int (parse_nat (fit_mantissa mantissa)))))"
  by pat_completeness auto
termination
  by (relation "measure length") (auto simp: length_split_on_first simp del: One_nat_def)

declare Decimal_fromString.simps [simp del]

fun Decimal_from :: "decimalish \<Rightarrow> decimal res" where
  "Decimal_from (DecimalV d) = Inr d"
| "Decimal_from (StringV s) = Decimal_fromString s"
| "Decimal_from (NumberV s) = Decimal_fromString s"
| "Decimal_from OtherV = Inl (Error ''invalid Decimalish value'')"

section \<open>Arithmetic\<close>

definition Decimal_isZero :: "decimal \<Rightarrow> bool" where
  "Decimal_isZero d \<longleftrightarrow> bigNumber d = 0"

definition Decimal_zero :: "decimal \<Rightarrow> decimal option" where
  "Decimal_zero d = (if Decimal_isZero d then Some d else None)"

definition Decimal_nonZero :: "decimal \<Rightarrow> decimal option" where
  "Decimal_nonZero d = (if \<not> Decimal_isZero d then Some d else None)"

definition Decimal_infinite :: "decimal \<Rightarrow> decimal option" where
  "Decimal_infinite d = (if bigNumber d = bigNumber INFINITY then Some d else None)"

definition Decimal_finite :: "decimal \<Rightarrow> decimal option" where
  "Decimal_finite d = (if bigNumber d \<noteq> bigNumber INFINITY then Some d else None)"

definition Decimal_absoluteValue :: "decimal \<Rightarrow> decimal" where
  "Decimal_absoluteValue d = d"

definition Decimal_add :: "decimal \<Rightarrow> decimalish \<Rightarrow> decimal res" where
  "Decimal_add d addend = bind_res (Decimal_from addend)
     (\<lambda>a. new_Decimal (int (bigNumber d) + int (bigNumber a)))"

definition Decimal_sub :: "decimal \<Rightarrow> decimalish \<Rightarrow> decimal res" where
  "Decimal_sub d subtrahend = bind_res (Decimal_from subtrahend)
     (\<lambda>s. new_Decimal (int (bigNumber d) - int (bigNumber s)))"

definition Decimal_mul :: "decimal \<Rightarrow> decimalish \<Rightarrow> decimal res" where
  "Decimal_mul d multiplier = bind_res (Decimal_from multiplier)
     (\<lambda>m. new_Decimal (int (bigNumber d) * int (bigNumber m) div int DIGITS))"

definition Decimal_div :: "decimal \<Rightarrow> decimalish \<Rightarrow> decimal res" where
  "Decimal_div d divider = bind_res (Decimal_from divider)
     (\<lambda>v. if Decimal_isZero v then Inr INFINITY
          else new_Decimal (int (bigNumber d) * int DIGITS div int (bigNumber v)))"

definition Decimal_divCeil :: "decimal \<Rightarrow> decimalish \<Rightarrow> decimal res" where
  "Decimal_divCeil d divider = bind_res (Decimal_from divider)
     (\<lambda>v. if Decimal_isZero v then Inr INFINITY
          else new_Decimal ((int (bigNumber d) * int DIGITS + (int (bigNumber v) - 1))
                 div int (bigNumber v)))"

definition Decimal_mulDiv :: "decimal \<Rightarrow> decimalish \<Rightarrow> decimalish \<Rightarrow> decimal res" where
  "Decimal_mulDiv d multiplier divider = bind_res (Decimal_from multiplier)
     (\<lambda>m. bind_res (Decimal_from divider)
       (\<lambda>v. if Decimal_isZero v then Inr INFINITY
            else new_Decimal (int (bigNumber d) * int (bigNumber m) div int (bigNumber v))))"

definition roundedMul :: "nat \<Rightarrow> nat \<Rightarrow> nat" where
  "roundedMul x y = (x * y + bigNumber HALF) div DIGITS"

text \<open>The loop of \<open>pow\<close>: the exponent is an unsigned 32-bit value, halved by \<open>>>>= 1\<close>.\<close>

function pow_loop :: "32 word \<Rightarrow> nat \<Rightarrow> nat \<Rightarrow> nat \<times> nat" where
  "pow_loop exponent x y =
     (if 1 < exponent
      then pow_loop (drop_bit 1 exponent) (roundedMul x x)
             (if exponent AND 1 \<noteq> 0 then roundedMul x y else y)
      else (x, y))"
  by pat_completeness auto
termination
  by (relation "measure (\<lambda>(e, x, y). unat e)")
     (auto simp: drop_bit_eq_div unat_div word_less_nat_alt)

declare pow_loop.simps [simp del]

definition Decimal_pow :: "decimal \<Rightarrow> js_number \<Rightarrow> decimal res" where
  "Decimal_pow d exponent =
     (case exponent of
        NonIntegral \<Rightarrow> Inl (AssertionError ''Number.isInteger(exponent)'')
      | Integral e \<Rightarrow>
          if \<not> (0 \<le> e \<and> e \<le> 0xffffffff)
          then Inl (AssertionError ''0 <= exponent && exponent <= 0xffffffff'')
          else if e = 0 then Inr ONE
          else if e = 1 then Inr d
          else (case pow_loop (of_int e) (bigNumber d) DIGITS of
                  (x, y) \<Rightarrow> new_Decimal (int (roundedMul x y))))"

definition Decimal_lt :: "decimal \<Rightarrow> decimalish \<Rightarrow> bool res" where
  "Decimal_lt d that = bind_res (Decimal_from that) (\<lambda>t. Inr (bigNumber d < bigNumber t))"

definition Decimal_eq :: "decimal \<Rightarrow> decimalish \<Rightarrow> bool res" where
  "Decimal_eq d that = bind_res (Decimal_from that) (\<lambda>t. Inr (bigNumber d = bigNumber t))"

definition Decimal_gt :: "decimal \<Rightarrow> decimalish \<Rightarrow> bool res" where
  "Decimal_gt d that = bind_res (Decimal_from that) (\<lambda>t. Inr (bigNumber d > bigNumber t))"

definition Decimal_gte :: "decimal \<Rightarrow> decimalish \<Rightarrow> bool res" where
  "Decimal_gte d that = bind_res (Decimal_from that) (\<lambda>t. Inr (bigNumber d \<ge> bigNumber t))"

definition Decimal_lte :: "decimal \<Rightarrow> decimalish \<Rightarrow> bool res" where
  "Decimal_lte d that = bind_res (Decimal_from that) (\<lambda>t. Inr (bigNumber d \<le> bigNumber t))"

definition Decimal_min :: "decimalish \<Rightarrow> decimalish \<Rightarrow> decimal res" where
  "Decimal_min a b = bind_res (Decimal_from a) (\<lambda>a. bind_res (Decimal_from b)
     (\<lambda>b. bind_res (Decimal_lt a (DecimalV b)) (\<lambda>c. Inr (if c then a else b))))"

definition Decimal_max :: "decimalish \<Rightarrow> decimalish \<Rightarrow> decimal res" where
  "Decimal_max a b = bind_res (Decimal_from a) (\<lambda>a. bind_res (Decimal_from b)
     (\<lambda>b. bind_res (Decimal_gt a (DecimalV b)) (\<lambda>c. Inr (if c then a else b))))"

section \<open>Printing\<close>

definition infinity_sign :: string where
  "infinity_sign = [CHR 0xEC]"

definition toStringWithAutomaticPrecision :: "decimal \<Rightarrow> string" where
  "toStringWithAutomaticPrecision d =
     (let characteristic = bigNumber d div DIGITS;
          mantissa = bigNumber d mod DIGITS
      in if mantissa = 0 then show_nat characteristic
         else (let paddedMantissa = padStart PRECISION (CHR ''0'') (show_nat mantissa);
                   trimmedMantissa = strip_end (CHR ''0'') paddedMantissa
               in show_nat characteristic @ ''.'' @ trimmedMantissa))"

definition roundUp :: "decimal \<Rightarrow> nat \<Rightarrow> nat" where
  "roundUp d precision = bigNumber d + getDigits (PRECISION - 1 - precision) * 5"

definition toStringWithPrecision :: "decimal \<Rightarrow> int \<Rightarrow> string res" where
  "toStringWithPrecision d precision =
     (if precision < 0 then Inl (Error ''precision must not be negative'')
      else
        (let p = nat precision;
             val = (if p < PRECISION then roundUp d p else bigNumber d);
             characteristic = val div DIGITS;
             mantissa = val mod DIGITS
         in Inr (if p = 0 then show_nat characteristic
              else (let paddedMantissa = padStart PRECISION (CHR ''0'') (show_nat mantissa);
                        trimmedMantissa = take p paddedMantissa
                    in show_nat characteristic @ ''.'' @ trimmedMantissa))))"

definition Decimal_toString :: "decimal \<Rightarrow> int option \<Rightarrow> string res" where
  "Decimal_toString d precision =
     (if Decimal_infinite d \<noteq> None then Inr infinity_sign
      else (case precision of
              Some p \<Rightarrow> toStringWithPrecision d p
            | None \<Rightarrow> Inr (toStringWithAutomaticPrecision d)))"

text \<open>\<^verbatim>\<open>replace(/(\d)(?=(\d{3})+(?!\d))/g, "$1,")\<close>: a digit gets a comma when the run of digits
  after it has a positive length divisible by three.\<close>

fun add_commas :: "string \<Rightarrow> string" where
  "add_commas [] = []"
| "add_commas (c # cs) =
     (let n = length (takeWhile is_digit cs)
      in if is_digit c \<and> 0 < n \<and> n mod 3 = 0 then c # CHR '','' # add_commas cs
         else c # add_commas cs)"

definition Decimal_prettify :: "decimal \<Rightarrow> int \<Rightarrow> string res" where
  "Decimal_prettify d precision = bind_res (Decimal_toString d (Some precision))
     (\<lambda>s. let parts = split_on (CHR ''.'') s;
              prettyCharacteristic = add_commas (parts ! 0)
          in Inr (if 1 < length parts then prettyCharacteristic @ ''.'' @ parts ! 1
                  else prettyCharacteristic))"

definition Decimal_shorten :: "decimal \<Rightarrow> string res" where
  "Decimal_shorten d = bind_res (Decimal_toString d (Some 0))
     (\<lambda>s. let characteristicLength = int (length s);
              magnitude = min ((characteristicLength - 1) div 3) (int (length magnitudes) - 1);
              precision = max (3 * (magnitude + 1) - characteristicLength) 0
          in bind_res (new_Decimal (int (getDigits (PRECISION + 3 * nat magnitude))))
               (\<lambda>scale. bind_res (Decimal_div d (DecimalV scale))
                 (\<lambda>normalized. bind_res (Decimal_prettify normalized precision)
                   (\<lambda>p. Inr (p @ magnitudes ! nat magnitude)))))"

section \<open>Difference\<close>

datatype sign = NoSign | Plus | Minus

fun show_sign :: "sign \<Rightarrow> string" where
  "show_sign NoSign = []"
| "show_sign Plus = ''+''"
| "show_sign Minus = ''-''"

record difference_repr =
  sign :: sign
  absoluteValue :: decimal

type_synonym difference = "difference_repr option"

definition Difference_of :: "decimal \<Rightarrow> decimal \<Rightarrow> difference res" where
  "Difference_of d1 d2 =
     (if Decimal_infinite d1 \<noteq> None \<and> Decimal_infinite d2 \<noteq> None then Inr None
      else if Decimal_infinite d1 \<noteq> None then Inr (Some \<lparr>sign = Plus, absoluteValue = d1\<rparr>)
      else if Decimal_infinite d2 \<noteq> None then Inr (Some \<lparr>sign = Minus, absoluteValue = d2\<rparr>)
      else bind_res (Decimal_gt d1 (DecimalV d2)) (\<lambda>g12.
        if g12 then bind_res (Decimal_sub d1 (DecimalV d2))
                      (\<lambda>a. Inr (Some \<lparr>sign = Plus, absoluteValue = a\<rparr>))
        else bind_res (Decimal_gt d2 (DecimalV d1)) (\<lambda>g21.
          if g21 then bind_res (Decimal_sub d2 (DecimalV d1))
                        (\<lambda>a. Inr (Some \<lparr>sign = Minus, absoluteValue = a\<rparr>))
          else Inr (Some \<lparr>sign = NoSign, absoluteValue = ZERO\<rparr>))))"

definition Difference_between ::
  "decimalish option \<Rightarrow> decimalish option \<Rightarrow> difference res" where
  "Difference_between d1 d2 =
     (case (d1, d2) of
        (Some d1, Some d2) \<Rightarrow> bind_res (Decimal_from d1)
          (\<lambda>d1. bind_res (Decimal_from d2) (\<lambda>d2. Difference_of d1 d2))
      | _ \<Rightarrow> Inr None)"

definition Difference_toString :: "difference \<Rightarrow> int option \<Rightarrow> string res" where
  "Difference_toString x precision =
     (case x of
        None \<Rightarrow> Inr ''N/A''
      | Some n \<Rightarrow> bind_res (Decimal_toString (absoluteValue n) precision)
                   (\<lambda>s. Inr (show_sign (sign n) @ s)))"

definition Difference_prettify :: "difference \<Rightarrow> int option \<Rightarrow> string res" where
  "Difference_prettify x precision =
     (case x of
        None \<Rightarrow> Difference_toString x None
      | Some n \<Rightarrow>
          bind_res (Decimal_prettify (absoluteValue n)
                      (case precision of None \<Rightarrow> 2 | Some p \<Rightarrow> p))
            (\<lambda>s. Inr (show_sign (sign n) @ s)))"

definition Difference_mul :: "difference \<Rightarrow> decimalish \<Rightarrow> difference res" where
  "Difference_mul x multiplier =
     (case x of
        None \<Rightarrow> Inr None
      | Some n \<Rightarrow> bind_res (Decimal_mul (absoluteValue n) multiplier)
                   (\<lambda>a. Inr (Some \<lparr>sign = sign n, absoluteValue = a\<rparr>)))"

definition Difference_nonZero :: "difference \<Rightarrow> difference option" where
  "Difference_nonZero x =
     (case x of Some n \<Rightarrow> if Decimal_nonZero (absoluteValue n) \<noteq> None then Some x else None
              | None \<Rightarrow> None)"

definition Difference_positive :: "difference \<Rightarrow> difference option" where
  "Difference_positive x =
     (case x of Some n \<Rightarrow> if sign n = Plus then Some x else None | None \<Rightarrow> None)"

definition Difference_negative :: "difference \<Rightarrow> difference option" where
  "Difference_negative x =
     (case x of Some n \<Rightarrow> if sign n = Minus then Some x else None | None \<Rightarrow> None)"

definition Difference_absoluteValue :: "difference \<Rightarrow> decimal option" where
  "Difference_absoluteValue x = map_option absoluteValue x"

definition Difference_infinite :: "difference \<Rightarrow> difference option" where
  "Difference_infinite x =
     (case x of Some n \<Rightarrow> if Decimal_infinite (absoluteValue n) \<noteq> None then Some x else None
              | None \<Rightarrow> None)"

definition Difference_finite :: "difference \<Rightarrow> difference option" where
  "Difference_finite x =
     (case x of Some n \<Rightarrow> if Decimal_finite (absoluteValue n) \<noteq> None then Some x else None
              | None \<Rightarrow> None)"

section \<open>Percent\<close>

text \<open>The members of the type parameter \<open>T\<close> of \<open>Percent<T, A>\<close>; \<open>mul\<close> is optional there.\<close>

record 'a percentable =
  pt_infinite :: "'a \<Rightarrow> 'a option"
  pt_absoluteValue :: "'a \<Rightarrow> decimal option"
  pt_mul :: "('a \<Rightarrow> decimalish \<Rightarrow> 'a res) option"
  pt_toString :: "'a \<Rightarrow> int option \<Rightarrow> string res"

definition decimal_percentable :: "decimal percentable" where
  "decimal_percentable =
     \<lparr>pt_infinite = Decimal_infinite, pt_absoluteValue = (\<lambda>d. Some (Decimal_absoluteValue d)),
      pt_mul = Some Decimal_mul, pt_toString = Decimal_toString\<rparr>"

definition difference_percentable :: "difference percentable" where
  "difference_percentable =
     \<lparr>pt_infinite = Difference_infinite, pt_absoluteValue = Difference_absoluteValue,
      pt_mul = Some Difference_mul, pt_toString = Difference_toString\<rparr>"

definition Percent_new :: "'a percentable \<Rightarrow> 'a \<Rightarrow> 'a res" where
  "Percent_new T ratio =
     (case pt_infinite T ratio of
        Some r \<Rightarrow> Inr r
      | None \<Rightarrow> (case pt_mul T of Some m \<Rightarrow> m ratio (NumberV ''100'') | None \<Rightarrow> Inr ratio))"

definition abs_gte :: "'a percentable \<Rightarrow> 'a \<Rightarrow> string \<Rightarrow> bool res" where
  "abs_gte T percent n =
     (case pt_absoluteValue T percent of
        None \<Rightarrow> Inr False
      | Some a \<Rightarrow> Decimal_gte a (StringV n))"

definition Percent_nonZeroish :: "'a percentable \<Rightarrow> 'a \<Rightarrow> nat \<Rightarrow> 'a option res" where
  "Percent_nonZeroish T percent precision =
     (let zeroish = ''0.'' @ replicate precision (CHR ''0'') @ ''5''
      in bind_res (abs_gte T percent zeroish)
           (\<lambda>g. Inr (if g then Some percent else None)))"

definition Percent_toString :: "'a percentable \<Rightarrow> 'a \<Rightarrow> int \<Rightarrow> string res" where
  "Percent_toString T percent precision = bind_res (pt_toString T percent (Some precision))
     (\<lambda>s. Inr (s @ (if pt_absoluteValue T percent \<noteq> None \<and> pt_infinite T percent = None
                    then ''%'' else [])))"

definition Percent_prettify :: "'a percentable \<Rightarrow> 'a \<Rightarrow> string res" where
  "Percent_prettify T percent =
     bind_res (abs_gte T percent ''1000'') (\<lambda>g1000.
       if g1000 then Percent_toString T percent 0
       else bind_res (abs_gte T percent ''10'') (\<lambda>g10.
         if g10 then Percent_toString T percent 1 else Percent_toString T percent 2))"

section \<open>Decimals as an ordered monoid\<close>

text \<open>The order and the sum of decimals are those of their representations; \<open>-\<close> stops at zero and
  \<open>*\<close> truncates, as \<open>sub\<close> (where it does not throw) and \<open>mul\<close> do.\<close>

instantiation decimal :: linorder
begin

definition less_eq_decimal_def: "a \<le> b \<longleftrightarrow> bigNumber a \<le> bigNumber b"

definition less_decimal_def: "a < b \<longleftrightarrow> bigNumber a < bigNumber b"

instance
  by standard (auto simp: less_eq_decimal_def less_decimal_def decimal.expand)

end

instantiation decimal :: "{comm_monoid_add, minus, times}"
begin

definition zero_decimal_def: "0 = Decimal 0"

definition plus_decimal_def: "a + b = Decimal (bigNumber a + bigNumber b)"

definition minus_decimal_def: "a - b = Decimal (bigNumber a - bigNumber b)"

definition times_decimal_def: "a * b = Decimal (bigNumber a * bigNumber b div DIGITS)"

instance
  by standard (simp_all add: plus_decimal_def zero_decimal_def)

end

lemma bigNumber_simps [simp]:
  "bigNumber 0 = 0"
  "bigNumber (a + b) = bigNumber a + bigNumber b"
  "bigNumber (a - b) = bigNumber a - bigNumber b"
  "bigNumber (a * b) = bigNumber a * bigNumber b div DIGITS"
  by (simp_all add: zero_decimal_def plus_decimal_def minus_decimal_def times_decimal_def)

lemma decimal_eq_iff: "a = b \<longleftrightarrow> bigNumber a = bigNumber b"
  by (cases a; cases b) simp

lemmas decimal_order = less_eq_decimal_def less_decimal_def decimal_eq_iff

lemma decimal_pos_iff: "0 < (d::decimal) \<longleftrightarrow> d \<noteq> 0"
  by (auto simp: decimal_order)

lemma ZERO_eq [simp]: "ZERO = 0"
  by (simp add: ZERO_def zero_decimal_def)

lemma DIGITS_eq: "DIGITS = 1000000000000000000"
  by (simp add: DIGITS_def getDigits_def PRECISION_def)

lemma DIGITS_pos [simp]: "0 < DIGITS" "DIGITS \<noteq> 0"
  by (simp_all add: DIGITS_eq)

lemma bigNumber_ONE [simp]: "bigNumber ONE = DIGITS"
  by (simp add: ONE_def DIGITS_eq)

lemma bigNumber_HALF: "bigNumber HALF = DIGITS div 2"
  by (simp add: HALF_def DIGITS_eq)

lemma decimal_mult_mono:
  fixes a b c d :: decimal
  assumes "a \<le> c" and "b \<le> d"
  shows "a * b \<le> c * d"
  using assms by (simp add: decimal_order div_le_mono mult_le_mono)

lemma decimal_mult_ONE [simp]: "a * ONE = a" "ONE * a = a"
  by (simp_all add: decimal_eq_iff)

lemma decimal_mult_0 [simp]: "a * (0::decimal) = 0" "(0::decimal) * a = 0"
  by (simp_all add: decimal_eq_iff)

lemma decimal_add_diff_inverse: "b \<le> a \<Longrightarrow> b + (a - b) = (a::decimal)"
  by (simp add: decimal_order)

section \<open>Closed forms of the methods on Decimal arguments\<close>

lemma new_Decimal_int [simp]: "new_Decimal (int n) = Inr (Decimal n)"
  by (simp add: new_Decimal_def)

lemma isZero_iff [simp]: "Decimal_isZero d \<longleftrightarrow> d = 0"
  by (simp add: Decimal_isZero_def decimal_eq_iff)

lemma zero_getters [dec_simps]:
  "Decimal_zero d = (if d = 0 then Some d else None)"
  "Decimal_nonZero d = (if d \<noteq> 0 then Some d else None)"
  by (simp_all add: Decimal_zero_def Decimal_nonZero_def)

lemma infinite_iff [simp]:
  "Decimal_infinite d = None \<longleftrightarrow> d \<noteq> INFINITY"
  "Decimal_finite d = None \<longleftrightarrow> d = INFINITY"
  by (auto simp: Decimal_infinite_def Decimal_finite_def decimal_eq_iff)

lemma Decimal_add_simp [dec_simps]: "Decimal_add d (DecimalV e) = Inr (d + e)"
  by (simp add: Decimal_add_def new_Decimal_def plus_decimal_def nat_add_distrib)

lemma Decimal_sub_simp [dec_simps]:
  "Decimal_sub d (DecimalV e) =
     (if e \<le> d then Inr (d - e) else Inl (Error ''negatives not supported by Decimal''))"
  by (simp add: Decimal_sub_def new_Decimal_def minus_decimal_def less_eq_decimal_def
      nat_diff_distrib)

lemma int_mul_div: "int a * int b div int c = int (a * b div c)"
  by (simp add: zdiv_int)

lemma Decimal_mul_simp [dec_simps]: "Decimal_mul d (DecimalV e) = Inr (d * e)"
  by (simp add: Decimal_mul_def int_mul_div times_decimal_def)

lemma Decimal_div_simp [dec_simps]:
  "Decimal_div d (DecimalV e) =
     Inr (if e = 0 then INFINITY else Decimal (bigNumber d * DIGITS div bigNumber e))"
  by (simp add: Decimal_div_def int_mul_div)

lemma Decimal_divCeil_simp [dec_simps]:
  "Decimal_divCeil d (DecimalV e) =
     Inr (if e = 0 then INFINITY
          else Decimal ((bigNumber d * DIGITS + (bigNumber e - 1)) div bigNumber e))"
proof (cases "e = 0")
  case False
  then have "int (bigNumber e) - 1 = int (bigNumber e - 1)"
    by (simp add: decimal_eq_iff of_nat_diff)
  then have "(int (bigNumber d) * int DIGITS + (int (bigNumber e) - 1)) div int (bigNumber e)
      = int ((bigNumber d * DIGITS + (bigNumber e - 1)) div bigNumber e)"
    by (metis of_nat_add of_nat_mult zdiv_int)
  with False show ?thesis by (simp add: Decimal_divCeil_def)
qed (simp add: Decimal_divCeil_def)

lemma Decimal_mulDiv_simp [dec_simps]:
  "Decimal_mulDiv d (DecimalV m) (DecimalV e) =
     Inr (if e = 0 then INFINITY else Decimal (bigNumber d * bigNumber m div bigNumber e))"
  by (simp add: Decimal_mulDiv_def int_mul_div)

lemma Decimal_compare_simps [dec_simps]:
  "Decimal_lt d (DecimalV e) = Inr (d < e)"
  "Decimal_eq d (DecimalV e) = Inr (d = e)"
  "Decimal_gt d (DecimalV e) = Inr (e < d)"
  "Decimal_gte d (DecimalV e) = Inr (e \<le> d)"
  "Decimal_lte d (DecimalV e) = Inr (d \<le> e)"
  by (simp_all add: Decimal_lt_def Decimal_eq_def Decimal_gt_def Decimal_gte_def Decimal_lte_def
      decimal_order)

lemma Decimal_min_simp [dec_simps]: "Decimal_min (DecimalV a) (DecimalV b) = Inr (min a b)"
  by (auto simp: Decimal_min_def dec_simps min_def)

lemma Decimal_max_simp [dec_simps]: "Decimal_max (DecimalV a) (DecimalV b) = Inr (max a b)"
  by (auto simp: Decimal_max_def dec_simps max_def)

end
