(* ===== verification/Decimal_Arith.thy ===== *)
theory Decimal_Arith
  imports Decimal
begin

text \<open>
  Accuracy of the arithmetic of \<open>Decimal\<close>: the truncation of \<open>mul\<close>, \<open>div\<close> and \<open>_divCeil\<close>, the
  rounding error of the square-and-multiply loop of \<open>pow\<close>, and the \<open>Difference\<close> of two decimals.
\<close>

section \<open>Rounded powers\<close>

text \<open>\<open>approx t x k\<close>: \<open>x\<close> is at most one and is \<open>t ^ k\<close> in fixed-point representation, up to half
  a unit in the last place for every multiplication after the first.\<close>

definition approx :: "real \<Rightarrow> nat \<Rightarrow> nat \<Rightarrow> bool" where
  "approx t x k \<longleftrightarrow> x \<le> DIGITS \<and> \<bar>real x - t ^ k * real DIGITS\<bar> \<le> real (k - 1) / 2"

lemma roundedMul_error: "\<bar>real (roundedMul x y) - real x * real y / real DIGITS\<bar> \<le> 1 / 2"
proof -
  let ?n = "x * y + DIGITS div 2"
  have half: "real (DIGITS div 2) = real DIGITS / 2"
    by (simp add: DIGITS_eq)
  have "real (?n div DIGITS) \<le> real ?n / real DIGITS"
    by (rule of_nat_div_le_of_nat)
  then have upper: "real (roundedMul x y) \<le> real x * real y / real DIGITS + 1 / 2"
    by (simp add: roundedMul_def bigNumber_HALF half add_divide_distrib)
  have "?n < (?n div DIGITS + 1) * DIGITS"
    by (rule less_div_mult_add) simp
  then have "?n \<le> ?n div DIGITS * DIGITS + DIGITS - 1"
    by (simp add: algebra_simps)
  then have "?n \<le> roundedMul x y * DIGITS + DIGITS"
    by (simp add: roundedMul_def bigNumber_HALF)
  then have "real ?n \<le> (real (roundedMul x y) + 1) * real DIGITS"
    by (simp add: algebra_simps flip: of_nat_mult of_nat_add)
  then have "real x * real y + real DIGITS / 2 \<le> (real (roundedMul x y) + 1) * real DIGITS"
    by (simp add: half)
  then have "real x * real y / real DIGITS + 1 / 2 \<le> real (roundedMul x y) + 1"
    by (simp add: field_simps)
  with upper show ?thesis by linarith
qed

lemma roundedMul_le_DIGITS:
  assumes "x \<le> DIGITS" and "y \<le> DIGITS"
  shows "roundedMul x y \<le> DIGITS"
proof -
  have "x * y + DIGITS div 2 \<le> DIGITS * DIGITS + DIGITS div 2"
    using assms by (simp add: mult_le_mono)
  then have "roundedMul x y \<le> (DIGITS * DIGITS + DIGITS div 2) div DIGITS"
    unfolding roundedMul_def bigNumber_HALF by (rule div_le_mono)
  then show ?thesis by (simp add: DIGITS_eq)
qed

lemma roundedMul_DIGITS [simp]: "roundedMul DIGITS y = y" "roundedMul y DIGITS = y"
  by (simp_all add: roundedMul_def bigNumber_HALF DIGITS_eq)

lemma approx_0: "approx t DIGITS 0"
  by (simp add: approx_def)

lemma approx_0_D: "approx t x 0 \<Longrightarrow> x = DIGITS"
  by (simp add: approx_def)

lemma approx_1: "x \<le> DIGITS \<Longrightarrow> t = real x / real DIGITS \<Longrightarrow> approx t x 1"
  by (simp add: approx_def)

lemma product_error:
  fixes a b A B D :: real
  assumes "0 \<le> b" "b \<le> D" "0 \<le> A" "A \<le> 1" "0 < D"
    and "\<bar>a - A * D\<bar> \<le> e" and "\<bar>b - B * D\<bar> \<le> f"
  shows "\<bar>a * b / D - A * B * D\<bar> \<le> e + f"
proof -
  have "a * b / D - A * B * D = (a - A * D) * (b / D) + A * (b - B * D)"
    using assms(5) by (simp add: field_simps)
  moreover have "\<bar>(a - A * D) * (b / D)\<bar> \<le> e * 1"
    unfolding abs_mult using assms by (intro mult_mono) auto
  moreover have "\<bar>A * (b - B * D)\<bar> \<le> 1 * f"
    unfolding abs_mult using assms by (intro mult_mono) auto
  ultimately show ?thesis by linarith
qed

lemma approx_mul:
  assumes x: "approx t x k" and y: "approx t y m" and t: "0 \<le> t" "t \<le> 1"
  shows "approx t (roundedMul x y) (k + m)"
proof (cases "k = 0 \<or> m = 0")
  case True
  then show ?thesis
  proof
    assume "k = 0"
    with x y show ?thesis using approx_0_D [of t x] by simp
  next
    assume "m = 0"
    with x y show ?thesis using approx_0_D [of t y] by simp
  qed
next
  case False
  then have km: "real (k + m - 1) / 2 = real (k - 1) / 2 + real (m - 1) / 2 + 1 / 2"
    by (simp add: of_nat_diff field_simps)
  have "\<bar>real x * real y / real DIGITS - t ^ k * t ^ m * real DIGITS\<bar>
      \<le> real (k - 1) / 2 + real (m - 1) / 2"
    using x y t by (intro product_error) (auto simp: approx_def power_le_one)
  then have "\<bar>real (roundedMul x y) - t ^ (k + m) * real DIGITS\<bar> \<le> real (k + m - 1) / 2"
    using roundedMul_error [of x y] unfolding km power_add by linarith
  then show ?thesis
    using x y by (simp add: approx_def roundedMul_le_DIGITS)
qed

lemma and_1_odd: "(e :: 32 word) AND 1 \<noteq> 0 \<longleftrightarrow> odd (unat e)"
  by (simp add: and_one_eq even_iff_mod_2_eq_zero unat_eq_0 [symmetric] unat_mod
      flip: unat_eq_zero)

lemma halving_step: "(k + k) * (n div 2) + (k * (n mod 2) + m) = k * n + (m::nat)"
proof -
  define q r where "q = n div 2" and "r = n mod 2"
  then have "n = 2 * q + r"
    by simp
  then show ?thesis
    unfolding q_def [symmetric] r_def [symmetric] by (simp add: algebra_simps)
qed

lemma pow_loop_approx:
  assumes "approx t x k" and "approx t y m" and "0 \<le> t" and "t \<le> 1" and "1 \<le> exponent"
    and "pow_loop exponent x y = (x', y')"
  shows "approx t (roundedMul x' y') (k * unat exponent + m)"
  using assms
proof (induction exponent x y arbitrary: k m rule: pow_loop.induct)
  case (1 exponent x y)
  show ?case
  proof (cases "1 < exponent")
    case False
    then have "unat exponent = 1"
      using "1.prems"(5) by (simp add: word_le_nat_alt word_less_nat_alt)
    moreover have "(x', y') = (x, y)"
      using False "1.prems"(6) by (subst (asm) pow_loop.simps) simp
    ultimately show ?thesis
      using "1.prems"(1-4) by (auto intro: approx_mul)
  next
    case True
    let ?e = "drop_bit 1 exponent" and ?o = "unat exponent mod 2"
    have e: "unat ?e = unat exponent div 2"
      by (simp add: drop_bit_eq_div unat_div)
    have ge: "1 \<le> ?e"
      using True e by (simp add: word_le_nat_alt word_less_nat_alt)
    have y: "approx t (if exponent AND 1 \<noteq> 0 then roundedMul x y else y) (k * ?o + m)"
      using "1.prems"(1-4) by (auto simp: and_1_odd odd_iff_mod_2_eq_one intro: approx_mul)
    have xx: "approx t (roundedMul x x) (k + k)"
      using "1.prems"(1,3,4) by (blast intro: approx_mul)
    have "approx t (roundedMul x' y') ((k + k) * unat ?e + (k * ?o + m))"
      using "1.IH" [OF True xx y "1.prems"(3,4) ge] "1.prems"(6) True
      by (simp add: pow_loop.simps [of exponent])
    moreover have "(k + k) * unat ?e + (k * ?o + m) = k * unat exponent + m"
      unfolding e by (rule halving_step)
    ultimately show ?thesis by (simp only:)
  qed
qed

lemma Decimal_pow_approx:
  assumes "d \<le> ONE" and "0 \<le> n" and "n \<le> 0xffffffff"
  shows "\<exists>p. Decimal_pow d (Integral n) = Inr p
    \<and> approx (real (bigNumber d) / real DIGITS) (bigNumber p) (nat n)"
proof -
  let ?t = "real (bigNumber d) / real DIGITS"
  have d: "bigNumber d \<le> DIGITS"
    using assms(1) by (simp add: decimal_order)
  have t: "0 \<le> ?t" "?t \<le> 1"
    using d by simp_all
  consider "n = 0" | "n = 1" | "1 < n"
    using assms(2) by linarith
  then show ?thesis
  proof cases
    case 1
    then show ?thesis by (simp add: Decimal_pow_def approx_0)
  next
    case 2
    then show ?thesis using approx_1 [OF d refl] by (simp add: Decimal_pow_def)
  next
    case 3
    obtain x y where xy: "pow_loop (of_int n) (bigNumber d) DIGITS = (x, y)"
      by fastforce
    have u: "unat (of_int n :: 32 word) = nat n"
    proof -
      have "(of_int n :: 32 word) = of_nat (nat n)"
        using assms(2) by (metis int_nat_eq of_int_of_nat_eq)
      moreover have "nat n < 2 ^ LENGTH(32)"
        using assms(2,3) by simp
      ultimately show ?thesis
        by (simp only: unat_of_nat take_bit_nat_eq_self_iff mod_less)
    qed
    have "(1 :: 32 word) \<le> of_int n"
      using 3 u by (simp add: word_le_nat_alt)
    then have "approx ?t (roundedMul x y) (1 * unat (of_int n :: 32 word) + 0)"
      using pow_loop_approx [OF approx_1 [OF d refl] approx_0 t _ xy] by simp
    then show ?thesis
      using 3 assms xy u by (simp add: Decimal_pow_def)
  qed
qed

text \<open>C8: \<open>pow\<close> on a base of at most one and an exponent \<open>n\<close> below \<open>2 ^ 32\<close> does not throw, its
  result is at most one, and it differs from the exact power by at most \<open>(n - 1) / 2\<close> units in the
  last place.\<close>

theorem pow_accuracy:
  assumes "d \<le> ONE" and "1 \<le> n" and "n \<le> 0xffffffff"
  shows "\<exists>p. Decimal_pow d (Integral n) = Inr p \<and> p \<le> ONE
    \<and> \<bar>real (bigNumber p) - (real (bigNumber d) / 10 ^ 18) ^ nat n * 10 ^ 18\<bar> \<le> (real_of_int n - 1) / 2"
proof -
  obtain p where p: "Decimal_pow d (Integral n) = Inr p"
    and a: "approx (real (bigNumber d) / real DIGITS) (bigNumber p) (nat n)"
    using Decimal_pow_approx [of d n] assms by auto
  have "real (nat n - 1) = real_of_int n - 1"
    using assms(2) by (simp add: of_nat_diff)
  with p a show ?thesis
    by (auto simp: approx_def decimal_order DIGITS_eq)
qed

theorem pow_accuracy_witness:
  "\<exists>p. Decimal_pow (Decimal 999037758833783000) (Integral 5) = Inr p \<and> p \<le> ONE
    \<and> \<bar>real (bigNumber p)
        - (real (bigNumber (Decimal 999037758833783000)) / 10 ^ 18) ^ nat 5 * 10 ^ 18\<bar>
       \<le> (real_of_int 5 - 1) / 2"
  by (rule pow_accuracy) (simp_all add: decimal_order DIGITS_eq)

section \<open>Truncation\<close>

text \<open>For a non-zero divider \<open>div\<close> rounds down and \<open>_divCeil\<close> rounds up: multiplied back by
  the divider the first stays at most, the second at least at the dividend, each within one divider,
  and the two results differ by at most one unit in the last place.\<close>

theorem div_divCeil_bounds:
  assumes "e \<noteq> 0"
  shows "\<exists>q c. Decimal_div d (DecimalV e) = Inr q \<and> Decimal_divCeil d (DecimalV e) = Inr c
    \<and> bigNumber q * bigNumber e \<le> bigNumber d * 10 ^ 18
    \<and> bigNumber d * 10 ^ 18 < (bigNumber q + 1) * bigNumber e
    \<and> bigNumber d * 10 ^ 18 \<le> bigNumber c * bigNumber e
    \<and> bigNumber c * bigNumber e < bigNumber d * 10 ^ 18 + bigNumber e
    \<and> bigNumber q \<le> bigNumber c \<and> bigNumber c \<le> bigNumber q + 1"
proof -
  let ?n = "bigNumber d * DIGITS" and ?e = "bigNumber e"
  have e: "0 < ?e"
    using assms by (simp add: decimal_eq_iff)
  let ?q = "?n div ?e" and ?c = "(?n + (?e - 1)) div ?e"
  have upper: "?c * ?e < ?n + ?e"
    using ceil_div_bounds(2) [OF e, of ?n] e by linarith
  have "?c * ?e < (?q + 2) * ?e"
    using upper less_div_mult_add [OF e, of ?n] by (simp add: algebra_simps)
  then have "?c < ?q + 2"
    by (rule mult_less_cancel2 [THEN iffD1, THEN conjunct2])
  then have "?c \<le> ?q + 1"
    by simp
  moreover have "?q \<le> ?c"
    by (simp add: div_le_mono)
  moreover have "Decimal_div d (DecimalV e) = Inr (Decimal ?q)"
    and "Decimal_divCeil d (DecimalV e) = Inr (Decimal ?c)"
    using assms by (simp_all add: dec_simps)
  moreover have "(10::nat) ^ 18 = DIGITS"
    by (simp add: DIGITS_eq)
  moreover note upper less_div_mult_add [OF e, of ?n] ceil_div_bounds(1) [OF e, of ?n]
    div_mult_le_nat [of ?n ?e]
  ultimately show ?thesis
    by (intro exI [of _ "Decimal ?q"] exI [of _ "Decimal ?c"]) (simp only: decimal.sel simp_thms)
qed

theorem div_divCeil_bounds_witness:
  "\<exists>q c. Decimal_div ONE (DecimalV (Decimal 3)) = Inr q
    \<and> Decimal_divCeil ONE (DecimalV (Decimal 3)) = Inr c
    \<and> bigNumber q * bigNumber (Decimal 3) \<le> bigNumber ONE * 10 ^ 18
    \<and> bigNumber ONE * 10 ^ 18 < (bigNumber q + 1) * bigNumber (Decimal 3)
    \<and> bigNumber ONE * 10 ^ 18 \<le> bigNumber c * bigNumber (Decimal 3)
    \<and> bigNumber c * bigNumber (Decimal 3) < bigNumber ONE * 10 ^ 18 + bigNumber (Decimal 3)
    \<and> bigNumber q \<le> bigNumber c \<and> bigNumber c \<le> bigNumber q + 1"
  by (rule div_divCeil_bounds) (simp add: decimal_eq_iff)

section \<open>Differences\<close>

fun signed :: "difference_repr \<Rightarrow> int" where
  "signed x =
     (case sign x of NoSign \<Rightarrow> 0 | Plus \<Rightarrow> int (bigNumber (absoluteValue x))
                   | Minus \<Rightarrow> - int (bigNumber (absoluteValue x)))"

lemma Difference_of_finite:
  assumes "d1 \<noteq> INFINITY" and "d2 \<noteq> INFINITY"
  shows "\<exists>x. Difference_of d1 d2 = Inr (Some x)
    \<and> signed x = int (bigNumber d1) - int (bigNumber d2)
    \<and> (sign x = NoSign \<longleftrightarrow> absoluteValue x = 0)"
  using assms by (auto simp: Difference_of_def dec_simps decimal_order)

text \<open>\<open>Difference.between\<close> of two finite decimals never throws and is their signed difference,
  so that adding it to the second gives the first; it has no sign exactly when it is zero.\<close>

theorem difference_between_correct:
  "d1 \<noteq> INFINITY \<Longrightarrow> d2 \<noteq> INFINITY \<Longrightarrow>
    \<exists>x. Difference_between (Some (DecimalV d1)) (Some (DecimalV d2)) = Inr (Some x)
      \<and> int (bigNumber d1) = int (bigNumber d2) + signed x
      \<and> (sign x = NoSign \<longleftrightarrow> absoluteValue x = 0)"
  using Difference_of_finite [of d1 d2] by (auto simp: Difference_between_def simp del: signed.simps)

theorem difference_between_correct_witness:
  "\<exists>x. Difference_between (Some (DecimalV ONE)) (Some (DecimalV HALF)) = Inr (Some x)
      \<and> int (bigNumber ONE) = int (bigNumber HALF) + signed x
      \<and> (sign x = NoSign \<longleftrightarrow> absoluteValue x = 0)"
  by (rule difference_between_correct)
     (simp_all add: decimal_eq_iff INFINITY_def MAX_UINT_256_def DIGITS_eq HALF_def)

end
