(* ===== verification/Decimal_Text.thy ===== *)
theory Decimal_Text
  imports Decimal
begin

text \<open>
  Reading and printing of decimals: the format that \<open>Decimal.from\<close> accepts and the value it reads,
  the round trip through \<open>toString\<close>, the rounding of \<open>toString(precision)\<close> and the digit groups of
  \<open>prettify\<close>.
\<close>

section \<open>The accepted format\<close>

text \<open>The language of \<open>stringRepresentationFormat\<close>, as a grammar.\<close>

definition fraction_part :: "string \<Rightarrow> bool" where
  "fraction_part f \<longleftrightarrow> f = [] \<or> (\<exists>m. f = CHR ''.'' # m \<and> list_all is_digit m)"

definition exponent_part :: "string \<Rightarrow> bool" where
  "exponent_part x \<longleftrightarrow>
     x = [] \<or> (\<exists>g n. x = CHR ''e'' # g @ n \<and> g \<in> {[], ''-'', ''+''} \<and> n \<noteq> [] \<and> list_all is_digit n)"

lemma dropWhile_digits:
  "list_all is_digit c \<Longrightarrow> r = [] \<or> \<not> is_digit (hd r) \<Longrightarrow> dropWhile is_digit (c @ r) = r"
  by (cases r) (auto simp: list_all_iff dropWhile_append3 dropWhile_append2)

lemma exponent_hd: "exponent_part x \<Longrightarrow> x = [] \<or> hd x = CHR ''e''"
  by (auto simp: exponent_part_def)

lemma matches_exponent_iff: "matches_exponent x \<longleftrightarrow> exponent_part x"
proof
  assume m: "matches_exponent x"
  show "exponent_part x"
  proof (cases x)
    case Nil
    then show ?thesis by (simp add: exponent_part_def)
  next
    case (Cons c t)
    then have c: "c = CHR ''e''" and t: "skip_sign t \<noteq> []" "list_all is_digit (skip_sign t)"
      using m by (simp_all add: matches_exponent_def)
    have "\<exists>g \<in> {[], ''-'', ''+''}. t = g @ skip_sign t"
      by (cases t) (auto simp: skip_sign_def)
    with Cons c t show ?thesis
      unfolding exponent_part_def by blast
  qed
next
  assume "exponent_part x"
  then show "matches_exponent x"
    unfolding exponent_part_def matches_exponent_def
    by (auto simp: skip_sign_def neq_Nil_conv)
qed

lemma matches_format_iff:
  "matches_format s \<longleftrightarrow>
     (\<exists>c f x. s = c @ f @ x \<and> list_all is_digit c \<and> fraction_part f \<and> exponent_part x)"
proof
  assume m: "matches_format s"
  let ?c = "takeWhile is_digit s" and ?r = "dropWhile is_digit s"
  have s: "s = ?c @ ?r"
    by simp
  have c: "list_all is_digit ?c"
    by (auto simp: list_all_iff dest: set_takeWhileD)
  show "\<exists>c f x. s = c @ f @ x \<and> list_all is_digit c \<and> fraction_part f \<and> exponent_part x"
  proof (cases "\<exists>t. ?r = CHR ''.'' # t")
    case True
    then obtain t where r: "?r = CHR ''.'' # t" ..
    let ?f = "CHR ''.'' # takeWhile is_digit t" and ?x = "dropWhile is_digit t"
    have "s = ?c @ ?f @ ?x"
      using s r by simp
    moreover have "fraction_part ?f"
      by (auto simp: fraction_part_def list_all_iff dest: set_takeWhileD)
    moreover have "exponent_part ?x"
      using m r by (simp add: matches_format_def flip: matches_exponent_iff)
    ultimately show ?thesis using c by blast
  next
    case False
    then have "exponent_part ?r"
      using m by (cases "dropWhile is_digit s")
        (auto simp: matches_format_def matches_exponent_iff simp del: dropWhile_eq_Nil_conv)
    then show ?thesis using s c by (metis append_Nil fraction_part_def)
  qed
next
  assume "\<exists>c f x. s = c @ f @ x \<and> list_all is_digit c \<and> fraction_part f \<and> exponent_part x"
  then obtain c f x where s: "s = c @ f @ x" and c: "list_all is_digit c"
    and f: "fraction_part f" and x: "exponent_part x" by blast
  have x': "x = [] \<or> \<not> is_digit (hd x)"
    using exponent_hd [OF x] by auto
  have "dropWhile is_digit s = f @ x"
    unfolding s using f x' by (intro dropWhile_digits [OF c]) (auto simp: fraction_part_def)
  moreover have "dropWhile is_digit (m @ x) = x" if "list_all is_digit m" for m
    using that x' by (rule dropWhile_digits)
  ultimately show "matches_format s"
    using f x exponent_hd [OF x]
    by (auto simp: matches_format_def fraction_part_def matches_exponent_iff
        simp del: dropWhile_eq_Nil_conv split: list.splits)
qed

section \<open>The value read\<close>

lemma digits_no_sep:
  "list_all is_digit s \<Longrightarrow> CHR ''e'' \<notin> set s \<and> CHR ''.'' \<notin> set s"
  by (auto simp: list_all_iff)

lemma fromString_integer:
  assumes "list_all is_digit c" and "c \<noteq> []"
  shows "Decimal_fromString c = Inr (Decimal (parse_nat c * DIGITS))"
proof -
  have "matches_format c"
    unfolding matches_format_iff using assms(1)
    by (intro exI [of _ c] exI [of _ "[]"]) (simp add: fraction_part_def exponent_part_def)
  then show ?thesis
    using assms digits_no_sep [OF assms(1)]
    by (simp add: Decimal_fromString.simps flip: of_nat_mult)
qed

lemma fromString_fraction:
  assumes c: "list_all is_digit c" and m: "list_all is_digit m"
  shows "Decimal_fromString (c @ CHR ''.'' # m) =
    Inr (Decimal (parse_nat c * DIGITS + parse_nat (fit_mantissa m)))"
proof -
  have "matches_format (c @ CHR ''.'' # m)"
    unfolding matches_format_iff using c m
    by (intro exI [of _ c] exI [of _ "CHR ''.'' # m"] exI [of _ "[]"])
       (simp add: fraction_part_def exponent_part_def)
  then show ?thesis
    using digits_no_sep [OF c] digits_no_sep [OF m]
    by (simp add: Decimal_fromString.simps split_on_two flip: of_nat_mult of_nat_add)
qed

lemma fit_mantissa_value:
  assumes "list_all is_digit m"
  shows "parse_nat (fit_mantissa m) = parse_nat m * DIGITS div 10 ^ length m"
proof (cases "length m < PRECISION")
  case True
  then have "DIGITS = 10 ^ (PRECISION - length m) * 10 ^ length m"
    by (simp add: DIGITS_def getDigits_def flip: power_add)
  then have "parse_nat m * DIGITS = parse_nat m * 10 ^ (PRECISION - length m) * 10 ^ length m"
    by (simp only: mult.assoc)
  then have "parse_nat m * DIGITS div 10 ^ length m = parse_nat m * 10 ^ (PRECISION - length m)"
    by (metis nonzero_mult_div_cancel_right power_not_zero zero_neq_numeral)
  then show ?thesis
    using True by (simp add: fit_mantissa_def parse_nat_append)
next
  case False
  let ?k = "length m - PRECISION"
  have "parse_nat m = parse_nat (take PRECISION m @ drop PRECISION m)"
    by simp
  also have "\<dots> = parse_nat (take PRECISION m) * 10 ^ ?k + parse_nat (drop PRECISION m)"
    by (simp only: parse_nat_append length_drop)
  finally have "parse_nat m = parse_nat (take PRECISION m) * 10 ^ ?k + parse_nat (drop PRECISION m)" .
  moreover have "parse_nat (drop PRECISION m) < 10 ^ ?k"
    using assms parse_nat_bound [of "drop PRECISION m"]
    by (auto simp: list_all_iff dest: in_set_dropD)
  ultimately have "parse_nat m div 10 ^ ?k = parse_nat (take PRECISION m)"
    by simp
  moreover have "10 ^ length m = DIGITS * 10 ^ ?k"
    using False by (simp add: DIGITS_def getDigits_def flip: power_add)
  ultimately show ?thesis
    using False by (simp add: fit_mantissa_def mult.commute [of _ DIGITS] div_mult_mult1)
qed

lemma fraction_value:
  assumes "list_all is_digit m"
  shows "parse_nat c * DIGITS + parse_nat (fit_mantissa m)
    = parse_nat (c @ m) * DIGITS div 10 ^ length m"
proof -
  have "parse_nat (c @ m) * DIGITS = parse_nat c * DIGITS * 10 ^ length m + parse_nat m * DIGITS"
    by (simp add: parse_nat_append algebra_simps)
  then have "parse_nat (c @ m) * DIGITS div 10 ^ length m
      = parse_nat c * DIGITS + parse_nat m * DIGITS div 10 ^ length m"
    by (simp only: div_mult_self3 power_not_zero zero_neq_numeral not_False_eq_True)
  then show ?thesis
    by (simp only: fit_mantissa_value [OF assms])
qed

text \<open>The coefficient \<open>c @ f\<close> of a representation, read as a decimal truncated to 18 places.\<close>

definition coefficient_value :: "string \<Rightarrow> string \<Rightarrow> nat" where
  "coefficient_value c f = parse_nat (c @ tl f) * 10 ^ 18 div 10 ^ length (tl f)"

lemma fromString_coefficient:
  assumes "list_all is_digit c" and "fraction_part f" and "c @ f \<noteq> []"
  shows "Decimal_fromString (c @ f) = Inr (Decimal (coefficient_value c f))"
proof (cases f)
  case Nil
  then show ?thesis
    using assms by (simp add: fromString_integer coefficient_value_def DIGITS_eq)
next
  case (Cons x m)
  then have "f = CHR ''.'' # m" and m: "list_all is_digit m"
    using assms(2) by (auto simp: fraction_part_def)
  then have "Decimal_fromString (c @ f)
      = Inr (Decimal (parse_nat c * DIGITS + parse_nat (fit_mantissa m)))"
    using assms(1) by (simp add: fromString_fraction)
  also have "parse_nat c * DIGITS + parse_nat (fit_mantissa m) = coefficient_value c f"
    using fraction_value [OF m, of c] Cons by (simp add: coefficient_value_def DIGITS_eq)
  finally show ?thesis .
qed

lemma fraction_no_e: "fraction_part f \<Longrightarrow> CHR ''e'' \<notin> set f"
  by (auto simp: fraction_part_def dest: digits_no_sep)

lemma new_Decimal_scale:
  "new_Decimal (int b * 10 ^ k) = Inr (Decimal (b * 10 ^ k))"
  "new_Decimal (int b div 10 ^ k) = Inr (Decimal (b div 10 ^ k))"
  using new_Decimal_int [of "b * 10 ^ k"] new_Decimal_int [of "b div 10 ^ k"]
  by (simp_all add: zdiv_int)

lemma fromString_exponent:
  assumes c: "list_all is_digit c" and f: "fraction_part f"
    and g: "g \<in> {[], ''-'', ''+''}" and n: "n \<noteq> []" "list_all is_digit n"
  shows "Decimal_fromString (c @ f @ CHR ''e'' # g @ n) =
    bind_res (Decimal_fromString (c @ f)) (\<lambda>d. Inr (Decimal
      (if g = ''-'' then bigNumber d div 10 ^ parse_nat n else bigNumber d * 10 ^ parse_nat n)))"
proof -
  let ?s = "c @ f @ CHR ''e'' # g @ n"
  have "exponent_part (CHR ''e'' # g @ n)"
    using g n unfolding exponent_part_def by blast
  then have m: "matches_format ?s"
    unfolding matches_format_iff using c f by blast
  have ne: "CHR ''e'' \<notin> set (c @ f)"
    using digits_no_sep [OF c] fraction_no_e [OF f] by simp
  have "CHR ''e'' \<notin> set (g @ n)"
    using g digits_no_sep [OF n(2)] by auto
  with ne have split: "split_on (CHR ''e'') ?s = [c @ f, g @ n]"
    using split_on_two [of "CHR ''e''" "c @ f" "g @ n"] by simp
  have sign: "take 1 (g @ n) = ''-'' \<longleftrightarrow> g = ''-''" "take 1 (g @ n) = ''+'' \<longleftrightarrow> g = ''+''"
    using g n by (auto simp: neq_Nil_conv)
  show ?thesis
    unfolding Decimal_fromString.simps [of ?s] split Let_def using m g sign
    by (auto simp: new_Decimal_scale)
qed

lemma fromString_no_coefficient:
  assumes "exponent_part x"
  shows "\<not> is_ok (Decimal_fromString x)"
proof -
  have nil: "Decimal_fromString [] = Inl (bad_format [])"
    by (simp add: Decimal_fromString.simps)
  show ?thesis
  proof (cases x)
    case (Cons a t)
    then obtain g n where "x = CHR ''e'' # g @ n" and "g \<in> {[], ''-'', ''+''}"
      and "n \<noteq> []" and "list_all is_digit n"
      using assms unfolding exponent_part_def by blast
    then show ?thesis
      using fromString_exponent [of "[]" "[]" g n] nil by (simp add: fraction_part_def)
  qed (simp add: nil)
qed

lemma fromString_with_coefficient:
  assumes "list_all is_digit c" and "fraction_part f" and "exponent_part x" and "c @ f \<noteq> []"
  shows "is_ok (Decimal_fromString (c @ f @ x))"
proof (cases x)
  case Nil
  then show ?thesis using fromString_coefficient [OF assms(1,2,4)] by simp
next
  case (Cons a t)
  then obtain g n where "x = CHR ''e'' # g @ n" and "g \<in> {[], ''-'', ''+''}"
    and "n \<noteq> []" and "list_all is_digit n"
    using assms(3) unfolding exponent_part_def by blast
  then show ?thesis
    using fromString_exponent [OF assms(1,2), of g n] fromString_coefficient [OF assms(1,2,4)]
    by simp
qed

text \<open>C35: \<open>Decimal.from\<close> accepts a string exactly when it is an optional digit string, an optional
  fraction and an optional exponent, with a non-empty coefficient; every other string throws.\<close>

theorem from_string_accepts:
  "is_ok (Decimal_from (StringV s)) \<longleftrightarrow>
     (\<exists>c f x. s = c @ f @ x \<and> list_all is_digit c \<and> fraction_part f \<and> exponent_part x \<and> c @ f \<noteq> [])"
proof
  assume ok: "is_ok (Decimal_from (StringV s))"
  then have "matches_format s"
    by (auto simp: Decimal_fromString.simps [of s] split: if_splits)
  then obtain c f x where s: "s = c @ f @ x" and c: "list_all is_digit c"
    and f: "fraction_part f" and x: "exponent_part x"
    unfolding matches_format_iff by blast
  have "c @ f \<noteq> []"
    using ok s fromString_no_coefficient [OF x] by auto
  with s c f x show "\<exists>c f x. s = c @ f @ x \<and> list_all is_digit c \<and> fraction_part f
      \<and> exponent_part x \<and> c @ f \<noteq> []" by blast
next
  assume "\<exists>c f x. s = c @ f @ x \<and> list_all is_digit c \<and> fraction_part f \<and> exponent_part x
      \<and> c @ f \<noteq> []"
  then obtain c f x where "s = c @ f @ x" and c: "list_all is_digit c" and f: "fraction_part f"
    and "exponent_part x" and "c @ f \<noteq> []" by blast
  then show "is_ok (Decimal_from (StringV s))"
    using fromString_with_coefficient [OF c f] by simp
qed

text \<open>An accepted string is read as its coefficient truncated to 18 decimal places, multiplied by
  ten to its exponent, or divided by it, rounding down, when the exponent has a minus sign.\<close>

theorem from_string_value:
  assumes "list_all is_digit c" and "fraction_part f" and "c @ f \<noteq> []"
    and "n \<noteq> []" and "list_all is_digit n"
  shows "Decimal_from (StringV (c @ f)) = Inr (Decimal (coefficient_value c f))
    \<and> Decimal_from (StringV (c @ f @ ''e'' @ n)) =
        Inr (Decimal (coefficient_value c f * 10 ^ parse_nat n))
    \<and> Decimal_from (StringV (c @ f @ ''e+'' @ n)) =
        Inr (Decimal (coefficient_value c f * 10 ^ parse_nat n))
    \<and> Decimal_from (StringV (c @ f @ ''e-'' @ n)) =
        Inr (Decimal (coefficient_value c f div 10 ^ parse_nat n))"
  using fromString_coefficient [OF assms(1-3)] assms(4,5)
    fromString_exponent [OF assms(1,2), of "[]" n]
    fromString_exponent [OF assms(1,2), of "''+''" n]
    fromString_exponent [OF assms(1,2), of "''-''" n]
  by simp

theorem from_string_value_witness:
  "Decimal_from (StringV (''12'' @ ''.5'')) = Inr (Decimal (coefficient_value ''12'' ''.5''))
    \<and> Decimal_from (StringV (''12'' @ ''.5'' @ ''e'' @ ''3'')) =
        Inr (Decimal (coefficient_value ''12'' ''.5'' * 10 ^ parse_nat ''3''))
    \<and> Decimal_from (StringV (''12'' @ ''.5'' @ ''e+'' @ ''3'')) =
        Inr (Decimal (coefficient_value ''12'' ''.5'' * 10 ^ parse_nat ''3''))
    \<and> Decimal_from (StringV (''12'' @ ''.5'' @ ''e-'' @ ''3'')) =
        Inr (Decimal (coefficient_value ''12'' ''.5'' div 10 ^ parse_nat ''3''))"
  by (rule from_string_value) (simp_all add: is_digit_def fraction_part_def)

section \<open>Printing and reading back\<close>

lemma mantissa_text:
  assumes "n < DIGITS"
  shows "length (padStart PRECISION (CHR ''0'') (show_nat n)) = PRECISION"
    and "list_all is_digit (padStart PRECISION (CHR ''0'') (show_nat n))"
    and "parse_nat (padStart PRECISION (CHR ''0'') (show_nat n)) = n"
proof -
  have "length (show_nat n) \<le> PRECISION"
    using assms by (intro show_nat_length_le) (simp_all add: DIGITS_def getDigits_def PRECISION_def)
  then show "length (padStart PRECISION (CHR ''0'') (show_nat n)) = PRECISION"
    by (rule length_padStart)
qed (simp_all add: padStart_digits show_nat_digits)

lemma fit_stripped_mantissa:
  assumes "length s = PRECISION"
  shows "fit_mantissa (strip_end (CHR ''0'') s) = s"
proof -
  obtain k where "s = strip_end (CHR ''0'') s @ replicate k (CHR ''0'')"
    using strip_end_append by blast
  moreover from this have "k = PRECISION - length (strip_end (CHR ''0'') s)"
    using assms by (metis add_diff_cancel_left' length_append length_replicate)
  ultimately show ?thesis
    using assms by (auto simp: fit_mantissa_def)
qed

lemma strip_end_digits: "list_all is_digit s \<Longrightarrow> list_all is_digit (strip_end c s)"
  by (auto simp: strip_end_def list_all_iff dest: set_dropWhileD)

lemma read_automatic: "Decimal_fromString (toStringWithAutomaticPrecision d) = Inr d"
proof (cases "bigNumber d mod DIGITS = 0")
  case True
  then have "bigNumber d div DIGITS * DIGITS = bigNumber d"
    by (simp add: mod_0_imp_dvd)
  with True show ?thesis
    by (simp add: toStringWithAutomaticPrecision_def fromString_integer show_nat_digits)
next
  case False
  let ?s = "padStart PRECISION (CHR ''0'') (show_nat (bigNumber d mod DIGITS))"
  have s: "length ?s = PRECISION" "list_all is_digit ?s" "parse_nat ?s = bigNumber d mod DIGITS"
    by (simp_all add: mantissa_text)
  have "toStringWithAutomaticPrecision d
      = show_nat (bigNumber d div DIGITS) @ CHR ''.'' # strip_end (CHR ''0'') ?s"
    using False by (simp add: toStringWithAutomaticPrecision_def)
  then have "Decimal_fromString (toStringWithAutomaticPrecision d)
      = Inr (Decimal (bigNumber d div DIGITS * DIGITS + bigNumber d mod DIGITS))"
    using s by (simp add: fromString_fraction show_nat_digits strip_end_digits fit_stripped_mantissa)
  then show ?thesis by simp
qed

text \<open>C4: printing a finite decimal with \<open>toString()\<close> and reading the string with \<open>Decimal.from\<close>
  gives the same decimal.\<close>

theorem toString_from_roundtrip:
  assumes "d \<noteq> INFINITY"
  shows "\<exists>s. Decimal_toString d None = Inr s \<and> Decimal_from (StringV s) = Inr d"
  using assms by (simp add: Decimal_toString_def read_automatic)

theorem toString_from_roundtrip_witness:
  "\<exists>s. Decimal_toString HALF None = Inr s \<and> Decimal_from (StringV s) = Inr HALF"
  by (rule toString_from_roundtrip)
     (simp add: decimal_eq_iff HALF_def INFINITY_def MAX_UINT_256_def)

lemma parse_nat_take:
  assumes "list_all is_digit s"
  shows "parse_nat (take p s) = parse_nat s div 10 ^ (length s - p)"
proof -
  have "parse_nat s = parse_nat (take p s @ drop p s)"
    by simp
  then have "parse_nat s = parse_nat (take p s) * 10 ^ (length s - p) + parse_nat (drop p s)"
    by (simp only: parse_nat_append length_drop)
  moreover have "parse_nat (drop p s) < 10 ^ (length s - p)"
    using assms parse_nat_bound [of "drop p s"] by (auto simp: list_all_iff dest: in_set_dropD)
  ultimately show ?thesis by simp
qed

lemma fit_taken_mantissa:
  assumes "length s = PRECISION" and "list_all is_digit s"
  shows "parse_nat (fit_mantissa (take p s))
    = parse_nat s div 10 ^ (PRECISION - p) * 10 ^ (PRECISION - p)"
proof (cases "p < PRECISION")
  case True
  then show ?thesis
    using assms by (simp add: fit_mantissa_def parse_nat_append parse_nat_take)
next
  case False
  then show ?thesis using assms by (simp add: fit_mantissa_def)
qed

text \<open>The value that \<open>toString(precision)\<close> prints: rounded half up to \<open>p\<close> decimal places.\<close>

definition rounded :: "decimal \<Rightarrow> nat \<Rightarrow> decimal" where
  "rounded d p =
     Decimal ((bigNumber d + (if p < PRECISION then 10 ^ (PRECISION - p) div 2 else 0))
       div 10 ^ (PRECISION - p) * 10 ^ (PRECISION - p))"

lemma half_unit: "p < PRECISION \<Longrightarrow> getDigits (PRECISION - 1 - p) * 5 = 10 ^ (PRECISION - p) div 2"
proof -
  assume "p < PRECISION"
  then have "PRECISION - p = Suc (PRECISION - 1 - p)"
    by simp
  then show ?thesis by (simp add: getDigits_def)
qed

lemma chopped_split:
  assumes "u * w = DIGITS" and "0 < u"
  shows "v div DIGITS * DIGITS + v mod DIGITS div u * u = v div u * u"
proof -
  have "v = (v div DIGITS * w) * u + v mod DIGITS"
    using assms(1) by (metis div_mult_mod_eq mult.assoc mult.commute)
  then have "v div u = v div DIGITS * w + v mod DIGITS div u"
    using assms(2) by (metis div_mult_self3 less_numeral_extra(3))
  then show ?thesis
    using assms(1) by (simp add: algebra_simps)
qed

lemma read_with_precision:
  assumes "d \<noteq> INFINITY" and "0 \<le> precision"
  shows "\<exists>s. Decimal_toString d (Some precision) = Inr s
    \<and> Decimal_fromString s = Inr (rounded d (nat precision))"
proof -
  let ?p = "nat precision"
  let ?u = "10 ^ (PRECISION - ?p) :: nat"
  define v where "v = (if ?p < PRECISION then roundUp d ?p else bigNumber d)"
  have r: "rounded d ?p = Decimal (v div ?u * ?u)"
    using half_unit [of ?p] by (simp add: rounded_def v_def roundUp_def)
  let ?m = "padStart PRECISION (CHR ''0'') (show_nat (v mod DIGITS))"
  have m: "length ?m = PRECISION" "list_all is_digit ?m" "parse_nat ?m = v mod DIGITS"
    by (simp_all add: mantissa_text)
  show ?thesis
  proof (cases "?p = 0")
    case True
    then have "?u = DIGITS"
      by (simp add: DIGITS_def getDigits_def)
    then show ?thesis
      using assms True r by (simp add: Decimal_toString_def toStringWithPrecision_def v_def
          fromString_integer show_nat_digits)
  next
    case False
    have taken: "list_all is_digit (take ?p ?m)"
      using m(2) by (auto simp: list_all_iff dest: in_set_takeD)
    have "Decimal_toString d (Some precision)
        = Inr (show_nat (v div DIGITS) @ CHR ''.'' # take ?p ?m)"
      using assms False by (simp add: Decimal_toString_def toStringWithPrecision_def v_def Let_def)
    moreover have "Decimal_fromString (show_nat (v div DIGITS) @ CHR ''.'' # take ?p ?m)
        = Inr (Decimal (v div DIGITS * DIGITS + v mod DIGITS div ?u * ?u))"
      using m taken by (simp add: fromString_fraction show_nat_digits fit_taken_mantissa)
    moreover have "v div DIGITS * DIGITS + v mod DIGITS div ?u * ?u = v div ?u * ?u"
    proof (rule chopped_split)
      show "?u * 10 ^ (PRECISION - (PRECISION - ?p)) = DIGITS"
        by (simp add: DIGITS_def getDigits_def flip: power_add)
    qed simp
    ultimately show ?thesis using r by simp
  qed
qed

lemma rounded_error:
  "2 * \<bar>int (bigNumber (rounded d p)) - int (bigNumber d)\<bar> \<le> 10 ^ (PRECISION - p)"
proof (cases "p < PRECISION")
  case False
  then show ?thesis by (simp add: rounded_def)
next
  case True
  then obtain k where k: "PRECISION - p = Suc k"
    by (metis Suc_diff_Suc)
  define u b where "u = (10::nat) ^ Suc k" and "b = bigNumber d"
  have u: "u div 2 * 2 = u" "0 < u"
    by (simp_all add: u_def)
  define h w where "h = u div 2" and "w = (b + h) div u * u"
  have r: "bigNumber (rounded d p) = w"
    using True k by (simp add: rounded_def u_def b_def w_def h_def)
  have "w \<le> b + h" and "b + h < w + u"
    using less_div_mult_add [OF u(2), of "b + h"] by (simp_all add: w_def algebra_simps)
  moreover have "h * 2 = u"
    using u(1) by (simp add: h_def)
  moreover have ten: "(10::int) ^ (PRECISION - p) = int u"
    by (simp add: k u_def)
  ultimately show ?thesis
    unfolding r b_def [symmetric] ten by arith
qed

text \<open>\<open>toString(precision)\<close> of a finite decimal with a non-negative precision prints a string that
  reads back as a multiple of the last printed place, at most half of that place away.\<close>

theorem toString_precision_rounds:
  assumes "d \<noteq> INFINITY" and "0 \<le> precision"
  shows "\<exists>s r. Decimal_toString d (Some precision) = Inr s \<and> Decimal_from (StringV s) = Inr r
    \<and> 10 ^ (18 - nat precision) dvd bigNumber r
    \<and> 2 * \<bar>int (bigNumber r) - int (bigNumber d)\<bar> \<le> 10 ^ (18 - nat precision)"
proof -
  obtain s where "Decimal_toString d (Some precision) = Inr s"
    and "Decimal_fromString s = Inr (rounded d (nat precision))"
    using read_with_precision [OF assms] by blast
  moreover have "10 ^ (18 - nat precision) dvd bigNumber (rounded d (nat precision))"
    by (simp add: rounded_def PRECISION_def)
  ultimately show ?thesis
    using rounded_error [of d "nat precision"] by (auto simp: PRECISION_def)
qed

theorem toString_precision_rounds_witness:
  "\<exists>s r. Decimal_toString HALF (Some 2) = Inr s \<and> Decimal_from (StringV s) = Inr r
    \<and> 10 ^ (18 - nat 2) dvd bigNumber r
    \<and> 2 * \<bar>int (bigNumber r) - int (bigNumber HALF)\<bar> \<le> 10 ^ (18 - nat 2)"
  by (rule toString_precision_rounds)
     (simp_all add: decimal_eq_iff HALF_def INFINITY_def MAX_UINT_256_def)

section \<open>Digit groups\<close>

lemma add_commas_digits:
  "list_all is_digit (c # cs) \<Longrightarrow> add_commas (c # cs) =
     (if cs \<noteq> [] \<and> length cs mod 3 = 0 then c # CHR '','' # add_commas cs else c # add_commas cs)"
  by (auto simp: list_all_iff takeWhile_eq_all_conv [THEN iffD2])

lemma add_commas_filter:
  "CHR '','' \<notin> set s \<Longrightarrow> filter (\<lambda>x. x \<noteq> CHR '','') (add_commas s) = s"
  by (induction s) (auto simp: Let_def)

declare add_commas.simps(2) [simp del]

lemma digit_not_comma: "is_digit c \<Longrightarrow> c \<noteq> CHR '',''"
  by auto

lemma add_commas_groups:
  assumes "list_all is_digit s" and "s \<noteq> []"
  shows "\<exists>g gs. split_on (CHR '','') (add_commas s) = g # gs
    \<and> length g = (length s - 1) mod 3 + 1 \<and> (\<forall>h \<in> set gs. length h = 3)"
  using assms
proof (induction s)
  case (Cons c cs)
  show ?case
  proof (cases cs)
    case Nil
    then show ?thesis
      using Cons.prems by (auto simp: add_commas_digits digit_not_comma)
  next
    case (Cons c' cs')
    then obtain g gs where g: "split_on (CHR '','') (add_commas cs) = g # gs"
      "length g = (length cs - 1) mod 3 + 1" "\<forall>h \<in> set gs. length h = 3"
      using Cons.IH Cons.prems by auto
    obtain n where n: "length cs = Suc n"
      using Cons by simp
    have c: "c \<noteq> CHR '',''"
      using Cons.prems by (auto dest: digit_not_comma)
    show ?thesis
    proof (cases "length cs mod 3 = 0")
      case True
      have "length g = 3"
        using g(2) True n by (simp add: mod_Suc split: if_splits)
      then show ?thesis
        using c g True Cons Cons.prems by (simp add: add_commas_digits)
    next
      case False
      have "Suc (length g) = length cs mod 3 + 1"
        using g(2) False n by (simp add: mod_Suc split: if_splits)
      then show ?thesis
        using c g False Cons.prems by (simp add: add_commas_digits)
    qed
  qed
qed simp

lemma toString_shape:
  assumes "d \<noteq> INFINITY" and "0 \<le> precision"
  shows "\<exists>n m. Decimal_toString d (Some precision) = Inr (show_nat n @ m)
    \<and> (m = [] \<or> (\<exists>t. m = CHR ''.'' # t \<and> list_all is_digit t))"
proof -
  let ?v = "if nat precision < PRECISION then roundUp d (nat precision) else bigNumber d"
  let ?t = "take (nat precision) (padStart PRECISION (CHR ''0'') (show_nat (?v mod DIGITS)))"
  have "list_all is_digit ?t"
    using mantissa_text(2) [of "?v mod DIGITS"] by (auto simp: list_all_iff dest: in_set_takeD)
  moreover have "Decimal_toString d (Some precision)
      = Inr (show_nat (?v div DIGITS) @ (if nat precision = 0 then [] else CHR ''.'' # ?t))"
    using assms by (simp add: Decimal_toString_def toStringWithPrecision_def Let_def)
  ultimately show ?thesis
    by (intro exI [of _ "?v div DIGITS"]
        exI [of _ "if nat precision = 0 then [] else CHR ''.'' # ?t"]) (simp del: nat_eq_iff)
qed

lemma add_commas_set: "set (add_commas s) \<subseteq> insert (CHR '','') (set s)"
  by (induction s) (auto simp: add_commas.simps Let_def)

text \<open>\<open>prettify\<close> prints the digits of \<open>toString(precision)\<close> with the integer part divided by
  commas into groups, the first of one to three digits and every other of three; without the commas
  it is \<open>toString(precision)\<close>.\<close>

theorem prettify_groups:
  assumes "d \<noteq> INFINITY" and "0 \<le> precision"
  shows "\<exists>s r g gs. Decimal_toString d (Some precision) = Inr s \<and> Decimal_prettify d precision = Inr r
    \<and> filter (\<lambda>c. c \<noteq> CHR '','') r = s
    \<and> split_on (CHR '','') (split_on (CHR ''.'') r ! 0) = g # gs
    \<and> length g \<in> {1..3} \<and> (\<forall>h \<in> set gs. length h = 3)"
proof -
  let ?c = "show_nat"
  have "\<exists>n m. Decimal_toString d (Some precision) = Inr (?c n @ m)
      \<and> (m = [] \<or> (\<exists>t. m = CHR ''.'' # t \<and> list_all is_digit t))"
    using assms by (rule toString_shape)
  then obtain n m where s: "Decimal_toString d (Some precision) = Inr (?c n @ m)"
    and m: "m = [] \<or> (\<exists>t. m = CHR ''.'' # t \<and> list_all is_digit t)" by blast
  have dot: "CHR ''.'' \<notin> set (add_commas (?c n))"
    using add_commas_set [of "?c n"] show_nat_no_dot(1) [of n] by auto
  have r: "Decimal_prettify d precision = Inr (add_commas (?c n) @ m)"
    using s m by (auto simp: Decimal_prettify_def split_on_notin split_on_two
        dest: digits_no_sep)
  have "filter (\<lambda>c. c \<noteq> CHR '','') (add_commas (?c n)) = ?c n"
    by (rule add_commas_filter) (auto dest: show_nat_is_digit)
  moreover have "filter (\<lambda>c. c \<noteq> CHR '','') m = m"
    using m by (auto simp: list_all_iff filter_id_conv dest: bspec [of _ _ "CHR '',''"])
  moreover have "split_on (CHR ''.'') (add_commas (?c n) @ m) ! 0 = add_commas (?c n)"
    using m dot by (auto simp: split_on_notin split_on_append)
  moreover obtain g gs where "split_on (CHR '','') (add_commas (?c n)) = g # gs"
    and "length g = (length (?c n) - 1) mod 3 + 1" and "\<forall>h \<in> set gs. length h = 3"
    using add_commas_groups [OF show_nat_digits show_nat_nonempty, of n] by blast
  moreover have "(length (?c n) - 1) mod 3 + 1 \<in> {1..3}"
    by (simp add: less_Suc_eq_le [symmetric])
  ultimately show ?thesis
    using s r by (intro exI [of _ "?c n @ m"] exI [of _ "add_commas (?c n) @ m"] exI [of _ g]
        exI [of _ gs]) simp
qed

theorem prettify_groups_witness:
  "\<exists>s r g gs. Decimal_toString HALF (Some 2) = Inr s \<and> Decimal_prettify HALF 2 = Inr r
    \<and> filter (\<lambda>c. c \<noteq> CHR '','') r = s
    \<and> split_on (CHR '','') (split_on (CHR ''.'') r ! 0) = g # gs
    \<and> length g \<in> {1..3} \<and> (\<forall>h \<in> set gs. length h = 3)"
  by (rule prettify_groups) (simp_all add: decimal_eq_iff HALF_def INFINITY_def MAX_UINT_256_def)

end
