(* ===== verification/Fees.thy ===== *)
theory Fees
  imports Decimal_Arith Decimal_Text
begin

text \<open>
  \<^verbatim>\<open>packages/lib-base/src/constants.ts\<close> and \<^verbatim>\<open>packages/lib-base/src/Fees.ts\<close>. A \<open>Date\<close> is its
  \<open>getTime()\<close>, an integer number of milliseconds. \<open>Math.floor(ms / 60000)\<close> is integer division: a
  double holds the quotient exactly enough for every exponent that \<open>pow\<close> accepts.
\<close>

section \<open>Constants\<close>

definition CRITICAL_COLLATERAL_RATIO :: decimal where
  "CRITICAL_COLLATERAL_RATIO = Decimal (15 * 10 ^ 17)"

definition MINIMUM_COLLATERAL_RATIO :: decimal where
  "MINIMUM_COLLATERAL_RATIO = Decimal (11 * 10 ^ 17)"

definition LUSD_LIQUIDATION_RESERVE :: decimal where
  "LUSD_LIQUIDATION_RESERVE = Decimal (200 * 10 ^ 18)"

definition LUSD_MINIMUM_NET_DEBT :: decimal where
  "LUSD_MINIMUM_NET_DEBT = Decimal (1800 * 10 ^ 18)"

definition LUSD_MINIMUM_DEBT :: decimal where
  "LUSD_MINIMUM_DEBT = LUSD_LIQUIDATION_RESERVE + LUSD_MINIMUM_NET_DEBT"

definition MINIMUM_BORROWING_RATE :: decimal where
  "MINIMUM_BORROWING_RATE = Decimal (5 * 10 ^ 15)"

definition MAXIMUM_BORROWING_RATE :: decimal where
  "MAXIMUM_BORROWING_RATE = Decimal (5 * 10 ^ 16)"

definition MINIMUM_REDEMPTION_RATE :: decimal where
  "MINIMUM_REDEMPTION_RATE = Decimal (5 * 10 ^ 15)"

lemmas constant_defs =
  CRITICAL_COLLATERAL_RATIO_def MINIMUM_COLLATERAL_RATIO_def LUSD_LIQUIDATION_RESERVE_def
  LUSD_MINIMUM_NET_DEBT_def LUSD_MINIMUM_DEBT_def MINIMUM_BORROWING_RATE_def
  MAXIMUM_BORROWING_RATE_def MINIMUM_REDEMPTION_RATE_def

section \<open>Fees\<close>

record fees =
  baseRateWithoutDecay :: decimal
  minuteDecayFactor :: decimal
  beta :: decimal
  lastFeeOperation :: int
  timeOfLatestBlock :: int
  recoveryMode :: bool

definition new_Fees ::
  "decimalish \<Rightarrow> decimalish \<Rightarrow> decimalish \<Rightarrow> int \<Rightarrow> int \<Rightarrow> bool \<Rightarrow> fees res" where
  "new_Fees base factor b lastOp latestBlock recovery =
     bind_res (Decimal_from base) (\<lambda>base.
     bind_res (Decimal_from factor) (\<lambda>factor.
     bind_res (Decimal_from b) (\<lambda>b.
     bind_res (Decimal_lt factor (NumberV ''1'')) (\<lambda>ok.
     bind_res (assert_res ''this._minuteDecayFactor.lt(1)'' ok) (\<lambda>_.
       Inr \<lparr>baseRateWithoutDecay = base, minuteDecayFactor = factor, beta = b,
            lastFeeOperation = lastOp, timeOfLatestBlock = latestBlock,
            recoveryMode = recovery\<rparr>)))))"

definition setRecoveryMode :: "fees \<Rightarrow> bool \<Rightarrow> fees res" where
  "setRecoveryMode f recovery =
     new_Fees (DecimalV (baseRateWithoutDecay f)) (DecimalV (minuteDecayFactor f))
       (DecimalV (beta f)) (lastFeeOperation f) (timeOfLatestBlock f) recovery"

definition Fees_equals :: "fees \<Rightarrow> fees \<Rightarrow> bool res" where
  "Fees_equals f that =
     bind_res (Decimal_eq (baseRateWithoutDecay f) (DecimalV (baseRateWithoutDecay that))) (\<lambda>b1.
     bind_res (Decimal_eq (minuteDecayFactor f) (DecimalV (minuteDecayFactor that))) (\<lambda>b2.
     bind_res (Decimal_eq (beta f) (DecimalV (beta that))) (\<lambda>b3.
       Inr (b1 \<and> b2 \<and> b3 \<and> lastFeeOperation f = lastFeeOperation that
            \<and> timeOfLatestBlock f = timeOfLatestBlock that \<and> recoveryMode f = recoveryMode that))))"

definition minutesSince :: "int \<Rightarrow> int \<Rightarrow> int" where
  "minutesSince t0 t = max (t - t0) 0 div 60000"

definition baseRate :: "fees \<Rightarrow> int option \<Rightarrow> decimal res" where
  "baseRate f t =
     (let now = (case t of None \<Rightarrow> timeOfLatestBlock f | Some t \<Rightarrow> t)
      in bind_res (Decimal_pow (minuteDecayFactor f) (Integral (minutesSince (lastFeeOperation f) now)))
           (\<lambda>decay. Decimal_mul decay (DecimalV (baseRateWithoutDecay f))))"

definition borrowingRate :: "fees \<Rightarrow> int option \<Rightarrow> decimal res" where
  "borrowingRate f t =
     (if recoveryMode f then Inr ZERO
      else bind_res (baseRate f t) (\<lambda>b.
           bind_res (Decimal_add MINIMUM_BORROWING_RATE (DecimalV b)) (\<lambda>r.
             Decimal_min (DecimalV r) (DecimalV MAXIMUM_BORROWING_RATE))))"

definition redemptionRate :: "fees \<Rightarrow> decimalish \<Rightarrow> int option \<Rightarrow> decimal res" where
  "redemptionRate f redeemedFractionOfSupply t =
     bind_res (Decimal_from redeemedFractionOfSupply) (\<lambda>fraction.
     bind_res (baseRate f t) (\<lambda>base.
     bind_res (if Decimal_nonZero fraction \<noteq> None
               then bind_res (Decimal_div fraction (DecimalV (beta f)))
                      (\<lambda>q. Decimal_add q (DecimalV base))
               else Inr base) (\<lambda>base.
     bind_res (Decimal_add MINIMUM_REDEMPTION_RATE (DecimalV base)) (\<lambda>r.
       Decimal_min (DecimalV r) (DecimalV ONE)))))"

section \<open>The constants are what their literals read as\<close>

lemma literal_integer:
  "list_all is_digit c \<Longrightarrow> c \<noteq> [] \<Longrightarrow> Decimal_from (NumberV c) = Inr (Decimal (parse_nat c * 10 ^ 18))"
  by (simp add: fromString_integer DIGITS_eq)

lemma literal_fraction:
  "list_all is_digit c \<Longrightarrow> list_all is_digit m \<Longrightarrow> length m < 18 \<Longrightarrow>
   Decimal_from (NumberV (c @ CHR ''.'' # m)) =
     Inr (Decimal (parse_nat c * 10 ^ 18 + parse_nat m * 10 ^ (18 - length m)))"
  by (simp add: fromString_fraction fit_mantissa_def PRECISION_def parse_nat_append DIGITS_eq)

lemma constant_literals:
  "Decimal_from (NumberV ''0'') = Inr ZERO"
  "Decimal_from (NumberV ''1'') = Inr ONE"
  "Decimal_from (NumberV ''200'') = Inr LUSD_LIQUIDATION_RESERVE"
  "Decimal_from (NumberV ''1800'') = Inr LUSD_MINIMUM_NET_DEBT"
  "Decimal_from (NumberV ''0.5'') = Inr HALF"
  "Decimal_from (NumberV ''1.5'') = Inr CRITICAL_COLLATERAL_RATIO"
  "Decimal_from (NumberV ''1.1'') = Inr MINIMUM_COLLATERAL_RATIO"
  "Decimal_from (NumberV ''0.005'') = Inr MINIMUM_BORROWING_RATE"
  "Decimal_from (NumberV ''0.05'') = Inr MAXIMUM_BORROWING_RATE"
  using literal_integer [of "''0''"] literal_integer [of "''1''"] literal_integer [of "''200''"]
    literal_integer [of "''1800''"] literal_fraction [of "''0''" "''5''"]
    literal_fraction [of "''1''" "''5''"] literal_fraction [of "''1''" "''1''"]
    literal_fraction [of "''0''" "''005''"] literal_fraction [of "''0''" "''05''"]
  by (simp_all add: is_digit_def parse_nat_Cons char_digit_def constant_defs HALF_def ONE_def
      zero_decimal_def plus_decimal_def)

lemma MINIMUM_REDEMPTION_RATE_eq: "MINIMUM_REDEMPTION_RATE = MINIMUM_BORROWING_RATE"
  by (simp add: constant_defs)

section \<open>Fee objects\<close>

lemma new_Fees_simp [dec_simps]:
  "new_Fees (DecimalV base) (DecimalV factor) (DecimalV b) lastOp latestBlock recovery =
     (if factor < ONE
      then Inr \<lparr>baseRateWithoutDecay = base, minuteDecayFactor = factor, beta = b,
                lastFeeOperation = lastOp, timeOfLatestBlock = latestBlock, recoveryMode = recovery\<rparr>
      else Inl (AssertionError ''this._minuteDecayFactor.lt(1)''))"
  by (simp add: new_Fees_def Decimal_lt_def constant_literals less_decimal_def del: Decimal_from.simps(3))

lemma new_Fees_decay:
  "new_Fees base factor b lastOp latestBlock recovery = Inr f \<Longrightarrow> minuteDecayFactor f < ONE"
  by (auto simp: new_Fees_def Decimal_lt_def constant_literals bind_res_eq_Inr assert_res_def
      less_decimal_def simp del: Decimal_from.simps(3) split: if_splits)

lemma setRecoveryMode_simp:
  "minuteDecayFactor f < ONE \<Longrightarrow> setRecoveryMode f recovery = Inr (f\<lparr>recoveryMode := recovery\<rparr>)"
  by (simp add: setRecoveryMode_def dec_simps)

lemma Fees_equals_simp [dec_simps]: "Fees_equals f that = Inr (f = that)"
  by (auto simp: Fees_equals_def dec_simps)

lemma minutesSince_nonneg: "0 \<le> minutesSince t0 t"
  by (simp add: minutesSince_def)

lemma minutesSince_mono: "t \<le> u \<Longrightarrow> minutesSince t0 t \<le> minutesSince t0 u"
  by (auto simp: minutesSince_def intro: zdiv_mono1)

section \<open>The decayed base rate\<close>

abbreviation "now_of f t \<equiv> (case t of None \<Rightarrow> timeOfLatestBlock f | Some t \<Rightarrow> t)"

abbreviation "decay_minutes f t \<equiv> minutesSince (lastFeeOperation f) (now_of f t)"

definition decay_in_range :: "fees \<Rightarrow> int option \<Rightarrow> bool" where
  "decay_in_range f t \<longleftrightarrow> minuteDecayFactor f < ONE \<and> decay_minutes f t \<le> 0xffffffff"

lemma baseRate_ok:
  assumes "decay_in_range f t"
  obtains p where "baseRate f t = Inr (p * baseRateWithoutDecay f)"
    and "Decimal_pow (minuteDecayFactor f) (Integral (decay_minutes f t)) = Inr p"
    and "approx (real (bigNumber (minuteDecayFactor f)) / real DIGITS) (bigNumber p)
      (nat (decay_minutes f t))"
  using Decimal_pow_approx [of "minuteDecayFactor f" "decay_minutes f t"] assms
    minutesSince_nonneg [of "lastFeeOperation f" "now_of f t"]
  by (force simp: baseRate_def decay_in_range_def dec_simps)

lemma approx_le_ONE: "approx t (bigNumber p) k \<Longrightarrow> p \<le> ONE"
  by (simp add: approx_def decimal_order)

lemma baseRate_le:
  assumes "decay_in_range f t"
  obtains b where "baseRate f t = Inr b" and "b \<le> baseRateWithoutDecay f"
proof -
  obtain p where "baseRate f t = Inr (p * baseRateWithoutDecay f)" and "p \<le> ONE"
    using baseRate_ok [OF assms] approx_le_ONE by metis
  moreover have "p * baseRateWithoutDecay f \<le> ONE * baseRateWithoutDecay f"
    using \<open>p \<le> ONE\<close> by (intro decimal_mult_mono) simp_all
  ultimately show thesis using that by simp
qed

lemma decimal_mult_error:
  "real (bigNumber (a * b)) \<le> real (bigNumber a) * real (bigNumber b) / real DIGITS"
  "real (bigNumber a) * real (bigNumber b) / real DIGITS < real (bigNumber (a * b)) + 1"
proof -
  let ?n = "bigNumber a * bigNumber b"
  show "real (bigNumber (a * b)) \<le> real (bigNumber a) * real (bigNumber b) / real DIGITS"
    using of_nat_div_le_of_nat [of ?n DIGITS, where 'a = real] by simp
  have "real ?n < real ((?n div DIGITS + 1) * DIGITS)"
    using less_div_mult_add [of DIGITS ?n] by (simp only: of_nat_less_iff DIGITS_pos)
  then show "real (bigNumber a) * real (bigNumber b) / real DIGITS < real (bigNumber (a * b)) + 1"
    by (simp add: pos_divide_less_eq algebra_simps)
qed

lemma scaled_error:
  fixes p B T D e :: real
  assumes "\<bar>p - T * D\<bar> \<le> e" and "0 \<le> B" and "0 < D"
  shows "\<bar>p * B / D - T * B\<bar> \<le> e * B / D"
proof -
  have "p * B / D - T * B = (p - T * D) * (B / D)"
    using assms(3) by (simp add: field_simps)
  then have "\<bar>p * B / D - T * B\<bar> = \<bar>p - T * D\<bar> * (B / D)"
    using assms(2,3) by (simp add: abs_mult)
  also have "\<dots> \<le> e * (B / D)"
    using assms by (intro mult_right_mono) auto
  finally show ?thesis by simp
qed

text \<open>C7: whenever the minutes elapsed since the last fee operation fit the exponent range of
  \<open>pow\<close>, \<open>baseRate\<close> does not throw, never exceeds the undecayed rate, and is the undecayed rate
  times the decay factor to the number of whole minutes elapsed, up to one unit in the last place
  for the final truncation and half a unit per minute, scaled by the undecayed rate, for the
  roundings of \<open>pow\<close>.\<close>

theorem baseRate_decays:
  assumes "minuteDecayFactor f < ONE"
    and "minutesSince (lastFeeOperation f) (case t of None \<Rightarrow> timeOfLatestBlock f | Some t \<Rightarrow> t) = n"
    and "1 \<le> n" and "n \<le> 0xffffffff"
  shows "\<exists>b. baseRate f t = Inr b \<and> b \<le> baseRateWithoutDecay f
    \<and> \<bar>real (bigNumber b)
        - (real (bigNumber (minuteDecayFactor f)) / 10 ^ 18) ^ nat n
          * real (bigNumber (baseRateWithoutDecay f))\<bar>
       \<le> 1 + (real_of_int n - 1) / 2 * real (bigNumber (baseRateWithoutDecay f)) / 10 ^ 18"
proof -
  let ?B = "baseRateWithoutDecay f"
  let ?T = "(real (bigNumber (minuteDecayFactor f)) / real DIGITS) ^ nat n"
  have r: "decay_in_range f t"
    using assms by (simp add: decay_in_range_def)
  obtain p where b: "baseRate f t = Inr (p * ?B)"
    and a: "approx (real (bigNumber (minuteDecayFactor f)) / real DIGITS) (bigNumber p) (nat n)"
    using baseRate_ok [OF r] assms(2) by metis
  have "\<bar>real (bigNumber p) - ?T * real DIGITS\<bar> \<le> (real_of_int n - 1) / 2"
    using a assms(3) by (simp add: approx_def of_nat_diff)
  from scaled_error [OF this, of "real (bigNumber ?B)"]
  have "\<bar>real (bigNumber p) * real (bigNumber ?B) / real DIGITS - ?T * real (bigNumber ?B)\<bar>
      \<le> (real_of_int n - 1) / 2 * real (bigNumber ?B) / real DIGITS"
    by simp
  with decimal_mult_error [of p ?B]
  have "\<bar>real (bigNumber (p * ?B)) - ?T * real (bigNumber ?B)\<bar>
      \<le> 1 + (real_of_int n - 1) / 2 * real (bigNumber ?B) / real DIGITS"
    by linarith
  moreover have "p * ?B \<le> ?B"
    using baseRate_le [OF r] b by auto
  moreover have "real DIGITS = 10 ^ 18"
    by (simp add: DIGITS_eq)
  ultimately show ?thesis using b by (auto simp del: bigNumber_simps)
qed

definition example_fees :: fees where
  "example_fees =
     \<lparr>baseRateWithoutDecay = Decimal (10 ^ 16), minuteDecayFactor = Decimal 999037758833783000,
      beta = Decimal (2 * 10 ^ 18), lastFeeOperation = 0, timeOfLatestBlock = 300000,
      recoveryMode = False\<rparr>"

theorem baseRate_decays_witness:
  "\<exists>b. baseRate example_fees (Some 600000) = Inr b \<and> b \<le> baseRateWithoutDecay example_fees
    \<and> \<bar>real (bigNumber b)
        - (real (bigNumber (minuteDecayFactor example_fees)) / 10 ^ 18) ^ nat 10
          * real (bigNumber (baseRateWithoutDecay example_fees))\<bar>
       \<le> 1 + (real_of_int 10 - 1) / 2 * real (bigNumber (baseRateWithoutDecay example_fees)) / 10 ^ 18"
  by (rule baseRate_decays)
     (simp_all add: example_fees_def decimal_order DIGITS_eq minutesSince_def)

section \<open>Rates\<close>

lemma borrowingRate_closed:
  "borrowingRate f t =
     (if recoveryMode f then Inr 0
      else bind_res (baseRate f t)
             (\<lambda>b. Inr (min (MINIMUM_BORROWING_RATE + b) MAXIMUM_BORROWING_RATE)))"
  by (simp add: borrowingRate_def dec_simps)

lemma redemptionRate_closed:
  "redemptionRate f (DecimalV fraction) t =
     bind_res (baseRate f t) (\<lambda>b.
       Inr (min (MINIMUM_REDEMPTION_RATE +
                 (if fraction = 0 then b
                  else if beta f = 0 then INFINITY + b
                  else Decimal (bigNumber fraction * DIGITS div bigNumber (beta f)) + b)) ONE))"
  by (cases "baseRate f t") (simp_all add: redemptionRate_def dec_simps)

text \<open>C5: in recovery mode the borrowing rate is zero; otherwise, for every fee state the constructor
  accepts and every decay time in range, it is the minimum rate plus the decayed base rate, capped,
  and so lies between 0.5% and 5%, the cap being reached exactly when the decayed base rate is at
  least 4.5%.\<close>

theorem borrowingRate_bounds:
  assumes "new_Fees base factor b lastOp latestBlock recovery = Inr f"
    and "minutesSince (lastFeeOperation f) (case t of None \<Rightarrow> timeOfLatestBlock f | Some t \<Rightarrow> t)
      \<le> 0xffffffff"
  shows "\<exists>r br. borrowingRate f t = Inr r \<and> baseRate f t = Inr br
    \<and> (if recovery then r = 0
       else Decimal (5 * 10 ^ 15) \<le> r \<and> r \<le> Decimal (5 * 10 ^ 16)
         \<and> (r = Decimal (5 * 10 ^ 16) \<longleftrightarrow> Decimal (45 * 10 ^ 15) \<le> br)
         \<and> (r < Decimal (5 * 10 ^ 16) \<longrightarrow> r = Decimal (5 * 10 ^ 15) + br))"
proof -
  have f: "minuteDecayFactor f < ONE" "recoveryMode f = recovery"
    using assms(1) new_Fees_decay by (auto simp: new_Fees_def bind_res_eq_Inr)
  obtain br where br: "baseRate f t = Inr br"
    using baseRate_le [of f t] f assms(2) by (auto simp: decay_in_range_def)
  let ?r = "if recovery then 0 else min (MINIMUM_BORROWING_RATE + br) MAXIMUM_BORROWING_RATE"
  have "borrowingRate f t = Inr ?r"
    using f br by (simp add: borrowingRate_closed)
  with br show ?thesis
    by (intro exI [of _ ?r] exI [of _ br])
       (auto simp: constant_defs less_eq_decimal_def less_decimal_def decimal_eq_iff min_def)
qed

theorem borrowingRate_bounds_witness:
  "\<exists>r br. borrowingRate example_fees None = Inr r \<and> baseRate example_fees None = Inr br
    \<and> (if False then r = 0
       else Decimal (5 * 10 ^ 15) \<le> r \<and> r \<le> Decimal (5 * 10 ^ 16)
         \<and> (r = Decimal (5 * 10 ^ 16) \<longleftrightarrow> Decimal (45 * 10 ^ 15) \<le> br)
         \<and> (r < Decimal (5 * 10 ^ 16) \<longrightarrow> r = Decimal (5 * 10 ^ 15) + br))"
  by (rule borrowingRate_bounds [of "DecimalV (Decimal (10 ^ 16))"
        "DecimalV (Decimal 999037758833783000)" "DecimalV (Decimal (2 * 10 ^ 18))" 0 300000])
     (simp_all add: dec_simps example_fees_def decimal_order DIGITS_eq minutesSince_def)

lemma redemption_offset_mono:
  "a \<le> b \<Longrightarrow> min (m + (a::decimal)) c \<le> min (m + b) c"
  by (auto simp: min_def decimal_order)

text \<open>The redemption rate never throws in range, lies between 0.5% and 100% whatever fraction
  of the supply is redeemed (also when \<open>beta\<close> is zero, where the quotient is the infinite decimal),
  and does not fall when the redeemed fraction grows.\<close>

theorem redemptionRate_bounds_mono:
  assumes "minuteDecayFactor f < ONE"
    and "minutesSince (lastFeeOperation f) (case t of None \<Rightarrow> timeOfLatestBlock f | Some t \<Rightarrow> t)
      \<le> 0xffffffff"
    and "x \<le> y"
  shows "\<exists>r s. redemptionRate f (DecimalV x) t = Inr r \<and> redemptionRate f (DecimalV y) t = Inr s
    \<and> Decimal (5 * 10 ^ 15) \<le> r \<and> r \<le> s \<and> s \<le> ONE"
proof -
  obtain b where b: "baseRate f t = Inr b"
    using baseRate_le [of f t] assms by (auto simp: decay_in_range_def)
  have mono: "bigNumber x * DIGITS div bigNumber (beta f) \<le> bigNumber y * DIGITS div bigNumber (beta f)"
    using assms(3) by (simp add: decimal_order div_le_mono)
  have zero: "y = 0 \<Longrightarrow> x = 0"
    using assms(3) by (simp add: decimal_order)
  show ?thesis
    using b zero mono
    by (auto simp: redemptionRate_closed intro!: redemption_offset_mono)
       (auto simp: decimal_order MINIMUM_REDEMPTION_RATE_def DIGITS_eq min_def)
qed

theorem redemptionRate_bounds_mono_witness:
  "\<exists>r s. redemptionRate example_fees (DecimalV HALF) None = Inr r
    \<and> redemptionRate example_fees (DecimalV ONE) None = Inr s
    \<and> Decimal (5 * 10 ^ 15) \<le> r \<and> r \<le> s \<and> s \<le> ONE"
  by (rule redemptionRate_bounds_mono)
     (simp_all add: example_fees_def decimal_order DIGITS_eq minutesSince_def HALF_def)

end
