(* ===== verification/Trove.thy ===== *)
theory Trove
  imports Fees
begin

text \<open>
  \<^verbatim>\<open>packages/lib-base/src/Trove.ts\<close>: Troves, the classification of a change between two Troves
  (\<open>whatChanged\<close>), its application (\<open>apply\<close>), the normalisation of user-given parameters, and the
  Troves with a pending redistribution. The classes \<open>Trove\<close>, \<open>UserTrove\<close> and
  \<open>TroveWithPendingRedistribution\<close> are records that extend one another; an object of parameters
  given by the caller is the list of its entries in enumeration order (\<open>None\<close> is \<open>undefined\<close>).
\<close>

section \<open>Changes and their parameters\<close>

record trove =
  collateral :: decimal
  debt :: decimal

definition emptyTrove :: trove where
  "emptyTrove = \<lparr>collateral = ZERO, debt = ZERO\<rparr>"

datatype collateral_change = DepositCollateral decimal | WithdrawCollateral decimal

datatype debt_change = BorrowLUSD decimal | RepayLUSD decimal

record creation_params =
  depositCollateral :: decimal
  borrowLUSD :: decimal

record closure_params =
  withdrawCollateral :: decimal
  repayLUSD :: "decimal option"

datatype adjustment_params =
    CollateralOnly collateral_change
  | DebtOnly debt_change
  | CollateralAndDebt collateral_change debt_change

datatype trove_creation_error = MissingLiquidationReserve

datatype zeroed = ZeroCollateral | ZeroDebt

datatype trove_change =
    InvalidCreation trove trove_creation_error
  | Creation creation_params
  | Closure closure_params
  | Adjustment adjustment_params "zeroed option"

section \<open>Normalisation of parameters\<close>

type_synonym 'a entries = "(string \<times> 'a) list"

definition quoted :: "string \<Rightarrow> string" where
  "quoted k = [CHR 0x27] @ k @ [CHR 0x27]"

definition definedEntries :: "'a option entries \<Rightarrow> 'a entries" where
  "definedEntries es = [(k, v). (k, Some v) \<leftarrow> es]"

definition fromEntries :: "'a entries \<Rightarrow> string \<rightharpoonup> 'a" where
  "fromEntries es = map_of (rev es)"

definition decimalize :: "string \<times> decimalish \<Rightarrow> (string \<times> decimal) res" where
  "decimalize e = bind_res (Decimal_from (snd e)) (\<lambda>d. Inr (fst e, d))"

definition allowedTroveCreationKeys :: "string list" where
  "allowedTroveCreationKeys = [''depositCollateral'', ''borrowLUSD'']"

definition checkAllowedTroveCreationKeys :: "'a entries \<Rightarrow> unit res" where
  "checkAllowedTroveCreationKeys es =
     (let badKeys = map quoted (filter (\<lambda>k. k \<notin> set allowedTroveCreationKeys) (map fst es))
      in if badKeys \<noteq> []
         then Inl (Error (''TroveCreationParams: property '' @ join_strings '', '' badKeys
                          @ '' not allowed''))
         else Inr ())"

definition troveCreationParamsFromEntries :: "decimal entries \<Rightarrow> creation_params res" where
  "troveCreationParamsFromEntries es =
     (let params = fromEntries es;
          missingKeys = map quoted (filter (\<lambda>k. params k = None) allowedTroveCreationKeys)
      in case (params ''depositCollateral'', params ''borrowLUSD'') of
           (Some c, Some b) \<Rightarrow> Inr \<lparr>depositCollateral = c, borrowLUSD = b\<rparr>
         | _ \<Rightarrow> Inl (Error (''TroveCreationParams: property '' @ join_strings '', '' missingKeys
                             @ '' missing'')))"

definition normalizeTroveCreation :: "decimalish option entries \<Rightarrow> creation_params res" where
  "normalizeTroveCreation params =
     (let es = definedEntries params
      in bind_res (checkAllowedTroveCreationKeys es) (\<lambda>_.
         bind_res (map_res decimalize es) (\<lambda>nonZeroEntries.
           troveCreationParamsFromEntries nonZeroEntries)))"

definition allowedTroveAdjustmentKeys :: "string list" where
  "allowedTroveAdjustmentKeys =
     [''depositCollateral'', ''withdrawCollateral'', ''borrowLUSD'', ''repayLUSD'']"

definition checkAllowedTroveAdjustmentKeys :: "'a entries \<Rightarrow> unit res" where
  "checkAllowedTroveAdjustmentKeys es =
     (let badKeys = map quoted (filter (\<lambda>k. k \<notin> set allowedTroveAdjustmentKeys) (map fst es))
      in if badKeys \<noteq> []
         then Inl (Error (''TroveAdjustmentParams: property '' @ join_strings '', '' badKeys
                          @ '' not allowed''))
         else Inr ())"

definition collateralChangeFrom ::
  "(string \<rightharpoonup> decimal) \<Rightarrow> collateral_change option res" where
  "collateralChangeFrom params =
     (case (params ''depositCollateral'', params ''withdrawCollateral'') of
        (Some _, Some _) \<Rightarrow>
          Inl (Error (''TroveAdjustmentParams: '' @ quoted ''depositCollateral'' @ '' and ''
                      @ quoted ''withdrawCollateral'' @ '' can'' @ [CHR 0x27]
                      @ ''t be present at the same time''))
      | (Some d, None) \<Rightarrow> Inr (Some (DepositCollateral d))
      | (None, Some w) \<Rightarrow> Inr (Some (WithdrawCollateral w))
      | (None, None) \<Rightarrow> Inr None)"

definition debtChangeFrom :: "(string \<rightharpoonup> decimal) \<Rightarrow> debt_change option res" where
  "debtChangeFrom params =
     (case (params ''borrowLUSD'', params ''repayLUSD'') of
        (Some _, Some _) \<Rightarrow>
          Inl (Error (''TroveAdjustmentParams: '' @ quoted ''borrowLUSD'' @ '' and ''
                      @ quoted ''repayLUSD'' @ '' can'' @ [CHR 0x27]
                      @ ''t be present at the same time''))
      | (Some b, None) \<Rightarrow> Inr (Some (BorrowLUSD b))
      | (None, Some r) \<Rightarrow> Inr (Some (RepayLUSD r))
      | (None, None) \<Rightarrow> Inr None)"

definition troveAdjustmentParamsFromEntries :: "decimal entries \<Rightarrow> adjustment_params res" where
  "troveAdjustmentParamsFromEntries es =
     (let params = fromEntries es
      in bind_res (collateralChangeFrom params) (\<lambda>collateralChange.
         bind_res (debtChangeFrom params) (\<lambda>debtChange.
           case (collateralChange, debtChange) of
             (Some c, Some d) \<Rightarrow> Inr (CollateralAndDebt c d)
           | (Some c, None) \<Rightarrow> Inr (CollateralOnly c)
           | (None, Some d) \<Rightarrow> Inr (DebtOnly d)
           | (None, None) \<Rightarrow>
               Inl (Error ''TroveAdjustmentParams: must include at least one non-zero parameter''))))"

definition normalizeTroveAdjustment :: "decimalish option entries \<Rightarrow> adjustment_params res" where
  "normalizeTroveAdjustment params =
     (let es = definedEntries params
      in bind_res (checkAllowedTroveAdjustmentKeys es) (\<lambda>_.
         bind_res (map_res decimalize es) (\<lambda>decimals.
           troveAdjustmentParamsFromEntries (filter (\<lambda>(k, v). \<not> Decimal_isZero v) decimals))))"

section \<open>Troves\<close>

definition applyFee :: "decimalish \<Rightarrow> decimal \<Rightarrow> decimal res" where
  "applyFee rate debtIncrease =
     bind_res (Decimal_add ONE rate) (\<lambda>f. Decimal_mul debtIncrease (DecimalV f))"

definition unapplyFee :: "decimalish \<Rightarrow> decimal \<Rightarrow> decimal res" where
  "unapplyFee rate debtIncrease =
     bind_res (Decimal_add ONE rate) (\<lambda>f. Decimal_divCeil debtIncrease (DecimalV f))"

definition NOMINAL_COLLATERAL_RATIO_PRECISION :: decimal where
  "NOMINAL_COLLATERAL_RATIO_PRECISION = Decimal (100 * 10 ^ 18)"

definition Trove_isEmpty :: "'a trove_scheme \<Rightarrow> bool" where
  "Trove_isEmpty t \<longleftrightarrow> Decimal_isZero (collateral t) \<and> Decimal_isZero (debt t)"

definition netDebt :: "'a trove_scheme \<Rightarrow> decimal res" where
  "netDebt t =
     bind_res (Decimal_lt (debt t) (DecimalV LUSD_LIQUIDATION_RESERVE)) (\<lambda>b.
       if b then bind_res (Decimal_toString LUSD_LIQUIDATION_RESERVE None)
                   (\<lambda>s. Inl (Error (''netDebt should not be used when debt < '' @ s)))
       else Decimal_sub (debt t) (DecimalV LUSD_LIQUIDATION_RESERVE))"

definition nominalCollateralRatio :: "'a trove_scheme \<Rightarrow> decimal res" where
  "nominalCollateralRatio t =
     Decimal_mulDiv (collateral t) (DecimalV NOMINAL_COLLATERAL_RATIO_PRECISION) (DecimalV (debt t))"

definition collateralRatio :: "'a trove_scheme \<Rightarrow> decimalish \<Rightarrow> decimal res" where
  "collateralRatio t price = Decimal_mulDiv (collateral t) price (DecimalV (debt t))"

definition collateralRatioIsBelowMinimum :: "'a trove_scheme \<Rightarrow> decimalish \<Rightarrow> bool res" where
  "collateralRatioIsBelowMinimum t price =
     bind_res (collateralRatio t price) (\<lambda>r. Decimal_lt r (DecimalV MINIMUM_COLLATERAL_RATIO))"

definition collateralRatioIsBelowCritical :: "'a trove_scheme \<Rightarrow> decimalish \<Rightarrow> bool res" where
  "collateralRatioIsBelowCritical t price =
     bind_res (collateralRatio t price) (\<lambda>r. Decimal_lt r (DecimalV CRITICAL_COLLATERAL_RATIO))"

definition isOpenableInRecoveryMode :: "'a trove_scheme \<Rightarrow> decimalish \<Rightarrow> bool res" where
  "isOpenableInRecoveryMode t price =
     bind_res (collateralRatio t price) (\<lambda>r. Decimal_gte r (DecimalV CRITICAL_COLLATERAL_RATIO))"

definition Trove_toString :: "'a trove_scheme \<Rightarrow> string res" where
  "Trove_toString t =
     bind_res (Decimal_toString (collateral t) None) (\<lambda>c.
     bind_res (Decimal_toString (debt t) None) (\<lambda>d.
       Inr (''{ collateral: '' @ c @ '', debt: '' @ d @ '' }'')))"

definition Trove_equals :: "'a trove_scheme \<Rightarrow> 'b trove_scheme \<Rightarrow> bool res" where
  "Trove_equals t that =
     bind_res (Decimal_eq (collateral t) (DecimalV (collateral that))) (\<lambda>c.
     bind_res (Decimal_eq (debt t) (DecimalV (debt that))) (\<lambda>d. Inr (c \<and> d)))"

definition Trove_add :: "'a trove_scheme \<Rightarrow> 'b trove_scheme \<Rightarrow> trove res" where
  "Trove_add t that =
     bind_res (Decimal_add (collateral t) (DecimalV (collateral that))) (\<lambda>c.
     bind_res (Decimal_add (debt t) (DecimalV (debt that))) (\<lambda>d.
       Inr \<lparr>collateral = c, debt = d\<rparr>))"

definition addCollateral :: "'a trove_scheme \<Rightarrow> decimalish \<Rightarrow> trove res" where
  "addCollateral t c =
     bind_res (Decimal_add (collateral t) c) (\<lambda>c. Inr \<lparr>collateral = c, debt = debt t\<rparr>)"

definition addDebt :: "'a trove_scheme \<Rightarrow> decimalish \<Rightarrow> trove res" where
  "addDebt t d =
     bind_res (Decimal_add (debt t) d) (\<lambda>d. Inr \<lparr>collateral = collateral t, debt = d\<rparr>)"

text \<open>\<open>x.gt(y) ? x.sub(y) : Decimal.ZERO\<close>, the shape \<open>subtract\<close>, \<open>subtractCollateral\<close> and
  \<open>subtractDebt\<close> share.\<close>

definition sub_or_zero :: "decimal \<Rightarrow> decimalish \<Rightarrow> decimal res" where
  "sub_or_zero x y = bind_res (Decimal_gt x y) (\<lambda>g. if g then Decimal_sub x y else Inr ZERO)"

definition Trove_subtract :: "'a trove_scheme \<Rightarrow> 'b trove_scheme \<Rightarrow> trove res" where
  "Trove_subtract t that =
     bind_res (sub_or_zero (collateral t) (DecimalV (collateral that))) (\<lambda>c.
     bind_res (sub_or_zero (debt t) (DecimalV (debt that))) (\<lambda>d.
       Inr \<lparr>collateral = c, debt = d\<rparr>))"

definition subtractCollateral :: "'a trove_scheme \<Rightarrow> decimalish \<Rightarrow> trove res" where
  "subtractCollateral t c =
     bind_res (sub_or_zero (collateral t) c) (\<lambda>c. Inr \<lparr>collateral = c, debt = debt t\<rparr>)"

definition subtractDebt :: "'a trove_scheme \<Rightarrow> decimalish \<Rightarrow> trove res" where
  "subtractDebt t d =
     bind_res (sub_or_zero (debt t) d) (\<lambda>d. Inr \<lparr>collateral = collateral t, debt = d\<rparr>)"

definition Trove_multiply :: "'a trove_scheme \<Rightarrow> decimalish \<Rightarrow> trove res" where
  "Trove_multiply t multiplier =
     bind_res (Decimal_mul (collateral t) multiplier) (\<lambda>c.
     bind_res (Decimal_mul (debt t) multiplier) (\<lambda>d. Inr \<lparr>collateral = c, debt = d\<rparr>))"

definition setCollateral :: "'a trove_scheme \<Rightarrow> decimalish \<Rightarrow> trove res" where
  "setCollateral t c =
     bind_res (Decimal_from c) (\<lambda>c. Inr \<lparr>collateral = c, debt = debt t\<rparr>)"

definition setDebt :: "'a trove_scheme \<Rightarrow> decimalish \<Rightarrow> trove res" where
  "setDebt t d =
     bind_res (Decimal_from d) (\<lambda>d. Inr \<lparr>collateral = collateral t, debt = d\<rparr>)"

section \<open>Changes between Troves\<close>

definition debtChange ::
  "'a trove_scheme \<Rightarrow> 'b trove_scheme \<Rightarrow> decimalish \<Rightarrow> debt_change res" where
  "debtChange t that rate =
     bind_res (Decimal_gt (debt that) (DecimalV (debt t))) (\<lambda>g.
       if g then bind_res (Decimal_sub (debt that) (DecimalV (debt t))) (\<lambda>x.
                 bind_res (unapplyFee rate x) (\<lambda>b. Inr (BorrowLUSD b)))
       else bind_res (Decimal_sub (debt t) (DecimalV (debt that))) (\<lambda>x. Inr (RepayLUSD x)))"

definition collateralChange ::
  "'a trove_scheme \<Rightarrow> 'b trove_scheme \<Rightarrow> collateral_change res" where
  "collateralChange t that =
     bind_res (Decimal_gt (collateral that) (DecimalV (collateral t))) (\<lambda>g.
       if g then bind_res (Decimal_sub (collateral that) (DecimalV (collateral t)))
                   (\<lambda>x. Inr (DepositCollateral x))
       else bind_res (Decimal_sub (collateral t) (DecimalV (collateral that)))
              (\<lambda>x. Inr (WithdrawCollateral x)))"

definition zero_debt :: "'a trove_scheme \<Rightarrow> zeroed option" where
  "zero_debt that = (if Decimal_zero (debt that) \<noteq> None then Some ZeroDebt else None)"

definition zero_collateral :: "'a trove_scheme \<Rightarrow> zeroed option" where
  "zero_collateral that =
     (if Decimal_zero (collateral that) \<noteq> None then Some ZeroCollateral else None)"

definition whatChanged ::
  "'a trove_scheme \<Rightarrow> trove \<Rightarrow> decimalish \<Rightarrow> trove_change option res" where
  "whatChanged t that rate =
     bind_res (Decimal_eq (collateral t) (DecimalV (collateral that))) (\<lambda>sameCollateral.
     bind_res (Decimal_eq (debt t) (DecimalV (debt that))) (\<lambda>sameDebt.
       if sameCollateral \<and> sameDebt then Inr None
       else if Trove_isEmpty t then
         bind_res (Decimal_lt (debt that) (DecimalV LUSD_LIQUIDATION_RESERVE)) (\<lambda>missing.
           if missing then Inr (Some (InvalidCreation that MissingLiquidationReserve))
           else bind_res (netDebt that) (\<lambda>n.
                bind_res (unapplyFee rate n) (\<lambda>b.
                  Inr (Some (Creation \<lparr>depositCollateral = collateral that, borrowLUSD = b\<rparr>)))))
       else if Trove_isEmpty that then
         bind_res (netDebt t) (\<lambda>n.
           Inr (Some (Closure
             (if Decimal_nonZero n \<noteq> None
              then \<lparr>withdrawCollateral = collateral t, repayLUSD = Some n\<rparr>
              else \<lparr>withdrawCollateral = collateral t, repayLUSD = None\<rparr>))))
       else if sameCollateral then
         bind_res (debtChange t that rate) (\<lambda>d.
           Inr (Some (Adjustment (DebtOnly d) (zero_debt that))))
       else if sameDebt then
         bind_res (collateralChange t that) (\<lambda>c.
           Inr (Some (Adjustment (CollateralOnly c) (zero_collateral that))))
       else
         bind_res (debtChange t that rate) (\<lambda>d.
         bind_res (collateralChange t that) (\<lambda>c.
           Inr (Some (Adjustment (CollateralAndDebt c d)
             (case zero_debt that of Some z \<Rightarrow> Some z | None \<Rightarrow> zero_collateral that)))))))"

fun collateral_of :: "adjustment_params \<Rightarrow> collateral_change option" where
  "collateral_of (CollateralOnly c) = Some c"
| "collateral_of (DebtOnly d) = None"
| "collateral_of (CollateralAndDebt c d) = Some c"

fun debt_of :: "adjustment_params \<Rightarrow> debt_change option" where
  "debt_of (CollateralOnly c) = None"
| "debt_of (DebtOnly d) = Some d"
| "debt_of (CollateralAndDebt c d) = Some d"

definition applyAdjustment ::
  "'a trove_scheme \<Rightarrow> adjustment_params \<Rightarrow> zeroed option \<Rightarrow> decimalish \<Rightarrow> trove res" where
  "applyAdjustment t params setToZero rate =
     (let collateralDecrease =
            (case collateral_of params of Some (WithdrawCollateral x) \<Rightarrow> x | _ \<Rightarrow> ZERO);
          collateralIncrease =
            (case collateral_of params of Some (DepositCollateral x) \<Rightarrow> x | _ \<Rightarrow> ZERO);
          debtDecrease = (case debt_of params of Some (RepayLUSD x) \<Rightarrow> x | _ \<Rightarrow> ZERO)
      in bind_res (case debt_of params of Some (BorrowLUSD x) \<Rightarrow> applyFee rate x | _ \<Rightarrow> Inr ZERO)
           (\<lambda>debtIncrease.
             case setToZero of
               Some ZeroCollateral \<Rightarrow>
                 bind_res (setCollateral t (DecimalV ZERO)) (\<lambda>t1.
                 bind_res (addDebt t1 (DecimalV debtIncrease)) (\<lambda>t2.
                   subtractDebt t2 (DecimalV debtDecrease)))
             | Some ZeroDebt \<Rightarrow>
                 bind_res (setDebt t (DecimalV ZERO)) (\<lambda>t1.
                 bind_res (addCollateral t1 (DecimalV collateralIncrease)) (\<lambda>t2.
                   subtractCollateral t2 (DecimalV collateralDecrease)))
             | None \<Rightarrow>
                 bind_res (Trove_add t \<lparr>collateral = collateralIncrease, debt = debtIncrease\<rparr>)
                   (\<lambda>t1. Trove_subtract t1
                      \<lparr>collateral = collateralDecrease, debt = debtDecrease\<rparr>)))"

definition Trove_apply ::
  "'a trove_scheme \<Rightarrow> trove_change option \<Rightarrow> decimalish \<Rightarrow> trove res" where
  "Trove_apply t change rate =
     (case change of
        None \<Rightarrow> Inr (trove.truncate t)
      | Some (InvalidCreation invalidTrove e) \<Rightarrow>
          if \<not> Trove_isEmpty t then Inl (Error (''Can'' @ [CHR 0x27] @ ''t create onto existing Trove''))
          else Inr invalidTrove
      | Some (Creation params) \<Rightarrow>
          if \<not> Trove_isEmpty t then Inl (Error (''Can'' @ [CHR 0x27] @ ''t create onto existing Trove''))
          else bind_res (applyFee rate (borrowLUSD params)) (\<lambda>d.
               bind_res (Decimal_add LUSD_LIQUIDATION_RESERVE (DecimalV d)) (\<lambda>d.
                 Inr \<lparr>collateral = depositCollateral params, debt = d\<rparr>))
      | Some (Closure params) \<Rightarrow>
          if Trove_isEmpty t then Inl (Error (''Can'' @ [CHR 0x27] @ ''t close empty Trove''))
          else Inr emptyTrove
      | Some (Adjustment params setToZero) \<Rightarrow> applyAdjustment t params setToZero rate)"

definition default_rate :: "decimalish option \<Rightarrow> decimalish" where
  "default_rate rate = (case rate of None \<Rightarrow> DecimalV MINIMUM_BORROWING_RATE | Some r \<Rightarrow> r)"

definition Trove_create :: "decimalish option entries \<Rightarrow> decimalish option \<Rightarrow> trove res" where
  "Trove_create params rate =
     bind_res (normalizeTroveCreation params) (\<lambda>p.
       Trove_apply emptyTrove (Some (Creation p)) (default_rate rate))"

definition Trove_recreate :: "trove \<Rightarrow> decimalish option \<Rightarrow> creation_params res" where
  "Trove_recreate that rate =
     bind_res (whatChanged emptyTrove that (default_rate rate)) (\<lambda>change.
       case change of
         Some (Creation p) \<Rightarrow> Inr p
       | _ \<Rightarrow> Inl (AssertionError (''change?.type === '' @ [CHR 0x22] @ ''creation'' @ [CHR 0x22])))"

definition Trove_adjust ::
  "'a trove_scheme \<Rightarrow> decimalish option entries \<Rightarrow> decimalish option \<Rightarrow> trove res" where
  "Trove_adjust t params rate =
     bind_res (normalizeTroveAdjustment params) (\<lambda>p.
       Trove_apply t (Some (Adjustment p None)) (default_rate rate))"

definition Trove_adjustTo ::
  "'a trove_scheme \<Rightarrow> trove \<Rightarrow> decimalish option \<Rightarrow> adjustment_params res" where
  "Trove_adjustTo t that rate =
     bind_res (whatChanged t that (default_rate rate)) (\<lambda>change.
       case change of
         Some (Adjustment p z) \<Rightarrow> Inr p
       | _ \<Rightarrow> Inl (AssertionError (''change?.type === '' @ [CHR 0x22] @ ''adjustment'' @ [CHR 0x22])))"

section \<open>Troves of users\<close>

datatype user_trove_status =
    NonExistent | Open | ClosedByOwner | ClosedByLiquidation | ClosedByRedemption

fun show_status :: "user_trove_status \<Rightarrow> string" where
  "show_status NonExistent = ''nonExistent''"
| "show_status Open = ''open''"
| "show_status ClosedByOwner = ''closedByOwner''"
| "show_status ClosedByLiquidation = ''closedByLiquidation''"
| "show_status ClosedByRedemption = ''closedByRedemption''"

record user_trove = trove +
  ownerAddress :: string
  status :: user_trove_status

record pending_trove = user_trove +
  stake :: decimal
  snapshotOfTotalRedistributed :: trove

definition UserTrove_equals ::
  "'a user_trove_scheme \<Rightarrow> 'b user_trove_scheme \<Rightarrow> bool res" where
  "UserTrove_equals t that =
     bind_res (Trove_equals t that) (\<lambda>b.
       Inr (b \<and> ownerAddress t = ownerAddress that \<and> status t = status that))"

definition UserTrove_toString :: "'a user_trove_scheme \<Rightarrow> string res" where
  "UserTrove_toString t =
     bind_res (Decimal_toString (collateral t) None) (\<lambda>c.
     bind_res (Decimal_toString (debt t) None) (\<lambda>d.
       Inr (''{ ownerAddress: '' @ [CHR 0x22] @ ownerAddress t @ [CHR 0x22] @ '', collateral: '' @ c
            @ '', debt: '' @ d @ '', status: '' @ [CHR 0x22] @ show_status (status t) @ [CHR 0x22]
            @ '' }'')))"

definition applyRedistribution ::
  "'a pending_trove_scheme \<Rightarrow> trove \<Rightarrow> user_trove res" where
  "applyRedistribution t totalRedistributed =
     bind_res (Trove_subtract totalRedistributed (snapshotOfTotalRedistributed t)) (\<lambda>x.
     bind_res (Trove_multiply x (DecimalV (stake t))) (\<lambda>y.
     bind_res (Trove_add t y) (\<lambda>afterRedistribution.
       Inr \<lparr>collateral = collateral afterRedistribution, debt = debt afterRedistribution,
            ownerAddress = ownerAddress t, status = status t\<rparr>)))"

definition TroveWithPendingRedistribution_equals ::
  "'a pending_trove_scheme \<Rightarrow> 'b pending_trove_scheme \<Rightarrow> bool res" where
  "TroveWithPendingRedistribution_equals t that =
     bind_res (UserTrove_equals t that) (\<lambda>b1.
     bind_res (Decimal_eq (stake t) (DecimalV (stake that))) (\<lambda>b2.
     bind_res (Trove_equals (snapshotOfTotalRedistributed t) (snapshotOfTotalRedistributed that))
       (\<lambda>b3. Inr (b1 \<and> b2 \<and> b3))))"

end
