(* ===== verification/Trove_Change.thy ===== *)
theory Trove_Change
  imports Trove
begin

text \<open>
  Properties of Troves: closed forms of their operations, the rounding of the borrowing fee, what
  \<open>apply\<close> makes of the change \<open>whatChanged\<close> found, the normalisation of parameters, collateral
  ratios and redistributions.
\<close>

section \<open>Closed forms\<close>

lemma emptyTrove_simps [simp]: "collateral emptyTrove = 0" "debt emptyTrove = 0"
  by (simp_all add: emptyTrove_def)

lemma isEmpty_iff [simp]: "Trove_isEmpty t \<longleftrightarrow> collateral t = 0 \<and> debt t = 0"
  by (simp add: Trove_isEmpty_def)

lemma trove_eq_iff: "(t::trove) = u \<longleftrightarrow> collateral t = collateral u \<and> debt t = debt u"
  by (cases t; cases u) simp

lemma sub_or_zero_simp [dec_simps]: "sub_or_zero x (DecimalV y) = Inr (x - y)"
  by (auto simp: sub_or_zero_def dec_simps decimal_order)

lemma Trove_arith_simps [dec_simps]:
  "Trove_add t u = Inr \<lparr>collateral = collateral t + collateral u, debt = debt t + debt u\<rparr>"
  "Trove_subtract t u = Inr \<lparr>collateral = collateral t - collateral u, debt = debt t - debt u\<rparr>"
  "Trove_multiply t (DecimalV m) = Inr \<lparr>collateral = collateral t * m, debt = debt t * m\<rparr>"
  "addCollateral t (DecimalV x) = Inr \<lparr>collateral = collateral t + x, debt = debt t\<rparr>"
  "addDebt t (DecimalV x) = Inr \<lparr>collateral = collateral t, debt = debt t + x\<rparr>"
  "subtractCollateral t (DecimalV x) = Inr \<lparr>collateral = collateral t - x, debt = debt t\<rparr>"
  "subtractDebt t (DecimalV x) = Inr \<lparr>collateral = collateral t, debt = debt t - x\<rparr>"
  "setCollateral t (DecimalV x) = Inr \<lparr>collateral = x, debt = debt t\<rparr>"
  "setDebt t (DecimalV x) = Inr \<lparr>collateral = collateral t, debt = x\<rparr>"
  "Trove_equals t u = Inr (collateral t = collateral u \<and> debt t = debt u)"
  by (simp_all add: Trove_add_def Trove_subtract_def Trove_multiply_def addCollateral_def addDebt_def
      subtractCollateral_def subtractDebt_def setCollateral_def setDebt_def Trove_equals_def dec_simps)

lemma netDebt_simp:
  "LUSD_LIQUIDATION_RESERVE \<le> debt t \<Longrightarrow> netDebt t = Inr (debt t - LUSD_LIQUIDATION_RESERVE)"
  by (simp add: netDebt_def dec_simps leD)

definition feeFactor :: "decimal \<Rightarrow> nat" where
  "feeFactor rate = DIGITS + bigNumber rate"

lemma feeFactor_pos [simp]: "0 < feeFactor rate" "feeFactor rate \<noteq> 0"
  by (simp_all add: feeFactor_def)

definition withFee :: "decimal \<Rightarrow> decimal \<Rightarrow> decimal" where
  "withFee rate x = Decimal (bigNumber x * feeFactor rate div DIGITS)"

definition withoutFee :: "decimal \<Rightarrow> decimal \<Rightarrow> decimal" where
  "withoutFee rate x = Decimal ((bigNumber x * DIGITS + (feeFactor rate - 1)) div feeFactor rate)"

lemma fee_simps [dec_simps]:
  "applyFee (DecimalV rate) x = Inr (withFee rate x)"
  "unapplyFee (DecimalV rate) x = Inr (withoutFee rate x)"
  by (simp_all add: applyFee_def unapplyFee_def dec_simps withFee_def withoutFee_def feeFactor_def
      decimal_eq_iff)

section \<open>Rounding of the borrowing fee\<close>

lemma withFee_withoutFee_ge: "x \<le> withFee rate (withoutFee rate x)"
proof -
  let ?c = "bigNumber (withoutFee rate x)"
  have "bigNumber x * DIGITS \<le> ?c * feeFactor rate"
    using ceil_div_bounds(1) [of "feeFactor rate" "bigNumber x * DIGITS"]
    by (simp add: withoutFee_def)
  then have "bigNumber x * DIGITS div DIGITS \<le> ?c * feeFactor rate div DIGITS"
    by (rule div_le_mono)
  then show ?thesis
    by (simp add: withFee_def decimal_order)
qed

lemma withFee_withoutFee_less:
  "bigNumber (withFee rate (withoutFee rate x) - x) * DIGITS < feeFactor rate"
proof -
  let ?c = "bigNumber (withoutFee rate x)"
  have "?c * feeFactor rate \<le> bigNumber x * DIGITS + (feeFactor rate - 1)"
    using ceil_div_bounds(2) [of "feeFactor rate" "bigNumber x * DIGITS"]
    by (simp add: withoutFee_def)
  moreover have "bigNumber (withFee rate (withoutFee rate x)) * DIGITS \<le> ?c * feeFactor rate"
    by (simp add: withFee_def)
  moreover have "0 < feeFactor rate"
    by simp
  ultimately have "bigNumber (withFee rate (withoutFee rate x)) * DIGITS
      < bigNumber x * DIGITS + feeFactor rate"
    by linarith
  then have "bigNumber (withFee rate (withoutFee rate x)) * DIGITS - bigNumber x * DIGITS
      < feeFactor rate"
    using feeFactor_pos(1) [of rate] by linarith
  then show ?thesis
    by (simp add: diff_mult_distrib)
qed

lemma withoutFee_eq_0_iff: "withoutFee rate x = 0 \<longleftrightarrow> x = 0"
proof
  assume "withoutFee rate x = 0"
  then have "bigNumber x * DIGITS + (feeFactor rate - 1) < feeFactor rate"
    by (auto simp: withoutFee_def decimal_eq_iff div_eq_0_iff)
  then have "bigNumber x * DIGITS = 0"
    by linarith
  then show "x = 0" by (simp add: decimal_eq_iff)
qed (simp add: withoutFee_def decimal_eq_iff div_eq_0_iff)

section \<open>Applying the change between two Troves\<close>

text \<open>The debt reached by a change is the target \<open>b\<close> up to the rounding of the fee.\<close>

definition debt_reached :: "decimal \<Rightarrow> decimal \<Rightarrow> decimal \<Rightarrow> bool" where
  "debt_reached rate target d \<longleftrightarrow>
     target \<le> d \<and> bigNumber (d - target) * DIGITS < DIGITS + bigNumber rate"

lemma debt_reached_refl [simp]: "debt_reached rate d d"
  by (simp add: debt_reached_def)

lemma debt_reached_borrow:
  "y \<le> z \<Longrightarrow> debt_reached rate z (y + withFee rate (withoutFee rate (z - y)))"
  using withFee_withoutFee_ge [of "z - y" rate] withFee_withoutFee_less [of rate "z - y"]
  by (simp add: debt_reached_def feeFactor_def decimal_order add.commute)

lemma debtChange_simp [dec_simps]:
  "debtChange t u (DecimalV rate) =
     Inr (if debt t < debt u then BorrowLUSD (withoutFee rate (debt u - debt t))
          else RepayLUSD (debt t - debt u))"
  by (auto simp: debtChange_def dec_simps)

lemma collateralChange_simp [dec_simps]:
  "collateralChange t u =
     Inr (if collateral t < collateral u then DepositCollateral (collateral u - collateral t)
          else WithdrawCollateral (collateral t - collateral u))"
  by (auto simp: collateralChange_def dec_simps)

lemma zero_simps [dec_simps]:
  "zero_debt t = (if debt t = 0 then Some ZeroDebt else None)"
  "zero_collateral t = (if collateral t = 0 then Some ZeroCollateral else None)"
  by (simp_all add: zero_debt_def zero_collateral_def dec_simps)

lemma decimal_diff_0 [simp]: "d - (0::decimal) = d" "d - d = (0::decimal)"
  by (simp_all add: decimal_eq_iff)

lemma decimal_le_0 [simp]: "d \<le> (0::decimal) \<longleftrightarrow> d = 0" "(0::decimal) \<le> d" "\<not> d < (0::decimal)"
  by (simp_all add: decimal_order)

lemma decimal_diff_eq_0: "a - b = (0::decimal) \<longleftrightarrow> a \<le> b"
  by (simp add: decimal_order)

lemma decimal_diff_diff: "b \<le> a \<Longrightarrow> a - (a - b) = (b::decimal)"
  by (simp add: decimal_order)

lemma decimal_add_diff: "a \<le> b \<Longrightarrow> a + (b - a) = (b::decimal)"
  by (simp add: decimal_order)

text \<open>The collateral and the debt an adjustment leads to, without the zeroing.\<close>

fun adjust_collateral :: "decimal \<Rightarrow> collateral_change option \<Rightarrow> decimal" where
  "adjust_collateral x None = x"
| "adjust_collateral x (Some (DepositCollateral d)) = x + d"
| "adjust_collateral x (Some (WithdrawCollateral d)) = x - d"

fun adjust_debt :: "decimal \<Rightarrow> decimal \<Rightarrow> debt_change option \<Rightarrow> decimal" where
  "adjust_debt rate x None = x"
| "adjust_debt rate x (Some (BorrowLUSD d)) = x + withFee rate d"
| "adjust_debt rate x (Some (RepayLUSD d)) = x - d"

lemma applyAdjustment_simp [dec_simps]:
  "applyAdjustment t p z (DecimalV rate) =
     Inr \<lparr>collateral = (if z = Some ZeroCollateral then 0
                         else adjust_collateral (collateral t) (collateral_of p)),
          debt = (if z = Some ZeroDebt then 0 else adjust_debt rate (debt t) (debt_of p))\<rparr>"
  by (auto simp: applyAdjustment_def dec_simps
      split: option.splits collateral_change.splits debt_change.splits zeroed.splits)

lemma LIQUIDATION_RESERVE_nonzero [simp]: "LUSD_LIQUIDATION_RESERVE \<noteq> 0"
  by (simp add: LUSD_LIQUIDATION_RESERVE_def decimal_eq_iff)

definition closable :: "'a trove_scheme \<Rightarrow> trove \<Rightarrow> bool" where
  "closable a b \<longleftrightarrow> (Trove_isEmpty b \<longrightarrow> Trove_isEmpty a \<or> LUSD_LIQUIDATION_RESERVE \<le> debt a)"

lemma apply_change_between:
  assumes "closable a b"
  shows "\<exists>change t. whatChanged a b (DecimalV rate) = Inr change
    \<and> Trove_apply a change (DecimalV rate) = Inr t
    \<and> collateral t = collateral b \<and> debt_reached rate (debt b) (debt t)
    \<and> (debt b \<le> debt a \<longrightarrow> debt t = debt b)"
proof -
  consider (same) "collateral a = collateral b" "debt a = debt b"
    | (create) "Trove_isEmpty a" "collateral a \<noteq> collateral b \<or> debt a \<noteq> debt b"
    | (close) "\<not> Trove_isEmpty a" "Trove_isEmpty b"
    | (adjust) "\<not> Trove_isEmpty a" "\<not> Trove_isEmpty b" "collateral a \<noteq> collateral b \<or> debt a \<noteq> debt b"
    by blast
  then show ?thesis
  proof cases
    case same
    then show ?thesis
      by (simp add: whatChanged_def Trove_apply_def dec_simps trove.defs)
  next
    case create
    then show ?thesis
      using debt_reached_borrow [of LUSD_LIQUIDATION_RESERVE "debt b" rate]
      by (auto simp: whatChanged_def Trove_apply_def dec_simps netDebt_simp not_less)
  next
    case close
    then show ?thesis
      using assms by (auto simp: whatChanged_def Trove_apply_def dec_simps netDebt_simp closable_def)
  next
    case adjust
    then show ?thesis
      using debt_reached_borrow [of "debt a" "debt b" rate]
      by (auto simp: whatChanged_def Trove_apply_def dec_simps not_less decimal_diff_diff
          decimal_add_diff)
  qed
qed

text \<open>C1: classifying the change between two Troves and applying it leads from the first to the
  second: the collateral is reached exactly, the debt exactly when it does not grow, and otherwise it
  is at least the target and less than \<open>1 + rate\<close> units in the last place above it (the borrowed
  amount is rounded up and the fee on it down). No step throws, unless a non-empty Trove with a debt
  below the liquidation reserve is to be closed.\<close>

theorem trove_change_roundtrip:
  assumes "collateral b \<noteq> 0 \<or> debt b \<noteq> 0 \<or> (collateral a = 0 \<and> debt a = 0)
    \<or> LUSD_LIQUIDATION_RESERVE \<le> debt a"
  shows "\<exists>change t. whatChanged a b (DecimalV rate) = Inr change
    \<and> Trove_apply a change (DecimalV rate) = Inr t
    \<and> collateral t = collateral b \<and> debt b \<le> debt t
    \<and> (bigNumber (debt t) - bigNumber (debt b)) * 10 ^ 18 < 10 ^ 18 + bigNumber rate
    \<and> (debt b \<le> debt a \<longrightarrow> debt t = debt b)"
proof -
  have "closable a b"
    using assms by (auto simp: closable_def)
  then show ?thesis
    using apply_change_between [of a b rate] by (auto simp: debt_reached_def DIGITS_eq)
qed

definition example_trove :: trove where
  "example_trove = \<lparr>collateral = Decimal (2 * 10 ^ 18), debt = Decimal (2100 * 10 ^ 18)\<rparr>"

theorem trove_change_roundtrip_witness:
  "\<exists>change t. whatChanged emptyTrove example_trove (DecimalV MINIMUM_BORROWING_RATE) = Inr change
    \<and> Trove_apply emptyTrove change (DecimalV MINIMUM_BORROWING_RATE) = Inr t
    \<and> collateral t = collateral example_trove \<and> debt example_trove \<le> debt t
    \<and> (bigNumber (debt t) - bigNumber (debt example_trove)) * 10 ^ 18
        < 10 ^ 18 + bigNumber MINIMUM_BORROWING_RATE
    \<and> (debt example_trove \<le> debt emptyTrove \<longrightarrow> debt t = debt example_trove)"
  by (rule trove_change_roundtrip) (simp add: example_trove_def decimal_eq_iff)

section \<open>Parameters\<close>

definition creation_entries :: "creation_params \<Rightarrow> decimalish option entries" where
  "creation_entries p =
     [(''depositCollateral'', Some (DecimalV (depositCollateral p))),
      (''borrowLUSD'', Some (DecimalV (borrowLUSD p)))]"

fun debt_entry :: "debt_change \<Rightarrow> string \<times> decimal" where
  "debt_entry (BorrowLUSD x) = (''borrowLUSD'', x)"
| "debt_entry (RepayLUSD x) = (''repayLUSD'', x)"

fun collateral_entry :: "collateral_change \<Rightarrow> string \<times> decimal" where
  "collateral_entry (DepositCollateral x) = (''depositCollateral'', x)"
| "collateral_entry (WithdrawCollateral x) = (''withdrawCollateral'', x)"

fun adjustment_amounts :: "adjustment_params \<Rightarrow> decimal entries" where
  "adjustment_amounts (CollateralOnly c) = [collateral_entry c]"
| "adjustment_amounts (DebtOnly d) = [debt_entry d]"
| "adjustment_amounts (CollateralAndDebt c d) = [debt_entry d, collateral_entry c]"

definition adjustment_entries :: "adjustment_params \<Rightarrow> decimalish option entries" where
  "adjustment_entries p = [(k, Some (DecimalV x)). (k, x) \<leftarrow> adjustment_amounts p]"

lemma decimalize_simp [simp]: "decimalize (k, DecimalV d) = Inr (k, d)"
  by (simp add: decimalize_def)

lemma normalize_creation_entries: "normalizeTroveCreation (creation_entries p) = Inr p"
  by (simp add: normalizeTroveCreation_def creation_entries_def definedEntries_def fromEntries_def
      checkAllowedTroveCreationKeys_def allowedTroveCreationKeys_def troveCreationParamsFromEntries_def)

lemmas normalisation_defs =
  normalizeTroveAdjustment_def adjustment_entries_def definedEntries_def fromEntries_def
  checkAllowedTroveAdjustmentKeys_def allowedTroveAdjustmentKeys_def
  troveAdjustmentParamsFromEntries_def collateralChangeFrom_def debtChangeFrom_def

lemma adjustTo_amounts:
  assumes "collateral a \<noteq> 0 \<or> debt a \<noteq> 0" and "collateral b \<noteq> 0 \<or> debt b \<noteq> 0"
    and "collateral a \<noteq> collateral b \<or> debt a \<noteq> debt b"
  shows "\<exists>p. Trove_adjustTo a b (Some (DecimalV rate)) = Inr p
    \<and> (\<forall>e \<in> set (adjustment_amounts p). snd e \<noteq> 0)
    \<and> adjust_collateral (collateral a) (collateral_of p) = collateral b
    \<and> debt_reached rate (debt b) (adjust_debt rate (debt a) (debt_of p))
    \<and> (debt b \<le> debt a \<longrightarrow> adjust_debt rate (debt a) (debt_of p) = debt b)"
  using assms debt_reached_borrow [of "debt a" "debt b" rate]
  by (auto simp: Trove_adjustTo_def whatChanged_def default_rate_def dec_simps withoutFee_eq_0_iff
      decimal_diff_eq_0 decimal_diff_diff decimal_add_diff not_less)

lemma normalize_adjustment_entries:
  assumes "\<forall>e \<in> set (adjustment_amounts p). snd e \<noteq> 0"
  shows "normalizeTroveAdjustment (adjustment_entries p) = Inr p"
proof (cases p)
  case (CollateralOnly c)
  with assms show ?thesis by (cases c) (simp_all add: normalisation_defs)
next
  case (DebtOnly d)
  with assms show ?thesis by (cases d) (simp_all add: normalisation_defs)
next
  case (CollateralAndDebt c d)
  with assms show ?thesis by (cases c; cases d) (simp_all add: normalisation_defs)
qed

text \<open>C10: creating a Trove from the parameters that \<open>recreate\<close> finds gives the same collateral and
  at least the same debt, less than \<open>1 + rate\<close> units in the last place above it; \<open>recreate\<close> succeeds
  exactly on the Troves whose debt covers the liquidation reserve.\<close>

theorem create_recreate:
  "(\<exists>p t. Trove_recreate b (Some (DecimalV rate)) = Inr p
      \<and> Trove_create (creation_entries p) (Some (DecimalV rate)) = Inr t
      \<and> collateral t = collateral b \<and> debt b \<le> debt t
      \<and> (bigNumber (debt t) - bigNumber (debt b)) * 10 ^ 18 < 10 ^ 18 + bigNumber rate)
   = (LUSD_LIQUIDATION_RESERVE \<le> debt b)"
proof (cases "LUSD_LIQUIDATION_RESERVE \<le> debt b")
  case True
  then have "debt b \<noteq> 0" by auto
  with True debt_reached_borrow [OF True, of rate] show ?thesis
    by (simp add: Trove_recreate_def Trove_create_def whatChanged_def default_rate_def dec_simps
        netDebt_simp normalize_creation_entries Trove_apply_def debt_reached_def leD DIGITS_eq)
next
  case False
  then show ?thesis
    by (auto simp: Trove_recreate_def whatChanged_def default_rate_def dec_simps)
qed

text \<open>C9: between two different non-empty Troves, adjusting the first with the parameters that
  \<open>adjustTo\<close> finds reaches the second's collateral exactly and its debt exactly when it does not
  grow, otherwise from above within less than \<open>1 + rate\<close> units in the last place: dropping the
  zeroing marker and the zero amounts on the way loses nothing.\<close>

theorem adjust_adjustTo:
  assumes "collateral a \<noteq> 0 \<or> debt a \<noteq> 0" and "collateral b \<noteq> 0 \<or> debt b \<noteq> 0"
    and "collateral a \<noteq> collateral b \<or> debt a \<noteq> debt b"
  shows "\<exists>p t. Trove_adjustTo a b (Some (DecimalV rate)) = Inr p
    \<and> Trove_adjust a (adjustment_entries p) (Some (DecimalV rate)) = Inr t
    \<and> collateral t = collateral b \<and> debt b \<le> debt t
    \<and> (bigNumber (debt t) - bigNumber (debt b)) * 10 ^ 18 < 10 ^ 18 + bigNumber rate
    \<and> (debt b \<le> debt a \<longrightarrow> debt t = debt b)"
proof -
  obtain p where p: "Trove_adjustTo a b (Some (DecimalV rate)) = Inr p"
    and amounts: "\<forall>e \<in> set (adjustment_amounts p). snd e \<noteq> 0"
    and c: "adjust_collateral (collateral a) (collateral_of p) = collateral b"
    and d: "debt_reached rate (debt b) (adjust_debt rate (debt a) (debt_of p))"
      "debt b \<le> debt a \<longrightarrow> adjust_debt rate (debt a) (debt_of p) = debt b"
    using adjustTo_amounts [OF assms] by blast
  show ?thesis
    using p c d normalize_adjustment_entries [OF amounts]
    by (simp add: Trove_adjust_def default_rate_def Trove_apply_def dec_simps debt_reached_def
        DIGITS_eq)
qed

theorem adjust_adjustTo_witness:
  "\<exists>p t. Trove_adjustTo \<lparr>collateral = ONE, debt = ONE\<rparr> example_trove (Some (DecimalV HALF)) = Inr p
    \<and> Trove_adjust \<lparr>collateral = ONE, debt = ONE\<rparr> (adjustment_entries p) (Some (DecimalV HALF)) = Inr t
    \<and> collateral t = collateral example_trove \<and> debt example_trove \<le> debt t
    \<and> (bigNumber (debt t) - bigNumber (debt example_trove)) * 10 ^ 18 < 10 ^ 18 + bigNumber HALF
    \<and> (debt example_trove \<le> debt \<lparr>collateral = ONE, debt = ONE\<rparr> \<longrightarrow> debt t = debt example_trove)"
  by (rule adjust_adjustTo) (simp_all add: example_trove_def decimal_eq_iff DIGITS_eq)

lemma map_res_decimalize:
  "map_res decimalize es = Inr ds \<Longrightarrow> (k, d) \<in> set ds \<Longrightarrow>
   \<exists>v. (k, v) \<in> set es \<and> Decimal_from v = Inr d"
  by (induction es arbitrary: ds) (fastforce simp: bind_res_eq_Inr decimalize_def)+

lemma definedEntries_iff: "(k, v) \<in> set (definedEntries es) \<longleftrightarrow> (k, Some v) \<in> set es"
  by (force simp: definedEntries_def split: option.splits)

lemma fromEntries_in_set: "fromEntries es k = Some x \<Longrightarrow> (k, x) \<in> set es"
  by (auto simp: fromEntries_def dest: map_of_SomeD)

lemma adjustment_from_entries:
  assumes "troveAdjustmentParamsFromEntries es = Inr p"
  shows "set (adjustment_amounts p) \<subseteq> set es"
  using assms
  by (auto simp: troveAdjustmentParamsFromEntries_def collateralChangeFrom_def debtChangeFrom_def
      bind_res_eq_Inr Let_def dest: fromEntries_in_set split: option.splits)

lemma no_bad_keys:
  "checkAllowedTroveAdjustmentKeys es = Inr () \<longleftrightarrow> fst ` set es \<subseteq> set allowedTroveAdjustmentKeys"
  by (auto simp: checkAllowedTroveAdjustmentKeys_def filter_empty_conv Let_def)

text \<open>C36: parameters that \<open>_normalizeTroveAdjustment\<close> accepts use the four known keys only, every
  amount of the result is non-zero and is the value of the caller's entry of that name, and the
  result, given again as parameters, is accepted unchanged.\<close>

theorem normalizeTroveAdjustment_sound:
  assumes "normalizeTroveAdjustment es = Inr p"
  shows "(\<forall>k v. (k, Some v) \<in> set es \<longrightarrow>
            k \<in> {''depositCollateral'', ''withdrawCollateral'', ''borrowLUSD'', ''repayLUSD''})
    \<and> (\<forall>k x. (k, x) \<in> set (adjustment_amounts p) \<longrightarrow>
            x \<noteq> 0 \<and> (\<exists>v. (k, Some v) \<in> set es \<and> Decimal_from v = Inr x))
    \<and> normalizeTroveAdjustment (adjustment_entries p) = Inr p"
proof -
  obtain ds where keys: "checkAllowedTroveAdjustmentKeys (definedEntries es) = Inr ()"
    and ds: "map_res decimalize (definedEntries es) = Inr ds"
    and p: "troveAdjustmentParamsFromEntries (filter (\<lambda>(k, v). \<not> Decimal_isZero v) ds) = Inr p"
    using assms by (auto simp: normalizeTroveAdjustment_def Let_def bind_res_eq_Inr)
  have amounts: "\<forall>k x. (k, x) \<in> set (adjustment_amounts p) \<longrightarrow> (k, x) \<in> set ds \<and> x \<noteq> 0"
    using adjustment_from_entries [OF p] by auto
  then have "normalizeTroveAdjustment (adjustment_entries p) = Inr p"
    by (intro normalize_adjustment_entries) auto
  moreover have "\<forall>k v. (k, Some v) \<in> set es \<longrightarrow> k \<in> set allowedTroveAdjustmentKeys"
    using keys by (force simp: no_bad_keys simp flip: definedEntries_iff)
  ultimately show ?thesis
    using amounts map_res_decimalize [OF ds]
    by (auto simp: definedEntries_iff allowedTroveAdjustmentKeys_def)
qed

theorem normalizeTroveAdjustment_sound_witness:
  "normalizeTroveAdjustment [(''repayLUSD'', Some (DecimalV ZERO)), (''borrowLUSD'', Some (DecimalV ONE))]
      = Inr (DebtOnly (BorrowLUSD ONE))
    \<and> (\<exists>v. (''borrowLUSD'', Some v) \<in> set [(''repayLUSD'', Some (DecimalV ZERO)),
                              (''borrowLUSD'', Some (DecimalV ONE))] \<and> Decimal_from v = Inr ONE)
    \<and> normalizeTroveAdjustment (adjustment_entries (DebtOnly (BorrowLUSD ONE)))
      = Inr (DebtOnly (BorrowLUSD ONE))"
proof -
  have *: "normalizeTroveAdjustment [(''repayLUSD'', Some (DecimalV ZERO)),
      (''borrowLUSD'', Some (DecimalV ONE))] = Inr (DebtOnly (BorrowLUSD ONE))"
    by (simp add: normalisation_defs decimal_eq_iff)
  have "(''borrowLUSD'', ONE) \<in> set (adjustment_amounts (DebtOnly (BorrowLUSD ONE)))"
    by simp
  with normalizeTroveAdjustment_sound [OF *] show ?thesis using * by blast
qed

section \<open>Collateral ratios\<close>

lemma collateralRatio_simp:
  "collateralRatio t (DecimalV price) =
     Inr (if debt t = 0 then INFINITY
          else Decimal (bigNumber (collateral t) * bigNumber price div bigNumber (debt t)))"
  by (simp add: collateralRatio_def dec_simps)

lemma ratio_below_iff:
  assumes "bigNumber m \<le> MAX_UINT_256"
  shows "(if debt t = 0 then INFINITY
          else Decimal (bigNumber (collateral t) * bigNumber price div bigNumber (debt t))) < m
    \<longleftrightarrow> bigNumber (collateral t) * bigNumber price < bigNumber m * bigNumber (debt t)"
  using assms by (auto simp: decimal_order INFINITY_def div_less_iff_less_mult)

lemma ratio_thresholds_finite:
  "bigNumber MINIMUM_COLLATERAL_RATIO \<le> MAX_UINT_256"
  "bigNumber CRITICAL_COLLATERAL_RATIO \<le> MAX_UINT_256"
  by (simp_all add: constant_defs MAX_UINT_256_def)

lemma ratio_comparisons:
  "collateralRatioIsBelowMinimum t (DecimalV price) =
     Inr (bigNumber (collateral t) * bigNumber price < bigNumber MINIMUM_COLLATERAL_RATIO * bigNumber (debt t))"
  "collateralRatioIsBelowCritical t (DecimalV price) =
     Inr (bigNumber (collateral t) * bigNumber price < bigNumber CRITICAL_COLLATERAL_RATIO * bigNumber (debt t))"
  "isOpenableInRecoveryMode t (DecimalV price) =
     Inr (\<not> bigNumber (collateral t) * bigNumber price < bigNumber CRITICAL_COLLATERAL_RATIO * bigNumber (debt t))"
proof -
  note below = ratio_below_iff [OF ratio_thresholds_finite(1), of t price]
    ratio_below_iff [OF ratio_thresholds_finite(2), of t price]
  let ?m = "bigNumber (collateral t) * bigNumber price"
  show "collateralRatioIsBelowMinimum t (DecimalV price) =
      Inr (?m < bigNumber MINIMUM_COLLATERAL_RATIO * bigNumber (debt t))"
    and "collateralRatioIsBelowCritical t (DecimalV price) =
      Inr (?m < bigNumber CRITICAL_COLLATERAL_RATIO * bigNumber (debt t))"
    and "isOpenableInRecoveryMode t (DecimalV price) =
      Inr (\<not> ?m < bigNumber CRITICAL_COLLATERAL_RATIO * bigNumber (debt t))"
    unfolding collateralRatioIsBelowMinimum_def collateralRatioIsBelowCritical_def
      isOpenableInRecoveryMode_def collateralRatio_simp below [symmetric]
    by (simp_all add: dec_simps not_less)
qed

text \<open>The truncation of the collateral ratio never misclassifies a Trove: the comparisons with
  the minimum (110%) and the critical ratio (150%) decide the exact inequality between collateral
  value and debt, also when the debt is zero and the ratio is the infinite decimal, and a Trove is
  openable in recovery mode exactly when it is not below the critical ratio.\<close>

theorem collateral_ratio_thresholds:
  "collateralRatioIsBelowMinimum t (DecimalV price) =
     Inr (10 * bigNumber (collateral t) * bigNumber price < 11 * 10 ^ 18 * bigNumber (debt t))
   \<and> collateralRatioIsBelowCritical t (DecimalV price) =
     Inr (10 * bigNumber (collateral t) * bigNumber price < 15 * 10 ^ 18 * bigNumber (debt t))
   \<and> isOpenableInRecoveryMode t (DecimalV price) =
     Inr (15 * 10 ^ 18 * bigNumber (debt t) \<le> 10 * bigNumber (collateral t) * bigNumber price)"
  by (simp add: ratio_comparisons constant_defs not_less mult.commute)

section \<open>Redistribution\<close>

lemma applyRedistribution_simp:
  "applyRedistribution t totalRedistributed =
     Inr \<lparr>collateral = collateral t + (collateral totalRedistributed - collateral (snapshotOfTotalRedistributed t)) * stake t,
          debt = debt t + (debt totalRedistributed - debt (snapshotOfTotalRedistributed t)) * stake t,
          ownerAddress = ownerAddress t, status = status t\<rparr>"
  by (simp add: applyRedistribution_def dec_simps)

lemma sum_mult_le_mult_sum:
  "sum_list (map (\<lambda>t. bigNumber (x * f t)) ts) \<le> bigNumber (x * sum_list (map f ts))"
proof (induction ts)
  case (Cons t ts)
  have "bigNumber x * bigNumber (f t) div DIGITS + bigNumber (x * sum_list (map f ts))
      \<le> bigNumber (x * (f t + sum_list (map f ts)))"
    using div_add_le [of DIGITS "bigNumber x * bigNumber (f t)"
        "bigNumber x * bigNumber (sum_list (map f ts))"]
    by (simp add: distrib_left)
  with Cons show ?case by simp
qed simp

text \<open>A redistribution never creates value: over all Troves that share a snapshot, the collateral
  and the debt that \<open>applyRedistribution\<close> adds come to at most what was redistributed per unit staked
  since that snapshot, times the sum of their stakes; the owner and the status are kept.\<close>

theorem redistribution_conserves:
  fixes ts :: "'a pending_trove_scheme list"
  assumes "\<And>t. t \<in> set ts \<Longrightarrow> snapshotOfTotalRedistributed t = snapshot"
  shows "\<exists>us growth share. map_res (\<lambda>t. applyRedistribution t totalRedistributed) ts = Inr us
    \<and> Trove_subtract totalRedistributed snapshot = Inr growth
    \<and> Trove_multiply growth (DecimalV (sum_list (map stake ts))) = Inr share
    \<and> sum_list (map collateral ts) \<le> sum_list (map collateral us)
    \<and> sum_list (map collateral us) \<le> sum_list (map collateral ts) + collateral share
    \<and> sum_list (map debt ts) \<le> sum_list (map debt us)
    \<and> sum_list (map debt us) \<le> sum_list (map debt ts) + debt share
    \<and> map ownerAddress us = map ownerAddress ts \<and> map status us = map status ts"
proof -
  let ?c = "collateral totalRedistributed - collateral snapshot" and ?d = "debt totalRedistributed - debt snapshot"
  define redistribute :: "'a pending_trove_scheme \<Rightarrow> user_trove" where "redistribute t =
     \<lparr>collateral = collateral t + ?c * stake t, debt = debt t + ?d * stake t,
      ownerAddress = ownerAddress t, status = status t\<rparr>" for t
  have us: "map_res (\<lambda>t. applyRedistribution t totalRedistributed) ts = Inr (map redistribute ts)"
    using assms by (intro map_res_Inr_all) (simp add: applyRedistribution_simp redistribute_def)
  have sums: "bigNumber (sum_list (map (\<lambda>t. g t + x * stake t) ts))
      = bigNumber (sum_list (map g ts)) + sum_list (map (\<lambda>t. bigNumber (x * stake t)) ts)"
    for g x by (induction ts) (simp_all del: bigNumber_simps(4))
  show ?thesis
    using us sum_mult_le_mult_sum [of ?c stake ts] sum_mult_le_mult_sum [of ?d stake ts]
    by (simp add: dec_simps redistribute_def comp_def less_eq_decimal_def sums
        del: bigNumber_simps(3,4))
qed

theorem redistribution_conserves_witness:
  "\<exists>us growth share.
      map_res (\<lambda>t. applyRedistribution t \<lparr>collateral = HALF, debt = ONE\<rparr>)
        [\<lparr>collateral = ONE, debt = ONE, ownerAddress = ''0xa'', status = Open, stake = ONE,
          snapshotOfTotalRedistributed = emptyTrove\<rparr>] = Inr us
    \<and> Trove_subtract \<lparr>collateral = HALF, debt = ONE\<rparr> emptyTrove = Inr growth
    \<and> Trove_multiply growth (DecimalV (sum_list (map stake
        [\<lparr>collateral = ONE, debt = ONE, ownerAddress = ''0xa'', status = Open, stake = ONE,
          snapshotOfTotalRedistributed = emptyTrove\<rparr>]))) = Inr share
    \<and> sum_list (map collateral
        [\<lparr>collateral = ONE, debt = ONE, ownerAddress = ''0xa'', status = Open, stake = ONE,
          snapshotOfTotalRedistributed = emptyTrove\<rparr>]) \<le> sum_list (map collateral us)"
  using redistribution_conserves [of
      "[\<lparr>collateral = ONE, debt = ONE, ownerAddress = ''0xa'', status = Open, stake = ONE,
          snapshotOfTotalRedistributed = emptyTrove\<rparr>]" emptyTrove
      "\<lparr>collateral = HALF, debt = ONE\<rparr>"]
  by auto

end
