(* ===== verification/Deposits.thy ===== *)
theory Deposits
  imports Fees
begin

text \<open>
  \<^verbatim>\<open>packages/lib-base/src/StabilityDeposit.ts\<close> and \<^verbatim>\<open>packages/lib-base/src/LQTYStake.ts\<close>. Both
  classes describe a position of one amount and promise the same of their methods \<open>whatChanged\<close> and
  \<open>apply\<close>; the contract is the locale \<open>position\<close>, interpreted on both.
\<close>

section \<open>Stability deposits\<close>

datatype 'a deposit_change =
    DepositLUSD 'a
  | WithdrawLUSD 'a (withdrawAllLUSD: bool)

record stability_deposit =
  initialLUSD :: decimal
  currentLUSD :: decimal
  collateralGain :: decimal
  lqtyReward :: decimal
  frontendTag :: string

definition new_StabilityDeposit ::
  "decimal \<Rightarrow> decimal \<Rightarrow> decimal \<Rightarrow> decimal \<Rightarrow> string \<Rightarrow> stability_deposit res" where
  "new_StabilityDeposit initial current gain reward tag =
     bind_res (Decimal_gt current (DecimalV initial)) (\<lambda>g.
       if g then Inl (Error (''currentLUSD can'' @ [CHR 0x27] @ ''t be greater than initialLUSD''))
       else Inr \<lparr>initialLUSD = initial, currentLUSD = current, collateralGain = gain,
                 lqtyReward = reward, frontendTag = tag\<rparr>)"

definition StabilityDeposit_isEmpty :: "stability_deposit \<Rightarrow> bool" where
  "StabilityDeposit_isEmpty s \<longleftrightarrow>
     Decimal_isZero (initialLUSD s) \<and> Decimal_isZero (currentLUSD s)
     \<and> Decimal_isZero (collateralGain s) \<and> Decimal_isZero (lqtyReward s)"

definition StabilityDeposit_toString :: "stability_deposit \<Rightarrow> string res" where
  "StabilityDeposit_toString s =
     bind_res (Decimal_toString (initialLUSD s) None) (\<lambda>i.
     bind_res (Decimal_toString (currentLUSD s) None) (\<lambda>c.
     bind_res (Decimal_toString (collateralGain s) None) (\<lambda>g.
     bind_res (Decimal_toString (lqtyReward s) None) (\<lambda>r.
       Inr (''{ initialLUSD: '' @ i @ '', currentLUSD: '' @ c @ '', collateralGain: '' @ g
            @ '', lqtyReward: '' @ r @ '', frontendTag: '' @ [CHR 0x22] @ frontendTag s
            @ [CHR 0x22] @ '' }'')))))"

definition StabilityDeposit_equals :: "stability_deposit \<Rightarrow> stability_deposit \<Rightarrow> bool res" where
  "StabilityDeposit_equals s that =
     bind_res (Decimal_eq (initialLUSD s) (DecimalV (initialLUSD that))) (\<lambda>b1.
     bind_res (Decimal_eq (currentLUSD s) (DecimalV (currentLUSD that))) (\<lambda>b2.
     bind_res (Decimal_eq (collateralGain s) (DecimalV (collateralGain that))) (\<lambda>b3.
     bind_res (Decimal_eq (lqtyReward s) (DecimalV (lqtyReward that))) (\<lambda>b4.
       Inr (b1 \<and> b2 \<and> b3 \<and> b4 \<and> frontendTag s = frontendTag that)))))"

definition StabilityDeposit_whatChanged ::
  "stability_deposit \<Rightarrow> decimalish \<Rightarrow> decimal deposit_change option res" where
  "StabilityDeposit_whatChanged s thatLUSD =
     bind_res (Decimal_from thatLUSD) (\<lambda>thatLUSD.
     bind_res (Decimal_lt thatLUSD (DecimalV (currentLUSD s))) (\<lambda>less.
       if less then bind_res (Decimal_sub (currentLUSD s) (DecimalV thatLUSD))
                      (\<lambda>x. Inr (Some (WithdrawLUSD x (Decimal_isZero thatLUSD))))
       else bind_res (Decimal_gt thatLUSD (DecimalV (currentLUSD s))) (\<lambda>greater.
         if greater then bind_res (Decimal_sub thatLUSD (DecimalV (currentLUSD s)))
                           (\<lambda>x. Inr (Some (DepositLUSD x)))
         else Inr None)))"

definition StabilityDeposit_apply ::
  "stability_deposit \<Rightarrow> decimalish deposit_change option \<Rightarrow> decimal res" where
  "StabilityDeposit_apply s change =
     (case change of
        None \<Rightarrow> Inr (currentLUSD s)
      | Some (WithdrawLUSD x all) \<Rightarrow>
          bind_res (if all then Inr True else Decimal_lte (currentLUSD s) x) (\<lambda>b.
            if b then Inr ZERO else Decimal_sub (currentLUSD s) x)
      | Some (DepositLUSD x) \<Rightarrow> Decimal_add (currentLUSD s) x)"

section \<open>LQTY stakes\<close>

datatype 'a stake_change =
    StakeLQTY 'a
  | UnstakeLQTY 'a (unstakeAllLQTY: bool)

record lqty_stake =
  stakedLQTY :: decimal
  stakeCollateralGain :: decimal   \<comment> \<open>\<open>collateralGain\<close>\<close>
  lusdGain :: decimal

definition LQTYStake_isEmpty :: "lqty_stake \<Rightarrow> bool" where
  "LQTYStake_isEmpty s \<longleftrightarrow>
     Decimal_isZero (stakedLQTY s) \<and> Decimal_isZero (stakeCollateralGain s)
     \<and> Decimal_isZero (lusdGain s)"

definition LQTYStake_toString :: "lqty_stake \<Rightarrow> string res" where
  "LQTYStake_toString s =
     bind_res (Decimal_toString (stakedLQTY s) None) (\<lambda>a.
     bind_res (Decimal_toString (stakeCollateralGain s) None) (\<lambda>g.
     bind_res (Decimal_toString (lusdGain s) None) (\<lambda>l.
       Inr (''{ stakedLQTY: '' @ a @ '', collateralGain: '' @ g @ '', lusdGain: '' @ l @ '' }''))))"

definition LQTYStake_equals :: "lqty_stake \<Rightarrow> lqty_stake \<Rightarrow> bool res" where
  "LQTYStake_equals s that =
     bind_res (Decimal_eq (stakedLQTY s) (DecimalV (stakedLQTY that))) (\<lambda>b1.
     bind_res (Decimal_eq (stakeCollateralGain s) (DecimalV (stakeCollateralGain that))) (\<lambda>b2.
     bind_res (Decimal_eq (lusdGain s) (DecimalV (lusdGain that))) (\<lambda>b3. Inr (b1 \<and> b2 \<and> b3))))"

definition LQTYStake_whatChanged ::
  "lqty_stake \<Rightarrow> decimalish \<Rightarrow> decimal stake_change option res" where
  "LQTYStake_whatChanged s thatStakedLQTY =
     bind_res (Decimal_from thatStakedLQTY) (\<lambda>thatStakedLQTY.
     bind_res (Decimal_lt thatStakedLQTY (DecimalV (stakedLQTY s))) (\<lambda>less.
       if less then bind_res (Decimal_sub (stakedLQTY s) (DecimalV thatStakedLQTY))
                      (\<lambda>x. Inr (Some (UnstakeLQTY x (Decimal_isZero thatStakedLQTY))))
       else bind_res (Decimal_gt thatStakedLQTY (DecimalV (stakedLQTY s))) (\<lambda>greater.
         if greater then bind_res (Decimal_sub thatStakedLQTY (DecimalV (stakedLQTY s)))
                           (\<lambda>x. Inr (Some (StakeLQTY x)))
         else Inr None)))"

definition LQTYStake_apply ::
  "lqty_stake \<Rightarrow> decimalish stake_change option \<Rightarrow> decimal res" where
  "LQTYStake_apply s change =
     (case change of
        None \<Rightarrow> Inr (stakedLQTY s)
      | Some (UnstakeLQTY x all) \<Rightarrow>
          bind_res (if all then Inr True else Decimal_lte (stakedLQTY s) x) (\<lambda>b.
            if b then Inr ZERO else Decimal_sub (stakedLQTY s) x)
      | Some (StakeLQTY x) \<Rightarrow> Decimal_add (stakedLQTY s) x)"

section \<open>The contract of a position\<close>

locale position =
  fixes amount :: "'s \<Rightarrow> decimal"
    and whatChanged :: "'s \<Rightarrow> decimalish \<Rightarrow> 'c option res"
    and apply_change :: "'s \<Rightarrow> 'c option \<Rightarrow> decimal res"
    and increase :: "decimal \<Rightarrow> 'c"
    and decrease :: "decimal \<Rightarrow> bool \<Rightarrow> 'c"
  assumes whatChanged_decimal:
    "Decimal_from v = Inr d \<Longrightarrow> whatChanged s v =
       Inr (if d < amount s then Some (decrease (amount s - d) (d = 0))
            else if amount s < d then Some (increase (d - amount s)) else None)"
    and apply_None: "apply_change s None = Inr (amount s)"
    and apply_increase: "apply_change s (Some (increase x)) = Inr (amount s + x)"
    and apply_decrease: "apply_change s (Some (decrease x all)) =
      Inr (if all \<or> amount s \<le> x then 0 else amount s - x)"
begin

lemma whatChanged_None_iff:
  "Decimal_from x = Inr d \<Longrightarrow> whatChanged s x = Inr None \<longleftrightarrow> d = amount s"
  by (auto simp: whatChanged_decimal)

lemma apply_whatChanged:
  "Decimal_from x = Inr d \<Longrightarrow> \<exists>change. whatChanged s x = Inr change \<and> apply_change s change = Inr d"
  by (auto simp: whatChanged_decimal apply_None apply_increase apply_decrease decimal_order)

lemma whatChanged_determines:
  "whatChanged s (DecimalV d) = whatChanged s (DecimalV e) \<Longrightarrow> d = e"
  using apply_whatChanged [of "DecimalV d" d s] apply_whatChanged [of "DecimalV e" e s] by auto

lemma apply_decrease_le: "apply_change s (Some (decrease x all)) = Inr d \<Longrightarrow> d \<le> amount s"
  by (auto simp: apply_decrease decimal_order split: if_splits)

end

lemmas amount_simps = dec_simps StabilityDeposit_whatChanged_def StabilityDeposit_apply_def
  LQTYStake_whatChanged_def LQTYStake_apply_def

interpretation deposit: position currentLUSD
  "\<lambda>s x. map_sum id (map_option (map_deposit_change DecimalV)) (StabilityDeposit_whatChanged s x)"
  StabilityDeposit_apply "\<lambda>x. DepositLUSD (DecimalV x)" "\<lambda>x. WithdrawLUSD (DecimalV x)"
  by unfold_locales (auto simp: amount_simps decimal_order not_less)

interpretation lqty: position stakedLQTY
  "\<lambda>s x. map_sum id (map_option (map_stake_change DecimalV)) (LQTYStake_whatChanged s x)"
  LQTYStake_apply "\<lambda>x. StakeLQTY (DecimalV x)" "\<lambda>x. UnstakeLQTY (DecimalV x)"
  by unfold_locales (auto simp: amount_simps decimal_order not_less)

lemma map_sum_Inr: "map_sum id f m = Inr y \<longleftrightarrow> (\<exists>x. m = Inr x \<and> y = f x)"
  by (cases m) auto

text \<open>Whatever value a stability deposit is to be changed to, applying the change that
  \<open>whatChanged\<close> reports gives exactly that value, the change is \<open>undefined\<close> exactly when nothing
  changes, and a withdrawal of everything is marked as such exactly when the new value is zero.\<close>

theorem deposit_change_roundtrip:
  assumes "Decimal_from thatLUSD = Inr d"
  shows "\<exists>change. StabilityDeposit_whatChanged s thatLUSD = Inr change
    \<and> StabilityDeposit_apply s (map_option (map_deposit_change DecimalV) change) = Inr d
    \<and> (change = None \<longleftrightarrow> d = currentLUSD s)
    \<and> (\<forall>x all. change = Some (WithdrawLUSD x all) \<longrightarrow> (all \<longleftrightarrow> d = 0) \<and> x \<noteq> 0)"
proof -
  obtain change where change: "StabilityDeposit_whatChanged s thatLUSD = Inr change"
    and applied: "StabilityDeposit_apply s (map_option (map_deposit_change DecimalV) change) = Inr d"
    using deposit.apply_whatChanged [OF assms, of s] by (auto simp: map_sum_Inr)
  moreover have "change = None \<longleftrightarrow> d = currentLUSD s"
    using deposit.whatChanged_None_iff [OF assms, of s] change by auto
  moreover have "\<forall>x all. change = Some (WithdrawLUSD x all) \<longrightarrow> (all \<longleftrightarrow> d = 0) \<and> x \<noteq> 0"
    using change assms by (auto simp: amount_simps decimal_order split: if_splits)
  ultimately show ?thesis by blast
qed

theorem deposit_change_roundtrip_witness:
  "\<exists>change. StabilityDeposit_whatChanged \<lparr>initialLUSD = ONE, currentLUSD = HALF,
        collateralGain = ZERO, lqtyReward = ZERO, frontendTag = ''0x0''\<rparr> (DecimalV ZERO) = Inr change
    \<and> StabilityDeposit_apply \<lparr>initialLUSD = ONE, currentLUSD = HALF,
        collateralGain = ZERO, lqtyReward = ZERO, frontendTag = ''0x0''\<rparr>
        (map_option (map_deposit_change DecimalV) change) = Inr ZERO
    \<and> (\<forall>x all. change = Some (WithdrawLUSD x all) \<longrightarrow> (all \<longleftrightarrow> ZERO = 0) \<and> x \<noteq> 0)"
  using deposit_change_roundtrip [of "DecimalV ZERO" ZERO
      "\<lparr>initialLUSD = ONE, currentLUSD = HALF, collateralGain = ZERO, lqtyReward = ZERO,
        frontendTag = ''0x0''\<rparr>"] by auto

text \<open>The same for LQTY stakes.\<close>

theorem stake_change_roundtrip:
  assumes "Decimal_from thatLQTY = Inr d"
  shows "\<exists>change. LQTYStake_whatChanged s thatLQTY = Inr change
    \<and> LQTYStake_apply s (map_option (map_stake_change DecimalV) change) = Inr d
    \<and> (change = None \<longleftrightarrow> d = stakedLQTY s)
    \<and> (\<forall>x all. change = Some (UnstakeLQTY x all) \<longrightarrow> (all \<longleftrightarrow> d = 0) \<and> x \<noteq> 0)"
proof -
  obtain change where change: "LQTYStake_whatChanged s thatLQTY = Inr change"
    and applied: "LQTYStake_apply s (map_option (map_stake_change DecimalV) change) = Inr d"
    using lqty.apply_whatChanged [OF assms, of s] by (auto simp: map_sum_Inr)
  moreover have "change = None \<longleftrightarrow> d = stakedLQTY s"
    using lqty.whatChanged_None_iff [OF assms, of s] change by auto
  moreover have "\<forall>x all. change = Some (UnstakeLQTY x all) \<longrightarrow> (all \<longleftrightarrow> d = 0) \<and> x \<noteq> 0"
    using change assms by (auto simp: amount_simps decimal_order split: if_splits)
  ultimately show ?thesis by blast
qed

theorem stake_change_roundtrip_witness:
  "\<exists>change. LQTYStake_whatChanged \<lparr>stakedLQTY = HALF, stakeCollateralGain = ZERO, lusdGain = ZERO\<rparr>
        (DecimalV ONE) = Inr change
    \<and> LQTYStake_apply \<lparr>stakedLQTY = HALF, stakeCollateralGain = ZERO, lusdGain = ZERO\<rparr>
        (map_option (map_stake_change DecimalV) change) = Inr ONE"
  using stake_change_roundtrip [of "DecimalV ONE" ONE
      "\<lparr>stakedLQTY = HALF, stakeCollateralGain = ZERO, lusdGain = ZERO\<rparr>"] by auto

section \<open>Equality\<close>

lemma deposit_equals_simps [dec_simps]:
  "StabilityDeposit_equals s that = Inr (s = that)"
  "LQTYStake_equals x y = Inr (x = y)"
  by (auto simp: StabilityDeposit_equals_def LQTYStake_equals_def dec_simps)

lemma new_StabilityDeposit_invariant:
  "new_StabilityDeposit i c g r tag = Inr s \<Longrightarrow> currentLUSD s \<le> initialLUSD s"
  by (auto simp: new_StabilityDeposit_def dec_simps not_less split: if_splits)

end
