(* ===== verification/Effects.thy ===== *)
theory Effects
  imports Prelude
begin

text \<open>
  Code with effects: a computation takes the state of the world, and returns an exceptional result
  together with the state reached, which an exception keeps. Loops over a list run left to right and
  stop at the first exception, as \<^verbatim>\<open>for ... of\<close> does.
\<close>

type_synonym ('s, 'a) io = "'s \<Rightarrow> 'a res \<times> 's"

named_theorems io_simps \<open>running the combinators of the effect monad\<close>

definition return_io :: "'a \<Rightarrow> ('s, 'a) io" where
  "return_io x = (\<lambda>s. (Inr x, s))"

definition throw_io :: "js_error \<Rightarrow> ('s, 'a) io" where
  "throw_io e = (\<lambda>s. (Inl e, s))"

definition bind_io :: "('s, 'a) io \<Rightarrow> ('a \<Rightarrow> ('s, 'b) io) \<Rightarrow> ('s, 'b) io" where
  "bind_io m f =
     (\<lambda>s. case m s of (Inl e, s') \<Rightarrow> (Inl e, s') | (Inr x, s') \<Rightarrow> f x s')"

definition seq_io :: "('s, 'a) io \<Rightarrow> ('s, 'b) io \<Rightarrow> ('s, 'b) io" where
  "seq_io m n = bind_io m (\<lambda>_. n)"

definition lift_io :: "'a res \<Rightarrow> ('s, 'a) io" where
  "lift_io r = (\<lambda>s. (r, s))"

definition get_io :: "('s, 's) io" where
  "get_io = (\<lambda>s. (Inr s, s))"

definition modify_io :: "('s \<Rightarrow> 's) \<Rightarrow> ('s, unit) io" where
  "modify_io f = (\<lambda>s. (Inr (), f s))"

definition assert_io :: "string \<Rightarrow> bool \<Rightarrow> ('s, unit) io" where
  "assert_io msg b = lift_io (assert_res msg b)"

definition when_io :: "bool \<Rightarrow> ('s, unit) io \<Rightarrow> ('s, unit) io" where
  "when_io b m = (if b then m else return_io ())"

definition catch_io :: "('s, 'a) io \<Rightarrow> (js_error \<Rightarrow> ('s, 'a) io) \<Rightarrow> ('s, 'a) io" where
  "catch_io m h = (\<lambda>s. case m s of (Inl e, s') \<Rightarrow> h e s' | (Inr x, s') \<Rightarrow> (Inr x, s'))"

fun mapM_io :: "('a \<Rightarrow> ('s, 'b) io) \<Rightarrow> 'a list \<Rightarrow> ('s, 'b list) io" where
  "mapM_io f [] = return_io []"
| "mapM_io f (x # xs) = bind_io (f x) (\<lambda>y. bind_io (mapM_io f xs) (\<lambda>ys. return_io (y # ys)))"

fun forM_io :: "'a list \<Rightarrow> ('a \<Rightarrow> ('s, unit) io) \<Rightarrow> ('s, unit) io" where
  "forM_io [] f = return_io ()"
| "forM_io (x # xs) f = bind_io (f x) (\<lambda>_. forM_io xs f)"

fun foldM_io :: "('b \<Rightarrow> 'a \<Rightarrow> ('s, 'b) io) \<Rightarrow> 'b \<Rightarrow> 'a list \<Rightarrow> ('s, 'b) io" where
  "foldM_io f b [] = return_io b"
| "foldM_io f b (x # xs) = bind_io (f b x) (\<lambda>b'. foldM_io f b' xs)"

section \<open>Laws\<close>

lemma io_run [io_simps, simp]:
  "return_io x s = (Inr x, s)"
  "throw_io e s = (Inl e, s)"
  "lift_io r s = (r, s)"
  "get_io s = (Inr s, s)"
  "modify_io f s = (Inr (), f s)"
  by (simp_all add: return_io_def throw_io_def lift_io_def get_io_def modify_io_def)

lemma bind_io_run:
  "m s = (Inr x, s') \<Longrightarrow> bind_io m f s = f x s'"
  "m s = (Inl e, s') \<Longrightarrow> bind_io m f s = (Inl e, s')"
  by (simp_all add: bind_io_def)

lemma bind_io_simps [io_simps, simp]:
  "bind_io (return_io x) f = f x"
  "bind_io (throw_io e) f = throw_io e"
  "bind_io (lift_io (Inr x)) f = f x"
  "bind_io (lift_io (Inl e)) f = throw_io e"
  by (simp_all add: bind_io_def fun_eq_iff)

lemma bind_get_io [io_simps, simp]: "bind_io get_io f s = f s s"
  by (simp add: bind_io_def)

lemma bind_modify_io [io_simps, simp]: "bind_io (modify_io g) f s = f () (g s)"
  by (simp add: bind_io_def)

lemma bind_io_assoc: "bind_io (bind_io m f) g = bind_io m (\<lambda>x. bind_io (f x) g)"
  by (auto simp: bind_io_def fun_eq_iff split: prod.splits sum.splits)

lemma bind_io_return: "bind_io m return_io = m"
  by (auto simp: bind_io_def fun_eq_iff split: prod.splits sum.splits)

lemma bind_io_Inr:
  "bind_io m f s = (Inr y, s'') \<longleftrightarrow> (\<exists>x s'. m s = (Inr x, s') \<and> f x s' = (Inr y, s''))"
  by (auto simp: bind_io_def split: prod.splits sum.splits)

lemma bind_io_Inl:
  "bind_io m f s = (Inl e, s'') \<longleftrightarrow>
     m s = (Inl e, s'') \<or> (\<exists>x s'. m s = (Inr x, s') \<and> f x s' = (Inl e, s''))"
  by (auto simp: bind_io_def split: prod.splits sum.splits)

lemma assert_io_simps [io_simps, simp]:
  "b \<Longrightarrow> assert_io msg b = return_io ()"
  "\<not> b \<Longrightarrow> assert_io msg b = throw_io (AssertionError msg)"
  by (simp_all add: assert_io_def fun_eq_iff)

lemma when_io_simps [io_simps, simp]:
  "when_io True m = m"
  "when_io False m = return_io ()"
  by (simp_all add: when_io_def)

lemma seq_io_simp [io_simps, simp]: "seq_io m n = bind_io m (\<lambda>_. n)"
  by (simp add: seq_io_def)

lemma seq_io_eq: "seq_io m n s = bind_io m (\<lambda>_. n) s"
  by simp

section \<open>Effects that keep an invariant\<close>

text \<open>\<open>io_keeps P m\<close>: from a state where \<open>P\<close> holds, \<open>m\<close> ends in one where it holds, whether it
  returns or throws.\<close>

definition io_keeps :: "('s \<Rightarrow> bool) \<Rightarrow> ('s, 'a) io \<Rightarrow> bool" where
  "io_keeps P m \<longleftrightarrow> (\<forall>s. P s \<longrightarrow> P (snd (m s)))"

named_theorems keeps_intros \<open>introduction rules for preserved predicates\<close>

lemma io_keepsD: "io_keeps P m \<Longrightarrow> P s \<Longrightarrow> P (snd (m s))"
  by (simp add: io_keeps_def)

lemma io_keeps_basic [keeps_intros]:
  "io_keeps P (return_io x)" "io_keeps P (throw_io e)" "io_keeps P (lift_io r)" "io_keeps P get_io"
  by (simp_all add: io_keeps_def)

lemma io_keeps_modify: "(\<And>s. P s \<Longrightarrow> P (f s)) \<Longrightarrow> io_keeps P (modify_io f)"
  by (simp add: io_keeps_def)

lemma io_keeps_bind [keeps_intros]:
  assumes "io_keeps P m" and "\<And>x. io_keeps P (f x)"
  shows "io_keeps P (bind_io m f)"
  unfolding io_keeps_def
proof (intro allI impI)
  fix s
  assume "P s"
  then have "P (snd (m s))"
    using assms(1) by (simp add: io_keeps_def)
  then show "P (snd (bind_io m f s))"
    using assms(2) by (auto simp: bind_io_def io_keeps_def split: prod.splits sum.splits)
qed

lemma io_keeps_conj: "io_keeps P m \<Longrightarrow> io_keeps Q m \<Longrightarrow> io_keeps (\<lambda>s. P s \<and> Q s) m"
  by (simp add: io_keeps_def)

lemma io_keeps_assert [keeps_intros]: "io_keeps P (assert_io msg b)"
  by (simp add: assert_io_def io_keeps_def)

lemma io_keeps_when [keeps_intros]: "(b \<Longrightarrow> io_keeps P m) \<Longrightarrow> io_keeps P (when_io b m)"
  by (cases b) (simp_all add: io_keeps_basic)

lemma io_keeps_seq [keeps_intros]:
  "io_keeps P m \<Longrightarrow> io_keeps P n \<Longrightarrow> io_keeps P (seq_io m n)"
  by (simp add: io_keeps_bind)

lemma io_keeps_cases [keeps_intros]:
  "(x = None \<Longrightarrow> io_keeps P m) \<Longrightarrow> (\<And>y. x = Some y \<Longrightarrow> io_keeps P (f y)) \<Longrightarrow>
   io_keeps P (case x of None \<Rightarrow> m | Some y \<Rightarrow> f y)"
  "(b \<Longrightarrow> io_keeps P m) \<Longrightarrow> (\<not> b \<Longrightarrow> io_keeps P n) \<Longrightarrow> io_keeps P (if b then m else n)"
  by (simp_all split: option.splits)

lemma io_keeps_case_prod [keeps_intros]:
  "(\<And>a b. p = (a, b) \<Longrightarrow> io_keeps P (g a b)) \<Longrightarrow> io_keeps P (case p of (a, b) \<Rightarrow> g a b)"
  by (cases p) simp

lemma io_keeps_catch [keeps_intros]:
  assumes "io_keeps P m" and "\<And>e. io_keeps P (h e)"
  shows "io_keeps P (catch_io m h)"
  using assms by (fastforce simp: io_keeps_def catch_io_def split: prod.splits sum.splits)

lemma io_keeps_mapM [keeps_intros]:
  "(\<And>x. x \<in> set xs \<Longrightarrow> io_keeps P (f x)) \<Longrightarrow> io_keeps P (mapM_io f xs)"
  by (induction xs) (auto intro!: keeps_intros)

lemma io_keeps_forM [keeps_intros]:
  "(\<And>x. x \<in> set xs \<Longrightarrow> io_keeps P (f x)) \<Longrightarrow> io_keeps P (forM_io xs f)"
  by (induction xs) (auto intro!: keeps_intros)

lemma io_keeps_foldM [keeps_intros]:
  "(\<And>b x. x \<in> set xs \<Longrightarrow> io_keeps P (f b x)) \<Longrightarrow> io_keeps P (foldM_io f b xs)"
  by (induction xs arbitrary: b) (auto intro!: keeps_intros)

end
