(* ===== verification/Store.thy ===== *)
theory Store
  imports Trove_Change Deposits Effects "HOL-Library.AList"
begin

text \<open>
  \<^verbatim>\<open>packages/lib-base/src/LiquityStore.ts\<close>: the store that keeps the base state read from the
  chain, derives further state from it, notifies its listeners of what changed, and reschedules an
  update after each one. JavaScript compares objects by identity in \<open>difference\<close>, so an object of the
  state is a value with an identity (\<open>obj\<close>); numbers and booleans are their values. The runtime the
  store uses is part of its state: pending timers, allocated identities, and the trace of console
  lines and listener calls. The abstract methods of the class (\<open>_reduceExtra\<close>), its listeners and
  \<open>Date.toLocaleString\<close> are the fields of a record of parameters (\<open>store_env\<close>);
  \<^verbatim>\<open>packages/lib-ethers/src/BlockPolledLiquityStore.ts\<close> gives the extra state.
\<close>

section \<open>Objects with an identity\<close>

datatype 'a obj = Obj (ident: nat) (unbox: 'a)

definition on_obj :: "('a \<Rightarrow> 'a \<Rightarrow> bool res) \<Rightarrow> 'a obj \<Rightarrow> 'a obj \<Rightarrow> bool res" where
  "on_obj f a b = f (unbox a) (unbox b)"

datatype frontend_status = Unregistered | Registered (kickbackRate: decimal)

datatype sval =
    SNumber int
  | SBool bool
  | SUndefined
  | SFunction nat
  | SFrontend "frontend_status obj"
  | SDecimal "decimal obj"
  | STrove "trove obj"
  | SUserTrove "user_trove obj"
  | SPending "pending_trove obj"
  | SDeposit "stability_deposit obj"
  | SFees "fees obj"
  | SStake "lqty_stake obj"

type_synonym entry_list = "(string \<times> sval) list"

text \<open>\<open>===\<close>: primitive values by value, objects by identity.\<close>

datatype js_ref = PNumber int | PBool bool | PUndefined | PRef nat

fun reference :: "sval \<Rightarrow> js_ref" where
  "reference (SNumber a) = PNumber a"
| "reference (SBool a) = PBool a"
| "reference SUndefined = PUndefined"
| "reference (SFunction i) = PRef i"
| "reference (SFrontend a) = PRef (ident a)"
| "reference (SDecimal a) = PRef (ident a)"
| "reference (STrove a) = PRef (ident a)"
| "reference (SUserTrove a) = PRef (ident a)"
| "reference (SPending a) = PRef (ident a)"
| "reference (SDeposit a) = PRef (ident a)"
| "reference (SFees a) = PRef (ident a)"
| "reference (SStake a) = PRef (ident a)"

definition strict_eq :: "sval \<Rightarrow> sval \<Rightarrow> bool" where
  "strict_eq a b \<longleftrightarrow> reference a = reference b"

definition property :: "entry_list \<Rightarrow> string \<Rightarrow> sval" where
  "property obj k = (case map_of obj k of None \<Rightarrow> SUndefined | Some v \<Rightarrow> v)"

definition assign_entries :: "entry_list \<Rightarrow> entry_list \<Rightarrow> entry_list" where
  "assign_entries target source = foldl (\<lambda>t (k, v). AList.update k v t) target source"

definition difference_entries :: "entry_list \<Rightarrow> entry_list \<Rightarrow> entry_list" where
  "difference_entries a b = filter (\<lambda>(k, v). \<not> strict_eq v (property b k)) a"

section \<open>The state of the store\<close>

record base_state =
  frontend :: "frontend_status obj"
  ownFrontend :: "frontend_status obj"
  numberOfTroves :: int
  accountBalance :: "decimal obj"
  lusdBalance :: "decimal obj"
  lqtyBalance :: "decimal obj"
  uniTokenBalance :: "decimal obj"
  uniTokenAllowance :: "decimal obj"
  remainingLiquidityMiningLQTYReward :: "decimal obj"
  liquidityMiningStake :: "decimal obj"
  totalStakedUniTokens :: "decimal obj"
  liquidityMiningLQTYReward :: "decimal obj"
  collateralSurplusBalance :: "decimal obj"
  price :: "decimal obj"
  lusdInStabilityPool :: "decimal obj"
  total :: "trove obj"
  totalRedistributed :: "trove obj"
  troveBeforeRedistribution :: "pending_trove obj"
  stabilityDeposit :: "stability_deposit obj"
  remainingStabilityPoolLQTYReward :: "decimal obj"
  feesInNormalMode :: "fees obj"
  lqtyStake :: "lqty_stake obj"
  totalStakedLQTY :: "decimal obj"
  riskiestTroveBeforeRedistribution :: "pending_trove obj"

record base_update =
  upd_frontend :: "frontend_status obj option"
  upd_ownFrontend :: "frontend_status obj option"
  upd_numberOfTroves :: "int option"
  upd_accountBalance :: "decimal obj option"
  upd_lusdBalance :: "decimal obj option"
  upd_lqtyBalance :: "decimal obj option"
  upd_uniTokenBalance :: "decimal obj option"
  upd_uniTokenAllowance :: "decimal obj option"
  upd_remainingLiquidityMiningLQTYReward :: "decimal obj option"
  upd_liquidityMiningStake :: "decimal obj option"
  upd_totalStakedUniTokens :: "decimal obj option"
  upd_liquidityMiningLQTYReward :: "decimal obj option"
  upd_collateralSurplusBalance :: "decimal obj option"
  upd_price :: "decimal obj option"
  upd_lusdInStabilityPool :: "decimal obj option"
  upd_total :: "trove obj option"
  upd_totalRedistributed :: "trove obj option"
  upd_troveBeforeRedistribution :: "pending_trove obj option"
  upd_stabilityDeposit :: "stability_deposit obj option"
  upd_remainingStabilityPoolLQTYReward :: "decimal obj option"
  upd_feesInNormalMode :: "fees obj option"
  upd_lqtyStake :: "lqty_stake obj option"
  upd_totalStakedLQTY :: "decimal obj option"
  upd_riskiestTroveBeforeRedistribution :: "pending_trove obj option"

record derived_state =
  d_trove :: "user_trove obj"
  d_fees :: "fees obj"
  d_borrowingRate :: "decimal obj"
  d_redemptionRate :: "decimal obj"
  haveUndercollateralizedTroves :: bool

record listener_params =
  newState :: entry_list
  oldState :: entry_list
  stateChange :: entry_list

datatype 'l event =
    Log string
  | Notified nat 'l listener_params
  | Loaded

record ('x, 'l) store =
  logging :: bool
  loaded :: bool
  baseState :: "base_state option"
  derivedState :: "derived_state option"
  extraState :: "'x option"
  updateTimeoutId :: "nat option"
  listeners :: "(nat \<times> 'l) list"
  hasOnLoaded :: bool
  pendingTimers :: "nat list"
  nextTimer :: nat
  nextIdent :: nat
  nextListener :: nat
  trace :: "'l event list"

text \<open>What a listener may do while it runs: subscribe another listener, unsubscribe one by the
  handle it was given, or throw.\<close>

datatype 'l action = Subscribe 'l | Unsubscribe nat | Raise string

record ('x, 'u, 'l) store_env =
  extraEntries :: "'x \<Rightarrow> entry_list"
  reduceExtra :: "'x \<Rightarrow> 'u \<Rightarrow> 'x res"
  react :: "'l \<Rightarrow> listener_params \<Rightarrow> 'l action list"
  toLocaleString :: "int \<Rightarrow> string"

definition base_entries :: "base_state \<Rightarrow> entry_list" where
  "base_entries b =
     [(''frontend'', SFrontend (frontend b)),
      (''ownFrontend'', SFrontend (ownFrontend b)),
      (''numberOfTroves'', SNumber (numberOfTroves b)),
      (''accountBalance'', SDecimal (accountBalance b)),
      (''lusdBalance'', SDecimal (lusdBalance b)),
      (''lqtyBalance'', SDecimal (lqtyBalance b)),
      (''uniTokenBalance'', SDecimal (uniTokenBalance b)),
      (''uniTokenAllowance'', SDecimal (uniTokenAllowance b)),
      (''remainingLiquidityMiningLQTYReward'', SDecimal (remainingLiquidityMiningLQTYReward b)),
      (''liquidityMiningStake'', SDecimal (liquidityMiningStake b)),
      (''totalStakedUniTokens'', SDecimal (totalStakedUniTokens b)),
      (''liquidityMiningLQTYReward'', SDecimal (liquidityMiningLQTYReward b)),
      (''collateralSurplusBalance'', SDecimal (collateralSurplusBalance b)),
      (''price'', SDecimal (price b)),
      (''lusdInStabilityPool'', SDecimal (lusdInStabilityPool b)),
      (''total'', STrove (total b)),
      (''totalRedistributed'', STrove (totalRedistributed b)),
      (''troveBeforeRedistribution'', SPending (troveBeforeRedistribution b)),
      (''stabilityDeposit'', SDeposit (stabilityDeposit b)),
      (''remainingStabilityPoolLQTYReward'', SDecimal (remainingStabilityPoolLQTYReward b)),
      (''_feesInNormalMode'', SFees (feesInNormalMode b)),
      (''lqtyStake'', SStake (lqtyStake b)),
      (''totalStakedLQTY'', SDecimal (totalStakedLQTY b)),
      (''_riskiestTroveBeforeRedistribution'', SPending (riskiestTroveBeforeRedistribution b))]"

definition derived_entries :: "derived_state \<Rightarrow> entry_list" where
  "derived_entries d =
     [(''trove'', SUserTrove (d_trove d)), (''fees'', SFees (d_fees d)),
      (''borrowingRate'', SDecimal (d_borrowingRate d)),
      (''redemptionRate'', SDecimal (d_redemptionRate d)),
      (''haveUndercollateralizedTroves'', SBool (haveUndercollateralizedTroves d))]"

definition store_state :: "('x, 'u, 'l) store_env \<Rightarrow> ('x, 'l) store \<Rightarrow> entry_list" where
  "store_state env s =
     assign_entries
       (assign_entries
         (assign_entries [] (case baseState s of None \<Rightarrow> [] | Some b \<Rightarrow> base_entries b))
         (case derivedState s of None \<Rightarrow> [] | Some d \<Rightarrow> derived_entries d))
       (case extraState s of None \<Rightarrow> [] | Some x \<Rightarrow> extraEntries env x)"

section \<open>Helpers\<close>

definition eq_decimal :: "decimal \<Rightarrow> decimal \<Rightarrow> bool res" where
  "eq_decimal a b = Decimal_eq a (DecimalV b)"

abbreviation "show_decimal x \<equiv> Decimal_toString (unbox x) None"

definition frontendStatusEquals :: "frontend_status \<Rightarrow> frontend_status \<Rightarrow> bool res" where
  "frontendStatusEquals a b =
     (case (a, b) of
        (Unregistered, Unregistered) \<Rightarrow> Inr True
      | (Unregistered, Registered _) \<Rightarrow> Inr False
      | (Registered _, Unregistered) \<Rightarrow> Inr False
      | (Registered x, Registered y) \<Rightarrow> Decimal_eq x (DecimalV y))"

definition showFrontendStatus :: "frontend_status \<Rightarrow> string res" where
  "showFrontendStatus x =
     (case x of
        Unregistered \<Rightarrow> Inr (''{ status: '' @ [CHR 0x22] @ ''unregistered'' @ [CHR 0x22] @ '' }'')
      | Registered r \<Rightarrow> bind_res (Decimal_toString r None) (\<lambda>t.
          Inr (''{ status: '' @ [CHR 0x22] @ ''registered'' @ [CHR 0x22] @ '', kickbackRate: '' @ t
               @ '' }'')))"

definition show_bool :: "bool \<Rightarrow> string" where
  "show_bool b = (if b then ''true'' else ''false'')"

definition Fees_toString :: "(int \<Rightarrow> string) \<Rightarrow> fees \<Rightarrow> string res" where
  "Fees_toString localeString f =
     bind_res (Decimal_toString (baseRateWithoutDecay f) None) (\<lambda>r.
       Inr (''{ baseRateWithoutDecay: '' @ r @ '', lastFeeOperation: '' @ [CHR 0x22]
            @ localeString (lastFeeOperation f) @ [CHR 0x22] @ '', recoveryMode: ''
            @ show_bool (recoveryMode f) @ '' } ''))"

section \<open>Reduction\<close>

definition emit :: "'l event \<Rightarrow> (('x, 'l) store, unit) io" where
  "emit e = modify_io (\<lambda>s. s\<lparr>trace := trace s @ [e]\<rparr>)"

definition logUpdate :: "string \<Rightarrow> string res \<Rightarrow> (('x, 'l) store, unit) io" where
  "logUpdate name shown =
     bind_io get_io (\<lambda>s. when_io (logging s)
       (bind_io (lift_io shown) (\<lambda>t. emit (Log (name @ '' updated to '' @ t)))))"

definition updateIfChanged ::
  "('a \<Rightarrow> 'a \<Rightarrow> bool res) \<Rightarrow> string \<Rightarrow> ('a \<Rightarrow> string res) \<Rightarrow> 'a \<Rightarrow> 'a option
   \<Rightarrow> (('x, 'l) store, 'a) io" where
  "updateIfChanged equals name shw prev next =
     (case next of
        None \<Rightarrow> return_io prev
      | Some n \<Rightarrow> bind_io (lift_io (equals prev n)) (\<lambda>same.
          if \<not> same then seq_io (logUpdate name (shw n)) (return_io n) else return_io prev))"

definition silentlyUpdateIfChanged ::
  "('a \<Rightarrow> 'a \<Rightarrow> bool res) \<Rightarrow> 'a \<Rightarrow> 'a option \<Rightarrow> 'a res" where
  "silentlyUpdateIfChanged equals prev next =
     (case next of
        None \<Rightarrow> Inr prev
      | Some n \<Rightarrow> bind_res (equals prev n) (\<lambda>same. Inr (if \<not> same then n else prev)))"

definition updateFees ::
  "('x, 'u, 'l) store_env \<Rightarrow> string \<Rightarrow> fees obj \<Rightarrow> fees obj option \<Rightarrow> (('x, 'l) store, fees obj) io"
where
  "updateFees env name prev next =
     (case next of
        None \<Rightarrow> return_io prev
      | Some n \<Rightarrow> bind_io (lift_io (Fees_equals (unbox n) (unbox prev))) (\<lambda>same.
          if \<not> same then
            bind_io (lift_io (Fees_toString (toLocaleString env) (unbox n))) (\<lambda>shownNext.
            bind_io (lift_io (Fees_toString (toLocaleString env) (unbox prev))) (\<lambda>shownPrev.
              seq_io (when_io (shownNext \<noteq> shownPrev) (logUpdate name (Inr shownNext)))
                (return_io n)))
          else return_io prev))"

definition reduce :: "base_state \<Rightarrow> base_update \<Rightarrow> (('x, 'l) store, base_state) io" where
  "reduce b u =
     bind_io (updateIfChanged (on_obj frontendStatusEquals) ''frontend'' (\<lambda>x. showFrontendStatus (unbox x))
       (frontend b) (upd_frontend u)) (\<lambda>x1.
     bind_io (updateIfChanged (on_obj frontendStatusEquals) ''ownFrontend'' (\<lambda>x. showFrontendStatus (unbox x))
       (ownFrontend b) (upd_ownFrontend u)) (\<lambda>x2.
     bind_io (updateIfChanged (\<lambda>a b. Inr (a = b)) ''numberOfTroves'' (\<lambda>x. Inr (show_int x))
       (numberOfTroves b) (upd_numberOfTroves u)) (\<lambda>x3.
     bind_io (updateIfChanged (on_obj eq_decimal) ''accountBalance'' show_decimal
       (accountBalance b) (upd_accountBalance u)) (\<lambda>x4.
     bind_io (updateIfChanged (on_obj eq_decimal) ''lusdBalance'' show_decimal
       (lusdBalance b) (upd_lusdBalance u)) (\<lambda>x5.
     bind_io (updateIfChanged (on_obj eq_decimal) ''lqtyBalance'' show_decimal
       (lqtyBalance b) (upd_lqtyBalance u)) (\<lambda>x6.
     bind_io (updateIfChanged (on_obj eq_decimal) ''uniTokenBalance'' show_decimal
       (uniTokenBalance b) (upd_uniTokenBalance u)) (\<lambda>x7.
     bind_io (updateIfChanged (on_obj eq_decimal) ''uniTokenAllowance'' show_decimal
       (uniTokenAllowance b) (upd_uniTokenAllowance u)) (\<lambda>x8.
     bind_io (lift_io (silentlyUpdateIfChanged (on_obj eq_decimal)
       (remainingLiquidityMiningLQTYReward b) (upd_remainingLiquidityMiningLQTYReward u))) (\<lambda>x9.
     bind_io (updateIfChanged (on_obj eq_decimal) ''liquidityMiningStake'' show_decimal
       (liquidityMiningStake b) (upd_liquidityMiningStake u)) (\<lambda>x10.
     bind_io (updateIfChanged (on_obj eq_decimal) ''totalStakedUniTokens'' show_decimal
       (totalStakedUniTokens b) (upd_totalStakedUniTokens u)) (\<lambda>x11.
     bind_io (lift_io (silentlyUpdateIfChanged (on_obj eq_decimal)
       (liquidityMiningLQTYReward b) (upd_liquidityMiningLQTYReward u))) (\<lambda>x12.
     bind_io (updateIfChanged (on_obj eq_decimal) ''collateralSurplusBalance'' show_decimal
       (collateralSurplusBalance b) (upd_collateralSurplusBalance u)) (\<lambda>x13.
     bind_io (updateIfChanged (on_obj eq_decimal) ''price'' show_decimal
       (price b) (upd_price u)) (\<lambda>x14.
     bind_io (updateIfChanged (on_obj eq_decimal) ''lusdInStabilityPool'' show_decimal
       (lusdInStabilityPool b) (upd_lusdInStabilityPool u)) (\<lambda>x15.
     bind_io (updateIfChanged (on_obj Trove_equals) ''total'' (\<lambda>x. Trove_toString (unbox x))
       (total b) (upd_total u)) (\<lambda>x16.
     bind_io (updateIfChanged (on_obj Trove_equals) ''totalRedistributed'' (\<lambda>x. Trove_toString (unbox x))
       (totalRedistributed b) (upd_totalRedistributed u)) (\<lambda>x17.
     bind_io (updateIfChanged (on_obj TroveWithPendingRedistribution_equals) ''troveBeforeRedistribution''
       (\<lambda>x. UserTrove_toString (unbox x))
       (troveBeforeRedistribution b) (upd_troveBeforeRedistribution u)) (\<lambda>x18.
     bind_io (updateIfChanged (on_obj StabilityDeposit_equals) ''stabilityDeposit''
       (\<lambda>x. StabilityDeposit_toString (unbox x))
       (stabilityDeposit b) (upd_stabilityDeposit u)) (\<lambda>x19.
     bind_io (lift_io (silentlyUpdateIfChanged (on_obj eq_decimal)
       (remainingStabilityPoolLQTYReward b) (upd_remainingStabilityPoolLQTYReward u))) (\<lambda>x20.
     bind_io (lift_io (silentlyUpdateIfChanged (on_obj Fees_equals)
       (feesInNormalMode b) (upd_feesInNormalMode u))) (\<lambda>x21.
     bind_io (updateIfChanged (on_obj LQTYStake_equals) ''lqtyStake'' (\<lambda>x. LQTYStake_toString (unbox x))
       (lqtyStake b) (upd_lqtyStake u)) (\<lambda>x22.
     bind_io (updateIfChanged (on_obj eq_decimal) ''totalStakedLQTY'' show_decimal
       (totalStakedLQTY b) (upd_totalStakedLQTY u)) (\<lambda>x23.
     bind_io (lift_io (silentlyUpdateIfChanged (on_obj TroveWithPendingRedistribution_equals)
       (riskiestTroveBeforeRedistribution b) (upd_riskiestTroveBeforeRedistribution u))) (\<lambda>x24.
       return_io \<lparr>frontend = x1, ownFrontend = x2,
         numberOfTroves = x3, accountBalance = x4,
         lusdBalance = x5, lqtyBalance = x6,
         uniTokenBalance = x7, uniTokenAllowance = x8,
         remainingLiquidityMiningLQTYReward = x9, liquidityMiningStake = x10,
         totalStakedUniTokens = x11, liquidityMiningLQTYReward = x12,
         collateralSurplusBalance = x13, price = x14,
         lusdInStabilityPool = x15, total = x16,
         totalRedistributed = x17, troveBeforeRedistribution = x18,
         stabilityDeposit = x19, remainingStabilityPoolLQTYReward = x20,
         feesInNormalMode = x21, lqtyStake = x22,
         totalStakedLQTY = x23, riskiestTroveBeforeRedistribution = x24\<rparr>))))))))))))))))))))))))"

text \<open>The objects \<open>_derive\<close> creates get fresh identities. Where the code returns a shared constant
  instead (a capped rate), \<open>_reduceDerived\<close> compares by value first, so the identity is the same
  constant's only if the value did not change.\<close>

definition fresh :: "'a \<Rightarrow> (('x, 'l) store, 'a obj) io" where
  "fresh v = (\<lambda>s. (Inr (Obj (nextIdent s) v), s\<lparr>nextIdent := Suc (nextIdent s)\<rparr>))"

definition derive :: "base_state \<Rightarrow> (('x, 'l) store, derived_state) io" where
  "derive b =
     bind_io (lift_io (collateralRatioIsBelowCritical (unbox (total b)) (DecimalV (unbox (price b)))))
       (\<lambda>recovery.
     bind_io (lift_io (setRecoveryMode (unbox (feesInNormalMode b)) recovery)) (\<lambda>f.
     bind_io (fresh f) (\<lambda>fobj.
     bind_io (lift_io (applyRedistribution (unbox (troveBeforeRedistribution b))
                        (unbox (totalRedistributed b)))) (\<lambda>t.
     bind_io (fresh t) (\<lambda>tobj.
     bind_io (lift_io (borrowingRate f None)) (\<lambda>br.
     bind_io (fresh br) (\<lambda>brobj.
     bind_io (lift_io (redemptionRate f (DecimalV ZERO) None)) (\<lambda>rr.
     bind_io (fresh rr) (\<lambda>rrobj.
     bind_io (lift_io (applyRedistribution (unbox (riskiestTroveBeforeRedistribution b))
                        (unbox (totalRedistributed b)))) (\<lambda>riskiest.
     bind_io (lift_io (collateralRatioIsBelowMinimum riskiest (DecimalV (unbox (price b)))))
       (\<lambda>under.
       return_io \<lparr>d_trove = tobj, d_fees = fobj, d_borrowingRate = brobj, d_redemptionRate = rrobj,
                  haveUndercollateralizedTroves = under\<rparr>)))))))))))"

definition reduceDerived ::
  "('x, 'u, 'l) store_env \<Rightarrow> derived_state \<Rightarrow> derived_state \<Rightarrow> (('x, 'l) store, derived_state) io"
where
  "reduceDerived env d u =
     bind_io (updateFees env ''fees'' (d_fees d) (Some (d_fees u))) (\<lambda>f.
     bind_io (updateIfChanged (on_obj UserTrove_equals) ''trove'' (\<lambda>x. UserTrove_toString (unbox x))
       (d_trove d) (Some (d_trove u))) (\<lambda>t.
     bind_io (lift_io (silentlyUpdateIfChanged (on_obj eq_decimal)
       (d_borrowingRate d) (Some (d_borrowingRate u)))) (\<lambda>br.
     bind_io (lift_io (silentlyUpdateIfChanged (on_obj eq_decimal)
       (d_redemptionRate d) (Some (d_redemptionRate u)))) (\<lambda>rr.
     bind_io (updateIfChanged (\<lambda>a b. Inr (a = b)) ''haveUndercollateralizedTroves''
       (\<lambda>x. Inr (show_bool x))
       (haveUndercollateralizedTroves d) (Some (haveUndercollateralizedTroves u))) (\<lambda>h.
       return_io \<lparr>d_trove = t, d_fees = f, d_borrowingRate = br, d_redemptionRate = rr,
                  haveUndercollateralizedTroves = h\<rparr>)))))"

section \<open>Timers and listeners\<close>

definition cancelUpdateIfScheduled :: "(('x, 'l) store, unit) io" where
  "cancelUpdateIfScheduled =
     modify_io (\<lambda>s. case updateTimeoutId s of
        None \<Rightarrow> s
      | Some i \<Rightarrow> s\<lparr>pendingTimers := filter (\<lambda>j. j \<noteq> i) (pendingTimers s)\<rparr>)"

definition scheduleUpdate :: "(('x, 'l) store, unit) io" where
  "scheduleUpdate =
     seq_io cancelUpdateIfScheduled
       (modify_io (\<lambda>s. s\<lparr>updateTimeoutId := Some (nextTimer s),
                          pendingTimers := pendingTimers s @ [nextTimer s],
                          nextTimer := Suc (nextTimer s)\<rparr>))"

definition subscribe :: "'l \<Rightarrow> (('x, 'l) store, nat) io" where
  "subscribe l = (\<lambda>s. (Inr (nextListener s),
     s\<lparr>listeners := listeners s @ [(nextListener s, l)], nextListener := Suc (nextListener s)\<rparr>))"

definition unsubscribe :: "nat \<Rightarrow> (('x, 'l) store, unit) io" where
  "unsubscribe i = modify_io (\<lambda>s. s\<lparr>listeners := filter (\<lambda>(j, l). j \<noteq> i) (listeners s)\<rparr>)"

fun perform :: "'l action \<Rightarrow> (('x, 'l) store, unit) io" where
  "perform (Subscribe l) = bind_io (subscribe l) (\<lambda>_. return_io ())"
| "perform (Unsubscribe i) = unsubscribe i"
| "perform (Raise msg) = throw_io (Error msg)"

definition callListener ::
  "('x, 'u, 'l) store_env \<Rightarrow> listener_params \<Rightarrow> nat \<times> 'l \<Rightarrow> (('x, 'l) store, unit) io" where
  "callListener env params listener =
     bind_io get_io (\<lambda>s. when_io (fst listener \<in> fst ` set (listeners s))
       (seq_io (emit (Notified (fst listener) (snd listener) params))
         (forM_io (react env (snd listener) params) perform)))"

definition notify ::
  "('x, 'u, 'l) store_env \<Rightarrow> listener_params \<Rightarrow> (('x, 'l) store, unit) io" where
  "notify env params =
     bind_io get_io (\<lambda>s0. forM_io (listeners s0) (callListener env params))"

section \<open>Loading and updating\<close>

definition load ::
  "('x, 'u, 'l) store_env \<Rightarrow> base_state \<Rightarrow> 'x option \<Rightarrow> (('x, 'l) store, unit) io" where
  "load env b x =
     bind_io get_io (\<lambda>s.
     seq_io (assert_io ''!this._loaded'' (\<not> loaded s)) (
     seq_io (modify_io (\<lambda>s. s\<lparr>baseState := Some b\<rparr>)) (
     bind_io (derive b) (\<lambda>d.
     seq_io (modify_io (\<lambda>s. s\<lparr>derivedState := Some d, extraState := x, loaded := True\<rparr>)) (
     seq_io scheduleUpdate (
       when_io (hasOnLoaded s) (emit Loaded)))))))"

definition update ::
  "('x, 'u, 'l) store_env \<Rightarrow> base_update option \<Rightarrow> 'u option \<Rightarrow> (('x, 'l) store, unit) io" where
  "update env baseStateUpdate extraStateUpdate =
     bind_io get_io (\<lambda>s.
     case (baseState s, derivedState s) of
       (Some b, Some d) \<Rightarrow>
         (let old = store_state env s
          in bind_io (case baseStateUpdate of None \<Rightarrow> return_io b | Some u \<Rightarrow> reduce b u) (\<lambda>b.
             seq_io (modify_io (\<lambda>s. s\<lparr>baseState := Some b\<rparr>)) (
             bind_io (derive b) (\<lambda>d'.
             bind_io (reduceDerived env d d') (\<lambda>d.
             seq_io (modify_io (\<lambda>s. s\<lparr>derivedState := Some d\<rparr>)) (
             seq_io (case extraStateUpdate of
                       None \<Rightarrow> return_io ()
                     | Some u \<Rightarrow>
                         (case extraState s of
                            None \<Rightarrow> throw_io (AssertionError ''this._extraState'')
                          | Some x \<Rightarrow> bind_io (lift_io (reduceExtra env x u)) (\<lambda>x.
                              modify_io (\<lambda>s. s\<lparr>extraState := Some x\<rparr>)))) (
             seq_io scheduleUpdate (
             bind_io get_io (\<lambda>s.
               notify env \<lparr>newState = store_state env s, oldState = old,
                           stateChange = difference_entries (store_state env s) old\<rparr>)))))))))
     | _ \<Rightarrow> throw_io (AssertionError ''this._baseState && this._derivedState''))"

text \<open>The function that \<open>start\<close> returns, after \<open>doStop\<close>.\<close>

definition stop :: "(('x, 'l) store, unit) io" where
  "stop = cancelUpdateIfScheduled"

text \<open>A pending timer fires: the runtime drops it and runs its callback.\<close>

definition timer_fires :: "('x, 'u, 'l) store_env \<Rightarrow> nat \<Rightarrow> (('x, 'l) store, unit) io" where
  "timer_fires env i =
     seq_io (modify_io (\<lambda>s. s\<lparr>pendingTimers := filter (\<lambda>j. j \<noteq> i) (pendingTimers s)\<rparr>)) (
     seq_io (modify_io (\<lambda>s. s\<lparr>updateTimeoutId := None\<rparr>))
       (update env None None))"

section \<open>The extra state of the block-polled store\<close>

record block_extra =
  blockTag :: "int option"
  blockTimestamp :: int
  feesFactory :: "(int \<Rightarrow> bool \<Rightarrow> fees res) obj"

record block_extra_update =
  upd_blockTag :: "int option"
  upd_blockTimestamp :: "int option"
  upd_feesFactory :: "(int \<Rightarrow> bool \<Rightarrow> fees res) obj option"

definition block_extra_entries :: "block_extra \<Rightarrow> entry_list" where
  "block_extra_entries x =
     [(''blockTag'', case blockTag x of None \<Rightarrow> SUndefined | Some n \<Rightarrow> SNumber n),
      (''blockTimestamp'', SNumber (blockTimestamp x)),
      (''_feesFactory'', SFunction (ident (feesFactory x)))]"

definition block_reduceExtra :: "block_extra \<Rightarrow> block_extra_update \<Rightarrow> block_extra res" where
  "block_reduceExtra x u =
     Inr \<lparr>blockTag = (case upd_blockTag u of None \<Rightarrow> blockTag x | Some n \<Rightarrow> Some n),
          blockTimestamp = (case upd_blockTimestamp u of None \<Rightarrow> blockTimestamp x | Some n \<Rightarrow> n),
          feesFactory = (case upd_feesFactory u of None \<Rightarrow> feesFactory x | Some n \<Rightarrow> n)\<rparr>"

end
