(* ===== verification/Store_Props.thy ===== *)
theory Store_Props
  imports Store
begin

text \<open>
  Properties of the store: the listeners a notification calls, and the timer discipline as an
  invariant of the store's reachable states.
\<close>

section \<open>Notification\<close>

text \<open>The listeners a notification calls: in subscription order, those no earlier listener of the
  same notification has removed.\<close>

fun called :: "('l \<Rightarrow> 'l action list) \<Rightarrow> nat set \<Rightarrow> (nat \<times> 'l) list \<Rightarrow> (nat \<times> 'l) list" where
  "called r removed [] = []"
| "called r removed ((i, l) # ls) =
     (if i \<in> removed then called r removed ls
      else (i, l) # called r (removed \<union> {j. Unsubscribe j \<in> set (r l)}) ls)"

definition listeners_ok :: "('x, 'l) store \<Rightarrow> bool" where
  "listeners_ok s \<longleftrightarrow>
     distinct (map fst (listeners s)) \<and> (\<forall>i \<in> fst ` set (listeners s). i < nextListener s)"

lemma perform_actions:
  assumes "\<forall>msg. Raise msg \<notin> set acts"
  shows "\<exists>s'. forM_io acts perform s = (Inr (), s') \<and> trace s' = trace s
    \<and> nextListener s \<le> nextListener s'
    \<and> (\<forall>i < nextListener s. i \<in> fst ` set (listeners s') \<longleftrightarrow>
         i \<in> fst ` set (listeners s) \<and> Unsubscribe i \<notin> set acts)"
  using assms
proof (induction acts arbitrary: s)
  case (Cons a acts)
  then obtain s1 where s1: "perform a s = (Inr (), s1)" "trace s1 = trace s"
      "nextListener s \<le> nextListener s1"
      "\<forall>i < nextListener s. i \<in> fst ` set (listeners s1) \<longleftrightarrow>
         i \<in> fst ` set (listeners s) \<and> Unsubscribe i \<noteq> a"
    by (cases a) (force simp: subscribe_def unsubscribe_def bind_io_run image_iff)+
  from Cons.IH [of s1] Cons.prems obtain s2 where "forM_io acts perform s1 = (Inr (), s2)"
      "trace s2 = trace s1" "nextListener s1 \<le> nextListener s2"
      "\<forall>i < nextListener s1. i \<in> fst ` set (listeners s2) \<longleftrightarrow>
         i \<in> fst ` set (listeners s1) \<and> Unsubscribe i \<notin> set acts"
    by auto
  with s1 show ?case
    by (auto simp: bind_io_run)
qed simp

lemma notify_loop:
  assumes "\<forall>l msg. Raise msg \<notin> set (react env l params)"
    and "\<forall>i \<in> fst ` set ls. i < nextListener s"
    and "\<forall>i \<in> fst ` set ls. i \<in> fst ` set (listeners s) \<longleftrightarrow> i \<notin> removed"
  shows "\<exists>s'. forM_io ls (callListener env params) s = (Inr (), s')
    \<and> trace s' = trace s @ map (\<lambda>(i, l). Notified i l params)
        (called (\<lambda>l. react env l params) removed ls)"
  using assms(2,3)
proof (induction ls arbitrary: s removed)
  case (Cons e ls)
  obtain i l where e: "e = (i, l)"
    by (cases e)
  show ?case
  proof (cases "i \<in> removed")
    case True
    then have "callListener env params e s = (Inr (), s)"
      using Cons.prems e by (auto simp: callListener_def)
    with True show ?thesis
      using Cons.IH [of s removed] Cons.prems e by (auto simp: bind_io_run)
  next
    case False
    let ?s = "s\<lparr>trace := trace s @ [Notified i l params]\<rparr>"
    obtain s1 where s1: "forM_io (react env l params) perform ?s = (Inr (), s1)"
        "trace s1 = trace ?s" "nextListener s \<le> nextListener s1"
        "\<forall>i < nextListener s. i \<in> fst ` set (listeners s1) \<longleftrightarrow>
           i \<in> fst ` set (listeners s) \<and> Unsubscribe i \<notin> set (react env l params)"
      using perform_actions [of "react env l params" ?s] assms(1) by auto
    have run: "callListener env params e s = (Inr (), s1)"
      using False Cons.prems e s1(1) by (simp add: callListener_def emit_def)
    have "\<exists>s'. forM_io ls (callListener env params) s1 = (Inr (), s')
      \<and> trace s' = trace s1 @ map (\<lambda>(i, l). Notified i l params)
        (called (\<lambda>l. react env l params)
          (removed \<union> {j. Unsubscribe j \<in> set (react env l params)}) ls)"
      using Cons.prems s1(3,4) by (intro Cons.IH) (auto simp: e less_le_trans)
    with run False s1(2) show ?thesis
      by (auto simp: e bind_io_run)
  qed
qed simp

lemma called_subset: "set (called r removed ls) \<subseteq> set ls"
  by (induction r removed ls rule: called.induct) auto

lemma called_distinct: "distinct (map fst ls) \<Longrightarrow> distinct (map fst (called r removed ls))"
proof (induction r removed ls rule: called.induct)
  case (2 r removed i l ls)
  then show ?case using called_subset [of r _ ls] by fastforce
qed simp

lemma called_complete:
  assumes "(i, l) \<in> set ls" and "i \<notin> removed"
    and "\<forall>(j, k) \<in> set ls. Unsubscribe i \<notin> set (r k)"
  shows "(i, l) \<in> set (called r removed ls)"
  using assms by (induction r removed ls rule: called.induct) auto

text \<open>C34: when no listener throws, a notification terminates and calls, in the order of their
  subscription and each once, the listeners that were subscribed when it began: every one that no
  listener unsubscribes meanwhile is called, one that an earlier callback has removed is not, and a
  listener subscribed by a callback is not called in this round.\<close>

theorem notify_calls:
  assumes "distinct (map fst (listeners s))" and "\<forall>i \<in> fst ` set (listeners s). i < nextListener s"
    and "\<forall>l msg. Raise msg \<notin> set (react env l params)"
  shows "\<exists>s' cs. notify env params s = (Inr (), s')
    \<and> trace s' = trace s @ map (\<lambda>(i, l). Notified i l params) cs
    \<and> distinct (map fst cs) \<and> cs = called (\<lambda>l. react env l params) {} (listeners s)
    \<and> set cs \<subseteq> set (listeners s)
    \<and> (\<forall>(i, l) \<in> set (listeners s).
         (\<forall>(j, k) \<in> set (listeners s). Unsubscribe i \<notin> set (react env k params)) \<longrightarrow> (i, l) \<in> set cs)"
proof -
  let ?cs = "called (\<lambda>l. react env l params) {} (listeners s)"
  obtain s' where "notify env params s = (Inr (), s')"
    and "trace s' = trace s @ map (\<lambda>(i, l). Notified i l params) ?cs"
    using notify_loop [of env params "listeners s" s "{}"] assms by (auto simp: notify_def)
  moreover have "\<forall>(i, l) \<in> set (listeners s).
      (\<forall>(j, k) \<in> set (listeners s). Unsubscribe i \<notin> set (react env k params)) \<longrightarrow> (i, l) \<in> set ?cs"
    using called_complete [of _ _ "listeners s" "{}" "\<lambda>l. react env l params"] by auto
  ultimately show ?thesis
    using called_distinct [OF assms(1)] called_subset by blast
qed

definition initial_store :: "('x, 'l) store" where
  "initial_store =
     \<lparr>logging = False, loaded = False, baseState = None, derivedState = None, extraState = None,
      updateTimeoutId = None, listeners = [], hasOnLoaded = False, pendingTimers = [], nextTimer = 0,
      nextIdent = 0, nextListener = 0, trace = []\<rparr>"

definition block_env ::
  "('l \<Rightarrow> listener_params \<Rightarrow> 'l action list) \<Rightarrow> (int \<Rightarrow> string)
   \<Rightarrow> (block_extra, block_extra_update, 'l) store_env" where
  "block_env r locale =
     \<lparr>extraEntries = block_extra_entries, reduceExtra = block_reduceExtra, react = r,
      toLocaleString = locale\<rparr>"

theorem notify_calls_witness:
  "\<exists>s' cs. notify (block_env (\<lambda>l p. if l = ''a'' then [Unsubscribe 1, Subscribe ''d''] else []) show_int)
      \<lparr>newState = [], oldState = [], stateChange = []\<rparr>
      (initial_store\<lparr>listeners := [(0, ''a''), (1, ''b''), (2, ''c'')], nextListener := 3\<rparr>) = (Inr (), s')
    \<and> trace s' = map (\<lambda>(i, l). Notified i l \<lparr>newState = [], oldState = [], stateChange = []\<rparr>) cs
    \<and> cs = [(0, ''a''), (2, ''c'')]"
  using notify_calls [of "initial_store\<lparr>listeners := [(0, ''a''), (1, ''b''), (2, ''c'')], nextListener := 3\<rparr>"
      "block_env (\<lambda>l p. if l = ''a'' then [Unsubscribe 1, Subscribe ''d''] else []) show_int"
      "\<lparr>newState = [], oldState = [], stateChange = []\<rparr>"]
  by (auto simp: initial_store_def block_env_def)

section \<open>Reachable states\<close>

inductive store_step ::
  "('x, 'u, 'l) store_env \<Rightarrow> ('x, 'l) store \<Rightarrow> ('x, 'l) store \<Rightarrow> bool" for env where
  Load: "load env b x s = (r, s') \<Longrightarrow> store_step env s s'"
| Update: "update env u x s = (r, s') \<Longrightarrow> store_step env s s'"
| Fire: "i \<in> set (pendingTimers s) \<Longrightarrow> timer_fires env i s = (r, s') \<Longrightarrow> store_step env s s'"
| Stop: "stop s = (r, s') \<Longrightarrow> store_step env s s'"
| Sub: "subscribe l s = (r, s') \<Longrightarrow> store_step env s s'"
| Unsub: "unsubscribe i s = (q, s') \<Longrightarrow> store_step env s s'"

inductive reachable :: "('x, 'u, 'l) store_env \<Rightarrow> ('x, 'l) store \<Rightarrow> bool" for env where
  Init: "reachable env initial_store"
| Step: "reachable env s \<Longrightarrow> store_step env s s' \<Longrightarrow> reachable env s'"

definition timers_ok :: "('x, 'l) store \<Rightarrow> bool" where
  "timers_ok s \<longleftrightarrow>
     distinct (pendingTimers s) \<and> (\<forall>i \<in> set (pendingTimers s). updateTimeoutId s = Some i)
     \<and> (loaded s \<longrightarrow> baseState s \<noteq> None \<and> derivedState s \<noteq> None) \<and> listeners_ok s"

lemma keeps_timers_ok [keeps_intros]:
  "io_keeps timers_ok (emit e)"
  "io_keeps timers_ok (fresh v)"
  "io_keeps timers_ok cancelUpdateIfScheduled"
  "io_keeps timers_ok (subscribe l)"
  "io_keeps timers_ok (unsubscribe i)"
  by (auto simp: io_keeps_def timers_ok_def emit_def fresh_def cancelUpdateIfScheduled_def
      subscribe_def unsubscribe_def listeners_ok_def distinct_map_filter split: option.splits)

lemma cancelled_no_timers:
  "timers_ok s \<Longrightarrow> pendingTimers (snd (cancelUpdateIfScheduled s)) = []"
  by (auto simp: timers_ok_def cancelUpdateIfScheduled_def filter_empty_conv split: option.splits)

lemma keeps_schedule [keeps_intros]: "io_keeps timers_ok scheduleUpdate"
  unfolding io_keeps_def
proof (intro allI impI)
  fix s :: "('x, 'l) store"
  assume s: "timers_ok s"
  let ?s = "snd (cancelUpdateIfScheduled s)"
  have "timers_ok ?s" and "pendingTimers ?s = []"
    using s cancelled_no_timers io_keepsD [OF keeps_timers_ok(3)] by auto
  then show "timers_ok (snd (scheduleUpdate s))"
    by (simp add: scheduleUpdate_def bind_io_def cancelUpdateIfScheduled_def timers_ok_def
        listeners_ok_def split: option.splits)
qed

lemma keeps_perform [keeps_intros]: "io_keeps timers_ok (perform a)"
  by (cases a) (auto intro!: keeps_intros)

lemma keeps_setters [keeps_intros]:
  "io_keeps timers_ok (modify_io (\<lambda>s. s\<lparr>baseState := Some b\<rparr>))"
  "io_keeps timers_ok (modify_io (\<lambda>s. s\<lparr>derivedState := Some d\<rparr>))"
  "io_keeps timers_ok (modify_io (\<lambda>s. s\<lparr>extraState := x\<rparr>))"
  "io_keeps timers_ok (modify_io (\<lambda>s. s\<lparr>pendingTimers := filter P (pendingTimers s)\<rparr>))"
  by (auto simp: io_keeps_def timers_ok_def listeners_ok_def)

lemma keeps_reductions [keeps_intros]:
  "io_keeps timers_ok (updateIfChanged eq name shw prev next)"
  "io_keeps timers_ok (updateFees env name fprev fnext)"
  by (auto simp: updateIfChanged_def updateFees_def logUpdate_def
      intro!: keeps_intros split: option.splits)

lemma keeps_reduce [keeps_intros]: "io_keeps timers_ok (reduce b u)"
  unfolding reduce_def by (intro keeps_intros)

lemma keeps_derive [keeps_intros]:
  "io_keeps timers_ok (derive b)" "io_keeps timers_ok (reduceDerived env d d')"
  unfolding derive_def reduceDerived_def by (intro keeps_intros)+

lemma keeps_notify [keeps_intros]: "io_keeps timers_ok (notify env params)"
  unfolding notify_def callListener_def seq_io_simp by (auto intro!: keeps_intros)

lemma keeps_update [keeps_intros]: "io_keeps timers_ok (update env u x)"
  unfolding update_def Let_def by (intro keeps_intros)

abbreviation "has_base s \<equiv> baseState s \<noteq> None"

lemma keeps_has_base [keeps_intros]:
  "io_keeps has_base (emit e)" "io_keeps has_base (fresh v)" "io_keeps has_base scheduleUpdate"
  by (auto simp: io_keeps_def emit_def fresh_def scheduleUpdate_def cancelUpdateIfScheduled_def
      bind_io_def split: option.splits)

lemma keeps_has_base_derive [keeps_intros]: "io_keeps has_base (derive b)"
  unfolding derive_def by (intro keeps_intros)

lemma keeps_load [keeps_intros]: "io_keeps timers_ok (load env b x)"
proof -
  have step: "io_keeps (\<lambda>s. timers_ok s \<and> has_base s)
      (modify_io (\<lambda>s. s\<lparr>derivedState := Some d, extraState := x, loaded := True\<rparr>))" for d
    by (auto simp: io_keeps_def timers_ok_def listeners_ok_def)
  have rest: "io_keeps (\<lambda>s. timers_ok s \<and> has_base s)
    (bind_io (derive b) (\<lambda>d.
     seq_io (modify_io (\<lambda>s. s\<lparr>derivedState := Some d, extraState := x, loaded := True\<rparr>)) (
     seq_io scheduleUpdate (when_io h (emit Loaded)))))" for h
    by (rule io_keeps_bind io_keeps_seq io_keeps_when step io_keeps_conj keeps_intros)+
  show ?thesis
    unfolding io_keeps_def
  proof (intro allI impI)
    fix s :: "('a, 'b) store"
    assume s: "timers_ok s"
    then have "timers_ok (s\<lparr>baseState := Some b\<rparr>) \<and> has_base (s\<lparr>baseState := Some b\<rparr>)"
      by (auto simp: timers_ok_def listeners_ok_def)
    from io_keepsD [OF rest [of "hasOnLoaded s"] this] s show "timers_ok (snd (load env b x s))"
      by (cases "loaded s") (simp_all add: load_def)
  qed
qed

lemma timers_ok_initial: "timers_ok initial_store"
  by (simp add: timers_ok_def listeners_ok_def initial_store_def)

lemma fire_ok:
  assumes "timers_ok s" and "i \<in> set (pendingTimers s)"
  shows "timers_ok (snd (timer_fires env i s))"
proof -
  have "j = i" if "j \<in> set (pendingTimers s)" for j
  proof -
    have "updateTimeoutId s = Some i" and "updateTimeoutId s = Some j"
      using assms that unfolding timers_ok_def by blast+
    then show ?thesis by simp
  qed
  then have "filter (\<lambda>j. j \<noteq> i) (pendingTimers s) = []"
    by (auto simp: filter_empty_conv)
  then have "timers_ok (s\<lparr>pendingTimers := filter (\<lambda>j. j \<noteq> i) (pendingTimers s), updateTimeoutId := None\<rparr>)"
    using assms(1) by (simp add: timers_ok_def listeners_ok_def)
  from io_keepsD [OF keeps_update this] show ?thesis
    by (simp add: timer_fires_def)
qed

inductive_cases store_stepE: "store_step env s s'"

lemma step_timers_ok: "store_step env s s' \<Longrightarrow> timers_ok s \<Longrightarrow> timers_ok s'"
  by (erule store_stepE)
     (metis snd_conv io_keepsD keeps_load keeps_update fire_ok keeps_timers_ok stop_def)+

lemma reachable_timers_ok: "reachable env s \<Longrightarrow> timers_ok s"
  by (induction rule: reachable.induct) (auto intro: timers_ok_initial step_timers_ok)

lemma stop_cancels: "timers_ok s \<Longrightarrow> pendingTimers (snd (stop s)) = []"
  by (simp add: stop_def cancelled_no_timers)

text \<open>C6: in every state that any sequence of loading, updating, firing timers, stopping, subscribing
  and unsubscribing can reach, also through failed operations, at most one update timer is pending,
  and it is the one the store would cancel; stopping the store leaves none; and a store that is
  loaded has a base and a derived state, so that the assertion of \<open>_update\<close> cannot fail.\<close>

theorem at_most_one_timer:
  assumes "reachable env s"
  shows "length (pendingTimers s) \<le> 1
    \<and> (\<forall>i \<in> set (pendingTimers s). updateTimeoutId s = Some i)
    \<and> pendingTimers (snd (stop s)) = []
    \<and> (loaded s \<longrightarrow> baseState s \<noteq> None \<and> derivedState s \<noteq> None)"
proof -
  have ok: "timers_ok s"
    using assms by (rule reachable_timers_ok)
  have "length ts \<le> 1" if "distinct ts" and "\<forall>i \<in> set ts. t = Some i" for ts :: "nat list" and t
    using that by (cases ts rule: list.exhaust; cases "tl ts") auto
  from this [of "pendingTimers s" "updateTimeoutId s"] ok stop_cancels [OF ok] show ?thesis
    by (simp add: timers_ok_def)
qed

end
