(* ===== verification/Store_Update.thy ===== *)
theory Store_Update
  imports Store_Props
begin

text \<open>
  What an update of the store does to the base state and the derived state, and that the difference
  it reports, which compares by identity, is the difference of the values.
\<close>

section \<open>What an update does\<close>

text \<open>The new value of a field: the given one if there is one and it differs, else the old object.\<close>

definition pick :: "'a \<Rightarrow> 'a option \<Rightarrow> 'a" where
  "pick prev next = (case next of None \<Rightarrow> prev | Some n \<Rightarrow> n)"

definition pick_obj :: "'a obj \<Rightarrow> 'a obj option \<Rightarrow> 'a obj" where
  "pick_obj prev next = (case next of None \<Rightarrow> prev | Some n \<Rightarrow> if unbox n = unbox prev then prev else n)"

definition reduced :: "base_state \<Rightarrow> base_update \<Rightarrow> base_state" where
  "reduced b u =
     \<lparr>frontend = pick_obj (frontend b) (upd_frontend u),
      ownFrontend = pick_obj (ownFrontend b) (upd_ownFrontend u),
      numberOfTroves = pick (numberOfTroves b) (upd_numberOfTroves u),
      accountBalance = pick_obj (accountBalance b) (upd_accountBalance u),
      lusdBalance = pick_obj (lusdBalance b) (upd_lusdBalance u),
      lqtyBalance = pick_obj (lqtyBalance b) (upd_lqtyBalance u),
      uniTokenBalance = pick_obj (uniTokenBalance b) (upd_uniTokenBalance u),
      uniTokenAllowance = pick_obj (uniTokenAllowance b) (upd_uniTokenAllowance u),
      remainingLiquidityMiningLQTYReward = pick_obj (remainingLiquidityMiningLQTYReward b) (upd_remainingLiquidityMiningLQTYReward u),
      liquidityMiningStake = pick_obj (liquidityMiningStake b) (upd_liquidityMiningStake u),
      totalStakedUniTokens = pick_obj (totalStakedUniTokens b) (upd_totalStakedUniTokens u),
      liquidityMiningLQTYReward = pick_obj (liquidityMiningLQTYReward b) (upd_liquidityMiningLQTYReward u),
      collateralSurplusBalance = pick_obj (collateralSurplusBalance b) (upd_collateralSurplusBalance u),
      price = pick_obj (price b) (upd_price u),
      lusdInStabilityPool = pick_obj (lusdInStabilityPool b) (upd_lusdInStabilityPool u),
      total = pick_obj (total b) (upd_total u),
      totalRedistributed = pick_obj (totalRedistributed b) (upd_totalRedistributed u),
      troveBeforeRedistribution = pick_obj (troveBeforeRedistribution b) (upd_troveBeforeRedistribution u),
      stabilityDeposit = pick_obj (stabilityDeposit b) (upd_stabilityDeposit u),
      remainingStabilityPoolLQTYReward = pick_obj (remainingStabilityPoolLQTYReward b) (upd_remainingStabilityPoolLQTYReward u),
      feesInNormalMode = pick_obj (feesInNormalMode b) (upd_feesInNormalMode u),
      lqtyStake = pick_obj (lqtyStake b) (upd_lqtyStake u),
      totalStakedLQTY = pick_obj (totalStakedLQTY b) (upd_totalStakedLQTY u),
      riskiestTroveBeforeRedistribution = pick_obj (riskiestTroveBeforeRedistribution b) (upd_riskiestTroveBeforeRedistribution u)\<rparr>"

text \<open>A computation that returns a known value and only adds console lines to the trace.\<close>

definition logs_only :: "(('x, 'l) store, 'a) io \<Rightarrow> 'a \<Rightarrow> bool" where
  "logs_only m x \<longleftrightarrow> (\<forall>s. \<exists>t. m s = (Inr x, s\<lparr>trace := trace s @ map Log t\<rparr>))"

lemma logs_only_bind:
  assumes "logs_only m x" and "logs_only (f x) y"
  shows "logs_only (bind_io m f) y"
  unfolding logs_only_def
proof
  fix s
  obtain t where t: "m s = (Inr x, s\<lparr>trace := trace s @ map Log t\<rparr>)"
    using assms(1) by (auto simp: logs_only_def)
  obtain u where "f x (s\<lparr>trace := trace s @ map Log t\<rparr>) =
      (Inr y, s\<lparr>trace := trace s @ map Log t, trace := trace s @ map Log t @ map Log u\<rparr>)"
    using assms(2) [unfolded logs_only_def, rule_format, of "s\<lparr>trace := trace s @ map Log t\<rparr>"]
    by auto
  then show "\<exists>u. bind_io m f s = (Inr y, s\<lparr>trace := trace s @ map Log u\<rparr>)"
    using t by (intro exI [of _ "t @ u"]) (simp add: bind_io_run)
qed

lemma trace_self: "\<exists>t. s = s\<lparr>trace := trace s @ map Log t\<rparr>"
  by (rule exI [of _ "[]"]) simp

lemma logs_only_return: "logs_only (return_io x) x" "logs_only (Pair (Inr x)) x"
  by (simp_all add: logs_only_def trace_self)

lemma logs_only_logUpdate: "logs_only (logUpdate name (Inr t)) ()"
  unfolding logs_only_def
proof
  fix s :: "('x, 'l) store"
  show "\<exists>u. logUpdate name (Inr t) s = (Inr (), s\<lparr>trace := trace s @ map Log u\<rparr>)"
    by (cases "logging s")
       (auto simp: logUpdate_def emit_def trace_self intro: exI [of _ "[name @ '' updated to '' @ t]"])
qed

lemma updateIfChanged_obj:
  assumes "\<And>a b. eq a b = Inr (a = b)" and "\<And>x. \<exists>t. shw x = Inr t"
  shows "logs_only (updateIfChanged (on_obj eq) name shw prev next) (pick_obj prev next)"
proof (cases "next")
  case (Some n)
  obtain t where "shw n = Inr t" using assms(2) by blast
  with Some show ?thesis
    by (auto simp: updateIfChanged_def pick_obj_def on_obj_def assms(1)
        intro!: logs_only_return logs_only_bind logs_only_logUpdate)
qed (simp add: updateIfChanged_def pick_obj_def logs_only_return)

lemma updateIfChanged_prim:
  "logs_only (updateIfChanged (\<lambda>a b. Inr (a = b)) name (\<lambda>x. Inr (t x)) prev next) (pick prev next)"
  by (auto simp: updateIfChanged_def pick_def split: option.splits
      intro!: logs_only_return logs_only_bind logs_only_logUpdate)

lemma silentlyUpdateIfChanged_obj:
  assumes "\<And>a b. eq a b = Inr (a = b)"
  shows "logs_only (lift_io (silentlyUpdateIfChanged (on_obj eq) prev next)) (pick_obj prev next)"
  by (auto simp: silentlyUpdateIfChanged_def pick_obj_def on_obj_def assms logs_only_def
      trace_self split: option.splits)

lemma eq_simps:
  "eq_decimal a b = Inr (a = b)"
  "frontendStatusEquals x y = Inr (x = y)"
  "Trove_equals (t::trove) u = Inr (t = u)"
  "UserTrove_equals (ut::user_trove) ut' = Inr (ut = ut')"
  "TroveWithPendingRedistribution_equals (p::pending_trove) p' = Inr (p = p')"
  by (auto simp: eq_decimal_def frontendStatusEquals_def dec_simps trove_eq_iff UserTrove_equals_def
      TroveWithPendingRedistribution_equals_def split: frontend_status.splits)

lemma toString_auto: "\<exists>t. Decimal_toString d None = Inr t"
  by (simp add: Decimal_toString_def)

lemma show_ok:
  "\<exists>t. showFrontendStatus x = Inr t"
  "\<exists>t. Trove_toString u = Inr t"
  "\<exists>t. UserTrove_toString v = Inr t"
  "\<exists>t. StabilityDeposit_toString w = Inr t"
  "\<exists>t. LQTYStake_toString y = Inr t"
  "\<exists>t. Fees_toString l f = Inr t"
  by (simp_all add: showFrontendStatus_def Trove_toString_def UserTrove_toString_def
      StabilityDeposit_toString_def LQTYStake_toString_def Fees_toString_def Decimal_toString_def
      split: frontend_status.splits)

lemmas field_updates =
  updateIfChanged_obj [OF eq_simps(1) toString_auto]
  updateIfChanged_obj [OF eq_simps(2) show_ok(1)]
  updateIfChanged_obj [OF eq_simps(3) show_ok(2)]
  updateIfChanged_obj [OF eq_simps(4) show_ok(3)]
  updateIfChanged_obj [OF eq_simps(5) show_ok(3)]
  updateIfChanged_obj [OF deposit_equals_simps(1) show_ok(4)]
  updateIfChanged_obj [OF deposit_equals_simps(2) show_ok(5)]
  updateIfChanged_prim
  silentlyUpdateIfChanged_obj [OF eq_simps(1)]
  silentlyUpdateIfChanged_obj [OF eq_simps(5)]
  silentlyUpdateIfChanged_obj [OF Fees_equals_simp]

lemma reduce_correct: "logs_only (reduce b u) (reduced b u)"
  unfolding reduce_def reduced_def
  by (rule logs_only_bind field_updates logs_only_return)+

section \<open>Deriving\<close>

definition derived_values :: "derived_state \<Rightarrow> user_trove \<times> fees \<times> decimal \<times> decimal \<times> bool" where
  "derived_values d =
     (unbox (d_trove d), unbox (d_fees d), unbox (d_borrowingRate d), unbox (d_redemptionRate d),
      haveUndercollateralizedTroves d)"

text \<open>What the derived state has to be for a base state: the Trove after redistribution, the fees
  with the recovery mode decided by the total collateral ratio, the two rates of these fees, and
  whether the riskiest Trove, after redistribution, is below the minimum ratio.\<close>

definition derived_spec ::
  "base_state \<Rightarrow> user_trove \<times> fees \<times> decimal \<times> decimal \<times> bool \<Rightarrow> bool" where
  "derived_spec b v \<longleftrightarrow>
     (case v of (t, f, br, rr, below) \<Rightarrow>
        applyRedistribution (unbox (troveBeforeRedistribution b)) (unbox (totalRedistributed b)) = Inr t
        \<and> (\<exists>recovery. collateralRatioIsBelowCritical (unbox (total b)) (DecimalV (unbox (price b)))
             = Inr recovery \<and> f = (unbox (feesInNormalMode b))\<lparr>recoveryMode := recovery\<rparr>)
        \<and> borrowingRate f None = Inr br \<and> redemptionRate f (DecimalV ZERO) None = Inr rr
        \<and> (\<exists>riskiest. applyRedistribution (unbox (riskiestTroveBeforeRedistribution b))
               (unbox (totalRedistributed b)) = Inr riskiest
             \<and> collateralRatioIsBelowMinimum riskiest (DecimalV (unbox (price b))) = Inr below))"

lemma bind_fresh:
  "bind_io (fresh v) f s = f (Obj (nextIdent s) v) (s\<lparr>nextIdent := Suc (nextIdent s)\<rparr>)"
  by (simp add: fresh_def bind_io_run)

lemma derive_correct:
  assumes "decay_in_range (unbox (feesInNormalMode b)) None"
  obtains d where "derive b s = (Inr d, s\<lparr>nextIdent := nextIdent s + 4\<rparr>)"
    and "derived_spec b (derived_values d)"
    and "ident (d_fees d) = nextIdent s" "ident (d_trove d) = nextIdent s + 1"
      "ident (d_borrowingRate d) = nextIdent s + 2" "ident (d_redemptionRate d) = nextIdent s + 3"
proof -
  let ?f = "unbox (feesInNormalMode b)"
  obtain rec where rec: "collateralRatioIsBelowCritical (unbox (total b)) (DecimalV (unbox (price b))) = Inr rec"
    by (simp add: collateralRatioIsBelowCritical_def collateralRatio_simp dec_simps)
  let ?g = "?f\<lparr>recoveryMode := rec\<rparr>"
  have g: "setRecoveryMode ?f rec = Inr ?g"
    using assms by (simp add: setRecoveryMode_simp decay_in_range_def)
  have "decay_in_range ?g None"
    using assms by (simp add: decay_in_range_def)
  then obtain base where "baseRate ?g None = Inr base"
    using baseRate_le by blast
  then obtain br rr where rates: "borrowingRate ?g None = Inr br"
      "redemptionRate ?g (DecimalV ZERO) None = Inr rr"
    by (cases rec) (simp_all add: borrowingRate_closed redemptionRate_closed)
  obtain t riskiest where redistributed:
      "applyRedistribution (unbox (troveBeforeRedistribution b)) (unbox (totalRedistributed b)) = Inr t"
      "applyRedistribution (unbox (riskiestTroveBeforeRedistribution b)) (unbox (totalRedistributed b))
        = Inr riskiest"
    by (simp add: applyRedistribution_simp)
  obtain below where below: "collateralRatioIsBelowMinimum riskiest (DecimalV (unbox (price b))) = Inr below"
    by (simp add: collateralRatioIsBelowMinimum_def collateralRatio_simp dec_simps)
  let ?n = "nextIdent s"
  let ?d = "\<lparr>d_trove = Obj (?n + 1) t, d_fees = Obj ?n ?g, d_borrowingRate = Obj (?n + 2) br,
             d_redemptionRate = Obj (?n + 3) rr, haveUndercollateralizedTroves = below\<rparr>"
  have "derive b s = (Inr ?d, s\<lparr>nextIdent := ?n + 4\<rparr>)"
    using rec g rates redistributed below
    by (simp add: derive_def bind_fresh numeral_eq_Suc)
  moreover have "derived_spec b (derived_values ?d)"
    using rec rates redistributed below by (simp add: derived_spec_def derived_values_def)
  ultimately show thesis
    using that by simp
qed

definition reduced_derived :: "derived_state \<Rightarrow> derived_state \<Rightarrow> derived_state" where
  "reduced_derived d u =
     \<lparr>d_trove = pick_obj (d_trove d) (Some (d_trove u)), d_fees = pick_obj (d_fees d) (Some (d_fees u)),
      d_borrowingRate = pick_obj (d_borrowingRate d) (Some (d_borrowingRate u)),
      d_redemptionRate = pick_obj (d_redemptionRate d) (Some (d_redemptionRate u)),
      haveUndercollateralizedTroves =
        pick (haveUndercollateralizedTroves d) (Some (haveUndercollateralizedTroves u))\<rparr>"

lemma updateFees_correct: "logs_only (updateFees env name prev next) (pick_obj prev next)"
proof (cases "next")
  case (Some n)
  obtain t1 t2 where "Fees_toString (toLocaleString env) (unbox n) = Inr t1"
      "Fees_toString (toLocaleString env) (unbox prev) = Inr t2"
    using show_ok(6) by blast
  with Some show ?thesis
    by (cases "t1 = t2")
       (auto simp: updateFees_def pick_obj_def Fees_equals_simp
        intro!: logs_only_return logs_only_bind logs_only_logUpdate)
qed (simp add: updateFees_def pick_obj_def logs_only_return)

lemma reduceDerived_correct: "logs_only (reduceDerived env d u) (reduced_derived d u)"
  unfolding reduceDerived_def reduced_derived_def
  by (rule logs_only_bind field_updates updateFees_correct logs_only_return)+

lemma unbox_pick [simp]: "unbox (pick_obj prev (Some n)) = unbox n" "pick_obj prev None = prev"
  by (auto simp: pick_obj_def)

lemma pick_simps [simp]: "pick prev (Some n) = n" "pick prev None = prev"
  by (auto simp: pick_def)

lemma derived_values_reduced: "derived_values (reduced_derived d u) = derived_values u"
  by (simp add: derived_values_def reduced_derived_def)

section \<open>Updating\<close>

lemma scheduleUpdate_run:
  obtains s' where "scheduleUpdate s = (Inr (), s')" and "baseState s' = baseState s"
    "derivedState s' = derivedState s" "extraState s' = extraState s" "listeners s' = listeners s"
    "nextListener s' = nextListener s" "trace s' = trace s" "nextIdent s' = nextIdent s"
  by (cases "updateTimeoutId s")
     (auto simp: scheduleUpdate_def cancelUpdateIfScheduled_def)

definition new_base :: "base_state \<Rightarrow> base_update option \<Rightarrow> base_state" where
  "new_base b uo = (case uo of None \<Rightarrow> b | Some u \<Rightarrow> reduced b u)"

fun new_extra :: "('x, 'u, 'l) store_env \<Rightarrow> 'x option \<Rightarrow> 'u option \<Rightarrow> 'x option \<Rightarrow> bool" where
  "new_extra env x None x' \<longleftrightarrow> x' = x"
| "new_extra env x (Some u) x' \<longleftrightarrow> (\<exists>y z. x = Some y \<and> reduceExtra env y u = Inr z \<and> x' = Some z)"

definition after_update ::
  "('x, 'l) store \<Rightarrow> base_state \<Rightarrow> derived_state \<Rightarrow> 'x option \<Rightarrow> ('x, 'l) store \<Rightarrow> bool" where
  "after_update s b d x s' \<longleftrightarrow>
     baseState s' = Some b \<and> derivedState s' = Some d \<and> extraState s' = x
     \<and> listeners s' = listeners s \<and> nextListener s' = nextListener s
     \<and> (\<exists>lg. trace s' = trace s @ map Log lg)"

lemma new_base_run:
  "\<exists>t. (case uo of None \<Rightarrow> return_io b | Some u \<Rightarrow> reduce b u) s
    = (Inr (new_base b uo), s\<lparr>trace := trace s @ map Log t\<rparr>)"
  using reduce_correct [of b] by (cases uo) (auto simp: new_base_def logs_only_def trace_self)

lemma update_run:
  assumes b: "baseState s = Some b" and d: "derivedState s = Some d"
    and range: "decay_in_range (unbox (feesInNormalMode (new_base b uo))) None"
    and x: "new_extra env (extraState s) xo x'"
  obtains S d0 where
    "update env uo xo s = notify env \<lparr>newState = store_state env S, oldState = store_state env s,
       stateChange = difference_entries (store_state env S) (store_state env s)\<rparr> S"
    and "after_update s (new_base b uo) (reduced_derived d d0) x' S"
    and "derived_spec (new_base b uo) (derived_values d0)"
    and "ident (d_fees d0) = nextIdent s" "ident (d_trove d0) = nextIdent s + 1"
      "ident (d_borrowingRate d0) = nextIdent s + 2" "ident (d_redemptionRate d0) = nextIdent s + 3"
proof -
  let ?b = "new_base b uo"
  obtain t1 s1 where r1: "(case uo of None \<Rightarrow> return_io b | Some u \<Rightarrow> reduce b u) s = (Inr ?b, s1)"
    and s1: "s1 = s\<lparr>trace := trace s @ map Log t1\<rparr>"
    using new_base_run by blast
  obtain s2 where s2: "s1\<lparr>baseState := Some ?b\<rparr> = s2"
    by simp
  obtain d0 s3 where r3: "derive ?b s2 = (Inr d0, s3)"
    and s3: "s3 = s2\<lparr>nextIdent := nextIdent s2 + 4\<rparr>"
    and d0: "derived_spec ?b (derived_values d0)"
      "ident (d_fees d0) = nextIdent s2" "ident (d_trove d0) = nextIdent s2 + 1"
      "ident (d_borrowingRate d0) = nextIdent s2 + 2" "ident (d_redemptionRate d0) = nextIdent s2 + 3"
    using derive_correct [OF range, of s2] by blast
  obtain t2 s4 where r4: "reduceDerived env d d0 s3 = (Inr (reduced_derived d d0), s4)"
    and s4: "s4 = s3\<lparr>trace := trace s3 @ map Log t2\<rparr>"
    using reduceDerived_correct [of env d d0] unfolding logs_only_def by blast
  obtain s5 where s5: "s4\<lparr>derivedState := Some (reduced_derived d d0)\<rparr> = s5"
    by simp
  obtain s6 where s6: "s6 = s5\<lparr>extraState := x'\<rparr>"
    by simp
  have "extraState s5 = extraState s"
    by (simp add: s5 [symmetric] s4 s3 s2 [symmetric] s1)
  then have r6: "(case xo of None \<Rightarrow> return_io () | Some u \<Rightarrow>
      (case extraState s of None \<Rightarrow> throw_io (AssertionError ''this._extraState'')
       | Some x \<Rightarrow> bind_io (lift_io (reduceExtra env x u)) (\<lambda>x.
           modify_io (\<lambda>s. s\<lparr>extraState := Some x\<rparr>)))) s5 = (Inr (), s6)"
    using x by (cases xo) (auto simp: s6)
  obtain S where r7: "scheduleUpdate s6 = (Inr (), S)" and S: "baseState S = baseState s6"
      "derivedState S = derivedState s6" "extraState S = extraState s6" "listeners S = listeners s6"
      "nextListener S = nextListener s6" "trace S = trace s6"
    using scheduleUpdate_run [of s6] by metis
  have "update env uo xo s = notify env \<lparr>newState = store_state env S, oldState = store_state env s,
      stateChange = difference_entries (store_state env S) (store_state env s)\<rparr> S"
    unfolding update_def by (simp add: b d Let_def bind_io_def r1 r3 r4 r6 r7 s2 s5)
  moreover have "after_update s ?b (reduced_derived d d0) x' S"
    by (auto simp: after_update_def S s6 s5 [symmetric] s4 s3 s2 [symmetric] s1
        intro: exI [of _ "t1 @ t2"])
  moreover have "nextIdent s2 = nextIdent s"
    by (simp add: s2 [symmetric] s1)
  ultimately show thesis
    using that d0 by simp
qed

lemma notify_keeps_state:
  "io_keeps (\<lambda>s. baseState s = b \<and> derivedState s = d \<and> extraState s = x) (notify env params)"
proof -
  have "io_keeps (\<lambda>s. baseState s = b \<and> derivedState s = d \<and> extraState s = x) (perform a)"
    for a :: "'b action"
    by (cases a) (auto simp: io_keeps_def subscribe_def unsubscribe_def bind_io_run)
  moreover have "io_keeps (\<lambda>s. baseState s = b \<and> derivedState s = d \<and> extraState s = x) (emit e)"
    for e :: "'b event"
    by (simp add: io_keeps_def emit_def)
  ultimately show ?thesis
    unfolding notify_def callListener_def by (intro keeps_intros)
qed

lemma store_state_cong:
  "baseState s = baseState t \<Longrightarrow> derivedState s = derivedState t \<Longrightarrow> extraState s = extraState t \<Longrightarrow>
   store_state env s = store_state env t"
  by (simp add: store_state_def)

lemma update_outcome:
  assumes "baseState s = Some b" and "derivedState s = Some d" and "listeners_ok s"
    and "decay_in_range (unbox (feesInNormalMode (new_base b uo))) None"
    and "new_extra env (extraState s) xo x'"
    and quiet: "\<And>l p msg. Raise msg \<notin> set (react env l p)"
  obtains s' d0 cs where "update env uo xo s = (Inr (), s')"
    and "baseState s' = Some (new_base b uo)" "derivedState s' = Some (reduced_derived d d0)"
      "extraState s' = x'"
    and "derived_spec (new_base b uo) (derived_values d0)"
    and "ident (d_fees d0) = nextIdent s" "ident (d_trove d0) = nextIdent s + 1"
      "ident (d_borrowingRate d0) = nextIdent s + 2" "ident (d_redemptionRate d0) = nextIdent s + 3"
    and "\<exists>lg. trace s' = trace s @ map Log lg @ map (\<lambda>(i, l). Notified i l
      \<lparr>newState = store_state env s', oldState = store_state env s,
       stateChange = difference_entries (store_state env s') (store_state env s)\<rparr>) cs"
    and "cs = called (\<lambda>l. react env l \<lparr>newState = store_state env s', oldState = store_state env s,
       stateChange = difference_entries (store_state env s') (store_state env s)\<rparr>) {} (listeners s)"
proof -
  obtain S d0 where run: "update env uo xo s = notify env \<lparr>newState = store_state env S,
        oldState = store_state env s,
        stateChange = difference_entries (store_state env S) (store_state env s)\<rparr> S"
    and S: "after_update s (new_base b uo) (reduced_derived d d0) x' S"
    and d0: "derived_spec (new_base b uo) (derived_values d0)"
      "ident (d_fees d0) = nextIdent s" "ident (d_trove d0) = nextIdent s + 1"
      "ident (d_borrowingRate d0) = nextIdent s + 2" "ident (d_redemptionRate d0) = nextIdent s + 3"
    using update_run [OF assms(1,2,4,5)] by metis
  let ?p = "\<lparr>newState = store_state env S, oldState = store_state env s,
      stateChange = difference_entries (store_state env S) (store_state env s)\<rparr>"
  obtain s' where s': "notify env ?p S = (Inr (), s')"
    and tr: "trace s' = trace S @ map (\<lambda>(i, l). Notified i l ?p)
      (called (\<lambda>l. react env l ?p) {} (listeners S))"
    using notify_loop [of env ?p "listeners S" S "{}"] quiet assms(3) S
    by (auto simp: notify_def after_update_def listeners_ok_def)
  have kept: "baseState s' = baseState S \<and> derivedState s' = derivedState S \<and> extraState s' = extraState S"
    using io_keepsD [OF notify_keeps_state [of "baseState S" "derivedState S" "extraState S" env ?p], of S]
      s' by simp
  then have same: "store_state env s' = store_state env S"
    by (intro store_state_cong) simp_all
  show thesis
    using that [of s' d0] run s' tr kept S d0 unfolding after_update_def same by force
qed

end
