(* ===== verification/Store_Diff.thy ===== *)
theory Store_Diff
  imports Store_Update
begin

text \<open>
  The theorems about an update of the store: the values of the new base and derived state, and the
  reported difference, which compares objects by identity and yet is the difference of their values.
\<close>

section \<open>States as entries\<close>

text \<open>A value without its identity.\<close>

fun erase :: "sval \<Rightarrow> sval" where
  "erase (SFrontend a) = SFrontend (Obj 0 (unbox a))"
| "erase (SDecimal a) = SDecimal (Obj 0 (unbox a))"
| "erase (STrove a) = STrove (Obj 0 (unbox a))"
| "erase (SUserTrove a) = SUserTrove (Obj 0 (unbox a))"
| "erase (SPending a) = SPending (Obj 0 (unbox a))"
| "erase (SDeposit a) = SDeposit (Obj 0 (unbox a))"
| "erase (SFees a) = SFees (Obj 0 (unbox a))"
| "erase (SStake a) = SStake (Obj 0 (unbox a))"
| "erase v = v"

definition erased :: "entry_list \<Rightarrow> entry_list" where
  "erased es = map (\<lambda>(k, v). (k, erase v)) es"

definition update_entries :: "base_update \<Rightarrow> (string \<times> sval option) list" where
  "update_entries u =
     [(''frontend'', map_option SFrontend (upd_frontend u)),
      (''ownFrontend'', map_option SFrontend (upd_ownFrontend u)),
      (''numberOfTroves'', map_option SNumber (upd_numberOfTroves u)),
      (''accountBalance'', map_option SDecimal (upd_accountBalance u)),
      (''lusdBalance'', map_option SDecimal (upd_lusdBalance u)),
      (''lqtyBalance'', map_option SDecimal (upd_lqtyBalance u)),
      (''uniTokenBalance'', map_option SDecimal (upd_uniTokenBalance u)),
      (''uniTokenAllowance'', map_option SDecimal (upd_uniTokenAllowance u)),
      (''remainingLiquidityMiningLQTYReward'', map_option SDecimal (upd_remainingLiquidityMiningLQTYReward u)),
      (''liquidityMiningStake'', map_option SDecimal (upd_liquidityMiningStake u)),
      (''totalStakedUniTokens'', map_option SDecimal (upd_totalStakedUniTokens u)),
      (''liquidityMiningLQTYReward'', map_option SDecimal (upd_liquidityMiningLQTYReward u)),
      (''collateralSurplusBalance'', map_option SDecimal (upd_collateralSurplusBalance u)),
      (''price'', map_option SDecimal (upd_price u)),
      (''lusdInStabilityPool'', map_option SDecimal (upd_lusdInStabilityPool u)),
      (''total'', map_option STrove (upd_total u)),
      (''totalRedistributed'', map_option STrove (upd_totalRedistributed u)),
      (''troveBeforeRedistribution'', map_option SPending (upd_troveBeforeRedistribution u)),
      (''stabilityDeposit'', map_option SDeposit (upd_stabilityDeposit u)),
      (''remainingStabilityPoolLQTYReward'', map_option SDecimal (upd_remainingStabilityPoolLQTYReward u)),
      (''_feesInNormalMode'', map_option SFees (upd_feesInNormalMode u)),
      (''lqtyStake'', map_option SStake (upd_lqtyStake u)),
      (''totalStakedLQTY'', map_option SDecimal (upd_totalStakedLQTY u)),
      (''_riskiestTroveBeforeRedistribution'', map_option SPending (upd_riskiestTroveBeforeRedistribution u))]"

definition base_keys :: "string list" where
  "base_keys =
     [''frontend'', ''ownFrontend'', ''numberOfTroves'',
      ''accountBalance'', ''lusdBalance'', ''lqtyBalance'',
      ''uniTokenBalance'', ''uniTokenAllowance'', ''remainingLiquidityMiningLQTYReward'',
      ''liquidityMiningStake'', ''totalStakedUniTokens'', ''liquidityMiningLQTYReward'',
      ''collateralSurplusBalance'', ''price'', ''lusdInStabilityPool'',
      ''total'', ''totalRedistributed'', ''troveBeforeRedistribution'',
      ''stabilityDeposit'', ''remainingStabilityPoolLQTYReward'', ''_feesInNormalMode'',
      ''lqtyStake'', ''totalStakedLQTY'', ''_riskiestTroveBeforeRedistribution'']"

text \<open>The entries of a new state: a value that is given and differs, else the old one.\<close>

fun pick_entry :: "string \<times> sval \<Rightarrow> string \<times> sval option \<Rightarrow> string \<times> sval" where
  "pick_entry (k, v) (k', None) = (k, v)"
| "pick_entry (k, v) (k', Some x) = (k, if erase x = erase v then v else x)"

fun override_entry :: "string \<times> sval \<Rightarrow> string \<times> sval option \<Rightarrow> string \<times> sval" where
  "override_entry (k, v) (k', None) = (k, v)"
| "override_entry (k, v) (k', Some x) = (k, x)"

lemma pick_entry_field:
  "(k, SFrontend (pick_obj a ao)) = pick_entry (k, SFrontend a) (k', map_option SFrontend ao)"
  "(k, SDecimal (pick_obj b bo)) = pick_entry (k, SDecimal b) (k', map_option SDecimal bo)"
  "(k, STrove (pick_obj c co)) = pick_entry (k, STrove c) (k', map_option STrove co)"
  "(k, SUserTrove (pick_obj d do')) = pick_entry (k, SUserTrove d) (k', map_option SUserTrove do')"
  "(k, SPending (pick_obj e eo)) = pick_entry (k, SPending e) (k', map_option SPending eo)"
  "(k, SDeposit (pick_obj f fo)) = pick_entry (k, SDeposit f) (k', map_option SDeposit fo)"
  "(k, SFees (pick_obj g go)) = pick_entry (k, SFees g) (k', map_option SFees go)"
  "(k, SStake (pick_obj h ho)) = pick_entry (k, SStake h) (k', map_option SStake ho)"
  "(k, SNumber (pick m mo)) = pick_entry (k, SNumber m) (k', map_option SNumber mo)"
  "(k, SBool (pick n no)) = pick_entry (k, SBool n) (k', map_option SBool no)"
  by (auto simp: pick_obj_def pick_def split: option.splits)

lemma base_entries_reduced:
  "base_entries (reduced b u) = map2 pick_entry (base_entries b) (update_entries u)"
  unfolding base_entries_def reduced_def update_entries_def
  by (simp only: list.map zip_Cons_Cons zip_Nil prod.case base_state.select_convs pick_entry_field
      [where k' = k' and k = k' for k'])

lemma derived_entries_reduced:
  "derived_entries (reduced_derived d u) =
     map2 pick_entry (derived_entries d) (map (\<lambda>(k, v). (k, Some v)) (derived_entries u))"
  by (simp add: derived_entries_def reduced_derived_def pick_obj_def)

lemma lengths:
  "length (update_entries u) = length (base_entries b)"
  "length (derived_entries d) = 5"
  by (simp_all add: update_entries_def base_entries_def derived_entries_def)

lemma some_entries: "Some x \<in> snd ` set (map (\<lambda>(k, v). (k, Some v)) es) \<longleftrightarrow> x \<in> snd ` set es"
  by force

lemma base_keys: "map fst (base_entries b) = base_keys"
  by (simp add: base_entries_def base_keys_def)

definition state_keys :: "string list" where
  "state_keys = base_keys @ [''trove'', ''fees'', ''borrowingRate'', ''redemptionRate'',
     ''haveUndercollateralizedTroves'', ''blockTag'', ''blockTimestamp'', ''_feesFactory'']"

lemma state_keys: "map fst (base_entries b @ derived_entries d @ block_extra_entries x) = state_keys"
  by (simp add: state_keys_def base_keys derived_entries_def block_extra_entries_def)

lemma distinct_state_keys: "distinct state_keys"
  by code_simp

lemma update_notin: "k \<notin> fst ` set es \<Longrightarrow> AList.update k v es = es @ [(k, v)]"
  by (induction es) auto

lemma assign_entries_append:
  "distinct (map fst (es @ fs)) \<Longrightarrow> assign_entries es fs = es @ fs"
proof (induction fs arbitrary: es)
  case (Cons f fs)
  obtain k v where f: "f = (k, v)" by (cases f)
  have "AList.update k v es = es @ [(k, v)]"
    using Cons.prems f by (intro update_notin) auto
  then have "assign_entries es (f # fs) = assign_entries (es @ [f]) fs"
    by (simp add: assign_entries_def f)
  also have "\<dots> = (es @ [f]) @ fs"
    using Cons.prems by (intro Cons.IH) simp
  finally show ?case by simp
qed (simp add: assign_entries_def)

lemma store_state_block:
  assumes "baseState s = Some b" and "derivedState s = Some d" and "extraState s = Some x"
  shows "store_state (block_env r locale) s = base_entries b @ derived_entries d @ block_extra_entries x"
proof -
  have "distinct (map fst (base_entries b @ derived_entries d @ block_extra_entries x))"
    by (simp only: state_keys distinct_state_keys)
  then show ?thesis
    using assms
    by (simp add: store_state_def block_env_def assign_entries_append Int_Un_distrib Int_Un_distrib2)
qed

section \<open>Identity and value\<close>

definition coherent :: "sval set \<Rightarrow> bool" where
  "coherent V \<longleftrightarrow> (\<forall>v \<in> V. \<forall>w \<in> V. reference v = reference w \<longrightarrow> v = w)"

definition boxed :: "sval \<Rightarrow> bool" where
  "boxed v \<longleftrightarrow> erase v \<noteq> v \<or> (\<exists>i. reference v = PRef i)"

text \<open>Two entries of the same key for which comparing by identity and by value agree.\<close>

fun agrees :: "string \<times> sval \<Rightarrow> string \<times> sval \<Rightarrow> bool" where
  "agrees (k, v) (k', w) \<longleftrightarrow> k = k' \<and> (strict_eq v w \<longleftrightarrow> erase v = erase w)"

lemma difference_agrees:
  assumes "list_all2 agrees new old" and "distinct (map fst old)"
  shows "difference_entries new old = filter (\<lambda>(k, v). erase v \<noteq> erase (property old k)) new"
  unfolding difference_entries_def
proof (intro filter_cong refl, clarify)
  fix k v
  assume "(k, v) \<in> set new"
  then obtain i where i: "i < length new" "new ! i = (k, v)"
    by (auto simp: in_set_conv_nth)
  obtain k' w where w: "old ! i = (k', w)"
    by (cases "old ! i")
  have "agrees (k, v) (k', w)" and "i < length old"
    using assms(1) i w list_all2_nthD [of agrees new old i] by (auto dest: list_all2_lengthD)
  moreover from this have "map_of old k = Some w"
    using w assms(2) nth_mem [of i old] by (simp add: map_of_is_SomeI)
  then have "property old k = w"
    by (simp add: property_def)
  ultimately show "(\<not> strict_eq v (property old k)) = (erase v \<noteq> erase (property old k))"
    by simp
qed

lemma agrees_pick:
  assumes "\<And>x. w = Some x \<Longrightarrow> reference x = reference v \<Longrightarrow> x = v"
  shows "agrees (pick_entry (k, v) (k', w)) (k, v)"
  using assms by (cases w) (auto simp: strict_eq_def)

lemma agrees_picked:
  assumes "length ws = length vs"
    and "\<And>v x. v \<in> snd ` set vs \<Longrightarrow> Some x \<in> snd ` set ws \<Longrightarrow> reference x = reference v \<Longrightarrow> x = v"
  shows "list_all2 agrees (map2 pick_entry vs ws) vs"
  using assms
proof (induction ws vs rule: list_induct2)
  case (Cons w ws v vs)
  obtain kv vv kw ww where e: "v = (kv, vv)" "w = (kw, ww)"
    by (cases v; cases w)
  have "x = vv" if "ww = Some x" and "reference x = reference vv" for x
    using that Cons.prems(1) [of vv x] by (simp add: e)
  then have "agrees (pick_entry v w) v"
    unfolding e by (rule agrees_pick)
  moreover have "list_all2 agrees (map2 pick_entry vs ws) vs"
    by (rule Cons.IH, rule Cons.prems) simp_all
  ultimately show ?case by simp
qed simp

lemma erased_pick: "(\<lambda>(k, v). (k, erase v)) (pick_entry e w) = (\<lambda>(k, v). (k, erase v)) (override_entry e w)"
  by (cases "(e, w)" rule: pick_entry.cases) auto

lemma erased_picked: "erased (map2 pick_entry vs ws) = erased (map2 override_entry vs ws)"
  unfolding erased_def
proof (induction vs ws rule: list_induct2')
  case (4 v vs w ws)
  then show ?case by (simp add: erased_pick)
qed simp_all

lemma agrees_extra: "list_all2 agrees (block_extra_entries x) (block_extra_entries y)"
  by (auto simp: block_extra_entries_def strict_eq_def split: option.splits)

section \<open>The theorems\<close>

lemma new_base_fees:
  "unbox (feesInNormalMode (new_base b (Some u))) =
     (case upd_feesInNormalMode u of None \<Rightarrow> unbox (feesInNormalMode b) | Some n \<Rightarrow> unbox n)"
  by (simp add: new_base_def reduced_def split: option.splits)

text \<open>C2: an update with new base state does not throw when no listener does and the elapsed minutes
  fit the exponent of \<open>pow\<close>; afterwards every field of the base state has the value given for it, or
  else the value it had, and the derived state is the one that belongs to the new base state, whatever
  objects were kept.\<close>

theorem store_update_correct:
  assumes "baseState s = Some b" and "derivedState s = Some d"
    and "distinct (map fst (listeners s))" and "\<forall>i \<in> fst ` set (listeners s). i < nextListener s"
    and "\<forall>l p msg. Raise msg \<notin> set (react env l p)"
    and "f = (case upd_feesInNormalMode u of None \<Rightarrow> unbox (feesInNormalMode b) | Some n \<Rightarrow> unbox n)"
    and "minuteDecayFactor f < ONE"
    and "minutesSince (lastFeeOperation f) (timeOfLatestBlock f) \<le> 0xffffffff"
  shows "\<exists>s' b' d'. update env (Some u) None s = (Inr (), s')
    \<and> baseState s' = Some b' \<and> derivedState s' = Some d' \<and> extraState s' = extraState s
    \<and> erased (base_entries b') = erased (map2 override_entry (base_entries b) (update_entries u))
    \<and> derived_spec b' (derived_values d')"
proof -
  have "decay_in_range (unbox (feesInNormalMode (new_base b (Some u)))) None"
    using assms(6-8) unfolding new_base_fees decay_in_range_def by simp
  moreover have "listeners_ok s"
    using assms(3,4) by (simp add: listeners_ok_def)
  moreover have "new_extra env (extraState s) None (extraState s)"
    by simp
  moreover have "\<And>l p msg. Raise msg \<notin> set (react env l p)"
    using assms(5) by blast
  ultimately obtain s' d0 where "update env (Some u) None s = (Inr (), s')"
      "baseState s' = Some (new_base b (Some u))" "derivedState s' = Some (reduced_derived d d0)"
      "extraState s' = extraState s" "derived_spec (new_base b (Some u)) (derived_values d0)"
    using update_outcome [OF assms(1,2), of "Some u" env None "extraState s"] by metis
  moreover have "erased (base_entries (new_base b (Some u)))
      = erased (map2 override_entry (base_entries b) (update_entries u))"
    by (simp add: new_base_def base_entries_reduced erased_picked)
  ultimately show ?thesis
    by (auto simp: derived_values_reduced)
qed

definition no_trove :: pending_trove where
  "no_trove = \<lparr>collateral = ZERO, debt = ZERO, ownerAddress = ''0x0'', status = NonExistent,
     stake = ZERO, snapshotOfTotalRedistributed = emptyTrove\<rparr>"

definition no_deposit :: stability_deposit where
  "no_deposit = \<lparr>initialLUSD = ZERO, currentLUSD = ZERO, collateralGain = ZERO, lqtyReward = ZERO,
     frontendTag = ''0x0''\<rparr>"

definition no_stake :: lqty_stake where
  "no_stake = \<lparr>stakedLQTY = ZERO, stakeCollateralGain = ZERO, lusdGain = ZERO\<rparr>"

definition example_base :: base_state where
  "example_base =
     \<lparr>frontend = Obj 0 Unregistered, ownFrontend = Obj 1 Unregistered,
      numberOfTroves = 0, accountBalance = Obj 3 ZERO,
      lusdBalance = Obj 4 ZERO, lqtyBalance = Obj 5 ZERO,
      uniTokenBalance = Obj 6 ZERO, uniTokenAllowance = Obj 7 ZERO,
      remainingLiquidityMiningLQTYReward = Obj 8 ZERO, liquidityMiningStake = Obj 9 ZERO,
      totalStakedUniTokens = Obj 10 ZERO, liquidityMiningLQTYReward = Obj 11 ZERO,
      collateralSurplusBalance = Obj 12 ZERO, price = Obj 13 ONE,
      lusdInStabilityPool = Obj 14 ZERO, total = Obj 15 emptyTrove,
      totalRedistributed = Obj 16 emptyTrove, troveBeforeRedistribution = Obj 17 no_trove,
      stabilityDeposit = Obj 18 no_deposit, remainingStabilityPoolLQTYReward = Obj 19 ZERO,
      feesInNormalMode = Obj 20 example_fees, lqtyStake = Obj 21 no_stake,
      totalStakedLQTY = Obj 22 ZERO, riskiestTroveBeforeRedistribution = Obj 23 no_trove\<rparr>"

definition no_update :: base_update where
  "no_update =
     \<lparr>upd_frontend = None, upd_ownFrontend = None,
      upd_numberOfTroves = None, upd_accountBalance = None,
      upd_lusdBalance = None, upd_lqtyBalance = None,
      upd_uniTokenBalance = None, upd_uniTokenAllowance = None,
      upd_remainingLiquidityMiningLQTYReward = None, upd_liquidityMiningStake = None,
      upd_totalStakedUniTokens = None, upd_liquidityMiningLQTYReward = None,
      upd_collateralSurplusBalance = None, upd_price = None,
      upd_lusdInStabilityPool = None, upd_total = None,
      upd_totalRedistributed = None, upd_troveBeforeRedistribution = None,
      upd_stabilityDeposit = None, upd_remainingStabilityPoolLQTYReward = None,
      upd_feesInNormalMode = None, upd_lqtyStake = None,
      upd_totalStakedLQTY = None, upd_riskiestTroveBeforeRedistribution = None\<rparr>"

definition example_derived :: derived_state where
  "example_derived =
     \<lparr>d_trove = Obj 24 \<lparr>collateral = ZERO, debt = ZERO, ownerAddress = ''0x0'', status = NonExistent\<rparr>,
      d_fees = Obj 25 example_fees, d_borrowingRate = Obj 26 MINIMUM_BORROWING_RATE,
      d_redemptionRate = Obj 27 MINIMUM_BORROWING_RATE, haveUndercollateralizedTroves = False\<rparr>"

definition example_store :: "(block_extra, string) store" where
  "example_store =
     initial_store\<lparr>baseState := Some example_base, derivedState := Some example_derived,
       extraState := Some \<lparr>blockTag = Some 5, blockTimestamp = 300, feesFactory = Obj 28 (\<lambda>_ _. Inr example_fees)\<rparr>,
       loaded := True, listeners := [(0, ''view'')], nextListener := 1, nextIdent := 30\<rparr>"

definition example_update :: base_update where
  "example_update =
     no_update\<lparr>upd_price := Some (Obj 29 HALF), upd_lusdBalance := Some (Obj 4 ZERO)\<rparr>"

abbreviation "quiet_env \<equiv> block_env (\<lambda>l p. []) show_int"

lemmas example_store_defs = example_store_def initial_store_def example_base_def example_derived_def
  example_update_def no_update_def example_fees_def

theorem store_update_correct_witness:
  "\<exists>s' b' d'. update quiet_env (Some example_update) None example_store = (Inr (), s')
    \<and> baseState s' = Some b' \<and> derivedState s' = Some d' \<and> extraState s' = extraState example_store
    \<and> erased (base_entries b')
      = erased (map2 override_entry (base_entries example_base) (update_entries example_update))
    \<and> derived_spec b' (derived_values d')"
  by (rule store_update_correct [where d = example_derived and f = example_fees])
     (simp_all add: example_store_def initial_store_def block_env_def example_update_def no_update_def
       example_base_def example_fees_def decimal_order DIGITS_eq minutesSince_def)

lemma coherentD: "coherent V \<Longrightarrow> v \<in> V \<Longrightarrow> w \<in> V \<Longrightarrow> reference v = reference w \<Longrightarrow> v = w"
  by (simp add: coherent_def)

lemma fresh_derived:
  assumes "\<forall>v \<in> snd ` set (derived_entries d). \<forall>i. reference v = PRef i \<longrightarrow> i < n"
    and "ident (d_fees u) = n" "ident (d_trove u) = n + 1"
      "ident (d_borrowingRate u) = n + 2" "ident (d_redemptionRate u) = n + 3"
    and "v \<in> snd ` set (derived_entries d)" and "x \<in> snd ` set (derived_entries u)"
    and "reference x = reference v"
  shows "x = v"
  using assms by (auto simp: derived_entries_def)

text \<open>C3: the state change that an update of the block-polled store hands to its listeners is exact,
  although \<open>difference\<close> compares objects by identity: provided one identity never stands for two
  different values, it has a key if and only if the value under that key changed, for every field of
  the base, the derived and the extra state; all listeners get the same old and new state.\<close>

theorem state_change_exact:
  assumes "baseState s = Some b" and "derivedState s = Some d" and "extraState s = Some x"
    and "distinct (map fst (listeners s))" and "\<forall>i \<in> fst ` set (listeners s). i < nextListener s"
    and "\<forall>l p msg. Raise msg \<notin> set (r l p)"
    and "f = (case upd_feesInNormalMode u of None \<Rightarrow> unbox (feesInNormalMode b) | Some n \<Rightarrow> unbox n)"
    and "minuteDecayFactor f < ONE"
    and "minutesSince (lastFeeOperation f) (timeOfLatestBlock f) \<le> 0xffffffff"
    and "coherent (snd ` set (base_entries b) \<union> {w. Some w \<in> snd ` set (update_entries u)})"
    and "\<forall>v \<in> snd ` set (derived_entries d). \<forall>i. reference v = PRef i \<longrightarrow> i < nextIdent s"
  shows "\<exists>s' old new logs cs. update (block_env r locale) (Some u) (Some xu) s = (Inr (), s')
    \<and> old = store_state (block_env r locale) s \<and> new = store_state (block_env r locale) s'
    \<and> trace s' = trace s @ map Log logs @ map (\<lambda>(i, l). Notified i l
        \<lparr>newState = new, oldState = old,
         stateChange = filter (\<lambda>(k, v). erase v \<noteq> erase (property old k)) new\<rparr>) cs
    \<and> map fst new = map fst old"
proof -
  let ?env = "block_env r locale" and ?b = "new_base b (Some u)"
  obtain x' where x': "block_reduceExtra x xu = Inr x'"
    by (simp add: block_reduceExtra_def)
  have "decay_in_range (unbox (feesInNormalMode ?b)) None"
    using assms(7-9) unfolding new_base_fees decay_in_range_def by simp
  moreover have "listeners_ok s"
    using assms(4,5) by (simp add: listeners_ok_def)
  moreover have "new_extra ?env (extraState s) (Some xu) (Some x')"
    using x' assms(3) by (simp add: block_env_def)
  moreover have "\<And>l p msg. Raise msg \<notin> set (react ?env l p)"
    using assms(6) by (simp add: block_env_def)
  ultimately obtain s' d0 cs logs where run: "update ?env (Some u) (Some xu) s = (Inr (), s')"
    and s': "baseState s' = Some ?b" "derivedState s' = Some (reduced_derived d d0)"
      "extraState s' = Some x'"
    and ids: "ident (d_fees d0) = nextIdent s" "ident (d_trove d0) = nextIdent s + 1"
      "ident (d_borrowingRate d0) = nextIdent s + 2" "ident (d_redemptionRate d0) = nextIdent s + 3"
    and tr: "trace s' = trace s @ map Log logs @ map (\<lambda>(i, l). Notified i l
      \<lparr>newState = store_state ?env s', oldState = store_state ?env s,
       stateChange = difference_entries (store_state ?env s') (store_state ?env s)\<rparr>) cs"
    using update_outcome [OF assms(1,2), of "Some u" ?env "Some xu" "Some x'"] by metis
  have new: "store_state ?env s' = map2 pick_entry (base_entries b) (update_entries u)
      @ map2 pick_entry (derived_entries d) (map (\<lambda>(k, v). (k, Some v)) (derived_entries d0))
      @ block_extra_entries x'"
    using store_state_block [OF s'] by (simp add: new_base_def base_entries_reduced derived_entries_reduced)
  have old: "store_state ?env s = base_entries b @ derived_entries d @ block_extra_entries x"
    by (rule store_state_block [OF assms(1-3)])
  have keys: "map fst (store_state ?env s') = state_keys" "map fst (store_state ?env s) = state_keys"
    using store_state_block [OF s'] old by (simp_all only: state_keys)
  have "list_all2 agrees (map2 pick_entry (base_entries b) (update_entries u)) (base_entries b)"
    by (rule agrees_picked) (auto simp: lengths intro: coherentD [OF assms(10)])
  moreover have "list_all2 agrees
      (map2 pick_entry (derived_entries d) (map (\<lambda>(k, v). (k, Some v)) (derived_entries d0)))
      (derived_entries d)"
    by (rule agrees_picked)
       (simp_all only: length_map lengths some_entries fresh_derived [OF assms(11) ids])
  ultimately have "list_all2 agrees (store_state ?env s') (store_state ?env s)"
    unfolding new old by (intro list_all2_appendI agrees_extra)
  from difference_agrees [OF this] run tr keys show ?thesis
    by (auto simp: distinct_state_keys)
qed

theorem state_change_exact_witness:
  "\<exists>s' old new logs cs. update quiet_env (Some example_update)
      (Some \<lparr>upd_blockTag = Some 6, upd_blockTimestamp = None, upd_feesFactory = None\<rparr>) example_store
      = (Inr (), s')
    \<and> old = store_state quiet_env example_store \<and> new = store_state quiet_env s'
    \<and> trace s' = trace example_store @ map Log logs @ map (\<lambda>(i, l). Notified i l
        \<lparr>newState = new, oldState = old,
         stateChange = filter (\<lambda>(k, v). erase v \<noteq> erase (property old k)) new\<rparr>) cs
    \<and> map fst new = map fst old"
  by (rule state_change_exact [where b = example_base and d = example_derived and f = example_fees
        and x = "\<lparr>blockTag = Some 5, blockTimestamp = 300, feesFactory = Obj 28 (\<lambda>_ _. Inr example_fees)\<rparr>"])
     (auto simp: example_store_def initial_store_def example_update_def no_update_def coherent_def
       example_base_def example_derived_def example_fees_def decimal_order DIGITS_eq minutesSince_def
       base_entries_def update_entries_def derived_entries_def)

theorem at_most_one_timer_witness:
  "\<exists>s. store_step quiet_env (initial_store :: (block_extra, string) store) s
    \<and> length (pendingTimers s) \<le> 1
    \<and> (\<forall>i \<in> set (pendingTimers s). updateTimeoutId s = Some i)
    \<and> pendingTimers (snd (stop s)) = []
    \<and> (loaded s \<longrightarrow> baseState s \<noteq> None \<and> derivedState s \<noteq> None)"
proof -
  let ?s = "snd (load quiet_env example_base None (initial_store :: (block_extra, string) store))"
  have "store_step quiet_env initial_store ?s"
    by (rule store_step.Load) (rule prod.collapse [symmetric])
  with at_most_one_timer [OF reachable.Step [OF reachable.Init this]] show ?thesis
    by blast
qed

end
