(* ===== verification/JsValue.thy ===== *)
theory JsValue
  imports Effects "HOL-Library.List_Lexorder" "HOL-Library.Char_ord"
begin

text \<open>
  The dynamically typed values of the JavaScript sources: \<open>BN\<close> is a \<^verbatim>\<open>bn.js\<close> integer, \<open>Num\<close> an
  integral number, \<open>Obj\<close> an object by its entries. Reading a property of \<open>undefined\<close> and calling a
  \<open>BN\<close> method on something else raise a \<open>TypeError\<close>, as the engine does; \<open>toBN\<close> and \<open>toWei\<close> are
  the conversions of \<^verbatim>\<open>web3.utils\<close> on the values the sources pass to them.
\<close>

datatype val =
    Undefined
  | BN int
  | Num int
  | Str string
  | Bool bool
  | Arr "val list"
  | Obj "(string \<times> val) list"

section \<open>Properties\<close>

definition getp :: "val \<Rightarrow> string \<Rightarrow> val res" where
  "getp v k =
     (case v of
        Obj es \<Rightarrow> Inr (case map_of es k of None \<Rightarrow> Undefined | Some x \<Rightarrow> x)
      | Arr xs \<Rightarrow> Inr (if k = ''length'' then Num (int (length xs)) else Undefined)
      | Undefined \<Rightarrow> Inl (TypeError (''Cannot read properties of undefined (reading '' @ k @ '')''))
      | _ \<Rightarrow> Inr Undefined)"

definition geti :: "val \<Rightarrow> nat \<Rightarrow> val res" where
  "geti v i =
     (case v of
        Arr xs \<Rightarrow> Inr (if i < length xs then xs ! i else Undefined)
      | Undefined \<Rightarrow> Inl (TypeError (''Cannot read properties of undefined (reading '' @ show_nat i @ '')''))
      | Obj es \<Rightarrow> Inr (case map_of es (show_nat i) of None \<Rightarrow> Undefined | Some x \<Rightarrow> x)
      | _ \<Rightarrow> Inr Undefined)"

definition as_list :: "val \<Rightarrow> val list res" where
  "as_list v = (case v of Arr xs \<Rightarrow> Inr xs | _ \<Rightarrow> Inl (TypeError ''object is not iterable''))"

definition as_BN :: "val \<Rightarrow> int res" where
  "as_BN v = (case v of BN i \<Rightarrow> Inr i | _ \<Rightarrow> Inl (TypeError ''not a BN''))"

definition as_Num :: "val \<Rightarrow> int res" where
  "as_Num v = (case v of Num i \<Rightarrow> Inr i | _ \<Rightarrow> Inl (TypeError ''not a number''))"

definition as_Str :: "val \<Rightarrow> string res" where
  "as_Str v = (case v of Str s \<Rightarrow> Inr s | _ \<Rightarrow> Inl (TypeError ''not a string''))"

section \<open>Conversions\<close>

definition hex_digit :: "char \<Rightarrow> nat option" where
  "hex_digit c =
     (let n = of_char c :: nat
      in if 48 \<le> n \<and> n \<le> 57 then Some (n - 48)
         else if 97 \<le> n \<and> n \<le> 102 then Some (n - 87)
         else if 65 \<le> n \<and> n \<le> 70 then Some (n - 55) else None)"

fun parse_hex :: "nat \<Rightarrow> string \<Rightarrow> nat option" where
  "parse_hex acc [] = Some acc"
| "parse_hex acc (c # cs) =
     (case hex_digit c of None \<Rightarrow> None | Some d \<Rightarrow> parse_hex (16 * acc + d) cs)"

definition parse_unsigned :: "string \<Rightarrow> nat option" where
  "parse_unsigned s =
     (if take 2 s = ''0x'' then parse_hex 0 (drop 2 s)
      else if s \<noteq> [] \<and> list_all is_digit s then Some (parse_nat s) else None)"

definition toBN :: "val \<Rightarrow> int res" where
  "toBN v =
     (case v of
        BN i \<Rightarrow> Inr i
      | Num i \<Rightarrow> Inr i
      | Str s \<Rightarrow>
          (case (if take 1 s = ''-'' then map_option (\<lambda>n. - int n) (parse_unsigned (drop 1 s))
                 else map_option int (parse_unsigned s)) of
             Some i \<Rightarrow> Inr i
           | None \<Rightarrow> Inl (Error ''Given input is not a valid number''))
      | _ \<Rightarrow> Inl (Error ''Given input is not a valid number''))"

text \<open>\<open>toWei(amount, unit)\<close> of a non-negative decimal string, for a unit of \<open>10 ^ decimals\<close> wei.\<close>

definition toWei :: "string \<Rightarrow> nat \<Rightarrow> string res" where
  "toWei s decimals =
     (case split_on (CHR ''.'') s of
        [w] \<Rightarrow> if w \<noteq> [] \<and> list_all is_digit w then Inr (show_nat (parse_nat w * 10 ^ decimals))
               else Inl (Error ''invalid number value'')
      | [w, f] \<Rightarrow>
          if list_all is_digit (w @ f) \<and> w @ f \<noteq> [] then
            if decimals < length f then Inl (Error ''too many decimal places'')
            else Inr (show_nat (parse_nat w * 10 ^ decimals + parse_nat f * 10 ^ (decimals - length f)))
          else Inl (Error ''invalid number value'')
      | _ \<Rightarrow> Inl (Error ''too many decimal points''))"

fun truthy :: "val \<Rightarrow> bool" where
  "truthy Undefined = False"
| "truthy (BN i) = True"
| "truthy (Num i) = (i \<noteq> 0)"
| "truthy (Str s) = (s \<noteq> [])"
| "truthy (Bool b) = b"
| "truthy (Arr xs) = True"
| "truthy (Obj es) = True"

fun to_string :: "val \<Rightarrow> string" where
  "to_string Undefined = ''undefined''"
| "to_string (BN i) = show_int i"
| "to_string (Num i) = show_int i"
| "to_string (Str s) = s"
| "to_string (Bool b) = (if b then ''true'' else ''false'')"
| "to_string (Arr xs) =
     join_strings '','' (map (\<lambda>x. case x of Undefined \<Rightarrow> [] | _ \<Rightarrow> to_string x) xs)"
| "to_string (Obj es) = ''[object Object]''"

section \<open>Operators on \<open>BN\<close> objects\<close>

text \<open>\<open><\<close> and \<open>>\<close> convert \<open>BN\<close> objects to primitives, which are their decimal strings, and strings
  compare lexicographically; \<open>==\<close> compares the objects' identities, and two results of different
  calls are different objects.\<close>

definition bn_less :: "int \<Rightarrow> int \<Rightarrow> bool" where
  "bn_less a b \<longleftrightarrow> show_int a < show_int b"

definition bn_same_object :: "int \<Rightarrow> int \<Rightarrow> bool" where
  "bn_same_object a b \<longleftrightarrow> False"

text \<open>Division of \<open>bn.js\<close> truncates towards zero and throws on a zero divisor.\<close>

definition bn_div :: "int \<Rightarrow> int \<Rightarrow> int res" where
  "bn_div a b = (if b = 0 then Inl (Error ''Assertion failed'') else Inr (sgn a * sgn b * (\<bar>a\<bar> div \<bar>b\<bar>)))"

lemma bn_div_nonneg: "0 \<le> a \<Longrightarrow> 0 < b \<Longrightarrow> bn_div a b = Inr (a div b)"
  by (cases "a = 0") (simp_all add: bn_div_def)

lemma getp_Obj [simp]:
  "getp (Obj es) k = Inr (case map_of es k of None \<Rightarrow> Undefined | Some x \<Rightarrow> x)"
  by (simp add: getp_def)

lemma geti_Arr [simp]: "geti (Arr xs) i = Inr (if i < length xs then xs ! i else Undefined)"
  by (simp add: geti_def)

lemma as_BN_simp [simp]: "as_BN (BN i) = Inr i"
  by (simp add: as_BN_def)

lemma as_Num_simp [simp]: "as_Num (Num i) = Inr i"
  by (simp add: as_Num_def)

lemma as_list_simp [simp]: "as_list (Arr xs) = Inr xs"
  by (simp add: as_list_def)

lemma toBN_simps [simp]: "toBN (BN i) = Inr i" "toBN (Num i) = Inr i"
  by (simp_all add: toBN_def)

lemma toBN_show_nat: "toBN (Str (show_nat n)) = Inr (int n)"
proof -
  have digits: "is_digit c" if "c \<in> set (show_nat n)" for c
    using that by (rule show_nat_is_digit)
  have "take 1 (show_nat n) \<noteq> ''-''"
  proof
    assume "take 1 (show_nat n) = ''-''"
    then have "CHR ''-'' \<in> set (take 1 (show_nat n))" by simp
    then have "is_digit (CHR ''-'')" using digits in_set_takeD by metis
    then show False by simp
  qed
  moreover have "take 2 (show_nat n) \<noteq> ''0x''"
  proof
    assume "take 2 (show_nat n) = ''0x''"
    then have "CHR ''x'' \<in> set (take 2 (show_nat n))" by simp
    then have "is_digit (CHR ''x'')" using digits in_set_takeD by metis
    then show False by (simp add: is_digit_def)
  qed
  ultimately show ?thesis
    using show_nat_digits [of n] by (simp add: toBN_def parse_unsigned_def)
qed

end
