(* ===== verification/Chain.thy ===== *)
theory Chain
  imports JsValue
begin

text \<open>
  The chain as the JavaScript sources use it. A contract is known by its key in the \<open>contracts\<close>
  object; what a call of one of its methods does, \<^verbatim>\<open>web3\<close> requests, \<open>Math.random\<close> and the console
  are the fields of a record of parameters over a state \<open>'w\<close> of the world. The only mutable state of
  the helpers themselves is the static field \<open>latestRandomSeed\<close>.
\<close>

record 'w chain =
  invoke :: "string \<Rightarrow> string \<Rightarrow> val list \<Rightarrow> (string \<times> val) list \<Rightarrow> ('w, val) io"
    \<comment> \<open>contract, method, arguments, transaction options\<close>
  addressOf :: "string \<Rightarrow> string"
  request :: "string \<Rightarrow> val list \<Rightarrow> ('w, val) io"
    \<comment> \<open>\<^verbatim>\<open>web3.eth\<close> and provider requests\<close>
  randomText :: "val \<Rightarrow> val \<Rightarrow> ('w, string) io"
    \<comment> \<open>\<^verbatim>\<open>(Math.random() * (max - min) + min).toString()\<close>\<close>
  randomFloor :: "val \<Rightarrow> val \<Rightarrow> ('w, int) io"
    \<comment> \<open>\<^verbatim>\<open>Math.floor(Math.random() * (max - min) + min)\<close>\<close>
  print :: "string \<Rightarrow> ('w, unit) io"
  parseLog :: "string \<Rightarrow> val \<Rightarrow> val res"
    \<comment> \<open>\<^verbatim>\<open>iFace.parseLog\<close> of the interface of a contract\<close>
  encodeABI :: "string \<Rightarrow> string \<Rightarrow> val list \<Rightarrow> string res"
    \<comment> \<open>\<^verbatim>\<open>contract.methods[name](...args).encodeABI()\<close>\<close>

record 'w helper_state =
  latestRandomSeed :: val
  chainState :: 'w

type_synonym ('w, 'a) th = "('w helper_state, 'a) io"

definition on_chain :: "('w, 'a) io \<Rightarrow> ('w, 'a) th" where
  "on_chain m = (\<lambda>s. case m (chainState s) of (r, w) \<Rightarrow> (r, s\<lparr>chainState := w\<rparr>))"

definition callM ::
  "'w chain \<Rightarrow> string \<Rightarrow> string \<Rightarrow> val list \<Rightarrow> (string \<times> val) list \<Rightarrow> ('w, val) th" where
  "callM ch contract method args opts = on_chain (invoke ch contract method args opts)"

abbreviation "getM v k \<equiv> lift_io (getp v k)"

abbreviation "indexM v i \<equiv> lift_io (geti v i)"

abbreviation "bnM v \<equiv> lift_io (as_BN v)"

abbreviation "toBNM v \<equiv> lift_io (toBN v)"

abbreviation "divM a b \<equiv> lift_io (bn_div a b)"

text \<open>A call whose result is used as a \<open>BN\<close>.\<close>

definition callBN ::
  "'w chain \<Rightarrow> string \<Rightarrow> string \<Rightarrow> val list \<Rightarrow> (string \<times> val) list \<Rightarrow> ('w, int) th" where
  "callBN ch contract method args opts = bind_io (callM ch contract method args opts) bnM"

definition addr :: "'w chain \<Rightarrow> string \<Rightarrow> val" where
  "addr ch contract = Str (addressOf ch contract)"

definition logM :: "'w chain \<Rightarrow> string \<Rightarrow> ('w, unit) th" where
  "logM ch msg = on_chain (print ch msg)"

lemma on_chain_run:
  "m (chainState s) = (r, w) \<Longrightarrow> on_chain m s = (r, s\<lparr>chainState := w\<rparr>)"
  by (simp add: on_chain_def)

end
