(* ===== verification/TestHelpers_Math.thy ===== *)
theory TestHelpers_Math
  imports Chain "HOL-Library.AList"
begin

text \<open>
  The functions of \<^verbatim>\<open>packages/contracts/utils/testHelpers.js\<close> that make no calls: number and string
  helpers, gas metrics, the extraction of event arguments from a transaction, and the fixed-point
  computations the tests compare the contracts with.
\<close>

section \<open>Constants\<close>

definition MoneyValues :: "(string \<times> val) list" where
  "MoneyValues =
     [(''negative_5e17'', Str (''-'' @ show_nat (500 * 10 ^ 15))),
      (''negative_1e18'', Str (''-'' @ show_nat (1 * 10 ^ 18))),
      (''negative_10e18'', Str (''-'' @ show_nat (10 * 10 ^ 18))),
      (''negative_50e18'', Str (''-'' @ show_nat (50 * 10 ^ 18))),
      (''negative_100e18'', Str (''-'' @ show_nat (100 * 10 ^ 18))),
      (''negative_101e18'', Str (''-'' @ show_nat (101 * 10 ^ 18))),
      (''_zeroBN'', BN 0), (''_1e18BN'', BN (10 ^ 18)), (''_10e18BN'', BN (10 ^ 19)),
      (''_100e18BN'', BN (10 ^ 20)), (''_100BN'', BN 100), (''_110BN'', BN 110), (''_150BN'', BN 150),
      (''_MCR'', BN (11 * 10 ^ 17)), (''_ICR100'', BN (10 ^ 18)), (''_CCR'', BN (15 * 10 ^ 17))]"

definition negative_eth :: "string \<Rightarrow> string res" where
  "negative_eth amount = bind_res (toWei amount 18) (\<lambda>w. Inr (''-'' @ w))"

definition e18 :: int where
  "e18 = 10 ^ 18"

definition MCR :: int where
  "MCR = 11 * 10 ^ 17"

definition ICR100 :: int where
  "ICR100 = 10 ^ 18"

definition MAX_DELTA_PER_HOUR :: int where
  "MAX_DELTA_PER_HOUR = 10 ^ 15"

definition TimeValues :: "(string \<times> int) list" where
  "TimeValues =
     [(''SECONDS_IN_ONE_MINUTE'', 60), (''SECONDS_IN_ONE_HOUR'', 60 * 60),
      (''SECONDS_IN_ONE_DAY'', 60 * 60 * 24), (''SECONDS_IN_ONE_WEEK'', 60 * 60 * 24 * 7),
      (''SECONDS_IN_SIX_WEEKS'', 60 * 60 * 24 * 7 * 6), (''SECONDS_IN_ONE_MONTH'', 60 * 60 * 24 * 30),
      (''SECONDS_IN_ONE_YEAR'', 60 * 60 * 24 * 365), (''MINUTES_IN_ONE_WEEK'', 60 * 24 * 7),
      (''MINUTES_IN_ONE_MONTH'', 60 * 24 * 30), (''MINUTES_IN_ONE_YEAR'', 60 * 24 * 365)]"

definition SECONDS_IN_ONE_HOUR :: int where
  "SECONDS_IN_ONE_HOUR = 60 * 60"

definition ZERO_ADDRESS :: val where
  "ZERO_ADDRESS = Str (''0x'' @ replicate 40 (CHR ''0''))"

definition maxBytes32 :: val where
  "maxBytes32 = Str (''0x'' @ replicate 64 (CHR ''f''))"

definition hundred_pct :: val where
  "hundred_pct = Str ''1000000000000000000''"

definition initialRandomSeed :: val where
  "initialRandomSeed = Num 31337"

section \<open>Strings and numbers\<close>

fun repeat_count :: "val \<Rightarrow> int" where
  "repeat_count (Num n) = n"
| "repeat_count (BN n) = n"
| "repeat_count (Str s) = (if list_all is_digit s then int (parse_nat s) else 0)"
| "repeat_count (Bool b) = (if b then 1 else 0)"
| "repeat_count _ = 0"

definition dec :: "val \<Rightarrow> val \<Rightarrow> string res" where
  "dec v scale =
     (let zerosCount = (if scale = Str ''ether'' then 18
                        else if scale = Str ''finney'' then 15 else repeat_count scale)
      in if v = Undefined then Inl (TypeError ''Cannot read properties of undefined (reading toString)'')
         else if zerosCount < 0 then Inl (RangeError (''Invalid count value: '' @ show_int zerosCount))
         else Inr (to_string v @ replicate (nat zerosCount) (CHR ''0'')))"

definition js_slice :: "int \<Rightarrow> int \<Rightarrow> string \<Rightarrow> string" where
  "js_slice a b s =
     (let n = int (length s);
          start = (if a < 0 then max (n + a) 0 else min a n);
          stop = (if b < 0 then max (n + b) 0 else min b n)
      in take (nat (stop - start)) (drop (nat start) s))"

definition squeezeAddr :: "string \<Rightarrow> string" where
  "squeezeAddr address =
     (let len = int (length address)
      in js_slice 0 6 address @ ''...'' @ js_slice (len - 4) len address)"

definition getEndOfAccount :: "string \<Rightarrow> string" where
  "getEndOfAccount account =
     js_slice (int (length account) - 4) (int (length account)) account"

text \<open>\<open>Number(n)\<close> of a natural number: the nearest double, ties to even.\<close>

fun bit_length :: "nat \<Rightarrow> nat" where
  "bit_length n = (if n = 0 then 0 else Suc (bit_length (n div 2)))"

declare bit_length.simps [simp del]

definition to_double :: "nat \<Rightarrow> nat" where
  "to_double n =
     (if n < 2 ^ 53 then n
      else (let e = bit_length n - 53; q = n div 2 ^ e; r = n mod 2 ^ e
            in if 2 * r < 2 ^ e \<or> (2 * r = 2 ^ e \<and> even q) then q * 2 ^ e else (q + 1) * 2 ^ e))"

definition getDifference :: "val \<Rightarrow> val \<Rightarrow> nat res" where
  "getDifference x y =
     bind_res (toBN x) (\<lambda>x_BN. bind_res (toBN y) (\<lambda>y_BN. Inr (to_double (nat \<bar>x_BN - y_BN\<bar>))))"

definition assertIsApproximatelyEqual :: "val \<Rightarrow> val \<Rightarrow> nat option \<Rightarrow> unit res" where
  "assertIsApproximatelyEqual x y err =
     (let error = (case err of None \<Rightarrow> 1000 | Some e \<Rightarrow> e)
      in bind_res (getDifference x y) (\<lambda>d. assert_res ''isAtMost'' (d \<le> error)))"

definition zipToObject :: "string list \<Rightarrow> val list \<Rightarrow> (string \<times> val) list" where
  "zipToObject array1 array2 =
     foldl (\<lambda>obj (idx, element).
              AList.update element (if idx < length array2 then array2 ! idx else Undefined) obj)
       [] (List.enumerate 0 array1)"

definition hexToParam :: "string \<Rightarrow> string" where
  "hexToParam hexValue =
     js_slice (-64) (int (64 + length hexValue)) (replicate 64 (CHR ''0'') @ js_slice 2 (int (length hexValue)) hexValue)"

text \<open>\<^verbatim>\<open>new RegExp('[0-9]*').test(param)\<close> holds of every string, since the pattern matches the empty
  string; the last branch of \<open>formatParam\<close> is never taken on a string.\<close>

definition formatParam :: "(val \<Rightarrow> string res) \<Rightarrow> val \<Rightarrow> string res" where
  "formatParam toHex param =
     (case param of
        Bool b \<Rightarrow> Inr (hexToParam (if b then ''0x01'' else ''0x00''))
      | Undefined \<Rightarrow> Inl (TypeError ''Cannot read properties of undefined (reading slice)'')
      | _ \<Rightarrow> bind_res (toHex param) (\<lambda>h. Inr (hexToParam h)))"

definition getTransactionData ::
  "(string \<Rightarrow> string) \<Rightarrow> (val \<Rightarrow> string res) \<Rightarrow> string \<Rightarrow> val list \<Rightarrow> string res" where
  "getTransactionData sha3 toHex signatureString params =
     bind_res (map_res (formatParam toHex) params) (\<lambda>ps.
       Inr (js_slice 0 10 (sha3 signatureString) @ concat ps))"

definition secondsToDays :: "int \<Rightarrow> rat" where
  "secondsToDays seconds = Fract seconds (60 * 60 * 24)"

definition daysToSeconds :: "int \<Rightarrow> int" where
  "daysToSeconds days = days * (60 * 60 * 24)"

definition makeWei :: "val \<Rightarrow> string res" where
  "makeWei num = toWei (to_string num) 18"

definition appendData :: "(string \<times> val) list \<Rightarrow> string \<Rightarrow> string list \<Rightarrow> string list" where
  "appendData results message data =
     data @ [message @ [CHR 0x0A]] @ map (\<lambda>(k, v). k @ '','' @ to_string v @ [CHR 0x0A]) results"

section \<open>Gas metrics\<close>

record gas_metrics =
  gasCostList :: "int list"
  minGas :: "int option"
  maxGas :: "int option"
  meanGas :: "rat option"
  medianGas :: "int option"

text \<open>\<open>sort()\<close> without a comparison function orders by the decimal strings.\<close>

definition getGasMetrics :: "int list \<Rightarrow> gas_metrics" where
  "getGasMetrics costs =
     (let sum = sum_list costs
      in if sum = 0 then
           \<lparr>gasCostList = costs, minGas = None, maxGas = None, meanGas = None, medianGas = None\<rparr>
         else (let sortedGasCostList = sort_key show_int costs
               in \<lparr>gasCostList = costs, minGas = Some (Min (set costs)), maxGas = Some (Max (set costs)),
                   meanGas = Some (Fract sum (int (length costs))),
                   medianGas = Some (sortedGasCostList ! (length sortedGasCostList div 2))\<rparr>))"

text \<open>\<open>getGasMinMaxAvg\<close> refers to the helper class by a name that only the test files declare.\<close>

definition getGasMinMaxAvg :: "int list \<Rightarrow> (int option \<times> int option \<times> rat option \<times> int option) res" where
  "getGasMinMaxAvg costs = Inl (ReferenceError ''th is not defined'')"

definition gasUsed :: "val \<Rightarrow> int res" where
  "gasUsed tx = bind_res (getp tx ''receipt'') (\<lambda>r. bind_res (getp r ''gasUsed'') as_Num)"

definition ethUsed :: "val \<Rightarrow> int res" where
  "ethUsed tx =
     bind_res (getp tx ''receipt'') (\<lambda>r.
     bind_res (getp r ''gasUsed'') (\<lambda>g. bind_res (toBN g) (\<lambda>gas.
     bind_res (getp r ''effectiveGasPrice'') (\<lambda>p. bind_res (toBN p) (\<lambda>gasPrice.
       Inr (gas * gasPrice))))))"

section \<open>Fixed-point computations\<close>

definition MAX_BN :: int where
  "MAX_BN = 0xffffffffffffffffffffffffffffffffffffffffffffffffffffffffffffffff"

definition computeICR :: "val \<Rightarrow> val \<Rightarrow> val \<Rightarrow> int res" where
  "computeICR coll debt price =
     bind_res (toBN coll) (\<lambda>collBN. bind_res (toBN debt) (\<lambda>debtBN. bind_res (toBN price) (\<lambda>priceBN.
       if debtBN = 0 then Inr MAX_BN else bn_div (collBN * priceBN) debtBN)))"

definition applyLiquidationFee :: "int \<Rightarrow> int res" where
  "applyLiquidationFee ethAmount = bn_div (ethAmount * (995 * 10 ^ 15)) e18"

definition calculateParTarget :: "int \<Rightarrow> int \<Rightarrow> int \<Rightarrow> int \<Rightarrow> int res" where
  "calculateParTarget price coll debt targetICR = bn_div (coll * price * e18) (debt * targetICR)"

definition calculateCollateralFee :: "int \<Rightarrow> int \<Rightarrow> int res" where
  "calculateCollateralFee collateralDrawn redemptionRate = bn_div (collateralDrawn * redemptionRate) e18"

text \<open>The comparisons with \<open>toBN("0")\<close> by \<open>==\<close> compare objects, so no iteration is ever skipped or
  stopped by them. A Trove is the pair of its debt and its collateral.\<close>

definition shutdownLot :: "int \<Rightarrow> int \<Rightarrow> int \<Rightarrow> int \<Rightarrow> int \<Rightarrow> int \<Rightarrow> (int \<times> int) res" where
  "shutdownLot remaining actualDebt coll par price discount =
     (let lusdLot = (if remaining > actualDebt then actualDebt else remaining)
      in bind_res (bn_div (lusdLot * par * e18) ((e18 - discount) * price)) (\<lambda>collateralLot.
         if collateralLot > coll then
           bind_res (bn_div (coll * (e18 - discount) * price) (par * e18)) (\<lambda>lusdLot. Inr (coll, lusdLot))
         else Inr (collateralLot, lusdLot)))"

fun shutdownLoop ::
  "int \<Rightarrow> int \<Rightarrow> int \<Rightarrow> int \<times> int \<times> int \<Rightarrow> (int \<times> int) list \<Rightarrow> (int \<times> int \<times> int) res" where
  "shutdownLoop par price discount (remaining, collateral, consumed) [] =
     Inr (remaining, collateral, consumed)"
| "shutdownLoop par price discount (remaining, collateral, consumed) ((actualDebt, coll) # troves) =
     (if bn_same_object remaining 0 then Inr (remaining, collateral, consumed)
      else if bn_same_object coll 0 \<or> bn_same_object actualDebt 0 then
        shutdownLoop par price discount (remaining, collateral, consumed) troves
      else bind_res (shutdownLot remaining actualDebt coll par price discount) (\<lambda>(collateralLot, lusdLot).
        if bn_same_object collateralLot 0 \<or> bn_same_object lusdLot 0 then
          shutdownLoop par price discount (remaining, collateral, consumed) troves
        else shutdownLoop par price discount
               (remaining - lusdLot, collateral + collateralLot, consumed + lusdLot) troves))"

definition computeShutdownRedemptionForTrove ::
  "val \<Rightarrow> (int \<times> int) list \<Rightarrow> int \<Rightarrow> int \<Rightarrow> int \<Rightarrow> (int \<times> int) res" where
  "computeShutdownRedemptionForTrove totalLUSD troves par price discount =
     bind_res (toBN totalLUSD) (\<lambda>remaining.
     bind_res (shutdownLoop par price discount (remaining, 0, 0) troves)
       (\<lambda>(remaining, totalCollateral, totalLUSDConsumed). Inr (totalCollateral, totalLUSDConsumed)))"

section \<open>Events\<close>

fun first_log :: "string \<Rightarrow> val list \<Rightarrow> val option res" where
  "first_log name [] = Inr None"
| "first_log name (l # ls) =
     bind_res (getp l ''event'') (\<lambda>e. if e = Str name then Inr (Some l) else first_log name ls)"

text \<open>The shape the \<open>getEmitted...\<close> functions share: the arguments, by position, of the first event
  of that name, or a thrown message.\<close>

definition event_args :: "val \<Rightarrow> string \<Rightarrow> string \<Rightarrow> nat list \<Rightarrow> val list res" where
  "event_args tx name msg positions =
     bind_res (getp tx ''logs'') (\<lambda>logs. bind_res (as_list logs) (\<lambda>ls.
     bind_res (first_log name ls) (\<lambda>found.
       case found of
         None \<Rightarrow> Inl (Thrown msg)
       | Some l \<Rightarrow> bind_res (getp l ''args'') (\<lambda>args. map_res (geti args) positions))))"

definition event_arg :: "val \<Rightarrow> string \<Rightarrow> string \<Rightarrow> nat \<Rightarrow> val res" where
  "event_arg tx name msg position = bind_res (event_args tx name msg [position]) (\<lambda>xs. Inr (hd xs))"

definition getEmittedRedemptionValues :: "val \<Rightarrow> val list res" where
  "getEmittedRedemptionValues redemptionTx = event_args redemptionTx ''Redemption''
     ''The transaction logs do not contain a redemption event'' [0, 1, 2, 3]"

definition getEmittedEtherSentValues :: "val \<Rightarrow> val list res" where
  "getEmittedEtherSentValues tx = event_args tx ''EtherSent''
     ''The transaction logs do not contain an EtherSent event'' [0, 1]"

definition getEmittedParUpdateValues :: "val \<Rightarrow> val list res" where
  "getEmittedParUpdateValues updateTx = event_args updateTx ''ParUpdated''
     ''The transaction logs do not contain a par update event'' [0, 1, 2, 3]"

definition getEmittedRateUpdateValues :: "val \<Rightarrow> val list res" where
  "getEmittedRateUpdateValues updateTx = event_args updateTx ''RateUpdated''
     ''The transaction logs do not contain a rate update event'' [0, 1, 2, 3]"

definition getEmittedLiquidationValues :: "val \<Rightarrow> val list res" where
  "getEmittedLiquidationValues liquidationTx = event_args liquidationTx ''Liquidation''
     ''The transaction logs do not contain a liquidation event'' [0, 1, 2, 3]"

definition getEmittedPUpdated :: "val \<Rightarrow> val res" where
  "getEmittedPUpdated pUpdatedTx = event_arg pUpdatedTx ''P_Updated''
     ''The transaction logs do not contain a P_Updated event'' 0"

definition getEmittedDistributeToSP :: "val \<Rightarrow> val res" where
  "getEmittedDistributeToSP tx = event_arg tx ''DistributeToSP''
     ''The transaction logs do not contain a DistributeToSP event'' 0"

definition getEmittedOffset :: "val \<Rightarrow> val res" where
  "getEmittedOffset tx = event_arg tx ''Offset''
     ''The transaction logs do not contain an Offset event'' 0"

definition getEmittedTroveUpdateValues :: "val \<Rightarrow> val list res" where
  "getEmittedTroveUpdateValues troveUpdateTx = event_args troveUpdateTx ''TroveUpdated''
     ''The transaction logs do not contain a trove update event'' [0, 1, 2, 3, 4]"

definition getEmittedTroveICRValues :: "val \<Rightarrow> val list res" where
  "getEmittedTroveICRValues troveUpdateTx = event_args troveUpdateTx ''TroveICR''
     ''The transaction logs do not contain a trove update event'' [0, 1, 2, 3, 4]"

definition getLiquidationEventArg :: "val \<Rightarrow> nat \<Rightarrow> val res" where
  "getLiquidationEventArg liquidationTx arg = event_arg liquidationTx ''Liquidation''
     ''The transaction logs do not contain a liquidation event'' arg"

definition getEmittedLiquidatedDebt :: "val \<Rightarrow> val res" where
  "getEmittedLiquidatedDebt liquidationTx = getLiquidationEventArg liquidationTx 0"

definition getEmittedLiquidatedColl :: "val \<Rightarrow> val res" where
  "getEmittedLiquidatedColl liquidationTx = getLiquidationEventArg liquidationTx 1"

definition getEmittedGasComp :: "val \<Rightarrow> val res" where
  "getEmittedGasComp liquidationTx = getLiquidationEventArg liquidationTx 2"

definition getLUSDFeeFromLUSDBorrowingEvent :: "val \<Rightarrow> string res" where
  "getLUSDFeeFromLUSDBorrowingEvent tx =
     bind_res (event_arg tx ''LUSDBorrowingFeePaid''
       ''The transaction logs do not contain an LUSDBorrowingFeePaid event'' 1) (\<lambda>v.
       if v = Undefined then Inl (TypeError ''Cannot read properties of undefined (reading toString)'')
       else Inr (to_string v))"

definition getEventArgByIndex :: "val \<Rightarrow> string \<Rightarrow> nat \<Rightarrow> val res" where
  "getEventArgByIndex tx eventName argIndex = event_arg tx eventName
     (''The transaction logs do not contain event '' @ eventName) argIndex"

fun find_arg :: "string \<Rightarrow> string \<Rightarrow> val list \<Rightarrow> val option res" where
  "find_arg eventName argName [] = Inr None"
| "find_arg eventName argName (l # ls) =
     bind_res (getp l ''event'') (\<lambda>e.
       if e = Str eventName then
         bind_res (getp l ''args'') (\<lambda>args.
           case (case args of Obj es \<Rightarrow> map_of es argName | _ \<Rightarrow> None) of
             Some v \<Rightarrow> Inr (Some v)
           | None \<Rightarrow> find_arg eventName argName ls)
       else find_arg eventName argName ls)"

definition getEventArgByName :: "val \<Rightarrow> string \<Rightarrow> string \<Rightarrow> val res" where
  "getEventArgByName tx eventName argName =
     bind_res (getp tx ''logs'') (\<lambda>logs. bind_res (as_list logs) (\<lambda>ls.
     bind_res (find_arg eventName argName ls) (\<lambda>found.
       case found of
         Some v \<Rightarrow> Inr v
       | None \<Rightarrow> Inl (Thrown (''The transaction logs do not contain event '' @ eventName @ '' and arg ''
                              @ argName)))))"

fun filter_res :: "('a \<Rightarrow> bool res) \<Rightarrow> 'a list \<Rightarrow> 'a list res" where
  "filter_res p [] = Inr []"
| "filter_res p (x # xs) =
     bind_res (p x) (\<lambda>b. bind_res (filter_res p xs) (\<lambda>ys. Inr (if b then x # ys else ys)))"

fun find_res :: "('a \<Rightarrow> bool res) \<Rightarrow> 'a list \<Rightarrow> 'a option res" where
  "find_res p [] = Inr None"
| "find_res p (x # xs) = bind_res (p x) (\<lambda>b. if b then Inr (Some x) else find_res p xs)"

definition getAllRawEventArgByName ::
  "(val \<Rightarrow> val res) \<Rightarrow> val \<Rightarrow> string \<Rightarrow> string \<Rightarrow> val res" where
  "getAllRawEventArgByName parse tx contractAddr eventName =
     bind_res (getp tx ''receipt'') (\<lambda>r. bind_res (getp r ''rawLogs'') (\<lambda>raw.
     bind_res (as_list raw) (\<lambda>ls.
     bind_res (filter_res (\<lambda>l. bind_res (getp l ''address'') (\<lambda>a. Inr (a = Str contractAddr))) ls) (\<lambda>own.
     bind_res (map_res parse own) (\<lambda>parsed.
     bind_res (find_res (\<lambda>l. bind_res (getp l ''name'') (\<lambda>n. Inr (n = Str eventName))) parsed) (\<lambda>found.
       Inr (case found of None \<Rightarrow> Undefined | Some l \<Rightarrow> l)))))))"

definition getRawEventArgByName ::
  "(val \<Rightarrow> val res) \<Rightarrow> val \<Rightarrow> string \<Rightarrow> string \<Rightarrow> string \<Rightarrow> val res" where
  "getRawEventArgByName parse tx contractAddr eventName argName =
     bind_res (getAllRawEventArgByName parse tx contractAddr eventName) (\<lambda>log.
     bind_res (getp log ''args'') (\<lambda>args. getp args argName))"

definition getAllEventsByName :: "val \<Rightarrow> string \<Rightarrow> val list res" where
  "getAllEventsByName tx eventName =
     bind_res (getp tx ''logs'') (\<lambda>logs. bind_res (as_list logs) (\<lambda>ls.
       filter_res (\<lambda>l. bind_res (getp l ''event'') (\<lambda>e. Inr (e = Str eventName))) ls))"

definition getDebtAndCollFromTroveUpdatedEvents :: "val list \<Rightarrow> val \<Rightarrow> (val \<times> val) res" where
  "getDebtAndCollFromTroveUpdatedEvents troveUpdatedEvents address =
     bind_res (filter_res (\<lambda>event. bind_res (getp event ''args'') (\<lambda>args.
                 bind_res (geti args 0) (\<lambda>a. Inr (a = address)))) troveUpdatedEvents) (\<lambda>events.
     let event = (case events of [] \<Rightarrow> Undefined | e # _ \<Rightarrow> e)
     in bind_res (getp event ''args'') (\<lambda>args.
        bind_res (geti args 1) (\<lambda>d. bind_res (geti args 2) (\<lambda>c. Inr (d, c)))))"

text \<open>The names \<open>debt\<close> in the result and the constant 3 in the check are the source's: with three
  events the function raises a \<open>ReferenceError\<close>, with any other number it throws.\<close>

definition getMultipleEmittedLiquidationValues :: "val \<Rightarrow> int \<Rightarrow> val list res" where
  "getMultipleEmittedLiquidationValues tx n =
     bind_res (getAllEventsByName tx ''Liquidation'') (\<lambda>events.
     bind_res (map_res (\<lambda>l. bind_res (getp l ''args'') (\<lambda>args. map_res (geti args) [0, 1, 2, 3])) events)
       (\<lambda>values.
         if length values \<noteq> 3
         then Inl (Thrown (''The transaction logs do not contain '' @ show_int n @ '' liquidation events''))
         else Inl (ReferenceError ''debt is not defined'')))"

definition getLCAddressFromDeploymentTx :: "val \<Rightarrow> val res" where
  "getLCAddressFromDeploymentTx deployedLCTx =
     bind_res (getp deployedLCTx ''logs'') (\<lambda>logs. bind_res (geti logs 0) (\<lambda>l.
     bind_res (getp l ''args'') (\<lambda>args. geti args 0)))"

end
