(* ===== verification/TestHelpers_Pool.thy ===== *)
theory TestHelpers_Pool
  imports TestHelpers_Math
begin

text \<open>
  The functions of \<^verbatim>\<open>testHelpers.js\<close> that predict what a liquidation does to the depositors of the
  stability pool, from the \<open>Drip\<close> and \<open>Offset\<close> events of its transaction. \<open>iface\<close> arguments are
  contract names: \<^verbatim>\<open>ethers.getContractAt(name, address)).interface\<close> is \<open>parseLog ch name\<close>.
\<close>

definition rawArgBN :: "'w chain \<Rightarrow> val \<Rightarrow> string \<Rightarrow> string \<Rightarrow> string \<Rightarrow> string \<Rightarrow> int res" where
  "rawArgBN ch tx iface key eventName argName =
     bind_res (getRawEventArgByName (parseLog ch iface) tx (addressOf ch key) eventName argName) toBN"

definition getEmittedDripValues :: "'w chain \<Rightarrow> val \<Rightarrow> (int \<times> int) res" where
  "getEmittedDripValues ch tx =
     (case rawArgBN ch tx ''FeeRouter'' ''feeRouter'' ''Drip'' ''_spInterest'' of
        Inl e \<Rightarrow> Inl (Thrown ''The transaction logs do not contain a Drip event'')
      | Inr spPayment \<Rightarrow>
          (case rawArgBN ch tx ''FeeRouter'' ''feeRouter'' ''Drip'' ''_remaining'' of
             Inl e \<Rightarrow> Inl (Thrown ''The transaction logs do not contain a Drip event'')
           | Inr remaining \<Rightarrow> Inr (remaining, spPayment)))"

abbreviation "offsetArg ch tx argName \<equiv>
  rawArgBN ch tx ''StabilityPool'' ''stabilityPool'' ''Offset'' argName"

definition total_or_sum :: "int option \<Rightarrow> int list \<Rightarrow> int" where
  "total_or_sum totalGiven deposits = (case totalGiven of None \<Rightarrow> foldl (+) 0 deposits | Some t \<Rightarrow> t)"

text \<open>The loop that adds to each deposit its share of the interest paid to the pool.\<close>

definition drippedDeposits :: "int \<Rightarrow> int \<Rightarrow> int list \<Rightarrow> int list res" where
  "drippedDeposits drip totalDeposits startDeposits =
     map_res (\<lambda>dep. bind_res (bn_div (drip * dep) totalDeposits) (\<lambda>share. Inr (dep + share))) startDeposits"

definition depositorValuesAfterLiquidation ::
  "'w chain \<Rightarrow> val \<Rightarrow> int list \<Rightarrow> int option \<Rightarrow> int list res" where
  "depositorValuesAfterLiquidation ch tx startDeposits totalGiven =
     bind_res (getEmittedDripValues ch tx) (\<lambda>(_, drip).
     bind_res (offsetArg ch tx ''collToAdd'') (\<lambda>collToAdd.
     bind_res (offsetArg ch tx ''debtToOffset'') (\<lambda>debtToOffset.
     let totalDeposits = total_or_sum totalGiven startDeposits
     in bind_res (drippedDeposits drip totalDeposits startDeposits) (\<lambda>dripped.
        let totalDepositsWithDrip = totalDeposits + drip
        in bind_res (map_res (\<lambda>dep.
             bind_res (bn_div (collToAdd * dep) (totalDepositsWithDrip + 1)) (\<lambda>depositorGain.
             bind_res (bn_div (debtToOffset * dep) totalDepositsWithDrip) (\<lambda>loss.
               Inr (depositorGain, dep - (loss + 1))))) dripped) (\<lambda>pairs.
             Inr (map fst pairs @ map snd pairs))))))"

definition depositorValuesAfterLiquidationNew ::
  "'w chain \<Rightarrow> val \<Rightarrow> int list \<Rightarrow> int \<Rightarrow> val \<Rightarrow> ('w, int list) th" where
  "depositorValuesAfterLiquidationNew ch tx startDeposits lastLUSDError lastLUSDGainError =
     bind_io (lift_io (getEmittedDripValues ch tx)) (\<lambda>(stakeDrip, drip).
     bind_io (lift_io (offsetArg ch tx ''collToAdd'')) (\<lambda>collToAdd.
     bind_io (lift_io (offsetArg ch tx ''debtToOffset'')) (\<lambda>debtToOffset.
     let totalDeposits = foldl (+) 0 startDeposits
     in bind_io (toBNM lastLUSDGainError) (\<lambda>gainError.
        bind_io (divM (drip * e18 + gainError) totalDeposits) (\<lambda>lusdGainPerUnitStaked.
        bind_io (lift_io (map_res (\<lambda>dep. bn_div (dep * (e18 + lusdGainPerUnitStaked)) e18) startDeposits))
          (\<lambda>dripped.
        let totalDepositsWithDrip = totalDeposits + drip
        in bind_io (callM ch ''stabilityPool'' ''lastCollateralError_Offset'' [] []) (\<lambda>_.
           bind_io (divM (debtToOffset * e18 - lastLUSDError) totalDepositsWithDrip) (\<lambda>perUnit.
           let lusdLossPerUnitStaked = (if debtToOffset * e18 < lastLUSDError then 1 else perUnit + 1)
           in bind_io (lift_io (map_res (\<lambda>dep.
                bind_res (bn_div (collToAdd * dep) (totalDepositsWithDrip + 1)) (\<lambda>depositorGain.
                bind_res (bn_div (dep * (e18 - lusdLossPerUnitStaked)) e18) (\<lambda>finalDeposit.
                  Inr (depositorGain, finalDeposit)))) dripped)) (\<lambda>pairs.
                return_io (map fst pairs @ map snd pairs))))))))))"

text \<open>\<^verbatim>\<open>xs.slice(xs.length/2)\<close> and \<^verbatim>\<open>xs.slice(0, xs.length/2)\<close>; a fractional bound is truncated.\<close>

definition second_half :: "'a list \<Rightarrow> 'a list" where
  "second_half xs = drop (length xs div 2) xs"

definition first_half :: "'a list \<Rightarrow> 'a list" where
  "first_half xs = take (length xs div 2) xs"

definition depositorValuesAfterTwoLiquidations ::
  "'w chain \<Rightarrow> val \<Rightarrow> val \<Rightarrow> int list \<Rightarrow> int option \<Rightarrow> int option \<Rightarrow> int list res" where
  "depositorValuesAfterTwoLiquidations ch tx1 tx2 startDeposits totalDeposits totalDeposits1 =
     bind_res (depositorValuesAfterLiquidation ch tx1 startDeposits totalDeposits) (\<lambda>gainsDeposits1.
     let deposits1 = second_half gainsDeposits1; gains1 = first_half gainsDeposits1
     in bind_res (depositorValuesAfterLiquidation ch tx2 deposits1 totalDeposits1) (\<lambda>gainsDeposits2.
        let deposits2 = second_half gainsDeposits2; gains2 = first_half gainsDeposits2
        in if length gains1 \<noteq> length gains2 then Inl (Error ''Gains arrays are not equal length'')
           else Inr (map2 (+) gains1 gains2 @ deposits2)))"

definition depositorValuesAfterThreeLiquidations ::
  "'w chain \<Rightarrow> val \<Rightarrow> val \<Rightarrow> val \<Rightarrow> int list \<Rightarrow> int option \<Rightarrow> int option \<Rightarrow> int option \<Rightarrow> int list res"
where
  "depositorValuesAfterThreeLiquidations ch tx1 tx2 tx3 startDeposits totalDeposits totalDeposits1
     totalDeposits2 =
     bind_res (depositorValuesAfterLiquidation ch tx1 startDeposits totalDeposits) (\<lambda>gainsDeposits1.
     let deposits1 = second_half gainsDeposits1; gains1 = first_half gainsDeposits1
     in bind_res (depositorValuesAfterLiquidation ch tx2 deposits1 totalDeposits1) (\<lambda>gainsDeposits2.
        let deposits2 = second_half gainsDeposits2; gains2 = first_half gainsDeposits2
        in bind_res (depositorValuesAfterLiquidation ch tx3 deposits2 totalDeposits2) (\<lambda>gainsDeposits3.
           let deposits3 = second_half gainsDeposits3; gains3 = first_half gainsDeposits3
           in if length gains1 \<noteq> length gains2 then Inl (Error ''Gains arrays are not equal length'')
              else if length gains2 \<noteq> length gains3 then Inl (Error ''Gains arrays are not equal length'')
              else Inr (map2 (+) (map2 (+) gains1 gains2) gains3 @ deposits3))))"

definition ethGainsAfterLiquidation ::
  "'w chain \<Rightarrow> val \<Rightarrow> int list \<Rightarrow> int option \<Rightarrow> (int list \<times> int list) res" where
  "ethGainsAfterLiquidation ch tx startDeposits totalGiven =
     bind_res (getEmittedDripValues ch tx) (\<lambda>(_, drip).
     bind_res (offsetArg ch tx ''collToAdd'') (\<lambda>collToAdd.
     bind_res (offsetArg ch tx ''debtToOffset'') (\<lambda>debtToOffset.
     let totalDeposits = total_or_sum totalGiven startDeposits
     in bind_res (drippedDeposits drip totalDeposits startDeposits) (\<lambda>dripped.
        let totalDepositsWithDrip = totalDeposits + drip
        in bind_res (map_res (\<lambda>dep.
             bind_res (bn_div (collToAdd * dep) (totalDepositsWithDrip + 1)) (\<lambda>depositorGain.
             bind_res (bn_div (debtToOffset * dep) totalDepositsWithDrip) (\<lambda>depositorLoss.
               Inr (depositorGain, dep - depositorLoss)))) dripped) (\<lambda>pairs.
             Inr (map fst pairs, map snd pairs))))))"

definition ethGainsAfterTwoLiquidations ::
  "'w chain \<Rightarrow> val \<Rightarrow> val \<Rightarrow> int list \<Rightarrow> int option \<Rightarrow> int option \<Rightarrow> int list res" where
  "ethGainsAfterTwoLiquidations ch tx1 tx2 startDeposits totalDeposits totalDeposits1 =
     bind_res (ethGainsAfterLiquidation ch tx1 startDeposits totalDeposits) (\<lambda>(colls1, deposits1).
     bind_res (ethGainsAfterLiquidation ch tx2 deposits1 totalDeposits1) (\<lambda>(colls2, deposits2).
       if length colls1 \<noteq> length colls2 then Inl (Error ''Collaterals arrays are not equal length'')
       else Inr (map2 (+) colls1 colls2)))"

definition ethGainsAfterThreeLiquidations ::
  "'w chain \<Rightarrow> val \<Rightarrow> val \<Rightarrow> val \<Rightarrow> int list \<Rightarrow> int option \<Rightarrow> int option \<Rightarrow> int option \<Rightarrow> int list res"
where
  "ethGainsAfterThreeLiquidations ch tx1 tx2 tx3 startDeposits totalDeposits totalDeposits1
     totalDeposits2 =
     bind_res (ethGainsAfterLiquidation ch tx1 startDeposits totalDeposits) (\<lambda>(colls1, deposits1).
     bind_res (ethGainsAfterLiquidation ch tx2 deposits1 totalDeposits1) (\<lambda>(colls2, deposits2).
     bind_res (ethGainsAfterLiquidation ch tx3 deposits2 totalDeposits2) (\<lambda>(colls3, deposits3).
       if length colls1 \<noteq> length colls2 then Inl (Error ''Collaterals arrays are not equal length'')
       else if length colls2 \<noteq> length colls3 then Inl (Error ''Collaterals arrays are not equal length'')
       else Inr (map2 (+) (map2 (+) colls1 colls2) colls3))))"

definition depositsAfterLiquidation ::
  "'w chain \<Rightarrow> val \<Rightarrow> int list \<Rightarrow> int option \<Rightarrow> int list res" where
  "depositsAfterLiquidation ch tx startDeposits totalGiven =
     bind_res (getEmittedDripValues ch tx) (\<lambda>(_, drip).
     bind_res (offsetArg ch tx ''debtToOffset'') (\<lambda>offsetDebt.
     let totalDeposits = total_or_sum totalGiven startDeposits
     in bind_res (drippedDeposits drip totalDeposits startDeposits) (\<lambda>dripped.
        let totalDepositsWithDrip = totalDeposits + drip
        in map_res (\<lambda>dep.
             bind_res (bn_div (offsetDebt * dep) (totalDepositsWithDrip + 1)) (\<lambda>depositorLoss.
               Inr (dep - depositorLoss))) dripped)))"

definition depositsAfterTwoLiquidations ::
  "'w chain \<Rightarrow> val \<Rightarrow> val \<Rightarrow> int list \<Rightarrow> int option \<Rightarrow> int option \<Rightarrow> int list res" where
  "depositsAfterTwoLiquidations ch tx1 tx2 startDeposits totalDeposits totalDeposits2 =
     bind_res (depositsAfterLiquidation ch tx1 startDeposits totalDeposits) (\<lambda>startDeposits2.
       depositsAfterLiquidation ch tx2 startDeposits2 totalDeposits2)"

definition depositsAfterThreeLiquidations ::
  "'w chain \<Rightarrow> val \<Rightarrow> val \<Rightarrow> val \<Rightarrow> int list \<Rightarrow> int option \<Rightarrow> int option \<Rightarrow> int option \<Rightarrow> int list res"
where
  "depositsAfterThreeLiquidations ch tx1 tx2 tx3 startDeposits totalDeposits totalDeposits2
     totalDeposits3 =
     bind_res (depositsAfterLiquidation ch tx1 startDeposits totalDeposits) (\<lambda>startDeposits2.
     bind_res (depositsAfterLiquidation ch tx2 startDeposits2 totalDeposits2) (\<lambda>startDeposits3.
       depositsAfterLiquidation ch tx3 startDeposits3 totalDeposits3))"

text \<open>The comparison with one unit uses \<open><\<close> on \<open>BN\<close> objects.\<close>

definition getNewPAfterLiquidation ::
  "'w chain \<Rightarrow> val \<Rightarrow> int \<Rightarrow> int \<Rightarrow> int \<Rightarrow> int res" where
  "getNewPAfterLiquidation ch tx P_initial totalDeposits lastError =
     bind_res (rawArgBN ch tx ''FeeRouter'' ''feeRouter'' ''Drip'' ''_spInterest'') (\<lambda>drip.
     bind_res (offsetArg ch tx ''debtToOffset'') (\<lambda>offsetDebt.
     let totalDepositsWithDrip = totalDeposits + drip;
         amountToLeave = (if bn_less totalDepositsWithDrip e18 then totalDepositsWithDrip else e18);
         available = totalDepositsWithDrip - amountToLeave;
         offsetDebt = (if offsetDebt \<ge> available then available else offsetDebt);
         lossNumerator = (if offsetDebt * e18 \<le> lastError then 0 else offsetDebt * e18 - lastError)
     in bind_res (bn_div (drip * e18) totalDeposits) (\<lambda>dripShare.
        bind_res (bn_div lossNumerator totalDepositsWithDrip) (\<lambda>loss.
        let P_drip = e18 + dripShare; P_liq = e18 - (loss + 1)
        in bn_div (P_initial * P_drip * P_liq) (10 ^ 36)))))"

end
