(* ===== verification/TestHelpers_Ops.thy ===== *)
theory TestHelpers_Ops
  imports TestHelpers_Pool
begin

text \<open>
  The functions of \<^verbatim>\<open>testHelpers.js\<close> that call contracts: queries, minting and approvals, opening
  and adjusting Troves, redemptions, the gas measurements over all accounts, time travel and the
  assertions on transactions. A parameter that is a contract instance is its key; \<open>ch\<close> stands for
  the \<open>contracts\<close> object and \<^verbatim>\<open>web3\<close>.
\<close>

section \<open>Random amounts\<close>

definition randNumber ::
  "'w chain \<Rightarrow> val \<Rightarrow> val \<Rightarrow> ('w, int) th" where
  "randNumber ch minAmount maxAmount =
     on_chain (randomFloor ch minAmount maxAmount)"

definition randAmountInWei ::
  "'w chain \<Rightarrow> val \<Rightarrow> val \<Rightarrow> ('w, val) th" where
  "randAmountInWei ch minAmount maxAmount =
     bind_io (on_chain (randomText ch minAmount maxAmount)) (\<lambda>amount.
     bind_io (lift_io (toWei amount 18)) (\<lambda>amountInWei.
     return_io (Str amountInWei)))"

definition randAmountInGWei ::
  "'w chain \<Rightarrow> val \<Rightarrow> val \<Rightarrow> ('w, val) th" where
  "randAmountInGWei ch minAmount maxAmount =
     bind_io (on_chain (randomFloor ch minAmount maxAmount)) (\<lambda>amount.
     bind_io (lift_io (toWei (show_int amount) 9)) (\<lambda>amountInWei.
     return_io (Str amountInWei)))"

definition getRandICR ::
  "'w chain \<Rightarrow> val \<Rightarrow> val \<Rightarrow> ('w, val) th" where
  "getRandICR ch minAmount maxAmount =
     bind_io (on_chain (randomFloor ch minAmount maxAmount)) (\<lambda>ICR_Percent.
     bind_io (lift_io (toWei (show_int (ICR_Percent * 10)) 15)) (\<lambda>ICR.
     return_io (Str ICR)))"

section \<open>Queries\<close>

definition ICRbetween100and110 ::
  "'w chain \<Rightarrow> val \<Rightarrow> string \<Rightarrow> val \<Rightarrow> ('w, bool) th" where
  "ICRbetween100and110 ch account troveManager price =
     bind_io (callBN ch troveManager ''getCurrentICR'' [account, price] []) (\<lambda>ICR.
     return_io (ICR > ICR100 \<and> ICR < MCR))"

definition isUndercollateralized ::
  "'w chain \<Rightarrow> val \<Rightarrow> string \<Rightarrow> val \<Rightarrow> ('w, bool) th" where
  "isUndercollateralized ch account troveManager price =
     bind_io (callBN ch troveManager ''getCurrentICR'' [account, price] []) (\<lambda>ICR.
     return_io (ICR < MCR))"

definition checkRecoveryModeContract ::
  "'w chain \<Rightarrow> ('w, val) th" where
  "checkRecoveryModeContract ch =
     bind_io (callM ch ''priceFeedTestnet'' ''getPrice'' [] []) (\<lambda>price.
     callM ch ''troveManager'' ''checkRecoveryMode'' [price] [])"

definition checkRecoveryMode ::
  "'w chain \<Rightarrow> ('w, bool) th" where
  "checkRecoveryMode ch =
     bind_io (callBN ch ''troveManager'' ''CCR'' [] []) (\<lambda>ccr.
     bind_io (callM ch ''priceFeedTestnet'' ''getPrice'' [] []) (\<lambda>price.
     bind_io (callBN ch ''troveManager'' ''getTCR'' [price] []) (\<lambda>tcr.
     return_io (tcr < ccr))))"

definition getTCR ::
  "'w chain \<Rightarrow> ('w, val) th" where
  "getTCR ch =
     bind_io (callM ch ''priceFeedTestnet'' ''getPrice'' [] []) (\<lambda>price.
     callM ch ''troveManager'' ''getTCR'' [price] [])"

definition getActualDebtFromComposite ::
  "'w chain \<Rightarrow> val \<Rightarrow> ('w, val) th" where
  "getActualDebtFromComposite ch compositeDebt =
     callM ch ''troveManager'' ''getActualDebtFromComposite'' [compositeDebt] []"

definition ethCallBN ::
  "'w chain \<Rightarrow> string \<Rightarrow> string \<Rightarrow> val list \<Rightarrow> ('w, int) th" where
  "ethCallBN ch key method args =
     bind_io (lift_io (encodeABI ch key method args)) (\<lambda>data.
     bind_io (on_chain (request ch ''eth_call'' [Obj [(''to'', addr ch key), (''data'',
         Str data)]])) (\<lambda>rawHex.
     toBNM rawHex))"

definition getCollateralFromCollSurplusPool ::
  "'w chain \<Rightarrow> val \<Rightarrow> ('w, int) th" where
  "getCollateralFromCollSurplusPool ch account =
     ethCallBN ch ''collSurplusPool'' ''getCollateral'' [account]"

definition getNominalICR ::
  "'w chain \<Rightarrow> val \<Rightarrow> ('w, int) th" where
  "getNominalICR ch account =
     ethCallBN ch ''troveManager'' ''getNominalICR'' [account]"

definition getCompositeDebt ::
  "'w chain \<Rightarrow> val \<Rightarrow> ('w, val) th" where
  "getCompositeDebt ch debt =
     callM ch ''borrowerOperations'' ''getCompositeDebt'' [debt] []"

definition getTroveEntireColl ::
  "'w chain \<Rightarrow> val \<Rightarrow> ('w, int) th" where
  "getTroveEntireColl ch trove =
     bind_io (callM ch ''troveManager'' ''getEntireDebtAndColl'' [trove] []) (\<lambda>res.
     bind_io (indexM res 1) (\<lambda>coll.
     toBNM coll))"

definition getTroveEntireDebt ::
  "'w chain \<Rightarrow> val \<Rightarrow> ('w, int) th" where
  "getTroveEntireDebt ch trove =
     bind_io (callM ch ''troveManager'' ''getTroveActualDebt'' [trove] []) (\<lambda>debt.
     toBNM debt)"

definition getTroveStake ::
  "'w chain \<Rightarrow> val \<Rightarrow> ('w, val) th" where
  "getTroveStake ch trove =
     callM ch ''troveManager'' ''getTroveStake'' [trove] []"

definition getOpenTroveTotalDebt ::
  "'w chain \<Rightarrow> val \<Rightarrow> ('w, val) th" where
  "getOpenTroveTotalDebt ch lusdAmount =
     getCompositeDebt ch lusdAmount"

definition getNetBorrowingAmount ::
  "'w chain \<Rightarrow> val \<Rightarrow> ('w, val) th" where
  "getNetBorrowingAmount ch debt =
     return_io debt"

definition getOpenTroveLUSDAmount ::
  "'w chain \<Rightarrow> val \<Rightarrow> ('w, val) th" where
  "getOpenTroveLUSDAmount ch totalDebt =
     bind_io (getActualDebtFromComposite ch totalDebt) (\<lambda>actualDebt.
     getNetBorrowingAmount ch actualDebt)"

definition getAmountWithBorrowingFee ::
  "'w chain \<Rightarrow> val \<Rightarrow> ('w, int) th" where
  "getAmountWithBorrowingFee ch lusdAmount =
     bind_io (bnM lusdAmount) (\<lambda>amount.
     return_io (amount + 0))"

definition getRedemptionGrossAmount ::
  "'w chain \<Rightarrow> int \<Rightarrow> ('w, int) th" where
  "getRedemptionGrossAmount ch expected =
     bind_io (callBN ch ''troveManager'' ''getRedemptionRate'' [] []) (\<lambda>redemptionRate.
     divM (expected * e18) (e18 + redemptionRate))"

text \<open>\<open>getCollMinusGasComp\<close> does not exist.\<close>

definition getExpectedTotalCollMinusTotalGasComp :: "val list \<Rightarrow> ('w, int) th" where
  "getExpectedTotalCollMinusTotalGasComp troveList =
     foldM_io (\<lambda>totalCollRemainder trove.
         throw_io (TypeError ''this.getCollMinusGasComp is not a function'')) 0 troveList"

definition getEntireSystemDebt ::
  "'w chain \<Rightarrow> ('w, val) th" where
  "getEntireSystemDebt ch =
     bind_io (callM ch ''troveManager'' ''accumulatedRate'' [] []) (\<lambda>rate.
     bind_io (callM ch ''troveManager'' ''accumulatedShieldRate'' [] []) (\<lambda>shieldRate.
     callM ch ''troveManager'' ''getEntireSystemDebt'' [rate, shieldRate] []))"

section \<open>Logging\<close>

definition logTrove ::
  "'w chain \<Rightarrow> string \<Rightarrow> val \<Rightarrow> val \<Rightarrow> ('w, unit) th" where
  "logTrove ch troveManager price account =
     bind_io (bind_io (lift_io (as_Str account)) (\<lambda>a. return_io (squeezeAddr a))) (\<lambda>squeezedAddr.
     bind_io (callM ch troveManager ''Troves'' [account] []) (\<lambda>trove1.
     bind_io (indexM trove1 1) (\<lambda>coll.
     bind_io (callM ch troveManager ''Troves'' [account] []) (\<lambda>trove0.
     bind_io (indexM trove0 0) (\<lambda>debt.
     bind_io (callM ch troveManager ''getCurrentICR'' [account, price] []) (\<lambda>ICR.
     logM ch (''Acct: '' @ squeezedAddr @ ''  coll:'' @ to_string coll @ ''  debt: '' @ to_string
         debt @ ''  ICR: '' @ to_string ICR)))))))"

text \<open>The loop of \<open>logActiveAccounts\<close>: at most \<open>n\<close> rounds, ended early at the head of the list.\<close>

primrec logActiveLoop :: "'w chain \<Rightarrow> val \<Rightarrow> val \<Rightarrow> nat \<Rightarrow> val \<Rightarrow> ('w, unit) th" where
  "logActiveLoop ch price head 0 account = return_io ()"
| "logActiveLoop ch price head (Suc k) account =
     bind_io (logTrove ch ''troveManager'' price account) (\<lambda>_.
       if account = head then return_io ()
       else bind_io (callM ch ''sortedTroves'' ''getPrev'' [account] []) (logActiveLoop ch price
           head k))"

definition logActiveAccounts ::
  "'w chain \<Rightarrow> int option \<Rightarrow> ('w, unit) th" where
  "logActiveAccounts ch n =
     bind_io (callBN ch ''sortedTroves'' ''getSize'' [] []) (\<lambda>count.
     bind_io (callM ch ''priceFeedTestnet'' ''getPrice'' [] []) (\<lambda>price.
     (let n = (case n of None \<Rightarrow> count | Some n \<Rightarrow> n) in
     bind_io (callM ch ''sortedTroves'' ''getLast'' [] []) (\<lambda>account.
     bind_io (callM ch ''sortedTroves'' ''getFirst'' [] []) (\<lambda>head.
     bind_io (logM ch (''Total active accounts: '' @ show_int count)) (\<lambda>_.
     bind_io (logM ch (''First '' @ show_int n @ '' accounts, in ascending ICR order:'')) (\<lambda>_.
     logActiveLoop ch price head (nat n) account)))))))"

definition logAccountsArray ::
  "'w chain \<Rightarrow> val list \<Rightarrow> string \<Rightarrow> val \<Rightarrow> int option \<Rightarrow> ('w, unit) th" where
  "logAccountsArray ch accounts troveManager price n =
     (let n = (case n of None \<Rightarrow> int (length accounts) | Some n \<Rightarrow> n) in
     bind_io (logM ch (''Number of accounts in array: '' @ show_nat (length accounts))) (\<lambda>_.
     bind_io (logM ch (''First '' @ show_int n @ '' accounts of array:'')) (\<lambda>_.
     forM_io (accounts) (\<lambda>account.
           logTrove ch troveManager price account))))"

definition logBN ::
  "'w chain \<Rightarrow> string \<Rightarrow> val \<Rightarrow> ('w, unit) th" where
  "logBN ch label x =
     (let x = padStart 18 (CHR ''0'') (to_string x) in
     (let integerPart = (let i = js_slice 0 (int (length x) - 18) x in if i \<noteq> [] then i else ''0'')
         in
     logM ch (label @ '': '' @ integerPart @ ''.'' @ js_slice (-18) (int (length x)) x)))"

section \<open>Collateral tokens\<close>

definition mintCollateralTokens ::
  "'w chain \<Rightarrow> val list \<Rightarrow> val \<Rightarrow> ('w, unit) th" where
  "mintCollateralTokens ch accounts amount =
     forM_io (accounts) (\<lambda>account.
           bind_io (callM ch ''collateralToken'' ''mint'' [account, amount] []) (\<lambda>_.
           return_io ()))"

definition batchMintCollateralTokens ::
  "'w chain \<Rightarrow> val list \<Rightarrow> val \<Rightarrow> ('w, unit) th" where
  "batchMintCollateralTokens ch accounts amount =
     bind_io (callM ch ''collateralToken'' ''batchMint'' [Arr accounts, amount] []) (\<lambda>_.
     return_io ())"

definition approveCollateralTokens ::
  "'w chain \<Rightarrow> val list \<Rightarrow> val \<Rightarrow> ('w, unit) th" where
  "approveCollateralTokens ch accounts amount =
     forM_io (accounts) (\<lambda>account.
           bind_io (callM ch ''collateralToken'' ''approve'' [addr ch ''activePool'',
               amount] [(''from'', account)]) (\<lambda>_.
           bind_io (callM ch ''collateralToken'' ''approve'' [addr ch ''activeShieldedPool'',
               amount] [(''from'', account)]) (\<lambda>_.
           return_io ())))"

definition mintCollateralTokensAndApproveActivePool ::
  "'w chain \<Rightarrow> val list \<Rightarrow> val \<Rightarrow> ('w, unit) th" where
  "mintCollateralTokensAndApproveActivePool ch accounts amount =
     bind_io (mintCollateralTokens ch accounts amount) (\<lambda>_.
     approveCollateralTokens ch accounts amount)"

definition batchMintCollateralTokensAndApproveActivePool ::
  "'w chain \<Rightarrow> val list \<Rightarrow> val \<Rightarrow> ('w, unit) th" where
  "batchMintCollateralTokensAndApproveActivePool ch accounts amount =
     bind_io (callM ch ''collateralToken'' ''batchMint'' [Arr accounts, amount] []) (\<lambda>_.
     bind_io (callM ch ''collateralToken'' ''batchApprove'' [addr ch ''activePool'', Arr accounts,
         amount] []) (\<lambda>_.
     bind_io (callM ch ''collateralToken'' ''batchApprove'' [addr ch ''activeShieldedPool'',
         Arr accounts, amount] []) (\<lambda>_.
     return_io ())))"

section \<open>Hints and expected positions\<close>

definition getBorrowerOpsListHint ::
  "'w chain \<Rightarrow> val \<Rightarrow> val \<Rightarrow> bool \<Rightarrow> ('w, val \<times> val) th" where
  "getBorrowerOpsListHint ch newColl newDebt shielded =
     bind_io (callM ch ''hintHelpers'' ''computeNominalCR'' [newColl, newDebt] []) (\<lambda>newNICR.
     bind_io (get_io) (\<lambda>s.
     bind_io (callM ch ''hintHelpers'' ''getApproxHint'' [newNICR, Num 5, latestRandomSeed s,
         Bool shielded] []) (\<lambda>hint.
     bind_io (getM hint ''hintAddress'') (\<lambda>approxfullListHint.
     bind_io (getM hint ''latestRandomSeed'') (\<lambda>seed.
     bind_io (modify_io (\<lambda>s. s\<lparr>latestRandomSeed := seed\<rparr>)) (\<lambda>_.
     bind_io (callM ch ''sortedTroves'' ''findInsertPosition'' [newNICR, approxfullListHint,
         approxfullListHint] []) (\<lambda>pos.
     bind_io (indexM pos 0) (\<lambda>upperHint.
     bind_io (indexM pos 1) (\<lambda>lowerHint.
     return_io (upperHint, lowerHint))))))))))"

definition getEntireCollAndDebt ::
  "'w chain \<Rightarrow> val \<Rightarrow> ('w, int \<times> int) th" where
  "getEntireCollAndDebt ch account =
     bind_io (callM ch ''troveManager'' ''Troves'' [account] []) (\<lambda>trove1.
     bind_io (indexM trove1 1) (\<lambda>rawColl.
     bind_io (callM ch ''troveManager'' ''Troves'' [account] []) (\<lambda>trove0.
     bind_io (indexM trove0 0) (\<lambda>rawDebt.
     bind_io (callM ch ''rewards'' ''getPendingCollateralReward'' [account] []) (\<lambda>pendingETHReward.
     bind_io (callM ch ''rewards'' ''getPendingLUSDDebtReward'' [account] [])
         (\<lambda>pendingLUSDDebtReward.
     bind_io (bnM rawColl) (\<lambda>c.
     bind_io (bnM pendingETHReward) (\<lambda>pc.
     bind_io (bnM rawDebt) (\<lambda>d.
     bind_io (bnM pendingLUSDDebtReward) (\<lambda>pd.
     return_io (c + pc, d + pd)))))))))))"

definition getCollAndDebtFromAddColl ::
  "'w chain \<Rightarrow> val \<Rightarrow> val \<Rightarrow> ('w, int \<times> int) th" where
  "getCollAndDebtFromAddColl ch account amount =
     bind_io (getEntireCollAndDebt ch account) (\<lambda>(entireColl, entireDebt).
     bind_io (toBNM amount) (\<lambda>amt.
     return_io (entireColl + amt, entireDebt)))"

definition getCollAndDebtFromWithdrawColl ::
  "'w chain \<Rightarrow> val \<Rightarrow> val \<Rightarrow> ('w, int \<times> int) th" where
  "getCollAndDebtFromWithdrawColl ch account amount =
     bind_io (getEntireCollAndDebt ch account) (\<lambda>(entireColl, entireDebt).
     bind_io (toBNM amount) (\<lambda>amt.
     return_io (entireColl - amt, entireDebt)))"

definition getCollAndDebtFromWithdrawLUSD ::
  "'w chain \<Rightarrow> val \<Rightarrow> val \<Rightarrow> ('w, int \<times> int) th" where
  "getCollAndDebtFromWithdrawLUSD ch account amount =
     bind_io (getEntireCollAndDebt ch account) (\<lambda>(entireColl, entireDebt).
     bind_io (toBNM amount) (\<lambda>amt.
     return_io (entireColl, entireDebt + amt + 0)))"

definition getCollAndDebtFromRepayLUSD ::
  "'w chain \<Rightarrow> val \<Rightarrow> val \<Rightarrow> ('w, int \<times> int) th" where
  "getCollAndDebtFromRepayLUSD ch account amount =
     bind_io (getEntireCollAndDebt ch account) (\<lambda>(entireColl, entireDebt).
     bind_io (toBNM amount) (\<lambda>amt.
     return_io (entireColl, entireDebt - amt)))"

definition getCollAndDebtFromAdjustment ::
  "'w chain \<Rightarrow> val \<Rightarrow> int \<Rightarrow> int \<Rightarrow> ('w, int \<times> int) th" where
  "getCollAndDebtFromAdjustment ch account ETHChange LUSDChange =
     bind_io (getEntireCollAndDebt ch account) (\<lambda>(entireColl, entireDebt).
     return_io (entireColl + ETHChange, entireDebt + LUSDChange + 0))"

section \<open>Opening Troves\<close>

definition openTrove_allAccounts ::
  "'w chain \<Rightarrow> val list \<Rightarrow> val \<Rightarrow> val \<Rightarrow> ('w, gas_metrics) th" where
  "openTrove_allAccounts ch accounts ETHAmount LUSDAmount =
     bind_io (getOpenTroveTotalDebt ch LUSDAmount) (\<lambda>totalDebt.
     bind_io (mapM_io (\<lambda>account.
           bind_io (getBorrowerOpsListHint ch ETHAmount totalDebt False) (\<lambda>(upperHint, lowerHint).
           bind_io (callM ch ''borrowerOperations'' ''openTrove'' [LUSDAmount, upperHint, lowerHint,
               Bool False] [(''from'', account), (''value'', ETHAmount)]) (\<lambda>tx.
           lift_io (gasUsed tx)))) (accounts)) (\<lambda>gasCostList.
     return_io (getGasMetrics gasCostList)))"

definition openTrove_allAccounts_randomETH ::
  "'w chain \<Rightarrow> val \<Rightarrow> val \<Rightarrow> val list \<Rightarrow> val \<Rightarrow> ('w, gas_metrics) th" where
  "openTrove_allAccounts_randomETH ch minETH maxETH accounts LUSDAmount =
     bind_io (getOpenTroveTotalDebt ch LUSDAmount) (\<lambda>totalDebt.
     bind_io (mapM_io (\<lambda>account.
           bind_io (randAmountInWei ch minETH maxETH) (\<lambda>randCollAmount.
           bind_io (getBorrowerOpsListHint ch randCollAmount totalDebt False) (\<lambda>(upperHint,
               lowerHint).
           bind_io (callM ch ''borrowerOperations'' ''openTrove'' [LUSDAmount, upperHint, lowerHint,
               Bool False] [(''from'', account), (''value'', randCollAmount)]) (\<lambda>tx.
           lift_io (gasUsed tx))))) (accounts)) (\<lambda>gasCostList.
     return_io (getGasMetrics gasCostList)))"

definition openTrove_allAccounts_randomETH_ProportionalLUSD ::
  "'w chain \<Rightarrow> val \<Rightarrow> val \<Rightarrow> val list \<Rightarrow> val \<Rightarrow> ('w, gas_metrics) th" where
  "openTrove_allAccounts_randomETH_ProportionalLUSD ch minETH maxETH accounts proportion =
     bind_io (mapM_io (\<lambda>account.
           bind_io (randAmountInWei ch minETH maxETH) (\<lambda>randCollAmount.
           bind_io (toBNM proportion) (\<lambda>p.
           bind_io (toBNM randCollAmount) (\<lambda>r.
           (let proportionalLUSD = BN (p * r) in
           bind_io (getOpenTroveTotalDebt ch proportionalLUSD) (\<lambda>totalDebt.
           bind_io (getBorrowerOpsListHint ch randCollAmount totalDebt False) (\<lambda>(upperHint,
               lowerHint).
           bind_io (callM ch ''borrowerOperations'' ''openTrove'' [proportionalLUSD, upperHint,
               lowerHint, Bool False] [(''from'', account), (''value'', randCollAmount)]) (\<lambda>tx.
           lift_io (gasUsed tx))))))))) (accounts)) (\<lambda>gasCostList.
     return_io (getGasMetrics gasCostList))"

definition openTrove_allAccounts_randomETH_randomLUSD ::
  "'w chain \<Rightarrow> val \<Rightarrow> val \<Rightarrow> val list \<Rightarrow> val \<Rightarrow> val \<Rightarrow> bool \<Rightarrow> ('w, gas_metrics) th" where
  "openTrove_allAccounts_randomETH_randomLUSD ch minETH maxETH accounts minLUSDProportion
      maxLUSDProportion logging =
     bind_io (callM ch ''priceFeedTestnet'' ''getPrice'' [] []) (\<lambda>price.
     bind_io (mapM_io (\<lambda>account.
           bind_io (randAmountInWei ch minETH maxETH) (\<lambda>randCollAmount.
           bind_io (randAmountInWei ch minLUSDProportion maxLUSDProportion) (\<lambda>randLUSDProportion.
           bind_io (toBNM randLUSDProportion) (\<lambda>p.
           bind_io (toBNM randCollAmount) (\<lambda>r.
           bind_io (divM r (10 ^ 18)) (\<lambda>q.
           (let proportionalLUSD = BN (p * q) in
           bind_io (getOpenTroveTotalDebt ch proportionalLUSD) (\<lambda>totalDebt.
           bind_io (getBorrowerOpsListHint ch randCollAmount totalDebt False) (\<lambda>(upperHint,
               lowerHint).
           bind_io (callM ch ''borrowerOperations'' ''openTrove'' [proportionalLUSD, upperHint,
               lowerHint, Bool False] [(''from'', account), (''value'', randCollAmount)]) (\<lambda>tx.
           bind_io (if logging then
                 bind_io (getM tx ''receipt'') (\<lambda>receipt.
                 bind_io (getM receipt ''status'') (\<lambda>status.
                 (if truthy status then
                       bind_io (callM ch ''troveManager'' ''getCurrentICR'' [account,
                           price] []) (\<lambda>_.
                       return_io ())
                   else
                       return_io ())))
             else
                 return_io ()) (\<lambda>_.
           lift_io (gasUsed tx)))))))))))) (accounts)) (\<lambda>gasCostList.
     return_io (getGasMetrics gasCostList)))"

definition openTrove_allAccounts_randomLUSD ::
  "'w chain \<Rightarrow> val \<Rightarrow> val \<Rightarrow> val list \<Rightarrow> val \<Rightarrow> ('w, gas_metrics) th" where
  "openTrove_allAccounts_randomLUSD ch minLUSD maxLUSD accounts ETHAmount =
     bind_io (mapM_io (\<lambda>account.
           bind_io (randAmountInWei ch minLUSD maxLUSD) (\<lambda>randLUSDAmount.
           bind_io (getOpenTroveTotalDebt ch randLUSDAmount) (\<lambda>totalDebt.
           bind_io (getBorrowerOpsListHint ch ETHAmount totalDebt False) (\<lambda>(upperHint, lowerHint).
           bind_io (callM ch ''borrowerOperations'' ''openTrove'' [randLUSDAmount, upperHint,
               lowerHint, Bool False] [(''from'', account), (''value'', ETHAmount)]) (\<lambda>tx.
           lift_io (gasUsed tx)))))) (accounts)) (\<lambda>gasCostList.
     return_io (getGasMetrics gasCostList))"

definition closeTrove_allAccounts ::
  "'w chain \<Rightarrow> val list \<Rightarrow> ('w, gas_metrics) th" where
  "closeTrove_allAccounts ch accounts =
     bind_io (mapM_io (\<lambda>account.
           bind_io (callM ch ''borrowerOperations'' ''closeTrove'' [] [(''from'', account)]) (\<lambda>tx.
           lift_io (gasUsed tx))) (accounts)) (\<lambda>gasCostList.
     return_io (getGasMetrics gasCostList))"

definition openTrove_allAccounts_decreasingLUSDAmounts ::
  "'w chain \<Rightarrow> val list \<Rightarrow> val \<Rightarrow> int \<Rightarrow> ('w, gas_metrics) th" where
  "openTrove_allAccounts_decreasingLUSDAmounts ch accounts ETHAmount maxLUSDAmount =
     bind_io (mapM_io (\<lambda>(i, account).
           (let LUSDAmount = show_int (maxLUSDAmount - int i) in
           bind_io (lift_io (toWei LUSDAmount 18)) (\<lambda>LUSDAmountWei.
           bind_io (getOpenTroveTotalDebt ch (Str LUSDAmountWei)) (\<lambda>totalDebt.
           bind_io (getBorrowerOpsListHint ch ETHAmount totalDebt False) (\<lambda>(upperHint, lowerHint).
           bind_io (callM ch ''borrowerOperations'' ''openTrove'' [Str LUSDAmountWei, upperHint,
               lowerHint, Bool False] [(''from'', account), (''value'', ETHAmount)]) (\<lambda>tx.
           lift_io (gasUsed tx))))))) (List.enumerate 0 accounts)) (\<lambda>gasCostList.
     return_io (getGasMetrics gasCostList))"

text \<open>The destructured parameter of \<open>openTrove\<close>; an absent entry is \<open>Undefined\<close> and gets its
  default. \<open>from\<close> and \<open>value\<close> are the entries of \<open>extraParams\<close>; the value that \<open>openTrove\<close> writes
  back into that object is the \<open>collateral\<close> of its result.\<close>

record open_params =
  p_extraLUSDAmount :: val
  p_upperHint :: val
  p_lowerHint :: val
  p_ICR :: val
  p_shielded :: bool
  p_from :: val
  p_value :: val

record open_result =
  r_lusdAmount :: int
  r_netDebt :: int
  r_totalDebt :: int
  r_ICR :: val
  r_collateral :: val
  r_tx :: val

definition or_default :: "val \<Rightarrow> val \<Rightarrow> val" where
  "or_default v d = (if v = Undefined then d else v)"

text \<open>The collateral for a target ratio, one more where \<open><\<close> says that the division truncated.\<close>

definition collateralForICR :: "int \<Rightarrow> int \<Rightarrow> int \<Rightarrow> int \<Rightarrow> int res" where
  "collateralForICR ICR totalDebt par price =
     bind_res (bn_div (ICR * totalDebt * par) (e18 * price)) (\<lambda>v.
     bind_res (bn_div (ICR * totalDebt * par) e18) (\<lambda>needed.
       Inr (if bn_less (v * price) needed then v + 1 else v)))"

definition string_toBN :: "val \<Rightarrow> val res" where
  "string_toBN v = (case v of Str s \<Rightarrow> map_sum id BN (toBN v) | _ \<Rightarrow> Inr v)"

definition chosenICR :: "val \<Rightarrow> val \<Rightarrow> val res" where
  "chosenICR ICR given =
     (if \<not> truthy ICR \<and> \<not> truthy given then Inr (BN (15 * 10 ^ 17))
      else string_toBN ICR)"

definition ensureAllowance ::
  "'w chain \<Rightarrow> string \<Rightarrow> val \<Rightarrow> val \<Rightarrow> ('w, unit) th" where
  "ensureAllowance ch pool collateralAmount account =
     bind_io (callM ch ''collateralToken'' ''allowance'' [account, addr ch pool] []) (\<lambda>a.
     bind_io (toBNM a) (\<lambda>allowed.
     bind_io (toBNM collateralAmount) (\<lambda>needed.
     (if allowed < needed then
           bind_io (callM ch ''collateralToken'' ''approve'' [addr ch pool,
               collateralAmount] [(''from'', account)]) (\<lambda>_.
           return_io ())
       else
           return_io ()))))"

definition openTrove ::
  "'w chain \<Rightarrow> open_params \<Rightarrow> ('w, open_result) th" where
  "openTrove ch params =
     bind_io (lift_io (string_toBN (or_default (p_extraLUSDAmount params) (BN 0))))
         (\<lambda>extraLUSDAmount.
     bind_io (callM ch ''borrowerOperations'' ''MIN_NET_DEBT'' [] []) (\<lambda>minNetDebt.
     bind_io (getNetBorrowingAmount ch minNetDebt) (\<lambda>minDebt.
     bind_io (bnM minDebt) (\<lambda>MIN_DEBT.
     bind_io (toBNM extraLUSDAmount) (\<lambda>extra.
     (let lusdAmount = MIN_DEBT + extra in
     bind_io (lift_io (chosenICR (p_ICR params) (p_value params))) (\<lambda>ICR.
     bind_io (getOpenTroveTotalDebt ch (BN lusdAmount)) (\<lambda>totalDebtV.
     bind_io (bnM totalDebtV) (\<lambda>totalDebt.
     bind_io (if truthy ICR then
           bind_io (callBN ch ''relayer'' ''par'' [] []) (\<lambda>par.
           bind_io (callBN ch ''priceFeedTestnet'' ''getPrice'' [] []) (\<lambda>price.
           bind_io (bnM ICR) (\<lambda>target.
           bind_io (lift_io (collateralForICR target totalDebt par price)) (\<lambda>v.
           return_io (BN v)))))
       else
           return_io (p_value params)) (\<lambda>collateralAmount.
     bind_io (ensureAllowance ch (if p_shielded params then ''activeShieldedPool'' else
         ''activePool'') collateralAmount (p_from params)) (\<lambda>_.
     bind_io (callM ch ''borrowerOperations'' ''openTrove'' [collateralAmount, BN lusdAmount,
         or_default (p_upperHint params) ZERO_ADDRESS, or_default (p_lowerHint params) ZERO_ADDRESS,
             Bool (p_shielded params)] [(''from'', p_from params)]) (\<lambda>tx.
     return_io \<lparr>r_lusdAmount = lusdAmount, r_netDebt = lusdAmount, r_totalDebt = totalDebt,
         r_ICR = ICR, r_collateral = collateralAmount, r_tx = tx\<rparr>))))))))))))"

definition openShieldedTrove ::
  "'w chain \<Rightarrow> open_params \<Rightarrow> ('w, open_result) th" where
  "openShieldedTrove ch params =
     openTrove ch (params\<lparr>p_shielded := True\<rparr>)"

definition withdrawLUSD ::
  "'w chain \<Rightarrow> val \<Rightarrow> val \<Rightarrow> val \<Rightarrow> val \<Rightarrow> (string \<times> val) list \<Rightarrow> ('w, val \<times> val) th" where
  "withdrawLUSD ch lusdAmount ICR upperHint lowerHint extraParams =
     (let upperHint = (if truthy upperHint then upperHint else ZERO_ADDRESS) in
     (let lowerHint = (if truthy lowerHint then lowerHint else ZERO_ADDRESS) in
     bind_io (assert_io ''Specify either lusd amount or target ICR, but not both'' (\<not> (truthy
         lusdAmount \<and> truthy ICR) \<and> (truthy lusdAmount \<or> truthy ICR))) (\<lambda>_.
     bind_io (if truthy ICR then
           bind_io (getM (Obj extraParams) ''from'') (\<lambda>sender.
           bind_io (assert_io ''A from account is needed'' (truthy sender)) (\<lambda>_.
           bind_io (callM ch ''troveManager'' ''getEntireDebtAndColl'' [sender] []) (\<lambda>res.
           bind_io (getM res ''debt'') (\<lambda>debtV.
           bind_io (getM res ''coll'') (\<lambda>collV.
           bind_io (callBN ch ''priceFeedTestnet'' ''getPrice'' [] []) (\<lambda>price.
           bind_io (bnM collV) (\<lambda>coll.
           bind_io (bnM ICR) (\<lambda>icr.
           bind_io (divM (coll * price) icr) (\<lambda>targetDebt.
           bind_io (bnM debtV) (\<lambda>debt.
           bind_io (assert_io ''ICR is already greater than or equal to target'' (bn_less debt
               targetDebt)) (\<lambda>_.
           bind_io (getNetBorrowingAmount ch (BN (targetDebt - debt))) (\<lambda>amount.
           return_io (amount, BN (targetDebt - debt))))))))))))))
       else
           bind_io (getAmountWithBorrowingFee ch lusdAmount) (\<lambda>increased.
           return_io (lusdAmount, BN increased))) (\<lambda>(lusdAmount, increasedTotalDebt).
     bind_io (callM ch ''borrowerOperations'' ''withdrawLUSD'' [lusdAmount, upperHint,
         lowerHint] extraParams) (\<lambda>_.
     return_io (lusdAmount, increasedTotalDebt))))))"

section \<open>Adjusting Troves\<close>

text \<open>The transaction of one adjustment; \<open>swapped\<close> is the order in which the second function passes
  the hints when it withdraws. When the collateral does not change there is no transaction.\<close>

definition adjustTx ::
  "'w chain \<Rightarrow> bool \<Rightarrow> val \<Rightarrow> int \<Rightarrow> int \<Rightarrow> ('w, val) th" where
  "adjustTx ch swapped account ETHChange LUSDChange =
     bind_io (getCollAndDebtFromAdjustment ch account ETHChange LUSDChange) (\<lambda>(newColl, newDebt).
     bind_io (getBorrowerOpsListHint ch (BN newColl) (BN newDebt) False) (\<lambda>(upperHint, lowerHint).
     (let isDebtIncrease = Bool (LUSDChange > 0) in
     (let amount = BN \<bar>LUSDChange\<bar> in
     (if ETHChange > 0 then
           callM ch ''borrowerOperations'' ''adjustTrove'' [hundred_pct, Num 0, amount,
               isDebtIncrease, Bool False, upperHint, lowerHint] [(''from'', account), (''value'',
                   BN ETHChange)]
       else if ETHChange < 0 then
           callM ch ''borrowerOperations'' ''adjustTrove'' [hundred_pct, BN (- ETHChange), amount,
               isDebtIncrease, Bool False, (if swapped then lowerHint else upperHint),
                   (if swapped then upperHint else lowerHint)] [(''from'', account)]
       else
           return_io Undefined)))))"

definition adjustTrove_allAccounts ::
  "'w chain \<Rightarrow> val list \<Rightarrow> val \<Rightarrow> val \<Rightarrow> ('w, gas_metrics) th" where
  "adjustTrove_allAccounts ch accounts ETHAmount LUSDAmount =
     bind_io (mapM_io (\<lambda>account.
           bind_io (toBNM ETHAmount) (\<lambda>ETHChangeBN.
           bind_io (toBNM LUSDAmount) (\<lambda>LUSDChangeBN.
           bind_io (adjustTx ch False account ETHChangeBN LUSDChangeBN) (\<lambda>tx.
           lift_io (gasUsed tx))))) (accounts)) (\<lambda>gasCostList.
     return_io (getGasMetrics gasCostList))"

definition adjustTrove_allAccounts_randomAmount ::
  "'w chain \<Rightarrow> val list \<Rightarrow> val \<Rightarrow> val \<Rightarrow> val \<Rightarrow> val \<Rightarrow> ('w, gas_metrics) th" where
  "adjustTrove_allAccounts_randomAmount ch accounts ETHMin ETHMax LUSDMin LUSDMax =
     bind_io (mapM_io (\<lambda>account.
           bind_io (randAmountInWei ch ETHMin ETHMax) (\<lambda>ETHAmount.
           bind_io (toBNM ETHAmount) (\<lambda>ETHChangeBN.
           bind_io (randAmountInWei ch LUSDMin LUSDMax) (\<lambda>LUSDAmount.
           bind_io (toBNM LUSDAmount) (\<lambda>LUSDChangeBN.
           bind_io (adjustTx ch True account ETHChangeBN LUSDChangeBN) (\<lambda>tx.
           lift_io (gasUsed tx))))))) (accounts)) (\<lambda>gasCostList.
     return_io (getGasMetrics gasCostList))"

definition addColl_allAccounts ::
  "'w chain \<Rightarrow> val list \<Rightarrow> val \<Rightarrow> ('w, gas_metrics) th" where
  "addColl_allAccounts ch accounts amount =
     bind_io (mapM_io (\<lambda>account.
           bind_io (getCollAndDebtFromAddColl ch account amount) (\<lambda>(newColl, newDebt).
           bind_io (getBorrowerOpsListHint ch (BN newColl) (BN newDebt) False) (\<lambda>(upperHint,
               lowerHint).
           bind_io (callM ch ''borrowerOperations'' ''addColl'' [amount, upperHint,
               lowerHint] [(''from'', account)]) (\<lambda>tx.
           lift_io (gasUsed tx))))) (accounts)) (\<lambda>gasCostList.
     return_io (getGasMetrics gasCostList))"

definition addColl_allAccounts_randomAmount ::
  "'w chain \<Rightarrow> val \<Rightarrow> val \<Rightarrow> val list \<Rightarrow> ('w, gas_metrics) th" where
  "addColl_allAccounts_randomAmount ch minAmount maxAmount accounts =
     bind_io (mapM_io (\<lambda>account.
           bind_io (randAmountInWei ch minAmount maxAmount) (\<lambda>randCollAmount.
           bind_io (getCollAndDebtFromAddColl ch account randCollAmount) (\<lambda>(newColl, newDebt).
           bind_io (getBorrowerOpsListHint ch (BN newColl) (BN newDebt) False) (\<lambda>(upperHint,
               lowerHint).
           bind_io (callM ch ''collateralToken'' ''approve'' [addr ch ''activePool'',
               randCollAmount] [(''from'', account)]) (\<lambda>_.
           bind_io (callM ch ''borrowerOperations'' ''addColl'' [randCollAmount, upperHint,
               lowerHint] [(''from'', account)]) (\<lambda>tx.
           lift_io (gasUsed tx))))))) (accounts)) (\<lambda>gasCostList.
     return_io (getGasMetrics gasCostList))"

definition withdrawColl_allAccounts ::
  "'w chain \<Rightarrow> val list \<Rightarrow> val \<Rightarrow> ('w, gas_metrics) th" where
  "withdrawColl_allAccounts ch accounts amount =
     bind_io (mapM_io (\<lambda>account.
           bind_io (getCollAndDebtFromWithdrawColl ch account amount) (\<lambda>(newColl, newDebt).
           bind_io (getBorrowerOpsListHint ch (BN newColl) (BN newDebt) False) (\<lambda>(upperHint,
               lowerHint).
           bind_io (callM ch ''borrowerOperations'' ''withdrawColl'' [amount, upperHint,
               lowerHint] [(''from'', account)]) (\<lambda>tx.
           lift_io (gasUsed tx))))) (accounts)) (\<lambda>gasCostList.
     return_io (getGasMetrics gasCostList))"

definition withdrawColl_allAccounts_randomAmount ::
  "'w chain \<Rightarrow> val \<Rightarrow> val \<Rightarrow> val list \<Rightarrow> ('w, gas_metrics) th" where
  "withdrawColl_allAccounts_randomAmount ch minAmount maxAmount accounts =
     bind_io (mapM_io (\<lambda>account.
           bind_io (randAmountInWei ch minAmount maxAmount) (\<lambda>randCollAmount.
           bind_io (getCollAndDebtFromWithdrawColl ch account randCollAmount) (\<lambda>(newColl, newDebt).
           bind_io (getBorrowerOpsListHint ch (BN newColl) (BN newDebt) False) (\<lambda>(upperHint,
               lowerHint).
           bind_io (callM ch ''borrowerOperations'' ''withdrawColl'' [randCollAmount, upperHint,
               lowerHint] [(''from'', account)]) (\<lambda>tx.
           lift_io (gasUsed tx)))))) (accounts)) (\<lambda>gasCostList.
     return_io (getGasMetrics gasCostList))"

definition withdrawLUSD_allAccounts ::
  "'w chain \<Rightarrow> val list \<Rightarrow> val \<Rightarrow> ('w, gas_metrics) th" where
  "withdrawLUSD_allAccounts ch accounts amount =
     bind_io (mapM_io (\<lambda>account.
           bind_io (getCollAndDebtFromWithdrawLUSD ch account amount) (\<lambda>(newColl, newDebt).
           bind_io (getBorrowerOpsListHint ch (BN newColl) (BN newDebt) False) (\<lambda>(upperHint,
               lowerHint).
           bind_io (callM ch ''borrowerOperations'' ''withdrawLUSD'' [amount, upperHint,
               lowerHint] [(''from'', account)]) (\<lambda>tx.
           lift_io (gasUsed tx))))) (accounts)) (\<lambda>gasCostList.
     return_io (getGasMetrics gasCostList))"

definition withdrawLUSD_allAccounts_randomAmount ::
  "'w chain \<Rightarrow> val \<Rightarrow> val \<Rightarrow> val list \<Rightarrow> ('w, gas_metrics) th" where
  "withdrawLUSD_allAccounts_randomAmount ch minAmount maxAmount accounts =
     bind_io (mapM_io (\<lambda>account.
           bind_io (randAmountInWei ch minAmount maxAmount) (\<lambda>randLUSDAmount.
           bind_io (getCollAndDebtFromWithdrawLUSD ch account randLUSDAmount) (\<lambda>(newColl, newDebt).
           bind_io (getBorrowerOpsListHint ch (BN newColl) (BN newDebt) False) (\<lambda>(upperHint,
               lowerHint).
           bind_io (callM ch ''borrowerOperations'' ''withdrawLUSD'' [randLUSDAmount, upperHint,
               lowerHint] [(''from'', account)]) (\<lambda>tx.
           lift_io (gasUsed tx)))))) (accounts)) (\<lambda>gasCostList.
     return_io (getGasMetrics gasCostList))"

definition repayLUSD_allAccounts ::
  "'w chain \<Rightarrow> val list \<Rightarrow> val \<Rightarrow> ('w, gas_metrics) th" where
  "repayLUSD_allAccounts ch accounts amount =
     bind_io (mapM_io (\<lambda>account.
           bind_io (getCollAndDebtFromRepayLUSD ch account amount) (\<lambda>(newColl, newDebt).
           bind_io (getBorrowerOpsListHint ch (BN newColl) (BN newDebt) False) (\<lambda>(upperHint,
               lowerHint).
           bind_io (callM ch ''borrowerOperations'' ''repayLUSD'' [amount, upperHint,
               lowerHint] [(''from'', account)]) (\<lambda>tx.
           lift_io (gasUsed tx))))) (accounts)) (\<lambda>gasCostList.
     return_io (getGasMetrics gasCostList))"

definition repayLUSD_allAccounts_randomAmount ::
  "'w chain \<Rightarrow> val \<Rightarrow> val \<Rightarrow> val list \<Rightarrow> ('w, gas_metrics) th" where
  "repayLUSD_allAccounts_randomAmount ch minAmount maxAmount accounts =
     bind_io (mapM_io (\<lambda>account.
           bind_io (randAmountInWei ch minAmount maxAmount) (\<lambda>randLUSDAmount.
           bind_io (getCollAndDebtFromRepayLUSD ch account randLUSDAmount) (\<lambda>(newColl, newDebt).
           bind_io (getBorrowerOpsListHint ch (BN newColl) (BN newDebt) False) (\<lambda>(upperHint,
               lowerHint).
           bind_io (callM ch ''borrowerOperations'' ''repayLUSD'' [randLUSDAmount, upperHint,
               lowerHint] [(''from'', account)]) (\<lambda>tx.
           lift_io (gasUsed tx)))))) (accounts)) (\<lambda>gasCostList.
     return_io (getGasMetrics gasCostList))"

definition getCurrentICR_allAccounts ::
  "'w chain \<Rightarrow> val list \<Rightarrow> string \<Rightarrow> ('w, gas_metrics) th" where
  "getCurrentICR_allAccounts ch accounts functionCaller =
     bind_io (callM ch ''priceFeedTestnet'' ''getPrice'' [] []) (\<lambda>price.
     bind_io (mapM_io (\<lambda>account.
           bind_io (callM ch functionCaller ''troveManager_getCurrentICR'' [account,
               price] []) (\<lambda>tx.
           bind_io (lift_io (gasUsed tx)) (\<lambda>gas.
           return_io (gas - 21000)))) (accounts)) (\<lambda>gasCostList.
     return_io (getGasMetrics gasCostList)))"

section \<open>Redemptions\<close>

definition approxHint ::
  "'w chain \<Rightarrow> val \<Rightarrow> bool \<Rightarrow> string \<Rightarrow> ('w, val \<times> val) th" where
  "approxHint ch nicr shielded seedKey =
     bind_io (get_io) (\<lambda>s.
     bind_io (callM ch ''hintHelpers'' ''getApproxHint'' [nicr, Num 50, latestRandomSeed s,
         Bool shielded] []) (\<lambda>hint.
     bind_io (getM hint ''hintAddress'') (\<lambda>address.
     bind_io (getM hint seedKey) (\<lambda>seed.
     return_io (address, seed)))))"

definition performRedemptionTx ::
  "'w chain \<Rightarrow> val \<Rightarrow> val \<Rightarrow> val \<Rightarrow> val \<Rightarrow> val \<Rightarrow> ('w, val) th" where
  "performRedemptionTx ch redeemer price LUSDAmount maxFee gasPrice_toUse =
     bind_io (callM ch ''hintHelpers'' ''getRedemptionHints'' [LUSDAmount, price,
         gasPrice_toUse] []) (\<lambda>redemptionhint.
     bind_io (indexM redemptionhint 0) (\<lambda>firstRedemptionHint.
     bind_io (indexM redemptionhint 1) (\<lambda>partialRedemptionNewICR.
     bind_io (get_io) (\<lambda>s.
     bind_io (callM ch ''hintHelpers'' ''getApproxHint'' [partialRedemptionNewICR, Num 50,
         latestRandomSeed s, Bool False] []) (\<lambda>_.
     bind_io (approxHint ch partialRedemptionNewICR False ''seed'') (\<lambda>(approxHint1, seed).
     bind_io (approxHint ch partialRedemptionNewICR True ''latestRandomSeed'') (\<lambda>(approxHint2,
         newSeed).
     bind_io (modify_io (\<lambda>s. s\<lparr>latestRandomSeed := newSeed\<rparr>)) (\<lambda>_.
     bind_io (callM ch ''sortedTroves'' ''findInsertPosition'' [partialRedemptionNewICR,
         approxHint1, approxHint1] []) (\<lambda>exact.
     bind_io (callM ch ''sortedShieldedTroves'' ''findInsertPosition'' [partialRedemptionNewICR,
         approxHint2, approxHint2] []) (\<lambda>exactShielded.
     bind_io (indexM exact 0) (\<lambda>e0.
     bind_io (indexM exact 1) (\<lambda>e1.
     bind_io (indexM exactShielded 0) (\<lambda>s0.
     bind_io (indexM exactShielded 1) (\<lambda>s1.
     callM ch ''troveManager'' ''redeemCollateral'' [LUSDAmount, firstRedemptionHint, e0, e1, s0,
         s1, partialRedemptionNewICR, Num 0, maxFee] [(''from'', redeemer), (''gasPrice'',
             gasPrice_toUse)]))))))))))))))"

definition redeemCollateral ::
  "'w chain \<Rightarrow> val \<Rightarrow> val \<Rightarrow> val \<Rightarrow> val \<Rightarrow> ('w, int) th" where
  "redeemCollateral ch redeemer LUSDAmount gasPrice maxFee =
     bind_io (callM ch ''priceFeedTestnet'' ''getPrice'' [] []) (\<lambda>price.
     bind_io (performRedemptionTx ch redeemer price LUSDAmount (or_default maxFee hundred_pct)
         (or_default gasPrice (Num 0))) (\<lambda>tx.
     lift_io (gasUsed tx)))"

definition redeemCollateralAndGetTxObject ::
  "'w chain \<Rightarrow> val \<Rightarrow> val \<Rightarrow> val \<Rightarrow> val \<Rightarrow> ('w, val) th" where
  "redeemCollateralAndGetTxObject ch redeemer LUSDAmount gasPrice maxFee =
     bind_io (callM ch ''priceFeedTestnet'' ''getPrice'' [] []) (\<lambda>price.
     performRedemptionTx ch redeemer price LUSDAmount (or_default maxFee hundred_pct) (or_default
         gasPrice (Num 0)))"

text \<open>\<open>tx\<close> is not declared there: the first redemption is sent, then a \<open>ReferenceError\<close> is raised.\<close>

definition redeemCollateral_allAccounts_randomAmount ::
  "'w chain \<Rightarrow> val \<Rightarrow> val \<Rightarrow> val list \<Rightarrow> ('w, gas_metrics) th" where
  "redeemCollateral_allAccounts_randomAmount ch minAmount maxAmount accounts =
     bind_io (callM ch ''priceFeedTestnet'' ''getPrice'' [] []) (\<lambda>price.
     bind_io (mapM_io (\<lambda>redeemer.
           bind_io (randAmountInWei ch minAmount maxAmount) (\<lambda>randLUSDAmount.
           bind_io (performRedemptionTx ch redeemer price randLUSDAmount (Num 0) (Num 0)) (\<lambda>_.
           throw_io (ReferenceError ''tx is not defined'')))) (accounts)) (\<lambda>gasCostList.
     return_io (getGasMetrics gasCostList)))"

definition performRedemptionForShutdownTx ::
  "'w chain \<Rightarrow> val \<Rightarrow> val \<Rightarrow> val \<Rightarrow> val \<Rightarrow> ('w, val) th" where
  "performRedemptionForShutdownTx ch redeemer price LUSDAmount gasPrice_toUse =
     bind_io (callM ch ''hintHelpers'' ''getRedemptionHints'' [LUSDAmount, price,
         gasPrice_toUse] []) (\<lambda>hints.
     bind_io (getM hints ''firstRedemptionHint'') (\<lambda>firstRedemptionHint.
     bind_io (getM hints ''partialRedemptionHintNICR'') (\<lambda>partialRedemptionHintNICR.
     bind_io (callM ch ''sortedTroves'' ''findInsertPosition'' [partialRedemptionHintNICR, redeemer,
         redeemer] []) (\<lambda>pos.
     bind_io (indexM pos 0) (\<lambda>upperHint.
     bind_io (indexM pos 1) (\<lambda>lowerHint.
     bind_io (callM ch ''sortedShieldedTroves'' ''findInsertPosition'' [partialRedemptionHintNICR,
         redeemer, redeemer] []) (\<lambda>shieldedPos.
     bind_io (indexM shieldedPos 0) (\<lambda>upperShieldedHint.
     bind_io (indexM shieldedPos 1) (\<lambda>lowerShieldedHint.
     callM ch ''troveManager'' ''redeemCollateralForShutdown'' [LUSDAmount, firstRedemptionHint,
         upperHint, lowerHint, upperShieldedHint, lowerShieldedHint, partialRedemptionHintNICR,
             Num 0] [(''from'', redeemer), (''gasPrice'', gasPrice_toUse)])))))))))"

definition redeemCollateralForShutdown ::
  "'w chain \<Rightarrow> val \<Rightarrow> val \<Rightarrow> val \<Rightarrow> ('w, int) th" where
  "redeemCollateralForShutdown ch redeemer LUSDAmount gasPrice =
     bind_io (callM ch ''priceFeedTestnet'' ''getPrice'' [] []) (\<lambda>price.
     bind_io (performRedemptionForShutdownTx ch redeemer price LUSDAmount (or_default gasPrice (Num
         0))) (\<lambda>tx.
     lift_io (gasUsed tx)))"

definition redeemCollateralForShutdownAndGetTxObject ::
  "'w chain \<Rightarrow> val \<Rightarrow> val \<Rightarrow> val \<Rightarrow> ('w, val) th" where
  "redeemCollateralForShutdownAndGetTxObject ch redeemer LUSDAmount gasPrice =
     bind_io (callM ch ''priceFeedTestnet'' ''getPrice'' [] []) (\<lambda>price.
     performRedemptionForShutdownTx ch redeemer price LUSDAmount (or_default gasPrice (Num 0)))"

section \<open>Stability pool\<close>

definition fakeIncreaseSPDeposits ::
  "'w chain \<Rightarrow> val \<Rightarrow> ('w, unit) th" where
  "fakeIncreaseSPDeposits ch amount =
     bind_io (callM ch ''stabilityPool'' ''increaseTotalLUSDDeposits'' [amount] []) (\<lambda>_.
     bind_io (callM ch ''lusdToken'' ''unprotectedMint'' [addr ch ''stabilityPool'',
         amount] []) (\<lambda>_.
     return_io ()))"

definition fakeDecreaseSPDeposits ::
  "'w chain \<Rightarrow> val \<Rightarrow> ('w, unit) th" where
  "fakeDecreaseSPDeposits ch amount =
     bind_io (callM ch ''stabilityPool'' ''decreaseTotalLUSDDeposits'' [amount] []) (\<lambda>_.
     bind_io (callM ch ''lusdToken'' ''unprotectedBurn'' [addr ch ''stabilityPool'',
         amount] []) (\<lambda>_.
     return_io ()))"

definition fakeResetSPDeposits ::
  "'w chain \<Rightarrow> ('w, unit) th" where
  "fakeResetSPDeposits ch =
     bind_io (callBN ch ''stabilityPool'' ''getTotalLUSDDeposits'' [] []) (\<lambda>deposits.
     bind_io (callBN ch ''stabilityPool'' ''pendingLUSDDeposits'' [] []) (\<lambda>pending.
     bind_io (callM ch ''lusdToken'' ''unprotectedBurn'' [addr ch ''stabilityPool'',
         BN (deposits - pending)] []) (\<lambda>_.
     bind_io (callM ch ''stabilityPool'' ''resetTotalLUSDDeposits'' [] []) (\<lambda>_.
     return_io ()))))"

definition makeTrovesIncreasingICR ::
  "'w chain \<Rightarrow> val list \<Rightarrow> ('w, unit) th" where
  "makeTrovesIncreasingICR ch accounts =
     forM_io (List.enumerate 0 accounts) (\<lambda>(i, account).
           bind_io (lift_io (toWei (show_nat (2000 + 10 * i)) 15)) (\<lambda>coll.
           bind_io (callM ch ''borrowerOperations'' ''openTrove'' [hundred_pct,
               Str ''200000000000000000000'', account, account] [(''from'', account), (''value'',
                   Str coll)]) (\<lambda>_.
           return_io ())))"

definition provideToSP_allAccounts ::
  "'w chain \<Rightarrow> val list \<Rightarrow> string \<Rightarrow> val \<Rightarrow> ('w, gas_metrics) th" where
  "provideToSP_allAccounts ch accounts stabilityPool amount =
     bind_io (mapM_io (\<lambda>account.
           bind_io (callM ch stabilityPool ''provideToSP'' [amount, ZERO_ADDRESS] [(''from'',
               account)]) (\<lambda>tx.
           lift_io (gasUsed tx))) (accounts)) (\<lambda>gasCostList.
     return_io (getGasMetrics gasCostList))"

definition provideToSP_allAccounts_randomAmount ::
  "'w chain \<Rightarrow> val \<Rightarrow> val \<Rightarrow> val list \<Rightarrow> string \<Rightarrow> ('w, gas_metrics) th" where
  "provideToSP_allAccounts_randomAmount ch minAmount maxAmount accounts stabilityPool =
     bind_io (mapM_io (\<lambda>account.
           bind_io (randAmountInWei ch minAmount maxAmount) (\<lambda>randomLUSDAmount.
           bind_io (callM ch stabilityPool ''provideToSP'' [randomLUSDAmount,
               ZERO_ADDRESS] [(''from'', account)]) (\<lambda>tx.
           lift_io (gasUsed tx)))) (accounts)) (\<lambda>gasCostList.
     return_io (getGasMetrics gasCostList))"

definition withdrawFromSP_allAccounts ::
  "'w chain \<Rightarrow> val list \<Rightarrow> string \<Rightarrow> val \<Rightarrow> ('w, gas_metrics) th" where
  "withdrawFromSP_allAccounts ch accounts stabilityPool amount =
     bind_io (mapM_io (\<lambda>account.
           bind_io (callM ch stabilityPool ''withdrawFromSP'' [amount] [(''from'', account)]) (\<lambda>tx.
           lift_io (gasUsed tx))) (accounts)) (\<lambda>gasCostList.
     return_io (getGasMetrics gasCostList))"

definition withdrawFromSP_allAccounts_randomAmount ::
  "'w chain \<Rightarrow> val \<Rightarrow> val \<Rightarrow> val list \<Rightarrow> string \<Rightarrow> ('w, gas_metrics) th" where
  "withdrawFromSP_allAccounts_randomAmount ch minAmount maxAmount accounts stabilityPool =
     bind_io (mapM_io (\<lambda>account.
           bind_io (randAmountInWei ch minAmount maxAmount) (\<lambda>randomLUSDAmount.
           bind_io (callM ch stabilityPool ''withdrawFromSP'' [randomLUSDAmount] [(''from'',
               account)]) (\<lambda>tx.
           lift_io (gasUsed tx)))) (accounts)) (\<lambda>gasCostList.
     return_io (getGasMetrics gasCostList))"

definition withdrawCollateralGainToTrove_allAccounts ::
  "'w chain \<Rightarrow> val list \<Rightarrow> ('w, gas_metrics) th" where
  "withdrawCollateralGainToTrove_allAccounts ch accounts =
     bind_io (mapM_io (\<lambda>account.
           bind_io (getEntireCollAndDebt ch account) (\<lambda>(entireColl, entireDebt).
           bind_io (logM ch (''entireColl: '' @ show_int entireColl)) (\<lambda>_.
           bind_io (logM ch (''entireDebt: '' @ show_int entireDebt)) (\<lambda>_.
           bind_io (callBN ch ''stabilityPool'' ''getDepositorCollateralGain'' [account] [])
               (\<lambda>ETHGain.
           bind_io (getBorrowerOpsListHint ch (BN (entireColl + ETHGain)) (BN entireDebt) False)
               (\<lambda>(upperHint, lowerHint).
           bind_io (callM ch ''stabilityPool'' ''withdrawCollateralGainToTrove'' [upperHint,
               lowerHint] [(''from'', account)]) (\<lambda>tx.
           lift_io (gasUsed tx)))))))) (accounts)) (\<lambda>gasCostList.
     return_io (getGasMetrics gasCostList))"

definition getLCFromAddress ::
  "'w chain \<Rightarrow> val \<Rightarrow> ('w, val) th" where
  "getLCFromAddress ch LCAddress =
     callM ch ''LockupContract'' ''at'' [LCAddress] []"

definition getLCFromDeploymentTx ::
  "'w chain \<Rightarrow> val \<Rightarrow> ('w, val) th" where
  "getLCFromDeploymentTx ch deployedLCTx =
     bind_io (lift_io (getLCAddressFromDeploymentTx deployedLCTx)) (\<lambda>deployedLCAddress.
     getLCFromAddress ch deployedLCAddress)"

definition registerFrontEnds ::
  "'w chain \<Rightarrow> val list \<Rightarrow> string \<Rightarrow> ('w, unit) th" where
  "registerFrontEnds ch frontEnds stabilityPool =
     forM_io (frontEnds) (\<lambda>frontEnd.
           bind_io (callM ch stabilityPool ''registerFrontEnd'' [Str ''500000000000000000'']
               [(''from'', frontEnd)]) (\<lambda>_.
           return_io ()))"

section \<open>Time\<close>

fun message_of :: "js_error \<Rightarrow> val" where
  "message_of (Error m) = Str m"
| "message_of (AssertionError m) = Str m"
| "message_of (TypeError m) = Str m"
| "message_of (ReferenceError m) = Str m"
| "message_of (RangeError m) = Str m"
| "message_of (Thrown s) = Undefined"

text \<open>An error of the provider reaches the callback, which prints it.\<close>

definition fastForwardTime ::
  "'w chain \<Rightarrow> int \<Rightarrow> ('w, unit) th" where
  "fastForwardTime ch seconds =
     bind_io (catch_io (bind_io (on_chain (request ch ''evm_increaseTime'' [Num seconds])) (\<lambda>_.
         return_io ())) (\<lambda>e. logM ch (to_string (message_of e)))) (\<lambda>_.
     catch_io (bind_io (on_chain (request ch ''evm_mine'' [])) (\<lambda>_. return_io ())) (\<lambda>e. logM ch
         (to_string (message_of e))))"

definition blockTimestamp ::
  "'w chain \<Rightarrow> val \<Rightarrow> ('w, val) th" where
  "blockTimestamp ch blockNumber =
     bind_io (on_chain (request ch ''eth_getBlock'' [blockNumber])) (\<lambda>block.
     getM block ''timestamp'')"

definition getLatestBlockTimestamp ::
  "'w chain \<Rightarrow> ('w, val) th" where
  "getLatestBlockTimestamp ch =
     bind_io (on_chain (request ch ''eth_getBlockNumber'' [])) (\<lambda>blockNumber.
     blockTimestamp ch blockNumber)"

definition getTimestampFromTxReceipt ::
  "'w chain \<Rightarrow> val \<Rightarrow> ('w, val) th" where
  "getTimestampFromTxReceipt ch txReceipt =
     bind_io (getM txReceipt ''blockNumber'') (\<lambda>blockNumber.
     blockTimestamp ch blockNumber)"

definition getTimestampFromTx ::
  "'w chain \<Rightarrow> val \<Rightarrow> ('w, val) th" where
  "getTimestampFromTx ch tx =
     bind_io (getM tx ''receipt'') (\<lambda>receipt.
     getTimestampFromTxReceipt ch receipt)"

definition getTimeFromSystemDeployment ::
  "'w chain \<Rightarrow> string \<Rightarrow> val \<Rightarrow> ('w, int) th" where
  "getTimeFromSystemDeployment ch lqtyToken timePassedSinceDeployment =
     bind_io (callM ch lqtyToken ''getDeploymentStartTime'' [] []) (\<lambda>deploymentTime.
     bind_io (toBNM deploymentTime) (\<lambda>start.
     bind_io (toBNM timePassedSinceDeployment) (\<lambda>passed.
     return_io (start + passed))))"

section \<open>Assertions on transactions\<close>

definition string_includes :: "string \<Rightarrow> string \<Rightarrow> bool" where
  "string_includes s t \<longleftrightarrow> list_ex (\<lambda>i. take (length t) (drop i s) = t) [0..<Suc (length s)]"

definition message_includes :: "js_error \<Rightarrow> string list \<Rightarrow> bool res" where
  "message_includes err patterns =
     (case message_of err of
        Str m \<Rightarrow> Inr (list_ex (string_includes m) patterns)
      | _ \<Rightarrow> Inl (TypeError ''Cannot read properties of undefined (reading includes)''))"

text \<open>The promise is given by its outcome. A transaction that succeeded fails \<open>assert.isFalse\<close>, whose
  error is caught with the others.\<close>

definition assertIsFalse :: "val res \<Rightarrow> unit res" where
  "assertIsFalse outcome =
     bind_res outcome (\<lambda>tx. bind_res (getp tx ''receipt'') (\<lambda>r. bind_res (getp r ''status'') (\<lambda>st.
       assert_res (''expected '' @ to_string st @ '' to be false'') (st = Bool False))))"

definition assertRevert :: "val res \<Rightarrow> unit res" where
  "assertRevert outcome =
     (case assertIsFalse outcome of
        Inr _ \<Rightarrow> Inr ()
      | Inl err \<Rightarrow> bind_res (message_includes err [''revert'', ''invalid opcode''])
                    (assert_res (''Expected revert or invalid opcode, got: ''
                       @ to_string (message_of err))))"

definition assertAssert :: "val res \<Rightarrow> unit res" where
  "assertAssert outcome =
     (case assertIsFalse outcome of
        Inr _ \<Rightarrow> Inr ()
      | Inl err \<Rightarrow> bind_res (message_includes err [''invalid opcode''])
                    (assert_res (''expected '' @ to_string (message_of err)
                       @ '' to include invalid opcode'')))"

section \<open>Other transactions\<close>

definition forceSendEth ::
  "'w chain \<Rightarrow> val \<Rightarrow> val \<Rightarrow> val \<Rightarrow> ('w, unit) th" where
  "forceSendEth ch sender receiver amount =
     bind_io (callM ch ''Destructible'' ''new'' [] []) (\<lambda>destructible.
     bind_io (getM destructible ''address'') (\<lambda>address.
     bind_io (on_chain (request ch ''eth_sendTransaction'' [Obj [(''to'', address), (''from'',
         sender), (''value'', amount)]])) (\<lambda>_.
     bind_io (lift_io (as_Str address)) (\<lambda>key.
     bind_io (callM ch key ''destruct'' [receiver] []) (\<lambda>_.
     return_io ())))))"

definition sendQueuedTx2 ::
  "'w chain \<Rightarrow> string \<Rightarrow> string \<Rightarrow> val list \<Rightarrow> val \<Rightarrow> int \<Rightarrow> ('w, val) th" where
  "sendQueuedTx2 ch web3Contract methodName args sender gas =
     bind_io (lift_io (encodeABI ch web3Contract methodName args)) (\<lambda>txData.
     on_chain (request ch ''eth_sendTransaction'' [Obj [(''from'', sender), (''to'',
         addr ch web3Contract), (''data'', Str txData), (''gas'', Num gas)]]))"

end
