(* ===== verification/TestHelpers_Par.thy ===== *)
theory TestHelpers_Par
  imports TestHelpers_Ops
begin

text \<open>
  \<open>driveICRToTargetWithPar\<close> of \<^verbatim>\<open>testHelpers.js\<close>: it moves the controller's \<open>par\<close> towards the value
  at which a Trove has a target collateral ratio, by nudging the oracle and forwarding time, and then
  sets the price that gives the ratio for the \<open>par\<close> reached.
\<close>

definition PAR_MIN :: int where
  "PAR_MIN = 850000000000000000"

definition PAR_MAX :: int where
  "PAR_MAX = 1250000000000000000"

definition nudge :: "int \<Rightarrow> val" where
  "nudge delta = (if delta > 0 then BN (95 * 10 ^ 16) else BN (105 * 10 ^ 16))"

text \<open>\<open>absDelta\<close> is the signed difference there, as the loop only runs while \<open>par\<close> has to fall.\<close>

definition boundedHours :: "int \<Rightarrow> int res" where
  "boundedHours delta =
     bind_res (if delta \<le> MAX_DELTA_PER_HOUR then Inr 1
               else bn_div (delta + (MAX_DELTA_PER_HOUR - 1)) MAX_DELTA_PER_HOUR)
       (\<lambda>hours. Inr (if hours > 6 then 6 else hours))"

definition parStep ::
  "'w chain \<Rightarrow> int \<Rightarrow> int \<Rightarrow> ('w, int) th" where
  "parStep ch parTarget par =
     (let delta = parTarget - par in
     bind_io (callM ch ''marketOracleTestnet'' ''setPrice'' [nudge delta] []) (\<lambda>_.
     bind_io (lift_io (boundedHours delta)) (\<lambda>hours.
     bind_io (fastForwardTime ch (hours * SECONDS_IN_ONE_HOUR)) (\<lambda>_.
     bind_io (callM ch ''relayer'' ''updatePar'' [] []) (\<lambda>_.
     callBN ch ''relayer'' ''par'' [] [])))))"

text \<open>The loop makes at most 256 steps; the first argument counts those left.\<close>

primrec parLoop :: "nat \<Rightarrow> 'w chain \<Rightarrow> int \<Rightarrow> int \<Rightarrow> nat \<Rightarrow> ('w, int \<times> nat) th" where
  "parLoop 0 ch parTarget par steps = return_io (par, steps)"
| "parLoop (Suc k) ch parTarget par steps =
     (if par - parTarget > MAX_DELTA_PER_HOUR
      then bind_io (parStep ch parTarget par) (\<lambda>par. parLoop k ch parTarget par (Suc steps))
      else return_io (par, steps))"

definition parTargets :: "int \<Rightarrow> int \<Rightarrow> int \<Rightarrow> int \<Rightarrow> (int \<times> int) res" where
  "parTargets collEff debtActual price targetICR =
     bind_res (bn_div (collEff * price * e18) (debtActual * targetICR)) (\<lambda>parTarget.
       if parTarget < PAR_MIN \<or> parTarget > PAR_MAX then
         (let parTarget = (if parTarget < PAR_MIN then PAR_MIN else PAR_MAX)
          in bind_res (bn_div (targetICR * debtActual * parTarget) collEff) (\<lambda>x.
             bind_res (bn_div x e18) (\<lambda>priceTarget. Inr (parTarget, priceTarget))))
       else Inr (parTarget, price))"

definition snapPrice :: "int \<Rightarrow> int \<Rightarrow> int \<Rightarrow> int \<Rightarrow> int res" where
  "snapPrice collEff debtActual par targetICR =
     bind_res (bn_div (targetICR * debtActual * par) collEff) (\<lambda>x.
     bind_res (bn_div x e18) (\<lambda>priceFinal.
     bind_res (bn_div (collEff * priceFinal * e18) (debtActual * par)) (\<lambda>icrCheck.
       Inr (if icrCheck < targetICR then priceFinal + 1 else priceFinal))))"

definition finalCorrection ::
  "'w chain \<Rightarrow> int \<Rightarrow> int \<Rightarrow> ('w, int) th" where
  "finalCorrection ch parTarget par =
     (if par \<noteq> parTarget then
           (let delta = parTarget - par in
           bind_io (callM ch ''marketOracleTestnet'' ''setPrice'' [nudge delta] []) (\<lambda>_.
           bind_io (divM (\<bar>delta\<bar> + (MAX_DELTA_PER_HOUR - 1)) MAX_DELTA_PER_HOUR) (\<lambda>hours.
           (if hours > 0 then
                 bind_io (fastForwardTime ch (hours * SECONDS_IN_ONE_HOUR)) (\<lambda>_.
                 bind_io (callM ch ''relayer'' ''updatePar'' [] []) (\<lambda>_.
                 callBN ch ''relayer'' ''par'' [] []))
             else
                 return_io par))))
       else
           return_io par)"

definition driveICRToTargetWithPar ::
  "'w chain \<Rightarrow> val \<Rightarrow> int \<Rightarrow> ('w, int \<times> nat \<times> int) th" where
  "driveICRToTargetWithPar ch borrower targetICR =
     bind_io (callM ch ''troveManager'' ''getEntireDebtAndColl'' [borrower] []) (\<lambda>res.
     bind_io (indexM res 1) (\<lambda>coll1.
     bind_io (indexM res 3) (\<lambda>coll3.
     bind_io (bnM coll1) (\<lambda>c1.
     bind_io (bnM coll3) (\<lambda>c3.
     (let collEff = c1 + c3 in
     bind_io (callBN ch ''troveManager'' ''getTroveActualDebt'' [borrower] []) (\<lambda>debtActual.
     (if collEff = 0 \<or> debtActual = 0 then
           throw_io (Error ''zero coll/debt for borrower'')
       else
           bind_io (callBN ch ''priceFeedTestnet'' ''getPrice'' [] []) (\<lambda>price.
           bind_io (lift_io (parTargets collEff debtActual price targetICR)) (\<lambda>(parTarget,
               priceTarget).
           bind_io (callM ch ''marketOracleTestnet'' ''setPrice'' [BN priceTarget] []) (\<lambda>_.
           bind_io (callM ch ''relayer'' ''updatePar'' [] []) (\<lambda>_.
           bind_io (callBN ch ''relayer'' ''par'' [] []) (\<lambda>par.
           bind_io (parLoop 256 ch parTarget par 0) (\<lambda>(par, steps).
           bind_io (finalCorrection ch parTarget par) (\<lambda>par.
           bind_io (lift_io (snapPrice collEff debtActual par targetICR)) (\<lambda>priceFinal.
           bind_io (callM ch ''priceFeedTestnet'' ''setPrice'' [BN priceFinal] []) (\<lambda>_.
           return_io (par, steps, priceFinal))))))))))))))))))"

end
