(* ===== verification/Proxy.thy ===== *)
theory Proxy
  imports TestHelpers_Ops
begin

text \<open>
  \<^verbatim>\<open>proxyHelpers.js\<close>: contract objects that send the transactions of a user through the user's
  \<open>DSProxy\<close>. A contract instance is either a plain contract, known by its address, or an instance of
  one of the proxy classes around another instance. What differs between the classes is which methods
  they have and how each passes its parameters on; a method is described by its \<open>route\<close>. \<open>web3\<close>'s
  \<open>sha3\<close> and \<open>toHex\<close> are parameters.
\<close>

section \<open>Objects\<close>

type_synonym proxy_map = "(string \<times> string) list" \<comment> \<open>user, address of the user's \<open>DSProxy\<close>\<close>

record proxy =
  owner :: val
  proxies :: proxy_map
  scriptAddress :: val

datatype proxy_class =
    BorrowerOperationsProxy | BorrowerWrappersProxy | TroveManagerProxy | StabilityPoolProxy
  | SortedTrovesProxy | TokenProxy | LQTYStakingProxy

datatype contract_object = Plain string | Proxied proxy_class proxy "contract_object option"

record hashing =
  sha3 :: "string \<Rightarrow> string"
  toHex :: "val \<Rightarrow> string res"

text \<open>\<open>this.address\<close> is set only when there is an underlying contract.\<close>

fun address_of :: "contract_object \<Rightarrow> val" where
  "address_of (Plain a) = Str a"
| "address_of (Proxied c p None) = Undefined"
| "address_of (Proxied c p (Some i)) = address_of i"

definition buildUserProxies :: "'w chain \<Rightarrow> string list \<Rightarrow> ('w, proxy_map) th" where
  "buildUserProxies ch users =
     bind_io (callM ch ''DSProxyFactory'' ''new'' [] []) (\<lambda>proxyFactory.
     bind_io (getM proxyFactory ''address'') (\<lambda>factory.
     bind_io (lift_io (as_Str factory)) (\<lambda>key.
     foldM_io (\<lambda>proxies user.
         bind_io (callM ch key ''build'' [] [(''from'', Str user)]) (\<lambda>proxyTx.
         bind_io (getM proxyTx ''logs'') (\<lambda>logs.
         bind_io (indexM logs 0) (\<lambda>log.
         bind_io (getM log ''args'') (\<lambda>args.
         bind_io (getM args ''proxy'') (\<lambda>proxy.
         bind_io (callM ch ''DSProxy'' ''at'' [proxy] []) (\<lambda>_.
         bind_io (lift_io (as_Str proxy)) (\<lambda>address.
         return_io (AList.update user address proxies))))))))) [] users)))"

section \<open>The class \<open>Proxy\<close>\<close>

definition getFrom :: "proxy \<Rightarrow> val list \<Rightarrow> val res" where
  "getFrom p params =
     (if params = [] then Inr (owner p)
      else bind_res (getp (last params) ''from'') (\<lambda>f. Inr (if truthy f then f else owner p)))"

definition getOptionalParams :: "val list \<Rightarrow> val" where
  "getOptionalParams params = (if params = [] then Obj [] else last params)"

definition getProxyAddressFromUser :: "proxy \<Rightarrow> val \<Rightarrow> val" where
  "getProxyAddressFromUser p user =
     (case map_of (proxies p) (to_string user) of Some a \<Rightarrow> Str a | None \<Rightarrow> user)"

definition getProxyFromUser :: "proxy \<Rightarrow> val \<Rightarrow> string option" where
  "getProxyFromUser p user = map_of (proxies p) (to_string user)"

definition getProxyFromParams :: "proxy \<Rightarrow> val list \<Rightarrow> string option res" where
  "getProxyFromParams p params =
     bind_res (getFrom p params) (\<lambda>user. Inr (map_of (proxies p) (to_string user)))"

definition getSlicedParams :: "val list \<Rightarrow> val list res" where
  "getSlicedParams params =
     (if params = [] then Inr params
      else bind_res (getp (last params) ''from'') (\<lambda>f.
           bind_res (getp (last params) ''value'') (\<lambda>v.
             Inr (if truthy f \<or> truthy v then butlast params else params))))"

definition function_name :: "string \<Rightarrow> string" where
  "function_name signature = takeWhile (\<lambda>c. c \<noteq> CHR ''('') signature"

text \<open>\<open>direct name params\<close> is \<^verbatim>\<open>this.contract[name](...params)\<close>.\<close>

definition forwardFunction ::
  "'w chain \<Rightarrow> hashing \<Rightarrow> proxy \<Rightarrow> (string \<Rightarrow> val list \<Rightarrow> ('w, val) th) \<Rightarrow> val list \<Rightarrow> string
     \<Rightarrow> ('w, val) th" where
  "forwardFunction ch h p direct params signature =
     bind_io (lift_io (getProxyFromParams p params)) (\<lambda>proxy.
       case proxy of
         None \<Rightarrow> direct (function_name signature) params
       | Some address \<Rightarrow>
           bind_io (lift_io (getSlicedParams params)) (\<lambda>sliced.
           bind_io (lift_io (getTransactionData (sha3 h) (toHex h) signature sliced)) (\<lambda>calldata.
             callM ch address ''execute(address,bytes)''
               [scriptAddress p, Str calldata, getOptionalParams params] [])))"

definition proxyFunctionWithUser ::
  "proxy \<Rightarrow> (string \<Rightarrow> val list \<Rightarrow> ('w, val) th) \<Rightarrow> string \<Rightarrow> val \<Rightarrow> ('w, val) th" where
  "proxyFunctionWithUser p direct functionName user =
     direct functionName [getProxyAddressFromUser p user]"

definition proxyFunction ::
  "(string \<Rightarrow> val list \<Rightarrow> ('w, val) th) \<Rightarrow> string \<Rightarrow> val list \<Rightarrow> ('w, val) th" where
  "proxyFunction direct functionName params = direct functionName params"

section \<open>The classes\<close>

datatype route =
    Forward string        \<comment> \<open>\<^verbatim>\<open>forwardFunction(params, signature)\<close>\<close>
  | Redirect "nat list" string
      \<comment> \<open>the parameters at these positions are replaced by proxies, then forwarded\<close>
  | Direct                \<comment> \<open>\<^verbatim>\<open>proxyFunction(name, params)\<close>\<close>
  | NoParams              \<comment> \<open>\<^verbatim>\<open>proxyFunction(name, [])\<close>\<close>
  | WithUser              \<comment> \<open>\<^verbatim>\<open>proxyFunctionWithUser(name, user)\<close>\<close>
  | UserAndPrice
  | TwoUsers

type_synonym routes = "(string \<times> route) list"

definition BorrowerOperationsProxy_routes :: routes where
  "BorrowerOperationsProxy_routes =
    [(''openTrove'', Forward ''openTrove(uint256,uint256,address,address)''),
     (''addColl'', Forward ''addColl(uint256,address,address)''),
     (''withdrawColl'', Forward ''withdrawColl(uint256,address,address)''),
     (''withdrawLUSD'', Forward ''withdrawLUSD(uint256,address,address)''),
     (''repayLUSD'', Forward ''repayLUSD(uint256,address,address)''),
     (''closeTrove'', Forward ''closeTrove()''),
     (''adjustTrove'', Forward ''adjustTrove(uint256,uint256,uint256,uint256,bool,address,address)''),
     (''claimRedeemedCollateral'', Forward ''claimRedeemedCollateral(address)''),
     (''getNewTCRFromTroveChange'', Direct),
     (''getNewICRFromTroveChange'', Direct),
     (''getCompositeDebt'', Direct),
     (''LUSD_GAS_COMPENSATION'', Direct),
     (''MIN_NET_DEBT'', Direct),
     (''BORROWING_FEE_FLOOR'', Direct)]"

definition BorrowerWrappersProxy_routes :: routes where
  "BorrowerWrappersProxy_routes =
    [(''claimCollateralAndOpenTrove'', Forward ''claimCollateralAndOpenTrove(uint256,uint256,address,address)''),
     (''claimSPRewardsAndRecycle'', Forward ''claimSPRewardsAndRecycle(uint256,address,address)''),
     (''claimStakingGainsAndRecycle'', Forward ''claimStakingGainsAndRecycle(uint256,address,address)''),
     (''transferETH'', Forward ''transferETH(address,uint256)'')]"

definition TroveManagerProxy_routes :: routes where
  "TroveManagerProxy_routes =
    [(''Troves'', WithUser),
     (''getTroveStatus'', WithUser),
     (''getTroveDebt'', WithUser),
     (''getTroveActualDebt'', WithUser),
     (''getTroveColl'', WithUser),
     (''totalStakes'', NoParams),
     (''relayer'', NoParams),
     (''getPendingCollateralReward'', Direct),
     (''getPendingLUSDDebtReward'', Direct),
     (''getTCR'', Direct),
     (''getCurrentICR'', UserAndPrice),
     (''checkRecoveryMode'', Direct),
     (''getTroveOwnersCount'', NoParams),
     (''L_COLL'', NoParams),
     (''L_LUSDDebt'', NoParams),
     (''rewardSnapshots'', WithUser),
     (''lastFeeOperationTime'', NoParams),
     (''redeemCollateral'',
        Forward ''redeemCollateral(uint256,address,address,address,uint256,uint256,uint256)''),
     (''getActualDebtFromComposite'', Direct),
     (''getEntireDebtAndColl'', Direct)]"

definition StabilityPoolProxy_routes :: routes where
  "StabilityPoolProxy_routes =
    [(''provideToSP'', Forward ''provideToSP(uint256,address)''),
     (''getCompoundedLUSDDeposit'', WithUser),
     (''deposits'', WithUser),
     (''getDepositorCollateralGain'', WithUser)]"

definition SortedTrovesProxy_routes :: routes where
  "SortedTrovesProxy_routes =
    [(''contains'', WithUser), (''isEmpty'', WithUser), (''findInsertPosition'', Direct)]"

definition TokenProxy_routes :: routes where
  "TokenProxy_routes =
    [(''transfer'', Redirect [0] ''transfer(address,uint256)''),
     (''transferFrom'', Redirect [0, 1] ''transferFrom(address,address,uint256)''),
     (''approve'', Redirect [0] ''approve(address,uint256)''),
     (''increaseAllowance'', Redirect [0] ''increaseAllowance(address,uint256)''),
     (''decreaseAllowance'', Redirect [0] ''decreaseAllowance(address,uint256)''),
     (''totalSupply'', Direct),
     (''balanceOf'', WithUser),
     (''allowance'', TwoUsers),
     (''name'', Direct),
     (''symbol'', Direct),
     (''decimals'', Direct)]"

definition LQTYStakingProxy_routes :: routes where
  "LQTYStakingProxy_routes =
    [(''stake'', Forward ''stake(uint256)''), (''stakes'', WithUser), (''F_LUSD'', WithUser)]"

fun routes_of :: "proxy_class \<Rightarrow> routes" where
  "routes_of BorrowerOperationsProxy = BorrowerOperationsProxy_routes"
| "routes_of BorrowerWrappersProxy = BorrowerWrappersProxy_routes"
| "routes_of TroveManagerProxy = TroveManagerProxy_routes"
| "routes_of StabilityPoolProxy = StabilityPoolProxy_routes"
| "routes_of SortedTrovesProxy = SortedTrovesProxy_routes"
| "routes_of TokenProxy = TokenProxy_routes"
| "routes_of LQTYStakingProxy = LQTYStakingProxy_routes"

text \<open>An argument that is not passed is \<open>undefined\<close>; assigning past the end of an array extends it.\<close>

definition arg :: "val list \<Rightarrow> nat \<Rightarrow> val" where
  "arg params i = (if i < length params then params ! i else Undefined)"

definition set_param :: "nat \<Rightarrow> val \<Rightarrow> val list \<Rightarrow> val list" where
  "set_param i v params = (params @ replicate (Suc i - length params) Undefined)[i := v]"

definition redirect :: "proxy \<Rightarrow> nat list \<Rightarrow> val list \<Rightarrow> val list" where
  "redirect p positions params =
     foldl (\<lambda>ps i. set_param i (getProxyAddressFromUser p (arg ps i)) ps) params positions"

fun run_route ::
  "'w chain \<Rightarrow> hashing \<Rightarrow> proxy \<Rightarrow> (string \<Rightarrow> val list \<Rightarrow> ('w, val) th) \<Rightarrow> string \<Rightarrow> route \<Rightarrow> val list
     \<Rightarrow> ('w, val) th" where
  "run_route ch h p direct name (Forward signature) params =
     forwardFunction ch h p direct params signature"
| "run_route ch h p direct name (Redirect positions signature) params =
     forwardFunction ch h p direct (redirect p positions params) signature"
| "run_route ch h p direct name Direct params = proxyFunction direct name params"
| "run_route ch h p direct name NoParams params = proxyFunction direct name []"
| "run_route ch h p direct name WithUser params =
     proxyFunctionWithUser p direct name (arg params 0)"
| "run_route ch h p direct name UserAndPrice params =
     direct name [getProxyAddressFromUser p (arg params 0), arg params 1]"
| "run_route ch h p direct name TwoUsers params =
     proxyFunction direct name
       [getProxyAddressFromUser p (arg params 0), getProxyAddressFromUser p (arg params 1)]"

text \<open>Calling a method of an instance.\<close>

fun call_method ::
  "'w chain \<Rightarrow> hashing \<Rightarrow> contract_object \<Rightarrow> string \<Rightarrow> val list \<Rightarrow> ('w, val) th" where
  "call_method ch h (Plain address) name params = callM ch address name params []"
| "call_method ch h (Proxied c p None) name params =
     (case map_of (routes_of c) name of
        None \<Rightarrow> throw_io (TypeError (name @ '' is not a function''))
      | Some r \<Rightarrow> run_route ch h p
          (\<lambda>n ps. throw_io (TypeError (''Cannot read properties of null (reading '' @ n @ '')''))) name r params)"
| "call_method ch h (Proxied c p (Some i)) name params =
     (case map_of (routes_of c) name of
        None \<Rightarrow> throw_io (TypeError (name @ '' is not a function''))
      | Some r \<Rightarrow> run_route ch h p (call_method ch h i) name r params)"

end
