(* ===== verification/Proxy_Props.thy ===== *)
theory Proxy_Props
  imports Proxy
begin

text \<open>
  Properties of the proxy objects: the layout of the call data, where a forwarded call goes, and the
  agreement of the forwarded signatures with the functions of the script contracts under
  \<^verbatim>\<open>contracts/Proxy\<close>.
\<close>

section \<open>Call data\<close>

lemma js_slice_last:
  "int n \<le> int (length s) \<Longrightarrow> 0 < n \<Longrightarrow> int (length s) \<le> b \<Longrightarrow>
     js_slice (- int n) b s = drop (length s - n) s"
  by (simp add: js_slice_def Let_def nat_diff_distrib' max_def min_def of_nat_diff)

lemma hexToParam_eq:
  "hexToParam h = drop (length (drop 2 h)) (replicate 64 (CHR ''0'') @ drop 2 h)"
proof -
  have *: "js_slice 2 (int (length h)) h = drop 2 h"
    by (cases "2 \<le> length h") (auto simp: js_slice_def Let_def min_def nat_diff_distrib')
  show ?thesis
    unfolding hexToParam_def * using js_slice_last [of 64 "replicate 64 (CHR ''0'') @ drop 2 h"]
    by simp
qed

lemma length_hexToParam [simp]: "length (hexToParam h) = 64"
  by (simp add: hexToParam_eq)

lemma formatParam_length: "formatParam hex v = Inr w \<Longrightarrow> length w = 64"
  by (auto simp: formatParam_def bind_res_eq_Inr split: val.splits)

lemma parse_hex_zeros: "parse_hex acc (replicate k (CHR ''0'') @ s) = parse_hex (16 ^ k * acc) s"
  by (induction k arbitrary: acc) (simp_all add: hex_digit_def ac_simps)

text \<open>A hexadecimal number of at most 64 digits keeps its value.\<close>

lemma hexToParam_value:
  assumes "length s \<le> 64"
  shows "parse_hex 0 (hexToParam (''0x'' @ s)) = parse_hex 0 s"
  using assms parse_hex_zeros [of 0 "64 - length s" s] by (simp add: hexToParam_eq)

section \<open>Where a forwarded call goes\<close>

lemma forwarded_name:
  "map_of (routes_of c) name = Some (Forward signature) \<Longrightarrow> function_name signature = name"
  by (cases c)
     (auto simp: function_name_def BorrowerOperationsProxy_routes_def BorrowerWrappersProxy_routes_def
        TroveManagerProxy_routes_def StabilityPoolProxy_routes_def SortedTrovesProxy_routes_def
        TokenProxy_routes_def LQTYStakingProxy_routes_def split: if_splits)

lemma truthy_from:
  assumes "map_of opts ''from'' = Some (Str user)" and "user \<noteq> []"
  shows "getFrom p (args @ [Obj opts]) = Inr (Str user)"
    and "getSlicedParams (args @ [Obj opts]) = Inr args"
  using assms by (simp_all add: getFrom_def getSlicedParams_def)

text \<open>C38: a method that a proxy class forwards, called with arguments and an options object that names
  the sender, executes the script contract on the sender's own \<open>DSProxy\<close> when the sender has one, with
  call data made of the selector of the signature and one 64-digit word per argument, and with the
  options unchanged; a sender without a \<open>DSProxy\<close> calls the method of the same name of the underlying
  contract with the same parameters.\<close>

theorem proxy_forwarding:
  assumes "map_of (routes_of c) name = Some (Forward signature)"
    and "map_of opts ''from'' = Some (Str user)" and "user \<noteq> []"
    and "map_res (formatParam (toHex h)) args = Inr words"
  shows "call_method ch h (Proxied c p (Some i)) name (args @ [Obj opts]) =
       (case map_of (proxies p) user of
          None \<Rightarrow> call_method ch h i name (args @ [Obj opts])
        | Some dsProxy \<Rightarrow> callM ch dsProxy ''execute(address,bytes)''
            [scriptAddress p, Str (js_slice 0 10 (sha3 h signature) @ concat words), Obj opts] [])
     \<and> length words = length args \<and> (\<forall>w \<in> set words. length w = 64)"
proof -
  have "\<forall>w \<in> set words. length w = 64"
    using map_res_length [OF assms(4)] formatParam_length [OF map_res_nth [OF assms(4)]]
    by (auto simp: in_set_conv_nth)
  then show ?thesis
    using assms forwarded_name [OF assms(1)] truthy_from [OF assms(2,3)] map_res_length [OF assms(4)]
    by (simp add: forwardFunction_def getProxyFromParams_def getTransactionData_def getOptionalParams_def
        split: option.splits)
qed

definition example_hashing :: hashing where
  "example_hashing = \<lparr>sha3 = (\<lambda>s. ''0xe2bbb158e2bb''), toHex = (\<lambda>v. Inr ''0xabc'')\<rparr>"

theorem proxy_forwarding_witness:
  "(\<lambda>ch :: unit chain. call_method ch example_hashing
       (Proxied LQTYStakingProxy \<lparr>owner = Str ''o'', proxies = [(''alice'', ''ds1'')], scriptAddress = Str ''s''\<rparr>
         (Some (Plain ''staking''))) ''stake'' ([BN 2748] @ [Obj [(''from'', Str ''alice'')]])) =
   (\<lambda>ch. callM ch ''ds1'' ''execute(address,bytes)''
       [Str ''s'', Str (''0xe2bbb158'' @ replicate 61 (CHR ''0'') @ ''abc''), Obj [(''from'', Str ''alice'')]] [])"
proof (rule ext)
  fix ch :: "unit chain"
  have "map_res (formatParam (toHex example_hashing)) [BN 2748] =
      Inr [replicate 61 (CHR ''0'') @ ''abc'']"
    by (simp add: formatParam_def example_hashing_def hexToParam_eq eval_nat_numeral)
  from proxy_forwarding [OF _ _ _ this, of LQTYStakingProxy "''stake''" "''stake(uint256)''"
      "[(''from'', Str ''alice'')]" "''alice''" ch
      "\<lparr>owner = Str ''o'', proxies = [(''alice'', ''ds1'')], scriptAddress = Str ''s''\<rparr>"
      "Plain ''staking''"]
  show "call_method ch example_hashing
       (Proxied LQTYStakingProxy \<lparr>owner = Str ''o'', proxies = [(''alice'', ''ds1'')], scriptAddress = Str ''s''\<rparr>
         (Some (Plain ''staking''))) ''stake'' ([BN 2748] @ [Obj [(''from'', Str ''alice'')]]) =
     callM ch ''ds1'' ''execute(address,bytes)''
       [Str ''s'', Str (''0xe2bbb158'' @ replicate 61 (CHR ''0'') @ ''abc''), Obj [(''from'', Str ''alice'')]] []"
    by (simp add: LQTYStakingProxy_routes_def example_hashing_def js_slice_def)
qed

section \<open>Signatures\<close>

text \<open>The functions that the script contracts declare, in the canonical form of their signatures;
  \<open>BorrowerWrappersScript\<close> inherits from three other scripts.\<close>

definition BorrowerOperationsScript :: "string list" where
  "BorrowerOperationsScript =
    [''openTrove(uint256,uint256,address,address,bool)'', ''addColl(uint256,address,address)'',
     ''withdrawColl(uint256,address,address)'', ''withdrawLUSD(uint256,address,address)'',
     ''repayLUSD(uint256,address,address)'', ''closeTrove()'',
     ''adjustTrove(uint256,uint256,uint256,bool,bool,address,address)'', ''claimCollateral()'']"

definition BorrowerWrappersScript :: "string list" where
  "BorrowerWrappersScript =
    [''claimCollateralAndOpenTrove(uint256,address,address,bool)'',
     ''claimSPRewardsAndRecycle(address,address)'', ''claimStakingGainsAndRecycle(address,address)'']"

definition ETHTransferScript :: "string list" where
  "ETHTransferScript = [''transferETH(address,uint256)'']"

definition TroveManagerScript :: "string list" where
  "TroveManagerScript =
    [''redeemCollateral(uint256,address,address,address,address,address,uint256,uint256,uint256)'']"

definition StabilityPoolScript :: "string list" where
  "StabilityPoolScript =
    [''provideToSP(uint256,address)'', ''withdrawFromSP(uint256)'',
     ''withdrawCollateralGainToTrove(address,address)'']"

definition TokenScript :: "string list" where
  "TokenScript =
    [''transfer(address,uint256)'', ''allowance(address,address)'', ''approve(address,uint256)'',
     ''transferFrom(address,address,uint256)'', ''increaseAllowance(address,uint256)'',
     ''decreaseAllowance(address,uint256)'']"

definition LQTYStakingScript :: "string list" where
  "LQTYStakingScript = [''stake(uint256)'']"

fun script_functions :: "proxy_class \<Rightarrow> string list" where
  "script_functions BorrowerOperationsProxy = BorrowerOperationsScript"
| "script_functions BorrowerWrappersProxy =
     BorrowerWrappersScript @ BorrowerOperationsScript @ ETHTransferScript @ LQTYStakingScript"
| "script_functions TroveManagerProxy = TroveManagerScript"
| "script_functions StabilityPoolProxy = StabilityPoolScript"
| "script_functions SortedTrovesProxy = []"
| "script_functions TokenProxy = TokenScript"
| "script_functions LQTYStakingProxy = LQTYStakingScript"

definition forwarded_signatures :: "proxy_class \<Rightarrow> string list" where
  "forwarded_signatures c =
     List.map_filter (\<lambda>(name, r). case r of Forward s \<Rightarrow> Some s | Redirect ps s \<Rightarrow> Some s | _ \<Rightarrow> None)
       (routes_of c)"

text \<open>The methods of the token, stability pool and staking proxies forward signatures that their
  script contracts have; of the other proxies exactly seven forwarded methods name a function that the
  script contract does not have, so that for a user with a \<open>DSProxy\<close> they hit no function.\<close>

theorem forwarded_signatures_of_scripts:
  "map (\<lambda>c. filter (\<lambda>s. s \<notin> set (script_functions c)) (forwarded_signatures c))
     [TokenProxy, StabilityPoolProxy, LQTYStakingProxy, SortedTrovesProxy, BorrowerOperationsProxy,
      BorrowerWrappersProxy, TroveManagerProxy] =
   [[], [], [], [],
    [''openTrove(uint256,uint256,address,address)'',
     ''adjustTrove(uint256,uint256,uint256,uint256,bool,address,address)'',
     ''claimRedeemedCollateral(address)''],
    [''claimCollateralAndOpenTrove(uint256,uint256,address,address)'',
     ''claimSPRewardsAndRecycle(uint256,address,address)'',
     ''claimStakingGainsAndRecycle(uint256,address,address)''],
    [''redeemCollateral(uint256,address,address,address,uint256,uint256,uint256)'']]"
  by code_simp

end
