(* ===== verification/Deployment.thy ===== *)
theory Deployment
  imports Proxy
begin

text \<open>
  \<^verbatim>\<open>deploymentHelpers.js\<close>: deploying the contracts of the system for tests and connecting them. The
  straight-line code that creates contracts is a list of steps, and so is the code that connects them;
  the functions run these lists. An artifact is known by the name of the constant that holds it;
  \<^verbatim>\<open>Artifact.new(...)\<close>, \<open>link\<close> and \<open>setAsDeployed\<close> are calls of its methods. The module keeps two
  variables: the library that was deployed for linking, and whether it has been linked.
\<close>

section \<open>Objects and state\<close>

type_synonym contracts = "(string \<times> contract_object) list"

record 'w deploy_state =
  troveManagerLib :: "string option"
  libLinked :: bool
  helpers :: "'w helper_state"

type_synonym ('w, 'a) deploy = "('w deploy_state, 'a) io"

definition on_helpers :: "('w, 'a) th \<Rightarrow> ('w, 'a) deploy" where
  "on_helpers m = (\<lambda>s. case m (helpers s) of (r, h) \<Rightarrow> (r, s\<lparr>helpers := h\<rparr>))"

definition artifact_paths :: "(string \<times> string) list" where
  "artifact_paths =
    [(''SortedTroves'', ''./SortedTroves.sol''), (''TroveManager'', ''./TroveManager.sol''),
     (''TroveManagerLib'', ''./Dependencies/TroveManagerLib.sol''),
     (''Liquidations'', ''./Liquidations.sol''),
     (''PriceFeedTestnet'', ''./PriceFeedTestnet.sol''),
     (''PriceFeedTestnetV2'', ''./PriceFeedTestnetV2''), (''LUSDToken'', ''./LUSDToken.sol''),
     (''ActivePool'', ''./ActivePool.sol''), (''ActiveShieldedPool'', ''./ActivePool.sol''),
     (''DefaultPool'', ''./DefaultPool.sol''), (''StabilityPool'', ''./StabilityPool.sol''),
     (''GasPool'', ''./GasPool.sol''), (''CollSurplusPool'', ''./CollSurplusPool.sol''),
     (''FunctionCaller'', ''./TestContracts/FunctionCaller.sol''),
     (''Aggregator'', ''./Aggregator.sol''),
     (''BorrowerOperations'', ''./BorrowerOperations.sol''),
     (''HintHelpers'', ''./HintHelpers.sol''), (''ParControl'', ''./ParControl.sol''),
     (''RateControl'', ''./RateControl.sol''), (''Relayer'', ''./Relayer.sol''),
     (''Rewards'', ''./Rewards.sol''), (''FeeRouter'', ''./FeeRouter.sol''),
     (''LPStaking'', ''./LPStaking.sol''), (''GlobalFeeRouter'', ''./GlobalFeeRouter.sol''),
     (''MarketOracleTestnet'', ''../TestContracts/MarketOracleTestnet.sol''),
     (''LQTYStaking'', ''./LQTYStaking.sol''), (''LQTYToken'', ''./LQTYToken.sol''),
     (''LockupContractFactory'', ''./LockupContractFactory.sol''),
     (''CommunityIssuance'', ''./CommunityIssuance.sol''), (''Unipool'', ''./Unipool.sol''),
     (''LQTYTokenTester'', ''./LQTYTokenTester.sol''),
     (''CommunityIssuanceTester'', ''./CommunityIssuanceTester.sol''),
     (''StabilityPoolTester'', ''./StabilityPoolTester.sol''),
     (''ActivePoolTester'', ''./ActivePoolTester.sol''),
     (''ActiveShieldedPoolTester'', ''./ActivePoolTester.sol''),
     (''DefaultPoolTester'', ''./DefaultPoolTester.sol''),
     (''LiquityMathTester'', ''./LiquityMathTester.sol''),
     (''BorrowerOperationsTester'', ''./BorrowerOperationsTester.sol''),
     (''LiquidationsTester'', ''./LiquidationsTester.sol''),
     (''TroveManagerTester'', ''./TroveManagerTester.sol''),
     (''AggregatorTester'', ''./AggregatorTester.sol''),
     (''LUSDTokenTester'', ''./LUSDTokenTester.sol''),
     (''FeeRouterTester'', ''./FeeRouterTester.sol''),
     (''BorrowerOperationsScript'', ''BorrowerOperationsScript''),
     (''BorrowerWrappersScript'', ''BorrowerWrappersScript''),
     (''TroveManagerScript'', ''TroveManagerScript''),
     (''StabilityPoolScript'', ''StabilityPoolScript''), (''TokenScript'', ''TokenScript''),
     (''LQTYStakingScript'', ''LQTYStakingScript''),
     (''CollateralToken'', ''./TestContracts/CollateralToken.sol'')]"

definition new_contract :: "'w chain \<Rightarrow> string \<Rightarrow> val list \<Rightarrow> ('w, string) deploy" where
  "new_contract ch artifact args =
     bind_io (on_helpers (callM ch artifact ''new'' args [])) (\<lambda>contract.
     bind_io (getM contract ''address'') (\<lambda>address. lift_io (as_Str address)))"

section \<open>Creating contracts\<close>

datatype deploy_arg =
    Local string  \<comment> \<open>the address of a contract created before, by the name of its variable\<close>
  | Const val

datatype deploy_step =
    New string string "deploy_arg list"  \<comment> \<open>variable, artifact, constructor arguments\<close>
  | LoadLibrary                          \<comment> \<open>\<^verbatim>\<open>if (!troveManagerLib) troveManagerLib = await TroveManagerLib.new()\<close>\<close>
  | LinkLibrary "string list"            \<comment> \<open>\<^verbatim>\<open>if (!libLinked) { await A.link(troveManagerLib) ...; libLinked = true }\<close>\<close>

type_synonym locals = "(string \<times> string) list"

fun deploy_value :: "locals \<Rightarrow> deploy_arg \<Rightarrow> val res" where
  "deploy_value env (Const v) = Inr v"
| "deploy_value env (Local x) =
     (case map_of env x of
        None \<Rightarrow> Inl (ReferenceError (x @ '' is not defined''))
      | Some a \<Rightarrow> Inr (Str a))"

fun run_step :: "'w chain \<Rightarrow> locals \<Rightarrow> deploy_step \<Rightarrow> ('w, locals) deploy" where
  "run_step ch env (New x artifact args) =
     bind_io (lift_io (map_res (deploy_value env) args)) (\<lambda>vs.
     bind_io (new_contract ch artifact vs) (\<lambda>a. return_io (env @ [(x, a)])))"
| "run_step ch env LoadLibrary =
     bind_io get_io (\<lambda>s.
       if troveManagerLib s = None then
         bind_io (new_contract ch ''TroveManagerLib'' []) (\<lambda>a.
         bind_io (modify_io (\<lambda>s. s\<lparr>troveManagerLib := Some a\<rparr>)) (\<lambda>_. return_io env))
       else return_io env)"
| "run_step ch env (LinkLibrary artifacts) =
     bind_io get_io (\<lambda>s.
       if \<not> libLinked s then
         (let lib = (case troveManagerLib s of None \<Rightarrow> Undefined | Some a \<Rightarrow> Str a) in
          bind_io (forM_io artifacts (\<lambda>a.
            bind_io (on_helpers (callM ch a ''link'' [lib] [])) (\<lambda>_. return_io ()))) (\<lambda>_.
          bind_io (modify_io (\<lambda>s. s\<lparr>libLinked := True\<rparr>)) (\<lambda>_. return_io env)))
       else return_io env)"

definition run_steps :: "'w chain \<Rightarrow> deploy_step list \<Rightarrow> ('w, locals) deploy" where
  "run_steps ch steps = foldM_io (run_step ch) [] steps"

text \<open>The constant under a name, in an object literal \<^verbatim>\<open>{ a, b, ... }\<close> and for \<open>setAsDeployed\<close>.\<close>

definition local_address :: "locals \<Rightarrow> string \<Rightarrow> string res" where
  "local_address env x =
     (case map_of env x of None \<Rightarrow> Inl (ReferenceError (x @ '' is not defined'')) | Some a \<Rightarrow> Inr a)"

definition collect :: "locals \<Rightarrow> string list \<Rightarrow> contracts res" where
  "collect env xs = map_res (\<lambda>x. bind_res (local_address env x) (\<lambda>a. Inr (x, Plain a))) xs"

definition set_as_deployed ::
  "'w chain \<Rightarrow> locals \<Rightarrow> (string \<times> string) list \<Rightarrow> ('w, unit) deploy" where
  "set_as_deployed ch env pairs =
     forM_io pairs (\<lambda>(artifact, x).
       bind_io (lift_io (local_address env x)) (\<lambda>a.
       bind_io (on_helpers (callM ch artifact ''setAsDeployed'' [Str a] [])) (\<lambda>_. return_io ())))"

definition core_steps :: "deploy_step list" where
  "core_steps =
    [New ''collateralToken'' ''CollateralToken'' [Const (Str ''Hardhat Collateral Token''),
        Const (Str ''HCT'')],
     New ''priceFeedTestnet'' ''PriceFeedTestnetV2'' [],
     New ''aggregator'' ''Aggregator'' [],
     New ''sortedTroves'' ''SortedTroves'' [],
     New ''sortedShieldedTroves'' ''SortedTroves'' [],
     LoadLibrary,
     LinkLibrary [''TroveManager''],
     New ''troveManager'' ''TroveManager'' [],
     New ''rewards'' ''Rewards'' [],
     New ''feeRouter'' ''FeeRouter'' [],
     New ''lpStaking'' ''LPStaking'' [],
     New ''globalFeeRouter'' ''GlobalFeeRouter'' [],
     New ''liquidations'' ''Liquidations'' [],
     New ''activePool'' ''ActivePool'' [],
     New ''activeShieldedPool'' ''ActiveShieldedPool'' [],
     New ''stabilityPool'' ''StabilityPool'' [],
     New ''gasPool'' ''GasPool'' [],
     New ''defaultPool'' ''DefaultPool'' [],
     New ''collSurplusPool'' ''CollSurplusPool'' [],
     New ''functionCaller'' ''FunctionCaller'' [],
     New ''borrowerOperations'' ''BorrowerOperations'' [],
     New ''hintHelpers'' ''HintHelpers'' [],
     New ''lusdToken'' ''LUSDToken'' [Local ''troveManager'', Local ''liquidations'',
        Local ''stabilityPool'', Local ''borrowerOperations'', Local ''globalFeeRouter''],
     New ''relayer'' ''Relayer'' [],
     New ''marketOracleTestnet'' ''MarketOracleTestnet'' [],
     New ''parControl'' ''ParControl'' [],
     New ''rateControl'' ''RateControl'' []]"

definition core_set_as_deployed :: "(string \<times> string) list" where
  "core_set_as_deployed =
    [(''CollateralToken'', ''collateralToken''), (''LUSDToken'', ''lusdToken''),
     (''DefaultPool'', ''defaultPool''), (''PriceFeedTestnetV2'', ''priceFeedTestnet''),
     (''SortedTroves'', ''sortedTroves''), (''SortedTroves'', ''sortedShieldedTroves''),
     (''Aggregator'', ''aggregator''), (''TroveManager'', ''troveManager''),
     (''Rewards'', ''rewards''), (''FeeRouter'', ''feeRouter''), (''LPStaking'', ''lpStaking''),
     (''GlobalFeeRouter'', ''globalFeeRouter''), (''Liquidations'', ''liquidations''),
     (''ActivePool'', ''activePool''), (''ActiveShieldedPool'', ''activeShieldedPool''),
     (''StabilityPool'', ''stabilityPool''), (''GasPool'', ''gasPool''),
     (''CollSurplusPool'', ''collSurplusPool''), (''FunctionCaller'', ''functionCaller''),
     (''BorrowerOperations'', ''borrowerOperations''), (''HintHelpers'', ''hintHelpers''),
     (''Relayer'', ''relayer''), (''MarketOracleTestnet'', ''marketOracleTestnet''),
     (''ParControl'', ''parControl''), (''RateControl'', ''rateControl'')]"

definition core_names :: "string list" where
  "core_names =
    [''priceFeedTestnet'', ''lusdToken'', ''sortedTroves'', ''sortedShieldedTroves'',
     ''aggregator'', ''troveManager'', ''rewards'', ''feeRouter'', ''lpStaking'',
     ''globalFeeRouter'', ''liquidations'', ''activePool'', ''activeShieldedPool'',
     ''stabilityPool'', ''gasPool'', ''defaultPool'', ''collSurplusPool'', ''functionCaller'',
     ''borrowerOperations'', ''hintHelpers'', ''relayer'', ''marketOracleTestnet'', ''parControl'',
     ''rateControl'', ''collateralToken'']"

definition deployLiquityCoreHardhat :: "'w chain \<Rightarrow> ('w, contracts) deploy" where
  "deployLiquityCoreHardhat ch =
     bind_io (run_steps ch core_steps) (\<lambda>env.
     bind_io (set_as_deployed ch env core_set_as_deployed) (\<lambda>_.
     lift_io (collect env core_names)))"

definition tester_steps :: "deploy_step list" where
  "tester_steps =
    [New ''collateralToken'' ''CollateralToken'' [Const (Str ''Test Collateral Token''),
        Const (Str ''TCT'')],
     New ''priceFeedTestnet'' ''PriceFeedTestnetV2'' [],
     New ''sortedTroves'' ''SortedTroves'' [],
     New ''sortedShieldedTroves'' ''SortedTroves'' [],
     New ''rewards'' ''Rewards'' [],
     New ''aggregator'' ''AggregatorTester'' [],
     New ''communityIssuance'' ''CommunityIssuanceTester'' [],
     New ''activePool'' ''ActivePoolTester'' [],
     New ''activeShieldedPool'' ''ActivePoolTester'' [],
     New ''defaultPool'' ''DefaultPoolTester'' [],
     New ''stabilityPool'' ''StabilityPoolTester'' [],
     New ''gasPool'' ''GasPool'' [],
     New ''collSurplusPool'' ''CollSurplusPool'' [],
     New ''math'' ''LiquityMathTester'' [],
     New ''borrowerOperations'' ''BorrowerOperationsTester'' [],
     LoadLibrary,
     LinkLibrary [''TroveManager'', ''TroveManagerTester''],
     New ''troveManager'' ''TroveManagerTester'' [],
     New ''feeRouter'' ''FeeRouter'' [],
     New ''globalFeeRouter'' ''GlobalFeeRouter'' [],
     New ''lpStaking'' ''LPStaking'' [],
     New ''liquidations'' ''LiquidationsTester'' [],
     New ''functionCaller'' ''FunctionCaller'' [],
     New ''hintHelpers'' ''HintHelpers'' [],
     New ''lusdToken'' ''LUSDTokenTester'' [Local ''troveManager'', Local ''liquidations'',
        Local ''stabilityPool'', Local ''borrowerOperations'', Local ''globalFeeRouter''],
     New ''relayer'' ''Relayer'' [],
     New ''marketOracleTestnet'' ''MarketOracleTestnet'' [],
     New ''rateControl'' ''RateControl'' [],
     New ''parControl'' ''ParControl'' []]"

definition deployTesterContractsHardhat :: "'w chain \<Rightarrow> ('w, contracts) deploy" where
  "deployTesterContractsHardhat ch =
     bind_io (run_steps ch tester_steps) (\<lambda>env. return_io (map (\<lambda>(x, a). (x, Plain a)) env))"

definition lqty_names :: "string list" where
  "lqty_names = [''lqtyStaking'', ''lockupContractFactory'', ''communityIssuance'', ''lqtyToken'']"

text \<open>The first three contracts are registered before the token is created.\<close>

definition lqty_steps :: "string \<Rightarrow> deploy_step list" where
  "lqty_steps issuanceArtifact =
    [New ''lqtyStaking'' ''LQTYStaking'' [],
     New ''lockupContractFactory'' ''LockupContractFactory'' [],
     New ''communityIssuance'' issuanceArtifact []]"

definition deploy_lqty ::
  "'w chain \<Rightarrow> string \<Rightarrow> string \<Rightarrow> val \<Rightarrow> val \<Rightarrow> val \<Rightarrow> ('w, contracts) deploy" where
  "deploy_lqty ch issuanceArtifact tokenArtifact bountyAddress lpRewardsAddress multisigAddress =
     bind_io (run_steps ch (lqty_steps issuanceArtifact)) (\<lambda>env.
     bind_io (set_as_deployed ch env
       [(''LQTYStaking'', ''lqtyStaking''), (''LockupContractFactory'', ''lockupContractFactory''),
        (issuanceArtifact, ''communityIssuance'')]) (\<lambda>_.
     bind_io (run_step ch env (New ''lqtyToken'' tokenArtifact
       [Local ''communityIssuance'', Local ''lqtyStaking'', Local ''lockupContractFactory'',
        Const bountyAddress, Const lpRewardsAddress, Const multisigAddress])) (\<lambda>env.
     bind_io (set_as_deployed ch env [(tokenArtifact, ''lqtyToken'')]) (\<lambda>_.
     lift_io (collect env lqty_names)))))"

definition deployLQTYContractsHardhat ::
  "'w chain \<Rightarrow> val \<Rightarrow> val \<Rightarrow> val \<Rightarrow> ('w, contracts) deploy" where
  "deployLQTYContractsHardhat ch = deploy_lqty ch ''CommunityIssuance'' ''LQTYToken''"

definition deployLQTYTesterContractsHardhat ::
  "'w chain \<Rightarrow> val \<Rightarrow> val \<Rightarrow> val \<Rightarrow> ('w, contracts) deploy" where
  "deployLQTYTesterContractsHardhat ch = deploy_lqty ch ''CommunityIssuanceTester'' ''LQTYTokenTester''"

text \<open>The constructor arguments of the token refer to a variable \<open>contracts\<close> that does not exist.\<close>

definition truffle_steps :: "deploy_step list" where
  "truffle_steps =
    [New ''priceFeedTestnet'' ''PriceFeedTestnetV2'' [],
     New ''sortedTroves'' ''SortedTroves'' [],
     New ''sortedShieldedTroves'' ''SortedTroves'' [],
     New ''aggregator'' ''Aggregator'' [],
     New ''troveManager'' ''TroveManager'' [],
     New ''liquidations'' ''Liquidations'' [],
     New ''activePool'' ''ActivePool'' [],
     New ''activeShieldedPool'' ''ActiveShieldedPool'' [],
     New ''stabilityPool'' ''StabilityPool'' [],
     New ''gasPool'' ''GasPool'' [],
     New ''defaultPool'' ''DefaultPool'' [],
     New ''collSurplusPool'' ''CollSurplusPool'' [],
     New ''functionCaller'' ''FunctionCaller'' [],
     New ''borrowerOperations'' ''BorrowerOperations'' [],
     New ''hintHelpers'' ''HintHelpers'' []]"

definition deployLiquityCoreTruffle :: "'w chain \<Rightarrow> ('w, contracts) deploy" where
  "deployLiquityCoreTruffle ch =
     bind_io (run_steps ch truffle_steps) (\<lambda>env.
     bind_io (lift_io (local_address env ''troveManager'')) (\<lambda>_.
     throw_io (ReferenceError ''contracts is not defined'')))"

text \<open>\<^verbatim>\<open>const lqtyStaking = await lqtyStaking.new()\<close> reads the constant before it is initialised.\<close>

definition deployLQTYContractsTruffle ::
  "'w chain \<Rightarrow> val \<Rightarrow> val \<Rightarrow> val \<Rightarrow> ('w, contracts) deploy" where
  "deployLQTYContractsTruffle ch bountyAddress lpRewardsAddress multisigAddress =
     throw_io (ReferenceError ''Cannot access lqtyStaking before initialization'')"

text \<open>The framework is told by \<^verbatim>\<open>process.argv[1]\<close>; under any other the result is \<open>undefined\<close>.\<close>

definition deployLiquityCore :: "'w chain \<Rightarrow> string \<Rightarrow> ('w, contracts option) deploy" where
  "deployLiquityCore ch frameworkPath =
     (if string_includes frameworkPath ''hardhat'' then
        bind_io (deployLiquityCoreHardhat ch) (\<lambda>cs. return_io (Some cs))
      else if string_includes frameworkPath ''truffle'' then
        bind_io (deployLiquityCoreTruffle ch) (\<lambda>cs. return_io (Some cs))
      else return_io None)"

definition deployLQTYContracts ::
  "'w chain \<Rightarrow> string \<Rightarrow> val \<Rightarrow> val \<Rightarrow> val \<Rightarrow> ('w, contracts option) deploy" where
  "deployLQTYContracts ch frameworkPath bountyAddress lpRewardsAddress multisigAddress =
     (if string_includes frameworkPath ''hardhat'' then
        bind_io (deployLQTYContractsHardhat ch bountyAddress lpRewardsAddress multisigAddress)
          (\<lambda>cs. return_io (Some cs))
      else if string_includes frameworkPath ''truffle'' then
        bind_io (deployLQTYContractsTruffle ch bountyAddress lpRewardsAddress multisigAddress)
          (\<lambda>cs. return_io (Some cs))
      else return_io None)"

section \<open>Connecting contracts\<close>

datatype target =
    Core string  \<comment> \<open>\<^verbatim>\<open>contracts.x\<close> or \<^verbatim>\<open>coreContracts.x\<close>\<close>
  | Lqty string  \<comment> \<open>\<^verbatim>\<open>LQTYContracts.x\<close>\<close>

datatype argument = Addr target | AddrArray "target list" | Value val

type_synonym connect_step = "target \<times> string \<times> argument list"

fun property_of :: "contracts \<Rightarrow> contracts \<Rightarrow> target \<Rightarrow> contract_object option" where
  "property_of core lqty (Core x) = map_of core x"
| "property_of core lqty (Lqty x) = map_of lqty x"

definition object_at :: "contracts \<Rightarrow> contracts \<Rightarrow> string \<Rightarrow> target \<Rightarrow> contract_object res" where
  "object_at core lqty reading t =
     (case property_of core lqty t of
        None \<Rightarrow> Inl (TypeError (''Cannot read properties of undefined (reading '' @ reading @ '')''))
      | Some c \<Rightarrow> Inr c)"

definition address_at :: "contracts \<Rightarrow> contracts \<Rightarrow> target \<Rightarrow> val res" where
  "address_at core lqty t = bind_res (object_at core lqty ''address'' t) (\<lambda>c. Inr (address_of c))"

fun argument_value :: "contracts \<Rightarrow> contracts \<Rightarrow> argument \<Rightarrow> val res" where
  "argument_value core lqty (Addr t) = address_at core lqty t"
| "argument_value core lqty (AddrArray ts) = bind_res (map_res (address_at core lqty) ts) (\<lambda>vs. Inr (Arr vs))"
| "argument_value core lqty (Value v) = Inr v"

fun run_connect ::
  "'w chain \<Rightarrow> hashing \<Rightarrow> contracts \<Rightarrow> contracts \<Rightarrow> connect_step \<Rightarrow> ('w, unit) deploy" where
  "run_connect ch h core lqty (t, method, args) =
     bind_io (lift_io (object_at core lqty method t)) (\<lambda>c.
     bind_io (lift_io (map_res (argument_value core lqty) args)) (\<lambda>vs.
     bind_io (on_helpers (call_method ch h c method vs)) (\<lambda>_. return_io ())))"

definition connect_core_lists :: "connect_step list" where
  "connect_core_lists =
    [(Core ''sortedTroves'', ''setParams'', [Value maxBytes32,
        Addr (Core ''troveManager''), Addr (Core ''borrowerOperations'')]),
     (Core ''sortedShieldedTroves'', ''setParams'', [Value maxBytes32,
        Addr (Core ''troveManager''), Addr (Core ''borrowerOperations'')]),
     (Core ''functionCaller'', ''setTroveManagerAddress'', [Addr (Core ''troveManager'')]),
     (Core ''functionCaller'', ''setSortedTrovesAddress'', [Addr (Core ''sortedTroves'')]),
     (Core ''functionCaller'', ''setSortedShieldedTrovesAddress'',
        [Addr (Core ''sortedShieldedTroves'')]),
     (Core ''borrowerOperations'', ''setAddresses'', [AddrArray [Core ''troveManager'',
        Core ''rewards'', Core ''activePool'', Core ''activeShieldedPool'',
        Core ''defaultPool'', Core ''stabilityPool'', Core ''gasPool'',
        Core ''collSurplusPool'', Core ''priceFeedTestnet'', Core ''sortedTroves'',
        Core ''sortedShieldedTroves'', Core ''lusdToken'', Core ''relayer'',
        Core ''collateralToken'']]),
     (Core ''activePool'', ''setAddresses'', [Addr (Core ''liquidations''),
        Addr (Core ''rewards''), Addr (Core ''borrowerOperations''),
        Addr (Core ''troveManager''), Addr (Core ''stabilityPool''),
        Addr (Core ''defaultPool''), Addr (Core ''collSurplusPool''),
        Addr (Core ''collateralToken'')]),
     (Core ''activeShieldedPool'', ''setAddresses'', [Addr (Core ''liquidations''),
        Addr (Core ''rewards''), Addr (Core ''borrowerOperations''),
        Addr (Core ''troveManager''), Addr (Core ''stabilityPool''),
        Addr (Core ''defaultPool''), Addr (Core ''collSurplusPool''),
        Addr (Core ''collateralToken'')]),
     (Core ''troveManager'', ''setAddresses'', [AddrArray [Core ''aggregator'',
        Core ''liquidations'', Core ''borrowerOperations'', Core ''activePool'',
        Core ''activeShieldedPool'', Core ''defaultPool'', Core ''stabilityPool'',
        Core ''gasPool'', Core ''collSurplusPool'', Core ''priceFeedTestnet'',
        Core ''lusdToken'', Core ''sortedTroves'', Core ''sortedShieldedTroves'',
        Lqty ''lqtyToken'', Lqty ''lqtyStaking'', Core ''relayer'',
        Core ''collateralToken'', Core ''rewards'', Core ''feeRouter'',
        Core ''globalFeeRouter'']])]"

definition connect_core_rest :: "connect_step list" where
  "connect_core_rest =
    [(Core ''rewards'', ''setAddresses'', [Addr (Core ''troveManager''),
        Addr (Core ''liquidations''), Addr (Core ''borrowerOperations''),
        Addr (Core ''activePool''), Addr (Core ''activeShieldedPool''),
        Addr (Core ''defaultPool'')]),
     (Core ''feeRouter'', ''setAddresses'', [Addr (Core ''troveManager''),
        Addr (Core ''stabilityPool''), Addr (Core ''lusdToken''),
        Addr (Core ''globalFeeRouter'')]),
     (Core ''aggregator'', ''setAddresses'', [Addr (Core ''troveManager''),
        Addr (Core ''lusdToken''), Addr (Core ''relayer'')]),
     (Core ''globalFeeRouter'', ''setAddresses'', [Addr (Core ''aggregator''),
        Addr (Core ''lpStaking''), Addr (Lqty ''lqtyStaking''),
        Addr (Core ''marketOracleTestnet''), Addr (Core ''lusdToken'')]),
     (Core ''liquidations'', ''setAddresses'', [Addr (Core ''troveManager''),
        Addr (Core ''rewards''), Addr (Core ''borrowerOperations''),
        Addr (Core ''activePool''), Addr (Core ''activeShieldedPool''),
        Addr (Core ''defaultPool''), Addr (Core ''stabilityPool''), Addr (Core ''gasPool''),
        Addr (Core ''collSurplusPool''), Addr (Core ''priceFeedTestnet''),
        Addr (Core ''lusdToken''), Addr (Core ''sortedTroves''),
        Addr (Core ''sortedShieldedTroves''), Addr (Core ''relayer'')]),
     (Core ''stabilityPool'', ''setAddresses'', [Addr (Core ''borrowerOperations''),
        Addr (Core ''liquidations''), Addr (Core ''troveManager''),
        Addr (Core ''activePool''), Addr (Core ''activeShieldedPool''),
        Addr (Core ''lusdToken''), Addr (Core ''sortedTroves''),
        Addr (Core ''sortedShieldedTroves''), Addr (Core ''priceFeedTestnet''),
        Addr (Lqty ''communityIssuance''), Addr (Core ''collateralToken''),
        Addr (Core ''feeRouter'')]),
     (Core ''defaultPool'', ''setAddresses'', [Addr (Core ''liquidations''),
        Addr (Core ''rewards''), Addr (Core ''troveManager''), Addr (Core ''activePool''),
        Addr (Core ''activeShieldedPool''), Addr (Core ''collateralToken'')]),
     (Core ''collSurplusPool'', ''setAddresses'', [Addr (Core ''borrowerOperations''),
        Addr (Core ''liquidations''), Addr (Core ''troveManager''),
        Addr (Core ''activePool''), Addr (Core ''activeShieldedPool''),
        Addr (Core ''collateralToken'')]),
     (Core ''hintHelpers'', ''setAddresses'', [Addr (Core ''sortedTroves''),
        Addr (Core ''sortedShieldedTroves''), Addr (Core ''troveManager''),
        Addr (Core ''rewards''), Addr (Core ''relayer''), Addr (Core ''aggregator''),
        Addr (Core ''lusdToken'')]),
     (Core ''relayer'', ''setAddresses'', [Addr (Core ''parControl''),
        Addr (Core ''rateControl''), Addr (Core ''marketOracleTestnet''),
        Addr (Core ''troveManager''), Addr (Core ''borrowerOperations'')]),
     (Core ''parControl'', ''setAddresses'', [Addr (Core ''relayer'')]),
     (Core ''rateControl'', ''setAddresses'', [Addr (Core ''relayer'')])]"

definition connectCoreContracts ::
  "'w chain \<Rightarrow> hashing \<Rightarrow> contracts \<Rightarrow> contracts \<Rightarrow> ('w, unit) deploy" where
  "connectCoreContracts ch h contracts LQTYContracts =
     forM_io (connect_core_lists @ connect_core_rest) (run_connect ch h contracts LQTYContracts)"

definition connect_lqty_steps :: "connect_step list" where
  "connect_lqty_steps =
    [(Lqty ''lockupContractFactory'', ''setLQTYTokenAddress'', [Addr (Lqty ''lqtyToken'')])]"

definition connectLQTYContracts :: "'w chain \<Rightarrow> hashing \<Rightarrow> contracts \<Rightarrow> ('w, unit) deploy" where
  "connectLQTYContracts ch h LQTYContracts =
     forM_io connect_lqty_steps (run_connect ch h [] LQTYContracts)"

definition connect_lqty_core_steps :: "connect_step list" where
  "connect_lqty_core_steps =
    [(Lqty ''lqtyStaking'', ''setAddresses'', [Addr (Lqty ''lqtyToken''),
        Addr (Core ''lusdToken''), Addr (Core ''troveManager''),
        Addr (Core ''borrowerOperations''), Addr (Core ''activePool''),
        Addr (Core ''globalFeeRouter''), Addr (Core ''collateralToken'')]),
     (Lqty ''communityIssuance'', ''setAddresses'', [Addr (Lqty ''lqtyToken''),
        Addr (Core ''stabilityPool'')])]"

definition connectLQTYContractsToCore ::
  "'w chain \<Rightarrow> hashing \<Rightarrow> contracts \<Rightarrow> contracts \<Rightarrow> ('w, unit) deploy" where
  "connectLQTYContractsToCore ch h LQTYContracts coreContracts =
     forM_io connect_lqty_core_steps (run_connect ch h coreContracts LQTYContracts)"

definition connectUnipool ::
  "'w chain \<Rightarrow> hashing \<Rightarrow> contract_object \<Rightarrow> contracts \<Rightarrow> val \<Rightarrow> val \<Rightarrow> ('w, unit) deploy" where
  "connectUnipool ch h uniPool LQTYContracts uniswapPairAddr duration =
     bind_io (lift_io (address_at [] LQTYContracts (Lqty ''lqtyToken''))) (\<lambda>token.
     bind_io (on_helpers (call_method ch h uniPool ''setParams'' [token, uniswapPairAddr, duration])) (\<lambda>_.
     return_io ()))"

section \<open>Replacing contracts\<close>

definition deploy_lusd :: "'w chain \<Rightarrow> string \<Rightarrow> contracts \<Rightarrow> ('w, contracts) deploy" where
  "deploy_lusd ch artifact contracts =
     bind_io (lift_io (map_res (\<lambda>x. address_at contracts [] (Core x))
       [''troveManager'', ''liquidations'', ''stabilityPool'', ''borrowerOperations'',
        ''globalFeeRouter''])) (\<lambda>vs.
     bind_io (new_contract ch artifact vs) (\<lambda>a.
     return_io (AList.update ''lusdToken'' (Plain a) contracts)))"

definition deployLUSDToken :: "'w chain \<Rightarrow> contracts \<Rightarrow> ('w, contracts) deploy" where
  "deployLUSDToken ch contracts = deploy_lusd ch ''LUSDToken'' contracts"

definition deployLUSDTokenTester :: "'w chain \<Rightarrow> contracts \<Rightarrow> ('w, contracts) deploy" where
  "deployLUSDTokenTester ch contracts = deploy_lusd ch ''LUSDTokenTester'' contracts"

text \<open>A script around the contract under a name, and the proxy object that takes its place.\<close>

definition with_script ::
  "'w chain \<Rightarrow> val \<Rightarrow> proxy_map \<Rightarrow> string \<Rightarrow> proxy_class \<Rightarrow> string \<Rightarrow> contracts \<Rightarrow> ('w, contracts) deploy" where
  "with_script ch own ps script c x cs =
     bind_io (lift_io (object_at cs [] ''address'' (Core x))) (\<lambda>contract.
     bind_io (new_contract ch script [address_of contract]) (\<lambda>a.
     return_io (AList.update x
       (Proxied c \<lparr>owner = own, proxies = ps, scriptAddress = Str a\<rparr> (Some contract)) cs)))"

definition sorted_proxy :: "val \<Rightarrow> proxy_map \<Rightarrow> string \<Rightarrow> contracts \<Rightarrow> contracts" where
  "sorted_proxy own ps x cs =
     AList.update x (Proxied SortedTrovesProxy \<lparr>owner = own, proxies = ps, scriptAddress = Undefined\<rparr>
       (map_of cs x)) cs"

definition deployProxyScripts ::
  "'w chain \<Rightarrow> contracts \<Rightarrow> contracts \<Rightarrow> val \<Rightarrow> string list \<Rightarrow> ('w, contracts \<times> contracts) deploy" where
  "deployProxyScripts ch contracts LQTYContracts own users =
     bind_io (on_helpers (buildUserProxies ch users)) (\<lambda>ps.
     bind_io (lift_io (map_res (address_at contracts LQTYContracts)
       [Core ''collateralToken'', Core ''borrowerOperations'', Core ''troveManager'',
        Lqty ''lqtyStaking'', Core ''relayer''])) (\<lambda>vs.
     bind_io (new_contract ch ''BorrowerWrappersScript'' vs) (\<lambda>wrappers.
     let contracts = AList.update ''borrowerWrappers''
           (Proxied BorrowerWrappersProxy \<lparr>owner = own, proxies = ps, scriptAddress = Str wrappers\<rparr> None)
           contracts in
     bind_io (with_script ch own ps ''BorrowerOperationsScript'' BorrowerOperationsProxy
       ''borrowerOperations'' contracts) (\<lambda>contracts.
     bind_io (with_script ch own ps ''TroveManagerScript'' TroveManagerProxy ''troveManager'' contracts)
       (\<lambda>contracts.
     bind_io (with_script ch own ps ''StabilityPoolScript'' StabilityPoolProxy ''stabilityPool'' contracts)
       (\<lambda>contracts.
     let contracts = sorted_proxy own ps ''sortedShieldedTroves''
           (sorted_proxy own ps ''sortedTroves'' contracts) in
     bind_io (with_script ch own ps ''TokenScript'' TokenProxy ''lusdToken'' contracts) (\<lambda>contracts.
     bind_io (with_script ch own ps ''TokenScript'' TokenProxy ''lqtyToken'' LQTYContracts)
       (\<lambda>LQTYContracts.
     bind_io (with_script ch own ps ''LQTYStakingScript'' LQTYStakingProxy ''lqtyStaking'' LQTYContracts)
       (\<lambda>LQTYContracts.
     return_io (contracts, LQTYContracts))))))))))"

end
