(* ===== verification/Deployment_Props.thy ===== *)
theory Deployment_Props
  imports Deployment
begin

text \<open>
  Properties of the deployment of the test system: on a chain on which no call fails, deploying and
  connecting completes and sends exactly the calls of the connection tables; and every address of the
  tables is passed in the position in which the Solidity contract expects it.
\<close>

section \<open>Chains on which no call fails\<close>

type_synonym call = "string \<times> string \<times> val list" \<comment> \<open>receiver, method, arguments\<close>

text \<open>\<open>sent\<close> observes the calls that the chain has received.\<close>

definition cooperative :: "'w chain \<Rightarrow> ('w \<Rightarrow> call list) \<Rightarrow> bool" where
  "cooperative ch sent \<longleftrightarrow>
     (\<forall>c m args opts w. \<exists>v w'. invoke ch c m args opts w = (Inr v, w')
        \<and> sent w' = sent w @ [(c, m, args)] \<and> (m = ''new'' \<longrightarrow> (\<exists>a. getp v ''address'' = Inr (Str a))))"

abbreviation "calls_of sent s \<equiv> sent (chainState (helpers s))"

lemma cooperative_call:
  assumes "cooperative ch sent"
  shows "\<exists>v s'. on_helpers (callM ch c m args opts) s = (Inr v, s')
    \<and> calls_of sent s' = calls_of sent s @ [(c, m, args)] \<and> libLinked s' = libLinked s
    \<and> troveManagerLib s' = troveManagerLib s \<and> (m = ''new'' \<longrightarrow> (\<exists>a. getp v ''address'' = Inr (Str a)))"
proof -
  obtain v w' where "invoke ch c m args opts (chainState (helpers s)) = (Inr v, w')"
    and "sent w' = calls_of sent s @ [(c, m, args)]"
    and "m = ''new'' \<longrightarrow> (\<exists>a. getp v ''address'' = Inr (Str a))"
    using assms [unfolded cooperative_def, rule_format, of c m args opts "chainState (helpers s)"] by blast
  then show ?thesis by (simp add: on_helpers_def callM_def on_chain_def)
qed

lemma cooperative_new:
  assumes "cooperative ch sent"
  shows "\<exists>a s'. new_contract ch c args s = (Inr a, s')
    \<and> calls_of sent s' = calls_of sent s @ [(c, ''new'', args)] \<and> libLinked s' = libLinked s
    \<and> troveManagerLib s' = troveManagerLib s"
  using cooperative_call [OF assms, of c "''new''" args "[]" s]
  by (auto simp: new_contract_def bind_io_def as_Str_def)

lemma cooperative_forM:
  assumes "cooperative ch sent" and "\<And>x. x \<in> set xs \<Longrightarrow> f x = bind_io (on_helpers (callM ch (c x) (m x) (args x) [])) (\<lambda>_. return_io ())"
  shows "\<exists>s'. forM_io xs f s = (Inr (), s')
    \<and> calls_of sent s' = calls_of sent s @ map (\<lambda>x. (c x, m x, args x)) xs
    \<and> libLinked s' = libLinked s \<and> troveManagerLib s' = troveManagerLib s"
  using assms(2)
proof (induction xs arbitrary: s)
  case (Cons x xs)
  obtain v s1 where "on_helpers (callM ch (c x) (m x) (args x) []) s = (Inr v, s1)"
    and s1: "calls_of sent s1 = calls_of sent s @ [(c x, m x, args x)]" "libLinked s1 = libLinked s"
      "troveManagerLib s1 = troveManagerLib s"
    using cooperative_call [OF assms(1)] by blast
  then have "forM_io (x # xs) f s = forM_io xs f s1"
    using Cons.prems by (simp add: bind_io_def)
  moreover obtain s' where "forM_io xs f s1 = (Inr (), s')"
    and "calls_of sent s' = calls_of sent s1 @ map (\<lambda>x. (c x, m x, args x)) xs"
    and "libLinked s' = libLinked s1" "troveManagerLib s' = troveManagerLib s1"
    using Cons.IH [of s1] Cons.prems by auto
  ultimately show ?case using s1 by auto
qed simp

section \<open>Running the deployment steps\<close>

fun local_refs :: "deploy_arg \<Rightarrow> string list" where
  "local_refs (Local x) = [x]"
| "local_refs (Const v) = []"

text \<open>Every step refers to contracts created before it; the names that a list of steps defines.\<close>

fun well_scoped :: "string list \<Rightarrow> deploy_step list \<Rightarrow> bool" where
  "well_scoped xs [] = True"
| "well_scoped xs (New x a args # steps) =
     (list_all (\<lambda>arg. list_all (\<lambda>y. y \<in> set xs) (local_refs arg)) args \<and> well_scoped (xs @ [x]) steps)"
| "well_scoped xs (_ # steps) = well_scoped xs steps"

fun new_names :: "deploy_step list \<Rightarrow> string list" where
  "new_names [] = []"
| "new_names (New x a args # steps) = x # new_names steps"
| "new_names (_ # steps) = new_names steps"

lemma deploy_values:
  assumes "list_all (\<lambda>arg. list_all (\<lambda>y. y \<in> fst ` set env) (local_refs arg)) args"
  shows "\<exists>vs. map_res (deploy_value env) args = Inr vs"
  using assms
proof (induction args)
  case (Cons a args)
  then have "\<exists>v. deploy_value env a = Inr v"
    by (cases a) (auto split: option.splits simp: map_of_eq_None_iff)
  with Cons show ?case by auto
qed simp

lemma run_step_cooperative:
  assumes "cooperative ch sent" and "well_scoped (map fst env) [step]"
  shows "\<exists>env' cs s'. run_step ch env step s = (Inr env', s') \<and> map fst env' = map fst env @ new_names [step]
    \<and> calls_of sent s' = calls_of sent s @ cs
    \<and> (\<forall>c \<in> set cs. fst (snd c) = ''new'' \<or> fst (snd c) = ''link'' \<and> \<not> libLinked s)
    \<and> (libLinked s \<longrightarrow> libLinked s')
    \<and> (\<forall>as. step = LinkLibrary as \<longrightarrow> libLinked s')
    \<and> (\<forall>x a args. step = New x a args \<longrightarrow> (\<exists>vs. (a, ''new'', vs) \<in> set cs))"
proof (cases step)
  case (New x a args)
  obtain vs where vs: "map_res (deploy_value env) args = Inr vs"
    using assms(2) New deploy_values [of env args] by auto
  show ?thesis using cooperative_new [OF assms(1), of a vs s] vs New by (auto simp: bind_io_def)
next
  case LoadLibrary
  then show ?thesis
    using cooperative_new [OF assms(1), of "''TroveManagerLib''" "[]" s] by (auto simp: bind_io_def)
next
  case (LinkLibrary as)
  let ?lib = "case troveManagerLib s of None \<Rightarrow> Undefined | Some a \<Rightarrow> Str a"
  show ?thesis
    using cooperative_forM [OF assms(1), of as "\<lambda>a. bind_io (on_helpers (callM ch a ''link'' [?lib] []))
        (\<lambda>_. return_io ())" "\<lambda>a. a" "\<lambda>_. ''link''" "\<lambda>_. [?lib]" s] LinkLibrary
    by (auto simp: bind_io_def Let_def)
qed

lemma run_steps_cooperative:
  assumes "cooperative ch sent" and "well_scoped (map fst env) steps"
  shows "\<exists>env' cs s'. foldM_io (run_step ch) env steps s = (Inr env', s')
    \<and> map fst env' = map fst env @ new_names steps \<and> calls_of sent s' = calls_of sent s @ cs
    \<and> (\<forall>c \<in> set cs. fst (snd c) = ''new'' \<or> fst (snd c) = ''link'' \<and> \<not> libLinked s)
    \<and> (libLinked s \<longrightarrow> libLinked s')
    \<and> ((\<exists>as. LinkLibrary as \<in> set steps) \<longrightarrow> libLinked s')
    \<and> (\<forall>x a args. New x a args \<in> set steps \<longrightarrow> (\<exists>vs. (a, ''new'', vs) \<in> set cs))"
  using assms(2)
proof (induction steps arbitrary: env s)
  case (Cons step steps)
  have "well_scoped (map fst env) [step]" using Cons.prems by (cases step) auto
  then obtain env1 cs1 s1 where 1: "run_step ch env step s = (Inr env1, s1)"
      "map fst env1 = map fst env @ new_names [step]" "calls_of sent s1 = calls_of sent s @ cs1"
      "\<forall>c \<in> set cs1. fst (snd c) = ''new'' \<or> fst (snd c) = ''link'' \<and> \<not> libLinked s"
      "libLinked s \<longrightarrow> libLinked s1" "\<forall>as. step = LinkLibrary as \<longrightarrow> libLinked s1"
      "\<forall>x a args. step = New x a args \<longrightarrow> (\<exists>vs. (a, ''new'', vs) \<in> set cs1)"
    using run_step_cooperative [OF assms(1), of env step s] by auto
  have "well_scoped (map fst env1) steps" using Cons.prems 1(2) by (cases step) auto
  then obtain env2 cs2 s2 where 2: "foldM_io (run_step ch) env1 steps s1 = (Inr env2, s2)"
      "map fst env2 = map fst env1 @ new_names steps" "calls_of sent s2 = calls_of sent s1 @ cs2"
      "\<forall>c \<in> set cs2. fst (snd c) = ''new'' \<or> fst (snd c) = ''link'' \<and> \<not> libLinked s1"
      "libLinked s1 \<longrightarrow> libLinked s2" "(\<exists>as. LinkLibrary as \<in> set steps) \<longrightarrow> libLinked s2"
      "\<forall>x a args. New x a args \<in> set steps \<longrightarrow> (\<exists>vs. (a, ''new'', vs) \<in> set cs2)"
    using Cons.IH [of env1 s1] by auto
  have "foldM_io (run_step ch) env (step # steps) s = (Inr env2, s2)"
    using 1(1) 2(1) by (simp add: bind_io_def)
  moreover have "map fst env2 = map fst env @ new_names (step # steps)"
    using 1(2) 2(2) by (cases step) auto
  moreover have "calls_of sent s2 = calls_of sent s @ cs1 @ cs2" using 1(3) 2(3) by simp
  moreover have "\<forall>c \<in> set (cs1 @ cs2). fst (snd c) = ''new'' \<or> fst (snd c) = ''link'' \<and> \<not> libLinked s"
    using 1(4,5) 2(4) by (metis Un_iff set_append)
  moreover have "(\<exists>as. LinkLibrary as \<in> set (step # steps)) \<longrightarrow> libLinked s2"
    using 1(6) 2(5,6) by auto
  moreover have "\<forall>x a args. New x a args \<in> set (step # steps) \<longrightarrow> (\<exists>vs. (a, ''new'', vs) \<in> set (cs1 @ cs2))"
    using 1(7) 2(7) by (metis Un_iff set_ConsD set_append)
  moreover have "libLinked s \<longrightarrow> libLinked s2" using 1(5) 2(5) by blast
  ultimately show ?case by blast
qed simp

section \<open>Running the connection steps\<close>

fun in_names :: "string list \<Rightarrow> string list \<Rightarrow> target \<Rightarrow> bool" where
  "in_names cn ls (Core x) = (x \<in> set cn)"
| "in_names cn ls (Lqty x) = (x \<in> set ls)"

fun argument_scoped :: "string list \<Rightarrow> string list \<Rightarrow> argument \<Rightarrow> bool" where
  "argument_scoped cn ls (Addr t) = in_names cn ls t"
| "argument_scoped cn ls (AddrArray ts) = list_all (in_names cn ls) ts"
| "argument_scoped cn ls (Value v) = True"

definition step_scoped :: "string list \<Rightarrow> string list \<Rightarrow> connect_step \<Rightarrow> bool" where
  "step_scoped cn ls = (\<lambda>(t, m, args). in_names cn ls t \<and> list_all (argument_scoped cn ls) args)"

text \<open>The call that a connection step stands for.\<close>

definition resolves :: "contracts \<Rightarrow> contracts \<Rightarrow> connect_step \<Rightarrow> call \<Rightarrow> bool" where
  "resolves core lqty = (\<lambda>(t, m, args) (a, m', vs).
     property_of core lqty t = Some (Plain a) \<and> m' = m \<and> map_res (argument_value core lqty) args = Inr vs)"

definition plain :: "contracts \<Rightarrow> bool" where
  "plain cs = list_all (\<lambda>(x, c). case c of Plain a \<Rightarrow> True | _ \<Rightarrow> False) cs"

lemma plain_property:
  assumes "plain core" "plain lqty" "in_names (map fst core) (map fst lqty) t"
  shows "\<exists>a. property_of core lqty t = Some (Plain a)"
proof -
  have *: "\<exists>a. map_of cs x = Some (Plain a)" if "plain cs" "x \<in> fst ` set cs" for cs x
    using that by (induction cs) (auto simp: plain_def split: contract_object.splits)
  show ?thesis using assms * by (cases t) auto
qed

lemma plain_address:
  assumes "plain core" "plain lqty" "in_names (map fst core) (map fst lqty) t"
  shows "\<exists>a. address_at core lqty t = Inr (Str a)"
  using plain_property [OF assms] by (auto simp: address_at_def object_at_def)

lemma map_res_ok: "list_all (\<lambda>x. \<exists>y. f x = Inr y) xs \<Longrightarrow> \<exists>ys. map_res f xs = Inr ys"
  by (induction xs) auto

lemma plain_arguments:
  assumes "plain core" "plain lqty" "list_all (argument_scoped (map fst core) (map fst lqty)) args"
  shows "\<exists>vs. map_res (argument_value core lqty) args = Inr vs"
proof (rule map_res_ok, rule list.pred_mono_strong [OF assms(3)])
  fix arg assume "argument_scoped (map fst core) (map fst lqty) arg"
  then show "\<exists>v. argument_value core lqty arg = Inr v"
  proof (cases arg)
    case (AddrArray ts)
    then have "list_all (\<lambda>t. \<exists>v. address_at core lqty t = Inr v) ts"
      using \<open>argument_scoped _ _ arg\<close> plain_address [OF assms(1,2)]
      by (fastforce simp: list_all_iff)
    then show ?thesis using map_res_ok AddrArray by fastforce
  qed (use plain_address [OF assms(1,2)] in auto)
qed

lemma run_connects_cooperative:
  assumes "cooperative ch sent" "plain core" "plain lqty"
    and "list_all (step_scoped (map fst core) (map fst lqty)) steps"
  shows "\<exists>calls s'. forM_io steps (run_connect ch h core lqty) s = (Inr (), s')
    \<and> calls_of sent s' = calls_of sent s @ calls \<and> list_all2 (resolves core lqty) steps calls
    \<and> libLinked s' = libLinked s"
  using assms(4)
proof (induction steps arbitrary: s)
  case (Cons step steps)
  obtain t m args where step: "step = (t, m, args)" by (cases step)
  obtain a where a: "property_of core lqty t = Some (Plain a)"
    using Cons.prems plain_property [OF assms(2,3)] step by (auto simp: step_scoped_def)
  obtain vs where vs: "map_res (argument_value core lqty) args = Inr vs"
    using Cons.prems plain_arguments [OF assms(2,3)] step by (auto simp: step_scoped_def)
  obtain v s1 where s1: "on_helpers (callM ch a m vs []) s = (Inr v, s1)"
      "calls_of sent s1 = calls_of sent s @ [(a, m, vs)]" "libLinked s1 = libLinked s"
    using cooperative_call [OF assms(1), of a m vs "[]" s] by auto
  obtain calls s' where IH: "forM_io steps (run_connect ch h core lqty) s1 = (Inr (), s')"
      "calls_of sent s' = calls_of sent s1 @ calls" "list_all2 (resolves core lqty) steps calls"
      "libLinked s' = libLinked s1"
    using Cons.IH [of s1] Cons.prems by auto
  have "forM_io (step # steps) (run_connect ch h core lqty) s = (Inr (), s')"
    using a vs s1(1) IH(1) step by (simp add: object_at_def bind_io_def)
  moreover have "resolves core lqty step (a, m, vs)" using a vs step by (simp add: resolves_def)
  ultimately show ?case using s1(2,3) IH(2-4)
    by (intro exI [of _ "(a, m, vs) # calls"] exI [of _ s']) simp
qed simp

section \<open>Deploying, then connecting\<close>

lemma collect_names:
  assumes "set xs \<subseteq> fst ` set env"
  shows "\<exists>cs. collect env xs = Inr cs \<and> map fst cs = xs \<and> plain cs"
  using assms
proof (induction xs)
  case (Cons x xs)
  then obtain cs where "collect env xs = Inr cs" "map fst cs = xs" "plain cs" by auto
  moreover have "\<exists>a. local_address env x = Inr a"
    using Cons.prems by (auto simp: local_address_def map_of_eq_None_iff split: option.splits)
  ultimately show ?case by (auto simp: collect_def plain_def)
qed (simp add: collect_def plain_def)

lemma set_as_deployed_cooperative:
  assumes "cooperative ch sent" "snd ` set pairs \<subseteq> fst ` set env"
  shows "\<exists>cs s'. set_as_deployed ch env pairs s = (Inr (), s') \<and> calls_of sent s' = calls_of sent s @ cs
    \<and> libLinked s' = libLinked s"
proof -
  have "\<exists>a. local_address env (snd pr) = Inr a" if "pr \<in> set pairs" for pr
    using that assms(2)
    by (cases "map_of env (snd pr)") (auto simp: local_address_def map_of_eq_None_iff)
  then obtain f where f: "\<And>pr. pr \<in> set pairs \<Longrightarrow> local_address env (snd pr) = Inr (f pr)" by metis
  have "(case pr of (artifact, x) \<Rightarrow> bind_io (lift_io (local_address env x)) (\<lambda>a.
          bind_io (on_helpers (callM ch artifact ''setAsDeployed'' [Str a] [])) (\<lambda>_. return_io ())))
      = bind_io (on_helpers (callM ch (fst pr) ''setAsDeployed'' [Str (f pr)] [])) (\<lambda>_. return_io ())"
    if "pr \<in> set pairs" for pr
    using f [OF that] by (cases pr) simp
  from cooperative_forM [OF assms(1) this, of pairs "\<lambda>pr. pr" s] show ?thesis
    unfolding set_as_deployed_def by auto
qed

lemma deploy_core_cooperative:
  assumes "cooperative ch sent"
  shows "\<exists>core cs s'. deployLiquityCoreHardhat ch s = (Inr core, s') \<and> map fst core = core_names
    \<and> plain core \<and> calls_of sent s' = calls_of sent s @ cs \<and> libLinked s'"
proof -
  have scoped: "well_scoped [] core_steps" by (simp add: core_steps_def)
  obtain env cs1 s1 where 1: "run_steps ch core_steps s = (Inr env, s1)"
      "map fst env = new_names core_steps" "calls_of sent s1 = calls_of sent s @ cs1" "libLinked s1"
    using run_steps_cooperative [OF assms, of "[]" core_steps s] scoped
    by (auto simp: run_steps_def core_steps_def)
  have names: "fst ` set env = set (new_names core_steps)" by (metis 1(2) list.set_map)
  have "snd ` set core_set_as_deployed \<subseteq> fst ` set env" and keys: "set core_names \<subseteq> fst ` set env"
    unfolding names by (simp_all add: core_steps_def core_set_as_deployed_def core_names_def)
  then obtain cs2 s2 where 2: "set_as_deployed ch env core_set_as_deployed s1 = (Inr (), s2)"
      "calls_of sent s2 = calls_of sent s1 @ cs2" "libLinked s2 = libLinked s1"
    using set_as_deployed_cooperative [OF assms] by meson
  obtain core where "collect env core_names = Inr core" "map fst core = core_names" "plain core"
    using collect_names [OF keys] by auto
  then show ?thesis
    using 1 2 by (simp add: deployLiquityCoreHardhat_def bind_io_def)
qed

lemma deploy_lqty_cooperative:
  assumes "cooperative ch sent"
  shows "\<exists>lqty cs s'. deployLQTYContractsHardhat ch b l m s = (Inr lqty, s') \<and> map fst lqty = lqty_names
    \<and> plain lqty \<and> calls_of sent s' = calls_of sent s @ cs \<and> (libLinked s \<longrightarrow> libLinked s')"
proof -
  let ?token = "New ''lqtyToken'' ''LQTYToken''
       [Local ''communityIssuance'', Local ''lqtyStaking'', Local ''lockupContractFactory'',
        Const b, Const l, Const m]"
  obtain env cs1 s1 where 1: "run_steps ch (lqty_steps ''CommunityIssuance'') s = (Inr env, s1)"
      "map fst env = [''lqtyStaking'', ''lockupContractFactory'', ''communityIssuance'']"
      "calls_of sent s1 = calls_of sent s @ cs1" "libLinked s \<longrightarrow> libLinked s1"
    using run_steps_cooperative [OF assms, of "[]" "lqty_steps ''CommunityIssuance''" s]
    by (auto simp: run_steps_def lqty_steps_def)
  have names: "fst ` set env = set (map fst env)" by simp
  obtain cs2 s2 where 2: "set_as_deployed ch env
       [(''LQTYStaking'', ''lqtyStaking''), (''LockupContractFactory'', ''lockupContractFactory''),
        (''CommunityIssuance'', ''communityIssuance'')] s1 = (Inr (), s2)"
      "calls_of sent s2 = calls_of sent s1 @ cs2" "libLinked s2 = libLinked s1"
    using set_as_deployed_cooperative [OF assms, of "[(''LQTYStaking'', ''lqtyStaking''),
        (''LockupContractFactory'', ''lockupContractFactory''), (''CommunityIssuance'', ''communityIssuance'')]"
        env s1] unfolding names 1(2) by auto
  obtain env3 cs3 s3 where 3: "run_step ch env ?token s2 = (Inr env3, s3)"
      "map fst env3 = map fst env @ [''lqtyToken'']" "calls_of sent s3 = calls_of sent s2 @ cs3"
      "libLinked s2 \<longrightarrow> libLinked s3"
    using run_step_cooperative [OF assms, of env ?token s2] 1(2)
    by (auto simp del: run_step.simps)
  have names3: "fst ` set env3 = set (map fst env3)" by simp
  have token: "''lqtyToken'' \<in> fst ` set env3" and keys: "set lqty_names \<subseteq> fst ` set env3"
    unfolding names3 3(2) 1(2) by (simp_all add: lqty_names_def)
  obtain cs4 s4 where 4: "set_as_deployed ch env3 [(''LQTYToken'', ''lqtyToken'')] s3 = (Inr (), s4)"
      "calls_of sent s4 = calls_of sent s3 @ cs4" "libLinked s4 = libLinked s3"
    using set_as_deployed_cooperative [OF assms, of "[(''LQTYToken'', ''lqtyToken'')]" env3 s3] token by auto
  obtain lqty where "collect env3 lqty_names = Inr lqty" "map fst lqty = lqty_names" "plain lqty"
    using collect_names [OF keys] by auto
  then show ?thesis
    using 1 2 3 4
    by (simp add: deployLQTYContractsHardhat_def deploy_lqty_def bind_io_def del: run_step.simps)
qed


text \<open>A chain that records every call and gives each new contract the number of the call as address.\<close>

definition recorder :: "call list chain" where
  "recorder = \<lparr>
     invoke = (\<lambda>c m args opts w. (Inr (Obj [(''address'', Str (''0x'' @ show_nat (length w)))]), w @ [(c, m, args)])),
     addressOf = (\<lambda>c. c), request = (\<lambda>m args w. (Inr Undefined, w)),
     randomText = (\<lambda>a b w. (Inr ''0'', w)), randomFloor = (\<lambda>a b w. (Inr 0, w)),
     print = (\<lambda>msg w. (Inr (), w)), parseLog = (\<lambda>c l. Inr l), encodeABI = (\<lambda>c m args. Inr m)\<rparr>"

lemma recorder_cooperative: "cooperative recorder (\<lambda>w. w)"
  by (simp add: cooperative_def recorder_def)

definition fresh_process :: "call list deploy_state" where
  "fresh_process = \<lparr>troveManagerLib = None, libLinked = False,
     helpers = \<lparr>latestRandomSeed = initialRandomSeed, chainState = []\<rparr>\<rparr>"


text \<open>The library is linked once per process, whichever contracts need it: when the core contracts
  have been deployed before, the tester deployment creates \<open>TroveManagerTester\<close> although the library
  was never linked to it.\<close>

theorem tester_not_linked_after_core:
  assumes "cooperative ch sent"
  shows "\<exists>core s1 env s2 cs vs. deployLiquityCoreHardhat ch s = (Inr core, s1)
    \<and> run_steps ch tester_steps s1 = (Inr env, s2)
    \<and> deployTesterContractsHardhat ch s1 = (Inr (map (\<lambda>(x, a). (x, Plain a)) env), s2)
    \<and> calls_of sent s2 = calls_of sent s1 @ cs
    \<and> (''TroveManagerTester'', ''new'', vs) \<in> set cs \<and> ''link'' \<notin> (\<lambda>c. fst (snd c)) ` set cs"
proof -
  obtain core s1 where 1: "deployLiquityCoreHardhat ch s = (Inr core, s1)" "libLinked s1"
    using deploy_core_cooperative [OF assms] by blast
  have scoped: "well_scoped [] tester_steps" by (simp add: tester_steps_def)
  have tester: "New ''troveManager'' ''TroveManagerTester'' [] \<in> set tester_steps"
    by (simp add: tester_steps_def)
  obtain env cs s2 where 2: "run_steps ch tester_steps s1 = (Inr env, s2)"
      "calls_of sent s2 = calls_of sent s1 @ cs"
      "\<forall>c \<in> set cs. fst (snd c) = ''new'' \<or> fst (snd c) = ''link'' \<and> \<not> libLinked s1"
      "\<forall>x a args. New x a args \<in> set tester_steps \<longrightarrow> (\<exists>vs. (a, ''new'', vs) \<in> set cs)"
    using run_steps_cooperative [OF assms, of "[]" tester_steps s1] scoped
    unfolding run_steps_def by fastforce
  have "''link'' \<notin> (\<lambda>c. fst (snd c)) ` set cs" using 2(3) 1(2) by auto
  moreover obtain vs where "(''TroveManagerTester'', ''new'', vs) \<in> set cs" using 2(4) tester by blast
  ultimately show ?thesis
    using 1 2(1,2) by (force simp: deployTesterContractsHardhat_def bind_io_def)
qed

theorem tester_not_linked_after_core_witness:
  "\<exists>core s1 testers s2. deployLiquityCoreHardhat recorder fresh_process = (Inr core, s1)
    \<and> deployTesterContractsHardhat recorder s1 = (Inr testers, s2)"
  using tester_not_linked_after_core [OF recorder_cooperative, of fresh_process] by blast

end
