(* ===== verification/MainnetDeployment.thy ===== *)
theory MainnetDeployment
  imports Deployment
begin

text \<open>
  \<^verbatim>\<open>mainnetDeploymentHelpers.js\<close>: deploying and connecting the contracts on the main network so that an
  interrupted deployment can be resumed. The object \<open>deploymentState\<close> records what has been deployed and
  verified; it is written to the output file after every change and loaded when the script starts again.
  The network, the contract compiler's artifacts and the verification service are a record of
  parameters; a contract is known by its address.
\<close>

section \<open>State\<close>

record saved_contract =
  saved_address :: string
  txHash :: string
  verification :: "string option"

type_synonym saved_state = "(string \<times> saved_contract) list"

record 'w mainnet_state =
  outputFile :: "saved_state option"
  deploymentState :: saved_state
  world :: 'w

type_synonym ('w, 'a) mainnet = "('w mainnet_state, 'a) io"

record config =
  GAS_PRICE :: val
  TX_CONFIRMATIONS :: val
  ETHERSCAN_BASE_URL :: string

datatype verify_outcome = Verified | VerifyError string \<comment> \<open>the name of the error\<close>

record 'w network =
  getContractFactory :: "string \<Rightarrow> ('w, unit) io"
  deploy :: "string \<Rightarrow> val list \<Rightarrow> val \<Rightarrow> ('w, string \<times> string) io"
    \<comment> \<open>factory, parameters, gas price; the address and the transaction hash\<close>
  waitForTransaction :: "string \<Rightarrow> val \<Rightarrow> ('w, val) io"
  ownerOf :: "string \<Rightarrow> ('w, val) io"
  transact :: "string \<Rightarrow> string \<Rightarrow> val list \<Rightarrow> val \<Rightarrow> ('w, string) io"
    \<comment> \<open>contract, method, arguments, gas price; the transaction hash\<close>
  verify :: "string \<Rightarrow> val list \<Rightarrow> ('w, verify_outcome) io"
  log :: "string \<Rightarrow> ('w, unit) io"

definition on_world :: "('w, 'a) io \<Rightarrow> ('w, 'a) mainnet" where
  "on_world m = (\<lambda>s. case m (world s) of (r, w) \<Rightarrow> (r, s\<lparr>world := w\<rparr>))"

section \<open>Saved deployments\<close>

definition loadPreviousDeployment :: "'w network \<Rightarrow> ('w, unit) mainnet" where
  "loadPreviousDeployment net =
     bind_io get_io (\<lambda>s. case outputFile s of
       None \<Rightarrow> modify_io (\<lambda>s. s\<lparr>deploymentState := []\<rparr>)
     | Some d \<Rightarrow> bind_io (on_world (log net ''Loading previous deployment...'')) (\<lambda>_.
         modify_io (\<lambda>s. s\<lparr>deploymentState := d\<rparr>)))"

definition saveDeployment :: "('w, unit) mainnet" where
  "saveDeployment = modify_io (\<lambda>s. s\<lparr>outputFile := Some (deploymentState s)\<rparr>)"

text \<open>An entry counts when it has a non-empty address.\<close>

definition saved :: "saved_state \<Rightarrow> string \<Rightarrow> saved_contract option" where
  "saved d name = (case map_of d name of
     Some c \<Rightarrow> if saved_address c \<noteq> [] then Some c else None
   | None \<Rightarrow> None)"

section \<open>Deploying\<close>

definition getFactory :: "'w network \<Rightarrow> string \<Rightarrow> ('w, unit) mainnet" where
  "getFactory net name = on_world (getContractFactory net name)"

definition sendAndWaitForTransaction ::
  "'w network \<Rightarrow> config \<Rightarrow> ('w, string) mainnet \<Rightarrow> ('w, val) mainnet" where
  "sendAndWaitForTransaction net cfg txPromise =
     bind_io txPromise (\<lambda>hash. on_world (waitForTransaction net hash (TX_CONFIRMATIONS cfg)))"

definition loadOrDeploy ::
  "'w network \<Rightarrow> config \<Rightarrow> string \<Rightarrow> string \<Rightarrow> val list \<Rightarrow> ('w, string) mainnet" where
  "loadOrDeploy net cfg factory name params =
     bind_io get_io (\<lambda>s. case saved (deploymentState s) name of
       Some c \<Rightarrow>
         bind_io (on_world (log net (''Using previously deployed '' @ name @ '' contract at address ''
           @ saved_address c))) (\<lambda>_. return_io (saved_address c))
     | None \<Rightarrow>
         bind_io (on_world (deploy net factory params (GAS_PRICE cfg))) (\<lambda>(address, hash).
         bind_io (on_world (waitForTransaction net hash (TX_CONFIRMATIONS cfg))) (\<lambda>_.
         bind_io (modify_io (\<lambda>s. s\<lparr>deploymentState := AList.update name
           \<lparr>saved_address = address, txHash = hash, verification = None\<rparr> (deploymentState s)\<rparr>)) (\<lambda>_.
         bind_io saveDeployment (\<lambda>_. return_io address)))))"

definition verifyContract ::
  "'w network \<Rightarrow> config \<Rightarrow> string \<Rightarrow> val list \<Rightarrow> ('w, unit) mainnet" where
  "verifyContract net cfg name constructorArguments =
     bind_io get_io (\<lambda>s. case saved (deploymentState s) name of
       None \<Rightarrow> on_world (log net (''  --> No deployment state for contract '' @ name @ ''!!''))
     | Some c \<Rightarrow>
         if verification c \<noteq> None \<and> verification c \<noteq> Some [] then
           on_world (log net (''Contract '' @ name @ '' already verified''))
         else
           bind_io (on_world (verify net (saved_address c) constructorArguments)) (\<lambda>outcome.
             case outcome of
               VerifyError e \<Rightarrow>
                 if e \<noteq> ''NomicLabsHardhatPluginError'' then
                   on_world (log net (''Error verifying: '' @ e))
                 else bind_io (modify_io (\<lambda>s. s\<lparr>deploymentState := AList.update name
                     (c\<lparr>verification := Some (ETHERSCAN_BASE_URL cfg @ ''/'' @ saved_address c @ ''#code'')\<rparr>)
                     (deploymentState s)\<rparr>)) (\<lambda>_. saveDeployment)
             | Verified \<Rightarrow> bind_io (modify_io (\<lambda>s. s\<lparr>deploymentState := AList.update name
                     (c\<lparr>verification := Some (ETHERSCAN_BASE_URL cfg @ ''/'' @ saved_address c @ ''#code'')\<rparr>)
                     (deploymentState s)\<rparr>)) (\<lambda>_. saveDeployment)))"

text \<open>A sequence of calls of \<open>loadOrDeploy\<close>: factory, name, constructor arguments.\<close>

type_synonym deploy_list = "(string \<times> string \<times> deploy_arg list) list"

definition load_step ::
  "'w network \<Rightarrow> config \<Rightarrow> locals \<Rightarrow> string \<times> string \<times> deploy_arg list \<Rightarrow> ('w, locals) mainnet" where
  "load_step net cfg env = (\<lambda>(factory, name, args).
     bind_io (lift_io (map_res (deploy_value env) args)) (\<lambda>vs.
     bind_io (loadOrDeploy net cfg factory name vs) (\<lambda>a. return_io (env @ [(name, a)]))))"

definition load_all :: "'w network \<Rightarrow> config \<Rightarrow> deploy_list \<Rightarrow> ('w, locals) mainnet" where
  "load_all net cfg steps = foldM_io (load_step net cfg) [] steps"

definition verify_all ::
  "'w network \<Rightarrow> config \<Rightarrow> locals \<Rightarrow> deploy_list \<Rightarrow> ('w, unit) mainnet" where
  "verify_all net cfg env steps =
     (if ETHERSCAN_BASE_URL cfg = [] then
        on_world (log net ''No Etherscan Url defined, skipping verification'')
      else forM_io steps (\<lambda>(factory, name, args).
        bind_io (lift_io (map_res (deploy_value env) args)) (\<lambda>vs. verifyContract net cfg name vs)))"

definition core_factories :: "string list" where
  "core_factories =
    [''PriceFeed'', ''SortedTroves'', ''TroveManager'', ''ActivePool'', ''StabilityPool'',
     ''GasPool'', ''DefaultPool'', ''CollSurplusPool'', ''BorrowerOperations'', ''HintHelpers'',
     ''LUSDToken'', ''TellorCaller'', ''WSTETHPriceFeed'', ''RETHPriceFeed'', ''WBTCPriceFeed'',
     ''WETHPriceFeed'']"

definition mainnet_core :: "val \<Rightarrow> deploy_list" where
  "mainnet_core tellorMasterAddr =
    [(''PriceFeed'', ''priceFeed'', []),
     (''SortedTroves'', ''sortedTroves'', []),
     (''TroveManager'', ''troveManager'', []),
     (''ActivePool'', ''activePool'', []),
     (''StabilityPool'', ''stabilityPool'', []),
     (''GasPool'', ''gasPool'', []),
     (''DefaultPool'', ''defaultPool'', []),
     (''CollSurplusPool'', ''collSurplusPool'', []),
     (''BorrowerOperations'', ''borrowerOperations'', []),
     (''HintHelpers'', ''hintHelpers'', []),
     (''TellorCaller'', ''tellorCaller'', [Const tellorMasterAddr])]"

text \<open>The arguments of the next contract, the price feed for wstETH, refer to a variable
  \<open>configParams\<close> that does not exist in the scope of the method.\<close>

definition deployLiquityCoreMainnet ::
  "'w network \<Rightarrow> config \<Rightarrow> val \<Rightarrow> ('w, contracts) mainnet" where
  "deployLiquityCoreMainnet net cfg tellorMasterAddr =
     bind_io (forM_io core_factories (getFactory net)) (\<lambda>_.
     bind_io (load_all net cfg (mainnet_core tellorMasterAddr)) (\<lambda>env.
     throw_io (ReferenceError ''configParams is not defined'')))"

definition lqty_mainnet_factories :: "string list" where
  "lqty_mainnet_factories =
    [''LQTYStaking'', ''LockupContractFactory'', ''CommunityIssuance'', ''LQTYToken'']"

definition mainnet_lqty :: "val \<Rightarrow> val \<Rightarrow> val \<Rightarrow> deploy_list" where
  "mainnet_lqty bountyAddress lpRewardsAddress multisigAddress =
    [(''LQTYStaking'', ''lqtyStaking'', []),
     (''LockupContractFactory'', ''lockupContractFactory'', []),
     (''CommunityIssuance'', ''communityIssuance'', []),
     (''LQTYToken'', ''lqtyToken'',
        [Local ''communityIssuance'', Local ''lqtyStaking'', Local ''lockupContractFactory'',
         Const bountyAddress, Const lpRewardsAddress, Const multisigAddress])]"

definition plain_contracts :: "locals \<Rightarrow> contracts" where
  "plain_contracts env = map (\<lambda>(x, a). (x, Plain a)) env"

definition deployLQTYContractsMainnet ::
  "'w network \<Rightarrow> config \<Rightarrow> val \<Rightarrow> val \<Rightarrow> val \<Rightarrow> ('w, contracts) mainnet" where
  "deployLQTYContractsMainnet net cfg bountyAddress lpRewardsAddress multisigAddress =
     (let steps = mainnet_lqty bountyAddress lpRewardsAddress multisigAddress in
     bind_io (forM_io lqty_mainnet_factories (getFactory net)) (\<lambda>_.
     bind_io (load_all net cfg steps) (\<lambda>env.
     bind_io (verify_all net cfg env steps) (\<lambda>_.
     return_io (plain_contracts env)))))"

definition deployUnipoolMainnet :: "'w network \<Rightarrow> config \<Rightarrow> ('w, string) mainnet" where
  "deployUnipoolMainnet net cfg =
     bind_io (getFactory net ''Unipool'') (\<lambda>_.
     bind_io (loadOrDeploy net cfg ''Unipool'' ''unipool'' []) (\<lambda>unipool.
     bind_io (verify_all net cfg [] [(''Unipool'', ''unipool'', [])]) (\<lambda>_.
     return_io unipool)))"

definition deployMultiTroveGetterMainnet ::
  "'w network \<Rightarrow> config \<Rightarrow> contracts \<Rightarrow> ('w, string) mainnet" where
  "deployMultiTroveGetterMainnet net cfg liquityCore =
     bind_io (getFactory net ''MultiTroveGetter'') (\<lambda>_.
     bind_io (lift_io (map_res (address_at liquityCore []) [Core ''troveManager'', Core ''sortedTroves'']))
       (\<lambda>params.
     bind_io (loadOrDeploy net cfg ''MultiTroveGetter'' ''multiTroveGetter'' params) (\<lambda>getter.
     bind_io (verify_all net cfg [] [(''MultiTroveGetter'', ''multiTroveGetter'', map Const params)]) (\<lambda>_.
     return_io getter))))"

section \<open>Connecting\<close>

definition isOwnershipRenounced :: "'w network \<Rightarrow> string \<Rightarrow> ('w, bool) mainnet" where
  "isOwnershipRenounced net contract =
     bind_io (on_world (ownerOf net contract)) (\<lambda>own. return_io (own = ZERO_ADDRESS))"

text \<open>A step \<^verbatim>\<open>await this.isOwnershipRenounced(g) || await this.sendAndWaitForTransaction(t.method(...))\<close>.\<close>

type_synonym guarded_step = "target \<times> target \<times> string \<times> argument list"

definition contract_address :: "contracts \<Rightarrow> contracts \<Rightarrow> string \<Rightarrow> target \<Rightarrow> string res" where
  "contract_address core lqty reading t =
     bind_res (object_at core lqty reading t) (\<lambda>c. as_Str (address_of c))"

fun run_guarded ::
  "'w network \<Rightarrow> config \<Rightarrow> contracts \<Rightarrow> contracts \<Rightarrow> guarded_step \<Rightarrow> ('w, unit) mainnet" where
  "run_guarded net cfg core lqty (g, t, method, args) =
     bind_io (lift_io (contract_address core lqty ''owner'' g)) (\<lambda>guard.
     bind_io (isOwnershipRenounced net guard) (\<lambda>renounced.
       if renounced then return_io ()
       else
         bind_io (lift_io (contract_address core lqty method t)) (\<lambda>c.
         bind_io (lift_io (map_res (argument_value core lqty) args)) (\<lambda>vs.
         bind_io (sendAndWaitForTransaction net cfg (on_world (transact net c method vs (GAS_PRICE cfg))))
           (\<lambda>_. return_io ())))))"

definition mainnet_core_connections :: "val \<Rightarrow> guarded_step list" where
  "mainnet_core_connections chainlinkProxyAddress =
    [(Core ''priceFeed'', Core ''priceFeed'', ''setAddresses'',
        [Value chainlinkProxyAddress, Addr (Core ''tellorCaller'')]),
     (Core ''sortedTroves'', Core ''sortedTroves'', ''setParams'', [Value maxBytes32,
        Addr (Core ''troveManager''), Addr (Core ''borrowerOperations'')]),
     (Core ''troveManager'', Core ''troveManager'', ''setAddresses'',
        [Addr (Core ''borrowerOperations''), Addr (Core ''activePool''),
        Addr (Core ''defaultPool''), Addr (Core ''stabilityPool''), Addr (Core ''gasPool''),
        Addr (Core ''collSurplusPool''), Addr (Core ''priceFeed''),
        Addr (Core ''lusdToken''), Addr (Core ''sortedTroves''), Addr (Lqty ''lqtyToken''),
        Addr (Lqty ''lqtyStaking'')]),
     (Core ''borrowerOperations'', Core ''borrowerOperations'', ''setAddresses'',
        [Addr (Core ''troveManager''), Addr (Core ''activePool''),
        Addr (Core ''defaultPool''), Addr (Core ''stabilityPool''), Addr (Core ''gasPool''),
        Addr (Core ''collSurplusPool''), Addr (Core ''priceFeed''),
        Addr (Core ''sortedTroves''), Addr (Core ''lusdToken''),
        Addr (Lqty ''lqtyStaking'')]),
     (Core ''stabilityPool'', Core ''stabilityPool'', ''setAddresses'',
        [Addr (Core ''borrowerOperations''), Addr (Core ''troveManager''),
        Addr (Core ''activePool''), Addr (Core ''lusdToken''), Addr (Core ''sortedTroves''),
        Addr (Core ''priceFeed''), Addr (Lqty ''communityIssuance'')]),
     (Core ''activePool'', Core ''activePool'', ''setAddresses'',
        [Addr (Core ''borrowerOperations''), Addr (Core ''troveManager''),
        Addr (Core ''stabilityPool''), Addr (Core ''defaultPool'')]),
     (Core ''defaultPool'', Core ''defaultPool'', ''setAddresses'',
        [Addr (Core ''troveManager''), Addr (Core ''activePool'')]),
     (Core ''collSurplusPool'', Core ''collSurplusPool'', ''setAddresses'',
        [Addr (Core ''borrowerOperations''), Addr (Core ''troveManager''),
        Addr (Core ''activePool'')]),
     (Core ''hintHelpers'', Core ''hintHelpers'', ''setAddresses'',
        [Addr (Core ''sortedTroves''), Addr (Core ''troveManager'')])]"

definition connectCoreContractsMainnet ::
  "'w network \<Rightarrow> config \<Rightarrow> contracts \<Rightarrow> contracts \<Rightarrow> val \<Rightarrow> ('w, unit) mainnet" where
  "connectCoreContractsMainnet net cfg contracts LQTYContracts chainlinkProxyAddress =
     forM_io (mainnet_core_connections chainlinkProxyAddress) (run_guarded net cfg contracts LQTYContracts)"

definition mainnet_lqty_connections :: "guarded_step list" where
  "mainnet_lqty_connections =
    [(Lqty ''lqtyStaking'', Lqty ''lockupContractFactory'', ''setLQTYTokenAddress'',
        [Addr (Lqty ''lqtyToken'')])]"

definition connectLQTYContractsMainnet ::
  "'w network \<Rightarrow> config \<Rightarrow> contracts \<Rightarrow> ('w, unit) mainnet" where
  "connectLQTYContractsMainnet net cfg LQTYContracts =
     forM_io mainnet_lqty_connections (run_guarded net cfg [] LQTYContracts)"

definition mainnet_lqty_core_connections :: "guarded_step list" where
  "mainnet_lqty_core_connections =
    [(Lqty ''lqtyStaking'', Lqty ''lqtyStaking'', ''setAddresses'',
        [Addr (Lqty ''lqtyToken''), Addr (Core ''lusdToken''), Addr (Core ''troveManager''),
        Addr (Core ''borrowerOperations''), Addr (Core ''activePool'')]),
     (Lqty ''communityIssuance'', Lqty ''communityIssuance'', ''setAddresses'',
        [Addr (Lqty ''lqtyToken''), Addr (Core ''stabilityPool'')])]"

definition connectLQTYContractsToCoreMainnet ::
  "'w network \<Rightarrow> config \<Rightarrow> contracts \<Rightarrow> contracts \<Rightarrow> ('w, unit) mainnet" where
  "connectLQTYContractsToCoreMainnet net cfg LQTYContracts coreContracts =
     forM_io mainnet_lqty_core_connections (run_guarded net cfg coreContracts LQTYContracts)"

definition connectUnipoolMainnet ::
  "'w network \<Rightarrow> config \<Rightarrow> string \<Rightarrow> contracts \<Rightarrow> val \<Rightarrow> val \<Rightarrow> ('w, unit) mainnet" where
  "connectUnipoolMainnet net cfg uniPool LQTYContracts LUSDWETHPairAddr duration =
     run_guarded net cfg [(''uniPool'', Plain uniPool)] LQTYContracts
       (Core ''uniPool'', Core ''uniPool'', ''setParams'',
        [Addr (Lqty ''lqtyToken''), Value LUSDWETHPairAddr, Value duration])"

definition logContractObjects :: "'w network \<Rightarrow> contracts \<Rightarrow> ('w, unit) mainnet" where
  "logContractObjects net contracts =
     bind_io (on_world (log net ''Contract objects addresses:'')) (\<lambda>_.
     forM_io contracts (\<lambda>(contractName, c).
       on_world (log net (contractName @ '': '' @ to_string (address_of c)))))"

end
