(* ===== verification/Wiring.thy ===== *)
theory Wiring
  imports Deployment
begin

text \<open>
  The connection tables of \<^verbatim>\<open>deploymentHelpers.js\<close> against the Solidity contracts they configure: the
  names of the parameters of each setter, in their order, and for the two setters that take an array,
  the names of the storage variables that its entries are stored in. Entries of \<open>TroveManager\<close>'s array
  are stored partly by the contract and partly by its library.
\<close>

section \<open>The setters of the contracts\<close>

definition SortedTroves_setParams :: "string list" where
  "SortedTroves_setParams =
    [''_size'', ''_troveManagerAddress'', ''_borrowerOperationsAddress'']"

definition ActivePool_setAddresses :: "string list" where
  "ActivePool_setAddresses =
    [''_liquidationsAddress'', ''_rewardsAddress'', ''_borrowerOperationsAddress'',
     ''_troveManagerAddress'', ''_stabilityPoolAddress'', ''_defaultPoolAddress'',
     ''_collSurplusPoolAddress'', ''_collateralTokenAddress'']"

definition Rewards_setAddresses :: "string list" where
  "Rewards_setAddresses =
    [''_troveManagerAddress'', ''_liquidationsAddress'', ''_borrowerOperationsAddress'',
     ''_activePoolAddress'', ''_activeShieldedPoolAddress'', ''_defaultPoolAddress'']"

definition FeeRouter_setAddresses :: "string list" where
  "FeeRouter_setAddresses =
    [''_troveManagerAddress'', ''_stabilityPoolAddress'', ''_lusdTokenAddress'',
     ''_globalFeeRouterAddress'']"

definition Aggregator_setAddresses :: "string list" where
  "Aggregator_setAddresses =
    [''_troveManagerAddress'', ''_lusdTokenAddress'', ''_relayerAddress'']"

definition GlobalFeeRouter_setAddresses :: "string list" where
  "GlobalFeeRouter_setAddresses =
    [''_aggregatorAddress'', ''_lpStakingAddress'', ''_lqtyStakingAddress'',
     ''_marketOracleAddress'', ''_lusdTokenAddress'']"

definition Liquidations_setAddresses :: "string list" where
  "Liquidations_setAddresses =
    [''_troveManagerAddress'', ''_rewardsAddress'', ''_borrowerOperationsAddress'',
     ''_activePoolAddress'', ''_activeShieldedPoolAddress'', ''_defaultPoolAddress'',
     ''_stabilityPoolAddress'', ''_gasPoolAddress'', ''_collSurplusPoolAddress'',
     ''_priceFeedAddress'', ''_lusdTokenAddress'', ''_sortedTrovesAddress'',
     ''_sortedShieldedTrovesAddress'', ''_relayerAddress'']"

definition StabilityPool_setAddresses :: "string list" where
  "StabilityPool_setAddresses =
    [''_borrowerOperationsAddress'', ''_liquidationsAddress'', ''_troveManagerAddress'',
     ''_activePoolAddress'', ''_activeShieldedPoolAddress'', ''_lusdTokenAddress'',
     ''_sortedTrovesAddress'', ''_sortedShieldedTrovesAddress'', ''_priceFeedAddress'',
     ''_communityIssuanceAddress'', ''_collateralToken'', ''_feeRouterAddress'']"

definition DefaultPool_setAddresses :: "string list" where
  "DefaultPool_setAddresses =
    [''_liquidationsAddress'', ''_rewardsAddress'', ''_troveManagerAddress'',
     ''_activePoolAddress'', ''_activeShieldedPoolAddress'', ''_collateralTokenAddress'']"

definition CollSurplusPool_setAddresses :: "string list" where
  "CollSurplusPool_setAddresses =
    [''_borrowerOperationsAddress'', ''_liquidationsAddress'', ''_troveManagerAddress'',
     ''_activePoolAddress'', ''_activeShieldedPoolAddress'', ''_collateralTokenAddress'']"

definition HintHelpers_setAddresses :: "string list" where
  "HintHelpers_setAddresses =
    [''_sortedTrovesAddress'', ''_sortedShieldedTrovesAddress'', ''_troveManagerAddress'',
     ''_rewardsAddress'', ''_relayerAddress'', ''_aggregatorAddress'', ''_lusdTokenAddress'']"

definition Relayer_setAddresses :: "string list" where
  "Relayer_setAddresses =
    [''parControlAddress'', ''rateControlAddress'', ''marketOracleAddress'',
     ''troveManagerAddress'', ''borrowerOperationsAddress'']"

definition ParControl_setAddresses :: "string list" where
  "ParControl_setAddresses =
    [''_relayerAddress'']"

definition RateControl_setAddresses :: "string list" where
  "RateControl_setAddresses =
    [''_relayerAddress'']"

definition LQTYStaking_setAddresses :: "string list" where
  "LQTYStaking_setAddresses =
    [''_lqtyTokenAddress'', ''_lusdTokenAddress'', ''_troveManagerAddress'',
     ''_borrowerOperationsAddress'', ''_activePoolAddress'', ''_globalFeeRouterAddress'',
     ''_collateralTokenAddress'']"

definition CommunityIssuance_setAddresses :: "string list" where
  "CommunityIssuance_setAddresses =
    [''_lqtyTokenAddress'', ''_stabilityPoolAddress'']"

definition LockupContractFactory_setLQTYTokenAddress :: "string list" where
  "LockupContractFactory_setLQTYTokenAddress =
    [''_lqtyTokenAddress'']"

definition FunctionCaller_setTroveManagerAddress :: "string list" where
  "FunctionCaller_setTroveManagerAddress =
    [''_troveManagerAddress'']"

definition FunctionCaller_setSortedTrovesAddress :: "string list" where
  "FunctionCaller_setSortedTrovesAddress =
    [''_sortedTrovesAddress'']"

definition FunctionCaller_setSortedShieldedTrovesAddress :: "string list" where
  "FunctionCaller_setSortedShieldedTrovesAddress =
    [''_sortedShieldedTrovesAddress'']"

definition BorrowerOperations_slots :: "(nat \<times> string) list" where
  "BorrowerOperations_slots =
    [(0, ''troveManager''), (1, ''rewards''), (2, ''activePool''), (3, ''activeShieldedPool''),
     (4, ''defaultPool''), (5, ''stabilityPoolAddress''), (6, ''gasPoolAddress''),
     (7, ''collSurplusPool''), (8, ''priceFeed''), (9, ''sortedTroves''),
     (10, ''sortedShieldedTroves''), (11, ''lusdToken''), (12, ''relayer''),
     (13, ''collateralToken'')]"

definition TroveManager_slots :: "(nat \<times> string) list" where
  "TroveManager_slots =
    [(3, ''activePool''), (4, ''activeShieldedPool''), (5, ''defaultPool''), (9, ''priceFeed''),
     (15, ''relayer'')]"

definition TroveManagerLib_slots :: "(nat \<times> string) list" where
  "TroveManagerLib_slots =
    [(0, ''aggregator''), (1, ''liquidations''), (2, ''borrowerOperationsAddress''),
     (6, ''stabilityPool''), (7, ''gasPoolAddress''), (8, ''collSurplusPool''),
     (10, ''lusdToken''), (11, ''sortedTroves''), (12, ''sortedShieldedTroves''),
     (13, ''lqtyToken''), (14, ''lqtyStaking''), (16, ''collateralToken''), (17, ''rewards''),
     (18, ''feeRouter''), (19, ''globalFeeRouter'')]"

definition PriceFeed_setAddresses :: "string list" where
  "PriceFeed_setAddresses = [''_priceAggregatorAddress'', ''_tellorCallerAddress'']"

datatype parameters =
    Positional "string list"
  | AddressArray "(nat \<times> string) list"  \<comment> \<open>one array; what each entry is stored as\<close>

definition setter_parameters :: "string \<Rightarrow> string \<Rightarrow> parameters option" where
  "setter_parameters artifact method = map_of
    [((''PriceFeed'', ''setAddresses''), Positional PriceFeed_setAddresses),
     ((''SortedTroves'', ''setParams''), Positional SortedTroves_setParams),
     ((''ActivePool'', ''setAddresses''), Positional ActivePool_setAddresses),
     ((''Rewards'', ''setAddresses''), Positional Rewards_setAddresses),
     ((''FeeRouter'', ''setAddresses''), Positional FeeRouter_setAddresses),
     ((''Aggregator'', ''setAddresses''), Positional Aggregator_setAddresses),
     ((''GlobalFeeRouter'', ''setAddresses''), Positional GlobalFeeRouter_setAddresses),
     ((''Liquidations'', ''setAddresses''), Positional Liquidations_setAddresses),
     ((''StabilityPool'', ''setAddresses''), Positional StabilityPool_setAddresses),
     ((''DefaultPool'', ''setAddresses''), Positional DefaultPool_setAddresses),
     ((''CollSurplusPool'', ''setAddresses''), Positional CollSurplusPool_setAddresses),
     ((''HintHelpers'', ''setAddresses''), Positional HintHelpers_setAddresses),
     ((''Relayer'', ''setAddresses''), Positional Relayer_setAddresses),
     ((''ParControl'', ''setAddresses''), Positional ParControl_setAddresses),
     ((''RateControl'', ''setAddresses''), Positional RateControl_setAddresses),
     ((''LQTYStaking'', ''setAddresses''), Positional LQTYStaking_setAddresses),
     ((''CommunityIssuance'', ''setAddresses''), Positional CommunityIssuance_setAddresses),
     ((''LockupContractFactory'', ''setLQTYTokenAddress''), Positional LockupContractFactory_setLQTYTokenAddress),
     ((''FunctionCaller'', ''setTroveManagerAddress''), Positional FunctionCaller_setTroveManagerAddress),
     ((''FunctionCaller'', ''setSortedTrovesAddress''), Positional FunctionCaller_setSortedTrovesAddress),
     ((''FunctionCaller'', ''setSortedShieldedTrovesAddress''), Positional FunctionCaller_setSortedShieldedTrovesAddress),
     ((''BorrowerOperations'', ''setAddresses''), AddressArray BorrowerOperations_slots),
     ((''TroveManager'', ''setAddresses''), AddressArray (TroveManager_slots @ TroveManagerLib_slots))] (artifact, method)"

section \<open>Roles\<close>

definition strip_prefix :: "string \<Rightarrow> string \<Rightarrow> string" where
  "strip_prefix p s = (if take (length p) s = p then drop (length p) s else s)"

definition strip_suffix :: "string \<Rightarrow> string \<Rightarrow> string" where
  "strip_suffix p s = rev (strip_prefix (rev p) (rev s))"

text \<open>The role of a parameter, as in \<^verbatim>\<open>_troveManagerAddress\<close>, and of a deployed contract, where the test
  variants of the price feed and the oracle take the role of the real ones.\<close>

definition parameter_role :: "string \<Rightarrow> string" where
  "parameter_role x = strip_suffix ''Address'' (strip_prefix ''_'' x)"

fun target_role :: "target \<Rightarrow> string" where
  "target_role (Core x) = strip_suffix ''Testnet'' x"
| "target_role (Lqty x) = x"

fun positional_match :: "string list \<Rightarrow> argument list \<Rightarrow> bool" where
  "positional_match [] [] = True"
| "positional_match (p # ps) (Addr t # args) = (parameter_role p = target_role t \<and> positional_match ps args)"
| "positional_match (p # ps) (Value v # args) = (p \<in> {''_size'', ''_priceAggregatorAddress''} \<and> positional_match ps args)"
| "positional_match _ _ = False"

fun arguments_match :: "parameters \<Rightarrow> argument list \<Rightarrow> bool" where
  "arguments_match (Positional ps) args = positional_match ps args"
| "arguments_match (AddressArray slots) [AddrArray ts] =
     (length ts = length slots
      \<and> list_all (\<lambda>(i, x). i < length ts \<and> parameter_role x = target_role (ts ! i)) slots
      \<and> distinct (map fst slots))"
| "arguments_match (AddressArray slots) _ = False"

fun artifact_of :: "deploy_step list \<Rightarrow> string \<Rightarrow> string option" where
  "artifact_of [] x = None"
| "artifact_of (New y a args # steps) x = (if x = y then Some a else artifact_of steps x)"
| "artifact_of (_ # steps) x = artifact_of steps x"

text \<open>The contract that a connection step configures: two artifacts share the source of \<open>ActivePool\<close>.\<close>

definition configured_contract :: "target \<Rightarrow> string option" where
  "configured_contract t =
     map_option (\<lambda>a. if map_of artifact_paths a = map_of artifact_paths ''ActivePool'' then ''ActivePool'' else a)
       (case t of Core x \<Rightarrow> artifact_of core_steps x
        | Lqty x \<Rightarrow> if x = ''lqtyToken'' then Some ''LQTYToken'' else artifact_of (lqty_steps ''CommunityIssuance'') x)"

definition step_matches :: "connect_step \<Rightarrow> bool" where
  "step_matches = (\<lambda>(t, method, args).
     case configured_contract t of
       None \<Rightarrow> False
     | Some c \<Rightarrow> (case setter_parameters c method of None \<Rightarrow> False | Some ps \<Rightarrow> arguments_match ps args))"

text \<open>Every call that connects the test system passes exactly the addresses that the Solidity setter
  expects, each in the position of the parameter of its role; for the setters that take an array, every
  entry is stored as the contract of its role and no entry is left unused.\<close>

theorem connections_match_contracts:
  "list_all step_matches
     (connect_core_lists @ connect_core_rest @ connect_lqty_steps @ connect_lqty_core_steps)"
  by code_simp

end
