(* ===== verification/MainnetDeployment_Props.thy ===== *)
theory MainnetDeployment_Props
  imports MainnetDeployment Wiring
begin

text \<open>
  Properties of the main network deployment: what is saved stays saved, the output file always agrees
  with the recorded state, a resumed deployment deploys only what is missing, and connecting twice
  sends nothing the second time.
\<close>

section \<open>What is relied on of the network\<close>

text \<open>\<open>deployed\<close> observes the deployments that were sent. Every call of \<open>deploy\<close> sends one, a contract
  that was deployed has an address, waiting and printing send none, and printing does not fail.\<close>

definition faithful :: "'w network \<Rightarrow> ('w \<Rightarrow> (string \<times> val list) list) \<Rightarrow> bool" where
  "faithful net deployed \<longleftrightarrow>
     (\<forall>f ps g w. deployed (snd (deploy net f ps g w)) = deployed w @ [(f, ps)]
        \<and> (\<forall>a h. fst (deploy net f ps g w) = Inr (a, h) \<longrightarrow> a \<noteq> []))
     \<and> (\<forall>h c w. deployed (snd (waitForTransaction net h c w)) = deployed w)
     \<and> (\<forall>m w. fst (log net m w) = Inr () \<and> deployed (snd (log net m w)) = deployed w)"

definition synced :: "'w mainnet_state \<Rightarrow> bool" where
  "synced s \<longleftrightarrow> outputFile s = Some (deploymentState s) \<or> outputFile s = None \<and> deploymentState s = []"

definition keeps_saved :: "saved_state \<Rightarrow> saved_state \<Rightarrow> bool" where
  "keeps_saved d d' \<longleftrightarrow> (\<forall>n c. saved d n = Some c \<longrightarrow> saved d' n = Some c)"

lemma keeps_saved_refl [simp]: "keeps_saved d d"
  by (simp add: keeps_saved_def)

lemma keeps_saved_trans: "keeps_saved d e \<Longrightarrow> keeps_saved e f \<Longrightarrow> keeps_saved d f"
  by (simp add: keeps_saved_def)

lemma saved_update:
  "saved (AList.update n c d) m =
     (if m = n then if saved_address c \<noteq> [] then Some c else None else saved d m)"
  by (simp add: saved_def update_conv')

lemma keeps_saved_update: "saved d n = None \<Longrightarrow> saved_address c \<noteq> [] \<Longrightarrow> keeps_saved d (AList.update n c d)"
  by (auto simp: keeps_saved_def saved_update)

lemma faithful_log:
  assumes "faithful net deployed"
  shows "\<exists>w'. log net m w = (Inr (), w') \<and> deployed w' = deployed w"
  using assms by (cases "log net m w") (simp add: faithful_def, metis fst_conv snd_conv)

lemma load_step_run:
  "load_step net cfg env (f, n, args) =
     bind_io (lift_io (map_res (deploy_value env) args)) (\<lambda>vs.
     bind_io (loadOrDeploy net cfg f n vs) (\<lambda>a. return_io (env @ [(n, a)])))"
  by (simp add: load_step_def)

section \<open>One contract\<close>

lemma loadOrDeploy_saved:
  assumes "faithful net deployed" and "saved (deploymentState s) name = Some c"
  shows "\<exists>w'. loadOrDeploy net cfg factory name params s = (Inr (saved_address c), s\<lparr>world := w'\<rparr>)
    \<and> deployed w' = deployed (world s)"
proof -
  let ?msg = "''Using previously deployed '' @ name @ '' contract at address '' @ saved_address c"
  obtain w' where "log net ?msg (world s) = (Inr (), w')" "deployed w' = deployed (world s)"
    using faithful_log [OF assms(1)] by blast
  then show ?thesis
    using assms(2) by (intro exI [of _ w']) (simp add: loadOrDeploy_def on_world_def bind_io_def)
qed

lemma loadOrDeploy_new:
  assumes "faithful net deployed" and "saved (deploymentState s) name = None"
    and "loadOrDeploy net cfg factory name params s = (r, s')"
  shows "deployed (world s') = deployed (world s) @ [(factory, params)]
    \<and> (case r of
         Inl e \<Rightarrow> deploymentState s' = deploymentState s \<and> outputFile s' = outputFile s
       | Inr a \<Rightarrow> outputFile s' = Some (deploymentState s') \<and> a \<noteq> [] \<and> (\<exists>h. deploymentState s' = AList.update name
           \<lparr>saved_address = a, txHash = h, verification = None\<rparr> (deploymentState s)))"
proof -
  obtain rd wd where d: "deploy net factory params (GAS_PRICE cfg) (world s) = (rd, wd)" by (meson surj_pair)
  then have dd: "deployed wd = deployed (world s) @ [(factory, params)]"
    and addr: "\<And>a h. rd = Inr (a, h) \<Longrightarrow> a \<noteq> []"
    using assms(1) unfolding faithful_def by (metis fst_conv snd_conv)+
  show ?thesis
  proof (cases rd)
    case (Inl e)
    then show ?thesis using assms(2,3) d dd by (auto simp: loadOrDeploy_def on_world_def bind_io_def)
  next
    case (Inr ah)
    obtain a h where ah: "ah = (a, h)" by (cases ah)
    obtain rw ww where w: "waitForTransaction net h (TX_CONFIRMATIONS cfg) wd = (rw, ww)" by (meson surj_pair)
    then have "deployed ww = deployed wd"
      using assms(1) unfolding faithful_def by (metis snd_conv)
    then show ?thesis using assms(2,3) d dd w Inr ah addr
      by (cases rw) (auto simp: loadOrDeploy_def on_world_def bind_io_def saveDeployment_def)
  qed
qed

text \<open>Both cases together.\<close>

lemma loadOrDeploy_outcome:
  assumes "faithful net deployed" and "loadOrDeploy net cfg factory name params s = (r, s')"
  shows "\<exists>ds. deployed (world s') = deployed (world s) @ ds
    \<and> ds = (if saved (deploymentState s) name = None then [(factory, params)] else [])
    \<and> keeps_saved (deploymentState s) (deploymentState s') \<and> (synced s \<longrightarrow> synced s')
    \<and> (\<forall>a. r = Inr a \<longrightarrow> (\<exists>c. saved (deploymentState s') name = Some c \<and> saved_address c = a))"
proof (cases "saved (deploymentState s) name")
  case None
  then show ?thesis
    using loadOrDeploy_new [OF assms(1) None assms(2)]
    by (auto simp: synced_def saved_update keeps_saved_update split: sum.splits)
next
  case (Some c)
  then show ?thesis
    using loadOrDeploy_saved [OF assms(1) Some, of cfg factory params] assms(2) by (auto simp: synced_def)
qed

section \<open>A sequence of contracts\<close>

lemma load_steps_outcome:
  assumes "faithful net deployed" and "foldM_io (load_step net cfg) env steps s = (r, s')"
  shows "\<exists>ds. deployed (world s') = deployed (world s) @ ds
    \<and> (\<forall>d \<in> set ds. \<exists>name args. (fst d, name, args) \<in> set steps \<and> saved (deploymentState s) name = None)
    \<and> keeps_saved (deploymentState s) (deploymentState s') \<and> (synced s \<longrightarrow> synced s')"
  using assms(2)
proof (induction steps arbitrary: env s)
  case (Cons step steps)
  obtain f n args where step: "step = (f, n, args)" by (cases step)
  show ?case
  proof (cases "map_res (deploy_value env) args")
    case (Inl e)
    then show ?thesis using Cons.prems step by (auto simp: load_step_run)
  next
    case (Inr vs)
    obtain ra s1 where l: "loadOrDeploy net cfg f n vs s = (ra, s1)" by (meson surj_pair)
    obtain ds where ds: "deployed (world s1) = deployed (world s) @ ds"
        "ds = (if saved (deploymentState s) n = None then [(f, vs)] else [])"
        "keeps_saved (deploymentState s) (deploymentState s1)" "synced s \<longrightarrow> synced s1"
      using loadOrDeploy_outcome [OF assms(1) l] by blast
    have first: "\<forall>d \<in> set ds. \<exists>name args. (fst d, name, args) \<in> set (step # steps)
        \<and> saved (deploymentState s) name = None"
      using ds(2) step by (auto split: if_splits)
    show ?thesis
    proof (cases ra)
      case (Inl e)
      then show ?thesis using Cons.prems step Inr l ds first by (auto simp: load_step_run bind_io_def)
    next
      case (Inr a)
      then have "foldM_io (load_step net cfg) (env @ [(n, a)]) steps s1 = (r, s')"
        using Cons.prems step \<open>map_res _ args = Inr vs\<close> l by (simp add: load_step_run bind_io_def)
      from Cons.IH [OF this] obtain ds2 where ds2: "deployed (world s') = deployed (world s1) @ ds2"
          "\<forall>d \<in> set ds2. \<exists>name args. (fst d, name, args) \<in> set steps \<and> saved (deploymentState s1) name = None"
          "keeps_saved (deploymentState s1) (deploymentState s')" "synced s1 \<longrightarrow> synced s'"
        by blast
      have "\<forall>d \<in> set ds2. \<exists>name args. (fst d, name, args) \<in> set (step # steps)
          \<and> saved (deploymentState s) name = None"
        using ds2(2) ds(3) unfolding keeps_saved_def by (metis list.set_intros(2) not_Some_eq)
      then have "\<forall>d \<in> set (ds @ ds2). \<exists>name args. (fst d, name, args) \<in> set (step # steps)
          \<and> saved (deploymentState s) name = None"
        using first by auto
      moreover have "deployed (world s') = deployed (world s) @ ds @ ds2" using ds(1) ds2(1) by simp
      ultimately show ?thesis using ds(3,4) ds2(3,4) keeps_saved_trans by blast
    qed
  qed
qed auto

lemma load_steps_again:
  assumes "faithful net deployed" and "foldM_io (load_step net cfg) env steps s = (Inr env', s')"
    and "keeps_saved (deploymentState s') (deploymentState t)"
  shows "\<exists>w'. foldM_io (load_step net cfg) env steps t = (Inr env', t\<lparr>world := w'\<rparr>)
    \<and> deployed w' = deployed (world t)"
  using assms(2,3)
proof (induction steps arbitrary: env s t)
  case (Cons step steps)
  obtain f n args where step: "step = (f, n, args)" by (cases step)
  obtain vs a s1 where vs: "map_res (deploy_value env) args = Inr vs"
      and l: "loadOrDeploy net cfg f n vs s = (Inr a, s1)"
      and rest: "foldM_io (load_step net cfg) (env @ [(n, a)]) steps s1 = (Inr env', s')"
    using Cons.prems(1) step by (auto simp: load_step_run bind_io_Inr)
  obtain c where c: "saved (deploymentState s1) n = Some c" "saved_address c = a"
    using loadOrDeploy_outcome [OF assms(1) l] by blast
  have "keeps_saved (deploymentState s1) (deploymentState s')"
    using load_steps_outcome [OF assms(1) rest] by blast
  with c Cons.prems(2) have t: "saved (deploymentState t) n = Some c" by (auto simp: keeps_saved_def)
  obtain w1 where w1: "loadOrDeploy net cfg f n vs t = (Inr a, t\<lparr>world := w1\<rparr>)"
      "deployed w1 = deployed (world t)"
    using loadOrDeploy_saved [OF assms(1) t] c(2) by blast
  obtain w' where w': "foldM_io (load_step net cfg) (env @ [(n, a)]) steps (t\<lparr>world := w1\<rparr>) =
      (Inr env', (t\<lparr>world := w1\<rparr>)\<lparr>world := w'\<rparr>)" "deployed w' = deployed (world (t\<lparr>world := w1\<rparr>))"
    using Cons.IH [OF rest, of "t\<lparr>world := w1\<rparr>"] Cons.prems(2) by auto
  have "load_step net cfg env (f, n, args) t = (Inr (env @ [(n, a)]), t\<lparr>world := w1\<rparr>)"
    using vs w1 by (simp add: load_step_run bind_io_def)
  then show ?case using w' w1(2) step by (intro exI [of _ w']) (simp add: bind_io_def)
next
  case Nil
  then show ?case by (intro exI [of _ "world t"]) simp
qed

text \<open>C39: however a run of a sequence of deployments ends, the output file agrees with the recorded
  state, and a later process that loads it keeps every contract recorded, with its address and
  transaction, and sends deployments only for contracts that were not recorded; when the first run
  completed, the second sends none and returns the same addresses.\<close>

theorem deployment_resumes:
  assumes "faithful net deployed" and "synced s"
    and "load_all net cfg steps s = (r1, s1)"
    and "loadPreviousDeployment net s1 = (Inr (), s2)"
    and "load_all net cfg steps s2 = (r2, s3)"
  shows "synced s1 \<and> deploymentState s2 = deploymentState s1
    \<and> keeps_saved (deploymentState s1) (deploymentState s3)
    \<and> (\<exists>ds. deployed (world s3) = deployed (world s2) @ ds
        \<and> (\<forall>d \<in> set ds. \<exists>name args. (fst d, name, args) \<in> set steps
             \<and> saved (deploymentState s1) name = None)
        \<and> (\<forall>env. r1 = Inr env \<longrightarrow> ds = [] \<and> r2 = Inr env))"
proof -
  have 1: "synced s1"
    using load_steps_outcome [OF assms(1) assms(3) [unfolded load_all_def]] assms(2) by blast
  then have 2: "deploymentState s2 = deploymentState s1"
    using assms(4)
    by (auto simp: loadPreviousDeployment_def synced_def bind_io_def on_world_def split: prod.splits sum.splits)
  obtain ds where ds: "deployed (world s3) = deployed (world s2) @ ds"
      "\<forall>d \<in> set ds. \<exists>name args. (fst d, name, args) \<in> set steps \<and> saved (deploymentState s2) name = None"
      "keeps_saved (deploymentState s2) (deploymentState s3)"
    using load_steps_outcome [OF assms(1) assms(5) [unfolded load_all_def]] by blast
  have "ds = [] \<and> r2 = Inr env" if "r1 = Inr env" for env
    using load_steps_again [OF assms(1), of cfg "[]" steps s env s1 s2] that assms(3,5) 2 ds(1)
    by (auto simp: load_all_def)
  then show ?thesis using 1 2 ds by auto
qed

text \<open>A network that numbers contracts and transactions; transactions fail when \<open>broken\<close> says so, and a
  contract renounces its ownership when it is configured.\<close>

record sim_world =
  sim_deployed :: "(string \<times> val list) list"
  sim_sent :: "(string \<times> string) list"
  sim_configured :: "string list"

definition sim_owner :: "sim_world \<Rightarrow> string \<Rightarrow> val" where
  "sim_owner w a = (if a \<in> set (sim_configured w) then ZERO_ADDRESS else Str ''deployer'')"

definition simulated :: "(sim_world \<Rightarrow> bool) \<Rightarrow> sim_world network" where
  "simulated broken = \<lparr>
     getContractFactory = (\<lambda>n w. (Inr (), w)),
     deploy = (\<lambda>f ps g w.
       (if broken w then Inl (Error ''timeout'')
        else Inr (''0x'' @ show_nat (length (sim_deployed w)), ''h'' @ show_nat (length (sim_deployed w))),
        w\<lparr>sim_deployed := sim_deployed w @ [(f, ps)]\<rparr>)),
     waitForTransaction = (\<lambda>h c w. (Inr Undefined, w)),
     ownerOf = (\<lambda>a w. (Inr (sim_owner w a), w)),
     transact = (\<lambda>a m vs g w.
       (Inr ''h'', w\<lparr>sim_sent := sim_sent w @ [(a, m)], sim_configured := a # sim_configured w\<rparr>)),
     verify = (\<lambda>a ps w. (Inr Verified, w)),
     log = (\<lambda>m w. (Inr (), w))\<rparr>"

lemma simulated_faithful: "faithful (simulated broken) sim_deployed"
  by (simp add: faithful_def simulated_def)

definition no_world :: sim_world where
  "no_world = \<lparr>sim_deployed = [], sim_sent = [], sim_configured = []\<rparr>"

definition fresh_deployment :: "sim_world mainnet_state" where
  "fresh_deployment = \<lparr>outputFile = None, deploymentState = [], world = no_world\<rparr>"

definition example_config :: config where
  "example_config = \<lparr>GAS_PRICE = Num 1, TX_CONFIRMATIONS = Num 1, ETHERSCAN_BASE_URL = []\<rparr>"

text \<open>The network breaks after the first contract; the second run deploys the other.\<close>

definition interrupted :: "sim_world network" where
  "interrupted = simulated (\<lambda>w. length (sim_deployed w) = 1)"

definition two_contracts :: deploy_list where
  "two_contracts = [(''ActivePool'', ''activePool'', []), (''GasPool'', ''gasPool'', [])]"

theorem deployment_resumes_witness:
  "\<exists>s1 s2 r2 s3 ds. load_all interrupted example_config two_contracts fresh_deployment =
       (Inl (Error ''timeout''), s1)
    \<and> loadPreviousDeployment interrupted s1 = (Inr (), s2)
    \<and> load_all interrupted example_config two_contracts s2 = (r2, s3)
    \<and> saved (deploymentState s1) ''activePool'' \<noteq> None
    \<and> keeps_saved (deploymentState s1) (deploymentState s3)
    \<and> sim_deployed (world s3) = sim_deployed (world s2) @ ds
    \<and> (''ActivePool'', []) \<notin> set ds"
proof -
  note run = load_all_def two_contracts_def load_step_run loadOrDeploy_def interrupted_def simulated_def
    on_world_def bind_io_def saved_def fresh_deployment_def no_world_def saveDeployment_def show_nat_small
  obtain s1 where s1: "load_all interrupted example_config two_contracts fresh_deployment =
      (Inl (Error ''timeout''), s1)" "saved (deploymentState s1) ''activePool'' \<noteq> None"
    by (simp add: run)
  obtain s2 where s2: "loadPreviousDeployment interrupted s1 = (Inr (), s2)"
    by (cases "outputFile s1")
       (auto simp: loadPreviousDeployment_def bind_io_def on_world_def interrupted_def simulated_def)
  obtain r2 s3 where s3: "load_all interrupted example_config two_contracts s2 = (r2, s3)" by (meson surj_pair)
  have f: "faithful interrupted sim_deployed" by (simp add: interrupted_def simulated_faithful)
  have "synced fresh_deployment" by (simp add: synced_def fresh_deployment_def)
  from deployment_resumes [OF f this s1(1) s2 s3] obtain ds where
      "keeps_saved (deploymentState s1) (deploymentState s3)"
      "sim_deployed (world s3) = sim_deployed (world s2) @ ds"
      "\<forall>d \<in> set ds. \<exists>name args. (fst d, name, args) \<in> set two_contracts
         \<and> saved (deploymentState s1) name = None"
    by blast
  then show ?thesis using s1 s2 s3 by (force simp: two_contracts_def)
qed

text \<open>\<open>deployLiquityCoreMainnet\<close> never returns: whatever the network does, it throws, and when the
  contracts it can deploy are deployed, it throws a \<open>ReferenceError\<close> for \<open>configParams\<close>.\<close>

lemma deployLiquityCoreMainnet_throws:
  "\<exists>e. fst (deployLiquityCoreMainnet net cfg tellor s) = Inl e
    \<and> (\<forall>s1 env s2. forM_io core_factories (getFactory net) s = (Inr (), s1)
         \<and> load_all net cfg (mainnet_core tellor) s1 = (Inr env, s2)
         \<longrightarrow> e = ReferenceError ''configParams is not defined'')"
  unfolding deployLiquityCoreMainnet_def
  by (auto simp: bind_io_def split: prod.splits sum.splits)

section \<open>Connecting\<close>

text \<open>What is relied on of the contracts: configuring a contract renounces its ownership, and nothing
  else changes an owner; \<open>owners\<close> and \<open>sent\<close> observe the owners and the transactions sent.\<close>

definition renouncing ::
  "'w network \<Rightarrow> ('w \<Rightarrow> string \<Rightarrow> val) \<Rightarrow> ('w \<Rightarrow> (string \<times> string) list) \<Rightarrow> bool" where
  "renouncing net owners sent \<longleftrightarrow>
     (\<forall>a w. \<exists>w'. ownerOf net a w = (Inr (owners w a), w') \<and> owners w' = owners w \<and> sent w' = sent w)
   \<and> (\<forall>h c w r w'. waitForTransaction net h c w = (r, w') \<longrightarrow> owners w' = owners w \<and> sent w' = sent w)
   \<and> (\<forall>a m vs g w h w'. transact net a m vs g w = (Inr h, w') \<longrightarrow>
        owners w' = (owners w)(a := ZERO_ADDRESS) \<and> sent w' = sent w @ [(a, m)])"

definition renounced_steps :: "('w \<Rightarrow> string \<Rightarrow> val) \<Rightarrow> contracts \<Rightarrow> contracts \<Rightarrow> guarded_step list \<Rightarrow> 'w \<Rightarrow> bool"
where
  "renounced_steps owners core lqty steps w \<longleftrightarrow>
     list_all (\<lambda>(g, t, m, args). \<exists>a. contract_address core lqty ''owner'' g = Inr a \<and> owners w a = ZERO_ADDRESS) steps"

lemma contract_address_cong:
  "contract_address core lqty x t = Inr a \<Longrightarrow> contract_address core lqty y t = Inr a"
  by (auto simp: contract_address_def object_at_def bind_res_eq_Inr split: option.splits)

lemma run_guarded_renounces:
  assumes "renouncing net owners sent"
    and "run_guarded net cfg core lqty (t, t, m, args) s = (Inr (), s')"
  shows "\<exists>a. contract_address core lqty ''owner'' t = Inr a \<and> owners (world s') a = ZERO_ADDRESS
    \<and> (\<forall>b. owners (world s) b = ZERO_ADDRESS \<longrightarrow> owners (world s') b = ZERO_ADDRESS)"
proof -
  obtain a where a: "contract_address core lqty ''owner'' t = Inr a"
    using assms(2) by (auto simp: bind_io_Inr)
  obtain w1 where w1: "ownerOf net a (world s) = (Inr (owners (world s) a), w1)" "owners w1 = owners (world s)"
    using assms(1) unfolding renouncing_def by blast
  show ?thesis
  proof (cases "owners (world s) a = ZERO_ADDRESS")
    case True
    then show ?thesis
      using assms(2) a w1 by (auto simp: isOwnershipRenounced_def on_world_def bind_io_def)
  next
    case False
    have m: "contract_address core lqty m t = Inr a" using contract_address_cong [OF a] .
    obtain vs h w2 v w3 where "transact net a m vs (GAS_PRICE cfg) w1 = (Inr h, w2)"
        "waitForTransaction net h (TX_CONFIRMATIONS cfg) w2 = (Inr v, w3)" "world s' = w3"
      using assms(2) a w1(1) m False
      by (auto simp: isOwnershipRenounced_def on_world_def bind_io_def sendAndWaitForTransaction_def
          split: prod.splits sum.splits)
    then have "owners (world s') = (owners (world s))(a := ZERO_ADDRESS)"
      using assms(1) w1(2) unfolding renouncing_def by metis
    then show ?thesis using a by auto
  qed
qed

lemma connect_renounces:
  assumes "renouncing net owners sent" and "list_all (\<lambda>(g, t, m, args). g = t) steps"
    and "forM_io steps (run_guarded net cfg core lqty) s = (Inr (), s')"
  shows "renounced_steps owners core lqty steps (world s')
    \<and> (\<forall>b. owners (world s) b = ZERO_ADDRESS \<longrightarrow> owners (world s') b = ZERO_ADDRESS)"
  using assms(2,3)
proof (induction steps arbitrary: s)
  case (Cons step steps)
  obtain t m args where step: "step = (t, t, m, args)" using Cons.prems(1) by (cases step) auto
  obtain s1 where s1: "run_guarded net cfg core lqty step s = (Inr (), s1)"
      "forM_io steps (run_guarded net cfg core lqty) s1 = (Inr (), s')"
    using Cons.prems(2) by (auto simp: bind_io_Inr)
  have IH: "renounced_steps owners core lqty steps (world s')"
      "\<forall>b. owners (world s1) b = ZERO_ADDRESS \<longrightarrow> owners (world s') b = ZERO_ADDRESS"
    using Cons.IH [OF _ s1(2)] Cons.prems(1) by auto
  show ?case
    using run_guarded_renounces [OF assms(1) s1(1) [unfolded step]] IH step
    by (auto simp: renounced_steps_def)
qed (simp add: renounced_steps_def)

lemma renounced_run:
  assumes "renouncing net owners sent" and "renounced_steps owners core lqty steps (world s)"
  shows "\<exists>s'. forM_io steps (run_guarded net cfg core lqty) s = (Inr (), s') \<and> sent (world s') = sent (world s)"
  using assms(2)
proof (induction steps arbitrary: s)
  case (Cons step steps)
  obtain g t m args where step: "step = (g, t, m, args)" by (cases step)
  obtain a where a: "contract_address core lqty ''owner'' g = Inr a" "owners (world s) a = ZERO_ADDRESS"
    using Cons.prems step by (auto simp: renounced_steps_def)
  obtain w1 where w1: "ownerOf net a (world s) = (Inr (owners (world s) a), w1)"
      "owners w1 = owners (world s)" "sent w1 = sent (world s)"
    using assms(1) unfolding renouncing_def by blast
  have "run_guarded net cfg core lqty step s = (Inr (), s\<lparr>world := w1\<rparr>)"
    using a w1(1) step by (simp add: isOwnershipRenounced_def on_world_def bind_io_def)
  moreover have "renounced_steps owners core lqty steps (world (s\<lparr>world := w1\<rparr>))"
    using Cons.prems w1(2) by (simp add: renounced_steps_def)
  ultimately show ?case using Cons.IH [of "s\<lparr>world := w1\<rparr>"] w1(3) by (auto simp: bind_io_def)
qed simp

text \<open>Once the core contracts have been connected, running the connection again, in a process that
  resumes the deployment, completes and sends no transaction, whatever happened in between to other
  contracts' owners: every setter is guarded by the ownership of the contract it configures.\<close>

theorem connect_core_once:
  assumes "renouncing net owners sent"
    and "connectCoreContractsMainnet net cfg core lqty chainlink s = (Inr (), s1)"
    and "\<forall>a. owners (world s1) a = ZERO_ADDRESS \<longrightarrow> owners (world s2) a = ZERO_ADDRESS"
  shows "\<exists>s3. connectCoreContractsMainnet net cfg core lqty chainlink s2 = (Inr (), s3)
    \<and> sent (world s3) = sent (world s2)"
proof -
  have "list_all (\<lambda>(g, t, m, args). g = t) (mainnet_core_connections chainlink)"
    by (simp add: mainnet_core_connections_def)
  then have "renounced_steps owners core lqty (mainnet_core_connections chainlink) (world s1)"
    using connect_renounces [OF assms(1)] assms(2) unfolding connectCoreContractsMainnet_def by blast
  then have "renounced_steps owners core lqty (mainnet_core_connections chainlink) (world s2)"
    using assms(3) by (auto simp: renounced_steps_def list_all_iff)
  then show ?thesis
    using renounced_run [OF assms(1)] unfolding connectCoreContractsMainnet_def by blast
qed

lemma simulated_renouncing: "renouncing (simulated broken) sim_owner sim_sent"
  by (auto simp: renouncing_def simulated_def sim_owner_def fun_eq_iff)

definition example_core :: contracts where
  "example_core = map (\<lambda>x. (x, Plain x))
     [''priceFeed'', ''tellorCaller'', ''sortedTroves'', ''troveManager'', ''borrowerOperations'',
      ''activePool'', ''defaultPool'', ''stabilityPool'', ''gasPool'', ''collSurplusPool'', ''lusdToken'',
      ''hintHelpers'']"

definition example_lqty :: contracts where
  "example_lqty = map (\<lambda>x. (x, Plain x)) [''lqtyToken'', ''lqtyStaking'', ''communityIssuance'']"

theorem connect_core_once_witness:
  "\<exists>s1 s3. connectCoreContractsMainnet (simulated (\<lambda>w. False)) example_config example_core example_lqty
       (Str ''link'') fresh_deployment = (Inr (), s1) \<and> length (sim_sent (world s1)) = 9
    \<and> connectCoreContractsMainnet (simulated (\<lambda>w. False)) example_config example_core example_lqty
       (Str ''link'') s1 = (Inr (), s3) \<and> sim_sent (world s3) = sim_sent (world s1)"
proof -
  have "fst (connectCoreContractsMainnet (simulated (\<lambda>w. False)) example_config example_core example_lqty
       (Str ''link'') fresh_deployment) = Inr ()
    \<and> length (sim_sent (world (snd (connectCoreContractsMainnet (simulated (\<lambda>w. False)) example_config
        example_core example_lqty (Str ''link'') fresh_deployment)))) = 9"
    by code_simp
  then obtain s1 where s1: "connectCoreContractsMainnet (simulated (\<lambda>w. False)) example_config example_core
      example_lqty (Str ''link'') fresh_deployment = (Inr (), s1)" "length (sim_sent (world s1)) = 9"
    by (metis prod.collapse)
  then show ?thesis using connect_core_once [OF simulated_renouncing s1(1), of s1] by blast
qed

definition guarded_matches :: "deploy_list \<Rightarrow> guarded_step \<Rightarrow> bool" where
  "guarded_matches artifacts = (\<lambda>(g, t, method, args).
     case map_of (map (\<lambda>(f, n, a). (n, f)) artifacts) (case t of Core x \<Rightarrow> x | Lqty x \<Rightarrow> x) of
       None \<Rightarrow> False
     | Some f \<Rightarrow> (case setter_parameters f method of None \<Rightarrow> False | Some ps \<Rightarrow> arguments_match ps args))"

text \<open>Of the setters that connect the main network contracts only four are called with the parameters
  that the Solidity contract declares; the other eight calls, among them those of \<open>TroveManager\<close>,
  \<open>BorrowerOperations\<close> and the pools, have the parameter list of an earlier version.\<close>

theorem mainnet_connections_stale:
  "map (\<lambda>(g, t, m, args). t)
     (filter (\<lambda>step. \<not> guarded_matches (mainnet_core tellor @ mainnet_lqty bounty lp multisig) step)
       (mainnet_core_connections link @ mainnet_lqty_connections @ mainnet_lqty_core_connections)) =
   [Core ''troveManager'', Core ''borrowerOperations'', Core ''stabilityPool'', Core ''activePool'',
    Core ''defaultPool'', Core ''collSurplusPool'', Core ''hintHelpers'', Lqty ''lqtyStaking'']"
  by code_simp

end
