(* ===== verification/EthMutants.thy ===== *)
theory EthMutants
  imports TestHelpers_Ops
begin

text \<open>
  \<^verbatim>\<open>eth-mutants-custom\<close>: mutation testing of the Solidity contracts. Mutators find places in the source
  of a contract and replacements for them; every mutation is applied to the file, the tests are run,
  and the file is restored from a baseline copy. The parser, the file copying and globbing, hashing,
  diffing and the test process are parameters; the file system is a map from paths to contents. The
  tests read the files and do not write to the contracts.
\<close>

section \<open>Strings and numbers\<close>

text \<open>\<^verbatim>\<open>text.replace(pattern, replacement)\<close> with a string pattern replaces its first occurrence.\<close>

fun replace_first :: "string \<Rightarrow> string \<Rightarrow> string \<Rightarrow> string" where
  "replace_first pat rep [] = (if pat = [] then rep else [])"
| "replace_first pat rep (c # cs) =
     (if take (length pat) (c # cs) = pat then rep @ drop (length pat) (c # cs)
      else c # replace_first pat rep cs)"

text \<open>The pattern \<^verbatim>\<open>/<[^=]/\<close>, and the same with another character: the character together with one that
  is not an equals sign.\<close>

fun replace_strict :: "char \<Rightarrow> string \<Rightarrow> string \<Rightarrow> string" where
  "replace_strict c rep (x # y # s) =
     (if x = c \<and> y \<noteq> CHR ''='' then rep @ s else x # replace_strict c rep (y # s))"
| "replace_strict c rep s = s"

text \<open>\<^verbatim>\<open>parseInt\<close> reads the longest prefix that is an integer, in base 16 after \<open>0x\<close>; \<open>None\<close> is \<open>NaN\<close>.\<close>

definition parseInt :: "string \<Rightarrow> nat option" where
  "parseInt s =
     (if take 2 s \<in> {''0x'', ''0X''} then
        (let ds = takeWhile (\<lambda>c. hex_digit c \<noteq> None) (drop 2 s) in if ds = [] then None else parse_hex 0 ds)
      else (let ds = takeWhile is_digit s in if ds = [] then None else Some (parse_nat ds)))"

text \<open>The text of an integral number: the shortest digits that denote the same double, in exponential
  form from \<open>10 ^ 21\<close> on. The number of trailing zeros is
  tried from the largest possible one down.\<close>

definition round_digits :: "nat \<Rightarrow> nat \<Rightarrow> nat" where
  "round_digits v e = (v + 10 ^ e div 2) div 10 ^ e"

fun shortest_digits :: "nat \<Rightarrow> nat \<Rightarrow> nat \<times> nat" where
  "shortest_digits v 0 = (v, 0)"
| "shortest_digits v (Suc e) =
     (if to_double (round_digits v (Suc e) * 10 ^ Suc e) = v then (round_digits v (Suc e), Suc e)
      else shortest_digits v e)"

definition number_text :: "nat \<Rightarrow> string" where
  "number_text v =
     (let (d, e) = shortest_digits v (length (show_nat v)); ds = show_nat d; n = length ds + e
      in if v = 0 then ''0''
         else if n \<le> 21 then ds @ replicate e (CHR ''0'')
         else [hd ds] @ (if length ds = 1 then [] else ''.'' @ tl ds) @ ''e+'' @ show_nat (n - 1))"

section \<open>\<^verbatim>\<open>mutation.js\<close>\<close>

type_synonym files = "string \<Rightarrow> string option"

record mutation =
  mfile :: string
  start :: int
  stop :: int
  replacement :: string

definition baselineDir :: string where
  "baselineDir = ''.eth-mutants/baseline''"

definition contractsDir :: string where
  "contractsDir = ''contracts''"

definition defaultContractsGlob :: string where
  "defaultContractsGlob = ''*.sol''"

text \<open>\<open>substring\<close> clamps its bounds to the string.\<close>

definition splice :: "string \<Rightarrow> int \<Rightarrow> int \<Rightarrow> string \<Rightarrow> string" where
  "splice str from len rep = take (nat from) str @ rep @ drop (nat (from + len)) str"

definition applyToString :: "mutation \<Rightarrow> string \<Rightarrow> string" where
  "applyToString m original = splice original (start m) (stop m - start m) (replacement m)"

record tools =
  sha1 :: "string \<Rightarrow> string"
  diffLines :: "string \<Rightarrow> string \<Rightarrow> (bool \<times> bool \<times> string) list" \<comment> \<open>added, removed, value\<close>
  createPatch :: "string \<Rightarrow> string \<Rightarrow> string \<Rightarrow> string"
  chalk :: "string \<Rightarrow> string \<Rightarrow> string"

definition hash :: "tools \<Rightarrow> mutation \<Rightarrow> string" where
  "hash t m =
     take 8 (sha1 t (join_strings '':'' [mfile m, show_int (start m), show_int (stop m), replacement m]))"

definition baseline :: "mutation \<Rightarrow> string" where
  "baseline m = baselineDir @ drop (length contractsDir) (mfile m)"

record 'w session =
  files :: files
  survived :: "mutation list"
  killed :: "mutation list"
  out :: "string list"
  tests :: 'w

type_synonym ('w, 'a) run = "('w session, 'a) io"

definition readFile :: "string \<Rightarrow> ('w, string) run" where
  "readFile path = bind_io get_io (\<lambda>s. case files s path of
     None \<Rightarrow> throw_io (Error (''ENOENT: no such file or directory, open '' @ path))
   | Some c \<Rightarrow> return_io c)"

definition writeFile :: "string \<Rightarrow> string \<Rightarrow> ('w, unit) run" where
  "writeFile path content = modify_io (\<lambda>s. s\<lparr>files := (files s)(path \<mapsto> content)\<rparr>)"

definition emit :: "string \<Rightarrow> ('w, unit) run" where
  "emit msg = modify_io (\<lambda>s. s\<lparr>out := out s @ [msg]\<rparr>)"

definition apply_mutation :: "mutation \<Rightarrow> ('w, unit) run" where
  "apply_mutation m =
     bind_io (readFile (mfile m)) (\<lambda>original. writeFile (mfile m) (applyToString m original))"

definition restore :: "mutation \<Rightarrow> ('w, unit) run" where
  "restore m =
     bind_io (emit (''Restoring '' @ mfile m)) (\<lambda>_.
     bind_io (readFile (baseline m)) (\<lambda>original. writeFile (mfile m) original))"

definition diff :: "tools \<Rightarrow> mutation \<Rightarrow> ('w, string) run" where
  "diff t m =
     bind_io (readFile (baseline m)) (\<lambda>original.
       return_io (concat (map (\<lambda>(added, removed, v).
           let color = (if added then ''green'' else if removed then ''red'' else ''grey'')
           in if added \<or> removed then chalk t color v else [])
         (diffLines t original (applyToString m original)))))"

definition patch :: "tools \<Rightarrow> mutation \<Rightarrow> ('w, string) run" where
  "patch t m =
     bind_io (readFile (baseline m)) (\<lambda>original.
       return_io (createPatch t (mfile m) original (applyToString m original)))"

section \<open>The mutators\<close>

text \<open>The nodes of the syntax tree that the mutators look at; ranges include their last position.\<close>

datatype node =
    BinaryOperation string "int \<times> int" "int \<times> int"  \<comment> \<open>operator, ranges of the operands\<close>
  | BooleanLiteral bool "int \<times> int"
  | NumberLiteral string bool "int \<times> int"  \<comment> \<open>text, has a subdenomination, range\<close>

definition between :: "string \<Rightarrow> int \<times> int \<Rightarrow> int \<times> int \<Rightarrow> string" where
  "between source left right = js_slice (snd left + 1) (fst right) source"

definition boundary_text :: "string \<Rightarrow> string \<Rightarrow> string option" where
  "boundary_text operator text =
     (if operator = ''<'' then Some (replace_strict (CHR ''<'') ''<= '' text)
      else if operator = ''>'' then Some (replace_strict (CHR ''>'') ''>= '' text)
      else if operator = ''<='' then Some (replace_first ''<='' ''<'' text)
      else if operator = ''>='' then Some (replace_first ''>='' ''>'' text)
      else None)"

definition inversion_text :: "string \<Rightarrow> string \<Rightarrow> string option" where
  "inversion_text operator text =
     (if operator = ''<'' then Some (replace_first ''<'' ''>'' text)
      else if operator = ''>'' then Some (replace_first ''>'' ''<'' text)
      else if operator = ''<='' then Some (replace_first ''<='' ''>='' text)
      else if operator = ''>='' then Some (replace_first ''>='' ''<='' text)
      else if operator = ''=='' then Some (replace_first ''=='' ''!='' text)
      else if operator = ''!='' then Some (replace_first ''!='' ''=='' text)
      else None)"

text \<open>A replacement that is undefined or empty makes no mutation.\<close>

definition operator_mutation ::
  "(string \<Rightarrow> string \<Rightarrow> string option) \<Rightarrow> string \<Rightarrow> string \<Rightarrow> node \<Rightarrow> mutation list" where
  "operator_mutation rewrite path source n =
     (case n of
        BinaryOperation operator left right \<Rightarrow>
          (case rewrite operator (between source left right) of
             None \<Rightarrow> []
           | Some r \<Rightarrow> if r = [] then []
               else [\<lparr>mfile = path, start = snd left + 1, stop = fst right, replacement = r\<rparr>])
      | _ \<Rightarrow> [])"

definition ConditionalBoundaryMutator :: "string \<Rightarrow> string \<Rightarrow> node \<Rightarrow> mutation list" where
  "ConditionalBoundaryMutator = operator_mutation boundary_text"

definition ConditionalInversionMutator :: "string \<Rightarrow> string \<Rightarrow> node \<Rightarrow> mutation list" where
  "ConditionalInversionMutator = operator_mutation inversion_text"

definition BooleanMutator :: "string \<Rightarrow> string \<Rightarrow> node \<Rightarrow> mutation list" where
  "BooleanMutator path source n =
     (case n of
        BooleanLiteral v r \<Rightarrow>
          [\<lparr>mfile = path, start = fst r, stop = snd r + 1, replacement = (if v then ''false'' else ''true'')\<rparr>]
      | _ \<Rightarrow> [])"

definition increased_text :: "string \<Rightarrow> string" where
  "increased_text number =
     (if number = ''1e18'' then ''1e19''
      else case parseInt number of None \<Rightarrow> ''1'' | Some v \<Rightarrow> number_text (to_double (to_double v + 1)))"

definition decreased_text :: "string \<Rightarrow> string" where
  "decreased_text number =
     (if number = ''1e18'' then ''1e17''
      else case parseInt number of
             None \<Rightarrow> ''0''
           | Some v \<Rightarrow> if to_double v = 0 then ''-1'' else number_text (to_double (to_double v - 1)))"

definition NumberIncreaseMutator :: "string \<Rightarrow> string \<Rightarrow> node \<Rightarrow> mutation list" where
  "NumberIncreaseMutator path source n =
     (case n of
        NumberLiteral number subdenomination r \<Rightarrow>
          if subdenomination then []
          else [\<lparr>mfile = path, start = fst r, stop = snd r + 1, replacement = increased_text number\<rparr>]
      | _ \<Rightarrow> [])"

definition NumberDecreaseMutator :: "string \<Rightarrow> string \<Rightarrow> node \<Rightarrow> mutation list" where
  "NumberDecreaseMutator path source n =
     (case n of
        NumberLiteral number subdenomination r \<Rightarrow>
          [\<lparr>mfile = path, start = fst r, stop = snd r + 1, replacement = decreased_text number\<rparr>]
      | _ \<Rightarrow> [])"

text \<open>Each mutator visits the whole tree, one after the other.\<close>

definition CompositeMutator ::
  "(string \<Rightarrow> string \<Rightarrow> node \<Rightarrow> mutation list) list \<Rightarrow> string \<Rightarrow> string \<Rightarrow> node list \<Rightarrow> mutation list" where
  "CompositeMutator mutators path source nodes =
     concat (map (\<lambda>mutator. concat (map (mutator path source) nodes)) mutators)"

definition all_mutators :: "(string \<Rightarrow> string \<Rightarrow> node \<Rightarrow> mutation list) list" where
  "all_mutators =
    [ConditionalBoundaryMutator, ConditionalInversionMutator, BooleanMutator, NumberIncreaseMutator,
     NumberDecreaseMutator]"

section \<open>\<^verbatim>\<open>reporter.js\<close>\<close>

text \<open>The emoji of the messages, in UTF-8.\<close>

definition alien_monster :: string where
  "alien_monster = [CHR 0xF0, CHR 0x9F, CHR 0x91, CHR 0xBE]"

definition flexed_biceps :: string where
  "flexed_biceps = [CHR 0xF0, CHR 0x9F, CHR 0x92, CHR 0xAA]"

definition formatMutant :: "tools \<Rightarrow> mutation \<Rightarrow> string" where
  "formatMutant t m = chalk t ''green'' (hash t m)"

definition beginMutant :: "tools \<Rightarrow> mutation \<Rightarrow> ('w, unit) run" where
  "beginMutant t m =
     bind_io (emit (''Applying mutation '' @ hash t m @ '' to '' @ mfile m)) (\<lambda>_.
     bind_io (diff t m) (\<lambda>d.
     bind_io (emit d) (\<lambda>_.
     emit (''Running tests for mutation '' @ hash t m))))"

definition mutantSurvived :: "tools \<Rightarrow> mutation \<Rightarrow> ('w, unit) run" where
  "mutantSurvived t m =
     bind_io (modify_io (\<lambda>s. s\<lparr>survived := survived s @ [m]\<rparr>)) (\<lambda>_.
     emit ('' '' @ alien_monster @ '' Mutant '' @ formatMutant t m @ '' survived testing.''))"

definition mutantKilled :: "tools \<Rightarrow> mutation \<Rightarrow> ('w, unit) run" where
  "mutantKilled t m =
     bind_io (modify_io (\<lambda>s. s\<lparr>killed := killed s @ [m]\<rparr>)) (\<lambda>_.
     emit ('' '' @ flexed_biceps @ '' Mutant '' @ formatMutant t m @ '' was killed by tests.''))"

definition summary :: "tools \<Rightarrow> ('w, unit) run" where
  "summary t =
     bind_io get_io (\<lambda>s.
     bind_io (emit (show_nat (length (survived s)) @ '' mutants survived testing, ''
       @ show_nat (length (killed s)) @ '' mutants killed.'')) (\<lambda>_.
     emit (''Survivors: '' @ join_strings '', '' (map (formatMutant t) (survived s)))))"

section \<open>\<^verbatim>\<open>commands.js\<close>\<close>

record 'w environment =
  copyContracts :: "files \<Rightarrow> files"  \<comment> \<open>\<^verbatim>\<open>mkdirp\<close> and \<open>copy\<close> from the contracts to the baseline\<close>
  glob :: "string \<Rightarrow> files \<Rightarrow> string list res"
  parse :: "string \<Rightarrow> node list res"  \<comment> \<open>the visited nodes of the tree, in the order of the visit\<close>
  spawnTests :: "string list \<Rightarrow> files \<Rightarrow> 'w \<Rightarrow> bool \<times> 'w"  \<comment> \<open>whether the status is 0\<close>

definition prepare :: "'w environment \<Rightarrow> ('w, unit) run" where
  "prepare e = modify_io (\<lambda>s. s\<lparr>files := copyContracts e (files s)\<rparr>)"

definition generateAllMutations :: "'w environment \<Rightarrow> string list \<Rightarrow> ('w, mutation list) run" where
  "generateAllMutations e paths =
     bind_io (mapM_io (\<lambda>path.
       bind_io (readFile path) (\<lambda>source.
       bind_io (lift_io (parse e source)) (\<lambda>nodes.
       return_io (CompositeMutator all_mutators path source nodes)))) paths) (\<lambda>ms.
     return_io (concat ms))"

definition runTests :: "'w environment \<Rightarrow> string list \<Rightarrow> ('w, bool) run" where
  "runTests e testFilePaths =
     bind_io (emit ''args are:'') (\<lambda>_.
     bind_io (forM_io (''test'' # testFilePaths) emit) (\<lambda>_.
     bind_io get_io (\<lambda>s.
     case spawnTests e (''test'' # testFilePaths) (files s) (tests s) of
       (passed, w) \<Rightarrow> bind_io (modify_io (\<lambda>s. s\<lparr>tests := w\<rparr>)) (\<lambda>_. return_io passed))))"

text \<open>The loop over the mutations; \<open>Some n\<close> is the status of a \<^verbatim>\<open>process.exit\<close>.\<close>

fun test_loop ::
  "tools \<Rightarrow> 'w environment \<Rightarrow> bool \<Rightarrow> string list \<Rightarrow> mutation list \<Rightarrow> ('w, int option) run" where
  "test_loop t e failfast paths [] = return_io None"
| "test_loop t e failfast paths (m # ms) =
     bind_io (apply_mutation m) (\<lambda>_.
     bind_io (beginMutant t m) (\<lambda>_.
     bind_io (runTests e paths) (\<lambda>result.
       if result then
         bind_io (mutantSurvived t m) (\<lambda>_.
           if failfast then return_io (Some 1)
           else bind_io (restore m) (\<lambda>_. test_loop t e failfast paths ms))
       else
         bind_io (mutantKilled t m) (\<lambda>_.
         bind_io (restore m) (\<lambda>_. test_loop t e failfast paths ms)))))"

definition getContractsGlob :: "string list \<Rightarrow> string" where
  "getContractsGlob argv =
     ''/'' @ (if 3 < length argv \<and> argv ! 3 \<noteq> [] then argv ! 3 else defaultContractsGlob)"

definition getTestFilePaths :: "string list \<Rightarrow> ('w, string list) run" where
  "getTestFilePaths argv =
     (let paths = map (\<lambda>a. ''./test/'' @ a)
                    (filter (\<lambda>a. string_includes a ''Test'' \<and> string_includes a ''.js'') argv)
      in bind_io (emit ''paths are:'') (\<lambda>_.
         bind_io (forM_io paths emit) (\<lambda>_. return_io paths)))"

definition test :: "tools \<Rightarrow> 'w environment \<Rightarrow> string list \<Rightarrow> bool \<Rightarrow> ('w, int option) run" where
  "test t e argv failfast =
     bind_io (getTestFilePaths argv) (\<lambda>testFilePaths.
     bind_io (prepare e) (\<lambda>_.
     bind_io get_io (\<lambda>s.
     case glob e (contractsDir @ getContractsGlob argv) (files s) of
       Inl err \<Rightarrow> bind_io (emit (to_string (message_of err))) (\<lambda>_. return_io (Some 1))
     | Inr paths \<Rightarrow>
         bind_io (generateAllMutations e paths) (\<lambda>mutations.
         bind_io (test_loop t e failfast testFilePaths mutations) (\<lambda>exit.
           case exit of
             Some n \<Rightarrow> return_io (Some n)
           | None \<Rightarrow> bind_io (summary t) (\<lambda>_. return_io None))))))"

text \<open>The body of \<open>preflight\<close> waits for the copy, so the test files are printed before it runs. It
  ignores an error of \<open>glob\<close>, whose list of files is then undefined.\<close>

definition preflight :: "tools \<Rightarrow> 'w environment \<Rightarrow> string list \<Rightarrow> ('w, unit) run" where
  "preflight t e argv =
     bind_io (getTestFilePaths argv) (\<lambda>_.
     bind_io (prepare e) (\<lambda>_.
     bind_io get_io (\<lambda>s.
     case glob e (contractsDir @ getContractsGlob argv) (files s) of
       Inl err \<Rightarrow> throw_io (TypeError ''files is not iterable'')
     | Inr paths \<Rightarrow>
         bind_io (generateAllMutations e paths) (\<lambda>mutations.
         bind_io (emit (show_nat (length mutations) @ '' possible mutations found.'')) (\<lambda>_.
         bind_io (emit ''---'') (\<lambda>_.
         forM_io mutations (\<lambda>m.
           bind_io (emit (mfile m @ '':'' @ hash t m @ '':'')) (\<lambda>_.
           bind_io (diff t m) emit))))))))"

end
