(* ===== verification/EthMutants_Props.thy ===== *)
theory EthMutants_Props
  imports EthMutants
begin

text \<open>
  Mutation testing: the loop over the mutations refines a specification without a file system, in which
  every mutation is judged on the original contracts with that one file changed; and the operator
  mutators replace the operator of the expression and nothing else.
\<close>

section \<open>The loop over the mutations\<close>

text \<open>The contracts with one mutation applied, and the verdicts of the tests on them.\<close>

definition mutated :: "files \<Rightarrow> mutation \<Rightarrow> files" where
  "mutated fs m = fs(mfile m \<mapsto> applyToString m (the (fs (mfile m))))"

fun verdicts :: "'w environment \<Rightarrow> string list \<Rightarrow> files \<Rightarrow> mutation list \<Rightarrow> 'w \<Rightarrow> bool list \<times> 'w" where
  "verdicts e paths fs [] w = ([], w)"
| "verdicts e paths fs (m # ms) w =
     (case spawnTests e (''test'' # paths) (mutated fs m) w of
        (passed, w') \<Rightarrow> (case verdicts e paths fs ms w' of (vs, w'') \<Rightarrow> (passed # vs, w'')))"

text \<open>Every mutated file is a contract that agrees with its baseline copy.\<close>

definition copied :: "files \<Rightarrow> mutation \<Rightarrow> bool" where
  "copied fs m \<longleftrightarrow> take (length contractsDir) (mfile m) = contractsDir \<and> fs (mfile m) \<noteq> None
     \<and> fs (baseline m) = fs (mfile m)"

lemma baseline_no_contract: "take (length contractsDir) path = contractsDir \<Longrightarrow> baseline m \<noteq> path"
  by (auto simp: baseline_def baselineDir_def contractsDir_def)

lemma emit_run: "emit msg s = (Inr (), s\<lparr>out := out s @ [msg]\<rparr>)"
  by (simp add: emit_def)

lemma bind_emit [io_simps]: "bind_io (emit msg) f s = f () (s\<lparr>out := out s @ [msg]\<rparr>)"
  by (simp add: bind_io_def emit_run)

lemma readFile_run: "files s path = Some c \<Longrightarrow> readFile path s = (Inr c, s)"
  by (simp add: readFile_def)

lemma bind_readFile: "files s path = Some c \<Longrightarrow> bind_io (readFile path) f s = f c s"
  by (simp add: bind_io_def readFile_run)

lemma writeFile_run [io_simps]: "writeFile path c s = (Inr (), s\<lparr>files := (files s)(path \<mapsto> c)\<rparr>)"
  by (simp add: writeFile_def)

lemma forM_emit: "\<exists>msgs. forM_io xs emit s = (Inr (), s\<lparr>out := out s @ msgs\<rparr>)"
proof (induction xs arbitrary: s)
  case Nil
  show ?case by (auto intro: exI [of _ "[]"])
next
  case (Cons x xs)
  from Cons [of "s\<lparr>out := out s @ [x]\<rparr>"] show ?case by (auto simp: io_simps)
qed

lemma beginMutant_run:
  assumes "files s (baseline m) = Some c"
  shows "\<exists>msgs. beginMutant t m s = (Inr (), s\<lparr>out := out s @ msgs\<rparr>)"
  using assms by (auto simp: beginMutant_def diff_def bind_io_assoc io_simps emit_run bind_readFile)

lemma runTests_run:
  "\<exists>msgs. runTests e paths s =
     (case spawnTests e (''test'' # paths) (files s) (tests s) of
        (passed, w) \<Rightarrow> (Inr passed, s\<lparr>out := out s @ msgs, tests := w\<rparr>))"
proof -
  obtain msgs where "forM_io (''test'' # paths) emit (s\<lparr>out := out s @ [''args are:'']\<rparr>) =
      (Inr (), s\<lparr>out := out s @ msgs\<rparr>)"
    using forM_emit [of "''test'' # paths" "s\<lparr>out := out s @ [''args are:'']\<rparr>"] by auto
  then show ?thesis
    by (auto simp: runTests_def io_simps bind_io_run(1) split: prod.splits intro!: exI [of _ msgs])
qed

lemma apply_mutation_run:
  "copied (files s) m \<Longrightarrow> apply_mutation m s = (Inr (), s\<lparr>files := mutated (files s) m\<rparr>)"
  by (auto simp: apply_mutation_def copied_def bind_readFile io_simps mutated_def)

lemma restore_run:
  assumes "copied fs m" and "files s = mutated fs m"
  shows "\<exists>msgs. restore m s = (Inr (), s\<lparr>files := fs, out := out s @ msgs\<rparr>)"
proof -
  obtain c where c: "fs (mfile m) = Some c"
    using assms(1) by (auto simp: copied_def)
  moreover have "files s (baseline m) = Some c"
    using assms c by (auto simp: copied_def mutated_def baseline_no_contract)
  moreover have "(files s)(mfile m \<mapsto> c) = fs"
    using c assms(2) by (auto simp: mutated_def)
  ultimately show ?thesis
    by (intro exI [of _ "[''Restoring '' @ mfile m]"]) (cases s, simp add: restore_def io_simps bind_readFile)
qed

text \<open>The state after a mutation was judged and its file restored.\<close>

definition judged :: "mutation \<Rightarrow> bool \<Rightarrow> 'w \<Rightarrow> string list \<Rightarrow> 'w session \<Rightarrow> 'w session" where
  "judged m passed w msgs s =
     s\<lparr>survived := survived s @ (if passed then [m] else []), killed := killed s @ (if passed then [] else [m]),
       out := out s @ msgs, tests := w\<rparr>"

lemma test_loop_step:
  assumes copied: "copied (files s) m"
    and spawn: "spawnTests e (''test'' # paths) (mutated (files s) m) (tests s) = (passed, w)"
  shows "\<exists>msgs. test_loop t e ff paths (m # ms) s =
    (if passed \<and> ff then (Inr (Some 1), (judged m passed w msgs s)\<lparr>files := mutated (files s) m\<rparr>)
     else test_loop t e ff paths ms (judged m passed w msgs s))"
proof -
  let ?s1 = "s\<lparr>files := mutated (files s) m\<rparr>"
  obtain c where "files ?s1 (baseline m) = Some c"
    using copied by (auto simp: copied_def mutated_def baseline_no_contract)
  then obtain msgs1 where b: "beginMutant t m ?s1 = (Inr (), ?s1\<lparr>out := out s @ msgs1\<rparr>)"
    using beginMutant_run [of ?s1 m c t] by auto
  obtain msgs2 where r: "runTests e paths (?s1\<lparr>out := out s @ msgs1\<rparr>) =
      (Inr passed, ?s1\<lparr>out := out s @ msgs1 @ msgs2, tests := w\<rparr>)"
    using runTests_run [of e paths "?s1\<lparr>out := out s @ msgs1\<rparr>"] spawn by auto
  let ?msg = "'' '' @ (if passed then alien_monster else flexed_biceps) @ '' Mutant '' @ formatMutant t m
    @ (if passed then '' survived testing.'' else '' was killed by tests.'')"
  let ?s2 = "(judged m passed w (msgs1 @ msgs2 @ [?msg]) s)\<lparr>files := mutated (files s) m\<rparr>"
  obtain msgs3 where "restore m ?s2 = (Inr (), ?s2\<lparr>files := files s, out := out ?s2 @ msgs3\<rparr>)"
    using restore_run [OF copied, of ?s2] by auto
  then have restore: "restore m ?s2 = (Inr (), judged m passed w (msgs1 @ msgs2 @ ?msg # msgs3) s)"
    by (cases s) (simp add: judged_def)
  have verdict: "(if passed then mutantSurvived t m else mutantKilled t m)
      (?s1\<lparr>out := out s @ msgs1 @ msgs2, tests := w\<rparr>) = (Inr (), ?s2)"
    by (cases s) (simp add: mutantSurvived_def mutantKilled_def emit_run judged_def)
  let ?run = "test_loop t e ff paths (m # ms) s"
  show ?thesis
  proof (cases "passed \<and> ff")
    case True
    then have "?run = (Inr (Some 1), ?s2)"
      using apply_mutation_run [OF copied] b r verdict by (simp add: bind_io_run(1))
    with True show ?thesis by auto
  next
    case False
    then have "?run = test_loop t e ff paths ms (judged m passed w (msgs1 @ msgs2 @ ?msg # msgs3) s)"
      using apply_mutation_run [OF copied] b r verdict restore
      by (cases passed) (simp_all add: bind_io_run(1) del: append.simps append_Cons)
    with False show ?thesis by auto
  qed
qed

lemma judged_select [simp]:
  "files (judged m p w msgs s) = files s" "tests (judged m p w msgs s) = w"
  "survived (judged m p w msgs s) = survived s @ (if p then [m] else [])"
  "killed (judged m p w msgs s) = killed s @ (if p then [] else [m])"
  by (simp_all add: judged_def)

text \<open>The mutations of a list that have the verdict given.\<close>

definition with_verdict :: "bool \<Rightarrow> mutation list \<Rightarrow> bool list \<Rightarrow> mutation list" where
  "with_verdict v ms vs = map fst (filter (\<lambda>(_, p). p = v) (zip ms vs))"

lemma with_verdict_simps [simp]:
  "with_verdict v [] vs = []"
  "with_verdict v (m # ms) (p # vs) = (if p = v then [m] else []) @ with_verdict v ms vs"
  by (auto simp: with_verdict_def)

lemma verdicts_snoc:
  "verdicts e paths fs (ks @ [m]) w = (vs @ [v], w') \<Longrightarrow>
   \<exists>w1. verdicts e paths fs ks w = (vs, w1) \<and> spawnTests e (''test'' # paths) (mutated fs m) w1 = (v, w')"
proof (induction ks arbitrary: w vs)
  case Nil
  then show ?case by (auto split: prod.splits)
next
  case (Cons k ks)
  obtain p w1 where p: "spawnTests e (''test'' # paths) (mutated fs k) w = (p, w1)" by force
  obtain us w2 where us: "verdicts e paths fs (ks @ [m]) w1 = (us, w2)" by force
  then have "us \<noteq> []" by (cases ks) (auto split: prod.splits)
  with p us Cons.prems obtain vs' where "vs = p # vs'" "us = vs' @ [v]" "w2 = w'"
    by (cases vs) auto
  with Cons.IH [of w1 vs'] us p show ?case by auto
qed

lemma test_loop_complete:
  assumes "\<forall>m\<in>set ms. copied (files s) m" and "verdicts e paths (files s) ms (tests s) = (vs, w)"
    and "ff \<longrightarrow> True \<notin> set vs"
  shows "\<exists>s'. test_loop t e ff paths ms s = (Inr None, s') \<and> files s' = files s \<and> tests s' = w
     \<and> survived s' = survived s @ with_verdict True ms vs
     \<and> killed s' = killed s @ with_verdict False ms vs"
  using assms
proof (induction ms arbitrary: s vs)
  case Nil
  then show ?case by simp
next
  case (Cons m ms)
  obtain p w1 where p: "spawnTests e (''test'' # paths) (mutated (files s) m) (tests s) = (p, w1)"
    by force
  with Cons.prems obtain vs' where vs: "vs = p # vs'" "verdicts e paths (files s) ms w1 = (vs', w)"
    by (auto split: prod.splits)
  obtain msgs where step: "test_loop t e ff paths (m # ms) s = test_loop t e ff paths ms (judged m p w1 msgs s)"
    using test_loop_step [OF _ p, of t ff ms] Cons.prems vs by auto
  show ?case
    using Cons.IH [of "judged m p w1 msgs s" vs'] Cons.prems vs step by auto
qed

lemma test_loop_failfast:
  assumes "\<forall>m\<in>set (ks @ m # ms). copied (files s) m"
    and "verdicts e paths (files s) ks (tests s) = (vs, w)" and "True \<notin> set vs"
    and "spawnTests e (''test'' # paths) (mutated (files s) m) w = (True, w')"
  shows "\<exists>s'. test_loop t e True paths (ks @ m # ms) s = (Inr (Some 1), s')
     \<and> files s' = mutated (files s) m \<and> tests s' = w'
     \<and> survived s' = survived s @ [m] \<and> killed s' = killed s @ ks"
  using assms
proof (induction ks arbitrary: s vs)
  case Nil
  then show ?case
    using test_loop_step [of s m e paths True w' t True ms] by (auto simp del: test_loop.simps)
next
  case (Cons k ks)
  obtain p w1 where p: "spawnTests e (''test'' # paths) (mutated (files s) k) (tests s) = (p, w1)"
    by force
  with Cons.prems obtain vs' where vs: "vs = p # vs'" "verdicts e paths (files s) ks w1 = (vs', w)" "\<not> p"
    by (auto split: prod.splits)
  obtain msgs where step: "test_loop t e True paths ((k # ks) @ m # ms) s =
      test_loop t e True paths (ks @ m # ms) (judged k p w1 msgs s)"
    using test_loop_step [OF _ p, of t True "ks @ m # ms"] Cons.prems vs by auto
  show ?case
    using Cons.IH [of "judged k p w1 msgs s" vs'] Cons.prems vs step by auto
qed

section \<open>The whole command\<close>

text \<open>The mutations of a file, and the paths of the test files named on the command line.\<close>

definition mutations_of :: "'w environment \<Rightarrow> files \<Rightarrow> string \<Rightarrow> mutation list" where
  "mutations_of e fs path =
     (case fs path of
        None \<Rightarrow> []
      | Some source \<Rightarrow> (case parse e source of Inl _ \<Rightarrow> [] | Inr nodes \<Rightarrow> CompositeMutator all_mutators path source nodes))"

definition test_paths :: "string list \<Rightarrow> string list" where
  "test_paths argv =
     map (\<lambda>a. ''./test/'' @ a) (filter (\<lambda>a. string_includes a ''Test'' \<and> string_includes a ''.js'') argv)"

text \<open>A contract that can be tested: it lies under the contracts, its baseline copy agrees with it, and it
  parses.\<close>

definition testable :: "'w environment \<Rightarrow> files \<Rightarrow> string \<Rightarrow> bool" where
  "testable e fs path \<longleftrightarrow>
     take (length contractsDir) path = contractsDir
     \<and> fs (baselineDir @ drop (length contractsDir) path) = fs path
     \<and> (case fs path of None \<Rightarrow> False | Some source \<Rightarrow> \<not> isl (parse e source))"

lemma mutations_of_file: "m \<in> set (mutations_of e fs path) \<Longrightarrow> mfile m = path"
  by (auto simp: mutations_of_def CompositeMutator_def all_mutators_def ConditionalBoundaryMutator_def
      ConditionalInversionMutator_def operator_mutation_def BooleanMutator_def NumberIncreaseMutator_def
      NumberDecreaseMutator_def split: option.splits sum.splits node.splits if_splits)

lemma testable_copied: "testable e fs path \<Longrightarrow> m \<in> set (mutations_of e fs path) \<Longrightarrow> copied fs m"
  by (auto simp: testable_def copied_def baseline_def mutations_of_file split: option.splits)

lemma generateAllMutations_run:
  assumes "\<forall>path\<in>set paths. testable e (files s) path"
  shows "generateAllMutations e paths s = (Inr (concat (map (mutations_of e (files s)) paths)), s)"
proof -
  let ?one = "\<lambda>path. bind_io (readFile path) (\<lambda>source. bind_io (lift_io (parse e source)) (\<lambda>nodes.
    return_io (CompositeMutator all_mutators path source nodes)))"
  have one: "?one path s = (Inr (mutations_of e (files s) path), s)" if "testable e (files s) path" for path
    using that by (auto simp: testable_def bind_readFile mutations_of_def split: option.splits sum.splits)
  have "mapM_io ?one paths s = (Inr (map (mutations_of e (files s)) paths), s)"
    using assms by (induction paths) (simp_all add: bind_io_run(1) one)
  then show ?thesis by (simp add: generateAllMutations_def bind_io_run(1))
qed

lemma test_run:
  assumes "glob e (contractsDir @ getContractsGlob argv) (copyContracts e (files s)) = Inr paths"
    and "\<forall>path\<in>set paths. testable e (copyContracts e (files s)) path"
  shows "\<exists>msgs. test t e argv ff s =
    bind_io (test_loop t e ff (test_paths argv) (concat (map (mutations_of e (copyContracts e (files s))) paths)))
      (\<lambda>exit. case exit of Some n \<Rightarrow> return_io (Some n) | None \<Rightarrow> bind_io (summary t) (\<lambda>_. return_io None))
      (s\<lparr>out := out s @ msgs, files := copyContracts e (files s)\<rparr>)"
proof -
  obtain msgs where "forM_io (test_paths argv) emit (s\<lparr>out := out s @ [''paths are:'']\<rparr>) =
      (Inr (), s\<lparr>out := out s @ msgs\<rparr>)"
    using forM_emit [of "test_paths argv" "s\<lparr>out := out s @ [''paths are:'']\<rparr>"] by auto
  then have "getTestFilePaths argv s = (Inr (test_paths argv), s\<lparr>out := out s @ msgs\<rparr>)"
    by (simp only: getTestFilePaths_def test_paths_def [symmetric] Let_def bind_emit bind_io_run(1) io_run)
  then show ?thesis
    using assms generateAllMutations_run [of paths e "s\<lparr>out := out s @ msgs, files := copyContracts e (files s)\<rparr>"]
    by (intro exI [of _ msgs]) (simp add: test_def prepare_def bind_io_run(1))
qed

lemma summary_run: "\<exists>msgs. summary t s = (Inr (), s\<lparr>out := out s @ msgs\<rparr>)"
  by (auto simp: summary_def bind_emit emit_run)


text \<open>With failfast, the first survivor ends the process with status 1 before its file is restored:
  the contracts on disk keep that mutation.\<close>

theorem failfast_leaves_mutant:
  assumes "glob e (contractsDir @ getContractsGlob argv) (copyContracts e (files s)) = Inr paths"
    and "\<forall>path\<in>set paths. testable e (copyContracts e (files s)) path"
    and "concat (map (mutations_of e (copyContracts e (files s))) paths) = ks @ m # ms"
    and "verdicts e (test_paths argv) (copyContracts e (files s)) (ks @ [m]) (tests s) = (vs @ [True], w)"
    and "True \<notin> set vs"
  shows "\<exists>s'. test t e argv True s = (Inr (Some 1), s')
    \<and> files s' = mutated (copyContracts e (files s)) m
    \<and> survived s' = survived s @ [m] \<and> killed s' = killed s @ ks"
proof -
  let ?fs = "copyContracts e (files s)"
  obtain msgs where run: "test t e argv True s =
      bind_io (test_loop t e True (test_paths argv) (ks @ m # ms))
        (\<lambda>exit. case exit of Some n \<Rightarrow> return_io (Some n) | None \<Rightarrow> bind_io (summary t) (\<lambda>_. return_io None))
        (s\<lparr>out := out s @ msgs, files := ?fs\<rparr>)"
    using test_run [OF assms(1,2), of t True] unfolding assms(3) by blast
  obtain w1 where v: "verdicts e (test_paths argv) ?fs ks (tests s) = (vs, w1)"
      "spawnTests e (''test'' # test_paths argv) (mutated ?fs m) w1 = (True, w)"
    using verdicts_snoc [OF assms(4)] by blast
  have "\<forall>k\<in>set (concat (map (mutations_of e ?fs) paths)). copied ?fs k"
    using assms(2) by (auto intro: testable_copied)
  then have "\<forall>k\<in>set (ks @ m # ms). copied ?fs k"
    using assms(3) by simp
  then show ?thesis
    using run v assms(5)
      test_loop_failfast [of ks m ms "s\<lparr>out := out s @ msgs, files := ?fs\<rparr>" e "test_paths argv" vs w1 w t]
    by (auto simp: bind_io_run(1))
qed

section \<open>An example\<close>

text \<open>One contract with one comparison, and tests that notice the inverted comparison only.\<close>

definition example_tools :: tools where
  "example_tools = \<lparr>sha1 = (\<lambda>s. s), diffLines = (\<lambda>_ _. []), createPatch = (\<lambda>_ _ _. []), chalk = (\<lambda>_ s. s)\<rparr>"

definition example_environment :: "unit environment" where
  "example_environment =
     \<lparr>copyContracts = (\<lambda>fs. fs(''.eth-mutants/baseline/A.sol'' := fs ''contracts/A.sol'')),
      glob = (\<lambda>_ _. Inr [''contracts/A.sol'']),
      parse = (\<lambda>_. Inr [BinaryOperation ''<'' (0, 0) (4, 4)]),
      spawnTests = (\<lambda>_ fs w. (fs ''contracts/A.sol'' \<noteq> Some ''a > b'', w))\<rparr>"

definition example_session :: "unit session" where
  "example_session = \<lparr>files = [''contracts/A.sol'' \<mapsto> ''a < b''], survived = [], killed = [], out = [], tests = ()\<rparr>"

abbreviation example_mutation :: "string \<Rightarrow> mutation" where
  "example_mutation r \<equiv> \<lparr>mfile = ''contracts/A.sol'', start = 1, stop = 4, replacement = r\<rparr>"

definition example_files :: files where
  "example_files = [''contracts/A.sol'' \<mapsto> ''a < b'', ''.eth-mutants/baseline/A.sol'' \<mapsto> ''a < b'']"

lemma example_files: "copyContracts example_environment (files example_session) = example_files"
  by (simp add: example_environment_def example_session_def example_files_def)

lemma example_testable: "testable example_environment example_files ''contracts/A.sol''"
  by (simp add: testable_def example_environment_def example_files_def contractsDir_def baselineDir_def)

lemma example_mutations:
  "mutations_of example_environment example_files ''contracts/A.sol'' =
     [example_mutation '' <= '', example_mutation '' > '']"
  by (simp add: mutations_of_def example_environment_def example_files_def CompositeMutator_def all_mutators_def
      ConditionalBoundaryMutator_def ConditionalInversionMutator_def operator_mutation_def BooleanMutator_def
      NumberIncreaseMutator_def NumberDecreaseMutator_def boundary_text_def inversion_text_def between_def js_slice_def)

lemma example_verdicts:
  "verdicts example_environment (test_paths []) example_files
     [example_mutation '' <= '', example_mutation '' > ''] () = ([True, False], ())"
  by (simp add: test_paths_def example_environment_def example_files_def mutated_def applyToString_def splice_def)

lemma example_mutated:
  "verdicts example_environment (test_paths []) example_files [example_mutation '' <= ''] () = ([True], ())"
  "mutated example_files (example_mutation '' <= '') ''contracts/A.sol'' = Some ''a <= b''"
  "mutated example_files (example_mutation '' <= '') ''.eth-mutants/baseline/A.sol'' = Some ''a < b''"
  by (simp_all add: test_paths_def example_environment_def example_files_def mutated_def applyToString_def splice_def)

lemma example_select:
  "glob example_environment p fs = Inr [''contracts/A.sol'']"
  "survived example_session = []" "killed example_session = []" "tests example_session = ()"
  by (simp_all add: example_environment_def example_session_def)

lemmas example_run = example_files example_testable example_mutations example_verdicts example_mutated example_select


theorem failfast_leaves_mutant_witness:
  "\<exists>s'. test example_tools example_environment [] True example_session = (Inr (Some 1), s')
    \<and> files s' ''contracts/A.sol'' = Some ''a <= b''
    \<and> files s' ''.eth-mutants/baseline/A.sol'' = Some ''a < b''"
  using failfast_leaves_mutant [of example_environment "[]" example_session "[''contracts/A.sol'']" "[]"
      "example_mutation '' <= ''" "[example_mutation '' > '']" "[]" "()" example_tools]
  by (auto simp: example_run simp del: verdicts.simps)

section \<open>The operator mutators\<close>

definition operators :: "string set" where
  "operators = {''<'', ''>'', ''<='', ''>='', ''=='', ''!=''}"

fun inverse_operator :: "string \<Rightarrow> string" where
  "inverse_operator op =
     (if op = ''<'' then ''>'' else if op = ''>'' then ''<'' else if op = ''<='' then ''>=''
      else if op = ''>='' then ''<='' else if op = ''=='' then ''!='' else ''=='')"

text \<open>The text between two operands, and the node for it: \<open>a\<close> ends with the left operand, \<open>b\<close> starts with
  the right one.\<close>

definition comparison :: "string \<Rightarrow> string \<Rightarrow> string \<Rightarrow> int \<Rightarrow> int \<Rightarrow> node" where
  "comparison op a gap i j =
     BinaryOperation op (i, int (length a) - 1) (int (length a) + int (length gap), j)"

definition no_operator :: "string \<Rightarrow> bool" where
  "no_operator ws \<longleftrightarrow> set ws \<inter> set ''<>=!'' = {}"

lemma replace_first_skip:
  assumes "pat \<noteq> []" and "hd pat \<notin> set ws"
  shows "replace_first pat rep (ws @ pat @ s) = ws @ rep @ s"
  using assms(2)
proof (induction ws)
  case Nil
  with assms(1) show ?case by (cases pat) auto
next
  case (Cons w ws)
  then have "take (length pat) ((w # ws) @ pat @ s) \<noteq> pat"
    using assms(1) by (cases pat) auto
  with Cons show ?case by simp
qed

lemma replace_strict_skip:
  assumes "c \<notin> set ws" and "w \<noteq> CHR ''=''"
  shows "replace_strict c rep (ws @ c # w # s) = ws @ rep @ s"
  using assms(1)
proof (induction ws)
  case (Cons x xs)
  then show ?case by (cases "xs @ c # w # s") auto
qed (use assms(2) in simp)

lemma replace_strict_last: "c \<notin> set ws \<Longrightarrow> replace_strict c rep (ws @ [c]) = ws @ [c]"
proof (induction ws)
  case (Cons x xs)
  then show ?case by (cases "xs @ [c]") auto
qed simp

lemma between_comparison:
  "comparison op a gap i j = BinaryOperation op left right \<Longrightarrow> between (a @ gap @ b) left right = gap"
  by (auto simp: comparison_def between_def js_slice_def Let_def)

lemma operator_mutation_comparison:
  assumes "rewrite op gap = Some r" and "r \<noteq> []"
  shows "\<exists>m. operator_mutation rewrite path (a @ gap @ b) (comparison op a gap i j) = [m] \<and> mfile m = path
    \<and> applyToString m (a @ gap @ b) = a @ r @ b"
proof -
  obtain left right where n: "comparison op a gap i j = BinaryOperation op left right"
    by (auto simp: comparison_def)
  then have "snd left + 1 = int (length a)" "fst right = int (length a) + int (length gap)"
    by (auto simp: comparison_def)
  with n assms between_comparison [OF n] show ?thesis
    by (auto simp: operator_mutation_def applyToString_def splice_def nat_add_distrib)
qed

lemma inversion_text_alt:
  "op \<in> operators \<Longrightarrow> inversion_text op text = Some (replace_first op (inverse_operator op) text)"
  by (auto simp: operators_def inversion_text_def)

lemma inversion_text_operator:
  assumes "op \<in> operators" and "no_operator ws1"
  shows "inversion_text op (ws1 @ op @ ws2) = Some (ws1 @ inverse_operator op @ ws2)"
proof -
  have "op \<noteq> []" "hd op \<notin> set ws1"
    using assms by (auto simp: operators_def no_operator_def)
  then show ?thesis
    unfolding inversion_text_alt [OF assms(1)] by (simp add: replace_first_skip del: inverse_operator.simps)
qed

text \<open>For a comparison whose operator stands between two stretches without operator characters,
  the conditional inversion mutator makes one mutation; applied to the source it replaces the operator
  by its inverse and nothing else, and the inverse of the inverse is the operator again.\<close>

theorem inversion_replaces_operator:
  assumes "op \<in> operators" and "no_operator ws1"
  shows "\<exists>m. ConditionalInversionMutator path (a @ (ws1 @ op @ ws2) @ b) (comparison op a (ws1 @ op @ ws2) i j) = [m]
    \<and> mfile m = path \<and> applyToString m (a @ (ws1 @ op @ ws2) @ b) = a @ (ws1 @ inverse_operator op @ ws2) @ b
    \<and> inverse_operator op \<in> operators \<and> inverse_operator op \<noteq> op \<and> inverse_operator (inverse_operator op) = op"
proof -
  have "inverse_operator op \<in> operators \<and> inverse_operator op \<noteq> op \<and> inverse_operator (inverse_operator op) = op
      \<and> inverse_operator op \<noteq> []"
    using assms(1) by (auto simp: operators_def)
  then show ?thesis
    using operator_mutation_comparison [of inversion_text op "ws1 @ op @ ws2" "ws1 @ inverse_operator op @ ws2"
        path a b i j] inversion_text_operator [OF assms, of ws2]
    by (simp add: ConditionalInversionMutator_def del: inverse_operator.simps)
qed

theorem inversion_replaces_operator_witness:
  "\<exists>m. ConditionalInversionMutator ''contracts/A.sol'' (''a'' @ ('' '' @ ''<='' @ '' '') @ ''b'')
      (comparison ''<='' ''a'' ('' '' @ ''<='' @ '' '') 0 5) = [m]
    \<and> applyToString m ''a <= b'' = ''a >= b''"
  using inversion_replaces_operator [of "''<=''" "'' ''" "''contracts/A.sol''" "''a''" "'' ''" "''b''" 0 5]
  by (auto simp: operators_def no_operator_def)

text \<open>The conditional boundary mutator turns a weak comparison into the strict one, and a strict
  comparison followed by a character other than the equals sign into the weak one, with a space in place
  of that character. A strict operator right before its right operand is not matched: the mutation leaves
  the source as it is.\<close>

theorem boundary_moves_operator:
  assumes "(strict, weak) \<in> {(''<'', ''<=''), (''>'', ''>='')}" and "no_operator ws1" and "w \<noteq> CHR ''=''"
  shows "(\<exists>m. ConditionalBoundaryMutator path (a @ (ws1 @ weak @ ws2) @ b) (comparison weak a (ws1 @ weak @ ws2) i j) = [m]
      \<and> applyToString m (a @ (ws1 @ weak @ ws2) @ b) = a @ (ws1 @ strict @ ws2) @ b)
    \<and> (\<exists>m. ConditionalBoundaryMutator path (a @ (ws1 @ strict @ w # ws2) @ b)
        (comparison strict a (ws1 @ strict @ w # ws2) i j) = [m]
      \<and> applyToString m (a @ (ws1 @ strict @ w # ws2) @ b) = a @ (ws1 @ weak @ '' '' @ ws2) @ b)
    \<and> (\<exists>m. ConditionalBoundaryMutator path (a @ (ws1 @ strict) @ b) (comparison strict a (ws1 @ strict) i j) = [m]
      \<and> applyToString m (a @ (ws1 @ strict) @ b) = a @ (ws1 @ strict) @ b)"
proof -
  have hd: "weak \<noteq> []" "hd weak \<notin> set ws1" "strict = [hd strict]" "hd strict \<notin> set ws1"
    using assms(1,2) by (auto simp: no_operator_def)
  have rewrite: "boundary_text weak t = Some (replace_first weak strict t)"
      "boundary_text strict t = Some (replace_strict (hd strict) (weak @ '' '') t)" for t
    using assms(1) by (auto simp: boundary_text_def)
  have weak: "boundary_text weak (ws1 @ weak @ ws2) = Some (ws1 @ strict @ ws2)"
    using hd(1,2) by (simp add: rewrite replace_first_skip)
  have strict: "boundary_text strict (ws1 @ strict @ w # ws2) = Some (ws1 @ weak @ '' '' @ ws2)"
    using replace_strict_skip [OF hd(4) assms(3), of "weak @ '' ''" ws2] hd(3)
    by (metis append.assoc append_Cons append_Nil rewrite(2))
  have last: "boundary_text strict (ws1 @ strict) = Some (ws1 @ strict)"
    using replace_strict_last [OF hd(4)] hd(3) rewrite(2) by metis
  have "ws1 @ strict @ ws2 \<noteq> []" "ws1 @ strict \<noteq> []" "ws1 @ weak @ '' '' @ ws2 \<noteq> []"
    using hd(3) by auto
  then show ?thesis
    unfolding ConditionalBoundaryMutator_def
    using operator_mutation_comparison [of boundary_text, OF weak, of path a b i j]
      operator_mutation_comparison [of boundary_text, OF strict, of path a b i j]
      operator_mutation_comparison [of boundary_text, OF last, of path a b i j] by blast
qed

theorem boundary_moves_operator_witness:
  "(\<exists>m. ConditionalBoundaryMutator ''A'' (''a'' @ ('' '' @ ''<='' @ '' '') @ ''b'') (comparison ''<='' ''a'' ('' '' @ ''<='' @ '' '') 0 5) = [m]
      \<and> applyToString m ''a <= b'' = ''a < b'')
    \<and> (\<exists>m. ConditionalBoundaryMutator ''A'' (''a'' @ ('' '' @ ''<'') @ ''b'') (comparison ''<'' ''a'' ('' '' @ ''<'') 0 3) = [m]
      \<and> applyToString m ''a <b'' = ''a <b'')"
  using boundary_moves_operator [of "''<''" "''<=''" "'' ''" "CHR '' ''" "''A''" "''a''" "'' ''" "''b''" 0 5]
    boundary_moves_operator [of "''<''" "''<=''" "'' ''" "CHR '' ''" "''A''" "''a''" "'' ''" "''b''" 0 3]
  by (simp add: no_operator_def)

end
