(* ===== verification/SortedTroves.thy ===== *)
theory SortedTroves
  imports Prelude
begin

text \<open>
  \<^verbatim>\<open>SortedTroves.sol\<close>: the doubly linked list of Troves in descending order of their nominal
  collateral ratio, which the hints of the SDK refer to. The mapping of nodes is a total function whose
  default is the zero node; a revert is an error. The nominal ratios come from the TroveManager, a
  parameter. A search that does not end is \<open>None\<close>, which a caller sees as running out of gas.
\<close>

definition AddressZero :: string where
  "AddressZero = ''0x0000000000000000000000000000000000000000''"

record node =
  node_exists :: bool
  nextId :: string
  prevId :: string

record sorted_troves =
  head :: string
  tail :: string
  maxSize :: nat
  list_size :: nat
  nodes :: "string \<Rightarrow> node"
  owner :: string
  troveManager :: string
  borrowerOperationsAddress :: string

definition zero_node :: node where
  "zero_node = \<lparr>node_exists = False, nextId = AddressZero, prevId = AddressZero\<rparr>"

abbreviation upd_node :: "string \<Rightarrow> (node \<Rightarrow> node) \<Rightarrow> sorted_troves \<Rightarrow> sorted_troves" where
  "upd_node x f s \<equiv> s\<lparr>nodes := (nodes s)(x := f (nodes s x))\<rparr>"

definition require_sol :: "string \<Rightarrow> bool \<Rightarrow> unit res" where
  "require_sol msg b = (if b then Inr () else Inl (Error msg))"

section \<open>Views\<close>

definition contains :: "sorted_troves \<Rightarrow> string \<Rightarrow> bool" where
  "contains s x = node_exists (nodes s x)"

definition isFull :: "sorted_troves \<Rightarrow> bool" where
  "isFull s \<longleftrightarrow> list_size s = maxSize s"

definition isEmpty :: "sorted_troves \<Rightarrow> bool" where
  "isEmpty s \<longleftrightarrow> list_size s = 0"

definition getFirst :: "sorted_troves \<Rightarrow> string" where
  "getFirst s = head s"

definition getLast :: "sorted_troves \<Rightarrow> string" where
  "getLast s = tail s"

definition getNext :: "sorted_troves \<Rightarrow> string \<Rightarrow> string" where
  "getNext s x = nextId (nodes s x)"

definition getPrev :: "sorted_troves \<Rightarrow> string \<Rightarrow> string" where
  "getPrev s x = prevId (nodes s x)"

definition validInsertPosition ::
  "sorted_troves \<Rightarrow> (string \<Rightarrow> nat) \<Rightarrow> nat \<Rightarrow> string \<Rightarrow> string \<Rightarrow> bool" where
  "validInsertPosition s getNominalICR NICR p n =
     (if p = AddressZero \<and> n = AddressZero then isEmpty s
      else if p = AddressZero then head s = n \<and> getNominalICR n \<le> NICR
      else if n = AddressZero then tail s = p \<and> NICR \<le> getNominalICR p
      else nextId (nodes s p) = n \<and> NICR \<le> getNominalICR p \<and> getNominalICR n \<le> NICR)"

section \<open>The searches\<close>

partial_function (option) descend_loop ::
  "sorted_troves \<Rightarrow> (string \<Rightarrow> nat) \<Rightarrow> nat \<Rightarrow> string \<Rightarrow> string \<Rightarrow> (string \<times> string) option" where
  [code]: "descend_loop s getNominalICR NICR p n =
     (if p \<noteq> AddressZero \<and> \<not> validInsertPosition s getNominalICR NICR p n
      then descend_loop s getNominalICR NICR (nextId (nodes s p)) (nextId (nodes s (nextId (nodes s p))))
      else Some (p, n))"

definition descendList ::
  "sorted_troves \<Rightarrow> (string \<Rightarrow> nat) \<Rightarrow> nat \<Rightarrow> string \<Rightarrow> (string \<times> string) option" where
  "descendList s getNominalICR NICR startId =
     (if head s = startId \<and> getNominalICR startId \<le> NICR then Some (AddressZero, startId)
      else descend_loop s getNominalICR NICR startId (nextId (nodes s startId)))"

partial_function (option) ascend_loop ::
  "sorted_troves \<Rightarrow> (string \<Rightarrow> nat) \<Rightarrow> nat \<Rightarrow> string \<Rightarrow> string \<Rightarrow> (string \<times> string) option" where
  [code]: "ascend_loop s getNominalICR NICR p n =
     (if n \<noteq> AddressZero \<and> \<not> validInsertPosition s getNominalICR NICR p n
      then ascend_loop s getNominalICR NICR (prevId (nodes s (prevId (nodes s n)))) (prevId (nodes s n))
      else Some (p, n))"

definition ascendList ::
  "sorted_troves \<Rightarrow> (string \<Rightarrow> nat) \<Rightarrow> nat \<Rightarrow> string \<Rightarrow> (string \<times> string) option" where
  "ascendList s getNominalICR NICR startId =
     (if tail s = startId \<and> NICR \<le> getNominalICR startId then Some (startId, AddressZero)
      else ascend_loop s getNominalICR NICR (prevId (nodes s startId)) startId)"

definition findInsertPosition ::
  "sorted_troves \<Rightarrow> (string \<Rightarrow> nat) \<Rightarrow> nat \<Rightarrow> string \<Rightarrow> string \<Rightarrow> (string \<times> string) option" where
  "findInsertPosition s getNominalICR NICR p n =
     (let p = (if p \<noteq> AddressZero \<and> (\<not> contains s p \<or> getNominalICR p < NICR) then AddressZero else p);
          n = (if n \<noteq> AddressZero \<and> (\<not> contains s n \<or> NICR < getNominalICR n) then AddressZero else n)
      in if p = AddressZero \<and> n = AddressZero then descendList s getNominalICR NICR (head s)
         else if p = AddressZero then ascendList s getNominalICR NICR n
         else if n = AddressZero then descendList s getNominalICR NICR p
         else descendList s getNominalICR NICR p)"

section \<open>Changes\<close>

text \<open>\<open>SafeMath\<close>: an addition that overflows and a subtraction below zero revert.\<close>

definition safe_add :: "nat \<Rightarrow> nat \<Rightarrow> nat res" where
  "safe_add a b = (if a + b < 2 ^ 256 then Inr (a + b) else Inl (Error ''SafeMath: addition overflow''))"

definition safe_sub :: "nat \<Rightarrow> nat \<Rightarrow> nat res" where
  "safe_sub a b = (if b \<le> a then Inr (a - b) else Inl (Error ''SafeMath: subtraction overflow''))"

definition setParams ::
  "(string \<Rightarrow> unit res) \<Rightarrow> string \<Rightarrow> nat \<Rightarrow> string \<Rightarrow> string \<Rightarrow> sorted_troves \<Rightarrow> sorted_troves res" where
  "setParams checkContract sender max_size troveM borrowerO s =
     bind_res (require_sol ''Ownable: caller is not the owner'' (sender = owner s)) (\<lambda>_.
     bind_res (require_sol ''SortedTroves: Size can't be zero'' (0 < max_size)) (\<lambda>_.
     bind_res (checkContract troveM) (\<lambda>_.
     bind_res (checkContract borrowerO) (\<lambda>_.
       Inr (s\<lparr>maxSize := max_size, troveManager := troveM, borrowerOperationsAddress := borrowerO,
              owner := AddressZero\<rparr>)))))"

definition link :: "string \<Rightarrow> string \<Rightarrow> string \<Rightarrow> sorted_troves \<Rightarrow> sorted_troves" where
  "link x p n s =
     (let s = upd_node x (\<lambda>d. d\<lparr>node_exists := True\<rparr>) s
      in if p = AddressZero \<and> n = AddressZero then s\<lparr>head := x, tail := x\<rparr>
         else if p = AddressZero then
           (let s = upd_node x (\<lambda>d. d\<lparr>nextId := head s\<rparr>) s;
                s = upd_node (head s) (\<lambda>d. d\<lparr>prevId := x\<rparr>) s
            in s\<lparr>head := x\<rparr>)
         else if n = AddressZero then
           (let s = upd_node x (\<lambda>d. d\<lparr>prevId := tail s\<rparr>) s;
                s = upd_node (tail s) (\<lambda>d. d\<lparr>nextId := x\<rparr>) s
            in s\<lparr>tail := x\<rparr>)
         else
           (let s = upd_node x (\<lambda>d. d\<lparr>nextId := n\<rparr>) s;
                s = upd_node x (\<lambda>d. d\<lparr>prevId := p\<rparr>) s;
                s = upd_node p (\<lambda>d. d\<lparr>nextId := x\<rparr>) s
            in upd_node n (\<lambda>d. d\<lparr>prevId := x\<rparr>) s))"

definition insert_node ::
  "(string \<Rightarrow> nat) \<Rightarrow> string \<Rightarrow> nat \<Rightarrow> string \<Rightarrow> string \<Rightarrow> sorted_troves \<Rightarrow> sorted_troves res" where
  "insert_node getNominalICR x NICR p n s =
     bind_res (require_sol ''SortedTroves: List is full'' (\<not> isFull s)) (\<lambda>_.
     bind_res (require_sol ''SortedTroves: List already contains the node'' (\<not> contains s x)) (\<lambda>_.
     bind_res (require_sol ''SortedTroves: Id cannot be zero'' (x \<noteq> AddressZero)) (\<lambda>_.
     bind_res (require_sol ''SortedTroves: NICR must be positive'' (0 < NICR)) (\<lambda>_.
     bind_res (if validInsertPosition s getNominalICR NICR p n then Inr (p, n)
               else (case findInsertPosition s getNominalICR NICR p n of
                       None \<Rightarrow> Inl (Error ''out of gas'')
                     | Some q \<Rightarrow> Inr q)) (\<lambda>(p, n).
     bind_res (safe_add (list_size s) 1) (\<lambda>k.
       Inr ((link x p n s)\<lparr>list_size := k\<rparr>)))))))"

definition unlink :: "string \<Rightarrow> sorted_troves \<Rightarrow> sorted_troves" where
  "unlink x s =
     (if 1 < list_size s then
        if x = head s then
          (let s = s\<lparr>head := nextId (nodes s x)\<rparr>
           in upd_node (head s) (\<lambda>d. d\<lparr>prevId := AddressZero\<rparr>) s)
        else if x = tail s then
          (let s = s\<lparr>tail := prevId (nodes s x)\<rparr>
           in upd_node (tail s) (\<lambda>d. d\<lparr>nextId := AddressZero\<rparr>) s)
        else
          (let s = upd_node (prevId (nodes s x)) (\<lambda>d. d\<lparr>nextId := nextId (nodes s x)\<rparr>) s
           in upd_node (nextId (nodes s x)) (\<lambda>d. d\<lparr>prevId := prevId (nodes s x)\<rparr>) s)
      else s\<lparr>head := AddressZero, tail := AddressZero\<rparr>)"

definition remove_node :: "string \<Rightarrow> sorted_troves \<Rightarrow> sorted_troves res" where
  "remove_node x s =
     bind_res (require_sol ''SortedTroves: List does not contain the id'' (contains s x)) (\<lambda>_.
     bind_res (safe_sub (list_size s) 1) (\<lambda>k.
       Inr ((upd_node x (\<lambda>_. zero_node) (unlink x s))\<lparr>list_size := k\<rparr>)))"

definition requireCallerIsTroveManager :: "string \<Rightarrow> sorted_troves \<Rightarrow> unit res" where
  "requireCallerIsTroveManager sender s =
     require_sol ''SortedTroves: Caller is not the TroveManager'' (sender = troveManager s)"

definition requireCallerIsBOorTroveM :: "string \<Rightarrow> sorted_troves \<Rightarrow> unit res" where
  "requireCallerIsBOorTroveM sender s =
     require_sol ''SortedTroves: Caller is neither BO nor TroveM''
       (sender = borrowerOperationsAddress s \<or> sender = troveManager s)"

definition insert_trove ::
  "(string \<Rightarrow> nat) \<Rightarrow> string \<Rightarrow> string \<Rightarrow> nat \<Rightarrow> string \<Rightarrow> string \<Rightarrow> sorted_troves \<Rightarrow> sorted_troves res" where
  "insert_trove getNominalICR sender x NICR p n s =
     bind_res (requireCallerIsBOorTroveM sender s) (\<lambda>_. insert_node getNominalICR x NICR p n s)"

definition remove_trove :: "string \<Rightarrow> string \<Rightarrow> sorted_troves \<Rightarrow> sorted_troves res" where
  "remove_trove sender x s = bind_res (requireCallerIsTroveManager sender s) (\<lambda>_. remove_node x s)"

definition reInsert ::
  "(string \<Rightarrow> nat) \<Rightarrow> string \<Rightarrow> string \<Rightarrow> nat \<Rightarrow> string \<Rightarrow> string \<Rightarrow> sorted_troves \<Rightarrow> sorted_troves res" where
  "reInsert getNominalICR sender x newNICR p n s =
     bind_res (requireCallerIsBOorTroveM sender s) (\<lambda>_.
     bind_res (require_sol ''SortedTroves: List does not contain the id'' (contains s x)) (\<lambda>_.
     bind_res (require_sol ''SortedTroves: NICR must be positive'' (0 < newNICR)) (\<lambda>_.
     bind_res (remove_node x s) (\<lambda>s. insert_node getNominalICR x newNICR p n s))))"

end
