(* ===== verification/Ethers.thy ===== *)
theory Ethers
  imports JsValue Deposits Trove_Change SortedTroves "HOL-Library.AList"
begin

text \<open>
  What the SDK (\<^verbatim>\<open>lib-ethers\<close>) builds on: the connection, the contract wrapper of
  \<^verbatim>\<open>contracts.ts\<close> and the conversions of \<^verbatim>\<open>_utils.ts\<close>. The provider is a record of parameters: contract
  calls, gas estimates, the parser of logs, sending and waiting. A populated transaction is the call it
  encodes. Values of contracts are the dynamically typed \<open>val\<close>, an ethers \<open>BigNumber\<close> being a \<open>BN\<close>.
\<close>

type_synonym overrides = "(string \<times> val) list"

record log =
  log_address :: string
  log_data :: val

record raw_receipt =
  rx_status :: bool
  rx_logs :: "log list"
  rx_from :: string

text \<open>An error of \<open>wait\<close>; \<open>None\<close> for a property that the error does not have.\<close>

record wait_error =
  err_code :: "string option"
  err_reason :: "string option"
  err_cancelled :: bool
  err_receipt :: raw_receipt

record populated =
  tx_contract :: string
  tx_method :: string
  tx_args :: "val list"
  tx_overrides :: overrides

record 'w ethers =
  ethers_call :: "string \<Rightarrow> string \<Rightarrow> val list \<Rightarrow> overrides \<Rightarrow> ('w, val) io"
  estimateGas :: "string \<Rightarrow> string \<Rightarrow> val list \<Rightarrow> overrides \<Rightarrow> ('w, int) io"
  contractAddress :: "string \<Rightarrow> string"
  parse_log :: "string \<Rightarrow> log \<Rightarrow> (string \<times> val) res"
  sendTransaction :: "populated \<Rightarrow> ('w, string) io"
  wait_tx :: "string \<Rightarrow> int option \<Rightarrow> 'w \<Rightarrow> (wait_error + raw_receipt option) \<times> 'w"
  timestampOf :: "val \<Rightarrow> ('w, int) io"
  getBalance :: "string \<Rightarrow> val \<Rightarrow> ('w, val) io"
  randomInteger :: "('w, int) io"

record connection =
  hasSigner :: bool
  userAddress :: "string option"
  frontendTag :: "string option"
  totalStabilityPoolLQTYReward :: decimal
  priceFeedIsTestnet :: bool
  uniTokenIsMock :: bool

text \<open>A property of the overrides, \<open>Undefined\<close> if it is missing.\<close>

definition override :: "overrides \<Rightarrow> string \<Rightarrow> val" where
  "override ov k = (case map_of ov k of None \<Rightarrow> Undefined | Some v \<Rightarrow> v)"

section \<open>\<^verbatim>\<open>_utils.ts\<close>\<close>

definition numberify :: "val \<Rightarrow> int res" where
  "numberify v = bind_res (as_BN v) (\<lambda>i.
     if \<bar>i\<bar> \<le> 2 ^ 53 - 1 then Inr i else Inl (Error ''overflow''))"

definition decimalify :: "val \<Rightarrow> decimal res" where
  "decimalify v = bind_res (as_BN v) fromBigNumberString"

text \<open>\<open>toHexString\<close> has an even number of digits.\<close>

fun hex_digits :: "nat \<Rightarrow> string" where
  "hex_digits n = (if n < 16 then [''0123456789abcdef'' ! n] else hex_digits (n div 16) @ [''0123456789abcdef'' ! (n mod 16)])"

declare hex_digits.simps [simp del]

definition toHexString :: "nat \<Rightarrow> string" where
  "toHexString n = (let h = hex_digits n in ''0x'' @ (if odd (length h) then ''0'' else []) @ h)"

definition Decimal_hex :: "decimal \<Rightarrow> val" where
  "Decimal_hex d = Str (toHexString (bigNumber d))"

section \<open>\<^verbatim>\<open>EthersLiquityConnection.ts\<close>\<close>

definition requireSigner :: "connection \<Rightarrow> unit res" where
  "requireSigner c = (if hasSigner c then Inr () else Inl (Error ''Must be connected through a Signer''))"

definition requireAddress :: "connection \<Rightarrow> overrides \<Rightarrow> string res" where
  "requireAddress c ov =
     (if override ov ''from'' \<noteq> Undefined then as_Str (override ov ''from'')
      else case userAddress c of Some a \<Rightarrow> Inr a | None \<Rightarrow> Inl (Error ''A user address is required''))"

definition requireFrontendAddress :: "connection \<Rightarrow> string res" where
  "requireFrontendAddress c =
     (case frontendTag c of Some a \<Rightarrow> Inr a | None \<Rightarrow> Inl (Error ''A frontend address is required''))"

text \<open>\<^verbatim>\<open>address ??= _requireAddress(this.connection)\<close>\<close>

definition default_address :: "connection \<Rightarrow> string option \<Rightarrow> string res" where
  "default_address c address = (case address of Some a \<Rightarrow> Inr a | None \<Rightarrow> requireAddress c [])"

section \<open>\<^verbatim>\<open>contracts.ts\<close>\<close>

definition populateTransaction :: "string \<Rightarrow> string \<Rightarrow> val list \<Rightarrow> overrides \<Rightarrow> populated" where
  "populateTransaction contract fn args ov =
     \<lparr>tx_contract = contract, tx_method = fn, tx_args = args, tx_overrides = ov\<rparr>"

definition estimateAndPopulate ::
  "'w ethers \<Rightarrow> string \<Rightarrow> string \<Rightarrow> overrides \<Rightarrow> (int \<Rightarrow> int) \<Rightarrow> val list \<Rightarrow> ('w, populated) io" where
  "estimateAndPopulate e contract fn ov adjustEstimate args =
     (if override ov ''gasLimit'' = Undefined then
        bind_io (estimateGas e contract fn args ov) (\<lambda>estimatedGas.
          return_io (populateTransaction contract fn args
            (AList.update ''gasLimit'' (BN (adjustEstimate estimatedGas)) ov)))
      else return_io (populateTransaction contract fn args ov))"

definition extractEvents :: "'w ethers \<Rightarrow> string \<Rightarrow> log list \<Rightarrow> string \<Rightarrow> val list res" where
  "extractEvents e contract logs name =
     bind_res (map_res (parse_log e contract) (filter (\<lambda>l. log_address l = contractAddress e contract) logs))
       (\<lambda>events. Inr (map snd (filter (\<lambda>ev. fst ev = name) events)))"

end
