(* ===== verification/Readable.thy ===== *)
theory Readable
  imports Ethers Store
begin

text \<open>
  \<^verbatim>\<open>ReadableEthersLiquity.ts\<close>: reading the state of the protocol from the contracts. Calls that the
  source starts together are made in the order in which it names them; they only read.
\<close>

definition MINUTE_DECAY_FACTOR :: decimal where
  "MINUTE_DECAY_FACTOR = Decimal 999037758833783000"

definition BETA :: decimal where
  "BETA = Decimal (2 * 10 ^ 18)"

definition userTroveStatusFrom :: "int \<Rightarrow> user_trove_status res" where
  "userTroveStatusFrom backendStatus =
     (if backendStatus = 0 then Inr NonExistent
      else if backendStatus = 1 then Inr Open
      else if backendStatus = 2 then Inr ClosedByOwner
      else if backendStatus = 3 then Inr ClosedByLiquidation
      else if backendStatus = 4 then Inr ClosedByRedemption
      else Inl (Error (''invalid backendStatus '' @ show_int backendStatus)))"

definition convertToDate :: "int \<Rightarrow> int" where
  "convertToDate timestamp = timestamp * 1000"

definition validSortingOptions :: "string list" where
  "validSortingOptions = [''ascendingCollateralRatio'', ''descendingCollateralRatio'']"

definition expectPositiveInt :: "string \<Rightarrow> js_number option \<Rightarrow> unit res" where
  "expectPositiveInt key n =
     (case n of
        None \<Rightarrow> Inr ()
      | Some NonIntegral \<Rightarrow> Inl (Error (key @ '' must be an integer''))
      | Some (Integral i) \<Rightarrow> if i < 0 then Inl (Error (key @ '' must not be negative'')) else Inr ())"

text \<open>A contract call whose result is made a decimal.\<close>

definition call_decimal :: "'w ethers \<Rightarrow> string \<Rightarrow> string \<Rightarrow> val list \<Rightarrow> overrides \<Rightarrow> ('w, decimal) io" where
  "call_decimal e contract fn args ov =
     bind_io (ethers_call e contract fn args ov) (\<lambda>v. lift_io (decimalify v))"

definition call_number :: "'w ethers \<Rightarrow> string \<Rightarrow> string \<Rightarrow> val list \<Rightarrow> overrides \<Rightarrow> ('w, int) io" where
  "call_number e contract fn args ov =
     bind_io (ethers_call e contract fn args ov) (\<lambda>v. lift_io (numberify v))"

text \<open>A property of a result, made a decimal.\<close>

definition prop_decimal :: "val \<Rightarrow> string \<Rightarrow> decimal res" where
  "prop_decimal v k = bind_res (getp v k) decimalify"

definition getTotalRedistributed :: "'w ethers \<Rightarrow> overrides \<Rightarrow> ('w, trove) io" where
  "getTotalRedistributed e ov =
     bind_io (call_decimal e ''troveManager'' ''L_COLL'' [] ov) (\<lambda>c.
     bind_io (call_decimal e ''troveManager'' ''L_LUSDDebt'' [] ov) (\<lambda>d.
     return_io \<lparr>collateral = c, debt = d\<rparr>))"

definition backend_trove :: "string \<Rightarrow> user_trove_status \<Rightarrow> val \<Rightarrow> decimal res \<Rightarrow> decimal res \<Rightarrow> pending_trove res" where
  "backend_trove address st t snapshotColl snapshotDebt =
     bind_res (prop_decimal t ''coll'') (\<lambda>c.
     bind_res (prop_decimal t ''debt'') (\<lambda>d.
     bind_res (prop_decimal t ''stake'') (\<lambda>s.
     bind_res snapshotColl (\<lambda>sc.
     bind_res snapshotDebt (\<lambda>sd.
       Inr \<lparr>collateral = c, debt = d, ownerAddress = address, status = st, stake = s,
            snapshotOfTotalRedistributed = \<lparr>collateral = sc, debt = sd\<rparr>\<rparr>)))))"

definition closed_trove :: "string \<Rightarrow> user_trove_status \<Rightarrow> pending_trove" where
  "closed_trove address st =
     \<lparr>collateral = ZERO, debt = ZERO, ownerAddress = address, status = st, stake = ZERO,
      snapshotOfTotalRedistributed = emptyTrove\<rparr>"

definition getTroveBeforeRedistribution ::
  "'w ethers \<Rightarrow> connection \<Rightarrow> string option \<Rightarrow> overrides \<Rightarrow> ('w, pending_trove) io" where
  "getTroveBeforeRedistribution e c address ov =
     bind_io (lift_io (default_address c address)) (\<lambda>a.
     bind_io (ethers_call e ''troveManager'' ''Troves'' [Str a] ov) (\<lambda>t.
     bind_io (ethers_call e ''troveManager'' ''rewardSnapshots'' [Str a] ov) (\<lambda>snapshot.
     bind_io (lift_io (bind_res (getp t ''status'') as_Num)) (\<lambda>backendStatus.
     bind_io (lift_io (userTroveStatusFrom backendStatus)) (\<lambda>st.
       if backendStatus = 1
       then lift_io (backend_trove a st t (prop_decimal snapshot ''ETH'') (prop_decimal snapshot ''LUSDDebt''))
       else return_io (closed_trove a st))))))"

definition getTrove :: "'w ethers \<Rightarrow> connection \<Rightarrow> string option \<Rightarrow> overrides \<Rightarrow> ('w, user_trove) io" where
  "getTrove e c address ov =
     bind_io (getTroveBeforeRedistribution e c address ov) (\<lambda>t.
     bind_io (getTotalRedistributed e ov) (\<lambda>total.
     lift_io (applyRedistribution t total)))"

definition getNumberOfTroves :: "'w ethers \<Rightarrow> overrides \<Rightarrow> ('w, int) io" where
  "getNumberOfTroves e ov = call_number e ''troveManager'' ''getTroveOwnersCount'' [] ov"

definition getPrice :: "'w ethers \<Rightarrow> overrides \<Rightarrow> ('w, decimal) io" where
  "getPrice e ov = call_decimal e ''priceFeed'' ''fetchPrice'' [] ov"

definition pool_trove :: "'w ethers \<Rightarrow> string \<Rightarrow> overrides \<Rightarrow> ('w, trove) io" where
  "pool_trove e pool ov =
     bind_io (call_decimal e pool ''getCollateral'' [] ov) (\<lambda>c.
     bind_io (call_decimal e pool ''getLUSDDebt'' [] ov) (\<lambda>d.
     return_io \<lparr>collateral = c, debt = d\<rparr>))"

definition getActivePool :: "'w ethers \<Rightarrow> overrides \<Rightarrow> ('w, trove) io" where
  "getActivePool e ov = pool_trove e ''activePool'' ov"

definition getDefaultPool :: "'w ethers \<Rightarrow> overrides \<Rightarrow> ('w, trove) io" where
  "getDefaultPool e ov = pool_trove e ''defaultPool'' ov"

definition getTotal :: "'w ethers \<Rightarrow> overrides \<Rightarrow> ('w, trove) io" where
  "getTotal e ov =
     bind_io (getActivePool e ov) (\<lambda>a.
     bind_io (getDefaultPool e ov) (\<lambda>d.
     lift_io (Trove_add a d)))"

definition getStabilityDeposit ::
  "'w ethers \<Rightarrow> connection \<Rightarrow> string option \<Rightarrow> overrides \<Rightarrow> ('w, stability_deposit) io" where
  "getStabilityDeposit e c address ov =
     bind_io (lift_io (default_address c address)) (\<lambda>a.
     bind_io (ethers_call e ''stabilityPool'' ''deposits'' [Str a] ov) (\<lambda>d.
     bind_io (ethers_call e ''stabilityPool'' ''getCompoundedLUSDDeposit'' [Str a] ov) (\<lambda>current.
     bind_io (ethers_call e ''stabilityPool'' ''getDepositorCollateralGain'' [Str a] ov) (\<lambda>gain.
     bind_io (ethers_call e ''stabilityPool'' ''getDepositorLQTYGain'' [Str a] ov) (\<lambda>reward.
     lift_io (
       bind_res (prop_decimal d ''initialValue'') (\<lambda>i.
       bind_res (decimalify current) (\<lambda>cur.
       bind_res (decimalify gain) (\<lambda>g.
       bind_res (decimalify reward) (\<lambda>r.
       bind_res (bind_res (getp d ''frontEndTag'') as_Str) (\<lambda>tag.
         new_StabilityDeposit i cur g r tag)))))))))))"

definition getRemainingStabilityPoolLQTYReward :: "'w ethers \<Rightarrow> connection \<Rightarrow> overrides \<Rightarrow> ('w, decimal) io" where
  "getRemainingStabilityPoolLQTYReward e c ov =
     bind_io (call_decimal e ''communityIssuance'' ''totalLQTYIssued'' [] ov) (\<lambda>issued.
     lift_io (Decimal_sub (totalStabilityPoolLQTYReward c) (DecimalV issued)))"

definition getLUSDInStabilityPool :: "'w ethers \<Rightarrow> overrides \<Rightarrow> ('w, decimal) io" where
  "getLUSDInStabilityPool e ov = call_decimal e ''stabilityPool'' ''getTotalLUSDDeposits'' [] ov"

text \<open>The reads of a balance of the user: contract, function and the arguments after the address.\<close>

definition user_decimal ::
  "'w ethers \<Rightarrow> connection \<Rightarrow> string \<Rightarrow> string \<Rightarrow> val list \<Rightarrow> string option \<Rightarrow> overrides \<Rightarrow> ('w, decimal) io" where
  "user_decimal e c contract fn args address ov =
     bind_io (lift_io (default_address c address)) (\<lambda>a. call_decimal e contract fn (Str a # args) ov)"

definition getLUSDBalance :: "'w ethers \<Rightarrow> connection \<Rightarrow> string option \<Rightarrow> overrides \<Rightarrow> ('w, decimal) io" where
  "getLUSDBalance e c = user_decimal e c ''lusdToken'' ''balanceOf'' []"

definition getLQTYBalance :: "'w ethers \<Rightarrow> connection \<Rightarrow> string option \<Rightarrow> overrides \<Rightarrow> ('w, decimal) io" where
  "getLQTYBalance e c = user_decimal e c ''lqtyToken'' ''balanceOf'' []"

definition getUniTokenBalance :: "'w ethers \<Rightarrow> connection \<Rightarrow> string option \<Rightarrow> overrides \<Rightarrow> ('w, decimal) io" where
  "getUniTokenBalance e c = user_decimal e c ''uniToken'' ''balanceOf'' []"

definition getUniTokenAllowance :: "'w ethers \<Rightarrow> connection \<Rightarrow> string option \<Rightarrow> overrides \<Rightarrow> ('w, decimal) io" where
  "getUniTokenAllowance e c =
     user_decimal e c ''uniToken'' ''allowance'' [Str (contractAddress e ''unipool'')]"

definition getLiquidityMiningStake :: "'w ethers \<Rightarrow> connection \<Rightarrow> string option \<Rightarrow> overrides \<Rightarrow> ('w, decimal) io" where
  "getLiquidityMiningStake e c = user_decimal e c ''unipool'' ''balanceOf'' []"

definition getLiquidityMiningLQTYReward ::
  "'w ethers \<Rightarrow> connection \<Rightarrow> string option \<Rightarrow> overrides \<Rightarrow> ('w, decimal) io" where
  "getLiquidityMiningLQTYReward e c = user_decimal e c ''unipool'' ''earned'' []"

definition getCollateralSurplusBalance ::
  "'w ethers \<Rightarrow> connection \<Rightarrow> string option \<Rightarrow> overrides \<Rightarrow> ('w, decimal) io" where
  "getCollateralSurplusBalance e c = user_decimal e c ''collSurplusPool'' ''getCollateral'' []"

definition getTotalStakedUniTokens :: "'w ethers \<Rightarrow> overrides \<Rightarrow> ('w, decimal) io" where
  "getTotalStakedUniTokens e ov = call_decimal e ''unipool'' ''totalSupply'' [] ov"

definition getTotalStakedLQTY :: "'w ethers \<Rightarrow> overrides \<Rightarrow> ('w, decimal) io" where
  "getTotalStakedLQTY e ov = call_decimal e ''lqtyStaking'' ''totalLQTYStaked'' [] ov"

text \<open>The remaining reward as a function of the time of a block.\<close>

definition getRemainingLiquidityMiningLQTYRewardCalculator ::
  "'w ethers \<Rightarrow> overrides \<Rightarrow> ('w, int \<Rightarrow> decimal res) io" where
  "getRemainingLiquidityMiningLQTYRewardCalculator e ov =
     bind_io (bind_io (ethers_call e ''unipool'' ''totalSupply'' [] ov) (\<lambda>v. lift_io (as_BN v))) (\<lambda>totalSupply.
     bind_io (call_decimal e ''unipool'' ''rewardRate'' [] ov) (\<lambda>rewardRate.
     bind_io (call_number e ''unipool'' ''periodFinish'' [] ov) (\<lambda>periodFinish.
     bind_io (call_number e ''unipool'' ''lastUpdateTime'' [] ov) (\<lambda>lastUpdateTime.
     return_io (\<lambda>timestamp.
       Decimal_mul rewardRate
         (NumberV (show_int (max 0 (periodFinish - (if totalSupply = 0 then lastUpdateTime else timestamp))))))))))"

definition getBlockTimestamp :: "'w ethers \<Rightarrow> val \<Rightarrow> ('w, int) io" where
  "getBlockTimestamp e tag =
     timestampOf e (if tag = Undefined then Str ''latest'' else tag)"

definition getRemainingLiquidityMiningLQTYReward :: "'w ethers \<Rightarrow> overrides \<Rightarrow> ('w, decimal) io" where
  "getRemainingLiquidityMiningLQTYReward e ov =
     bind_io (getRemainingLiquidityMiningLQTYRewardCalculator e ov) (\<lambda>calculateRemainingLQTY.
     bind_io (getBlockTimestamp e (override ov ''blockTag'')) (\<lambda>timestamp.
     lift_io (calculateRemainingLQTY timestamp)))"

record listing =
  l_first :: js_number
  startingAt :: "js_number option"
  sortedBy :: string
  beforeRedistribution :: bool

definition mapBackendTroves :: "val list \<Rightarrow> pending_trove list res" where
  "mapBackendTroves troves =
     map_res (\<lambda>t.
       bind_res (bind_res (getp t ''owner'') as_Str) (\<lambda>a.
         backend_trove a Open t (prop_decimal t ''snapshotETH'') (prop_decimal t ''snapshotLUSDDebt''))) troves"

definition number_val :: "js_number \<Rightarrow> int" where
  "number_val n = (case n of Integral i \<Rightarrow> i | NonIntegral \<Rightarrow> 0)"

text \<open>The listing; both results are Troves, with the pending redistribution applied unless it is asked for.\<close>

definition getTroves :: "'w ethers \<Rightarrow> listing \<Rightarrow> overrides \<Rightarrow> ('w, pending_trove list + user_trove list) io" where
  "getTroves e params ov =
     bind_io (lift_io (expectPositiveInt ''first'' (Some (l_first params)))) (\<lambda>_.
     bind_io (lift_io (expectPositiveInt ''startingAt'' (startingAt params))) (\<lambda>_.
     if sortedBy params \<notin> set validSortingOptions
     then throw_io (Error (''sortedBy must be one of: ''
       @ join_strings '', '' (map (\<lambda>x. [CHR 0x22] @ x @ [CHR 0x22]) validSortingOptions)))
     else
       let start = (case startingAt params of None \<Rightarrow> 0 | Some n \<Rightarrow> number_val n) in
       bind_io (if beforeRedistribution params then return_io None
                else bind_io (getTotalRedistributed e ov) (\<lambda>t. return_io (Some t))) (\<lambda>totalRedistributed.
       bind_io (ethers_call e ''multiTroveGetter'' ''getMultipleSortedTroves''
         [Num (if sortedBy params = ''descendingCollateralRatio'' then start else - (start + 1)),
          Num (number_val (l_first params))] ov) (\<lambda>backendTroves.
       bind_io (lift_io (bind_res (as_list backendTroves) mapBackendTroves)) (\<lambda>troves.
         case totalRedistributed of
           None \<Rightarrow> return_io (Inl troves)
         | Some redistributed \<Rightarrow>
             bind_io (lift_io (map_res (\<lambda>t. applyRedistribution t redistributed) troves)) (\<lambda>ts. return_io (Inr ts)))))))"

definition getFeesFactory :: "'w ethers \<Rightarrow> overrides \<Rightarrow> ('w, int \<Rightarrow> bool \<Rightarrow> fees res) io" where
  "getFeesFactory e ov =
     bind_io (ethers_call e ''troveManager'' ''lastFeeOperationTime'' [] ov) (\<lambda>lastFeeOperationTime.
     bind_io (call_decimal e ''troveManager'' ''baseRate'' [] ov) (\<lambda>baseRateWithoutDecay.
     return_io (\<lambda>timestamp recoveryMode.
       bind_res (numberify lastFeeOperationTime) (\<lambda>t.
         new_Fees (DecimalV baseRateWithoutDecay) (DecimalV MINUTE_DECAY_FACTOR) (DecimalV BETA)
           (convertToDate t) (convertToDate timestamp) recoveryMode))))"

definition getFees :: "'w ethers \<Rightarrow> overrides \<Rightarrow> ('w, fees) io" where
  "getFees e ov =
     bind_io (getFeesFactory e ov) (\<lambda>createFees.
     bind_io (getTotal e ov) (\<lambda>total.
     bind_io (getPrice e ov) (\<lambda>price.
     bind_io (getBlockTimestamp e (override ov ''blockTag'')) (\<lambda>timestamp.
     bind_io (lift_io (collateralRatioIsBelowCritical total (DecimalV price))) (\<lambda>recoveryMode.
     lift_io (createFees timestamp recoveryMode))))))"

definition getLQTYStake :: "'w ethers \<Rightarrow> connection \<Rightarrow> string option \<Rightarrow> overrides \<Rightarrow> ('w, lqty_stake) io" where
  "getLQTYStake e c address ov =
     bind_io (lift_io (default_address c address)) (\<lambda>a.
     bind_io (call_decimal e ''lqtyStaking'' ''stakes'' [Str a] ov) (\<lambda>staked.
     bind_io (call_decimal e ''lqtyStaking'' ''getPendingETHGain'' [Str a] ov) (\<lambda>gain.
     bind_io (call_decimal e ''lqtyStaking'' ''getPendingLUSDGain'' [Str a] ov) (\<lambda>lusd.
     return_io \<lparr>stakedLQTY = staked, stakeCollateralGain = gain, lusdGain = lusd\<rparr>))))"

definition getFrontendStatus ::
  "'w ethers \<Rightarrow> connection \<Rightarrow> string option \<Rightarrow> overrides \<Rightarrow> ('w, frontend_status) io" where
  "getFrontendStatus e c address ov =
     bind_io (lift_io (case address of Some a \<Rightarrow> Inr a | None \<Rightarrow> requireFrontendAddress c)) (\<lambda>a.
     bind_io (ethers_call e ''stabilityPool'' ''frontEnds'' [Str a] ov) (\<lambda>f.
     lift_io (bind_res (getp f ''registered'') (\<lambda>r.
       if r = Bool True then bind_res (prop_decimal f ''kickbackRate'') (\<lambda>k. Inr (Registered k))
       else Inr Unregistered))))"

end
