(* ===== verification/Populatable.thy ===== *)
theory Populatable
  imports Readable
begin

text \<open>
  \<^verbatim>\<open>PopulatableEthersLiquity.ts\<close>: preparing the transactions of the protocol. A prepared transaction is
  the populated call with the function that extracts the details from its receipt; hints for the sorted
  list of Troves are found by sampling and one search, and the gas limit is estimated with headroom
  for the decay of the borrowing fee.
\<close>

section \<open>Constants and helpers\<close>

definition bigNumberMax :: "int \<Rightarrow> int option \<Rightarrow> int" where
  "bigNumberMax a b = (case b of None \<Rightarrow> a | Some b \<Rightarrow> if a < b then b else a)"

definition redeemMaxIterations :: int where
  "redeemMaxIterations = 70"

definition defaultBorrowingRateSlippageTolerance :: decimal where
  "defaultBorrowingRateSlippageTolerance = Decimal (5 * 10 ^ 15)"

definition defaultRedemptionRateSlippageTolerance :: decimal where
  "defaultRedemptionRateSlippageTolerance = Decimal (10 ^ 15)"

definition defaultBorrowingFeeDecayToleranceMinutes :: nat where
  "defaultBorrowingFeeDecayToleranceMinutes = 10"

text \<open>\<^verbatim>\<open>Math.ceil(Math.log2(n))\<close> of a positive integer below \<open>2 ^ 32\<close>, for which the floating point
  logarithm is exact enough.\<close>

fun ceil_log2 :: "nat \<Rightarrow> nat" where
  "ceil_log2 n = (if n \<le> 1 then 0 else Suc (ceil_log2 ((n + 1) div 2)))"

declare ceil_log2.simps [simp del]

definition addGasForBaseRateUpdate :: "nat \<Rightarrow> int \<Rightarrow> int" where
  "addGasForBaseRateUpdate maxMinutesSinceLastUpdate gas =
     gas + (10000 + 1414 * int (ceil_log2 (maxMinutesSinceLastUpdate + 1)))"

definition addGasForPotentialListTraversal :: "int \<Rightarrow> int" where
  "addGasForPotentialListTraversal gas = gas + 80000"

definition addGasForLQTYIssuance :: "int \<Rightarrow> int" where
  "addGasForLQTYIssuance gas = gas + 50000"

definition addGasForUnipoolRewardUpdate :: "int \<Rightarrow> int" where
  "addGasForUnipoolRewardUpdate gas = gas + 20000"

definition maxNumberOfTrialsAtOnce :: nat where
  "maxNumberOfTrialsAtOnce = 2500"

function trials :: "nat \<Rightarrow> nat list" where
  "trials totalNumberOfTrials =
     (if totalNumberOfTrials \<noteq> 0
      then let numberOfTrials = min totalNumberOfTrials maxNumberOfTrialsAtOnce
           in numberOfTrials # trials (totalNumberOfTrials - numberOfTrials)
      else [])"
  by pat_completeness auto
termination
  by (relation "measure (\<lambda>n. n)") (auto simp: maxNumberOfTrialsAtOnce_def)

declare trials.simps [simp del]

definition generateTrials :: "nat \<Rightarrow> nat list res" where
  "generateTrials totalNumberOfTrials =
     bind_res (assert_res ''Number.isInteger(totalNumberOfTrials) && totalNumberOfTrials > 0'' (0 < totalNumberOfTrials))
       (\<lambda>_. Inr (trials totalNumberOfTrials))"

text \<open>\<^verbatim>\<open>Math.ceil(10 * Math.sqrt(n))\<close>, the least number whose square is at least \<open>100 * n\<close>; for fewer than
  \<open>10 ^ 13\<close> Troves the floating point result is the same.\<close>

fun least_root :: "nat \<Rightarrow> nat \<Rightarrow> nat \<Rightarrow> nat" where
  "least_root n lo 0 = lo"
| "least_root n lo (Suc fuel) = (if n \<le> lo * lo then lo else least_root n (Suc lo) fuel)"

definition totalTrials :: "nat \<Rightarrow> nat" where
  "totalTrials n = least_root (100 * n) 0 (100 * n)"

section \<open>Sent transactions\<close>

datatype 'd receipt = PendingReceipt | FailedReceipt raw_receipt | SuccessfulReceipt raw_receipt 'd

definition isTransactionFailedError :: "wait_error \<Rightarrow> bool" where
  "isTransactionFailedError err \<longleftrightarrow> err_code err = Some ''CALL_EXCEPTION'' \<and> err_reason err = Some ''transaction failed''"

definition transactionReplacementReasons :: "string list" where
  "transactionReplacementReasons = [''cancelled'', ''replaced'', ''repriced'']"

definition isTransactionReplacedError :: "wait_error \<Rightarrow> bool" where
  "isTransactionReplacedError err \<longleftrightarrow> err_code err = Some ''TRANSACTION_REPLACED''
     \<and> (case err_reason err of None \<Rightarrow> False | Some r \<Rightarrow> r \<in> set transactionReplacementReasons)"

text \<open>The error for a cancelled or replaced transaction; its constructor asserts that the reason is not a
  change of the price.\<close>

definition new_EthersTransactionCancelledError :: "wait_error \<Rightarrow> js_error" where
  "new_EthersTransactionCancelledError err =
     (if err_reason err = Some ''repriced''
      then AssertionError ''rawError.reason !== _RawErrorReason.TRANSACTION_REPRICED''
      else Error (''Transaction '' @ (case err_reason err of None \<Rightarrow> ''undefined'' | Some r \<Rightarrow> r)))"

definition receiptFrom :: "(raw_receipt \<Rightarrow> 'd res) \<Rightarrow> raw_receipt option \<Rightarrow> 'd receipt res" where
  "receiptFrom parse rawReceipt =
     (case rawReceipt of
        None \<Rightarrow> Inr PendingReceipt
      | Some r \<Rightarrow> if rx_status r then bind_res (parse r) (\<lambda>d. Inr (SuccessfulReceipt r d))
                  else Inr (FailedReceipt r))"

definition waitForRawReceipt :: "'w ethers \<Rightarrow> string \<Rightarrow> int option \<Rightarrow> ('w, raw_receipt option) io" where
  "waitForRawReceipt e tx confirmations =
     (\<lambda>w. case wait_tx e tx confirmations w of
        (Inr r, w) \<Rightarrow> (Inr r, w)
      | (Inl err, w) \<Rightarrow>
          (if isTransactionFailedError err then Inr (Some (err_receipt err))
           else if isTransactionReplacedError err then
             if err_cancelled err then Inl (new_EthersTransactionCancelledError err)
             else Inr (Some (err_receipt err))
           else Inl (Error (case err_reason err of None \<Rightarrow> [] | Some r \<Rightarrow> r)), w))"

definition getReceipt :: "'w ethers \<Rightarrow> (raw_receipt \<Rightarrow> 'd res) \<Rightarrow> string \<Rightarrow> ('w, 'd receipt) io" where
  "getReceipt e parse tx = bind_io (waitForRawReceipt e tx (Some 0)) (\<lambda>r. lift_io (receiptFrom parse r))"

definition waitForReceipt :: "'w ethers \<Rightarrow> (raw_receipt \<Rightarrow> 'd res) \<Rightarrow> string \<Rightarrow> ('w, 'd receipt) io" where
  "waitForReceipt e parse tx =
     bind_io (waitForRawReceipt e tx None) (\<lambda>r.
     bind_io (lift_io (receiptFrom parse r)) (\<lambda>receipt.
     bind_io (assert_io ''receipt.status !== pending'' (\<not> (receipt = PendingReceipt))) (\<lambda>_.
     return_io receipt)))"

record 'd transaction =
  rawPopulatedTransaction :: populated
  parse_receipt :: "raw_receipt \<Rightarrow> 'd res"
  gasHeadroom :: "int option"

definition send :: "'w ethers \<Rightarrow> connection \<Rightarrow> 'd transaction \<Rightarrow> ('w, string) io" where
  "send e c tx = bind_io (lift_io (requireSigner c)) (\<lambda>_. sendTransaction e (rawPopulatedTransaction tx))"

section \<open>Details of receipts\<close>

record 'p trove_change_details =
  tc_params :: 'p
  tc_newTrove :: "trove option"
  tc_fee :: "decimal option"

record liquidation_details =
  liquidatedAddresses :: "val list"
  liquidation_totals :: "(decimal \<times> decimal \<times> trove) option"
    \<comment> \<open>collateral and LUSD gas compensation, total liquidated\<close>

record gains_details =
  g_lusdLoss :: decimal
  g_newLUSDDeposit :: "decimal option"
  g_collateralGain :: decimal
  g_lqtyReward :: "decimal option"

record redemption_details =
  r_attempted :: decimal
  r_actual :: decimal
  r_collateralTaken :: decimal
  r_fee :: decimal

definition head_option :: "'a list \<Rightarrow> 'a option" where
  "head_option xs = (case xs of [] \<Rightarrow> None | x # _ \<Rightarrow> Some x)"

text \<open>The events of a name, each mapped, and the first of the results.\<close>

definition first_event :: "'w ethers \<Rightarrow> string \<Rightarrow> string \<Rightarrow> (val \<Rightarrow> 'a res) \<Rightarrow> log list \<Rightarrow> 'a option res" where
  "first_event e contract name f logs =
     bind_res (extractEvents e contract logs name) (\<lambda>evs.
     bind_res (map_res f evs) (\<lambda>xs. Inr (head_option xs)))"

definition trove_of_event :: "val \<Rightarrow> trove res" where
  "trove_of_event args =
     bind_res (prop_decimal args ''_coll'') (\<lambda>c.
     bind_res (prop_decimal args ''_debt'') (\<lambda>d. Inr \<lparr>collateral = c, debt = d\<rparr>))"

definition no_details :: "raw_receipt \<Rightarrow> unit res" where
  "no_details _ = Inr ()"

definition wrapSimpleTransaction :: "populated \<Rightarrow> unit transaction" where
  "wrapSimpleTransaction raw = \<lparr>rawPopulatedTransaction = raw, parse_receipt = no_details, gasHeadroom = None\<rparr>"

definition wrapTroveChangeWithFees ::
  "'w ethers \<Rightarrow> 'p \<Rightarrow> populated \<Rightarrow> int option \<Rightarrow> 'p trove_change_details transaction" where
  "wrapTroveChangeWithFees e params raw headroom =
     \<lparr>rawPopulatedTransaction = raw,
      parse_receipt = (\<lambda>r.
        bind_res (first_event e ''borrowerOperations'' ''TroveUpdated'' trove_of_event (rx_logs r)) (\<lambda>newTrove.
        bind_res (first_event e ''borrowerOperations'' ''LUSDBorrowingFeePaid''
          (\<lambda>args. prop_decimal args ''_LUSDFee'') (rx_logs r)) (\<lambda>fee.
          Inr \<lparr>tc_params = params, tc_newTrove = newTrove, tc_fee = fee\<rparr>))),
      gasHeadroom = headroom\<rparr>"

text \<open>The first event whose arguments satisfy a predicate.\<close>

definition first_event_where ::
  "'w ethers \<Rightarrow> string \<Rightarrow> string \<Rightarrow> (val \<Rightarrow> bool res) \<Rightarrow> string \<Rightarrow> log list \<Rightarrow> decimal option res" where
  "first_event_where e contract name P field logs =
     bind_res (extractEvents e contract logs name) (\<lambda>evs.
     bind_res (map_res (\<lambda>v. bind_res (P v) (\<lambda>b. Inr (v, b))) evs) (\<lambda>marked.
     bind_res (map_res (\<lambda>(v, _). prop_decimal v field) (filter snd marked)) (\<lambda>xs. Inr (head_option xs))))"

definition prop_is :: "string \<Rightarrow> string \<Rightarrow> val \<Rightarrow> bool res" where
  "prop_is k a v = bind_res (getp v k) (\<lambda>x. Inr (x = Str a))"

definition both :: "(val \<Rightarrow> bool res) \<Rightarrow> (val \<Rightarrow> bool res) \<Rightarrow> val \<Rightarrow> bool res" where
  "both P Q v = bind_res (P v) (\<lambda>p. if p then Q v else Inr False)"

definition wrapTroveClosure :: "'w ethers \<Rightarrow> populated \<Rightarrow> (decimal option \<times> decimal option) transaction" where
  "wrapTroveClosure e raw =
     \<lparr>rawPopulatedTransaction = raw,
      parse_receipt = (\<lambda>r.
        bind_res (first_event_where e ''lusdToken'' ''Transfer''
          (both (prop_is ''from'' (rx_from r)) (prop_is ''to'' AddressZero)) ''value'' (rx_logs r)) (\<lambda>repay.
        bind_res (first_event_where e ''activePool'' ''CollateralSent'' (prop_is ''_to'' (rx_from r)) ''_amount''
          (rx_logs r)) (\<lambda>withdraw.
          case repay of
            None \<Rightarrow> Inl (TypeError ''Cannot read properties of undefined (reading 'nonZero')'')
          | Some x \<Rightarrow> Inr (withdraw, Decimal_nonZero x)))),
      gasHeadroom = None\<rparr>"

definition wrapLiquidation :: "'w ethers \<Rightarrow> populated \<Rightarrow> liquidation_details transaction" where
  "wrapLiquidation e raw =
     \<lparr>rawPopulatedTransaction = raw,
      parse_receipt = (\<lambda>r.
        bind_res (extractEvents e ''troveManager'' (rx_logs r) ''TroveLiquidated'') (\<lambda>evs.
        bind_res (map_res (\<lambda>v. getp v ''_borrower'') evs) (\<lambda>addresses.
        bind_res (first_event e ''troveManager'' ''Liquidation'' (\<lambda>v.
          bind_res (prop_decimal v ''_collGasCompensation'') (\<lambda>cg.
          bind_res (prop_decimal v ''_LUSDGasCompensation'') (\<lambda>lg.
          bind_res (prop_decimal v ''_liquidatedColl'') (\<lambda>lc.
          bind_res (prop_decimal v ''_liquidatedDebt'') (\<lambda>ld.
            Inr (cg, lg, \<lparr>collateral = lc, debt = ld\<rparr>)))))) (rx_logs r)) (\<lambda>totals.
          Inr \<lparr>liquidatedAddresses = addresses, liquidation_totals = totals\<rparr>)))),
      gasHeadroom = None\<rparr>"

definition extractStabilityPoolGainsWithdrawalDetails :: "'w ethers \<Rightarrow> log list \<Rightarrow> gains_details res" where
  "extractStabilityPoolGainsWithdrawalDetails e logs =
     bind_res (first_event e ''stabilityPool'' ''UserDepositChanged'' (\<lambda>v. prop_decimal v ''_newDeposit'') logs) (\<lambda>new_deposit.
     bind_res (first_event e ''stabilityPool'' ''CollateralGainWithdrawn'' (\<lambda>v.
       bind_res (prop_decimal v ''_ETH'') (\<lambda>g. bind_res (prop_decimal v ''_LUSDLoss'') (\<lambda>l. Inr (g, l)))) logs) (\<lambda>gain.
     case gain of
       None \<Rightarrow> Inl (TypeError ''undefined is not iterable'')
     | Some (g, l) \<Rightarrow>
         bind_res (first_event e ''stabilityPool'' ''LQTYPaidToDepositor'' (\<lambda>v. prop_decimal v ''_LQTY'') logs) (\<lambda>reward.
           Inr \<lparr>g_lusdLoss = l, g_newLUSDDeposit = new_deposit, g_collateralGain = g, g_lqtyReward = reward\<rparr>)))"

definition wrapStabilityPoolGainsWithdrawal :: "'w ethers \<Rightarrow> populated \<Rightarrow> gains_details transaction" where
  "wrapStabilityPoolGainsWithdrawal e raw =
     \<lparr>rawPopulatedTransaction = raw,
      parse_receipt = (\<lambda>r. extractStabilityPoolGainsWithdrawalDetails e (rx_logs r)), gasHeadroom = None\<rparr>"

definition wrapStabilityDepositTopup ::
  "'w ethers \<Rightarrow> decimal \<Rightarrow> populated \<Rightarrow> (gains_details \<times> decimal) transaction" where
  "wrapStabilityDepositTopup e depositLUSD raw =
     \<lparr>rawPopulatedTransaction = raw,
      parse_receipt = (\<lambda>r.
        bind_res (extractStabilityPoolGainsWithdrawalDetails e (rx_logs r)) (\<lambda>g. Inr (g, depositLUSD))),
      gasHeadroom = None\<rparr>"

definition wrapStabilityDepositWithdrawal ::
  "'w ethers \<Rightarrow> populated \<Rightarrow> (gains_details \<times> decimal option \<times> bool) transaction" where
  "wrapStabilityDepositWithdrawal e raw =
     \<lparr>rawPopulatedTransaction = raw,
      parse_receipt = (\<lambda>r.
        bind_res (extractStabilityPoolGainsWithdrawalDetails e (rx_logs r)) (\<lambda>g.
        bind_res (first_event_where e ''lusdToken'' ''Transfer''
          (both (prop_is ''from'' (contractAddress e ''stabilityPool'')) (prop_is ''to'' (rx_from r))) ''value'' (rx_logs r))
          (\<lambda>withdrawLUSD.
          case g_newLUSDDeposit g of
            None \<Rightarrow> Inl (TypeError ''Cannot read properties of undefined (reading 'isZero')'')
          | Some d \<Rightarrow> Inr (g, withdrawLUSD, Decimal_isZero d)))),
      gasHeadroom = None\<rparr>"

definition wrapCollateralGainTransfer ::
  "'w ethers \<Rightarrow> populated \<Rightarrow> (gains_details \<times> trove option) transaction" where
  "wrapCollateralGainTransfer e raw =
     \<lparr>rawPopulatedTransaction = raw,
      parse_receipt = (\<lambda>r.
        bind_res (first_event e ''borrowerOperations'' ''TroveUpdated'' trove_of_event (rx_logs r)) (\<lambda>newTrove.
        bind_res (extractStabilityPoolGainsWithdrawalDetails e (rx_logs r)) (\<lambda>g. Inr (g, newTrove)))),
      gasHeadroom = None\<rparr>"

section \<open>Hints\<close>

definition prepareOverrides :: "connection \<Rightarrow> overrides \<Rightarrow> overrides res" where
  "prepareOverrides c ov = bind_res (requireAddress c ov) (\<lambda>a. Inr (AList.update ''from'' (Str a) ov))"

text \<open>One call of \<open>getApproxHint\<close>: the next seed, and the result added to the earlier ones.\<close>

definition collectApproxHint ::
  "'w ethers \<Rightarrow> decimal \<Rightarrow> val \<times> (int \<times> string) list \<Rightarrow> nat \<Rightarrow> ('w, val \<times> (int \<times> string) list) io" where
  "collectApproxHint e ratio acc numberOfTrials =
     bind_io (ethers_call e ''hintHelpers'' ''getApproxHint''
       [Decimal_hex ratio, Num (int numberOfTrials), fst acc] []) (\<lambda>r.
     bind_io (lift_io (getp r ''latestRandomSeed'')) (\<lambda>latestRandomSeed.
     bind_io (lift_io (bind_res (getp r ''diff'') as_BN)) (\<lambda>diff.
     bind_io (lift_io (bind_res (getp r ''hintAddress'') as_Str)) (\<lambda>hintAddress.
     return_io (latestRandomSeed, snd acc @ [(diff, hintAddress)])))))"

text \<open>\<^verbatim>\<open>results.reduce((a, b) => (a.diff.lt(b.diff) ? a : b))\<close>\<close>

fun best_hint :: "(int \<times> string) list \<Rightarrow> (int \<times> string) res" where
  "best_hint [] = Inl (TypeError ''Reduce of empty array with no initial value'')"
| "best_hint (r # rs) = Inr (foldl (\<lambda>a b. if fst a < fst b then a else b) r rs)"

definition str_call :: "'w ethers \<Rightarrow> string \<Rightarrow> string \<Rightarrow> val list \<Rightarrow> ('w, string) io" where
  "str_call e contract fn args = bind_io (ethers_call e contract fn args []) (\<lambda>v. lift_io (as_Str v))"

text \<open>A hint that is the address of the Trove itself is replaced by its neighbour on that side.\<close>

definition jump_over :: "'w ethers \<Rightarrow> string option \<Rightarrow> string \<times> string \<Rightarrow> ('w, string \<times> string) io" where
  "jump_over e ownAddress hints =
     (case (ownAddress, hints) of
        (None, _) \<Rightarrow> return_io hints
      | (Some own, (p, n)) \<Rightarrow>
          if own = [] then return_io hints
          else if p = own then bind_io (str_call e ''sortedTroves'' ''getPrev'' [Str p]) (\<lambda>p. return_io (p, n))
          else if n = own then bind_io (str_call e ''sortedTroves'' ''getNext'' [Str n]) (\<lambda>n. return_io (p, n))
          else return_io (p, n))"

definition avoid_zero :: "string \<times> string \<Rightarrow> string \<times> string" where
  "avoid_zero hints =
     (case hints of (p, n) \<Rightarrow> if p = AddressZero then (n, n) else if n = AddressZero then (p, p) else (p, n))"

definition findHintsForNominalCollateralRatio ::
  "'w ethers \<Rightarrow> decimal \<Rightarrow> string option \<Rightarrow> ('w, string \<times> string) io" where
  "findHintsForNominalCollateralRatio e ratio ownAddress =
     bind_io (getNumberOfTroves e []) (\<lambda>numberOfTroves.
     if numberOfTroves = 0 then return_io (AddressZero, AddressZero)
     else if Decimal_infinite ratio \<noteq> None then
       bind_io (str_call e ''sortedTroves'' ''getFirst'' []) (\<lambda>h. return_io (AddressZero, h))
     else
       bind_io (lift_io (generateTrials (totalTrials (nat numberOfTroves)))) (\<lambda>ts.
       bind_io (randomInteger e) (\<lambda>seed.
       bind_io (foldM_io (collectApproxHint e ratio) (Num seed, []) ts) (\<lambda>acc.
       bind_io (lift_io (best_hint (snd acc))) (\<lambda>best.
       bind_io (ethers_call e ''sortedTroves'' ''findInsertPosition''
         [Decimal_hex ratio, Str (snd best), Str (snd best)] []) (\<lambda>pos.
       bind_io (lift_io (bind_res (geti pos 0) as_Str)) (\<lambda>p.
       bind_io (lift_io (bind_res (geti pos 1) as_Str)) (\<lambda>n.
       bind_io (jump_over e ownAddress (p, n)) (\<lambda>hints.
       return_io (avoid_zero hints))))))))))"

text \<open>The Troves for which hints are sought have no pending redistribution, by their type.\<close>

definition findHints :: "'w ethers \<Rightarrow> 'a trove_scheme \<Rightarrow> string option \<Rightarrow> ('w, string \<times> string) io" where
  "findHints e t ownAddress =
     bind_io (lift_io (nominalCollateralRatio t)) (\<lambda>r. findHintsForNominalCollateralRatio e r ownAddress)"

definition findRedemptionHints ::
  "'w ethers \<Rightarrow> decimal \<Rightarrow> ('w, decimal \<times> string \<times> (string \<times> string \<times> val)) io" where
  "findRedemptionHints e amount =
     bind_io (getPrice e []) (\<lambda>price.
     bind_io (ethers_call e ''hintHelpers'' ''getRedemptionHints''
       [Decimal_hex amount, Decimal_hex price, Num redeemMaxIterations] []) (\<lambda>r.
     bind_io (lift_io (bind_res (getp r ''firstRedemptionHint'') as_Str)) (\<lambda>firstRedemptionHint.
     bind_io (lift_io (bind_res (getp r ''partialRedemptionHintNICR'') as_BN)) (\<lambda>nicr.
     bind_io (if nicr = 0 then return_io (AddressZero, AddressZero)
              else bind_io (lift_io (decimalify (BN nicr))) (\<lambda>d. findHintsForNominalCollateralRatio e d None)) (\<lambda>hints.
     bind_io (lift_io (prop_decimal r ''truncatedLUSDamount'')) (\<lambda>truncatedAmount.
     return_io (truncatedAmount, firstRedemptionHint, (fst hints, snd hints, BN nicr))))))))"

section \<open>Opening and adjusting a Trove\<close>

datatype borrowing_options =
    NoOptions
  | MaxBorrowingRate decimalish
  | BorrowingOptions "decimalish option" "nat option"  \<comment> \<open>maximum rate, decay tolerance in minutes\<close>

definition default_max_rate :: "decimal option \<Rightarrow> decimal res" where
  "default_max_rate currentBorrowingRate =
     (case currentBorrowingRate of
        None \<Rightarrow> Inr ZERO
      | Some r \<Rightarrow> Decimal_add r (DecimalV defaultBorrowingRateSlippageTolerance))"

definition normalizeBorrowingOperationOptionalParams ::
  "borrowing_options \<Rightarrow> decimal option \<Rightarrow> (decimal \<times> nat) res" where
  "normalizeBorrowingOperationOptionalParams options currentBorrowingRate =
     (case options of
        NoOptions \<Rightarrow> bind_res (default_max_rate currentBorrowingRate) (\<lambda>r.
          Inr (r, defaultBorrowingFeeDecayToleranceMinutes))
      | MaxBorrowingRate x \<Rightarrow> bind_res (Decimal_from x) (\<lambda>r. Inr (r, defaultBorrowingFeeDecayToleranceMinutes))
      | BorrowingOptions x m \<Rightarrow>
          bind_res (case x of None \<Rightarrow> default_max_rate currentBorrowingRate | Some x \<Rightarrow> Decimal_from x) (\<lambda>r.
            Inr (r, case m of None \<Rightarrow> defaultBorrowingFeeDecayToleranceMinutes | Some m \<Rightarrow> m)))"

text \<open>\<^verbatim>\<open>{ ...a, ...b }\<close>\<close>

definition spread :: "overrides \<Rightarrow> overrides \<Rightarrow> overrides" where
  "spread a b = foldl (\<lambda>acc (k, v). AList.update k v acc) a b"

definition decay_error :: "nat \<Rightarrow> ('w, unit) io" where
  "decay_error minutes =
     bind_io (lift_io (Decimal_toString LUSD_MINIMUM_DEBT None)) (\<lambda>d.
     throw_io (Error (''Trove's debt might fall below '' @ d @ '' within '' @ show_nat minutes @ '' minutes'')))"

text \<open>The gas limit for two estimates, and the headroom over the first.\<close>

definition gas_with_headroom :: "nat option \<Rightarrow> int \<Rightarrow> int option \<Rightarrow> (int \<times> int) res" where
  "gas_with_headroom minutes gasNow gasLater =
     (let gas = bigNumberMax (addGasForPotentialListTraversal gasNow) gasLater;
          gasLimit = (case minutes of None \<Rightarrow> gas | Some m \<Rightarrow> addGasForBaseRateUpdate m gas)
      in bind_res (numberify (BN (gasLimit - gasNow))) (\<lambda>headroom. Inr (gasLimit, headroom)))"

definition openTrove_args :: "decimal \<Rightarrow> string \<times> string \<Rightarrow> decimal \<Rightarrow> val list" where
  "openTrove_args maxBorrowingRate hints borrow =
     [Decimal_hex maxBorrowingRate, Decimal_hex borrow, Str (fst hints), Str (snd hints)]"

text \<open>The estimate when no gas limit is given, also for the debt after the fee has decayed for the minutes given.\<close>

definition estimate_openTrove ::
  "'w ethers \<Rightarrow> (int \<Rightarrow> decimal res) \<Rightarrow> decimal \<Rightarrow> nat \<Rightarrow> creation_params \<Rightarrow> (decimal \<Rightarrow> val list) \<Rightarrow>
   (overrides \<Rightarrow> overrides) \<Rightarrow> overrides \<Rightarrow> ('w, overrides \<times> int option) io" where
  "estimate_openTrove e decayBorrowingRate currentBorrowingRate minutes normalizedParams args txOverrides ov =
     bind_io (lift_io (decayBorrowingRate (60 * int minutes))) (\<lambda>decayedBorrowingRate.
     bind_io (lift_io (Trove_create (creation_entries normalizedParams) (Some (DecimalV decayedBorrowingRate))))
       (\<lambda>decayedTrove.
     bind_io (lift_io (Trove_recreate decayedTrove (Some (DecimalV currentBorrowingRate)))) (\<lambda>simulated.
     bind_io (lift_io (Decimal_lt (debt decayedTrove) (DecimalV LUSD_MINIMUM_DEBT))) (\<lambda>low.
     bind_io (when_io low (decay_error minutes)) (\<lambda>_.
     bind_io (estimateGas e ''borrowerOperations'' ''openTrove'' (args (borrowLUSD normalizedParams)) (txOverrides ov)) (\<lambda>gasNow.
     bind_io (estimateGas e ''borrowerOperations'' ''openTrove'' (args (borrowLUSD simulated)) (txOverrides ov)) (\<lambda>gasLater.
     bind_io (lift_io (gas_with_headroom (Some minutes) gasNow (Some gasLater))) (\<lambda>(gasLimit, headroom).
     return_io (AList.update ''gasLimit'' (BN gasLimit) ov, Some headroom)))))))))"

definition openTrove ::
  "'w ethers \<Rightarrow> connection \<Rightarrow> decimalish option entries \<Rightarrow> borrowing_options \<Rightarrow> overrides \<Rightarrow>
   ('w, creation_params trove_change_details transaction) io" where
  "openTrove e c params options ov =
     bind_io (lift_io (prepareOverrides c ov)) (\<lambda>ov.
     bind_io (lift_io (normalizeTroveCreation params)) (\<lambda>normalizedParams.
     bind_io (getFeesFactory e []) (\<lambda>fees.
     bind_io (getBlockTimestamp e Undefined) (\<lambda>timestamp.
     bind_io (getTotal e []) (\<lambda>total.
     bind_io (getPrice e []) (\<lambda>price.
     bind_io (lift_io (collateralRatioIsBelowCritical total (DecimalV price))) (\<lambda>recoveryMode.
     let decayBorrowingRate = (\<lambda>seconds. bind_res (fees (timestamp + seconds) recoveryMode) (\<lambda>f. borrowingRate f None)) in
     bind_io (lift_io (decayBorrowingRate 0)) (\<lambda>currentBorrowingRate.
     bind_io (lift_io (Trove_create (creation_entries normalizedParams) (Some (DecimalV currentBorrowingRate)))) (\<lambda>newTrove.
     bind_io (findHints e newTrove None) (\<lambda>hints.
     bind_io (lift_io (normalizeBorrowingOperationOptionalParams options (Some currentBorrowingRate)))
       (\<lambda>(maxBorrowingRate, minutes).
     let args = openTrove_args maxBorrowingRate hints;
         txOverrides = (\<lambda>ov. spread [(''value'', Decimal_hex (depositCollateral normalizedParams))] ov) in
     bind_io (if override ov ''gasLimit'' = Undefined then
         estimate_openTrove e decayBorrowingRate currentBorrowingRate minutes normalizedParams args txOverrides ov
       else return_io (ov, None)) (\<lambda>(ov, headroom).
     return_io (wrapTroveChangeWithFees e normalizedParams
       (populateTransaction ''borrowerOperations'' ''openTrove'' (args (borrowLUSD normalizedParams)) (txOverrides ov))
       headroom)))))))))))))"

text \<open>The parts of a normalised adjustment.\<close>

definition deposit_of :: "adjustment_params \<Rightarrow> decimal option" where
  "deposit_of p = (case collateral_of p of Some (DepositCollateral d) \<Rightarrow> Some d | _ \<Rightarrow> None)"

definition withdrawal_of :: "adjustment_params \<Rightarrow> decimal option" where
  "withdrawal_of p = (case collateral_of p of Some (WithdrawCollateral d) \<Rightarrow> Some d | _ \<Rightarrow> None)"

definition borrowed_of :: "adjustment_params \<Rightarrow> decimal option" where
  "borrowed_of p = (case debt_of p of Some (BorrowLUSD d) \<Rightarrow> Some d | _ \<Rightarrow> None)"

definition repaid_of :: "adjustment_params \<Rightarrow> decimal option" where
  "repaid_of p = (case debt_of p of Some (RepayLUSD d) \<Rightarrow> Some d | _ \<Rightarrow> None)"

definition or_zero :: "decimal option \<Rightarrow> decimal" where
  "or_zero d = (case d of None \<Rightarrow> ZERO | Some d \<Rightarrow> d)"

definition adjustTrove_args ::
  "adjustment_params \<Rightarrow> decimal \<Rightarrow> string \<times> string \<Rightarrow> decimal option \<Rightarrow> val list" where
  "adjustTrove_args p maxBorrowingRate hints borrow =
     [Decimal_hex maxBorrowingRate, Decimal_hex (or_zero (withdrawal_of p)),
      Decimal_hex (case borrow of Some b \<Rightarrow> b | None \<Rightarrow> or_zero (repaid_of p)), Bool (borrow \<noteq> None),
      Str (fst hints), Str (snd hints)]"

definition adjustTrove ::
  "'w ethers \<Rightarrow> connection \<Rightarrow> decimalish option entries \<Rightarrow> borrowing_options \<Rightarrow> overrides \<Rightarrow>
   ('w, adjustment_params trove_change_details transaction) io" where
  "adjustTrove e c params options ov =
     bind_io (lift_io (prepareOverrides c ov)) (\<lambda>ov.
     bind_io (lift_io (as_Str (override ov ''from''))) (\<lambda>from.
     bind_io (lift_io (normalizeTroveAdjustment params)) (\<lambda>normalizedParams.
     bind_io (getTrove e c (Some from) []) (\<lambda>trove.
     bind_io (if borrowed_of normalizedParams = None then return_io None
              else bind_io (getFeesFactory e []) (\<lambda>fees.
                   bind_io (getBlockTimestamp e Undefined) (\<lambda>timestamp.
                   bind_io (getTotal e []) (\<lambda>total.
                   bind_io (getPrice e []) (\<lambda>price.
                   return_io (Some (fees, timestamp, total, price))))))) (\<lambda>feeVars.
     let decayBorrowingRate = (\<lambda>seconds. case feeVars of
           None \<Rightarrow> Inr None
         | Some (fees, timestamp, t, p) \<Rightarrow>
             bind_res (collateralRatioIsBelowCritical t (DecimalV p)) (\<lambda>recoveryMode.
             bind_res (fees (timestamp + seconds) recoveryMode) (\<lambda>f.
             bind_res (borrowingRate f None) (\<lambda>r. Inr (Some r))))) in
     bind_io (lift_io (decayBorrowingRate 0)) (\<lambda>currentBorrowingRate.
     bind_io (lift_io (Trove_adjust trove (adjustment_entries normalizedParams) (map_option DecimalV currentBorrowingRate)))
       (\<lambda>adjustedTrove.
     bind_io (findHints e adjustedTrove (Some from)) (\<lambda>hints.
     bind_io (lift_io (normalizeBorrowingOperationOptionalParams options currentBorrowingRate))
       (\<lambda>(maxBorrowingRate, minutes).
     let args = adjustTrove_args normalizedParams maxBorrowingRate hints;
         txOverrides = (\<lambda>ov. spread
           [(''value'', case deposit_of normalizedParams of None \<Rightarrow> Undefined | Some d \<Rightarrow> Decimal_hex d)] ov);
         borrow = borrowed_of normalizedParams in
     bind_io (if override ov ''gasLimit'' = Undefined then
         bind_io (lift_io (decayBorrowingRate (60 * int minutes))) (\<lambda>decayedBorrowingRate.
         bind_io (lift_io (Trove_adjust trove (adjustment_entries normalizedParams) (map_option DecimalV decayedBorrowingRate)))
           (\<lambda>decayedTrove.
         bind_io (lift_io (Trove_adjustTo trove decayedTrove (map_option DecimalV currentBorrowingRate))) (\<lambda>simulated.
         bind_io (lift_io (Decimal_lt (debt decayedTrove) (DecimalV LUSD_MINIMUM_DEBT))) (\<lambda>low.
         bind_io (when_io low (decay_error minutes)) (\<lambda>_.
         bind_io (estimateGas e ''borrowerOperations'' ''adjustTrove'' (args borrow) (txOverrides ov)) (\<lambda>gasNow.
         bind_io (if borrow = None then return_io None
                  else bind_io (estimateGas e ''borrowerOperations'' ''adjustTrove'' (args (borrowed_of simulated)) (txOverrides ov))
                    (\<lambda>g. return_io (Some g))) (\<lambda>gasLater.
         bind_io (lift_io (gas_with_headroom (if borrow = None then None else Some minutes) gasNow gasLater))
           (\<lambda>(gasLimit, headroom).
         return_io (AList.update ''gasLimit'' (BN gasLimit) ov, Some headroom)))))))))
       else return_io (ov, None)) (\<lambda>(ov, headroom).
     return_io (wrapTroveChangeWithFees e normalizedParams
       (populateTransaction ''borrowerOperations'' ''adjustTrove'' (args borrow) (txOverrides ov)) headroom)))))))))))"

text \<open>The four aliases of \<open>adjustTrove\<close>.\<close>

definition depositCollateral_tx :: "'w ethers \<Rightarrow> connection \<Rightarrow> decimalish \<Rightarrow> overrides \<Rightarrow>
    ('w, adjustment_params trove_change_details transaction) io" where
  "depositCollateral_tx e c amount ov = adjustTrove e c [(''depositCollateral'', Some amount)] NoOptions ov"

definition withdrawCollateral_tx :: "'w ethers \<Rightarrow> connection \<Rightarrow> decimalish \<Rightarrow> overrides \<Rightarrow>
    ('w, adjustment_params trove_change_details transaction) io" where
  "withdrawCollateral_tx e c amount ov = adjustTrove e c [(''withdrawCollateral'', Some amount)] NoOptions ov"

definition borrowLUSD_tx :: "'w ethers \<Rightarrow> connection \<Rightarrow> decimalish \<Rightarrow> decimalish option \<Rightarrow> overrides \<Rightarrow>
    ('w, adjustment_params trove_change_details transaction) io" where
  "borrowLUSD_tx e c amount maxBorrowingRate ov =
     adjustTrove e c [(''borrowLUSD'', Some amount)]
       (case maxBorrowingRate of None \<Rightarrow> NoOptions | Some r \<Rightarrow> MaxBorrowingRate r) ov"

definition repayLUSD_tx :: "'w ethers \<Rightarrow> connection \<Rightarrow> decimalish \<Rightarrow> overrides \<Rightarrow>
    ('w, adjustment_params trove_change_details transaction) io" where
  "repayLUSD_tx e c amount ov = adjustTrove e c [(''repayLUSD'', Some amount)] NoOptions ov"

section \<open>The other transactions\<close>

definition with_overrides :: "connection \<Rightarrow> overrides \<Rightarrow> (overrides \<Rightarrow> ('w, 'a) io) \<Rightarrow> ('w, 'a) io" where
  "with_overrides c ov f = bind_io (lift_io (prepareOverrides c ov)) f"

text \<open>\<^verbatim>\<open>contract.estimateAndPopulate.fn(overrides, adjustGas, ...args)\<close>, wrapped.\<close>

definition simple_tx :: "'w ethers \<Rightarrow> connection \<Rightarrow> overrides \<Rightarrow> string \<Rightarrow> string \<Rightarrow> (int \<Rightarrow> int) \<Rightarrow> val list \<Rightarrow>
    (populated \<Rightarrow> 'd transaction) \<Rightarrow> ('w, 'd transaction) io" where
  "simple_tx e c ov contract fn adjustGas args wrap =
     with_overrides c ov (\<lambda>ov.
     bind_io (estimateAndPopulate e contract fn ov adjustGas args) (\<lambda>raw. return_io (wrap raw)))"

text \<open>The same with an amount that is made a decimal first.\<close>

definition amount_tx :: "'w ethers \<Rightarrow> connection \<Rightarrow> overrides \<Rightarrow> decimalish \<Rightarrow> string \<Rightarrow> string \<Rightarrow> (int \<Rightarrow> int) \<Rightarrow>
    (val \<Rightarrow> val list) \<Rightarrow> (decimal \<Rightarrow> populated \<Rightarrow> 'd transaction) \<Rightarrow> ('w, 'd transaction) io" where
  "amount_tx e c ov amount contract fn adjustGas args wrap =
     with_overrides c ov (\<lambda>ov.
     bind_io (lift_io (Decimal_from amount)) (\<lambda>d.
     bind_io (estimateAndPopulate e contract fn ov adjustGas (args (Decimal_hex d))) (\<lambda>raw. return_io (wrap d raw))))"

definition closeTrove :: "'w ethers \<Rightarrow> connection \<Rightarrow> overrides \<Rightarrow> ('w, (decimal option \<times> decimal option) transaction) io" where
  "closeTrove e c ov = simple_tx e c ov ''borrowerOperations'' ''closeTrove'' id [] (wrapTroveClosure e)"

definition claimCollateralSurplus :: "'w ethers \<Rightarrow> connection \<Rightarrow> overrides \<Rightarrow> ('w, unit transaction) io" where
  "claimCollateralSurplus e c ov = simple_tx e c ov ''borrowerOperations'' ''claimCollateral'' id [] wrapSimpleTransaction"

definition setPrice :: "'w ethers \<Rightarrow> connection \<Rightarrow> decimalish \<Rightarrow> overrides \<Rightarrow> ('w, unit transaction) io" where
  "setPrice e c amount ov =
     with_overrides c ov (\<lambda>ov.
       if \<not> priceFeedIsTestnet c then throw_io (Error ''setPrice() unavailable on this deployment of Liquity'')
       else bind_io (lift_io (Decimal_from amount)) (\<lambda>d.
            bind_io (estimateAndPopulate e ''priceFeed'' ''setPrice'' ov id [Decimal_hex d]) (\<lambda>raw.
            return_io (wrapSimpleTransaction raw))))"

definition liquidate :: "'w ethers \<Rightarrow> connection \<Rightarrow> string + string list \<Rightarrow> overrides \<Rightarrow> ('w, liquidation_details transaction) io" where
  "liquidate e c address ov =
     (case address of
        Inr addresses \<Rightarrow> simple_tx e c ov ''troveManager'' ''batchLiquidateTroves'' addGasForLQTYIssuance
          [Arr (map Str addresses)] (wrapLiquidation e)
      | Inl a \<Rightarrow> simple_tx e c ov ''troveManager'' ''liquidate'' addGasForLQTYIssuance [Str a] (wrapLiquidation e))"

definition liquidateUpTo :: "'w ethers \<Rightarrow> connection \<Rightarrow> int \<Rightarrow> overrides \<Rightarrow> ('w, liquidation_details transaction) io" where
  "liquidateUpTo e c n ov =
     simple_tx e c ov ''troveManager'' ''liquidateTroves'' addGasForLQTYIssuance [Num n] (wrapLiquidation e)"

definition depositLUSDInStabilityPool ::
  "'w ethers \<Rightarrow> connection \<Rightarrow> decimalish \<Rightarrow> string option \<Rightarrow> overrides \<Rightarrow> ('w, (gains_details \<times> decimal) transaction) io" where
  "depositLUSDInStabilityPool e c amount tag ov =
     amount_tx e c ov amount ''stabilityPool'' ''provideToSP'' addGasForLQTYIssuance
       (\<lambda>h. [h, Str (case tag of Some t \<Rightarrow> t | None \<Rightarrow>
          (case connection.frontendTag c of Some t \<Rightarrow> t | None \<Rightarrow> AddressZero))])
       (wrapStabilityDepositTopup e)"

definition withdrawLUSDFromStabilityPool :: "'w ethers \<Rightarrow> connection \<Rightarrow> decimalish \<Rightarrow> overrides \<Rightarrow>
    ('w, (gains_details \<times> decimal option \<times> bool) transaction) io" where
  "withdrawLUSDFromStabilityPool e c amount ov =
     amount_tx e c ov amount ''stabilityPool'' ''withdrawFromSP'' addGasForLQTYIssuance (\<lambda>h. [h])
       (\<lambda>_. wrapStabilityDepositWithdrawal e)"

definition withdrawGainsFromStabilityPool :: "'w ethers \<Rightarrow> connection \<Rightarrow> overrides \<Rightarrow> ('w, gains_details transaction) io" where
  "withdrawGainsFromStabilityPool e c ov =
     simple_tx e c ov ''stabilityPool'' ''withdrawFromSP'' addGasForLQTYIssuance [Decimal_hex ZERO]
       (wrapStabilityPoolGainsWithdrawal e)"

definition transferCollateralGainToTrove :: "'w ethers \<Rightarrow> connection \<Rightarrow> overrides \<Rightarrow>
    ('w, (gains_details \<times> trove option) transaction) io" where
  "transferCollateralGainToTrove e c ov =
     with_overrides c ov (\<lambda>ov.
     bind_io (lift_io (as_Str (override ov ''from''))) (\<lambda>from.
     bind_io (getTrove e c (Some from) []) (\<lambda>initialTrove.
     bind_io (getStabilityDeposit e c (Some from) []) (\<lambda>deposit.
     bind_io (lift_io (addCollateral initialTrove (DecimalV (collateralGain deposit)))) (\<lambda>finalTrove.
     bind_io (findHints e finalTrove (Some from)) (\<lambda>hints.
     bind_io (estimateAndPopulate e ''stabilityPool'' ''withdrawCollateralGainToTrove'' ov
       (addGasForPotentialListTraversal \<circ> addGasForLQTYIssuance) [Str (fst hints), Str (snd hints)]) (\<lambda>raw.
     return_io (wrapCollateralGainTransfer e raw))))))))"

definition send_token :: "string \<Rightarrow> 'w ethers \<Rightarrow> connection \<Rightarrow> string \<Rightarrow> decimalish \<Rightarrow> overrides \<Rightarrow> ('w, unit transaction) io" where
  "send_token token e c toAddress amount ov =
     amount_tx e c ov amount token ''transfer'' id (\<lambda>h. [Str toAddress, h]) (\<lambda>_. wrapSimpleTransaction)"

definition sendLUSD :: "'w ethers \<Rightarrow> connection \<Rightarrow> string \<Rightarrow> decimalish \<Rightarrow> overrides \<Rightarrow> ('w, unit transaction) io" where
  "sendLUSD = send_token ''lusdToken''"

definition sendLQTY :: "'w ethers \<Rightarrow> connection \<Rightarrow> string \<Rightarrow> decimalish \<Rightarrow> overrides \<Rightarrow> ('w, unit transaction) io" where
  "sendLQTY = send_token ''lqtyToken''"

definition stakeLQTY :: "'w ethers \<Rightarrow> connection \<Rightarrow> decimalish \<Rightarrow> overrides \<Rightarrow> ('w, unit transaction) io" where
  "stakeLQTY e c amount ov =
     amount_tx e c ov amount ''lqtyStaking'' ''stake'' id (\<lambda>h. [h]) (\<lambda>_. wrapSimpleTransaction)"

definition unstakeLQTY :: "'w ethers \<Rightarrow> connection \<Rightarrow> decimalish \<Rightarrow> overrides \<Rightarrow> ('w, unit transaction) io" where
  "unstakeLQTY e c amount ov =
     amount_tx e c ov amount ''lqtyStaking'' ''unstake'' id (\<lambda>h. [h]) (\<lambda>_. wrapSimpleTransaction)"

definition withdrawGainsFromStaking :: "'w ethers \<Rightarrow> connection \<Rightarrow> overrides \<Rightarrow> ('w, unit transaction) io" where
  "withdrawGainsFromStaking e c ov = unstakeLQTY e c (DecimalV ZERO) ov"

definition registerFrontend :: "'w ethers \<Rightarrow> connection \<Rightarrow> decimalish \<Rightarrow> overrides \<Rightarrow> ('w, unit transaction) io" where
  "registerFrontend e c rate ov =
     amount_tx e c ov rate ''stabilityPool'' ''registerFrontEnd'' id (\<lambda>h. [h]) (\<lambda>_. wrapSimpleTransaction)"

definition mintUniToken :: "'w ethers \<Rightarrow> connection \<Rightarrow> decimalish \<Rightarrow> string option \<Rightarrow> overrides \<Rightarrow> ('w, unit transaction) io" where
  "mintUniToken e c amount address ov =
     bind_io (lift_io (case address of Some a \<Rightarrow> Inr a | None \<Rightarrow> requireAddress c ov)) (\<lambda>a.
     with_overrides c ov (\<lambda>ov.
       if \<not> uniTokenIsMock c then throw_io (Error ''_mintUniToken() unavailable on this deployment of Liquity'')
       else bind_io (lift_io (Decimal_from amount)) (\<lambda>d.
            bind_io (estimateAndPopulate e ''uniToken'' ''mint'' ov id [Str a, Decimal_hex d]) (\<lambda>raw.
            return_io (wrapSimpleTransaction raw)))))"

definition approveUniTokens :: "'w ethers \<Rightarrow> connection \<Rightarrow> decimalish option \<Rightarrow> overrides \<Rightarrow> ('w, unit transaction) io" where
  "approveUniTokens e c allowance ov =
     amount_tx e c ov (case allowance of None \<Rightarrow> DecimalV INFINITY | Some a \<Rightarrow> a) ''uniToken'' ''approve'' id
       (\<lambda>h. [Str (contractAddress e ''unipool''), h]) (\<lambda>_. wrapSimpleTransaction)"

definition stakeUniTokens :: "'w ethers \<Rightarrow> connection \<Rightarrow> decimalish \<Rightarrow> overrides \<Rightarrow> ('w, unit transaction) io" where
  "stakeUniTokens e c amount ov =
     amount_tx e c ov amount ''unipool'' ''stake'' addGasForUnipoolRewardUpdate (\<lambda>h. [h]) (\<lambda>_. wrapSimpleTransaction)"

definition unstakeUniTokens :: "'w ethers \<Rightarrow> connection \<Rightarrow> decimalish \<Rightarrow> overrides \<Rightarrow> ('w, unit transaction) io" where
  "unstakeUniTokens e c amount ov =
     amount_tx e c ov amount ''unipool'' ''withdraw'' addGasForUnipoolRewardUpdate (\<lambda>h. [h]) (\<lambda>_. wrapSimpleTransaction)"

definition withdrawLQTYRewardFromLiquidityMining :: "'w ethers \<Rightarrow> connection \<Rightarrow> overrides \<Rightarrow> ('w, unit transaction) io" where
  "withdrawLQTYRewardFromLiquidityMining e c ov =
     simple_tx e c ov ''unipool'' ''claimReward'' addGasForUnipoolRewardUpdate [] wrapSimpleTransaction"

definition exitLiquidityMining :: "'w ethers \<Rightarrow> connection \<Rightarrow> overrides \<Rightarrow> ('w, unit transaction) io" where
  "exitLiquidityMining e c ov =
     simple_tx e c ov ''unipool'' ''withdrawAndClaim'' addGasForUnipoolRewardUpdate [] wrapSimpleTransaction"

section \<open>Redemption\<close>

text \<open>What the closures of \<open>redeemLUSD\<close> capture, and a prepared redemption. A redemption whose amount was
  truncated can be increased; \<open>r_maxRate\<close> is the limit it was made with.\<close>

record redemption_context =
  rc_overrides :: overrides
  rc_fees :: fees
  rc_total :: trove
  rc_firstHint :: string

record redemption =
  r_transaction :: "redemption_details option transaction"
  attemptedLUSDAmount :: decimal
  redeemableLUSDAmount :: decimal
  isTruncated :: bool
  r_context :: redemption_context
  r_maxRate :: "decimalish option"

definition redemption_details_of :: "val \<Rightarrow> redemption_details res" where
  "redemption_details_of args =
     bind_res (prop_decimal args ''_attemptedLUSDAmount'') (\<lambda>a.
     bind_res (prop_decimal args ''_actualLUSDAmount'') (\<lambda>b.
     bind_res (prop_decimal args ''_ETHSent'') (\<lambda>c.
     bind_res (prop_decimal args ''_CollateralFee'') (\<lambda>f.
       Inr \<lparr>r_attempted = a, r_actual = b, r_collateralTaken = c, r_fee = f\<rparr>))))"

definition new_PopulatedEthersRedemption ::
  "'w ethers \<Rightarrow> populated \<Rightarrow> decimal \<Rightarrow> decimal \<Rightarrow> redemption_context \<Rightarrow> decimalish option \<Rightarrow> redemption res" where
  "new_PopulatedEthersRedemption e raw attempted redeemable ctx maxRate =
     bind_res (Decimal_lt redeemable (DecimalV attempted)) (\<lambda>truncated.
       Inr \<lparr>r_transaction = \<lparr>rawPopulatedTransaction = raw,
              parse_receipt = (\<lambda>r. first_event e ''troveManager'' ''Redemption'' redemption_details_of (rx_logs r)),
              gasHeadroom = None\<rparr>,
            attemptedLUSDAmount = attempted, redeemableLUSDAmount = redeemable, isTruncated = truncated,
            r_context = ctx, r_maxRate = maxRate\<rparr>)"

definition defaultMaxRedemptionRate :: "redemption_context \<Rightarrow> decimal \<Rightarrow> decimal res" where
  "defaultMaxRedemptionRate ctx amount =
     bind_res (Decimal_div amount (DecimalV (debt (rc_total ctx)))) (\<lambda>fraction.
     bind_res (redemptionRate (rc_fees ctx) (DecimalV fraction) None) (\<lambda>rate.
     bind_res (Decimal_add rate (DecimalV defaultRedemptionRateSlippageTolerance)) (\<lambda>r.
       Decimal_min (DecimalV r) (DecimalV ONE))))"

definition populateRedemption ::
  "'w ethers \<Rightarrow> redemption_context \<Rightarrow> decimal \<Rightarrow> decimalish option \<Rightarrow> decimal \<Rightarrow> string \<times> string \<times> val \<Rightarrow>
   ('w, redemption) io" where
  "populateRedemption e ctx attempted maxRedemptionRate truncatedAmount partialHints =
     bind_io (lift_io (case maxRedemptionRate of
         Some r \<Rightarrow> Decimal_from r
       | None \<Rightarrow> defaultMaxRedemptionRate ctx truncatedAmount)) (\<lambda>maxRedemptionRateOrDefault.
     bind_io (estimateAndPopulate e ''troveManager'' ''redeemCollateral'' (rc_overrides ctx)
       (addGasForBaseRateUpdate 10)
       [Decimal_hex truncatedAmount, Str (rc_firstHint ctx), Str (fst partialHints), Str (fst (snd partialHints)),
        snd (snd partialHints), Num redeemMaxIterations, Decimal_hex maxRedemptionRateOrDefault]) (\<lambda>raw.
     lift_io (new_PopulatedEthersRedemption e raw attempted truncatedAmount ctx maxRedemptionRate)))"

definition redeemLUSD ::
  "'w ethers \<Rightarrow> connection \<Rightarrow> decimalish \<Rightarrow> decimalish option \<Rightarrow> overrides \<Rightarrow> ('w, redemption) io" where
  "redeemLUSD e c amount maxRedemptionRate ov =
     bind_io (lift_io (prepareOverrides c ov)) (\<lambda>preparedOverrides.
     bind_io (lift_io (Decimal_from amount)) (\<lambda>attempted.
     bind_io (getFees e []) (\<lambda>fees.
     bind_io (getTotal e []) (\<lambda>total.
     bind_io (findRedemptionHints e attempted) (\<lambda>(truncatedAmount, firstRedemptionHint, partialHints).
     if Decimal_isZero truncatedAmount then
       bind_io (lift_io (Decimal_toString LUSD_MINIMUM_NET_DEBT None)) (\<lambda>d.
       throw_io (Error (''redeemLUSD: amount too low to redeem (try at least '' @ d @ '')'')))
     else populateRedemption e
       \<lparr>rc_overrides = preparedOverrides, rc_fees = fees, rc_total = total, rc_firstHint = firstRedemptionHint\<rparr>
       attempted maxRedemptionRate truncatedAmount partialHints)))))"

definition increaseAmountByMinimumNetDebt ::
  "'w ethers \<Rightarrow> redemption \<Rightarrow> decimalish option \<Rightarrow> ('w, redemption) io" where
  "increaseAmountByMinimumNetDebt e r newMaxRedemptionRate =
     (if \<not> isTruncated r
      then throw_io (Error (''PopulatedEthersRedemption: increaseAmountByMinimumNetDebt() can ''
             @ ''only be called when amount is truncated''))
      else bind_io (lift_io (Decimal_add (redeemableLUSDAmount r) (DecimalV LUSD_MINIMUM_NET_DEBT))) (\<lambda>attempted.
        populateRedemption e (r_context r) attempted
          (case newMaxRedemptionRate of Some x \<Rightarrow> Some x | None \<Rightarrow> r_maxRate r)
          attempted (AddressZero, AddressZero, Num 0)))"

end
