(* ===== verification/Liqbot.thy ===== *)
theory Liqbot
  imports Populatable
begin

text \<open>
  \<^verbatim>\<open>liqbot.js\<close>: an example program on the SDK that liquidates Troves when the price drops and the
  transaction pays for itself. The store and the gas price are read through parameters, since both may
  change between two reads; messages go to \<open>say\<close> with their level.
\<close>

datatype level = Info | Warn | Failure | Success

record 'w bot =
  bot_ethers :: "'w ethers"
  bot_connection :: connection
  storePrice :: "('w, decimal) io"
  getGasPrice :: "('w, val) io"
  say :: "level \<Rightarrow> string \<Rightarrow> ('w, unit) io"
  printError :: "js_error \<Rightarrow> ('w, unit) io"
  paint :: "string \<Rightarrow> string \<Rightarrow> string"  \<comment> \<open>\<open>chalk\<close>, by the name of the style\<close>
  gasUsedOf :: "raw_receipt \<Rightarrow> int"
  hashOf :: "raw_receipt \<Rightarrow> string"

definition underCollateralized :: "decimal \<Rightarrow> user_trove \<Rightarrow> bool res" where
  "underCollateralized currentPrice trove = collateralRatioIsBelowMinimum trove (DecimalV currentPrice)"

fun filter_res :: "('a \<Rightarrow> bool res) \<Rightarrow> 'a list \<Rightarrow> 'a list res" where
  "filter_res P [] = Inr []"
| "filter_res P (x # xs) =
     bind_res (P x) (\<lambda>b. bind_res (filter_res P xs) (\<lambda>ys. Inr (if b then x # ys else ys)))"

text \<open>\<^verbatim>\<open>sort(byDescendingCollateral)\<close> is stable.\<close>

definition byDescendingCollateral :: "user_trove list \<Rightarrow> user_trove list" where
  "byDescendingCollateral = sort_key (\<lambda>t. - int (bigNumber (collateral t)))"

definition select_troves :: "decimal \<Rightarrow> user_trove list \<Rightarrow> user_trove list res" where
  "select_troves currentPrice riskiestTroves =
     bind_res (filter_res (underCollateralized currentPrice) riskiestTroves) (\<lambda>ts.
       Inr (take 40 (byDescendingCollateral ts)))"

fun add_troves :: "trove \<Rightarrow> user_trove list \<Rightarrow> trove res" where
  "add_troves a [] = Inr a"
| "add_troves a (t # ts) = bind_res (Trove_add a t) (\<lambda>b. add_troves b ts)"

text \<open>\<^verbatim>\<open>troves.reduce((a, b) => a.add(b))\<close>, of which only the collateral is used.\<close>

definition total_of :: "user_trove list \<Rightarrow> trove res" where
  "total_of troves =
     (case troves of
        [] \<Rightarrow> Inl (TypeError ''Reduce of empty array with no initial value'')
      | t # ts \<Rightarrow> add_troves \<lparr>collateral = collateral t, debt = debt t\<rparr> ts)"

definition cost_in_usd :: "decimal \<Rightarrow> int \<Rightarrow> decimal \<Rightarrow> decimal res" where
  "cost_in_usd gasPrice gas currentPrice =
     bind_res (Decimal_mul gasPrice (NumberV (show_int gas))) (\<lambda>c. Decimal_mul c (DecimalV currentPrice))"

definition expectedCompensation :: "user_trove list \<Rightarrow> decimal \<Rightarrow> decimal res" where
  "expectedCompensation troves currentPrice =
     bind_res (total_of troves) (\<lambda>total.
     bind_res (Decimal_mul (collateral total) (NumberV ''0.005'')) (\<lambda>c.
     bind_res (Decimal_mul c (DecimalV currentPrice)) (\<lambda>c.
     bind_res (Decimal_mul LUSD_LIQUIDATION_RESERVE (NumberV (show_nat (length troves)))) (\<lambda>r.
       Decimal_add c (DecimalV r)))))"

text \<open>The report after a successful liquidation.\<close>

definition report_success :: "'w bot \<Rightarrow> decimal \<Rightarrow> raw_receipt \<Rightarrow> liquidation_details \<Rightarrow> ('w, unit) io" where
  "report_success b gasPrice raw details =
     (case liquidation_totals details of
        None \<Rightarrow> throw_io (TypeError ''Cannot read properties of undefined (reading 'mul')'')
      | Some (collateralGas, lusdGas, _) \<Rightarrow>
          bind_io (storePrice b) (\<lambda>price.
          bind_io (lift_io (cost_in_usd gasPrice (gasUsedOf b raw) price)) (\<lambda>gasCost.
          bind_io (storePrice b) (\<lambda>price.
          bind_io (lift_io (Decimal_mul collateralGas (DecimalV price))) (\<lambda>c.
          bind_io (lift_io (Decimal_add c (DecimalV lusdGas))) (\<lambda>totalCompensation.
          bind_io (lift_io (Decimal_toString collateralGas (Some 4))) (\<lambda>ethText.
          bind_io (lift_io (Decimal_toString lusdGas (Some 2))) (\<lambda>lusdText.
          bind_io (lift_io (Decimal_gte totalCompensation (DecimalV gasCost))) (\<lambda>profit.
          bind_io (lift_io (if profit then Decimal_sub totalCompensation (DecimalV gasCost)
                            else Decimal_sub gasCost (DecimalV totalCompensation))) (\<lambda>difference.
          bind_io (lift_io (Decimal_toString difference (Some 2))) (\<lambda>differenceText.
          say b Success (''Received '' @ paint b ''bold'' (ethText @ '' ETH'') @ '' + '' @ paint b ''bold'' (lusdText @ '' LUSD'')
            @ '' compensation ('' @ (if profit then paint b ''green'' (''$'' @ differenceText) @ '' profit''
                                     else paint b ''red'' (''$'' @ differenceText) @ '' loss'')
            @ '') for liquidating '' @ show_nat (length (liquidatedAddresses details)) @ '' Trove(s).''))))))))))))"

text \<open>The part of \<open>tryToLiquidate\<close> inside its \<^verbatim>\<open>try\<close>: sending, after comparing the cost, after preparing the
  transaction.\<close>

definition execute_liquidation ::
  "'w bot \<Rightarrow> decimal \<Rightarrow> user_trove list \<Rightarrow> liquidation_details transaction \<Rightarrow> ('w, unit) io" where
  "execute_liquidation b gasPrice troves liquidation =
     bind_io (say b Info (''Attempting to liquidate '' @ show_nat (length troves) @ '' Trove(s)...'')) (\<lambda>_.
     bind_io (send (bot_ethers b) (bot_connection b) liquidation) (\<lambda>tx.
     bind_io (waitForReceipt (bot_ethers b) (parse_receipt liquidation) tx) (\<lambda>receipt.
     case receipt of
       FailedReceipt raw \<Rightarrow> say b Failure (''TX '' @ hashOf b raw @ '' failed.'')
     | SuccessfulReceipt raw details \<Rightarrow> report_success b gasPrice raw details
     | PendingReceipt \<Rightarrow> return_io ())))"

definition consider_liquidation ::
  "'w bot \<Rightarrow> decimal \<Rightarrow> user_trove list \<Rightarrow> liquidation_details transaction \<Rightarrow> ('w, unit) io" where
  "consider_liquidation b gasPrice troves liquidation =
     bind_io (lift_io (numberify (override (tx_overrides (rawPopulatedTransaction liquidation)) ''gasLimit''))) (\<lambda>gasLimit.
     bind_io (storePrice b) (\<lambda>price.
     bind_io (lift_io (cost_in_usd gasPrice gasLimit price)) (\<lambda>expectedCost.
     bind_io (storePrice b) (\<lambda>price.
     bind_io (lift_io (expectedCompensation troves price)) (\<lambda>compensation.
     bind_io (lift_io (Decimal_gt expectedCost (DecimalV compensation))) (\<lambda>tooHigh.
     if tooHigh then
       bind_io (lift_io (Decimal_toString expectedCost (Some 2))) (\<lambda>c1.
       bind_io (lift_io (Decimal_toString compensation (Some 2))) (\<lambda>c2.
       say b Warn (''Skipping liquidation due to high TX cost ($'' @ c1 @ '' > $'' @ c2 @ '').'')))
     else execute_liquidation b gasPrice troves liquidation))))))"

definition liquidate_selected :: "'w bot \<Rightarrow> decimal \<Rightarrow> user_trove list \<Rightarrow> ('w, unit) io" where
  "liquidate_selected b gasPrice troves =
     bind_io (liquidate (bot_ethers b) (bot_connection b) (Inr (map ownerAddress troves))
       [(''gasPrice'', Decimal_hex gasPrice)]) (consider_liquidation b gasPrice troves)"

definition tryToLiquidate :: "'w bot \<Rightarrow> ('w, unit) io" where
  "tryToLiquidate b =
     bind_io (getGasPrice b) (\<lambda>g.
     bind_io (lift_io (decimalify g)) (\<lambda>gasPrice.
     bind_io (getTroves (bot_ethers b)
       \<lparr>l_first = Integral 1000, startingAt = None, sortedBy = ''ascendingCollateralRatio'', beforeRedistribution = False\<rparr> [])
       (\<lambda>r.
     bind_io (storePrice b) (\<lambda>price.
     bind_io (lift_io (select_troves price (case r of Inr ts \<Rightarrow> ts | Inl _ \<Rightarrow> []))) (\<lambda>troves.
     if troves = [] then return_io ()
     else catch_io (liquidate_selected b gasPrice troves) (\<lambda>err.
       bind_io (say b Failure ''Unexpected error:'') (\<lambda>_. printError b err)))))))"

text \<open>The listeners that \<open>main\<close> installs: on loading, and on every change of the store.\<close>

definition onLoaded :: "'w bot \<Rightarrow> ('w, unit) io" where
  "onLoaded b = bind_io (say b Info ''Waiting for price drops...'') (\<lambda>_. tryToLiquidate b)"

definition onStoreChange :: "'w bot \<Rightarrow> decimal \<Rightarrow> decimal \<Rightarrow> ('w, unit) io" where
  "onStoreChange b newPrice oldPrice =
     bind_io (lift_io (Decimal_lt newPrice (DecimalV oldPrice))) (\<lambda>dropped. when_io dropped (tryToLiquidate b))"

end
