(* ===== verification/SortedTroves_Props.thy ===== *)
theory SortedTroves_Props
  imports SortedTroves
begin

text \<open>
  The linked list refines a plain list of ids: \<open>repr\<close> is the state that represents a list, and every
  operation on it is the operation on lists. Searches end at a place where the list stays sorted.
\<close>

section \<open>Representation\<close>

fun next_in :: "string list \<Rightarrow> string \<Rightarrow> string" where
  "next_in (x # y # xs) z = (if z = x then y else next_in (y # xs) z)"
| "next_in xs z = AddressZero"

definition first :: "string list \<Rightarrow> string" where
  "first xs = (case xs of [] \<Rightarrow> AddressZero | x # _ \<Rightarrow> x)"

definition final :: "string list \<Rightarrow> string" where
  "final xs = first (rev xs)"

definition nodes_of :: "string list \<Rightarrow> string \<Rightarrow> node" where
  "nodes_of xs x = \<lparr>node_exists = x \<in> set xs, nextId = next_in xs x, prevId = next_in (rev xs) x\<rparr>"

text \<open>The state that represents a list; \<open>s\<close> gives the fields that are not part of the list.\<close>

definition repr :: "sorted_troves \<Rightarrow> string list \<Rightarrow> sorted_troves" where
  "repr s xs = s\<lparr>head := first xs, tail := final xs, list_size := length xs, nodes := nodes_of xs\<rparr>"

definition ids_ok :: "string list \<Rightarrow> bool" where
  "ids_ok xs \<longleftrightarrow> distinct xs \<and> AddressZero \<notin> set xs"

lemma first_simps [simp]: "first [] = AddressZero" "first (x # xs) = x"
  by (simp_all add: first_def)

lemma final_simps [simp]: "final [] = AddressZero" "final (xs @ [x]) = x" "final [x] = x"
  by (simp_all add: final_def)

lemma first_append: "first (xs @ ys) = (if xs = [] then first ys else first xs)"
  by (cases xs) simp_all

lemma final_append: "final (xs @ ys) = (if ys = [] then final xs else final ys)"
  by (simp add: final_def first_append)

lemma first_rev: "first (rev xs) = final xs" "final (rev xs) = first xs"
  by (simp_all add: final_def)

lemma first_zero_iff: "AddressZero \<notin> set xs \<Longrightarrow> first xs = AddressZero \<longleftrightarrow> xs = []"
  by (cases xs) auto

lemma final_zero_iff: "AddressZero \<notin> set xs \<Longrightarrow> final xs = AddressZero \<longleftrightarrow> xs = []"
  unfolding final_def by (simp add: first_zero_iff)

lemma next_in_notin: "z \<notin> set xs \<Longrightarrow> next_in xs z = AddressZero"
  by (induction xs z rule: next_in.induct) auto

text \<open>One more element in a list changes the successor of that element and of the one before it.\<close>

lemma next_in_insert:
  assumes "distinct (ys @ x # zs)"
  shows "next_in (ys @ x # zs) z =
    (if z = x then first zs else if ys \<noteq> [] \<and> z = final ys then x else next_in (ys @ zs) z)"
  using assms
proof (induction ys)
  case Nil
  then show ?case by (cases zs) auto
next
  case (Cons y ys)
  show ?case
  proof (cases ys)
    case Nil
    with Cons.prems show ?thesis by (cases zs) (auto simp: final_def next_in_notin)
  next
    case (Cons y' ys')
    moreover have "final (y # y' # ys') = final (y' # ys')"
      using final_append [of "[y]" "y' # ys'"] by simp
    moreover have "final (y' # ys') \<in> set (y' # ys')"
      by (metis final_simps(2) append_butlast_last_id last_in_set list.distinct(1))
    ultimately show ?thesis using Cons.IH Cons.prems by auto
  qed
qed

lemma next_in_last [simp]: "ids_ok (ys @ [x]) \<Longrightarrow> next_in (ys @ [x]) x = AddressZero"
  by (simp add: ids_ok_def next_in_insert)

lemma next_in_split: "ids_ok (ys @ x # zs) \<Longrightarrow> next_in (ys @ x # zs) x = first zs"
  by (simp add: ids_ok_def next_in_insert)

lemma prev_in_split: "ids_ok (ys @ x # zs) \<Longrightarrow> next_in (rev (ys @ x # zs)) x = final ys"
  using next_in_split [of "rev zs" x "rev ys"] by (auto simp: ids_ok_def final_def)

lemma repr_select [simp]:
  "head (repr s xs) = first xs" "tail (repr s xs) = final xs" "list_size (repr s xs) = length xs"
  "nodes (repr s xs) = nodes_of xs" "maxSize (repr s xs) = maxSize s" "contains (repr s xs) x \<longleftrightarrow> x \<in> set xs"
  "troveManager (repr s xs) = troveManager s" "borrowerOperationsAddress (repr s xs) = borrowerOperationsAddress s"
  by (simp_all add: repr_def contains_def nodes_of_def)

lemma repr_views:
  "isFull (repr s xs) \<longleftrightarrow> length xs = maxSize s" "isEmpty (repr s xs) \<longleftrightarrow> xs = []"
  by (simp_all add: isFull_def isEmpty_def)

section \<open>Insert positions\<close>

text \<open>A place to insert, as a way to split the list.\<close>

definition fits :: "(string \<Rightarrow> nat) \<Rightarrow> nat \<Rightarrow> string list \<Rightarrow> string list \<Rightarrow> bool" where
  "fits icr NICR ys zs \<longleftrightarrow> (ys \<noteq> [] \<longrightarrow> NICR \<le> icr (final ys)) \<and> (zs \<noteq> [] \<longrightarrow> icr (first zs) \<le> NICR)"

lemma ids_ok_append:
  "ids_ok (ys @ zs) \<longleftrightarrow> ids_ok ys \<and> ids_ok zs \<and> set ys \<inter> set zs = {}"
  by (auto simp: ids_ok_def)

lemma ids_ok_zero:
  assumes "ids_ok xs"
  shows "first xs = AddressZero \<longleftrightarrow> xs = []" "final xs = AddressZero \<longleftrightarrow> xs = []"
  using assms by (auto simp: ids_ok_def first_zero_iff final_zero_iff)

lemma validInsertPosition_split:
  assumes "ids_ok (ys @ zs)"
  shows "validInsertPosition (repr s (ys @ zs)) icr NICR (final ys) (first zs) \<longleftrightarrow> fits icr NICR ys zs"
proof -
  have ok: "ids_ok ys" "ids_ok zs"
    using assms by (simp_all add: ids_ok_append)
  consider "ys = []" "zs = []" | "ys = []" "zs \<noteq> []" | "ys \<noteq> []" "zs = []" | "ys \<noteq> []" "zs \<noteq> []"
    by blast
  then show ?thesis
  proof cases
    case 4
    then obtain us y where y: "ys = us @ [y]" by (metis append_butlast_last_id)
    then have "nextId (nodes_of (ys @ zs) y) = first zs"
      using assms next_in_split [of us y zs] by (simp add: nodes_of_def)
    with 4 y show ?thesis
      using ids_ok_zero [OF ok(1)] ids_ok_zero [OF ok(2)] by (auto simp: validInsertPosition_def fits_def)
  qed (use ids_ok_zero [OF ok(1)] ids_ok_zero [OF ok(2)] in
      \<open>auto simp: validInsertPosition_def fits_def repr_views\<close>)
qed

lemma final_in: "xs \<noteq> [] \<Longrightarrow> final xs \<in> set xs"
  by (metis append_butlast_last_id final_simps(2) last_in_set)

text \<open>Conversely, every valid position is a split of the list.\<close>

lemma validInsertPosition_fits:
  assumes "ids_ok xs" and "validInsertPosition (repr s xs) icr NICR p n"
  shows "\<exists>ys zs. xs = ys @ zs \<and> p = final ys \<and> n = first zs \<and> fits icr NICR ys zs"
proof -
  consider "p = AddressZero" | "p \<noteq> AddressZero" "n = AddressZero" | "p \<noteq> AddressZero" "n \<noteq> AddressZero"
    by blast
  then show ?thesis
  proof cases
    case 1
    with assms show ?thesis
      by (intro exI [of _ "[]"] exI [of _ xs])
         (auto simp: validInsertPosition_def fits_def repr_views split: if_splits)
  next
    case 2
    with assms show ?thesis
      by (intro exI [of _ xs] exI [of _ "[]"]) (auto simp: validInsertPosition_def fits_def split: if_splits)
  next
    case 3
    then have n: "next_in xs p = n" "NICR \<le> icr p" "icr n \<le> NICR"
      using assms(2) by (auto simp: validInsertPosition_def nodes_of_def)
    with 3 have "p \<in> set xs" using next_in_notin by metis
    then obtain us zs where us: "xs = us @ p # zs" by (meson split_list)
    with n(1) assms(1) have "first zs = n" using next_in_split by metis
    with us n 3 show ?thesis
      by (intro exI [of _ "us @ [p]"] exI [of _ zs]) (auto simp: fits_def)
  qed
qed

lemma fits_at:
  assumes "ids_ok (ys @ zs)" and "fits icr NICR ys zs"
  shows "descend_loop (repr s (ys @ zs)) icr NICR (final ys) (first zs) = Some (final ys, first zs)"
    and "ascend_loop (repr s (ys @ zs)) icr NICR (final ys) (first zs) = Some (final ys, first zs)"
  using assms by (subst descend_loop.simps ascend_loop.simps; simp add: validInsertPosition_split)+

text \<open>Going down from a node that is not below the ratio ends at a place that fits.\<close>

lemma descend_loop_fits:
  assumes "ids_ok (ys @ x # zs)" and "NICR \<le> icr x"
  shows "\<exists>us vs. ys @ x # zs = us @ vs \<and> fits icr NICR us vs
    \<and> descend_loop (repr s (ys @ x # zs)) icr NICR x (first zs) = Some (final us, first vs)"
  using assms
proof (induction zs arbitrary: ys x)
  case Nil
  then show ?case
    using fits_at(1) [of "ys @ [x]" "[]" icr NICR s]
    by (intro exI [of _ "ys @ [x]"] exI [of _ "[]"]) (simp add: fits_def)
next
  case (Cons z zs)
  show ?case
  proof (cases "icr z \<le> NICR")
    case True
    then show ?thesis
      using Cons.prems fits_at(1) [of "ys @ [x]" "z # zs" icr NICR s]
      by (intro exI [of _ "ys @ [x]"] exI [of _ "z # zs"]) (simp add: fits_def)
  next
    case False
    have "\<not> validInsertPosition (repr s (ys @ x # z # zs)) icr NICR x z"
      using False Cons.prems validInsertPosition_split [of "ys @ [x]" "z # zs" s icr NICR] by (simp add: fits_def)
    moreover have "x \<noteq> AddressZero" "next_in (ys @ x # z # zs) x = z" "next_in (ys @ x # z # zs) z = first zs"
      using Cons.prems(1) next_in_split [of ys x "z # zs"] next_in_split [of "ys @ [x]" z zs] by (auto simp: ids_ok_def)
    ultimately have "descend_loop (repr s (ys @ x # z # zs)) icr NICR x z =
        descend_loop (repr s (ys @ x # z # zs)) icr NICR z (first zs)"
      by (subst descend_loop.simps) (simp add: nodes_of_def)
    with Cons.IH [of "ys @ [x]" z] Cons.prems False show ?thesis by simp
  qed
qed

lemma ascend_loop_fits:
  assumes "ids_ok (zs @ x # ys)" and "icr x \<le> NICR"
  shows "\<exists>us vs. zs @ x # ys = us @ vs \<and> fits icr NICR us vs
    \<and> ascend_loop (repr s (zs @ x # ys)) icr NICR (final zs) x = Some (final us, first vs)"
  using assms
proof (induction zs arbitrary: ys x rule: rev_induct)
  case Nil
  then show ?case
    using fits_at(2) [of "[]" "x # ys" icr NICR s]
    by (intro exI [of _ "[]"] exI [of _ "x # ys"]) (simp add: fits_def)
next
  case (snoc z zs)
  show ?case
  proof (cases "NICR \<le> icr z")
    case True
    then show ?thesis
      using snoc.prems fits_at(2) [of "zs @ [z]" "x # ys" icr NICR s]
      by (intro exI [of _ "zs @ [z]"] exI [of _ "x # ys"]) (simp add: fits_def)
  next
    case False
    have "\<not> validInsertPosition (repr s (zs @ z # x # ys)) icr NICR z x"
      using False snoc.prems validInsertPosition_split [of "zs @ [z]" "x # ys" s icr NICR] by (simp add: fits_def)
    moreover have "x \<noteq> AddressZero" "next_in (rev (zs @ z # x # ys)) x = z"
        "next_in (rev (zs @ z # x # ys)) z = final zs"
      using snoc.prems(1) prev_in_split [of "zs @ [z]" x ys] prev_in_split [of zs z "x # ys"] by (auto simp: ids_ok_def)
    ultimately have "ascend_loop (repr s (zs @ z # x # ys)) icr NICR z x =
        ascend_loop (repr s (zs @ z # x # ys)) icr NICR (final zs) z"
      by (subst ascend_loop.simps) (simp add: nodes_of_def)
    with snoc.IH [of z "x # ys"] snoc.prems False show ?thesis by simp
  qed
qed

text \<open>What a search returns: a place that fits.\<close>

definition found :: "(string \<Rightarrow> nat) \<Rightarrow> nat \<Rightarrow> string list \<Rightarrow> (string \<times> string) option \<Rightarrow> bool" where
  "found icr NICR xs r \<longleftrightarrow> (\<exists>us vs. xs = us @ vs \<and> fits icr NICR us vs \<and> r = Some (final us, first vs))"

lemma foundI: "fits icr NICR us vs \<Longrightarrow> xs = us @ vs \<Longrightarrow> found icr NICR xs (Some (final us, first vs))"
  by (auto simp: found_def)

lemma descendList_found:
  assumes "ids_ok xs" and "x \<in> set xs" and "NICR \<le> icr x \<or> x = first xs"
  shows "found icr NICR xs (descendList (repr s xs) icr NICR x)"
proof -
  obtain ys zs where xs: "xs = ys @ x # zs" using assms(2) by (meson split_list)
  show ?thesis
  proof (cases "first xs = x \<and> icr x \<le> NICR")
    case True
    moreover from True have "found icr NICR xs (Some (final [], first xs))"
      by (intro foundI) (simp_all add: fits_def)
    ultimately show ?thesis by (simp add: descendList_def)
  next
    case False
    with assms xs show ?thesis
      using descend_loop_fits [of ys x zs NICR icr s] next_in_split [of ys x zs]
      by (auto simp: descendList_def found_def nodes_of_def)
  qed
qed

lemma ascendList_found:
  assumes "ids_ok xs" and "x \<in> set xs" and "icr x \<le> NICR"
  shows "found icr NICR xs (ascendList (repr s xs) icr NICR x)"
proof -
  obtain ys zs where xs: "xs = ys @ x # zs" using assms(2) by (meson split_list)
  show ?thesis
  proof (cases "final xs = x \<and> NICR \<le> icr x")
    case True
    moreover from True have "found icr NICR xs (Some (final xs, first []))"
      by (intro foundI) (simp_all add: fits_def)
    ultimately show ?thesis by (simp add: ascendList_def)
  next
    case False
    with assms xs show ?thesis
      using ascend_loop_fits [of ys x zs icr NICR s] prev_in_split [of ys x zs]
      by (auto simp: ascendList_def found_def nodes_of_def)
  qed
qed

lemma descendList_empty: "descendList (repr s []) icr NICR AddressZero = Some (AddressZero, AddressZero)"
  by (subst descendList_def, subst descend_loop.simps) (simp add: nodes_of_def)

lemma descendList_head: "ids_ok xs \<Longrightarrow> found icr NICR xs (descendList (repr s xs) icr NICR (first xs))"
  using descendList_found [of xs "first xs" NICR icr s]
  by (cases xs) (auto simp: descendList_empty found_def fits_def)

lemma findInsertPosition_found:
  assumes "ids_ok xs"
  shows "found icr NICR xs (findInsertPosition (repr s xs) icr NICR p n)"
proof -
  let ?p = "if p \<noteq> AddressZero \<and> (\<not> contains (repr s xs) p \<or> icr p < NICR) then AddressZero else p"
  let ?n = "if n \<noteq> AddressZero \<and> (\<not> contains (repr s xs) n \<or> NICR < icr n) then AddressZero else n"
  have "?p \<noteq> AddressZero \<Longrightarrow> ?p \<in> set xs \<and> NICR \<le> icr ?p" "?n \<noteq> AddressZero \<Longrightarrow> ?n \<in> set xs \<and> icr ?n \<le> NICR"
    by (auto split: if_splits)
  moreover have "findInsertPosition (repr s xs) icr NICR p n =
      (if ?p = AddressZero \<and> ?n = AddressZero then descendList (repr s xs) icr NICR (first xs)
       else if ?p = AddressZero then ascendList (repr s xs) icr NICR ?n
       else descendList (repr s xs) icr NICR ?p)"
    unfolding findInsertPosition_def Let_def by (simp only: repr_select if_cancel)
  ultimately show ?thesis
    using assms by (auto simp: descendList_head intro: descendList_found ascendList_found)
qed

text \<open>C33: The search for an insert position always ends, whatever hints it is given, and returns two
  neighbours (the zero address standing for either end) between which the ratio fits.\<close>

theorem findInsertPosition_total:
  assumes "ids_ok xs"
  shows "\<exists>us vs. xs = us @ vs \<and> fits icr NICR us vs
    \<and> findInsertPosition (repr s xs) icr NICR p n = Some (final us, first vs)"
  using findInsertPosition_found [OF assms] by (simp add: found_def)

section \<open>Linking and unlinking\<close>

lemma nodes_of_insert:
  assumes "ids_ok (ys @ x # zs)"
  shows "nodes_of (ys @ x # zs) z =
    (if z = x then \<lparr>node_exists = True, nextId = first zs, prevId = final ys\<rparr>
     else (nodes_of (ys @ zs) z)
       \<lparr>nextId := if ys \<noteq> [] \<and> z = final ys then x else next_in (ys @ zs) z,
        prevId := if zs \<noteq> [] \<and> z = first zs then x else next_in (rev (ys @ zs)) z\<rparr>)"
proof -
  have "distinct (ys @ x # zs)" "distinct (rev zs @ x # rev ys)"
    using assms by (auto simp: ids_ok_def)
  then show ?thesis
    by (auto simp: nodes_of_def next_in_insert first_rev)
qed

lemma nodes_of_notin: "x \<notin> set xs \<Longrightarrow> nodes_of xs x = zero_node"
  by (simp add: nodes_of_def zero_node_def next_in_notin)

lemma first_in: "xs \<noteq> [] \<Longrightarrow> first xs \<in> set xs"
  by (cases xs) auto

lemma nodes_of_select [simp]:
  "nextId (nodes_of xs z) = next_in xs z" "prevId (nodes_of xs z) = next_in (rev xs) z"
  "node_exists (nodes_of xs z) \<longleftrightarrow> z \<in> set xs"
  by (simp_all add: nodes_of_def)

lemma link_repr:
  assumes "ids_ok (ys @ x # zs)"
  shows "(link x (final ys) (first zs) (repr s (ys @ zs)))\<lparr>list_size := Suc (length (ys @ zs))\<rparr> = repr s (ys @ x # zs)"
proof -
  have ok: "ids_ok ys" "ids_ok zs" and x: "nodes_of (ys @ zs) x = zero_node" "x \<noteq> AddressZero"
      and ends: "ys \<noteq> [] \<Longrightarrow> final ys \<noteq> x" "zs \<noteq> [] \<Longrightarrow> first zs \<noteq> x"
    using assms first_in [of zs] final_in [of ys] by (auto simp: ids_ok_def nodes_of_notin)
  have nodes: "nodes (link x (final ys) (first zs) (repr s (ys @ zs))) = nodes_of (ys @ x # zs)"
    using ids_ok_zero [OF ok(1)] ids_ok_zero [OF ok(2)] x ends
    by (auto simp: fun_eq_iff link_def Let_def nodes_of_insert [OF assms] zero_node_def first_append final_append)
  have "head (link x (final ys) (first zs) (repr s (ys @ zs))) = first (ys @ x # zs)"
      "tail (link x (final ys) (first zs) (repr s (ys @ zs))) = final (ys @ x # zs)"
    using ids_ok_zero [OF ok(1)] ids_ok_zero [OF ok(2)]
    by (auto simp: link_def Let_def first_append final_append final_append [of "[x]" zs, simplified])
  then show ?thesis
    using nodes by (cases s) (auto simp: repr_def link_def Let_def)
qed

lemma node_eq_iff:
  "a = b \<longleftrightarrow> node_exists a = node_exists b \<and> nextId a = nextId b \<and> prevId a = prevId (b :: node)"
  by (cases a; cases b) simp

lemma final_last: "xs \<noteq> [] \<Longrightarrow> final xs = last xs"
  by (metis append_butlast_last_id final_simps(2))

lemma next_in_neighbours:
  assumes "ids_ok (ys @ x # zs)"
  shows "next_in (ys @ x # zs) x = first zs" "next_in (rev (ys @ x # zs)) x = final ys"
  using assms next_in_split prev_in_split by blast+

lemma ids_ok_remove: "ids_ok (ys @ x # zs) \<Longrightarrow> ids_ok (ys @ zs)"
  by (simp add: ids_ok_def)

text \<open>The neighbours of a node are joined when it is taken out.\<close>

lemma next_in_remove:
  assumes "ids_ok (ys @ x # zs)" and "z \<noteq> x"
  shows "next_in (ys @ zs) z = (if ys \<noteq> [] \<and> z = final ys then first zs else next_in (ys @ x # zs) z)"
proof (cases "ys \<noteq> [] \<and> z = final ys")
  case True
  then obtain us where "ys = us @ [z]"
    using append_butlast_last_id [of ys] final_last [of ys] by metis
  then have "ys @ zs = us @ z # zs" by simp
  moreover from this assms(1) have "ids_ok (us @ z # zs)"
    using ids_ok_remove by metis
  ultimately have "next_in (ys @ zs) z = first zs"
    by (simp only: next_in_split)
  with True show ?thesis by simp
next
  case False
  with assms show ?thesis by (auto simp: ids_ok_def next_in_insert)
qed

lemma nodes_of_remove:
  assumes "ids_ok (ys @ x # zs)"
  shows "nodes_of (ys @ zs) z =
    (if z = x then zero_node
     else (nodes_of (ys @ x # zs) z)
       \<lparr>nextId := if ys \<noteq> [] \<and> z = final ys then first zs else next_in (ys @ x # zs) z,
        prevId := if zs \<noteq> [] \<and> z = first zs then final ys else next_in (rev (ys @ x # zs)) z\<rparr>)"
proof -
  have "ids_ok (rev zs @ x # rev ys)" and "x \<notin> set (ys @ zs)"
    using assms by (auto simp: ids_ok_def)
  then show ?thesis
    using next_in_remove [OF assms, of z] next_in_remove [of "rev zs" x "rev ys" z]
    by (auto simp: nodes_of_def nodes_of_notin first_rev zero_node_def next_in_notin)
qed

lemma unlink_repr:
  assumes "ids_ok (ys @ x # zs)"
  shows "(upd_node x (\<lambda>_. zero_node) (unlink x (repr s (ys @ x # zs))))\<lparr>list_size := length (ys @ zs)\<rparr> = repr s (ys @ zs)"
proof -
  have ok: "ids_ok ys" "ids_ok zs"
      and ends: "ys \<noteq> [] \<Longrightarrow> final ys \<noteq> x" "zs \<noteq> [] \<Longrightarrow> first zs \<noteq> x" "zs \<noteq> [] \<Longrightarrow> final zs \<noteq> x"
        "ys \<noteq> [] \<Longrightarrow> first ys \<noteq> x" "ys \<noteq> [] \<Longrightarrow> zs \<noteq> [] \<Longrightarrow> final ys \<noteq> first zs"
    using assms first_in [of zs] final_in [of ys] first_in [of ys] final_in [of zs] by (auto simp: ids_ok_def)
  have final: "final (x # zs) = (if zs = [] then x else final zs)"
    using final_append [of "[x]" zs] by simp
  let ?s = "unlink x (repr s (ys @ x # zs))"
  note simps = unlink_def Let_def first_append final_append final
  have nodes: "(nodes ?s)(x := zero_node) = nodes_of (ys @ zs)"
  proof
    fix z
    show "((nodes ?s)(x := zero_node)) z = nodes_of (ys @ zs) z"
      unfolding nodes_of_remove [OF assms] node_eq_iff using ends next_in_neighbours [OF assms]
      by (cases "ys = []"; cases "zs = []"; simp add: simps del: next_in.simps)
  qed
  have "head ?s = first (ys @ zs)" "tail ?s = final (ys @ zs)"
    using ends next_in_neighbours [OF assms] by (cases "ys = []"; cases "zs = []"; simp add: simps del: next_in.simps)+
  then show ?thesis
    using nodes by (cases s) (auto simp: repr_def unlink_def Let_def)
qed

section \<open>The operations\<close>

definition descending :: "(string \<Rightarrow> nat) \<Rightarrow> string list \<Rightarrow> bool" where
  "descending icr xs \<longleftrightarrow> sorted_wrt (\<lambda>a b. icr b \<le> icr a) xs"

lemma descending_insert:
  assumes "descending icr (ys @ zs)" and "fits icr NICR ys zs" and "x \<notin> set (ys @ zs)"
  shows "descending (icr(x := NICR)) (ys @ x # zs)"
proof -
  have "\<forall>y\<in>set ys. NICR \<le> icr y" if "ys \<noteq> []"
  proof -
    obtain us u where "ys = us @ [u]" using \<open>ys \<noteq> []\<close> by (metis append_butlast_last_id)
    then show ?thesis using assms(1,2) by (auto simp: descending_def fits_def sorted_wrt_append intro: order_trans)
  qed
  moreover have "\<forall>z\<in>set zs. icr z \<le> NICR" if "zs \<noteq> []"
    using that assms(1,2) by (cases zs) (auto simp: descending_def fits_def sorted_wrt_append intro: order_trans)
  moreover have "sorted_wrt (\<lambda>a b. (icr(x := NICR)) b \<le> (icr(x := NICR)) a) us = sorted_wrt (\<lambda>a b. icr b \<le> icr a) us"
    if "x \<notin> set us" for us
    using that by (induction us) auto
  ultimately show ?thesis
    using assms by (force simp: descending_def sorted_wrt_append)
qed

lemma insert_node_repr:
  assumes "ids_ok xs" and "length xs < maxSize s" and "maxSize s < 2 ^ 256"
    and "x \<notin> set xs" and "x \<noteq> AddressZero" and "0 < NICR"
  shows "\<exists>ys zs. xs = ys @ zs \<and> fits icr NICR ys zs
    \<and> insert_node icr x NICR p n (repr s xs) = Inr (repr s (ys @ x # zs))"
proof -
  let ?q = "if validInsertPosition (repr s xs) icr NICR p n then Some (p, n)
    else findInsertPosition (repr s xs) icr NICR p n"
  have "found icr NICR xs ?q"
    using validInsertPosition_fits [OF assms(1), of s icr NICR p n] findInsertPosition_found [OF assms(1)]
    by (cases "validInsertPosition (repr s xs) icr NICR p n") (force simp: found_def)+
  then obtain ys zs where q: "xs = ys @ zs" "fits icr NICR ys zs" "?q = Some (final ys, first zs)"
    by (auto simp: found_def)
  have "ids_ok (ys @ x # zs)" using assms(1,4,5) q(1) by (auto simp: ids_ok_def)
  from link_repr [OF this, of s] q assms have "insert_node icr x NICR p n (repr s xs) = Inr (repr s (ys @ x # zs))"
    by (auto simp: insert_node_def require_sol_def repr_views safe_add_def split: if_splits option.splits)
  with q show ?thesis by blast
qed

lemma remove_node_repr:
  assumes "ids_ok (ys @ x # zs)"
  shows "remove_node x (repr s (ys @ x # zs)) = Inr (repr s (ys @ zs))"
  using unlink_repr [OF assms, of s] by (simp add: remove_node_def require_sol_def safe_sub_def)

text \<open>C11: Inserting refines the insertion into a sorted list: with any hints, an insertion by one of the two
  callers that gives a new non-zero id with a positive ratio to a list that is not full succeeds and
  gives the linked list for a sorted list with the id added; every other insertion reverts.\<close>

theorem insert_refines:
  assumes "ids_ok xs" and "descending icr xs" and "length xs \<le> maxSize s" and "maxSize s < 2 ^ 256"
  shows "if (sender = borrowerOperationsAddress s \<or> sender = troveManager s) \<and> length xs \<noteq> maxSize s
      \<and> x \<notin> set xs \<and> x \<noteq> AddressZero \<and> 0 < NICR
    then \<exists>ys zs. xs = ys @ zs \<and> insert_trove icr sender x NICR p n (repr s xs) = Inr (repr s (ys @ x # zs))
      \<and> ids_ok (ys @ x # zs) \<and> descending (icr(x := NICR)) (ys @ x # zs)
    else \<exists>msg. insert_trove icr sender x NICR p n (repr s xs) = Inl (Error msg)"
proof (cases "(sender = borrowerOperationsAddress s \<or> sender = troveManager s) \<and> length xs \<noteq> maxSize s
    \<and> x \<notin> set xs \<and> x \<noteq> AddressZero \<and> 0 < NICR")
  case True
  then obtain ys zs where i: "xs = ys @ zs" "fits icr NICR ys zs"
      "insert_node icr x NICR p n (repr s xs) = Inr (repr s (ys @ x # zs))"
    using insert_node_repr [of xs s x NICR icr p n] assms by fastforce
  moreover have "insert_trove icr sender x NICR p n (repr s xs) = insert_node icr x NICR p n (repr s xs)"
    using True by (simp add: insert_trove_def requireCallerIsBOorTroveM_def require_sol_def)
  moreover have "ids_ok (ys @ x # zs)" "descending (icr(x := NICR)) (ys @ x # zs)"
    using True assms(1,2) i(1) descending_insert [OF _ i(2), of x] by (auto simp: ids_ok_def)
  ultimately show ?thesis using True by auto
next
  case False
  then show ?thesis
    by (auto simp: insert_trove_def requireCallerIsBOorTroveM_def require_sol_def insert_node_def repr_views)
qed

text \<open>Removing takes the id out of the list; re-inserting moves it to a place that fits its new ratio,
  whatever its old ratio was, and always ends. Both revert for an id that is not in the list.\<close>

theorem remove_reInsert_refine:
  assumes "ids_ok xs" and "descending icr (remove1 x xs)" and "length xs \<le> maxSize s" and "maxSize s < 2 ^ 256"
    and "AddressZero \<noteq> x" and "0 < NICR" and "sender = troveManager s"
  shows "if x \<in> set xs
    then remove_trove sender x (repr s xs) = Inr (repr s (remove1 x xs))
      \<and> (\<exists>ys zs. remove1 x xs = ys @ zs \<and> reInsert icr sender x NICR p n (repr s xs) = Inr (repr s (ys @ x # zs))
           \<and> ids_ok (ys @ x # zs) \<and> descending (icr(x := NICR)) (ys @ x # zs))
    else (\<exists>msg. remove_trove sender x (repr s xs) = Inl (Error msg))
      \<and> (\<exists>msg. reInsert icr sender x NICR p n (repr s xs) = Inl (Error msg))"
proof (cases "x \<in> set xs")
  case True
  then obtain us vs where xs: "xs = us @ x # vs" by (meson split_list)
  with assms(1) have rem: "remove1 x xs = us @ vs" "ids_ok (us @ vs)" "x \<notin> set (us @ vs)"
    by (auto simp: ids_ok_def remove1_append)
  then obtain ys zs where i: "us @ vs = ys @ zs" "fits icr NICR ys zs"
      "insert_node icr x NICR p n (repr s (us @ vs)) = Inr (repr s (ys @ x # zs))"
    using insert_node_repr [of "us @ vs" s x NICR icr p n] assms xs by auto
  have "ids_ok (ys @ x # zs)" "descending (icr(x := NICR)) (ys @ x # zs)"
    using i(1) rem assms(2,5) descending_insert [of icr ys zs NICR x] i(2) by (auto simp: ids_ok_def)
  moreover have "remove_node x (repr s xs) = Inr (repr s (us @ vs))"
    using remove_node_repr assms(1) xs by blast
  ultimately show ?thesis
    using True i rem assms(6,7)
    by (auto simp: remove_trove_def reInsert_def requireCallerIsTroveManager_def requireCallerIsBOorTroveM_def require_sol_def)
next
  case False
  then show ?thesis
    using assms(7) by (auto simp: remove_trove_def reInsert_def requireCallerIsTroveManager_def
        requireCallerIsBOorTroveM_def require_sol_def remove_node_def)
qed

section \<open>An example\<close>

definition example_list :: sorted_troves where
  "example_list = \<lparr>head = AddressZero, tail = AddressZero, maxSize = 10, list_size = 0, nodes = (\<lambda>_. zero_node),
     owner = AddressZero, troveManager = ''TM'', borrowerOperationsAddress = ''BO''\<rparr>"

definition example_icr :: "string \<Rightarrow> nat" where
  "example_icr x = (if x = ''a'' then 300 else if x = ''b'' then 200 else if x = ''c'' then 100 else 0)"

lemma example_ok:
  "ids_ok [''a'', ''b'', ''c'']" "descending example_icr [''a'', ''b'', ''c'']" "descending example_icr [''a'', ''b'']"
  "maxSize example_list = 10" "troveManager example_list = ''TM''" "borrowerOperationsAddress example_list = ''BO''"
  "AddressZero \<noteq> ''c''" "AddressZero \<noteq> ''d''"
  by (simp_all add: ids_ok_def AddressZero_def descending_def example_icr_def example_list_def)

lemma split_three: "[a, b, c] = ys @ zs \<longleftrightarrow>
  (ys, zs) \<in> {([], [a, b, c]), ([a], [b, c]), ([a, b], [c]), ([a, b, c], [])}"
  by (cases ys; cases "tl ys"; cases "tl (tl ys)"; cases "tl (tl (tl ys))") auto

theorem findInsertPosition_total_witness:
  "findInsertPosition (repr example_list [''a'', ''b'', ''c'']) example_icr 250 ''c'' ''c'' = Some (''a'', ''b'')"
  using findInsertPosition_total [OF example_ok(1), of example_icr 250 example_list "''c''" "''c''"]
  unfolding split_three by (auto simp: fits_def example_icr_def final_def)

theorem insert_refines_witness:
  "insert_trove example_icr ''BO'' ''d'' 250 ''c'' AddressZero (repr example_list [''a'', ''b'', ''c'']) =
     Inr (repr example_list [''a'', ''d'', ''b'', ''c''])"
  using insert_refines [OF example_ok(1,2), of example_list "''BO''" "''d''" 250 "''c''" AddressZero]
  unfolding split_three
  by (auto simp: example_ok example_ok(8) [THEN not_sym] descending_def example_icr_def split: if_splits)

theorem remove_reInsert_refine_witness:
  "remove_trove ''TM'' ''c'' (repr example_list [''a'', ''b'', ''c'']) = Inr (repr example_list [''a'', ''b''])
   \<and> (\<exists>xs. reInsert example_icr ''TM'' ''c'' 400 AddressZero AddressZero (repr example_list [''a'', ''b'', ''c'']) =
        Inr (repr example_list xs) \<and> descending (example_icr(''c'' := 400)) xs)"
  using remove_reInsert_refine [of "[''a'', ''b'', ''c'']" example_icr "''c''" example_list 400 "''TM''" AddressZero AddressZero]
  by (auto simp: example_ok)

end
