(* ===== verification/Populatable_Props.thy ===== *)
theory Populatable_Props
  imports Populatable SortedTroves_Props
begin

text \<open>
  The preparation of transactions: the number of trials, the hints for the sorted list, the gas limit of
  an opening and the amounts of a redemption. The list that hints refer to is an interface, \<open>sorted_list\<close>,
  which the linked list of \<^verbatim>\<open>SortedTroves.sol\<close> implements.
\<close>

section \<open>Trials\<close>

lemma trials_sum: "sum_list (trials n) = n"
  by (induction n rule: trials.induct) (subst trials.simps, auto simp: Let_def)

lemma trials_bounds: "k \<in> set (trials n) \<Longrightarrow> 1 \<le> k \<and> k \<le> 2500"
proof (induction n rule: trials.induct)
  case (1 n)
  then show ?case
    by (subst (asm) (2) trials.simps) (auto simp: Let_def maxNumberOfTrialsAtOnce_def split: if_splits)
qed

lemma trials_length: "length (trials n) = (n + 2499) div 2500"
proof (induction n rule: trials.induct)
  case (1 n)
  show ?case
  proof (cases "n \<le> 2500")
    case True
    then show ?thesis
      by (cases "n = 0") (subst trials.simps, subst trials.simps, auto simp: Let_def maxNumberOfTrialsAtOnce_def)+
  next
    case False
    moreover from this have "length (trials (n - 2500)) = (n - 2500 + 2499) div 2500"
      using 1 [of "min n maxNumberOfTrialsAtOnce"] by (simp add: maxNumberOfTrialsAtOnce_def)
    moreover have "(n + 2499) div 2500 = Suc ((n - 2500 + 2499) div 2500)"
      using False by (simp add: div_if)
    ultimately show ?thesis
      by (subst trials.simps) (simp add: Let_def maxNumberOfTrialsAtOnce_def)
  qed
qed

lemma least_root_bounds:
  assumes "lo = 0 \<or> (lo - 1) * (lo - 1) < n" and "n \<le> (lo + fuel) * (lo + fuel)"
  shows "n \<le> least_root n lo fuel * least_root n lo fuel
    \<and> (least_root n lo fuel = 0 \<or> (least_root n lo fuel - 1) * (least_root n lo fuel - 1) < n)"
  using assms by (induction n lo fuel rule: least_root.induct) auto

lemma totalTrials_bounds:
  "100 * n \<le> totalTrials n * totalTrials n"
  "0 < n \<Longrightarrow> 0 < totalTrials n \<and> (totalTrials n - 1) * (totalTrials n - 1) < 100 * n"
proof -
  have "100 * n \<le> 100 * n * (100 * n)" by simp
  then have *: "100 * n \<le> totalTrials n * totalTrials n
      \<and> (totalTrials n = 0 \<or> (totalTrials n - 1) * (totalTrials n - 1) < 100 * n)"
    unfolding totalTrials_def using least_root_bounds [of 0 "100 * n" "100 * n"] by simp
  then show "100 * n \<le> totalTrials n * totalTrials n" by simp
  show "0 < n \<Longrightarrow> 0 < totalTrials n \<and> (totalTrials n - 1) * (totalTrials n - 1) < 100 * n"
    using * by (cases "totalTrials n") auto
qed

text \<open>For a list that is not empty the number of trials is ten times the square root of its length,
  rounded up; the generator ends after as many rounds as 2500 goes into it, and its rounds are positive,
  at most 2500 and add up to that number.\<close>

theorem trials_cover_list:
  assumes "0 < n"
  shows "\<exists>ts. generateTrials (totalTrials n) = Inr ts \<and> sum_list ts = totalTrials n
    \<and> (\<forall>k\<in>set ts. 1 \<le> k \<and> k \<le> 2500) \<and> length ts = (totalTrials n + 2499) div 2500
    \<and> (totalTrials n - 1) * (totalTrials n - 1) < 100 * n \<and> 100 * n \<le> totalTrials n * totalTrials n"
  using totalTrials_bounds [of n] assms
  by (auto simp: generateTrials_def trials_sum trials_length dest: trials_bounds)

theorem trials_cover_list_witness:
  "\<exists>ts. generateTrials (totalTrials 3) = Inr ts \<and> sum_list ts = totalTrials 3
    \<and> (totalTrials 3 - 1) * (totalTrials 3 - 1) < (300 :: nat)"
  using trials_cover_list [of 3] by auto

section \<open>Hexadecimal texts\<close>

lemma hex_digit_nth: "d < 16 \<Longrightarrow> hex_digit (''0123456789abcdef'' ! d) = Some d"
  by (simp add: hex_digit_def less_Suc_eq numeral_eq_Suc Let_def) (elim disjE; simp)

lemma parse_hex_append:
  "parse_hex acc (s @ t) = (case parse_hex acc s of None \<Rightarrow> None | Some a \<Rightarrow> parse_hex a t)"
  by (induction s arbitrary: acc) (auto split: option.splits)

lemma parse_hex_digits: "parse_hex 0 (hex_digits n) = Some n"
proof (induction n rule: hex_digits.induct)
  case (1 n)
  show ?case
  proof (cases "n < 16")
    case True
    then show ?thesis by (subst hex_digits.simps) (simp add: hex_digit_nth)
  next
    case False
    then show ?thesis
      using 1 by (subst hex_digits.simps) (simp add: parse_hex_append hex_digit_nth)
  qed
qed

lemma toBN_hex: "toBN (Decimal_hex d) = Inr (int (bigNumber d))"
proof -
  have "parse_unsigned (toHexString (bigNumber d)) = Some (bigNumber d)"
    by (simp add: parse_unsigned_def toHexString_def Let_def parse_hex_append parse_hex_digits)
       (simp add: hex_digit_def parse_hex_digits)
  moreover have "take 1 (toHexString (bigNumber d)) \<noteq> ''-''"
    by (simp add: toHexString_def Let_def)
  ultimately show ?thesis by (simp add: toBN_def Decimal_hex_def)
qed

section \<open>The sorted list as an interface\<close>

text \<open>Jumping over an id, given the neighbours of each id.\<close>

definition skip_own :: "(string \<Rightarrow> string) \<Rightarrow> (string \<Rightarrow> string) \<Rightarrow> string \<Rightarrow> string \<times> string \<Rightarrow> string \<times> string" where
  "skip_own prev_of next_of own hints =
     (case hints of (p, n) \<Rightarrow> if p = own then (prev_of p, n) else if n = own then (p, next_of n) else (p, n))"

text \<open>What the search for hints relies on: \<open>wf s xs\<close> says that the state \<open>s\<close> holds the ids \<open>xs\<close>.\<close>

locale sorted_list =
  fixes wf :: "'s \<Rightarrow> string list \<Rightarrow> bool"
    and first_of :: "'s \<Rightarrow> string"
    and next_of :: "'s \<Rightarrow> string \<Rightarrow> string"
    and prev_of :: "'s \<Rightarrow> string \<Rightarrow> string"
    and find_position :: "'s \<Rightarrow> nat \<Rightarrow> string \<Rightarrow> string \<Rightarrow> (string \<times> string) option"
    and icr :: "string \<Rightarrow> nat"
  assumes wf_ids: "wf s xs \<Longrightarrow> ids_ok xs"
    and wf_descending: "wf s xs \<Longrightarrow> descending icr xs"
    and first_law: "wf s xs \<Longrightarrow> first_of s = first xs"
    and next_law: "wf s (ys @ x # zs) \<Longrightarrow> next_of s x = first zs"
    and prev_law: "wf s (ys @ x # zs) \<Longrightarrow> prev_of s x = final ys"
    and find_law: "wf s xs \<Longrightarrow> found icr NICR xs (find_position s NICR p n)"
begin

text \<open>Jumping over an id gives a place that fits in the list without it.\<close>

lemma skip_fits:
  assumes wf: "wf s (us @ vs)" and fits: "fits icr NICR us vs" and own: "own \<noteq> AddressZero"
  shows "\<exists>us' vs'. filter (\<lambda>x. x \<noteq> own) (us @ vs) = us' @ vs' \<and> fits icr NICR us' vs'
    \<and> skip_own (prev_of s) (next_of s) own (final us, first vs) = (final us', first vs')"
proof -
  have ids: "ids_ok (us @ vs)" and desc: "descending icr (us @ vs)"
    using wf wf_ids wf_descending by auto
  have rest: "filter (\<lambda>x. x \<noteq> own) ys = ys" if "own \<notin> set ys" for ys
    using that by (induction ys) auto
  consider (left) ws where "us = ws @ [own]" | (right) ws where "vs = own # ws" "final us \<noteq> own"
    | (none) "final us \<noteq> own" "first vs \<noteq> own"
    using own by (cases us rule: rev_cases; cases vs) auto
  then show ?thesis
  proof cases
    case left
    then have notin: "own \<notin> set ws" "own \<notin> set vs" and prev: "prev_of s own = final ws"
      using ids prev_law [of s ws own vs] wf by (auto simp: ids_ok_def)
    have "NICR \<le> icr own" using fits left by (simp add: fits_def)
    then have "fits icr NICR ws vs"
      using fits desc left by (cases ws rule: rev_cases) (auto simp: fits_def descending_def sorted_wrt_append)
    then show ?thesis
      using left notin prev rest by (intro exI [of _ ws] exI [of _ vs]) (simp add: skip_own_def)
  next
    case right
    then have notin: "own \<notin> set us" "own \<notin> set ws" and nxt: "next_of s own = first ws"
      using ids next_law [of s us own ws] wf by (auto simp: ids_ok_def)
    have "icr own \<le> NICR" using fits right by (simp add: fits_def)
    then have "fits icr NICR us ws"
      using fits desc right by (cases ws) (auto simp: fits_def descending_def sorted_wrt_append)
    then show ?thesis
      using right notin nxt rest by (intro exI [of _ us] exI [of _ ws]) (simp add: skip_own_def)
  next
    case none
    have "fits icr NICR (filter (\<lambda>x. x \<noteq> own) us) (filter (\<lambda>x. x \<noteq> own) vs)
        \<and> final (filter (\<lambda>x. x \<noteq> own) us) = final us \<and> first (filter (\<lambda>x. x \<noteq> own) vs) = first vs"
      using none fits by (cases us rule: rev_cases; cases vs) (auto simp: fits_def)
    then show ?thesis
      using none by (intro exI [of _ "filter (\<lambda>x. x \<noteq> own) us"] exI [of _ "filter (\<lambda>x. x \<noteq> own) vs"]) (simp add: skip_own_def)
  qed
qed

end

interpretation linked: sorted_list "\<lambda>s xs. s = repr s xs \<and> ids_ok xs \<and> descending icr xs" getFirst getNext getPrev
  "\<lambda>s NICR p n. findInsertPosition s icr NICR p n" icr for icr
proof
  fix s :: sorted_troves and ys zs :: "string list" and x
  assume wf: "s = repr s (ys @ x # zs) \<and> ids_ok (ys @ x # zs) \<and> descending icr (ys @ x # zs)"
  then have "nodes s = nodes_of (ys @ x # zs)" by (metis repr_select(4))
  then show "getNext s x = first zs" "getPrev s x = final ys"
    using wf next_in_neighbours [of ys x zs] by (simp_all add: getNext_def getPrev_def)
next
  fix s :: sorted_troves and xs NICR p n
  assume wf: "s = repr s xs \<and> ids_ok xs \<and> descending icr xs"
  then show "getFirst s = first xs" by (metis getFirst_def repr_select(1))
  show "found icr NICR xs (findInsertPosition s icr NICR p n)"
    using wf findInsertPosition_found [of xs icr NICR s p n] by simp
qed auto

section \<open>Hints\<close>

text \<open>The calls of the SDK to \<^verbatim>\<open>SortedTroves\<close>, answered by the contract; the other contracts are as in \<open>e\<close>,
  but for the number of Troves, which is the size of the list.\<close>

definition sorted_troves_call :: "sorted_troves \<Rightarrow> (string \<Rightarrow> nat) \<Rightarrow> string \<Rightarrow> val list \<Rightarrow> val res" where
  "sorted_troves_call s icr fn args =
     (if fn = ''getFirst'' then Inr (Str (getFirst s))
      else if fn = ''getPrev'' then bind_res (as_Str (args ! 0)) (\<lambda>a. Inr (Str (getPrev s a)))
      else if fn = ''getNext'' then bind_res (as_Str (args ! 0)) (\<lambda>a. Inr (Str (getNext s a)))
      else if fn = ''findInsertPosition'' then
        bind_res (toBN (args ! 0)) (\<lambda>NICR.
        bind_res (as_Str (args ! 1)) (\<lambda>p.
        bind_res (as_Str (args ! 2)) (\<lambda>n.
          case findInsertPosition s icr (nat NICR) p n of
            None \<Rightarrow> Inl (Error ''out of gas'')
          | Some (p, n) \<Rightarrow> Inr (Arr [Str p, Str n]))))
      else Inl (Error ''no such function''))"

definition with_list :: "sorted_troves \<Rightarrow> (string \<Rightarrow> nat) \<Rightarrow> 'w ethers \<Rightarrow> 'w ethers" where
  "with_list s icr e =
     e\<lparr>ethers_call := (\<lambda>contract fn args ov w.
        if contract = ''sortedTroves'' then (sorted_troves_call s icr fn args, w)
        else if contract = ''troveManager'' \<and> fn = ''getTroveOwnersCount'' then (Inr (BN (int (list_size s))), w)
        else ethers_call e contract fn args ov w)\<rparr>"

text \<open>\<open>getApproxHint\<close> may answer anything of the right form.\<close>

definition gives_hints :: "'w ethers \<Rightarrow> bool" where
  "gives_hints e \<longleftrightarrow> (\<forall>args ov w. \<exists>seed diff hint. ethers_call e ''hintHelpers'' ''getApproxHint'' args ov w =
     (Inr (val.Obj [(''hintAddress'', Str hint), (''diff'', BN diff), (''latestRandomSeed'', seed)]), w))
     \<and> (\<forall>w. \<exists>i. randomInteger e w = (Inr i, w))"

lemma with_list_calls:
  "ethers_call (with_list s icr e) ''sortedTroves'' fn args ov w = (sorted_troves_call s icr fn args, w)"
  "ethers_call (with_list s icr e) ''troveManager'' ''getTroveOwnersCount'' [] ov w = (Inr (BN (int (list_size s))), w)"
  "ethers_call (with_list s icr e) ''hintHelpers'' fn args ov w = ethers_call e ''hintHelpers'' fn args ov w"
  "randomInteger (with_list s icr e) = randomInteger e"
  by (simp_all add: with_list_def)

lemma collectApproxHint_run:
  assumes "gives_hints e"
  shows "\<exists>acc'. collectApproxHint (with_list s icr e) r acc k w = (Inr acc', w)
    \<and> length (snd acc') = Suc (length (snd acc))"
proof -
  obtain seed diff hint where "ethers_call (with_list s icr e) ''hintHelpers'' ''getApproxHint''
      [Decimal_hex r, Num (int k), fst acc] [] w =
      (Inr (val.Obj [(''hintAddress'', Str hint), (''diff'', BN diff), (''latestRandomSeed'', seed)]), w)"
    using assms unfolding gives_hints_def with_list_calls by blast
  then show ?thesis
    by (simp add: collectApproxHint_def bind_io_run(1) getp_def as_BN_def as_Str_def)
qed

lemma collect_all_run:
  assumes "gives_hints e"
  shows "\<exists>acc'. foldM_io (collectApproxHint (with_list s icr e) r) acc ks w = (Inr acc', w)
    \<and> length (snd acc') = length (snd acc) + length ks"
proof (induction ks arbitrary: acc)
  case (Cons k ks)
  obtain acc1 where "collectApproxHint (with_list s icr e) r acc k w = (Inr acc1, w)"
      "length (snd acc1) = Suc (length (snd acc))"
    using collectApproxHint_run [OF assms] by blast
  with Cons [of acc1] show ?case by (auto simp: bind_io_run(1))
qed simp

lemma best_hint_total: "rs \<noteq> [] \<Longrightarrow> \<exists>b. best_hint rs = Inr b"
  by (cases rs) auto

lemma jump_over_run:
  assumes "own \<noteq> []"
  shows "jump_over (with_list s icr e) (Some own) (p, n) w = (Inr (skip_own (getPrev s) (getNext s) own (p, n)), w)"
  using assms
  by (auto simp: jump_over_def skip_own_def str_call_def bind_io_def with_list_calls sorted_troves_call_def as_Str_def)

text \<open>The search on a list that is not empty, for a finite ratio: the hints of the position found, after
  jumping over the own Trove.\<close>

lemma findHints_run:
  assumes s: "s = repr s xs" "ids_ok xs" "descending icr xs" "xs \<noteq> []" "length xs < 2 ^ 53"
    and e: "gives_hints e" and finite: "Decimal_infinite r = None"
  shows "\<exists>us vs. xs = us @ vs \<and> fits icr (bigNumber r) us vs
    \<and> findHintsForNominalCollateralRatio (with_list s icr e) r own w =
        bind_io (jump_over (with_list s icr e) own (final us, first vs)) (\<lambda>h. return_io (avoid_zero h)) w"
proof -
  have size: "list_size s = length xs" using s(1) by (metis repr_select(3))
  have n: "getNumberOfTroves (with_list s icr e) [] w = (Inr (int (length xs)), w)"
    using s(5) by (simp add: getNumberOfTroves_def call_number_def bind_io_run(1) with_list_calls numberify_def as_BN_def size)
  obtain ts where ts: "generateTrials (totalTrials (length xs)) = Inr ts" "length ts = (totalTrials (length xs) + 2499) div 2500"
    using totalTrials_bounds(2) [of "length xs"] s(4) by (auto simp: generateTrials_def trials_length)
  obtain i where i: "randomInteger e w = (Inr i, w)" using e unfolding gives_hints_def by blast
  obtain acc where acc: "foldM_io (collectApproxHint (with_list s icr e) r) (Num i, []) ts w = (Inr acc, w)"
      "length (snd acc) = length ts"
    using collect_all_run [OF e, of s icr r "(Num i, [])" ts w] by auto
  have "0 < length ts"
    using ts(2) totalTrials_bounds(2) [of "length xs"] s(4) by (simp add: div_greater_zero_iff)
  then have "snd acc \<noteq> []" using acc(2) by auto
  then obtain b where b: "best_hint (snd acc) = Inr b" using best_hint_total by blast
  obtain us vs where f: "xs = us @ vs" "fits icr (bigNumber r) us vs"
      "findInsertPosition s icr (bigNumber r) (snd b) (snd b) = Some (final us, first vs)"
    using linked.find_law [of s xs icr "bigNumber r" "snd b" "snd b"] s by (auto simp: found_def)
  have "ethers_call (with_list s icr e) ''sortedTroves'' ''findInsertPosition''
      [Decimal_hex r, Str (snd b), Str (snd b)] [] w = (Inr (Arr [Str (final us), Str (first vs)]), w)"
    using f(3) by (simp add: with_list_calls sorted_troves_call_def toBN_hex as_Str_def)
  then have "findHintsForNominalCollateralRatio (with_list s icr e) r own w =
      bind_io (jump_over (with_list s icr e) own (final us, first vs)) (\<lambda>h. return_io (avoid_zero h)) w"
    using s(4) finite n ts(1) i acc(1) b
    by (simp add: findHintsForNominalCollateralRatio_def bind_io_run(1) with_list_calls(4) geti_def as_Str_def)
  with f show ?thesis by blast
qed


text \<open>An example of a provider: every call answers with a hint, gas estimates are constant.\<close>

definition example_ethers :: "unit ethers" where
  "example_ethers =
     \<lparr>ethers_call = (\<lambda>_ _ _ _ w. (Inr (val.Obj [(''hintAddress'', Str ''c''), (''diff'', BN 1), (''latestRandomSeed'', Num 7)]), w)),
      estimateGas = (\<lambda>_ _ _ _ w. (Inr 100000, w)), contractAddress = (\<lambda>c. c),
      parse_log = (\<lambda>_ _. Inl (Error ''no matching event'')), sendTransaction = (\<lambda>_ w. (Inr ''0x1'', w)),
      wait_tx = (\<lambda>_ _ w. (Inr None, w)), timestampOf = (\<lambda>_ w. (Inr 0, w)), getBalance = (\<lambda>_ _ w. (Inr (BN 0), w)), randomInteger = (\<lambda>w. (Inr 42, w))\<rparr>"

lemma gives_hints_example: "gives_hints example_ethers"
  by (simp add: gives_hints_def example_ethers_def)

lemma repr_repr: "repr s xs = repr (repr s xs) xs"
  by (simp add: repr_def)


section \<open>Redemption\<close>

lemma estimateAndPopulate_run:
  assumes "estimateAndPopulate e contract fn ov adjust args w = (Inr raw, w')"
  shows "tx_contract raw = contract" "tx_method raw = fn" "tx_args raw = args"
    "override ov ''gasLimit'' = Undefined \<Longrightarrow>
       \<exists>gas. estimateGas e contract fn args ov w = (Inr gas, w') \<and> override (tx_overrides raw) ''gasLimit'' = BN (adjust gas)"
  using assms
  by (auto simp: estimateAndPopulate_def populateTransaction_def bind_io_Inr override_def update_conv split: if_splits)

lemma Decimal_min_ONE: "Decimal_min (DecimalV r) (DecimalV ONE) = Inr d \<Longrightarrow> d \<le> ONE"
  by (auto simp: Decimal_min_def Decimal_lt_def less_eq_decimal_def less_decimal_def split: if_splits)

lemma defaultMaxRedemptionRate_bound: "defaultMaxRedemptionRate ctx t = Inr d \<Longrightarrow> d \<le> ONE"
  by (auto simp: defaultMaxRedemptionRate_def bind_res_eq_Inr intro: Decimal_min_ONE)

text \<open>What a prepared redemption holds.\<close>

definition redemption_ok :: "redemption \<Rightarrow> bool" where
  "redemption_ok r \<longleftrightarrow> (isTruncated r \<longleftrightarrow> redeemableLUSDAmount r < attemptedLUSDAmount r)
     \<and> tx_method (rawPopulatedTransaction (r_transaction r)) = ''redeemCollateral''
     \<and> tx_args (rawPopulatedTransaction (r_transaction r)) ! 0 = Decimal_hex (redeemableLUSDAmount r)
     \<and> (r_maxRate r = None \<longrightarrow> (\<exists>d. d \<le> ONE \<and> last (tx_args (rawPopulatedTransaction (r_transaction r))) = Decimal_hex d))"

lemma populateRedemption_run:
  assumes "populateRedemption e ctx a m t ph w = (Inr r, w')"
  shows "attemptedLUSDAmount r = a \<and> redeemableLUSDAmount r = t \<and> r_context r = ctx \<and> r_maxRate r = m \<and> redemption_ok r"
proof -
  obtain rate raw w1 where rate: "(case m of Some r \<Rightarrow> Decimal_from r | None \<Rightarrow> defaultMaxRedemptionRate ctx t) = Inr rate"
    and raw: "estimateAndPopulate e ''troveManager'' ''redeemCollateral'' (rc_overrides ctx) (addGasForBaseRateUpdate 10)
       [Decimal_hex t, Str (rc_firstHint ctx), Str (fst ph), Str (fst (snd ph)), snd (snd ph), Num redeemMaxIterations,
        Decimal_hex rate] w = (Inr raw, w1)"
    and r: "new_PopulatedEthersRedemption e raw a t ctx m = Inr r"
    using assms by (auto simp: populateRedemption_def bind_io_Inr)
  note raw = estimateAndPopulate_run [OF raw]
  have "rate \<le> ONE" if "m = None"
    using rate that defaultMaxRedemptionRate_bound by simp
  then show ?thesis
    using r raw(2,3) by (auto simp: new_PopulatedEthersRedemption_def Decimal_lt_def less_decimal_def redemption_ok_def)
qed

lemma increase_run:
  assumes "increaseAmountByMinimumNetDebt e r m w = (Inr r', w')"
  shows "isTruncated r \<and> attemptedLUSDAmount r' = redeemableLUSDAmount r + LUSD_MINIMUM_NET_DEBT
    \<and> redeemableLUSDAmount r' = attemptedLUSDAmount r' \<and> redemption_ok r' \<and> \<not> isTruncated r'"
proof -
  obtain a where "isTruncated r" "Decimal_add (redeemableLUSDAmount r) (DecimalV LUSD_MINIMUM_NET_DEBT) = Inr a"
    and p: "populateRedemption e (r_context r) a (case m of Some x \<Rightarrow> Some x | None \<Rightarrow> r_maxRate r) a
      (AddressZero, AddressZero, Num 0) w = (Inr r', w')"
    using assms by (auto simp: increaseAmountByMinimumNetDebt_def bind_io_Inr split: if_splits)
  then show ?thesis
    using populateRedemption_run [OF p] by (auto simp: dec_simps redemption_ok_def)
qed

text \<open>C14: A prepared redemption redeems a positive amount, is marked truncated exactly when that is less than
  the amount asked for, and has a maximum rate of at most one unless the caller gave one. Increasing it
  works only when it is truncated, adds the minimum net debt to the redeemable amount, and gives a
  redemption that is not truncated and cannot be increased again.\<close>

theorem redemption_amounts:
  assumes "redeemLUSD e c amount m ov w = (Inr r, w')"
  shows "ZERO < redeemableLUSDAmount r \<and> Decimal_from amount = Inr (attemptedLUSDAmount r) \<and> redemption_ok r
    \<and> r_maxRate r = m
    \<and> (\<forall>m' w1 r' w2. increaseAmountByMinimumNetDebt e r m' w1 = (Inr r', w2) \<longrightarrow>
        isTruncated r \<and> attemptedLUSDAmount r' = redeemableLUSDAmount r + LUSD_MINIMUM_NET_DEBT
        \<and> redeemableLUSDAmount r' = attemptedLUSDAmount r' \<and> redemption_ok r'
        \<and> (\<forall>m'' w3. \<exists>msg. increaseAmountByMinimumNetDebt e r' m'' w3 = (Inl (Error msg), w3)))"
proof -
  obtain attempted t ctx ph w1 where "Decimal_from amount = Inr attempted" "\<not> Decimal_isZero t"
    and p: "populateRedemption e ctx attempted m t ph w1 = (Inr r, w')"
    using assms by (fastforce simp: redeemLUSD_def bind_io_Inr split: if_splits prod.splits)
  moreover from this have "ZERO < t"
    by (simp add: Decimal_isZero_def less_decimal_def ZERO_def decimal_eq_iff)
  moreover have "\<exists>msg. increaseAmountByMinimumNetDebt e r' m'' w3 = (Inl (Error msg), w3)" if "\<not> isTruncated r'" for r' m'' w3
    using that by (simp add: increaseAmountByMinimumNetDebt_def)
  ultimately show ?thesis
    using populateRedemption_run [OF p] increase_run [of e r] by blast
qed

text \<open>A provider for one redemption of at most 500 LUSD.\<close>

definition example_provider :: "unit ethers" where
  "example_provider = example_ethers\<lparr>ethers_call := (\<lambda>contract fn args ov w.
     (if fn = ''getRedemptionHints'' then Inr (val.Obj [(''firstRedemptionHint'', Str ''a''),
          (''partialRedemptionHintNICR'', BN 0), (''truncatedLUSDamount'', BN (500 * 10 ^ 18))])
      else if fn = ''fetchPrice'' then Inr (BN (200 * 10 ^ 18))
      else if fn = ''getCollateral'' then Inr (BN (1000 * 10 ^ 18))
      else if fn = ''getLUSDDebt'' then Inr (BN (5000 * 10 ^ 18))
      else Inr (BN 0), w))\<rparr>"

definition example_connection :: connection where
  "example_connection = \<lparr>hasSigner = True, userAddress = Some ''me'', frontendTag = None,
     totalStabilityPoolLQTYReward = ZERO, priceFeedIsTestnet = False, uniTokenIsMock = False\<rparr>"

lemmas example_calls = example_provider_def example_ethers_def call_decimal_def call_number_def decimalify_def numberify_def
  as_BN_def as_Str_def getp_def prop_decimal_def fromBigNumberString_def new_Decimal_def

lemma example_total: "getTotal example_provider [] () = (Inr \<lparr>collateral = Decimal (2000 * 10 ^ 18), debt = Decimal (10000 * 10 ^ 18)\<rparr>, ())"
  by (simp add: getTotal_def getActivePool_def getDefaultPool_def pool_trove_def bind_io_def example_calls Trove_add_def dec_simps
      plus_decimal_def)

lemma example_price: "getPrice example_provider [] () = (Inr (Decimal (200 * 10 ^ 18)), ())"
  by (simp add: getPrice_def bind_io_def example_calls)

lemma example_factory:
  "getFeesFactory example_provider [] () =
     (Inr (\<lambda>timestamp recovery. new_Fees (DecimalV ZERO) (DecimalV MINUTE_DECAY_FACTOR) (DecimalV BETA) 0 (timestamp * 1000) recovery), ())"
  by (simp add: getFeesFactory_def bind_io_def example_calls convertToDate_def ZERO_def zero_decimal_def)

lemma example_timestamp: "getBlockTimestamp example_provider tag () = (Inr 0, ())"
  by (simp add: getBlockTimestamp_def example_calls)

lemma example_normal_mode:
  "collateralRatioIsBelowCritical \<lparr>collateral = Decimal (2000 * 10 ^ 18), debt = Decimal (10000 * 10 ^ 18)\<rparr>
     (DecimalV (Decimal (200 * 10 ^ 18))) = Inr False"
  by (simp add: collateralRatioIsBelowCritical_def collateralRatio_def dec_simps CRITICAL_COLLATERAL_RATIO_def less_decimal_def DIGITS_eq
      decimal_eq_iff)

definition example_current_fees :: fees where
  "example_current_fees = \<lparr>baseRateWithoutDecay = ZERO, minuteDecayFactor = MINUTE_DECAY_FACTOR, beta = BETA,
     lastFeeOperation = 0, timeOfLatestBlock = 0, recoveryMode = False\<rparr>"

lemma example_new_fees:
  "new_Fees (DecimalV ZERO) (DecimalV MINUTE_DECAY_FACTOR) (DecimalV BETA) 0 0 False = Inr example_current_fees"
  by (simp add: dec_simps example_current_fees_def MINUTE_DECAY_FACTOR_def ONE_def less_decimal_def)

lemma example_fees_read: "getFees example_provider [] () = (Inr example_current_fees, ())"
  by (simp add: getFees_def bind_io_def example_factory example_total example_price example_timestamp
      example_normal_mode [simplified] example_new_fees [simplified])

lemma example_redemption_hints:
  "findRedemptionHints example_provider d () =
     (Inr (Decimal (500 * 10 ^ 18), ''a'', (AddressZero, AddressZero, BN 0)), ())"
  by (simp add: findRedemptionHints_def bind_io_def example_price) (simp add: bind_io_def example_calls)

definition example_redemption :: "redemption res \<times> unit" where
  "example_redemption =
     redeemLUSD example_provider example_connection (DecimalV (Decimal (600 * 10 ^ 18))) (Some (DecimalV ONE)) [] ()"

lemma example_redemption_ok: "\<exists>r. example_redemption = (Inr r, ())"
  by (simp add: example_redemption_def redeemLUSD_def prepareOverrides_def requireAddress_def override_def example_connection_def
      bind_io_def example_fees_read example_total example_redemption_hints Decimal_isZero_def populateRedemption_def
      estimateAndPopulate_def new_PopulatedEthersRedemption_def Decimal_lt_def decimal_eq_iff)
     (simp add: example_calls)

theorem redemption_amounts_witness:
  "\<exists>r. example_redemption = (Inr r, ()) \<and> ZERO < redeemableLUSDAmount r \<and> attemptedLUSDAmount r = Decimal (600 * 10 ^ 18)"
proof -
  obtain r where r: "example_redemption = (Inr r, ())" using example_redemption_ok by blast
  then show ?thesis
    using redemption_amounts [OF r [unfolded example_redemption_def]] by auto
qed

section \<open>Opening a Trove\<close>

lemma map_of_spread:
  "distinct (map fst b) \<Longrightarrow> map_of (spread a b) k = (case map_of b k of Some v \<Rightarrow> Some v | None \<Rightarrow> map_of a k)"
proof (induction b arbitrary: a)
  case (Cons x b)
  obtain k' v where x: "x = (k', v)" by fastforce
  with Cons.prems have "map_of b k' = None" by (simp add: map_of_eq_None_iff)
  with Cons.IH [of "AList.update k' v a"] Cons.prems x show ?case
    by (auto simp: spread_def update_conv' split: option.splits)
qed (simp add: spread_def)

lemma override_spread:
  "distinct (map fst b) \<Longrightarrow> override (spread a b) k = (if map_of b k = None then override a k else override b k)"
  by (auto simp: override_def map_of_spread split: option.splits)

lemma override_single: "override [(k, v)] k = v"
  by (simp add: override_def)

lemma override_update: "override (AList.update k v ov) k' = (if k' = k then v else override ov k')"
  by (auto simp: override_def update_conv')

lemma gas_with_headroom_bounds:
  assumes "gas_with_headroom (Some m) gasNow gasLater = Inr (gasLimit, headroom)"
  shows "gasLimit = gasNow + headroom" "90000 \<le> headroom"
  using assms
  by (auto simp: gas_with_headroom_def numberify_def as_BN_def bigNumberMax_def addGasForBaseRateUpdate_def
      addGasForPotentialListTraversal_def Let_def split: option.splits if_splits)

lemma estimate_openTrove_run:
  assumes "estimate_openTrove e decay current minutes p args txOv ov w = (Inr (ov', h), w')"
  shows "\<exists>rate t gasNow w1 w2 headroom. decay (60 * int minutes) = Inr rate
    \<and> Trove_create (creation_entries p) (Some (DecimalV rate)) = Inr t \<and> LUSD_MINIMUM_DEBT \<le> debt t
    \<and> estimateGas e ''borrowerOperations'' ''openTrove'' (args (borrowLUSD p)) (txOv ov) w1 = (Inr gasNow, w2)
    \<and> ov' = AList.update ''gasLimit'' (BN (gasNow + headroom)) ov \<and> h = Some headroom \<and> 90000 \<le> headroom"
proof -
  obtain rate t simulated w1 gasNow w2 gasLater w3 gasLimit headroom where
    *: "decay (60 * int minutes) = Inr rate" "Trove_create (creation_entries p) (Some (DecimalV rate)) = Inr t"
      "Trove_recreate t (Some (DecimalV current)) = Inr simulated"
      "when_io (bigNumber (debt t) < bigNumber LUSD_MINIMUM_DEBT) (decay_error minutes) w = (Inr (), w1)"
      "estimateGas e ''borrowerOperations'' ''openTrove'' (args (borrowLUSD p)) (txOv ov) w1 = (Inr gasNow, w2)"
      "gas_with_headroom (Some minutes) gasNow (Some gasLater) = Inr (gasLimit, headroom)"
      "ov' = AList.update ''gasLimit'' (BN gasLimit) ov" "h = Some headroom"
    using assms by (auto simp: estimate_openTrove_def bind_io_Inr Decimal_lt_def split: prod.splits)
  have "\<not> debt t < LUSD_MINIMUM_DEBT"
    using *(4) by (auto simp: when_io_def decay_error_def bind_io_Inr less_decimal_def split: if_splits)
  with * gas_with_headroom_bounds [OF *(6)] show ?thesis
    by (auto simp: not_less)
qed


definition example_opening :: "creation_params" where
  "example_opening = \<lparr>depositCollateral = Decimal (10 ^ 20), borrowLUSD = Decimal (2000 * 10 ^ 18)\<rparr>"

lemma example_borrowing_rate: "borrowingRate example_current_fees None = Inr MINIMUM_BORROWING_RATE"
  by (simp add: borrowingRate_def baseRate_def example_current_fees_def minutesSince_def Decimal_pow_def dec_simps
      MINIMUM_BORROWING_RATE_def MAXIMUM_BORROWING_RATE_def min_def less_eq_decimal_def plus_decimal_def times_decimal_def
      zero_decimal_def)

definition example_new_trove :: trove where
  "example_new_trove = \<lparr>collateral = Decimal (10 ^ 20), debt = Decimal (2210 * 10 ^ 18)\<rparr>"

lemma example_create:
  "Trove_create (creation_entries example_opening) (Some (DecimalV MINIMUM_BORROWING_RATE)) = Inr example_new_trove"
  by (simp add: Trove_create_def normalize_creation_entries Trove_apply_def example_opening_def default_rate_def applyFee_def
      dec_simps example_new_trove_def MINIMUM_BORROWING_RATE_def plus_decimal_def times_decimal_def LUSD_LIQUIDATION_RESERVE_def
      DIGITS_eq ONE_def Trove_isEmpty_def emptyTrove_def ZERO_def)

lemma example_recreate: "\<exists>p. Trove_recreate example_new_trove (Some (DecimalV MINIMUM_BORROWING_RATE)) = Inr p"
  by (simp add: Trove_recreate_def whatChanged_def default_rate_def dec_simps emptyTrove_def example_new_trove_def
      netDebt_def unapplyFee_def decimal_eq_iff LUSD_LIQUIDATION_RESERVE_def less_decimal_def
      less_eq_decimal_def Trove_isEmpty_def ONE_def plus_decimal_def)

lemma example_no_hints: "findHints example_provider example_new_trove None () = (Inr (AddressZero, AddressZero), ())"
  by (simp add: findHints_def bind_io_def nominalCollateralRatio_def dec_simps example_new_trove_def decimal_eq_iff
      findHintsForNominalCollateralRatio_def getNumberOfTroves_def)
     (simp add: bind_io_def example_calls)

lemma example_estimate:
  assumes "decay 0 = Inr MINIMUM_BORROWING_RATE"
  shows "\<exists>ov h. estimate_openTrove example_provider decay MINIMUM_BORROWING_RATE 0 example_opening args txOv ov1 () =
     (Inr (ov, h), ())"
proof -
  obtain p where "Trove_recreate example_new_trove (Some (DecimalV MINIMUM_BORROWING_RATE)) = Inr p"
    using example_recreate by blast
  with assms show ?thesis
    by (simp add: estimate_openTrove_def example_create)
       (simp add: bind_io_def dec_simps example_new_trove_def LUSD_MINIMUM_DEBT_def LUSD_MINIMUM_NET_DEBT_def
         LUSD_LIQUIDATION_RESERVE_def plus_decimal_def less_decimal_def example_provider_def example_ethers_def
         gas_with_headroom_def bigNumberMax_def addGasForBaseRateUpdate_def addGasForPotentialListTraversal_def
         ceil_log2.simps numberify_def as_BN_def)
qed

lemma example_open:
  "\<exists>tx. openTrove example_provider example_connection (creation_entries example_opening) (BorrowingOptions None (Some 0)) [] () =
     (Inr tx, ())"
proof -
  define decay where "decay = (\<lambda>seconds. bind_res (new_Fees (DecimalV ZERO) (DecimalV MINUTE_DECAY_FACTOR) (DecimalV BETA) 0
    ((0 + seconds) * 1000) False) (\<lambda>f. borrowingRate f None))"
  have decay: "decay 0 = Inr MINIMUM_BORROWING_RATE"
    by (simp only: decay_def add_0 mult_zero_left example_new_fees bind_res_simps example_borrowing_rate)
  have options: "normalizeBorrowingOperationOptionalParams (BorrowingOptions None (Some 0)) (Some MINIMUM_BORROWING_RATE) =
      Inr (MINIMUM_BORROWING_RATE + defaultBorrowingRateSlippageTolerance, 0)"
    by (simp add: normalizeBorrowingOperationOptionalParams_def default_max_rate_def dec_simps)
  have overrides: "prepareOverrides example_connection [] = Inr [(''from'', Str ''me'')]"
    by (simp add: prepareOverrides_def requireAddress_def override_def example_connection_def)
  obtain ov h where est: "estimate_openTrove example_provider decay MINIMUM_BORROWING_RATE 0 example_opening
      (openTrove_args (MINIMUM_BORROWING_RATE + defaultBorrowingRateSlippageTolerance) (AddressZero, AddressZero))
      (\<lambda>ov. spread [(''value'', Decimal_hex (depositCollateral example_opening))] ov) [(''from'', Str ''me'')] () = (Inr (ov, h), ())"
    using example_estimate [of decay] decay by blast
  have unset: "override [(''from'', Str ''me'')] ''gasLimit'' = Undefined" by (simp add: override_def)
  show ?thesis
    unfolding openTrove_def overrides normalize_creation_entries bind_io_simps
    by (simp only: bind_io_def lift_io_def return_io_def example_factory example_timestamp example_total example_price
        example_normal_mode decay_def [symmetric] Let_def decay example_create example_no_hints options unset est
        decay [unfolded decay_def] prod.case sum.case prod.inject sum.inject simp_thms if_True)
qed


end
