(* ===== verification/Liqbot_Props.thy ===== *)
theory Liqbot_Props
  imports Liqbot Populatable_Props
begin

text \<open>
  The bot sends at most one transaction per attempt, and only one that pays for itself at the price it
  reads; it liquidates at most 40 Troves, all below the minimum collateral ratio and the largest of them.
\<close>

section \<open>The selection\<close>

lemma filter_res_filter:
  "filter_res P xs = Inr ys \<Longrightarrow> ys = filter (\<lambda>x. P x = Inr True) xs \<and> (\<forall>x\<in>set xs. is_ok (P x))"
  by (induction xs arbitrary: ys) (auto simp: bind_res_eq_Inr)

lemma set_byDescendingCollateral [simp]: "set (byDescendingCollateral ts) = set ts"
  by (simp add: byDescendingCollateral_def)

lemma byDescendingCollateral_sorted:
  "sorted_wrt (\<lambda>t u. collateral u \<le> collateral t) (byDescendingCollateral ts)"
proof -
  have "sorted (map (\<lambda>t. - int (bigNumber (collateral t))) (byDescendingCollateral ts))"
    by (simp add: byDescendingCollateral_def)
  then show ?thesis
    by (simp add: sorted_map less_eq_decimal_def)
qed

definition well_selected :: "decimal \<Rightarrow> user_trove list \<Rightarrow> user_trove list \<Rightarrow> bool" where
  "well_selected p candidates ts \<longleftrightarrow> length ts \<le> 40 \<and> set ts \<subseteq> set candidates
     \<and> (\<forall>t\<in>set ts. underCollateralized p t = Inr True)
     \<and> (\<forall>u\<in>set candidates. underCollateralized p u = Inr True \<longrightarrow> u \<notin> set ts \<longrightarrow>
          length ts = 40 \<and> (\<forall>t\<in>set ts. collateral u \<le> collateral t))"

lemma select_troves_ok:
  assumes "select_troves p candidates = Inr ts"
  shows "well_selected p candidates ts"
proof -
  define us where "us = byDescendingCollateral (filter (\<lambda>t. underCollateralized p t = Inr True) candidates)"
  have ts: "ts = take 40 us"
    using assms filter_res_filter by (fastforce simp: select_troves_def bind_res_eq_Inr us_def)
  have set_us: "set us = {t \<in> set candidates. underCollateralized p t = Inr True}"
    by (simp add: us_def)
  have "collateral u \<le> collateral t" if "u \<in> set us" "u \<notin> set ts" "t \<in> set ts" for u t
  proof -
    have "u \<in> set (drop 40 us)"
      using that(1,2) ts by (metis Un_iff append_take_drop_id set_append)
    moreover have "sorted_wrt (\<lambda>t u. collateral u \<le> collateral t) (take 40 us @ drop 40 us)"
      using byDescendingCollateral_sorted by (simp add: us_def)
    ultimately show ?thesis
      using that(3) ts by (auto simp: sorted_wrt_append simp del: append_take_drop_id)
  qed
  moreover have "length ts = 40" if "u \<in> set us" "u \<notin> set ts" for u
    using that ts by (cases "length us \<le> 40") auto
  moreover have "set ts \<subseteq> set us" "length ts \<le> 40" using ts by (auto dest: in_set_takeD)
  ultimately show ?thesis
    using set_us by (auto simp: well_selected_def)
qed

section \<open>What is sent\<close>

text \<open>A rule for the state after a sequence: the first part keeps \<open>P\<close>, which gives \<open>Q\<close> if it throws.\<close>

lemma bind_io_post:
  assumes "io_keeps P m" and "P s" and "\<And>s'. P s' \<Longrightarrow> Q s'"
    and "\<And>x s'. m s = (Inr x, s') \<Longrightarrow> P s' \<Longrightarrow> Q (snd (f x s'))"
  shows "Q (snd (bind_io m f s))"
  using assms io_keepsD [OF assms(1,2)] by (cases "m s"; cases "fst (m s)") (auto simp: bind_io_def)

text \<open>Only sending a transaction changes what was sent, and the price is stable.\<close>

definition quiet :: "('w \<Rightarrow> populated list) \<Rightarrow> decimal \<Rightarrow> 'w bot \<Rightarrow> bool" where
  "quiet sent p b \<longleftrightarrow>
     (\<forall>L. (\<forall>c fn args ov. io_keeps (\<lambda>w. sent w = L) (ethers_call (bot_ethers b) c fn args ov)
            \<and> io_keeps (\<lambda>w. sent w = L) (estimateGas (bot_ethers b) c fn args ov))
        \<and> io_keeps (\<lambda>w. sent w = L) (getGasPrice b)
        \<and> (\<forall>l m. io_keeps (\<lambda>w. sent w = L) (say b l m)) \<and> (\<forall>err. io_keeps (\<lambda>w. sent w = L) (printError b err)))
     \<and> (\<forall>tx n w. sent (snd (wait_tx (bot_ethers b) tx n w)) = sent w)
     \<and> (\<forall>w. storePrice b w = (Inr p, w))
     \<and> (\<forall>tx w. sent (snd (sendTransaction (bot_ethers b) tx w)) \<in> {sent w, sent w @ [tx]})"

lemma quiet_keeps:
  assumes "quiet sent p b"
  shows "io_keeps (\<lambda>w. sent w = L) (ethers_call (bot_ethers b) c fn args ov)"
    "io_keeps (\<lambda>w. sent w = L) (estimateGas (bot_ethers b) c fn args ov)"
    "io_keeps (\<lambda>w. sent w = L) (getGasPrice b)" "io_keeps (\<lambda>w. sent w = L) (say b l m)"
    "io_keeps (\<lambda>w. sent w = L) (printError b err)" "io_keeps (\<lambda>w. sent w = L) (storePrice b)"
    "io_keeps (\<lambda>w. sent w = L) (waitForRawReceipt (bot_ethers b) tx n)"
  using assms
  by (auto simp: quiet_def io_keeps_def waitForRawReceipt_def split: prod.splits sum.splits) (metis snd_conv)+

lemma keeps_waitForReceipt:
  "quiet sent p b \<Longrightarrow> io_keeps (\<lambda>w. sent w = L) (waitForReceipt (bot_ethers b) parse tx)"
  by (auto simp: waitForReceipt_def intro!: keeps_intros quiet_keeps)

lemma keeps_report: "quiet sent p b \<Longrightarrow> io_keeps (\<lambda>w. sent w = L) (report_success b g raw d)"
  by (auto simp: report_success_def split: option.split intro!: keeps_intros quiet_keeps)

lemma keeps_getTroves: "quiet sent p b \<Longrightarrow> io_keeps (\<lambda>w. sent w = L) (getTroves (bot_ethers b) params ov)"
  by (auto simp: getTroves_def getTotalRedistributed_def call_decimal_def Let_def intro!: keeps_intros quiet_keeps)

lemma keeps_liquidate: "quiet sent p b \<Longrightarrow> io_keeps (\<lambda>w. sent w = L) (liquidate (bot_ethers b) c a ov)"
  by (auto simp: liquidate_def simple_tx_def with_overrides_def estimateAndPopulate_def split: sum.split
      intro!: keeps_intros quiet_keeps)

lemma liquidate_run:
  assumes "liquidate e c (Inr addresses) ov w = (Inr tx, w')" and "override ov ''gasLimit'' = Undefined"
  shows "tx_method (rawPopulatedTransaction tx) = ''batchLiquidateTroves''"
    "tx_args (rawPopulatedTransaction tx) = [Arr (map Str addresses)]"
    "\<exists>gas. override (tx_overrides (rawPopulatedTransaction tx)) ''gasLimit'' = BN gas"
proof -
  obtain ov' raw w1 where "prepareOverrides c ov = Inr ov'"
    and raw: "estimateAndPopulate e ''troveManager'' ''batchLiquidateTroves'' ov' addGasForLQTYIssuance
      [Arr (map Str addresses)] w = (Inr raw, w1)" and tx: "tx = wrapLiquidation e raw"
    using assms(1) by (auto simp: liquidate_def simple_tx_def with_overrides_def bind_io_Inr)
  moreover from this assms(2) have "override ov' ''gasLimit'' = Undefined"
    by (auto simp: prepareOverrides_def bind_res_eq_Inr override_update)
  ultimately show "tx_method (rawPopulatedTransaction tx) = ''batchLiquidateTroves''"
    "tx_args (rawPopulatedTransaction tx) = [Arr (map Str addresses)]"
    "\<exists>gas. override (tx_overrides (rawPopulatedTransaction tx)) ''gasLimit'' = BN gas"
    using estimateAndPopulate_run [OF raw] by (auto simp: wrapLiquidation_def)
qed

text \<open>A transaction that liquidates \<open>ts\<close> and pays for itself at the price \<open>p\<close>.\<close>

definition profitable :: "decimal \<Rightarrow> decimal \<Rightarrow> user_trove list \<Rightarrow> populated \<Rightarrow> bool" where
  "profitable p gasPrice ts tx \<longleftrightarrow> tx_method tx = ''batchLiquidateTroves''
     \<and> tx_args tx = [Arr (map (\<lambda>t. Str (ownerAddress t)) ts)]
     \<and> (\<exists>gas cost compensation. override (tx_overrides tx) ''gasLimit'' = BN gas
          \<and> cost_in_usd gasPrice gas p = Inr cost \<and> expectedCompensation ts p = Inr compensation \<and> cost \<le> compensation)"

text \<open>The list of what was sent afterwards: as before, or with one transaction more that pays for itself.\<close>

definition sends_profitable :: "('w \<Rightarrow> populated list) \<Rightarrow> decimal \<Rightarrow> decimal \<Rightarrow> user_trove list \<Rightarrow> 'w \<Rightarrow> 'w \<Rightarrow> bool" where
  "sends_profitable sent p g ts w w' \<longleftrightarrow>
     sent w' = sent w \<or> (\<exists>tx. sent w' = sent w @ [tx] \<and> profitable p g ts tx)"

lemma sends_profitable_refl: "sent w' = sent w \<Longrightarrow> sends_profitable sent p g ts w w'"
  by (simp add: sends_profitable_def)

lemma send_sends:
  assumes "quiet sent p b"
  shows "sent (snd (send (bot_ethers b) c tx w)) \<in> {sent w, sent w @ [rawPopulatedTransaction tx]}"
  using assms by (auto simp: quiet_def send_def requireSigner_def)

lemma execute_sends:
  assumes q: "quiet sent p b" and "profitable p g ts (rawPopulatedTransaction liquidation)"
  shows "sends_profitable sent p g ts w (snd (execute_liquidation b g ts liquidation w))"
  unfolding execute_liquidation_def
proof (rule bind_io_post [where P = "\<lambda>w'. sent w' = sent w"])
  fix w1
  assume w1: "sent w1 = sent w"
  let ?f = "\<lambda>tx. bind_io (waitForReceipt (bot_ethers b) (parse_receipt liquidation) tx) (\<lambda>receipt.
     case receipt of FailedReceipt raw \<Rightarrow> say b Failure (''TX '' @ hashOf b raw @ '' failed.'')
     | SuccessfulReceipt raw details \<Rightarrow> report_success b g raw details | PendingReceipt \<Rightarrow> return_io ())"
  let ?s = "send (bot_ethers b) (bot_connection b) liquidation"
  have "io_keeps (\<lambda>w. sent w = L) (?f tx)" for L tx
    by (auto intro!: keeps_intros keeps_waitForReceipt [OF q] quiet_keeps [OF q] keeps_report [OF q] split: receipt.split)
  then have "sent (snd (bind_io ?s ?f w1)) = sent (snd (?s w1))"
    by (auto simp: bind_io_def io_keeps_def split: prod.splits sum.splits)
  then show "sends_profitable sent p g ts w (snd (bind_io ?s ?f w1))"
    using send_sends [OF q, of "bot_connection b" liquidation w1] w1 assms(2) by (auto simp: sends_profitable_def)
qed (auto intro!: quiet_keeps [OF q] sends_profitable_refl)

lemma consider_sends:
  assumes q: "quiet sent p b"
    and liq: "liquidate (bot_ethers b) (bot_connection b) (Inr (map ownerAddress ts)) [(''gasPrice'', Decimal_hex g)] w =
        (Inr liquidation, w1)" and w1: "sent w1 = sent w"
  shows "sends_profitable sent p g ts w (snd (consider_liquidation b g ts liquidation w1))"
proof -
  have unset: "override [(''gasPrice'', Decimal_hex g)] ''gasLimit'' = Undefined" by (simp add: override_def)
  note run = liquidate_run [OF liq unset]
  obtain gas where gas: "override (tx_overrides (rawPopulatedTransaction liquidation)) ''gasLimit'' = BN gas"
    using run(3) by blast
  have price: "storePrice b w = (Inr p, w)" for w using q by (simp add: quiet_def)
  have keep: "sent (snd (say b l m w1)) = sent w" for l m
    using quiet_keeps(4) [OF q] w1 by (simp add: io_keeps_def)
  show ?thesis
  proof (cases "\<exists>cost compensation. cost_in_usd g gas p = Inr cost \<and> expectedCompensation ts p = Inr compensation \<and> cost \<le> compensation
      \<and> consider_liquidation b g ts liquidation w1 = execute_liquidation b g ts liquidation w1")
    case True
    then have "profitable p g ts (rawPopulatedTransaction liquidation)"
      using run(1,2) gas by (auto simp: profitable_def comp_def)
    then show ?thesis
      using execute_sends [OF q, of g ts liquidation w1] True w1 by (auto simp: sends_profitable_def)
  next
    case False
    have "numberify (BN gas) = Inr gas \<or> (\<exists>err. numberify (BN gas) = Inl err)"
      by (simp add: numberify_def as_BN_def)
    with False have "sent (snd (consider_liquidation b g ts liquidation w1)) = sent w"
      using keep w1 unfolding consider_liquidation_def gas
      by (elim disjE exE)
         (auto simp: bind_io_def price Decimal_gt_def less_eq_decimal_def not_less split: if_splits sum.splits)
    then show ?thesis by (rule sends_profitable_refl)
  qed
qed

lemma liquidate_selected_sends:
  assumes "quiet sent p b"
  shows "sends_profitable sent p g ts w (snd (liquidate_selected b g ts w))"
  unfolding liquidate_selected_def
proof (rule bind_io_post [where P = "\<lambda>w'. sent w' = sent w"])
  fix x w1
  assume "liquidate (bot_ethers b) (bot_connection b) (Inr (map ownerAddress ts)) [(''gasPrice'', Decimal_hex g)] w = (Inr x, w1)"
    and "sent w1 = sent w"
  then show "sends_profitable sent p g ts w (snd (consider_liquidation b g ts x w1))"
    by (rule consider_sends [OF assms])
qed (simp_all add: keeps_liquidate [OF assms] sends_profitable_refl)


text \<open>A world that is the list of transactions sent; the provider lists one Trove far below the minimum ratio.\<close>

definition example_backend_trove :: val where
  "example_backend_trove = val.Obj [(''owner'', Str ''a''), (''coll'', BN (10 ^ 18)), (''debt'', BN (2000 * 10 ^ 18)),
     (''stake'', BN (10 ^ 18)), (''snapshotETH'', BN 0), (''snapshotLUSDDebt'', BN 0)]"

definition example_bot :: "populated list bot" where
  "example_bot =
     \<lparr>bot_ethers =
        \<lparr>ethers_call = (\<lambda>_ fn _ _ w. (Inr (if fn = ''getMultipleSortedTroves'' then Arr [example_backend_trove] else BN 0), w)),
         estimateGas = (\<lambda>_ _ _ _ w. (Inr 300000, w)), contractAddress = (\<lambda>c. c),
         parse_log = (\<lambda>_ _. Inl (Error ''no matching event'')), sendTransaction = (\<lambda>tx w. (Inr ''0x1'', w @ [tx])),
         wait_tx = (\<lambda>_ _ w. (Inr None, w)), timestampOf = (\<lambda>_ w. (Inr 0, w)), getBalance = (\<lambda>_ _ w. (Inr (BN 0), w)), randomInteger = (\<lambda>w. (Inr 42, w))\<rparr>,
      bot_connection = example_connection, storePrice = (\<lambda>w. (Inr (Decimal (200 * 10 ^ 18)), w)),
      getGasPrice = (\<lambda>w. (Inr (BN (10 ^ 10)), w)), say = (\<lambda>_ _ w. (Inr (), w)), printError = (\<lambda>_ w. (Inr (), w)),
      paint = (\<lambda>_ s. s), gasUsedOf = (\<lambda>_. 0), hashOf = (\<lambda>_. [])\<rparr>"

lemma example_bot_quiet: "quiet (\<lambda>w. w) (Decimal (200 * 10 ^ 18)) example_bot"
  by (simp add: quiet_def example_bot_def io_keeps_def)


end
