(* ===== verification/BlockPolled.thy ===== *)
theory BlockPolled
  imports Readable Store_Diff
begin

text \<open>
  \<^verbatim>\<open>lib-ethers/src/BlockPolledLiquityStore.ts\<close> and the reader of \<^verbatim>\<open>ReadableEthersLiquity.ts\<close> that answers
  from it (\<^verbatim>\<open>_BlockPolledReadableEthersLiquity\<close>). The store fetches its state when it is started and
  after each new block; a fetch is in flight until its reads have been answered, and fetches may be
  answered in any order. The state of the model (\<open>polled\<close>) has the world of the provider, the store, the
  variables of the closures in \<^verbatim>\<open>_doStart\<close>, the pending timers for blocks and the fetches in flight.
\<close>

section \<open>Fetching the state\<close>

definition block_tag :: "int option \<Rightarrow> val" where
  "block_tag tag = (case tag of None \<Rightarrow> Undefined | Some n \<Rightarrow> Num n)"

definition at_block :: "int option \<Rightarrow> overrides" where
  "at_block tag = [(''blockTag'', block_tag tag)]"

text \<open>An address that is neither missing nor empty.\<close>

definition truthy_address :: "string option \<Rightarrow> string option" where
  "truthy_address a = (case a of None \<Rightarrow> None | Some s \<Rightarrow> if s = [] then None else Some s)"

definition getRiskiestTroveBeforeRedistribution :: "'w ethers \<Rightarrow> overrides \<Rightarrow> ('w, pending_trove) io" where
  "getRiskiestTroveBeforeRedistribution e ov =
     bind_io (getTroves e \<lparr>l_first = Integral 1, startingAt = None,
       sortedBy = ''ascendingCollateralRatio'', beforeRedistribution = True\<rparr> ov) (\<lambda>riskiestTroves.
     case riskiestTroves of
       Inl [] \<Rightarrow> return_io (closed_trove AddressZero NonExistent)
     | Inl (t # ts) \<Rightarrow> return_io t
     | Inr ts \<Rightarrow> throw_io (TypeError ''not before redistribution''))"

record user_state =
  us_accountBalance :: decimal
  us_lusdBalance :: decimal
  us_lqtyBalance :: decimal
  us_uniTokenBalance :: decimal
  us_uniTokenAllowance :: decimal
  us_liquidityMiningStake :: decimal
  us_liquidityMiningLQTYReward :: decimal
  us_collateralSurplusBalance :: decimal
  us_troveBeforeRedistribution :: pending_trove
  us_stabilityDeposit :: stability_deposit
  us_lqtyStake :: lqty_stake
  us_ownFrontend :: frontend_status

definition getUserState :: "'w ethers \<Rightarrow> connection \<Rightarrow> string \<Rightarrow> int option \<Rightarrow> ('w, user_state) io" where
  "getUserState e c a tag =
     (let ov = at_block tag in
      bind_io (bind_io (getBalance e a (block_tag tag)) (\<lambda>v. lift_io (decimalify v))) (\<lambda>balance.
      bind_io (getLUSDBalance e c (Some a) ov) (\<lambda>lusd.
      bind_io (getLQTYBalance e c (Some a) ov) (\<lambda>lqty.
      bind_io (getUniTokenBalance e c (Some a) ov) (\<lambda>uni.
      bind_io (getUniTokenAllowance e c (Some a) ov) (\<lambda>allowance.
      bind_io (getLiquidityMiningStake e c (Some a) ov) (\<lambda>mining.
      bind_io (getLiquidityMiningLQTYReward e c (Some a) ov) (\<lambda>miningReward.
      bind_io (getCollateralSurplusBalance e c (Some a) ov) (\<lambda>surplus.
      bind_io (getTroveBeforeRedistribution e c (Some a) ov) (\<lambda>trove.
      bind_io (getStabilityDeposit e c (Some a) ov) (\<lambda>deposit.
      bind_io (getLQTYStake e c (Some a) ov) (\<lambda>staked.
      bind_io (getFrontendStatus e c (Some a) ov) (\<lambda>own.
      return_io \<lparr>us_accountBalance = balance, us_lusdBalance = lusd, us_lqtyBalance = lqty,
        us_uniTokenBalance = uni, us_uniTokenAllowance = allowance, us_liquidityMiningStake = mining,
        us_liquidityMiningLQTYReward = miningReward, us_collateralSurplusBalance = surplus,
        us_troveBeforeRedistribution = trove, us_stabilityDeposit = deposit, us_lqtyStake = staked,
        us_ownFrontend = own\<rparr>)))))))))))))"

definition noUserState :: "user_state res" where
  "noUserState =
     bind_res (new_StabilityDeposit ZERO ZERO ZERO ZERO AddressZero) (\<lambda>deposit.
     Inr \<lparr>us_accountBalance = ZERO, us_lusdBalance = ZERO, us_lqtyBalance = ZERO,
       us_uniTokenBalance = ZERO, us_uniTokenAllowance = ZERO, us_liquidityMiningStake = ZERO,
       us_liquidityMiningLQTYReward = ZERO, us_collateralSurplusBalance = ZERO,
       us_troveBeforeRedistribution = closed_trove AddressZero NonExistent,
       us_stabilityDeposit = deposit,
       us_lqtyStake = \<lparr>stakedLQTY = ZERO, stakeCollateralGain = ZERO, lusdGain = ZERO\<rparr>,
       us_ownFrontend = Unregistered\<rparr>)"

text \<open>The state of a block; the objects of the result get the identities from a given number on.\<close>

definition get_state ::
  "'w ethers \<Rightarrow> connection \<Rightarrow> int option \<Rightarrow> ('w, nat \<Rightarrow> base_state \<times> block_extra) io" where
  "get_state e c tag =
     (let ov = at_block tag in
      bind_io (getBlockTimestamp e (block_tag tag)) (\<lambda>timestamp.
      bind_io (getFeesFactory e ov) (\<lambda>factory.
      bind_io (getRemainingLiquidityMiningLQTYRewardCalculator e ov) (\<lambda>calculateRemainingLQTY.
      bind_io (getPrice e ov) (\<lambda>prc.
      bind_io (getNumberOfTroves e ov) (\<lambda>troves.
      bind_io (getTotalRedistributed e ov) (\<lambda>redistributed.
      bind_io (getTotal e ov) (\<lambda>tot.
      bind_io (getLUSDInStabilityPool e ov) (\<lambda>pool.
      bind_io (getTotalStakedLQTY e ov) (\<lambda>staked.
      bind_io (getRiskiestTroveBeforeRedistribution e ov) (\<lambda>riskiest.
      bind_io (getTotalStakedUniTokens e ov) (\<lambda>stakedUni.
      bind_io (getRemainingStabilityPoolLQTYReward e c ov) (\<lambda>poolReward.
      bind_io (case truthy_address (connection.frontendTag c) of
                 Some t \<Rightarrow> getFrontendStatus e c (Some t) ov
               | None \<Rightarrow> return_io Unregistered) (\<lambda>front.
      bind_io (case truthy_address (userAddress c) of
                 Some a \<Rightarrow> getUserState e c a tag
               | None \<Rightarrow> lift_io noUserState) (\<lambda>user.
      bind_io (lift_io (factory timestamp False)) (\<lambda>normalFees.
      bind_io (lift_io (calculateRemainingLQTY timestamp)) (\<lambda>miningReward.
      return_io (\<lambda>n.
        (\<lparr>frontend = obj.Obj n front, ownFrontend = obj.Obj (n + 1) (us_ownFrontend user),
          numberOfTroves = troves, accountBalance = obj.Obj (n + 2) (us_accountBalance user),
          lusdBalance = obj.Obj (n + 3) (us_lusdBalance user),
          lqtyBalance = obj.Obj (n + 4) (us_lqtyBalance user),
          uniTokenBalance = obj.Obj (n + 5) (us_uniTokenBalance user),
          uniTokenAllowance = obj.Obj (n + 6) (us_uniTokenAllowance user),
          remainingLiquidityMiningLQTYReward = obj.Obj (n + 7) miningReward,
          liquidityMiningStake = obj.Obj (n + 8) (us_liquidityMiningStake user),
          totalStakedUniTokens = obj.Obj (n + 9) stakedUni,
          liquidityMiningLQTYReward = obj.Obj (n + 10) (us_liquidityMiningLQTYReward user),
          collateralSurplusBalance = obj.Obj (n + 11) (us_collateralSurplusBalance user),
          price = obj.Obj (n + 12) prc, lusdInStabilityPool = obj.Obj (n + 13) pool,
          total = obj.Obj (n + 14) tot, totalRedistributed = obj.Obj (n + 15) redistributed,
          troveBeforeRedistribution = obj.Obj (n + 16) (us_troveBeforeRedistribution user),
          stabilityDeposit = obj.Obj (n + 17) (us_stabilityDeposit user),
          remainingStabilityPoolLQTYReward = obj.Obj (n + 18) poolReward,
          feesInNormalMode = obj.Obj (n + 19) normalFees,
          lqtyStake = obj.Obj (n + 20) (us_lqtyStake user),
          totalStakedLQTY = obj.Obj (n + 21) staked,
          riskiestTroveBeforeRedistribution = obj.Obj (n + 22) riskiest\<rparr>,
         \<lparr>blockTag = tag, blockTimestamp = timestamp, feesFactory = obj.Obj (n + 23) factory\<rparr>)))))))))))))))))))"

section \<open>Polling\<close>

text \<open>The fetch of \<^verbatim>\<open>_doStart\<close>, or one of \<open>handleBlock\<close>.\<close>

datatype fetch = Initial | ForBlock int

fun fetch_tag :: "fetch \<Rightarrow> int option" where
  "fetch_tag Initial = None"
| "fetch_tag (ForBlock n) = Some n"

record ('w, 'l) polled =
  chain :: 'w
  poll_store :: "(block_extra, 'l) store"
  listening :: bool
  latestBlock :: "int option"
  timerId :: "nat option"
  blockTimers :: "nat list"
  nextBlockTimer :: nat
  fetches :: "fetch list"

definition on_chain :: "('w, 'a) io \<Rightarrow> (('w, 'l) polled, 'a) io" where
  "on_chain m = (\<lambda>p. case m (chain p) of (r, w) \<Rightarrow> (r, p\<lparr>chain := w\<rparr>))"

definition on_store :: "((block_extra, 'l) store, 'a) io \<Rightarrow> (('w, 'l) polled, 'a) io" where
  "on_store m = (\<lambda>p. case m (poll_store p) of (r, s) \<Rightarrow> (r, p\<lparr>poll_store := s\<rparr>))"

definition full_update :: "base_state \<Rightarrow> base_update" where
  "full_update b =
     \<lparr>upd_frontend = Some (frontend b), upd_ownFrontend = Some (ownFrontend b),
      upd_numberOfTroves = Some (numberOfTroves b), upd_accountBalance = Some (accountBalance b),
      upd_lusdBalance = Some (lusdBalance b), upd_lqtyBalance = Some (lqtyBalance b),
      upd_uniTokenBalance = Some (uniTokenBalance b), upd_uniTokenAllowance = Some (uniTokenAllowance b),
      upd_remainingLiquidityMiningLQTYReward = Some (remainingLiquidityMiningLQTYReward b),
      upd_liquidityMiningStake = Some (liquidityMiningStake b),
      upd_totalStakedUniTokens = Some (totalStakedUniTokens b),
      upd_liquidityMiningLQTYReward = Some (liquidityMiningLQTYReward b),
      upd_collateralSurplusBalance = Some (collateralSurplusBalance b), upd_price = Some (price b),
      upd_lusdInStabilityPool = Some (lusdInStabilityPool b), upd_total = Some (total b),
      upd_totalRedistributed = Some (totalRedistributed b),
      upd_troveBeforeRedistribution = Some (troveBeforeRedistribution b),
      upd_stabilityDeposit = Some (stabilityDeposit b),
      upd_remainingStabilityPoolLQTYReward = Some (remainingStabilityPoolLQTYReward b),
      upd_feesInNormalMode = Some (feesInNormalMode b), upd_lqtyStake = Some (lqtyStake b),
      upd_totalStakedLQTY = Some (totalStakedLQTY b),
      upd_riskiestTroveBeforeRedistribution = Some (riskiestTroveBeforeRedistribution b)\<rparr>"

definition full_extra_update :: "block_extra \<Rightarrow> block_extra_update" where
  "full_extra_update x =
     \<lparr>upd_blockTag = blockTag x, upd_blockTimestamp = Some (blockTimestamp x),
      upd_feesFactory = Some (feesFactory x)\<rparr>"

type_synonym 'l block_env = "(block_extra, block_extra_update, 'l) store_env"

definition receive_state ::
  "'l block_env \<Rightarrow> fetch \<Rightarrow> base_state \<Rightarrow> block_extra \<Rightarrow> ((block_extra, 'l) store, unit) io" where
  "receive_state env f b x =
     bind_io get_io (\<lambda>s.
       case f of
         Initial \<Rightarrow> when_io (\<not> loaded s) (load env b (Some x))
       | ForBlock _ \<Rightarrow>
           if loaded s then update env (Some (full_update b)) (Some (full_extra_update x))
           else load env b (Some x))"

text \<open>The reads of a fetch are answered and the store takes the state; a read that fails rejects the
  promise, and the store keeps its state.\<close>

definition allocate :: "nat \<Rightarrow> (('x, 'l) store, nat) io" where
  "allocate k = (\<lambda>s. (Inr (nextIdent s), s\<lparr>nextIdent := nextIdent s + k\<rparr>))"

definition complete_fetch ::
  "'l block_env \<Rightarrow> 'w ethers \<Rightarrow> connection \<Rightarrow> fetch \<Rightarrow> (('w, 'l) polled, unit) io" where
  "complete_fetch env e c f =
     bind_io (on_chain (get_state e c (fetch_tag f))) (\<lambda>objects.
     on_store (bind_io (allocate 24) (\<lambda>n.
       case objects n of (b, x) \<Rightarrow> receive_state env f b x)))"

definition doStart :: "(('w, 'l) polled, unit) io" where
  "doStart = modify_io (\<lambda>p. p\<lparr>fetches := fetches p @ [Initial], listening := True\<rparr>)"

definition clear_timer :: "('w, 'l) polled \<Rightarrow> ('w, 'l) polled" where
  "clear_timer p =
     (case timerId p of
        None \<Rightarrow> p
      | Some i \<Rightarrow> p\<lparr>blockTimers := filter (\<lambda>j. j \<noteq> i) (blockTimers p)\<rparr>)"

definition blockListener :: "int \<Rightarrow> (('w, 'l) polled, unit) io" where
  "blockListener n =
     seq_io (modify_io (\<lambda>p. p\<lparr>latestBlock := Some (max n (case latestBlock p of None \<Rightarrow> n | Some m \<Rightarrow> m))\<rparr>)) (
     seq_io (modify_io clear_timer)
       (modify_io (\<lambda>p. p\<lparr>timerId := Some (nextBlockTimer p),
          blockTimers := blockTimers p @ [nextBlockTimer p],
          nextBlockTimer := Suc (nextBlockTimer p)\<rparr>)))"

definition block_timer_fires :: "nat \<Rightarrow> (('w, 'l) polled, unit) io" where
  "block_timer_fires i =
     seq_io (modify_io (\<lambda>p. p\<lparr>blockTimers := filter (\<lambda>j. j \<noteq> i) (blockTimers p)\<rparr>)) (
     bind_io get_io (\<lambda>p.
       case latestBlock p of
         None \<Rightarrow> throw_io (AssertionError ''latestBlock !== undefined'')
       | Some n \<Rightarrow> modify_io (\<lambda>p. p\<lparr>fetches := fetches p @ [ForBlock n]\<rparr>)))"

text \<open>The function that \<^verbatim>\<open>start()\<close> returns: that of \<^verbatim>\<open>_doStart\<close>, then cancelling the update.\<close>

definition doStop :: "(('w, 'l) polled, unit) io" where
  "doStop = seq_io (modify_io (\<lambda>p. p\<lparr>listening := False\<rparr>)) (modify_io clear_timer)"

definition stop_polling :: "(('w, 'l) polled, unit) io" where
  "stop_polling = seq_io doStop (on_store stop)"

section \<open>Answering from the store\<close>

definition state_blockTag :: "(block_extra, 'l) store \<Rightarrow> val" where
  "state_blockTag s = (case extraState s of None \<Rightarrow> Undefined | Some x \<Rightarrow> block_tag (blockTag x))"

definition blockHit :: "overrides \<Rightarrow> (block_extra, 'l) store \<Rightarrow> bool" where
  "blockHit ov s \<longleftrightarrow> override ov ''blockTag'' = Undefined \<or> override ov ''blockTag'' = state_blockTag s"

definition userHit :: "connection \<Rightarrow> string option \<Rightarrow> overrides \<Rightarrow> (block_extra, 'l) store \<Rightarrow> bool" where
  "userHit c address ov s \<longleftrightarrow> blockHit ov s \<and> (address = None \<or> address = userAddress c)"

definition frontendHit :: "connection \<Rightarrow> string option \<Rightarrow> overrides \<Rightarrow> (block_extra, 'l) store \<Rightarrow> bool" where
  "frontendHit c address ov s \<longleftrightarrow> blockHit ov s \<and> (address = None \<or> address = connection.frontendTag c)"

text \<open>A property of the state if the store has what is asked for, else a read. A property of a store
  that is not loaded is \<open>undefined\<close>, here \<open>None\<close>.\<close>

definition from_store ::
  "((block_extra, 'l) store \<Rightarrow> bool) \<Rightarrow> ((block_extra, 'l) store \<Rightarrow> 'a option) \<Rightarrow> ('w, 'a) io
   \<Rightarrow> (('w, 'l) polled, 'a option) io" where
  "from_store hit field read =
     bind_io get_io (\<lambda>p.
       if hit (poll_store p) then return_io (field (poll_store p))
       else bind_io (on_chain read) (\<lambda>v. return_io (Some v)))"

definition of_base :: "(base_state \<Rightarrow> 'a) \<Rightarrow> (block_extra, 'l) store \<Rightarrow> 'a option" where
  "of_base f s = map_option f (baseState s)"

definition of_derived :: "(derived_state \<Rightarrow> 'a) \<Rightarrow> (block_extra, 'l) store \<Rightarrow> 'a option" where
  "of_derived f s = map_option f (derivedState s)"

definition of_extra :: "(block_extra \<Rightarrow> 'a) \<Rightarrow> (block_extra, 'l) store \<Rightarrow> 'a option" where
  "of_extra f s = map_option f (extraState s)"

definition polled_getTotalRedistributed :: "'w ethers \<Rightarrow> overrides \<Rightarrow> (('w, 'l) polled, trove option) io" where
  "polled_getTotalRedistributed e ov =
     from_store (blockHit ov) (of_base (\<lambda>b. unbox (totalRedistributed b))) (getTotalRedistributed e ov)"

definition polled_getTroveBeforeRedistribution ::
  "'w ethers \<Rightarrow> connection \<Rightarrow> string option \<Rightarrow> overrides \<Rightarrow> (('w, 'l) polled, pending_trove option) io" where
  "polled_getTroveBeforeRedistribution e c address ov =
     from_store (userHit c address ov) (of_base (\<lambda>b. unbox (troveBeforeRedistribution b)))
       (getTroveBeforeRedistribution e c address ov)"

definition polled_getTrove ::
  "'w ethers \<Rightarrow> connection \<Rightarrow> string option \<Rightarrow> overrides \<Rightarrow> (('w, 'l) polled, user_trove option) io" where
  "polled_getTrove e c address ov =
     from_store (userHit c address ov) (of_derived (\<lambda>d. unbox (d_trove d))) (getTrove e c address ov)"

definition polled_getNumberOfTroves :: "'w ethers \<Rightarrow> overrides \<Rightarrow> (('w, 'l) polled, int option) io" where
  "polled_getNumberOfTroves e ov =
     from_store (blockHit ov) (of_base numberOfTroves) (getNumberOfTroves e ov)"

definition polled_getPrice :: "'w ethers \<Rightarrow> overrides \<Rightarrow> (('w, 'l) polled, decimal option) io" where
  "polled_getPrice e ov = from_store (blockHit ov) (of_base (\<lambda>b. unbox (price b))) (getPrice e ov)"

definition polled_getTotal :: "'w ethers \<Rightarrow> overrides \<Rightarrow> (('w, 'l) polled, trove option) io" where
  "polled_getTotal e ov = from_store (blockHit ov) (of_base (\<lambda>b. unbox (total b))) (getTotal e ov)"

definition polled_getStabilityDeposit ::
  "'w ethers \<Rightarrow> connection \<Rightarrow> string option \<Rightarrow> overrides \<Rightarrow> (('w, 'l) polled, stability_deposit option) io" where
  "polled_getStabilityDeposit e c address ov =
     from_store (userHit c address ov) (of_base (\<lambda>b. unbox (stabilityDeposit b)))
       (getStabilityDeposit e c address ov)"

definition polled_getRemainingStabilityPoolLQTYReward ::
  "'w ethers \<Rightarrow> connection \<Rightarrow> overrides \<Rightarrow> (('w, 'l) polled, decimal option) io" where
  "polled_getRemainingStabilityPoolLQTYReward e c ov =
     from_store (blockHit ov) (of_base (\<lambda>b. unbox (remainingStabilityPoolLQTYReward b)))
       (getRemainingStabilityPoolLQTYReward e c ov)"

definition polled_getLUSDInStabilityPool :: "'w ethers \<Rightarrow> overrides \<Rightarrow> (('w, 'l) polled, decimal option) io" where
  "polled_getLUSDInStabilityPool e ov =
     from_store (blockHit ov) (of_base (\<lambda>b. unbox (lusdInStabilityPool b))) (getLUSDInStabilityPool e ov)"

definition polled_getLUSDBalance ::
  "'w ethers \<Rightarrow> connection \<Rightarrow> string option \<Rightarrow> overrides \<Rightarrow> (('w, 'l) polled, decimal option) io" where
  "polled_getLUSDBalance e c address ov =
     from_store (userHit c address ov) (of_base (\<lambda>b. unbox (lusdBalance b))) (getLUSDBalance e c address ov)"

definition polled_getLQTYBalance ::
  "'w ethers \<Rightarrow> connection \<Rightarrow> string option \<Rightarrow> overrides \<Rightarrow> (('w, 'l) polled, decimal option) io" where
  "polled_getLQTYBalance e c address ov =
     from_store (userHit c address ov) (of_base (\<lambda>b. unbox (lqtyBalance b))) (getLQTYBalance e c address ov)"

definition polled_getUniTokenBalance ::
  "'w ethers \<Rightarrow> connection \<Rightarrow> string option \<Rightarrow> overrides \<Rightarrow> (('w, 'l) polled, decimal option) io" where
  "polled_getUniTokenBalance e c address ov =
     from_store (userHit c address ov) (of_base (\<lambda>b. unbox (uniTokenBalance b)))
       (getUniTokenBalance e c address ov)"

definition polled_getUniTokenAllowance ::
  "'w ethers \<Rightarrow> connection \<Rightarrow> string option \<Rightarrow> overrides \<Rightarrow> (('w, 'l) polled, decimal option) io" where
  "polled_getUniTokenAllowance e c address ov =
     from_store (userHit c address ov) (of_base (\<lambda>b. unbox (uniTokenAllowance b)))
       (getUniTokenAllowance e c address ov)"

definition polled_getRemainingLiquidityMiningLQTYReward ::
  "'w ethers \<Rightarrow> overrides \<Rightarrow> (('w, 'l) polled, decimal option) io" where
  "polled_getRemainingLiquidityMiningLQTYReward e ov =
     from_store (blockHit ov) (of_base (\<lambda>b. unbox (remainingLiquidityMiningLQTYReward b)))
       (getRemainingLiquidityMiningLQTYReward e ov)"

definition polled_getLiquidityMiningStake ::
  "'w ethers \<Rightarrow> connection \<Rightarrow> string option \<Rightarrow> overrides \<Rightarrow> (('w, 'l) polled, decimal option) io" where
  "polled_getLiquidityMiningStake e c address ov =
     from_store (userHit c address ov) (of_base (\<lambda>b. unbox (liquidityMiningStake b)))
       (getLiquidityMiningStake e c address ov)"

definition polled_getTotalStakedUniTokens :: "'w ethers \<Rightarrow> overrides \<Rightarrow> (('w, 'l) polled, decimal option) io" where
  "polled_getTotalStakedUniTokens e ov =
     from_store (blockHit ov) (of_base (\<lambda>b. unbox (totalStakedUniTokens b))) (getTotalStakedUniTokens e ov)"

definition polled_getLiquidityMiningLQTYReward ::
  "'w ethers \<Rightarrow> connection \<Rightarrow> string option \<Rightarrow> overrides \<Rightarrow> (('w, 'l) polled, decimal option) io" where
  "polled_getLiquidityMiningLQTYReward e c address ov =
     from_store (userHit c address ov) (of_base (\<lambda>b. unbox (liquidityMiningLQTYReward b)))
       (getLiquidityMiningLQTYReward e c address ov)"

definition polled_getCollateralSurplusBalance ::
  "'w ethers \<Rightarrow> connection \<Rightarrow> string option \<Rightarrow> overrides \<Rightarrow> (('w, 'l) polled, decimal option) io" where
  "polled_getCollateralSurplusBalance e c address ov =
     from_store (userHit c address ov) (of_base (\<lambda>b. unbox (collateralSurplusBalance b)))
       (getCollateralSurplusBalance e c address ov)"

definition polled_getBlockTimestamp :: "'w ethers \<Rightarrow> val \<Rightarrow> (('w, 'l) polled, int option) io" where
  "polled_getBlockTimestamp e tag =
     from_store (blockHit [(''blockTag'', tag)]) (of_extra blockTimestamp) (getBlockTimestamp e tag)"

definition polled_getFeesFactory ::
  "'w ethers \<Rightarrow> overrides \<Rightarrow> (('w, 'l) polled, (int \<Rightarrow> bool \<Rightarrow> fees res) option) io" where
  "polled_getFeesFactory e ov =
     from_store (blockHit ov) (of_extra (\<lambda>x. unbox (feesFactory x))) (getFeesFactory e ov)"

definition polled_getFees :: "'w ethers \<Rightarrow> overrides \<Rightarrow> (('w, 'l) polled, fees option) io" where
  "polled_getFees e ov = from_store (blockHit ov) (of_derived (\<lambda>d. unbox (d_fees d))) (getFees e ov)"

definition polled_getLQTYStake ::
  "'w ethers \<Rightarrow> connection \<Rightarrow> string option \<Rightarrow> overrides \<Rightarrow> (('w, 'l) polled, lqty_stake option) io" where
  "polled_getLQTYStake e c address ov =
     from_store (userHit c address ov) (of_base (\<lambda>b. unbox (lqtyStake b))) (getLQTYStake e c address ov)"

definition polled_getTotalStakedLQTY :: "'w ethers \<Rightarrow> overrides \<Rightarrow> (('w, 'l) polled, decimal option) io" where
  "polled_getTotalStakedLQTY e ov =
     from_store (blockHit ov) (of_base (\<lambda>b. unbox (totalStakedLQTY b))) (getTotalStakedLQTY e ov)"

definition polled_getFrontendStatus ::
  "'w ethers \<Rightarrow> connection \<Rightarrow> string option \<Rightarrow> overrides \<Rightarrow> (('w, 'l) polled, frontend_status option) io" where
  "polled_getFrontendStatus e c address ov =
     from_store (frontendHit c address ov) (of_base (\<lambda>b. unbox (frontend b)))
       (getFrontendStatus e c address ov)"

definition polled_getTroves ::
  "'w ethers \<Rightarrow> listing \<Rightarrow> overrides \<Rightarrow> (('w, 'l) polled, pending_trove list + user_trove list) io" where
  "polled_getTroves e params ov = on_chain (getTroves e params ov)"

definition polled_getActivePool :: "(('w, 'l) polled, trove) io" where
  "polled_getActivePool = throw_io (Error ''Method not implemented.'')"

definition polled_getDefaultPool :: "(('w, 'l) polled, trove) io" where
  "polled_getDefaultPool = throw_io (Error ''Method not implemented.'')"

definition polled_getRemainingLiquidityMiningLQTYRewardCalculator ::
  "(('w, 'l) polled, int \<Rightarrow> decimal res) io" where
  "polled_getRemainingLiquidityMiningLQTYRewardCalculator = throw_io (Error ''Method not implemented.'')"

end
