(* ===== verification/BlockPolled_Reads.thy ===== *)
theory BlockPolled_Reads
  imports BlockPolled
begin

text \<open>
  Reads of a block that does not change, what a fetch of such a block brings, and what the store makes
  of it: every value of its state is then the answer of the chain for that block.
\<close>

section \<open>Reads of an immutable block\<close>

text \<open>Reads of the state of a block have one answer, which does not depend on when they are made, and
  change nothing.\<close>

definition pure_io :: "('w, 'a) io \<Rightarrow> bool" where
  "pure_io m \<longleftrightarrow> (\<exists>r. \<forall>w. m w = (r, w))"

definition answers :: "('w, 'a) io \<Rightarrow> 'a \<Rightarrow> bool" where
  "answers m x \<longleftrightarrow> (\<forall>w. m w = (Inr x, w))"

definition archived :: "'w ethers \<Rightarrow> int \<Rightarrow> bool" where
  "archived e n \<longleftrightarrow>
     (\<forall>contract fn args. pure_io (ethers_call e contract fn args (at_block (Some n))))
     \<and> pure_io (timestampOf e (Num n)) \<and> (\<forall>a. pure_io (getBalance e a (Num n)))"

named_theorems pure_intros \<open>rules for pure reads\<close>

lemma pure_basic [pure_intros]: "pure_io (return_io x)" "pure_io (throw_io err)" "pure_io (lift_io r)"
  by (auto simp: pure_io_def)

lemma pure_bind [pure_intros]:
  assumes "pure_io m" and "\<And>x. pure_io (f x)"
  shows "pure_io (bind_io m f)"
proof -
  obtain r where r: "m w = (r, w)" for w
    using assms(1) by (auto simp: pure_io_def)
  show ?thesis
  proof (cases r)
    case (Inl err)
    then show ?thesis using r by (auto simp: pure_io_def bind_io_run(2))
  next
    case (Inr x)
    then show ?thesis using r assms(2) [of x] by (auto simp: pure_io_def bind_io_run(1))
  qed
qed

lemma pure_cases [pure_intros]:
  "(b \<Longrightarrow> pure_io m) \<Longrightarrow> (\<not> b \<Longrightarrow> pure_io m') \<Longrightarrow> pure_io (if b then m else m')"
  "(x = None \<Longrightarrow> pure_io m) \<Longrightarrow> (\<And>y. x = Some y \<Longrightarrow> pure_io (f y)) \<Longrightarrow>
     pure_io (case x of None \<Rightarrow> m | Some y \<Rightarrow> f y)"
  by (auto split: option.split)

lemma answers_bind_iff:
  assumes "pure_io m"
  shows "answers (bind_io m f) y \<longleftrightarrow> (\<exists>x. answers m x \<and> answers (f x) y)"
proof -
  obtain r where r: "m w = (r, w)" for w
    using assms by (auto simp: pure_io_def)
  then show ?thesis
    by (cases r) (auto simp: answers_def bind_io_def)
qed

lemma pure_answers: "pure_io m \<Longrightarrow> m w = (Inr x, w') \<Longrightarrow> answers m x \<and> w' = w"
  by (auto simp: pure_io_def answers_def)

lemma answers_bind:
  "answers m x \<Longrightarrow> answers (f x) y \<Longrightarrow> answers (bind_io m f) y"
  "answers m x \<Longrightarrow> g x = Inr y \<Longrightarrow> answers (bind_io m (\<lambda>x. lift_io (g x))) y"
  by (auto simp: answers_def bind_io_run(1))

lemma answers_return [simp]:
  "answers (return_io x) y \<longleftrightarrow> x = y" "answers (lift_io r) y \<longleftrightarrow> r = Inr y" "answers (Pair r) y \<longleftrightarrow> r = Inr y"
  by (auto simp: answers_def)

lemma pure_calls [pure_intros]:
  assumes "archived e n"
  shows "pure_io (ethers_call e contract fn args (at_block (Some n)))"
    "pure_io (call_decimal e contract fn args (at_block (Some n)))"
    "pure_io (call_number e contract fn args (at_block (Some n)))"
    "pure_io (user_decimal e c contract fn args address (at_block (Some n)))"
    "pure_io (getBalance e a (block_tag (Some n)))"
    "pure_io (getBlockTimestamp e (block_tag (Some n)))"
  using assms
  by (auto simp: archived_def call_decimal_def call_number_def user_decimal_def getBlockTimestamp_def
      block_tag_def intro!: pure_intros)

text \<open>All reads of the store.\<close>

lemma pure_reads [pure_intros]:
  assumes "archived e n"
  shows "pure_io (getFeesFactory e (at_block (Some n)))"
    "pure_io (getRemainingLiquidityMiningLQTYRewardCalculator e (at_block (Some n)))"
    "pure_io (getPrice e (at_block (Some n)))"
    "pure_io (getNumberOfTroves e (at_block (Some n)))"
    "pure_io (getTotalRedistributed e (at_block (Some n)))"
    "pure_io (getTotal e (at_block (Some n)))"
    "pure_io (getLUSDInStabilityPool e (at_block (Some n)))"
    "pure_io (getTotalStakedLQTY e (at_block (Some n)))"
    "pure_io (getTotalStakedUniTokens e (at_block (Some n)))"
    "pure_io (getRemainingStabilityPoolLQTYReward e c (at_block (Some n)))"
    "pure_io (getFrontendStatus e c address (at_block (Some n)))"
    "pure_io (getTroveBeforeRedistribution e c address (at_block (Some n)))"
    "pure_io (getStabilityDeposit e c address (at_block (Some n)))"
    "pure_io (getLQTYStake e c address (at_block (Some n)))"
  unfolding getFeesFactory_def getRemainingLiquidityMiningLQTYRewardCalculator_def getPrice_def
    getNumberOfTroves_def getTotalRedistributed_def getTotal_def getActivePool_def getDefaultPool_def
    pool_trove_def getLUSDInStabilityPool_def getTotalStakedLQTY_def getTotalStakedUniTokens_def
    getRemainingStabilityPoolLQTYReward_def getFrontendStatus_def getTroveBeforeRedistribution_def
    getStabilityDeposit_def getLQTYStake_def
  by (intro pure_intros assms)+

lemma pure_user_reads [pure_intros]:
  assumes "archived e n"
  shows "pure_io (getLUSDBalance e c address (at_block (Some n)))"
    "pure_io (getLQTYBalance e c address (at_block (Some n)))"
    "pure_io (getUniTokenBalance e c address (at_block (Some n)))"
    "pure_io (getUniTokenAllowance e c address (at_block (Some n)))"
    "pure_io (getLiquidityMiningStake e c address (at_block (Some n)))"
    "pure_io (getLiquidityMiningLQTYReward e c address (at_block (Some n)))"
    "pure_io (getCollateralSurplusBalance e c address (at_block (Some n)))"
  unfolding getLUSDBalance_def getLQTYBalance_def getUniTokenBalance_def getUniTokenAllowance_def
    getLiquidityMiningStake_def getLiquidityMiningLQTYReward_def getCollateralSurplusBalance_def
  by (intro pure_intros assms)+

lemma pure_riskiest [pure_intros]:
  assumes "archived e n"
  shows "pure_io (getRiskiestTroveBeforeRedistribution e (at_block (Some n)))"
proof -
  have "pure_io (getTroves e params (at_block (Some n)))" for params
    unfolding getTroves_def Let_def by (intro pure_intros assms)
  then show ?thesis
    unfolding getRiskiestTroveBeforeRedistribution_def
    by (intro pure_bind) (auto intro!: pure_intros split: sum.split list.split)
qed

section \<open>What a fetch brings\<close>

text \<open>Every value of the state is the answer to a read of the block \<open>n\<close>.\<close>

definition mirrors_protocol :: "'w ethers \<Rightarrow> connection \<Rightarrow> int \<Rightarrow> base_state \<Rightarrow> block_extra \<Rightarrow> bool" where
  "mirrors_protocol e c n b x \<longleftrightarrow>
     (let ov = at_block (Some n) in
      blockTag x = Some n
      \<and> answers (getBlockTimestamp e (Num n)) (blockTimestamp x)
      \<and> answers (getFeesFactory e ov) (unbox (feesFactory x))
      \<and> unbox (feesFactory x) (blockTimestamp x) False = Inr (unbox (feesInNormalMode b))
      \<and> answers (getRemainingLiquidityMiningLQTYReward e ov) (unbox (remainingLiquidityMiningLQTYReward b))
      \<and> answers (getPrice e ov) (unbox (price b))
      \<and> answers (getNumberOfTroves e ov) (numberOfTroves b)
      \<and> answers (getTotalRedistributed e ov) (unbox (totalRedistributed b))
      \<and> answers (getTotal e ov) (unbox (total b))
      \<and> answers (getLUSDInStabilityPool e ov) (unbox (lusdInStabilityPool b))
      \<and> answers (getTotalStakedLQTY e ov) (unbox (totalStakedLQTY b))
      \<and> answers (getTotalStakedUniTokens e ov) (unbox (totalStakedUniTokens b))
      \<and> answers (getRemainingStabilityPoolLQTYReward e c ov) (unbox (remainingStabilityPoolLQTYReward b))
      \<and> (\<forall>t. truthy_address (connection.frontendTag c) = Some t \<longrightarrow>
           answers (getFrontendStatus e c (Some t) ov) (unbox (frontend b))))"

definition mirrors_user :: "'w ethers \<Rightarrow> connection \<Rightarrow> int \<Rightarrow> string \<Rightarrow> base_state \<Rightarrow> bool" where
  "mirrors_user e c n a b \<longleftrightarrow>
     (let ov = at_block (Some n); u = Some a in
      answers (getLUSDBalance e c u ov) (unbox (lusdBalance b))
      \<and> answers (getLQTYBalance e c u ov) (unbox (lqtyBalance b))
      \<and> answers (getUniTokenBalance e c u ov) (unbox (uniTokenBalance b))
      \<and> answers (getUniTokenAllowance e c u ov) (unbox (uniTokenAllowance b))
      \<and> answers (getLiquidityMiningStake e c u ov) (unbox (liquidityMiningStake b))
      \<and> answers (getLiquidityMiningLQTYReward e c u ov) (unbox (liquidityMiningLQTYReward b))
      \<and> answers (getCollateralSurplusBalance e c u ov) (unbox (collateralSurplusBalance b))
      \<and> answers (getTroveBeforeRedistribution e c u ov) (unbox (troveBeforeRedistribution b))
      \<and> answers (getStabilityDeposit e c u ov) (unbox (stabilityDeposit b))
      \<and> answers (getLQTYStake e c u ov) (unbox (lqtyStake b)))"

lemma pure_user_state [pure_intros]:
  assumes "archived e n"
  shows "pure_io (getUserState e c a (Some n))"
  unfolding getUserState_def Let_def by (intro pure_intros assms)

lemma pure_balance:
  "archived e n \<Longrightarrow> pure_io (bind_io (getBalance e a (block_tag (Some n))) (\<lambda>v. lift_io (decimalify v)))"
  by (intro pure_intros)

lemma getUserState_answers:
  assumes e: "archived e n" and run: "answers (getUserState e c a (Some n)) u"
  shows "answers (getLUSDBalance e c (Some a) (at_block (Some n))) (us_lusdBalance u)"
    "answers (getLQTYBalance e c (Some a) (at_block (Some n))) (us_lqtyBalance u)"
    "answers (getUniTokenBalance e c (Some a) (at_block (Some n))) (us_uniTokenBalance u)"
    "answers (getUniTokenAllowance e c (Some a) (at_block (Some n))) (us_uniTokenAllowance u)"
    "answers (getLiquidityMiningStake e c (Some a) (at_block (Some n))) (us_liquidityMiningStake u)"
    "answers (getLiquidityMiningLQTYReward e c (Some a) (at_block (Some n))) (us_liquidityMiningLQTYReward u)"
    "answers (getCollateralSurplusBalance e c (Some a) (at_block (Some n))) (us_collateralSurplusBalance u)"
    "answers (getTroveBeforeRedistribution e c (Some a) (at_block (Some n))) (us_troveBeforeRedistribution u)"
    "answers (getStabilityDeposit e c (Some a) (at_block (Some n))) (us_stabilityDeposit u)"
    "answers (getLQTYStake e c (Some a) (at_block (Some n))) (us_lqtyStake u)"
  using run
  unfolding getUserState_def Let_def answers_bind_iff [OF pure_balance [OF e]]
    pure_user_reads [OF e, THEN answers_bind_iff] pure_reads(11-14) [OF e, THEN answers_bind_iff]
    answers_return
  by auto

lemma mining_reward_answers:
  assumes e: "archived e n"
    and "answers (getRemainingLiquidityMiningLQTYRewardCalculator e (at_block (Some n))) calc"
    and "answers (getBlockTimestamp e (block_tag (Some n))) t" and "calc t = Inr r"
  shows "answers (getRemainingLiquidityMiningLQTYReward e (at_block (Some n))) r"
  using assms(2-4) unfolding getRemainingLiquidityMiningLQTYReward_def
  by (auto intro!: answers_bind simp: at_block_def override_def)

lemma get_state_answers:
  assumes e: "archived e n" and run: "get_state e c (Some n) w = (Inr objects, w')"
  shows "w' = w" and "mirrors_protocol e c n (fst (objects k)) (snd (objects k))"
    and "truthy_address (userAddress c) = Some a \<Longrightarrow> mirrors_user e c n a (fst (objects k))"
proof -
  have user: "pure_io (case truthy_address (userAddress c) of
      Some a \<Rightarrow> getUserState e c a (Some n) | None \<Rightarrow> lift_io noUserState)"
    and front: "pure_io (case truthy_address (connection.frontendTag c) of
      Some t \<Rightarrow> getFrontendStatus e c (Some t) (at_block (Some n)) | None \<Rightarrow> return_io Unregistered)"
    by (intro pure_intros e)+
  have "pure_io (get_state e c (Some n))"
    unfolding get_state_def Let_def by (intro pure_intros user front e)
  from pure_answers [OF this run] have w: "w' = w" and "answers (get_state e c (Some n)) objects"
    by simp_all
  note facts = this(2) [unfolded get_state_def Let_def
    answers_bind_iff [OF pure_calls(6) [OF e]] pure_reads [OF e, THEN answers_bind_iff]
    answers_bind_iff [OF pure_riskiest [OF e]] answers_bind_iff [OF user] answers_bind_iff [OF front]
    answers_bind_iff [OF pure_basic(3)] answers_return]
  show "w' = w" by (rule w)
  from facts show "mirrors_protocol e c n (fst (objects k)) (snd (objects k))"
    by (auto simp: mirrors_protocol_def block_tag_def Let_def intro: mining_reward_answers [OF e])
  assume "truthy_address (userAddress c) = Some a"
  with facts show "mirrors_user e c n a (fst (objects k))"
    by (auto simp: mirrors_user_def Let_def dest: getUserState_answers [OF e])
qed

section \<open>What the store makes of a fetch\<close>

lemma reduced_full [simp]:
  "unbox (feesInNormalMode (reduced old (full_update b))) = unbox (feesInNormalMode b)"
  "mirrors_protocol e c n (reduced old (full_update b)) x = mirrors_protocol e c n b x"
  "mirrors_user e c n a (reduced old (full_update b)) = mirrors_user e c n a b"
  by (simp_all add: reduced_def full_update_def mirrors_protocol_def mirrors_user_def)

lemma reduceExtra_full: "blockTag x = Some n \<Longrightarrow> block_reduceExtra y (full_extra_update x) = Inr x"
  by (simp add: block_reduceExtra_def full_extra_update_def)

lemma load_outcome:
  assumes "\<not> loaded s" and "decay_in_range (unbox (feesInNormalMode b)) None"
  obtains s' d where "load env b x s = (Inr (), s')" and "baseState s' = Some b"
    and "derivedState s' = Some d" and "extraState s' = x"
    and "derived_spec b (derived_values d)" and "pendingTimers s' \<noteq> []"
proof -
  let ?s1 = "s\<lparr>baseState := Some b\<rparr>"
  obtain d where d: "derive b ?s1 = (Inr d, ?s1\<lparr>nextIdent := nextIdent ?s1 + 4\<rparr>)"
    and spec: "derived_spec b (derived_values d)"
    using derive_correct [OF assms(2), of ?s1] by blast
  let ?s2 = "?s1\<lparr>nextIdent := nextIdent ?s1 + 4, derivedState := Some d, extraState := x, loaded := True\<rparr>"
  obtain s3 where s3: "scheduleUpdate ?s2 = (Inr (), s3)" "baseState s3 = Some b" "derivedState s3 = Some d"
      "extraState s3 = x" and t3: "pendingTimers s3 \<noteq> []"
    by (cases "updateTimeoutId s") (auto simp: scheduleUpdate_def cancelUpdateIfScheduled_def)
  let ?s4 = "if hasOnLoaded s then s3\<lparr>trace := trace s3 @ [Loaded]\<rparr> else s3"
  have "load env b x s = (Inr (), ?s4)"
    using assms(1) d s3(1) by (simp add: load_def bind_io_def emit_def)
  with that [of ?s4 d] s3 t3 spec show thesis
    by simp
qed

abbreviation quiet_listeners :: "('l \<Rightarrow> listener_params \<Rightarrow> 'l action list) \<Rightarrow> bool" where
  "quiet_listeners r \<equiv> \<forall>l p msg. Raise msg \<notin> set (r l p)"

lemma receive_outcome:
  assumes s: "timers_ok s" "loaded s \<longleftrightarrow> extraState s \<noteq> None" and r: "quiet_listeners r"
    and x: "blockTag x = Some n" and range: "decay_in_range (unbox (feesInNormalMode b)) None"
  obtains s' b' d where "receive_state (block_env r loc) (ForBlock n) b x s = (Inr (), s')"
    and "baseState s' = Some b'" and "b' = b \<or> (\<exists>old. b' = reduced old (full_update b))"
    and "derivedState s' = Some d" and "extraState s' = Some x" and "derived_spec b' (derived_values d)"
proof (cases "loaded s")
  case False
  show thesis
    using load_outcome [OF False range, of "block_env r loc" "Some x"] that [of _ b] False
    by (auto simp: receive_state_def)
next
  case True
  then obtain b0 d0 x0 where s0: "baseState s = Some b0" "derivedState s = Some d0" "extraState s = Some x0"
    using s by (auto simp: timers_ok_def)
  let ?u = "Some (full_update b)" and ?xu = "Some (full_extra_update x)" and ?env = "block_env r loc"
  have b1: "new_base b0 ?u = reduced b0 (full_update b)"
    by (simp add: new_base_def)
  have "new_extra ?env (extraState s) ?xu (Some x)"
    using s0(3) reduceExtra_full [OF x] by (simp add: block_env_def)
  moreover have "decay_in_range (unbox (feesInNormalMode (new_base b0 ?u))) None"
    using range by (simp add: b1)
  moreover have "listeners_ok s"
    using s(1) by (simp add: timers_ok_def)
  moreover have "\<And>l p msg. Raise msg \<notin> set (react ?env l p)"
    using r by (simp add: block_env_def)
  ultimately obtain s' d' where "update ?env ?u ?xu s = (Inr (), s')"
      "baseState s' = Some (reduced b0 (full_update b))" "derivedState s' = Some (reduced_derived d0 d')"
      "extraState s' = Some x" "derived_spec (reduced b0 (full_update b)) (derived_values d')"
    using update_outcome [OF s0(1,2), of ?u ?env ?xu "Some x"] unfolding b1 by metis
  with that [of s' "reduced b0 (full_update b)" "reduced_derived d0 d'"] True show thesis
    by (auto simp: receive_state_def derived_values_reduced)
qed

text \<open>The fees that a factory creates differ in the recovery mode only.\<close>

lemma factory_fees:
  assumes e: "archived e n" and "answers (getFeesFactory e (at_block (Some n))) F" and "F t rm = Inr f"
  shows "minuteDecayFactor f = MINUTE_DECAY_FACTOR" and "F t rm' = Inr (f\<lparr>recoveryMode := rm'\<rparr>)"
proof -
  obtain v base where F: "F = (\<lambda>timestamp recoveryMode. bind_res (numberify v) (\<lambda>t.
      new_Fees (DecimalV base) (DecimalV MINUTE_DECAY_FACTOR) (DecimalV BETA)
        (convertToDate t) (convertToDate timestamp) recoveryMode))"
    using assms(2) unfolding getFeesFactory_def pure_calls(1,2) [OF e, THEN answers_bind_iff] answers_return
    by blast
  show "minuteDecayFactor f = MINUTE_DECAY_FACTOR" and "F t rm' = Inr (f\<lparr>recoveryMode := rm'\<rparr>)"
    using assms(3) unfolding F
    by (auto simp: new_Fees_def dec_simps bind_res_def assert_res_def split: sum.splits if_splits)
qed

lemma block_fees:
  assumes "archived e n" and "mirrors_protocol e c n b x"
    and "decay_minutes (unbox (feesInNormalMode b)) None \<le> 0xffffffff"
  shows "decay_in_range (unbox (feesInNormalMode b)) None"
    and "unbox (feesFactory x) (blockTimestamp x) rm = Inr ((unbox (feesInNormalMode b))\<lparr>recoveryMode := rm\<rparr>)"
  using assms factory_fees [of e n "unbox (feesFactory x)" "blockTimestamp x" False "unbox (feesInNormalMode b)"]
  by (auto simp: mirrors_protocol_def Let_def decay_in_range_def MINUTE_DECAY_FACTOR_def decimal_order DIGITS_eq)

lemma fees_answer:
  assumes "archived e n" and m: "mirrors_protocol e c n b x"
    and "decay_minutes (unbox (feesInNormalMode b)) None \<le> 0xffffffff"
    and "collateralRatioIsBelowCritical (unbox (total b)) (DecimalV (unbox (price b))) = Inr rm"
  shows "answers (getFees e (at_block (Some n))) ((unbox (feesInNormalMode b))\<lparr>recoveryMode := rm\<rparr>)"
  using block_fees(2) [OF assms(1-3), of rm] m assms(4) unfolding getFees_def
  by (auto simp: mirrors_protocol_def Let_def at_block_def override_def block_tag_def intro!: answers_bind)

end
