(* ===== verification/BlockPolled_Props.thy ===== *)
theory BlockPolled_Props
  imports BlockPolled_Reads
begin

text \<open>
  Properties of the block-polled store: the discipline of its timers and fetches over all interleavings,
  the agreement of the reads that it answers with reads of the same block from the chain, and what an
  interleaving can do to the block that the store shows.
\<close>

section \<open>Interleavings\<close>

text \<open>A run: the store is started; then, in any order, blocks arrive, timers fire, fetches are answered,
  the store's own timer fires, clients subscribe and unsubscribe, the chain moves on, and the store is
  stopped. If \<open>ordered\<close>, fetches are answered in the order in which they were made.\<close>

definition unstarted :: "'w \<Rightarrow> bool \<Rightarrow> bool \<Rightarrow> ('w, 'l) polled" where
  "unstarted w logs onLoaded =
     \<lparr>chain = w, poll_store = initial_store\<lparr>logging := logs, hasOnLoaded := onLoaded\<rparr>, listening = False,
      latestBlock = None, timerId = None, blockTimers = [], nextBlockTimer = 0, fetches = []\<rparr>"

inductive poll_step ::
  "bool \<Rightarrow> 'l block_env \<Rightarrow> 'w ethers \<Rightarrow> connection \<Rightarrow> ('w, 'l) polled \<Rightarrow> ('w, 'l) polled \<Rightarrow> bool"
  for ordered env e c where
  Block: "listening p \<Longrightarrow> blockListener n p = (r, p') \<Longrightarrow> poll_step ordered env e c p p'"
| Block_Timer: "i \<in> set (blockTimers p) \<Longrightarrow> block_timer_fires i p = (r, p') \<Longrightarrow> poll_step ordered env e c p p'"
| Complete: "fetches p = xs @ f # ys \<Longrightarrow> ordered \<longrightarrow> xs = [] \<Longrightarrow>
    complete_fetch env e c f (p\<lparr>fetches := xs @ ys\<rparr>) = (r, p') \<Longrightarrow> poll_step ordered env e c p p'"
| Store_Timer: "i \<in> set (pendingTimers (poll_store p)) \<Longrightarrow> on_store (timer_fires env i) p = (r, p') \<Longrightarrow>
    poll_step ordered env e c p p'"
| Client: "on_store (perform a) p = (r, p') \<Longrightarrow> poll_step ordered env e c p p'"
| Chain: "poll_step ordered env e c p (p\<lparr>chain := w\<rparr>)"
| Stop: "stop_polling p = (r, p') \<Longrightarrow> poll_step ordered env e c p p'"

inductive poll_reachable ::
  "bool \<Rightarrow> 'l block_env \<Rightarrow> 'w ethers \<Rightarrow> connection \<Rightarrow> ('w, 'l) polled \<Rightarrow> bool" for ordered env e c where
  Start: "doStart (unstarted w logs onLoaded) = (r, p) \<Longrightarrow> poll_reachable ordered env e c p"
| Step: "poll_reachable ordered env e c p \<Longrightarrow> poll_step ordered env e c p p' \<Longrightarrow>
    poll_reachable ordered env e c p'"

inductive_cases poll_stepE: "poll_step ordered env e c p p'"

subsection \<open>The store\<close>

text \<open>What the operations of the store do to a predicate of its being loaded and of its extra state.\<close>

abbreviation on_extra :: "(bool \<Rightarrow> 'x option \<Rightarrow> bool) \<Rightarrow> ('x, 'l) store \<Rightarrow> bool" where
  "on_extra Q s \<equiv> Q (loaded s) (extraState s)"

lemma io_keeps_get:
  "(\<And>s. P s \<Longrightarrow> io_keeps P (f s)) \<Longrightarrow> io_keeps P (bind_io get_io f)"
  by (simp add: io_keeps_def)

lemma keeps_extra [keeps_intros]:
  "io_keeps (on_extra Q) (emit ev)" "io_keeps (on_extra Q) (fresh v)" "io_keeps (on_extra Q) scheduleUpdate"
  "io_keeps (on_extra Q) cancelUpdateIfScheduled" "io_keeps (on_extra Q) (subscribe l)"
  "io_keeps (on_extra Q) (unsubscribe i)" "io_keeps (on_extra Q) (allocate k)"
  "io_keeps (on_extra Q) (modify_io (\<lambda>s. s\<lparr>baseState := b\<rparr>))"
  "io_keeps (on_extra Q) (modify_io (\<lambda>s. s\<lparr>derivedState := d\<rparr>))"
  "io_keeps (on_extra Q) (modify_io (\<lambda>s. s\<lparr>updateTimeoutId := t\<rparr>))"
  "io_keeps (on_extra Q) (modify_io (\<lambda>s. s\<lparr>pendingTimers := filter F (pendingTimers s)\<rparr>))"
  by (auto simp: io_keeps_def emit_def fresh_def scheduleUpdate_def cancelUpdateIfScheduled_def
      subscribe_def unsubscribe_def allocate_def bind_io_def split: option.splits)

lemma keeps_extra_perform [keeps_intros]: "io_keeps (on_extra Q) (perform a)"
  by (cases a) (auto intro!: keeps_intros)

lemma keeps_extra_reductions [keeps_intros]:
  "io_keeps (on_extra Q) (updateIfChanged eq name shw prev next)"
  "io_keeps (on_extra Q) (updateFees env name fprev fnext)"
  by (auto simp: updateIfChanged_def updateFees_def logUpdate_def
      intro!: keeps_intros split: option.splits)

lemma keeps_extra_reduce [keeps_intros]: "io_keeps (on_extra Q) (reduce b u)"
  unfolding reduce_def by (intro keeps_intros)

lemma keeps_extra_derive [keeps_intros]:
  "io_keeps (on_extra Q) (derive b)" "io_keeps (on_extra Q) (reduceDerived env d d')"
  unfolding derive_def reduceDerived_def by (intro keeps_intros)+

lemma keeps_extra_notify [keeps_intros]: "io_keeps (on_extra Q) (notify env params)"
  unfolding notify_def callListener_def seq_io_simp by (auto intro!: keeps_intros)

definition store_tag :: "(block_extra, 'l) store \<Rightarrow> int option" where
  "store_tag s = Option.bind (extraState s) blockTag"

definition store_ok :: "(block_extra, 'l) store \<Rightarrow> bool" where
  "store_ok s \<longleftrightarrow> timers_ok s \<and> (loaded s \<longleftrightarrow> extraState s \<noteq> None)"

lemma update_extra:
  assumes R: "R (extraState s)"
    and step: "\<And>y u z. R (Some y) \<Longrightarrow> xo = Some u \<Longrightarrow> block_reduceExtra y u = Inr z \<Longrightarrow> R (Some z)"
  shows "loaded (snd (update (block_env r loc) uo xo s)) = loaded s
    \<and> R (extraState (snd (update (block_env r loc) uo xo s)))"
proof -
  let ?Q = "on_extra (\<lambda>l x. l = loaded s \<and> R x)"
  have extra: "io_keeps ?Q (case xo of None \<Rightarrow> return_io ()
      | Some u \<Rightarrow> (case extraState s0 of None \<Rightarrow> throw_io (AssertionError ''this._extraState'')
         | Some y \<Rightarrow> bind_io (lift_io (reduceExtra (block_env r loc) y u)) (\<lambda>y.
             modify_io (\<lambda>s. s\<lparr>extraState := Some y\<rparr>))))" if "?Q s0" for s0 :: "(block_extra, 'l) store"
  proof (cases xo; cases "extraState s0")
    fix u y
    assume u: "xo = Some u" and y: "extraState s0 = Some y"
    obtain z where z: "block_reduceExtra y u = Inr z"
      by (simp add: block_reduceExtra_def)
    have "R (Some y)" using that y by simp
    then have "R (Some z)" using u z by (rule step)
    with u y z show ?thesis by (simp add: block_env_def io_keeps_def)
  qed (auto intro!: keeps_intros)
  have "io_keeps ?Q (update (block_env r loc) uo xo)"
    unfolding update_def Let_def
    by (rule extra | assumption | rule io_keeps_get | rule keeps_intros)+
  from io_keepsD [OF this, of s] R show ?thesis by simp
qed

lemma load_extra:
  assumes "store_ok s"
  shows "store_ok (snd (load env b (Some x) s))
    \<and> store_tag (snd (load env b (Some x) s)) \<in> {store_tag s, blockTag x}"
proof (cases "loaded s")
  case True
  then show ?thesis using assms by (simp add: load_def)
next
  case False
  let ?s1 = "s\<lparr>baseState := Some b\<rparr>" and ?s' = "snd (load env b (Some x) s)"
  obtain r s2 where d: "derive b ?s1 = (r, s2)"
    by (cases "derive b ?s1")
  have s2: "loaded s2 = loaded s \<and> extraState s2 = extraState s"
    using io_keepsD [OF keeps_extra_derive(1) [of "\<lambda>l y. l = loaded s \<and> y = extraState s" b], of ?s1] d
    by simp
  have "timers_ok ?s'"
    using io_keepsD [OF keeps_load] assms by (auto simp: store_ok_def)
  moreover have "(loaded ?s' \<longleftrightarrow> extraState ?s' \<noteq> None) \<and> store_tag ?s' \<in> {store_tag s, blockTag x}"
  proof (cases r)
    case (Inl err)
    then show ?thesis
      using d s2 False assms by (simp add: load_def bind_io_def store_ok_def store_tag_def)
  next
    case (Inr d')
    let ?s3 = "s2\<lparr>derivedState := Some d', extraState := Some x, loaded := True\<rparr>"
    have "io_keeps (on_extra (\<lambda>l y. l \<and> y = Some x))
        (bind_io scheduleUpdate (\<lambda>_. when_io (hasOnLoaded s) (emit Loaded)))"
      by (intro keeps_intros)
    from io_keepsD [OF this, of ?s3] show ?thesis
      using Inr d False by (simp add: load_def bind_io_run(1) store_tag_def)
  qed
  ultimately show ?thesis by (simp add: store_ok_def)
qed

lemma receive_ok:
  assumes "store_ok s" and "blockTag x = fetch_tag f"
  shows "store_ok (snd (receive_state (block_env r loc) f b x s))
    \<and> store_tag (snd (receive_state (block_env r loc) f b x s))
        \<in> {store_tag s} \<union> {Some n | n. f = ForBlock n}"
proof (cases "loaded s")
  case True
  let ?xu = "Some (full_extra_update x)"
  let ?R = "\<lambda>y. y \<noteq> None \<and> Option.bind y blockTag \<in> {store_tag s, blockTag x}"
  let ?s' = "snd (update (block_env r loc) (Some (full_update b)) ?xu s)"
  have "?R (extraState s)"
    using True assms(1) by (simp add: store_ok_def store_tag_def)
  moreover have "?R (Some z)" if "?R (Some y)" "?xu = Some u" "block_reduceExtra y u = Inr z" for y u z
    using that by (auto simp: block_reduceExtra_def full_extra_update_def split: option.splits)
  ultimately have "loaded ?s' = loaded s \<and> ?R (extraState ?s')"
    by (rule update_extra)
  moreover have "timers_ok ?s'"
    using io_keepsD [OF keeps_update] assms(1) by (auto simp: store_ok_def)
  ultimately show ?thesis
    using True assms by (cases f) (auto simp: receive_state_def store_ok_def store_tag_def)
next
  case False
  then have "store_tag s = None"
    using assms(1) by (auto simp: store_ok_def store_tag_def)
  with load_extra [OF assms(1), of "block_env r loc" b x] False assms(2) show ?thesis
    by (cases f) (auto simp: receive_state_def)
qed

lemma store_ok_simple [keeps_intros]:
  "io_keeps store_ok (perform a)" "io_keeps store_ok (allocate k)" "io_keeps store_ok stop"
proof -
  have "io_keeps timers_ok (perform a)" "io_keeps timers_ok (allocate k)" "io_keeps timers_ok stop"
    unfolding stop_def by (intro keeps_intros) (simp add: io_keeps_def allocate_def timers_ok_def
      listeners_ok_def, intro keeps_intros)
  moreover have "io_keeps (\<lambda>s. loaded s \<longleftrightarrow> extraState s \<noteq> None) (perform a)"
    "io_keeps (\<lambda>s. loaded s \<longleftrightarrow> extraState s \<noteq> None) (allocate k)"
    "io_keeps (\<lambda>s. loaded s \<longleftrightarrow> extraState s \<noteq> None) stop"
    unfolding stop_def by (rule keeps_extra_perform keeps_extra)+
  ultimately show "io_keeps store_ok (perform a)" "io_keeps store_ok (allocate k)" "io_keeps store_ok stop"
    unfolding store_ok_def by (auto intro: io_keeps_conj)
qed

lemma store_tag_simple [keeps_intros]:
  "io_keeps (\<lambda>s. store_tag s = t) (perform a)" "io_keeps (\<lambda>s. store_tag s = t) (allocate k)"
  "io_keeps (\<lambda>s. store_tag s = t) stop"
  unfolding store_tag_def stop_def by (rule keeps_extra_perform keeps_extra)+

lemma timer_fires_ok:
  assumes "store_ok s" and "i \<in> set (pendingTimers s)"
  shows "store_ok (snd (timer_fires (block_env r loc) i s))
    \<and> store_tag (snd (timer_fires (block_env r loc) i s)) = store_tag s"
proof -
  let ?s = "s\<lparr>pendingTimers := filter (\<lambda>j. j \<noteq> i) (pendingTimers s), updateTimeoutId := None\<rparr>"
  let ?s' = "snd (timer_fires (block_env r loc) i s)"
  have "timers_ok ?s'"
    using assms by (auto simp: store_ok_def intro: fire_ok)
  moreover have "loaded ?s' = loaded s \<and> extraState ?s' = extraState s"
    using update_extra [of "\<lambda>x. x = extraState s" ?s None r loc None] by (simp add: timer_fires_def)
  ultimately show ?thesis
    using assms(1) by (simp add: store_ok_def store_tag_def)
qed

subsection \<open>The invariant of polling\<close>

text \<open>The block that the store shows, and the blocks being fetched.\<close>

definition shown :: "('w, 'l) polled \<Rightarrow> int option" where
  "shown p = store_tag (poll_store p)"

definition block_tags :: "fetch list \<Rightarrow> int list" where
  "block_tags fs = List.map_filter fetch_tag fs"

definition known_block :: "('w, 'l) polled \<Rightarrow> int \<Rightarrow> bool" where
  "known_block p n \<longleftrightarrow> (\<exists>m. latestBlock p = Some m \<and> n \<le> m)"

definition poll_ok :: "bool \<Rightarrow> ('w, 'l) polled \<Rightarrow> bool" where
  "poll_ok ordered p \<longleftrightarrow>
     store_ok (poll_store p)
     \<and> distinct (blockTimers p) \<and> (\<forall>i \<in> set (blockTimers p). timerId p = Some i)
     \<and> (listening p \<or> blockTimers p = []) \<and> (blockTimers p = [] \<or> latestBlock p \<noteq> None)
     \<and> (\<forall>n \<in> set (block_tags (fetches p)) \<union> set_option (shown p). known_block p n)
     \<and> sorted (block_tags (fetches p))
     \<and> (ordered \<longrightarrow> (\<forall>n \<in> set_option (shown p). \<forall>k \<in> set (block_tags (fetches p)). n \<le> k))"

lemma block_tags_simps [simp]:
  "block_tags [] = []" "block_tags (Initial # fs) = block_tags fs"
  "block_tags (ForBlock n # fs) = n # block_tags fs" "block_tags (fs @ gs) = block_tags fs @ block_tags gs"
  by (simp_all add: block_tags_def List.map_filter_def)

lemma get_state_tag: "get_state e c tag w = (Inr objects, w') \<Longrightarrow> blockTag (snd (objects k)) = tag"
  unfolding get_state_def Let_def bind_io_Inr by auto

lemma complete_ok:
  assumes "complete_fetch (block_env r loc) e c f p = (q, p')" and "store_ok (poll_store p)"
  obtains w s where "p' = p\<lparr>chain := w, poll_store := s\<rparr>" and "store_ok s"
    and "store_tag s \<in> {store_tag (poll_store p)} \<union> {Some n | n. f = ForBlock n}"
proof -
  obtain g w where g: "get_state e c (fetch_tag f) (chain p) = (g, w)"
    by (cases "get_state e c (fetch_tag f) (chain p)")
  show thesis
  proof (cases g)
    case (Inl err)
    then show thesis
      using that [where w = w and s = "poll_store p"] assms g by (auto simp: complete_fetch_def on_chain_def bind_io_def)
  next
    case (Inr objects)
    let ?n = "nextIdent (poll_store p)" and ?s = "snd (allocate 24 (poll_store p))"
    let ?s' = "snd (receive_state (block_env r loc) f (fst (objects ?n)) (snd (objects ?n)) ?s)"
    have "store_ok ?s" and tag: "store_tag ?s = store_tag (poll_store p)"
      by (rule io_keepsD [OF store_ok_simple(2) assms(2)] io_keepsD [OF store_tag_simple(2)] refl)+
    moreover have "blockTag (snd (objects ?n)) = fetch_tag f"
      using g Inr by (auto intro: get_state_tag)
    ultimately have "store_ok ?s' \<and> store_tag ?s' \<in> {store_tag ?s} \<union> {Some n | n. f = ForBlock n}"
      by (intro receive_ok)
    moreover have "p' = p\<lparr>chain := w, poll_store := ?s'\<rparr>"
      using assms(1) g Inr
      by (auto simp: complete_fetch_def on_chain_def on_store_def bind_io_def allocate_def
          split: prod.splits)
    ultimately show thesis
      using that tag by auto
  qed
qed

lemma clear_timer_all:
  assumes "poll_ok ordered p" and "timerId q = timerId p" and "blockTimers q = blockTimers p"
  shows "clear_timer q = q\<lparr>blockTimers := []\<rparr>"
  using assms by (auto simp: poll_ok_def clear_timer_def filter_empty_conv split: option.splits)

lemma listener_ok:
  assumes ok: "poll_ok ordered p" and "listening p" and run: "blockListener n p = (r, p')"
  shows "poll_ok ordered p'"
proof -
  let ?m = "max n (case latestBlock p of None \<Rightarrow> n | Some m \<Rightarrow> m)"
  have "clear_timer (p\<lparr>latestBlock := Some ?m\<rparr>) = p\<lparr>latestBlock := Some ?m, blockTimers := []\<rparr>"
    by (rule clear_timer_all [OF ok]) simp_all
  then have p': "p' = p\<lparr>latestBlock := Some ?m, timerId := Some (nextBlockTimer p),
      blockTimers := [nextBlockTimer p], nextBlockTimer := Suc (nextBlockTimer p)\<rparr>"
    using run by (auto simp: blockListener_def)
  have known: "known_block p' k" if "known_block p k" for k
    using that by (auto simp: known_block_def p')
  show ?thesis
    using ok assms(2) known by (simp add: poll_ok_def p' shown_def)
qed

lemma block_timer_ok:
  assumes ok: "poll_ok ordered p" and i: "i \<in> set (blockTimers p)" and run: "block_timer_fires i p = (r, p')"
  shows "poll_ok ordered p'"
proof -
  obtain m where m: "latestBlock p = Some m"
    using ok i by (auto simp: poll_ok_def)
  have "\<forall>j \<in> set (blockTimers p). j = i"
    using ok i unfolding poll_ok_def by (metis option.inject)
  then have "filter (\<lambda>j. j \<noteq> i) (blockTimers p) = []"
    by (auto simp: filter_empty_conv)
  then have "p' = p\<lparr>blockTimers := [], fetches := fetches p @ [ForBlock m]\<rparr>"
    using run m by (auto simp: block_timer_fires_def)
  then show ?thesis
    using ok m by (auto simp: poll_ok_def known_block_def shown_def sorted_append)
qed

lemma complete_poll_ok:
  assumes ok: "poll_ok ordered p" and fs: "fetches p = xs @ f # ys" "ordered \<longrightarrow> xs = []"
    and run: "complete_fetch (block_env r loc) e c f (p\<lparr>fetches := xs @ ys\<rparr>) = (q, p')"
  shows "poll_ok ordered p'"
    and "shown p' \<in> {shown p} \<union> {Some n | n. f = ForBlock n}"
proof -
  obtain w s where p': "p' = p\<lparr>fetches := xs @ ys, chain := w, poll_store := s\<rparr>" "store_ok s"
      "store_tag s \<in> {store_tag (poll_store p)} \<union> {Some n | n. f = ForBlock n}"
    by (rule complete_ok [OF run]) (use ok in \<open>simp_all add: poll_ok_def\<close>)
  then show "shown p' \<in> {shown p} \<union> {Some n | n. f = ForBlock n}"
    by (auto simp: shown_def)
  from p' ok fs show "poll_ok ordered p'"
    by (cases f) (auto simp: poll_ok_def known_block_def shown_def sorted_append)
qed

lemma store_step_ok:
  assumes "poll_ok ordered p" and "store_ok s" and "store_tag s = store_tag (poll_store p)"
  shows "poll_ok ordered (p\<lparr>poll_store := s\<rparr>)"
  using assms by (simp add: poll_ok_def known_block_def shown_def)

lemma on_store_ok:
  assumes "poll_ok ordered p" and "on_store m p = (r, p')"
    and "store_ok (snd (m (poll_store p)))" and "store_tag (snd (m (poll_store p))) = store_tag (poll_store p)"
  shows "poll_ok ordered p'" and "shown p' = shown p"
  using assms store_step_ok [OF assms(1), of "snd (m (poll_store p))"]
  by (auto simp: on_store_def shown_def split: prod.splits)

lemma stop_polling_run:
  "stop_polling p = (r, p') \<Longrightarrow>
     p' = (clear_timer (p\<lparr>listening := False\<rparr>))\<lparr>poll_store := snd (stop (poll_store p))\<rparr>"
  by (auto simp: stop_polling_def doStop_def on_store_def clear_timer_def bind_io_assoc
      split: prod.splits option.splits)

lemma stop_polling_ok:
  assumes "poll_ok ordered p" and "stop_polling p = (r, p')"
  shows "poll_ok ordered p'" and "shown p' = shown p" and "blockTimers p' = []" and "\<not> listening p'"
proof -
  let ?s = "snd (stop (poll_store p))"
  have s: "store_ok ?s" "store_tag ?s = store_tag (poll_store p)"
    using assms(1) io_keepsD [OF store_ok_simple(3)] io_keepsD [OF store_tag_simple(3)]
    by (auto simp: poll_ok_def)
  have "clear_timer (p\<lparr>listening := False\<rparr>) = p\<lparr>listening := False, blockTimers := []\<rparr>"
    by (rule clear_timer_all [OF assms(1)]) simp_all
  then have p': "p' = p\<lparr>listening := False, blockTimers := [], poll_store := ?s\<rparr>"
    using stop_polling_run [OF assms(2)] by simp
  then show "poll_ok ordered p'" and "shown p' = shown p" and "blockTimers p' = []" and "\<not> listening p'"
    using assms(1) s by (simp_all add: poll_ok_def known_block_def shown_def)
qed

lemma poll_step_ok:
  assumes "poll_step ordered (block_env r loc) e c p p'" and "poll_ok ordered p"
  shows "poll_ok ordered p' \<and> (shown p' = shown p \<or>
    (\<exists>n xs ys. shown p' = Some n \<and> fetches p = xs @ ForBlock n # ys \<and> (ordered \<longrightarrow> xs = [])))"
  using assms(1)
proof cases
  case (Block n q)
  then show ?thesis using listener_ok [OF assms(2)]
    by (auto simp: blockListener_def shown_def clear_timer_def split: option.splits)
next
  case (Block_Timer i q)
  then show ?thesis using block_timer_ok [OF assms(2)]
    by (auto simp: block_timer_fires_def shown_def split: option.splits)
next
  case (Complete xs f ys q)
  then show ?thesis using complete_poll_ok [OF assms(2) Complete] by auto
next
  case (Store_Timer i q)
  then show ?thesis
    using on_store_ok [OF assms(2) Store_Timer(2)] timer_fires_ok [OF _ Store_Timer(1), of r loc] assms(2)
    by (simp add: poll_ok_def)
next
  case (Client a q)
  have "store_ok (poll_store p)"
    using assms(2) by (simp add: poll_ok_def)
  from on_store_ok [OF assms(2) Client io_keepsD [OF store_ok_simple(1) this]
      io_keepsD [OF store_tag_simple(1) refl]] show ?thesis
    by simp
next
  case (Chain w)
  then show ?thesis using assms(2) by (simp add: poll_ok_def known_block_def shown_def)
next
  case (Stop q)
  then show ?thesis using stop_polling_ok [OF assms(2)] by blast
qed

lemma poll_reachable_ok:
  assumes "poll_reachable ordered (block_env r loc) e c p"
  shows "poll_ok ordered p"
  using assms
proof induction
  case (Start w logs onLoaded q p)
  then show ?case
    by (auto simp: doStart_def unstarted_def poll_ok_def store_ok_def shown_def store_tag_def initial_store_def
        timers_ok_def listeners_ok_def)
next
  case (Step p p')
  then show ?case using poll_step_ok by blast
qed

section \<open>Timers, fetches and the block shown\<close>

text \<open>C17: whatever the order in which blocks arrive, timers fire and fetches are answered, at most one
  block timer is pending, it is the one that would be cleared, and none after the store was stopped; the
  assertion that a block is known cannot fail; blocks are fetched in ascending order, and neither
  a fetch nor the state shown is of a block later than the latest one announced. If
  fetches are answered in the order in which they were made, the block shown never goes back.\<close>

theorem polling_discipline:
  assumes "poll_reachable ordered (block_env r loc) e c p"
  shows "length (blockTimers p) \<le> 1 \<and> (\<forall>i \<in> set (blockTimers p). timerId p = Some i)
    \<and> (\<not> listening p \<longrightarrow> blockTimers p = [])
    \<and> (\<forall>i \<in> set (blockTimers p). fst (block_timer_fires i p) = Inr ())
    \<and> sorted (block_tags (fetches p))
    \<and> (\<forall>n \<in> set (block_tags (fetches p)) \<union> set_option (shown p). \<exists>m. latestBlock p = Some m \<and> n \<le> m)
    \<and> (\<forall>p' n. ordered \<longrightarrow> poll_step ordered (block_env r loc) e c p p' \<longrightarrow> shown p = Some n \<longrightarrow>
         (\<exists>m. shown p' = Some m \<and> n \<le> m))"
proof -
  have ok: "poll_ok ordered p"
    using assms by (rule poll_reachable_ok)
  have "length ts \<le> 1" if "distinct ts" and "\<forall>i \<in> set ts. t = Some i" for ts :: "nat list" and t
    using that by (cases ts rule: list.exhaust; cases "tl ts") auto
  from this [of "blockTimers p" "timerId p"] have "length (blockTimers p) \<le> 1"
    using ok by (simp add: poll_ok_def)
  moreover have "fst (block_timer_fires i p) = Inr ()" if "i \<in> set (blockTimers p)" for i
    using ok that by (auto simp: poll_ok_def block_timer_fires_def)
  moreover have "\<exists>m. shown p' = Some m \<and> n \<le> m"
    if "ordered" "poll_step ordered (block_env r loc) e c p p'" "shown p = Some n" for p' n
    using poll_step_ok [OF that(2) ok] that(1,3) ok by (auto simp: poll_ok_def)
  ultimately show ?thesis
    using ok by (auto simp: poll_ok_def known_block_def)
qed

section \<open>Reads from the store and from the chain\<close>

lemma get_state_fees:
  "get_state e c tag w = (Inr objects, w') \<Longrightarrow>
     unbox (feesInNormalMode (fst (objects k))) = unbox (feesInNormalMode (fst (objects 0)))"
  unfolding get_state_def Let_def bind_io_Inr by auto

lemma complete_block:
  assumes e: "archived e n" and p: "store_ok (poll_store p)" and r: "quiet_listeners r"
    and g: "get_state e c (Some n) (chain p) = (Inr objects, w)"
    and range: "decay_minutes (unbox (feesInNormalMode (fst (objects 0)))) None \<le> 0xffffffff"
  obtains p' b x d where "complete_fetch (block_env r loc) e c (ForBlock n) p = (Inr (), p')"
    and "chain p' = chain p"
    and "baseState (poll_store p') = Some b" and "derivedState (poll_store p') = Some d"
    and "extraState (poll_store p') = Some x" and "derived_spec b (derived_values d)"
    and "mirrors_protocol e c n b x" and "decay_minutes (unbox (feesInNormalMode b)) None \<le> 0xffffffff"
    and "\<forall>a. truthy_address (userAddress c) = Some a \<longrightarrow> mirrors_user e c n a b"
proof -
  let ?s = "snd (allocate 24 (poll_store p))"
  obtain b0 x where o: "objects (nextIdent (poll_store p)) = (b0, x)"
    by fastforce
  have w: "w = chain p" and m: "mirrors_protocol e c n b0 x"
    and u: "\<And>a. truthy_address (userAddress c) = Some a \<Longrightarrow> mirrors_user e c n a b0"
    using get_state_answers(1) [OF e g] get_state_answers(2,3) [OF e g, where k = "nextIdent (poll_store p)"] o
    by auto
  have minutes: "decay_minutes (unbox (feesInNormalMode b0)) None \<le> 0xffffffff"
    using range get_state_fees [OF g, of "nextIdent (poll_store p)"] o by simp
  have "store_ok ?s"
    by (rule io_keepsD [OF store_ok_simple(2) p])
  then have "timers_ok ?s" "loaded ?s \<longleftrightarrow> extraState ?s \<noteq> None"
    by (simp_all add: store_ok_def)
  moreover have "blockTag x = Some n"
    using m by (simp add: mirrors_protocol_def Let_def)
  ultimately obtain s' b d where s': "receive_state (block_env r loc) (ForBlock n) b0 x ?s = (Inr (), s')"
      "baseState s' = Some b" "b = b0 \<or> (\<exists>old. b = reduced old (full_update b0))"
      "derivedState s' = Some d" "extraState s' = Some x" "derived_spec b (derived_values d)"
    using receive_outcome [OF _ _ r _ block_fees(1) [OF e m minutes]] by metis
  have "complete_fetch (block_env r loc) e c (ForBlock n) p = (Inr (), p\<lparr>poll_store := s'\<rparr>)"
    using g s'(1) w o by (simp add: complete_fetch_def on_chain_def on_store_def bind_io_def allocate_def)
  moreover have "mirrors_protocol e c n b x" "decay_minutes (unbox (feesInNormalMode b)) None \<le> 0xffffffff"
    "\<forall>a. truthy_address (userAddress c) = Some a \<longrightarrow> mirrors_user e c n a b"
    using s'(3) m u minutes by auto
  ultimately show thesis
    using that [where p' = "p\<lparr>poll_store := s'\<rparr>" and b = b and d = d and x = x] s' by simp
qed

text \<open>A read through the store and the same read of the chain.\<close>

definition agrees_with ::
  "(('w, 'l) polled, 'a option) io \<Rightarrow> ('w, 'a) io \<Rightarrow> ('w, 'l) polled \<Rightarrow> bool" where
  "agrees_with cached read p \<longleftrightarrow>
     (\<exists>v. cached p = (Inr (Some v), p) \<and> read (chain p) = (Inr v, chain p))"

lemma agrees_from_store:
  "baseState (poll_store p) = Some b \<Longrightarrow> hit (poll_store p) \<Longrightarrow> answers read (g b) \<Longrightarrow>
     agrees_with (from_store hit (of_base g) read) read p"
  "derivedState (poll_store p) = Some d \<Longrightarrow> hit (poll_store p) \<Longrightarrow> answers read (h d) \<Longrightarrow>
     agrees_with (from_store hit (of_derived h) read) read p"
  "extraState (poll_store p) = Some x \<Longrightarrow> hit (poll_store p) \<Longrightarrow> answers read (k x) \<Longrightarrow>
     agrees_with (from_store hit (of_extra k) read) read p"
  by (simp_all add: agrees_with_def from_store_def answers_def of_base_def of_derived_def of_extra_def)

lemmas polled_reads = polled_getTotalRedistributed_def polled_getTroveBeforeRedistribution_def
  polled_getTrove_def polled_getNumberOfTroves_def polled_getPrice_def polled_getTotal_def
  polled_getStabilityDeposit_def polled_getRemainingStabilityPoolLQTYReward_def
  polled_getLUSDInStabilityPool_def polled_getLUSDBalance_def polled_getLQTYBalance_def
  polled_getUniTokenBalance_def polled_getUniTokenAllowance_def
  polled_getRemainingLiquidityMiningLQTYReward_def polled_getLiquidityMiningStake_def
  polled_getTotalStakedUniTokens_def polled_getLiquidityMiningLQTYReward_def
  polled_getCollateralSurplusBalance_def polled_getBlockTimestamp_def polled_getFeesFactory_def
  polled_getFees_def polled_getLQTYStake_def polled_getTotalStakedLQTY_def polled_getFrontendStatus_def

lemma same_user:
  assumes "userAddress c = Some a" and "u \<in> {None, Some a}"
  shows "getTroveBeforeRedistribution e c u ov = getTroveBeforeRedistribution e c (Some a) ov"
    "getTrove e c u ov = getTrove e c (Some a) ov"
    "getStabilityDeposit e c u ov = getStabilityDeposit e c (Some a) ov"
    "getLUSDBalance e c u ov = getLUSDBalance e c (Some a) ov"
    "getLQTYBalance e c u ov = getLQTYBalance e c (Some a) ov"
    "getUniTokenBalance e c u ov = getUniTokenBalance e c (Some a) ov"
    "getUniTokenAllowance e c u ov = getUniTokenAllowance e c (Some a) ov"
    "getLiquidityMiningStake e c u ov = getLiquidityMiningStake e c (Some a) ov"
    "getLiquidityMiningLQTYReward e c u ov = getLiquidityMiningLQTYReward e c (Some a) ov"
    "getCollateralSurplusBalance e c u ov = getCollateralSurplusBalance e c (Some a) ov"
    "getLQTYStake e c u ov = getLQTYStake e c (Some a) ov"
proof -
  have "default_address c u = default_address c (Some a)"
    using assms by (auto simp: default_address_def requireAddress_def override_def)
  then show "getTroveBeforeRedistribution e c u ov = getTroveBeforeRedistribution e c (Some a) ov"
    "getTrove e c u ov = getTrove e c (Some a) ov"
    "getStabilityDeposit e c u ov = getStabilityDeposit e c (Some a) ov"
    "getLUSDBalance e c u ov = getLUSDBalance e c (Some a) ov"
    "getLQTYBalance e c u ov = getLQTYBalance e c (Some a) ov"
    "getUniTokenBalance e c u ov = getUniTokenBalance e c (Some a) ov"
    "getUniTokenAllowance e c u ov = getUniTokenAllowance e c (Some a) ov"
    "getLiquidityMiningStake e c u ov = getLiquidityMiningStake e c (Some a) ov"
    "getLiquidityMiningLQTYReward e c u ov = getLiquidityMiningLQTYReward e c (Some a) ov"
    "getCollateralSurplusBalance e c u ov = getCollateralSurplusBalance e c (Some a) ov"
    "getLQTYStake e c u ov = getLQTYStake e c (Some a) ov"
    by (simp_all add: getTrove_def getTroveBeforeRedistribution_def getStabilityDeposit_def getLUSDBalance_def
        getLQTYBalance_def getUniTokenBalance_def getUniTokenAllowance_def getLiquidityMiningStake_def
        getLiquidityMiningLQTYReward_def getCollateralSurplusBalance_def getLQTYStake_def user_decimal_def)
qed

lemma same_frontend:
  "connection.frontendTag c = Some t \<Longrightarrow> f \<in> {None, Some t} \<Longrightarrow>
     getFrontendStatus e c f ov = getFrontendStatus e c (Some t) ov"
  by (auto simp: getFrontendStatus_def requireFrontendAddress_def)


section \<open>Races\<close>

text \<open>A block whose state can be fetched.\<close>

definition block_available :: "'w ethers \<Rightarrow> connection \<Rightarrow> int \<Rightarrow> bool" where
  "block_available e c n \<longleftrightarrow> archived e n \<and>
     (\<exists>objects. answers (get_state e c (Some n)) objects
        \<and> decay_minutes (unbox (feesInNormalMode (fst (objects 0)))) None \<le> 0xffffffff)"

definition started :: "('w, 'l) polled" where
  "started = (unstarted undefined False False)\<lparr>fetches := [Initial], listening := True\<rparr>"

lemma started_reachable: "poll_reachable ordered env e c started"
  by (rule poll_reachable.Start [of undefined False False]) (simp add: doStart_def started_def unstarted_def)

lemma announce_block:
  assumes p: "poll_reachable False (block_env r loc) e c p" "listening p"
    and n: "\<forall>m. latestBlock p = Some m \<longrightarrow> m \<le> n"
  obtains p' where "poll_reachable False (block_env r loc) e c p'" "listening p'" "latestBlock p' = Some n"
    "fetches p' = fetches p @ [ForBlock n]" "poll_store p' = poll_store p"
proof -
  obtain p1 where p1: "blockListener n p = (Inr (), p1)"
    by (simp add: blockListener_def)
  have max: "max n (case latestBlock p of None \<Rightarrow> n | Some m \<Rightarrow> m) = n"
    using n by (auto split: option.splits)
  have f1: "listening p1" "latestBlock p1 = Some n" "fetches p1 = fetches p" "poll_store p1 = poll_store p"
      "nextBlockTimer p \<in> set (blockTimers p1)"
    using p1 p(2) by (auto simp: blockListener_def clear_timer_def max split: option.splits)
  have r1: "poll_reachable False (block_env r loc) e c p1"
    using p p1 by (blast intro: poll_reachable.Step poll_step.Block)
  obtain p2 where p2: "block_timer_fires (nextBlockTimer p) p1 = (Inr (), p2)"
    using f1(2) by (simp add: block_timer_fires_def)
  then have "poll_reachable False (block_env r loc) e c p2"
    using r1 f1(5) by (blast intro: poll_reachable.Step poll_step.Block_Timer)
  with that p2 f1 show thesis
    by (auto simp: block_timer_fires_def)
qed

lemma complete_available:
  assumes p: "poll_reachable False (block_env r loc) e c p" and r: "quiet_listeners r"
    and n: "block_available e c n" and fs: "fetches p = xs @ ForBlock n # ys"
  obtains p' where "poll_step False (block_env r loc) e c p p'" "shown p' = Some n" "fetches p' = xs @ ys"
proof -
  let ?p = "p\<lparr>fetches := xs @ ys\<rparr>"
  obtain objects where e: "archived e n" and g: "answers (get_state e c (Some n)) objects"
    and range: "decay_minutes (unbox (feesInNormalMode (fst (objects 0)))) None \<le> 0xffffffff"
    using n by (auto simp: block_available_def)
  have ok: "store_ok (poll_store ?p)"
    using poll_reachable_ok [OF p] by (simp add: poll_ok_def)
  have g': "get_state e c (Some n) (chain ?p) = (Inr objects, chain ?p)"
    using g by (simp add: answers_def)
  obtain p' b x where run: "complete_fetch (block_env r loc) e c (ForBlock n) ?p = (Inr (), p')"
    and "extraState (poll_store p') = Some x" "mirrors_protocol e c n b x"
    by (rule complete_block [OF e ok r g' range, of loc])
  then have x: "shown p' = Some n"
    by (simp add: shown_def store_tag_def mirrors_protocol_def Let_def)
  have "fetches p' = xs @ ys"
    by (rule complete_ok [OF run ok]) simp
  with that run fs x show thesis
    by (blast intro: poll_step.Complete)
qed

text \<open>Fetches that are answered out of order let the store go back: whenever two blocks can be fetched, a
  run shows the later one first and then the earlier one, although the earlier fetch was made first and a
  later block is known.\<close>

theorem older_block_can_replace_newer:
  assumes "n < m" and n: "block_available e c n" and m: "block_available e c m" and r: "quiet_listeners r"
  shows "\<exists>p p'. poll_reachable False (block_env r loc) e c p \<and> shown p = Some m
    \<and> poll_step False (block_env r loc) e c p p' \<and> shown p' = Some n"
proof -
  let ?env = "block_env r loc"
  obtain p1 where p1: "poll_reachable False ?env e c p1" "listening p1" "latestBlock p1 = Some n"
      "fetches p1 = [Initial, ForBlock n]"
    by (rule announce_block [OF started_reachable, of n]) (auto simp: started_def unstarted_def)
  obtain p2 where p2: "poll_reachable False ?env e c p2"
      "fetches p2 = [Initial, ForBlock n, ForBlock m]"
    by (rule announce_block [OF p1(1,2), of m]) (use assms(1) p1 in auto)
  obtain p3 where p3: "poll_step False ?env e c p2 p3" "shown p3 = Some m" "fetches p3 = [Initial, ForBlock n]"
    by (rule complete_available [OF p2(1) r m, of "[Initial, ForBlock n]" "[]"]) (auto simp: p2(2))
  have r3: "poll_reachable False ?env e c p3"
    using p2(1) p3(1) by (rule poll_reachable.Step)
  obtain p4 where "poll_step False ?env e c p3 p4" "shown p4 = Some n"
    by (rule complete_available [OF r3 r n, of "[Initial]" "[]"]) (auto simp: p3(3))
  with r3 p3(2) show ?thesis by blast
qed

text \<open>Stopping the store does not stop it for good while a fetch is in flight: there is a run in which the
  store is stopped and no timer of any kind is pending, and yet the answer to its first fetch loads it and
  starts the timer of periodic updates again.\<close>

theorem fetch_restarts_stopped_store:
  assumes "answers (get_state e c None) objects"
    and "decay_in_range (unbox (feesInNormalMode (fst (objects 0)))) None"
  shows "\<exists>p p'. poll_reachable True (block_env r loc) e c p \<and> \<not> listening p
    \<and> blockTimers p = [] \<and> pendingTimers (poll_store p) = []
    \<and> poll_step True (block_env r loc) e c p p' \<and> pendingTimers (poll_store p') \<noteq> []"
proof -
  let ?env = "block_env r loc"
  let ?p = started
  have "stop_polling ?p = (Inr (), ?p\<lparr>listening := False\<rparr>)"
    by (simp add: stop_polling_def doStop_def clear_timer_def started_def unstarted_def on_store_def stop_def
        cancelUpdateIfScheduled_def initial_store_def bind_io_def)
  then have reach: "poll_reachable True ?env e c (?p\<lparr>listening := False\<rparr>)"
    by (blast intro: poll_reachable.Step poll_step.Stop started_reachable)
  let ?s = "initial_store\<lparr>nextIdent := 24\<rparr>"
  have unloaded: "\<not> loaded ?s"
    by (simp add: initial_store_def)
  obtain s' where s': "load ?env (fst (objects 0)) (Some (snd (objects 0))) ?s = (Inr (), s')"
      "pendingTimers s' \<noteq> []"
    by (rule load_outcome [OF unloaded assms(2)])
  have "complete_fetch ?env e c Initial (?p\<lparr>listening := False, fetches := []\<rparr>)
      = (Inr (), ?p\<lparr>listening := False, fetches := [], poll_store := s'\<rparr>)"
    using assms(1) s'(1)
    by (simp add: complete_fetch_def on_chain_def on_store_def bind_io_def allocate_def answers_def
        receive_state_def started_def unstarted_def initial_store_def case_prod_beta)
  then have "poll_step True ?env e c (?p\<lparr>listening := False\<rparr>)
      (?p\<lparr>listening := False, fetches := [], poll_store := s'\<rparr>)"
    by (intro poll_step.Complete [of _ "[]" Initial "[]"]) (simp_all add: started_def unstarted_def)
  with reach s'(2) show ?thesis
    by (intro exI [of _ "?p\<lparr>listening := False\<rparr>"]
          exI [of _ "?p\<lparr>listening := False, fetches := [], poll_store := s'\<rparr>"] conjI)
       (simp_all add: started_def unstarted_def initial_store_def)
qed

section \<open>A provider as an example\<close>

text \<open>Every block has one open Trove of the user, a price of 200 and nothing else.\<close>

definition archive_answer :: "string \<Rightarrow> val" where
  "archive_answer fn =
     (if fn = ''Troves'' then
        val.Obj [(''status'', Num 1), (''coll'', BN (20 * 10 ^ 18)), (''debt'', BN (2000 * 10 ^ 18)),
          (''stake'', BN (20 * 10 ^ 18))]
      else if fn = ''rewardSnapshots'' then val.Obj [(''ETH'', BN 0), (''LUSDDebt'', BN 0)]
      else if fn = ''deposits'' then val.Obj [(''initialValue'', BN 0), (''frontEndTag'', Str AddressZero)]
      else if fn = ''frontEnds'' then val.Obj [(''registered'', Bool False), (''kickbackRate'', BN 0)]
      else if fn = ''getMultipleSortedTroves'' then Arr []
      else if fn = ''fetchPrice'' then BN (200 * 10 ^ 18)
      else if fn = ''getCollateral'' then BN (10 * 10 ^ 18)
      else BN 0)"

definition archive :: "unit ethers" where
  "archive =
     \<lparr>ethers_call = (\<lambda>contract fn args ov w. (Inr (archive_answer fn), w)),
      estimateGas = (\<lambda>_ _ _ _ w. (Inr 100000, w)), contractAddress = (\<lambda>c. c),
      parse_log = (\<lambda>_ _. Inl (Error ''no matching event'')), sendTransaction = (\<lambda>_ w. (Inr ''0x1'', w)),
      wait_tx = (\<lambda>_ _ w. (Inr None, w)), timestampOf = (\<lambda>_ w. (Inr 600, w)),
      getBalance = (\<lambda>_ _ w. (Inr (BN 7), w)), randomInteger = (\<lambda>w. (Inr 42, w))\<rparr>"

definition archive_connection :: connection where
  "archive_connection =
     \<lparr>hasSigner = True, userAddress = Some ''0xa'', frontendTag = Some ''0xf'',
      totalStabilityPoolLQTYReward = Decimal (32000000 * 10 ^ 18), priceFeedIsTestnet = False,
      uniTokenIsMock = False\<rparr>"

lemma archive_users:
  "userAddress archive_connection = Some ''0xa''" "connection.frontendTag archive_connection = Some ''0xf''"
  by (simp_all add: archive_connection_def)

lemma archive_archived: "archived archive n"
  by (auto simp: archived_def archive_def pure_io_def)

lemmas archive_defs = archive_def archive_answer_def archive_connection_def call_decimal_def call_number_def
  decimalify_def numberify_def prop_decimal_def user_decimal_def default_address_def getp_def as_BN_def as_Str_def
  fromBigNumberString_def new_Decimal_def bind_io_def bind_res_def

lemma archive_protocol:
  "getBlockTimestamp archive tag w = (Inr 600, w)"
  "getFeesFactory archive ov w = (Inr (\<lambda>timestamp recovery. new_Fees (DecimalV (Decimal 0))
     (DecimalV MINUTE_DECAY_FACTOR) (DecimalV BETA) (convertToDate 0) (convertToDate timestamp) recovery), w)"
  "getRemainingLiquidityMiningLQTYRewardCalculator archive ov w =
     (Inr (\<lambda>_. Decimal_mul (Decimal 0) (NumberV (show_int 0))), w)"
  "getPrice archive ov w = (Inr (Decimal (200 * 10 ^ 18)), w)"
  "getNumberOfTroves archive ov w = (Inr 0, w)"
  "getTotalRedistributed archive ov w = (Inr \<lparr>collateral = Decimal 0, debt = Decimal 0\<rparr>, w)"
  "getTotal archive ov w = (Inr \<lparr>collateral = Decimal (20 * 10 ^ 18), debt = Decimal 0\<rparr>, w)"
  "getLUSDInStabilityPool archive ov w = (Inr (Decimal 0), w)"
  "getTotalStakedLQTY archive ov w = (Inr (Decimal 0), w)"
  "getRiskiestTroveBeforeRedistribution archive ov w = (Inr (closed_trove AddressZero NonExistent), w)"
  "getTotalStakedUniTokens archive ov w = (Inr (Decimal 0), w)"
  "getRemainingStabilityPoolLQTYReward archive archive_connection ov w = (Inr (Decimal (32000000 * 10 ^ 18)), w)"
  "getFrontendStatus archive c (Some t) ov w = (Inr Unregistered, w)"
  by (simp_all add: archive_defs getBlockTimestamp_def getFeesFactory_def
      getRemainingLiquidityMiningLQTYRewardCalculator_def getPrice_def getNumberOfTroves_def
      getTotalRedistributed_def getTotal_def getActivePool_def getDefaultPool_def pool_trove_def Trove_add_def
      dec_simps plus_decimal_def getLUSDInStabilityPool_def getTotalStakedLQTY_def
      getRiskiestTroveBeforeRedistribution_def getTroves_def expectPositiveInt_def validSortingOptions_def
      mapBackendTroves_def as_list_def getTotalStakedUniTokens_def getRemainingStabilityPoolLQTYReward_def
      minus_decimal_def less_eq_decimal_def getFrontendStatus_def)

lemma archive_user: "\<exists>u. getUserState archive c a tag w = (Inr u, w)"
  by (simp add: getUserState_def Let_def archive_protocol(13) bind_io_def)
     (simp add: archive_defs getLUSDBalance_def getLQTYBalance_def getUniTokenBalance_def getUniTokenAllowance_def
       getLiquidityMiningStake_def getLiquidityMiningLQTYReward_def getCollateralSurplusBalance_def
       getTroveBeforeRedistribution_def as_Num_def userTroveStatusFrom_def backend_trove_def
       getStabilityDeposit_def new_StabilityDeposit_def dec_simps getLQTYStake_def)

lemma archive_fetch:
  "\<exists>objects. answers (get_state archive archive_connection tag) objects
     \<and> (\<forall>k. unbox (feesInNormalMode (fst (objects k))) = \<lparr>baseRateWithoutDecay = Decimal 0,
          minuteDecayFactor = MINUTE_DECAY_FACTOR, beta = BETA, lastFeeOperation = 0,
          timeOfLatestBlock = 600000, recoveryMode = False\<rparr>)"
proof -
  obtain u where u: "getUserState archive archive_connection ''0xa'' tag () = (Inr u, ())"
    using archive_user by blast
  have "show_int 0 = ''0''"
    by code_simp
  then have "Decimal_mul (Decimal 0) (NumberV (show_int 0)) = Inr (Decimal 0)"
    by (simp add: Decimal_mul_def constant_literals(1) new_Decimal_def del: Decimal_from.simps)
  moreover have "new_Fees (DecimalV (Decimal 0)) (DecimalV MINUTE_DECAY_FACTOR) (DecimalV BETA) 0 600000 False =
      Inr \<lparr>baseRateWithoutDecay = Decimal 0, minuteDecayFactor = MINUTE_DECAY_FACTOR, beta = BETA,
        lastFeeOperation = 0, timeOfLatestBlock = 600000, recoveryMode = False\<rparr>"
    by (simp add: dec_simps MINUTE_DECAY_FACTOR_def ONE_def less_decimal_def)
  ultimately show ?thesis
    using u
    by (simp add: get_state_def Let_def answers_def bind_io_def archive_protocol archive_users
        truthy_address_def convertToDate_def)
qed

lemma archive_available: "block_available archive archive_connection n"
proof -
  obtain objects where "answers (get_state archive archive_connection (Some n)) objects"
    "unbox (feesInNormalMode (fst (objects 0))) = \<lparr>baseRateWithoutDecay = Decimal 0,
          minuteDecayFactor = MINUTE_DECAY_FACTOR, beta = BETA, lastFeeOperation = 0,
          timeOfLatestBlock = 600000, recoveryMode = False\<rparr>"
    using archive_fetch by blast
  then show ?thesis
    using archive_archived by (auto simp: block_available_def minutesSince_def)
qed

text \<open>The environment of a store whose listeners do nothing.\<close>

abbreviation still_env :: "string block_env" where
  "still_env \<equiv> block_env (\<lambda>_ _. []) show_int"

theorem older_block_can_replace_newer_witness:
  "\<exists>p p'. poll_reachable False still_env archive archive_connection p \<and> shown p = Some 8
    \<and> poll_step False still_env archive archive_connection p p' \<and> shown p' = Some 7"
  by (rule older_block_can_replace_newer) (simp_all add: archive_available)

theorem fetch_restarts_stopped_store_witness:
  "\<exists>p p'. poll_reachable True still_env archive archive_connection p \<and> \<not> listening p
    \<and> blockTimers p = [] \<and> pendingTimers (poll_store p) = []
    \<and> poll_step True still_env archive archive_connection p p' \<and> pendingTimers (poll_store p') \<noteq> []"
proof -
  obtain objects where g: "answers (get_state archive archive_connection None) objects"
    and f: "unbox (feesInNormalMode (fst (objects 0))) = \<lparr>baseRateWithoutDecay = Decimal 0,
          minuteDecayFactor = MINUTE_DECAY_FACTOR, beta = BETA, lastFeeOperation = 0,
          timeOfLatestBlock = 600000, recoveryMode = False\<rparr>"
    using archive_fetch by blast
  show ?thesis
    by (rule fetch_restarts_stopped_store [OF g])
       (simp add: f decay_in_range_def minutesSince_def MINUTE_DECAY_FACTOR_def decimal_order DIGITS_eq)
qed

theorem polling_discipline_witness:
  "\<exists>p. poll_reachable True still_env archive archive_connection p \<and> fetches p = [Initial, ForBlock 7]
    \<and> length (blockTimers p) \<le> 1 \<and> sorted (block_tags (fetches p))
    \<and> (\<forall>n \<in> set (block_tags (fetches p)) \<union> set_option (shown p). \<exists>m. latestBlock p = Some m \<and> n \<le> m)"
proof -
  let ?p1 = "snd (blockListener 7 (started :: (unit, string) polled))"
  let ?p2 = "snd (block_timer_fires 0 ?p1)"
  have "poll_reachable True still_env archive archive_connection ?p1"
    by (rule poll_reachable.Step [OF started_reachable], rule poll_step.Block [of _ 7])
       (simp_all add: started_def unstarted_def blockListener_def)
  then have r: "poll_reachable True still_env archive archive_connection ?p2"
    by (rule poll_reachable.Step, intro poll_step.Block_Timer [of 0])
       (simp_all add: started_def unstarted_def blockListener_def block_timer_fires_def clear_timer_def)
  moreover have "fetches ?p2 = [Initial, ForBlock 7]"
    by (simp add: started_def unstarted_def blockListener_def block_timer_fires_def clear_timer_def)
  ultimately show ?thesis
    using polling_discipline [OF r] by blast
qed


end
