(* ===== verification/Batched.thy ===== *)
theory Batched
  imports JsValue
begin

text \<open>
  \<^verbatim>\<open>packages/providers/src/BatchedProvider.ts\<close>: a provider that collects read calls for some milliseconds and
  makes them in one call of the Multicall contract. The base class is a record of parameters: its \<open>call\<close>
  and \<open>getBalance\<close>, \<open>isAddress\<close>, and the coding of the arguments and results of the Multicall contract, to
  which ethers connects the provider itself, so that the batched call comes back to \<open>call\<close>. A promise
  is an entry of a list with the call it stands for; callbacks are its index. A batch that was sent is in
  flight until it is answered.
\<close>

section \<open>Requests\<close>

record request =
  rq_to :: "string option"
  rq_from :: "string option"
  rq_data :: val
  rq_gasLimit :: val
  rq_gasPrice :: val
  rq_value :: val

record call_request =
  target :: "string option"
  callData :: val

definition multicallAddress :: "(int \<times> string) list" where
  "multicallAddress =
     [(1, ''0xeefBa1e63905eF1D7ACbA5a8513c70307C1cE441''),
      (3, ''0x53C43764255c17BD724F74c4eF150724AC50a3ed''),
      (4, ''0x42Ad527de7d4e9d9d011aC45B31D8551f8Fe9821''),
      (5, ''0x77dCa2C955b15e9dE4dbBCf1246B4B85b651e50e''),
      (42, ''0x2cc8688C5f75E365aaEEb4ea8D6a480405A48D2A'')]"

definition hasMulticall :: "int \<Rightarrow> bool" where
  "hasMulticall chainId \<longleftrightarrow> chainId \<in> fst ` set multicallAddress"

definition batchableCall :: "request \<Rightarrow> bool" where
  "batchableCall rq \<longleftrightarrow> rq_gasLimit rq = Undefined \<and> rq_gasPrice rq = Undefined \<and> rq_value rq = Undefined"

text \<open>The signature of \<^verbatim>\<open>aggregate((address,bytes)[])\<close>.\<close>

definition aggregate_selector :: string where
  "aggregate_selector = ''0x252dba42''"

definition batchedCall :: "request \<Rightarrow> string \<Rightarrow> bool" where
  "batchedCall rq address \<longleftrightarrow>
     rq_to rq = Some address \<and>
     (case rq_data rq of Str d \<Rightarrow> take (length aggregate_selector) d = aggregate_selector | _ \<Rightarrow> False)"

section \<open>The state of the provider\<close>

record promise =
  pr_call :: call_request
  pr_tag :: val
  pr_result :: "val res option"

record batch =
  b_calls :: "call_request list"
  b_callbacks :: "nat list"
  b_tag :: val

definition emptyBatch :: batch where
  "emptyBatch = \<lparr>b_calls = [], b_callbacks = [], b_tag = Undefined\<rparr>"

record 'w batched =
  world :: 'w
  chain_id :: int
  multicall :: "string option"
  timeoutId :: "nat option"
  timers :: "nat list"
  next_timer :: nat
  current :: batch
  inflight :: "batch list"
  promises :: "promise list"
  numberOfBatchedCalls :: nat
  numberOfActualCalls :: nat
  timeOfLastRatioCheck :: "int option"

record 'w base =
  super_call :: "request \<Rightarrow> val \<Rightarrow> ('w, string) io"
  super_getBalance :: "string \<Rightarrow> val \<Rightarrow> ('w, int) io"
  isAddress :: "string \<Rightarrow> bool"
  encode_calls :: "call_request list \<Rightarrow> string"
  decode_returnData :: "string \<Rightarrow> string list res"
  encode_getEthBalance :: "string \<Rightarrow> string"

definition new_batched :: "'w \<Rightarrow> 'w batched" where
  "new_batched w =
     \<lparr>world = w, chain_id = 0, multicall = None, timeoutId = None, timers = [], next_timer = 0,
      current = emptyBatch, inflight = [], promises = [], numberOfBatchedCalls = 0,
      numberOfActualCalls = 0, timeOfLastRatioCheck = None\<rparr>"

definition on_base :: "('w, 'a) io \<Rightarrow> ('w batched, 'a) io" where
  "on_base m = (\<lambda>s. case m (world s) of (r, w) \<Rightarrow> (r, s\<lparr>world := w\<rparr>))"

definition set_chainId :: "int \<Rightarrow> ('w batched, unit) io" where
  "set_chainId chainId =
     bind_io get_io (\<lambda>s.
       if multicall s \<noteq> None then throw_io (Error ''can only set chainId once'')
       else modify_io (\<lambda>s. s\<lparr>multicall := map_of multicallAddress chainId, chain_id := chainId\<rparr>))"

section \<open>Calls\<close>

text \<open>The statistics of batching, at the time \<open>now\<close>.\<close>

definition check_ratio :: "int \<Rightarrow> 'w batched \<Rightarrow> 'w batched" where
  "check_ratio now s =
     (case timeOfLastRatioCheck s of
        None \<Rightarrow> s\<lparr>timeOfLastRatioCheck := Some now\<rparr>
      | Some t \<Rightarrow>
          if 10000 \<le> now - t \<and> numberOfActualCalls s \<noteq> 0
          then s\<lparr>numberOfBatchedCalls := 0, numberOfActualCalls := 0, timeOfLastRatioCheck := Some now\<rparr>
          else s)"

definition or_latest :: "val \<Rightarrow> val" where
  "or_latest tag = (if tag = Undefined then Str ''latest'' else tag)"

definition alreadyBatchedCallsConflictWith :: "'w batched \<Rightarrow> val \<Rightarrow> bool" where
  "alreadyBatchedCallsConflictWith s tag \<longleftrightarrow>
     b_calls (current s) \<noteq> [] \<and> or_latest tag \<noteq> or_latest (b_tag (current s))"

text \<open>The new promise remembers the block tag that was asked for.\<close>

definition enqueueCall :: "call_request \<Rightarrow> val \<Rightarrow> ('w batched, nat) io" where
  "enqueueCall c tag = (\<lambda>s.
     let id = length (promises s);
         s = (case timeoutId s of None \<Rightarrow> s | Some i \<Rightarrow> s\<lparr>timers := filter (\<lambda>j. j \<noteq> i) (timers s)\<rparr>)
     in (Inr id,
         s\<lparr>timeoutId := Some (next_timer s), timers := timers s @ [next_timer s],
           next_timer := Suc (next_timer s),
           current := (current s)\<lparr>b_calls := b_calls (current s) @ [c],
             b_callbacks := b_callbacks (current s) @ [id]\<rparr>,
           promises := promises s @ [\<lparr>pr_call = c, pr_tag = tag, pr_result = None\<rparr>]\<rparr>))"

datatype outcome = Answered string | Pending nat

definition batched_call :: "'w base \<Rightarrow> int \<Rightarrow> request \<Rightarrow> val \<Rightarrow> ('w batched, outcome) io" where
  "batched_call b now rq tag =
     bind_io get_io (\<lambda>s.
     case multicall s of
       None \<Rightarrow> bind_io (on_base (super_call b rq tag)) (\<lambda>r. return_io (Answered r))
     | Some address \<Rightarrow>
         seq_io (modify_io (check_ratio now)) (
         bind_io get_io (\<lambda>s.
           if batchedCall rq address \<or> \<not> batchableCall rq \<or> alreadyBatchedCallsConflictWith s tag then
             seq_io (modify_io (\<lambda>s. s\<lparr>numberOfActualCalls := Suc (numberOfActualCalls s)\<rparr>))
               (bind_io (on_base (super_call b rq tag)) (\<lambda>r. return_io (Answered r)))
           else
             seq_io (modify_io (\<lambda>s. s\<lparr>numberOfBatchedCalls := Suc (numberOfBatchedCalls s),
               current := (if b_calls (current s) = [] then (current s)\<lparr>b_tag := tag\<rparr> else current s)\<rparr>))
               (bind_io (enqueueCall \<lparr>target = rq_to rq, callData = rq_data rq\<rparr> tag) (\<lambda>id.
                  return_io (Pending id))))))"

section \<open>Dispatching\<close>

text \<open>The timer fires: the batch is taken and sent.\<close>

definition dispatch_timer :: "nat \<Rightarrow> 'w batched \<Rightarrow> 'w batched" where
  "dispatch_timer i s =
     s\<lparr>timers := filter (\<lambda>j. j \<noteq> i) (timers s), inflight := inflight s @ [current s], current := emptyBatch\<rparr>"

text \<open>The request of a single call, which has neither the sender nor other fields of the one enqueued.\<close>

definition plain_request :: "call_request \<Rightarrow> request" where
  "plain_request c =
     \<lparr>rq_to = target c, rq_from = None, rq_data = callData c, rq_gasLimit = Undefined,
      rq_gasPrice = Undefined, rq_value = Undefined\<rparr>"

definition aggregate_request :: "'w base \<Rightarrow> string \<Rightarrow> call_request list \<Rightarrow> request" where
  "aggregate_request b address cs =
     plain_request \<lparr>target = Some address, callData = Str (aggregate_selector @ encode_calls b cs)\<rparr>"

text \<open>\<^verbatim>\<open>this._multicall!.callStatic.aggregate\<close>: through the provider's own \<open>call\<close>.\<close>

definition aggregate :: "'w base \<Rightarrow> int \<Rightarrow> call_request list \<Rightarrow> val \<Rightarrow> ('w batched, string list) io" where
  "aggregate b now cs tag =
     bind_io get_io (\<lambda>s.
     case multicall s of
       None \<Rightarrow> throw_io (TypeError ''Cannot read properties of undefined (reading callStatic)'')
     | Some address \<Rightarrow>
         bind_io (batched_call b now (aggregate_request b address cs) tag) (\<lambda>r.
         case r of
           Answered out \<Rightarrow> lift_io (decode_returnData b out)
         | Pending _ \<Rightarrow> throw_io (Error ''the batched call was batched'')))"

definition batch_results :: "'w base \<Rightarrow> int \<Rightarrow> batch \<Rightarrow> ('w batched, string list) io" where
  "batch_results b now bt =
     (if 1 < length (b_calls bt) then aggregate b now (b_calls bt) (b_tag bt)
      else case b_calls bt of
        [] \<Rightarrow> throw_io (TypeError ''Cannot read properties of undefined (reading target)'')
      | c # _ \<Rightarrow> bind_io (on_base (super_call b (plain_request c) (b_tag bt))) (\<lambda>r. return_io [r]))"

text \<open>A promise is settled once.\<close>

definition settle :: "nat \<Rightarrow> val res \<Rightarrow> promise list \<Rightarrow> promise list" where
  "settle i r ps =
     (if i < length ps \<and> pr_result (ps ! i) = None then ps[i := (ps ! i)\<lparr>pr_result := Some r\<rparr>] else ps)"

fun resolve_all :: "nat list \<Rightarrow> nat \<Rightarrow> string list \<Rightarrow> promise list \<Rightarrow> promise list" where
  "resolve_all [] k rs ps = ps"
| "resolve_all (i # is) k rs ps =
     resolve_all is (Suc k) rs (settle i (Inr (if k < length rs then Str (rs ! k) else Undefined)) ps)"

fun reject_all :: "nat list \<Rightarrow> js_error \<Rightarrow> promise list \<Rightarrow> promise list" where
  "reject_all [] err ps = ps"
| "reject_all (i # is) err ps = reject_all is err (settle i (Inl err) ps)"

definition complete_batch :: "'w base \<Rightarrow> int \<Rightarrow> batch \<Rightarrow> ('w batched, unit) io" where
  "complete_batch b now bt =
     catch_io (bind_io (batch_results b now bt) (\<lambda>rs.
         modify_io (\<lambda>s. s\<lparr>promises := resolve_all (b_callbacks bt) 0 rs (promises s)\<rparr>)))
       (\<lambda>err. modify_io (\<lambda>s. s\<lparr>promises := reject_all (b_callbacks bt) err (promises s)\<rparr>))"

section \<open>Balances\<close>

datatype balance = Balance int | Balance_of outcome

definition batched_getBalance :: "'w base \<Rightarrow> int \<Rightarrow> string \<Rightarrow> val \<Rightarrow> ('w batched, balance) io" where
  "batched_getBalance b now address tag =
     bind_io get_io (\<lambda>s.
     case multicall s of
       None \<Rightarrow> bind_io (on_base (super_getBalance b address tag)) (\<lambda>x. return_io (Balance x))
     | Some mc \<Rightarrow>
         if \<not> isAddress b address then
           bind_io (on_base (super_getBalance b address tag)) (\<lambda>x. return_io (Balance x))
         else
           bind_io (batched_call b now (plain_request \<lparr>target = Some mc,
             callData = Str (encode_getEthBalance b address)\<rparr>) tag) (\<lambda>r. return_io (Balance_of r)))"

end
