(* ===== verification/Batched_Props.thy ===== *)
theory Batched_Props
  imports Batched
begin

text \<open>
  Properties of the batching provider: over all interleavings of calls, timers and answers, every promise
  that is not settled is in exactly one batch, and a batch that waits has a timer; and a promise is settled
  with what its own call at its own block would have been answered.
\<close>

section \<open>Settling promises\<close>

fun settle_all :: "(nat \<times> val res) list \<Rightarrow> promise list \<Rightarrow> promise list" where
  "settle_all [] ps = ps"
| "settle_all ((i, r) # prs) ps = settle_all prs (settle i r ps)"

lemma reject_all_settle: "reject_all is err ps = settle_all (map (\<lambda>i. (i, Inl err)) is) ps"
  by (induction "is" err ps rule: reject_all.induct) simp_all

lemma resolve_all_settle:
  "resolve_all is k rs ps =
     settle_all (zip is (map (\<lambda>j. Inr (if j < length rs then Str (rs ! j) else Undefined)) [k..<k + length is])) ps"
proof (induction "is" k rs ps rule: resolve_all.induct)
  case (2 i "is" k rs ps)
  have "[k..<k + length (i # is)] = k # [Suc k..<Suc k + length is]"
    by (simp add: upt_rec)
  with 2 show ?case by simp
qed simp

lemma settle_all_result:
  assumes "distinct (map fst prs)" and "\<forall>i \<in> fst ` set prs. i < length ps \<and> pr_result (ps ! i) = None"
  shows "length (settle_all prs ps) = length ps
    \<and> (\<forall>i < length ps. settle_all prs ps ! i =
         (case map_of prs i of None \<Rightarrow> ps ! i | Some r \<Rightarrow> (ps ! i)\<lparr>pr_result := Some r\<rparr>))"
  using assms
proof (induction prs ps rule: settle_all.induct)
  case (2 i r prs ps)
  let ?ps = "ps[i := (ps ! i)\<lparr>pr_result := Some r\<rparr>]"
  have s: "settle i r ps = ?ps"
    using "2.prems" by (simp add: settle_def)
  have "\<forall>j \<in> fst ` set prs. j < length ?ps \<and> pr_result (?ps ! j) = None"
    using "2.prems" by (auto simp: nth_list_update)
  with "2.IH" "2.prems"(1) have IH: "length (settle_all prs ?ps) = length ?ps"
      "\<forall>j < length ?ps. settle_all prs ?ps ! j =
         (case map_of prs j of None \<Rightarrow> ?ps ! j | Some r \<Rightarrow> (?ps ! j)\<lparr>pr_result := Some r\<rparr>)"
    unfolding s by auto
  have "map_of prs i = None"
    using "2.prems"(1) by (simp add: map_of_eq_None_iff)
  with IH show ?case
    by (auto simp: s nth_list_update split: option.splits)
qed simp

section \<open>Batches\<close>

text \<open>The calls of a batch are those of its promises, asked for at the block of the batch.\<close>

definition fits :: "promise list \<Rightarrow> batch \<Rightarrow> bool" where
  "fits ps bt \<longleftrightarrow> list_all2 (\<lambda>i c. i < length ps \<and> pr_call (ps ! i) = c \<and>
     or_latest (pr_tag (ps ! i)) = or_latest (b_tag bt)) (b_callbacks bt) (b_calls bt)"

definition unsettled :: "promise list \<Rightarrow> nat set" where
  "unsettled ps = {i. i < length ps \<and> pr_result (ps ! i) = None}"

definition batched_ok :: "'w batched \<Rightarrow> bool" where
  "batched_ok s \<longleftrightarrow>
     distinct (concat (map b_callbacks (current s # inflight s)))
     \<and> set (concat (map b_callbacks (current s # inflight s))) = unsettled (promises s)
     \<and> (\<forall>bt \<in> set (current s # inflight s). fits (promises s) bt)
     \<and> (\<forall>bt \<in> set (inflight s). b_calls bt \<noteq> [])
     \<and> (if b_calls (current s) = [] then timers s = [] else \<exists>i. timeoutId s = Some i \<and> timers s = [i])"

lemma fits_mono:
  assumes "fits ps bt" and "length ps \<le> length qs"
    and "\<forall>i < length ps. pr_call (qs ! i) = pr_call (ps ! i) \<and> pr_tag (qs ! i) = pr_tag (ps ! i)"
  shows "fits qs bt"
  using assms unfolding fits_def by (auto elim!: list_all2_mono)

lemma fits_append: "fits ps bt \<Longrightarrow> fits (ps @ qs) bt"
  by (rule fits_mono) (auto simp: nth_append)

lemma unsettled_append:
  "unsettled (ps @ [\<lparr>pr_call = c, pr_tag = t, pr_result = None\<rparr>]) = insert (length ps) (unsettled ps)"
  by (auto simp: unsettled_def nth_append less_Suc_eq)

lemma fits_empty: "fits ps emptyBatch"
  by (simp add: fits_def emptyBatch_def)

text \<open>Changes of the state outside the queue.\<close>

definition same_queue :: "'w batched \<Rightarrow> 'w batched \<Rightarrow> bool" where
  "same_queue s s' \<longleftrightarrow> current s' = current s \<and> inflight s' = inflight s \<and> promises s' = promises s
     \<and> timers s' = timers s \<and> timeoutId s' = timeoutId s"

lemma same_queue_ok: "same_queue s s' \<Longrightarrow> batched_ok s \<Longrightarrow> batched_ok s'"
  by (simp add: same_queue_def batched_ok_def)

lemma same_queue_trans: "same_queue s s' \<Longrightarrow> same_queue s' s'' \<Longrightarrow> same_queue s s''"
  by (simp add: same_queue_def)

lemma same_queue_basic:
  "same_queue s (s\<lparr>world := w\<rparr>)" "same_queue s (check_ratio now s)"
  "same_queue s (s\<lparr>numberOfActualCalls := k\<rparr>)" "same_queue s (s\<lparr>multicall := m, chain_id := i\<rparr>)"
  "on_base m' s = (r, s') \<Longrightarrow> same_queue s s'"
  by (auto simp: same_queue_def check_ratio_def on_base_def split: option.splits prod.splits)

lemma enqueue_ok:
  assumes ok: "batched_ok s" and tag: "or_latest tag = or_latest (b_tag (current s))"
    and run: "enqueueCall c tag s = (r, s')"
  shows "batched_ok s'"
proof -
  let ?id = "length (promises s)" and ?p = "\<lparr>pr_call = c, pr_tag = tag, pr_result = None\<rparr>"
  let ?cur = "(current s)\<lparr>b_calls := b_calls (current s) @ [c], b_callbacks := b_callbacks (current s) @ [?id]\<rparr>"
  have timers: "(case timeoutId s of None \<Rightarrow> s | Some i \<Rightarrow> s\<lparr>timers := filter (\<lambda>j. j \<noteq> i) (timers s)\<rparr>)
      = s\<lparr>timers := []\<rparr>"
    using ok by (auto simp: batched_ok_def split: option.splits if_splits)
  then have s': "s' = s\<lparr>timeoutId := Some (next_timer s), timers := [next_timer s],
      next_timer := Suc (next_timer s), current := ?cur, promises := promises s @ [?p]\<rparr>"
    using run by (simp add: enqueueCall_def Let_def)
  have "?id \<notin> unsettled (promises s)"
    by (simp add: unsettled_def)
  then have "distinct (concat (map b_callbacks (?cur # inflight s)))"
    "set (concat (map b_callbacks (?cur # inflight s))) = unsettled (promises s @ [?p])"
    using ok unfolding batched_ok_def unsettled_append by auto
  moreover have "fits (promises s @ [?p]) ?cur"
  proof -
    have "fits (promises s @ [?p]) (current s)"
      using ok by (auto simp: batched_ok_def intro: fits_append)
    then show ?thesis
      using tag by (simp add: fits_def list_all2_append list_all2_lengthD)
  qed
  moreover have "\<forall>bt \<in> set (inflight s). fits (promises s @ [?p]) bt"
    using ok by (auto simp: batched_ok_def intro: fits_append)
  ultimately show ?thesis
    using ok unfolding s' by (simp add: batched_ok_def)
qed

lemma batched_call_ok:
  assumes ok: "batched_ok s" and run: "batched_call b now rq tag s = (r, s')"
  shows "batched_ok s'"
proof (cases "multicall s")
  case None
  then have "same_queue s s'"
    using run by (auto simp: batched_call_def bind_io_def split: prod.splits sum.splits dest: same_queue_basic(5))
  then show ?thesis using ok by (rule same_queue_ok)
next
  case (Some address)
  let ?s1 = "check_ratio now s"
  have ok1: "batched_ok ?s1"
    using same_queue_basic(2) ok by (rule same_queue_ok)
  show ?thesis
  proof (cases "batchedCall rq address \<or> \<not> batchableCall rq \<or> alreadyBatchedCallsConflictWith ?s1 tag")
    case True
    let ?s2 = "?s1\<lparr>numberOfActualCalls := Suc (numberOfActualCalls ?s1)\<rparr>"
    have "same_queue ?s2 s'"
      using run Some True
      by (auto simp: batched_call_def bind_io_def split: prod.splits sum.splits dest: same_queue_basic(5))
    then show ?thesis
      by (rule same_queue_ok) (rule same_queue_ok [OF same_queue_basic(3) ok1])
  next
    case False
    let ?cur = "if b_calls (current ?s1) = [] then (current ?s1)\<lparr>b_tag := tag\<rparr> else current ?s1"
    let ?s2 = "?s1\<lparr>numberOfBatchedCalls := Suc (numberOfBatchedCalls ?s1), current := ?cur\<rparr>"
    have "batched_ok ?s2"
      using ok1 by (auto simp: batched_ok_def fits_def)
    moreover have "or_latest tag = or_latest (b_tag (current ?s2))"
      using False by (auto simp: alreadyBatchedCallsConflictWith_def)
    moreover obtain q where "enqueueCall \<lparr>target = rq_to rq, callData = rq_data rq\<rparr> tag ?s2 = (q, s')"
      using run Some False by (auto simp: batched_call_def bind_io_def split: prod.splits sum.splits)
    ultimately show ?thesis by (rule enqueue_ok)
  qed
qed

lemma dispatch_ok:
  assumes "batched_ok s" and "i \<in> set (timers s)"
  shows "batched_ok (dispatch_timer i s)"
proof -
  have t: "timers s = [i]" "b_calls (current s) \<noteq> []"
    using assms by (auto simp: batched_ok_def split: if_splits)
  moreover have "b_callbacks emptyBatch = []" "b_calls emptyBatch = []"
    by (simp_all add: emptyBatch_def)
  ultimately show ?thesis
    using assms(1) fits_empty by (auto simp: dispatch_timer_def batched_ok_def)
qed

text \<open>The call of a batch is never itself put into a batch.\<close>

lemma aggregate_is_direct: "batchedCall (aggregate_request b address cs) address"
  by (simp add: batchedCall_def aggregate_request_def plain_request_def aggregate_selector_def)

lemma batch_results_run:
  assumes "batch_results b now bt s = (r, s')"
  shows "same_queue s s' \<and> multicall s' = multicall s"
proof (cases "1 < length (b_calls bt)")
  case True
  show ?thesis
  proof (cases "multicall s")
    case (Some address)
    then show ?thesis
      using assms True aggregate_is_direct [of b address "b_calls bt"]
      by (auto simp: batch_results_def aggregate_def batched_call_def bind_io_def on_base_def same_queue_def
          check_ratio_def split: prod.splits sum.splits outcome.splits option.splits if_splits)
  qed (use assms True in \<open>simp add: batch_results_def aggregate_def same_queue_def\<close>)
next
  case False
  with assms show ?thesis
    by (auto simp: batch_results_def bind_io_def on_base_def same_queue_def
        split: prod.splits sum.splits list.splits)
qed

definition settlements :: "string list res \<Rightarrow> batch \<Rightarrow> (nat \<times> val res) list" where
  "settlements q bt =
     (case q of
        Inl err \<Rightarrow> map (\<lambda>i. (i, Inl err)) (b_callbacks bt)
      | Inr rs \<Rightarrow> zip (b_callbacks bt) (map (\<lambda>j. Inr (if j < length rs then Str (rs ! j) else Undefined))
          [0..<length (b_callbacks bt)]))"

lemma settlements_fst: "map fst (settlements q bt) = b_callbacks bt"
  by (cases q) (simp_all add: settlements_def o_def)

lemma complete_batch_run:
  assumes q: "batch_results b now bt s = (q, s1)"
  shows "complete_batch b now bt s = (Inr (), s1\<lparr>promises := settle_all (settlements q bt) (promises s)\<rparr>)"
proof -
  have "promises s1 = promises s"
    using batch_results_run [OF q] by (simp add: same_queue_def)
  then show ?thesis
    by (cases q) (simp_all add: q complete_batch_def catch_io_def bind_io_def reject_all_settle
        resolve_all_settle settlements_def)
qed

text \<open>What settling a batch of a consistent state does to the promises.\<close>

lemma settled_batch:
  assumes "batched_ok s" and "inflight s = xs @ bt # ys" and "map fst prs = b_callbacks bt"
  shows "length (settle_all prs (promises s)) = length (promises s)"
    and "i < length (promises s) \<Longrightarrow> settle_all prs (promises s) ! i =
      (case map_of prs i of None \<Rightarrow> promises s ! i | Some r \<Rightarrow> (promises s ! i)\<lparr>pr_result := Some r\<rparr>)"
proof -
  have "distinct (map fst prs)"
    using assms by (auto simp: batched_ok_def)
  moreover have "\<forall>i \<in> set (map fst prs). i < length (promises s) \<and> pr_result (promises s ! i) = None"
    using assms unfolding assms(3) by (auto simp: batched_ok_def unsettled_def)
  ultimately show "length (settle_all prs (promises s)) = length (promises s)"
    and "i < length (promises s) \<Longrightarrow> settle_all prs (promises s) ! i =
      (case map_of prs i of None \<Rightarrow> promises s ! i | Some r \<Rightarrow> (promises s ! i)\<lparr>pr_result := Some r\<rparr>)"
    using settle_all_result [of prs "promises s"] by auto
qed

lemma complete_batch_ok:
  assumes ok: "batched_ok s" and fs: "inflight s = xs @ bt # ys"
    and run: "complete_batch b now bt (s\<lparr>inflight := xs @ ys\<rparr>) = (r, s')"
  shows "batched_ok s'"
proof -
  obtain q s1 where q: "batch_results b now bt (s\<lparr>inflight := xs @ ys\<rparr>) = (q, s1)"
    by (cases "batch_results b now bt (s\<lparr>inflight := xs @ ys\<rparr>)")
  let ?prs = "settlements q bt"
  let ?ps = "promises s" and ?qs = "settle_all ?prs (promises s)"
  have s': "s' = s1\<lparr>promises := ?qs\<rparr>"
    using complete_batch_run [OF q] run by simp
  have same: "current s1 = current s" "inflight s1 = xs @ ys" "timers s1 = timers s" "timeoutId s1 = timeoutId s"
    using batch_results_run [OF q] by (simp_all add: same_queue_def)
  note res = settled_batch [OF ok fs settlements_fst [of q bt]]
  have dom: "map_of ?prs i = None \<longleftrightarrow> i \<notin> set (b_callbacks bt)" for i
    unfolding map_of_eq_None_iff settlements_fst [of q bt, symmetric] by simp
  have "unsettled ?qs = unsettled ?ps - set (b_callbacks bt)"
    using res dom by (auto simp: unsettled_def split: option.splits)
  moreover have "fits ?qs bt'" if "fits ?ps bt'" for bt'
    using that by (rule fits_mono) (use res in \<open>auto split: option.splits\<close>)
  ultimately show ?thesis
    using ok fs same unfolding s' by (auto simp: batched_ok_def)
qed

section \<open>Runs\<close>

inductive batched_step :: "'w base \<Rightarrow> 'w batched \<Rightarrow> 'w batched \<Rightarrow> bool" for b where
  Call: "batched_call b now rq tag s = (r, s') \<Longrightarrow> batched_step b s s'"
| Balance: "batched_getBalance b now address tag s = (q, s') \<Longrightarrow> batched_step b s s'"
| Chain_Id: "set_chainId i s = (u, s') \<Longrightarrow> batched_step b s s'"
| Timer: "i \<in> set (timers s) \<Longrightarrow> batched_step b s (dispatch_timer i s)"
| Complete: "inflight s = xs @ bt # ys \<Longrightarrow> complete_batch b now bt (s\<lparr>inflight := xs @ ys\<rparr>) = (u, s') \<Longrightarrow>
    batched_step b s s'"
| World: "batched_step b s (s\<lparr>world := w\<rparr>)"

inductive batched_reachable :: "'w base \<Rightarrow> 'w batched \<Rightarrow> bool" for b where
  Start: "batched_reachable b (new_batched w)"
| Step: "batched_reachable b s \<Longrightarrow> batched_step b s s' \<Longrightarrow> batched_reachable b s'"

lemma balance_ok:
  assumes ok: "batched_ok s" and run: "batched_getBalance b now address tag s = (q, s')"
  shows "batched_ok s'"
proof (cases "\<exists>mc. multicall s = Some mc \<and> isAddress b address")
  case True
  then obtain rq r where "batched_call b now rq tag s = (r, s')"
    using run by (auto simp: batched_getBalance_def bind_io_def split: prod.splits sum.splits)
  with ok show ?thesis by (rule batched_call_ok)
next
  case False
  then obtain x where "on_base (super_getBalance b address tag) s = (x, s')"
    using run by (auto simp: batched_getBalance_def bind_io_def split: option.splits prod.splits sum.splits)
  then have "same_queue s s'" by (rule same_queue_basic(5))
  then show ?thesis using ok by (rule same_queue_ok)
qed

lemma batched_step_ok: "batched_step b s s' \<Longrightarrow> batched_ok s \<Longrightarrow> batched_ok s'"
proof (induction rule: batched_step.induct)
  case (Chain_Id i s u s')
  then have "same_queue s s'"
    by (auto simp: set_chainId_def same_queue_def split: if_splits)
  then show ?case using Chain_Id.prems by (rule same_queue_ok)
next
  case (World s w)
  show ?case by (rule same_queue_ok [OF same_queue_basic(1) World])
qed (auto intro: batched_call_ok balance_ok dispatch_ok complete_batch_ok)

lemma batched_reachable_ok: "batched_reachable b s \<Longrightarrow> batched_ok s"
proof (induction rule: batched_reachable.induct)
  case (Start w)
  show ?case
    by (simp add: new_batched_def batched_ok_def emptyBatch_def unsettled_def fits_def)
qed (rule batched_step_ok)

text \<open>C24: no call is lost or answered twice: in every state that calls, timers and answers in any order can
  reach, each promise that is not settled is in exactly one batch, once; a batch that waits has exactly one
  timer pending, no timer fires for nothing, and no empty batch is sent.\<close>

theorem batching_loses_nothing:
  assumes "batched_reachable b s"
  shows "distinct (concat (map b_callbacks (current s # inflight s)))
    \<and> set (concat (map b_callbacks (current s # inflight s))) =
        {i. i < length (promises s) \<and> pr_result (promises s ! i) = None}
    \<and> length (timers s) = (if b_calls (current s) = [] then 0 else 1)
    \<and> (\<forall>bt \<in> set (inflight s). b_calls bt \<noteq> [])"
  using batched_reachable_ok [OF assms] by (auto simp: batched_ok_def unsettled_def split: if_splits)

section \<open>Answers\<close>

text \<open>What the code relies on: calls only read; no block tag means the latest block; the Multicall
  contract makes the calls of a batch on the state of one block and returns their results in order, and
  fails if one of them does.\<close>

definition multicall_law :: "'w base \<Rightarrow> string \<Rightarrow> bool" where
  "multicall_law b address \<longleftrightarrow>
     (\<forall>rq tag w. snd (super_call b rq tag w) = w)
     \<and> (\<forall>rq tag. super_call b rq tag = super_call b rq (or_latest tag))
     \<and> (\<forall>cs tag w.
          let answers = map (\<lambda>c. fst (super_call b (plain_request c) tag w)) cs;
              answer = fst (super_call b (aggregate_request b address cs) tag w)
          in if \<exists>a \<in> set answers. isl a then isl answer
             else \<exists>out. answer = Inr out \<and> decode_returnData b out = Inr (map projr answers))"

text \<open>The answer to the call of a promise if it were made now, by itself.\<close>

definition own_answer :: "'w base \<Rightarrow> 'w batched \<Rightarrow> nat \<Rightarrow> string res" where
  "own_answer b s i =
     fst (super_call b (plain_request (pr_call (promises s ! i))) (pr_tag (promises s ! i)) (world s))"

lemma batch_answers:
  assumes law: "multicall_law b address" and ok: "batched_ok s" and bt: "bt \<in> set (inflight s)"
  shows "map (own_answer b s) (b_callbacks bt) =
    map (\<lambda>c. fst (super_call b (plain_request c) (b_tag bt) (world s))) (b_calls bt)"
proof -
  have tag: "super_call b rq t = super_call b rq t'" if "or_latest t = or_latest t'" for rq t t'
    using law that unfolding multicall_law_def by metis
  have "fits (promises s) bt"
    using ok bt by (auto simp: batched_ok_def)
  then have "list_all2 (\<lambda>i c. own_answer b s i = fst (super_call b (plain_request c) (b_tag bt) (world s)))
      (b_callbacks bt) (b_calls bt)"
    unfolding fits_def
  proof (rule list_all2_mono)
    fix i c
    assume "i < length (promises s) \<and> pr_call (promises s ! i) = c \<and>
      or_latest (pr_tag (promises s ! i)) = or_latest (b_tag bt)"
    then show "own_answer b s i = fst (super_call b (plain_request c) (b_tag bt) (world s))"
      unfolding own_answer_def using tag by metis
  qed
  then show ?thesis
    by (simp add: list_all2_conv_all_nth list_eq_iff_nth_eq)
qed

lemma batch_results_answers:
  assumes law: "multicall_law b address" and mc: "multicall s = Some address" and "b_calls bt \<noteq> []"
    and as: "as = map (\<lambda>c. fst (super_call b (plain_request c) (b_tag bt) (world s))) (b_calls bt)"
  shows "if \<exists>a \<in> set as. isl a then isl (fst (batch_results b now bt s))
    else fst (batch_results b now bt s) = Inr (map projr as)"
proof (cases "1 < length (b_calls bt)")
  case True
  let ?rq = "aggregate_request b address (b_calls bt)"
  have world: "world (check_ratio now s) = world s"
    by (simp add: check_ratio_def split: option.split)
  have "fst (batch_results b now bt s) =
      bind_res (fst (super_call b ?rq (b_tag bt) (world s))) (decode_returnData b)"
    using True mc aggregate_is_direct [of b address "b_calls bt"] world
    by (simp add: batch_results_def aggregate_def batched_call_def bind_io_def on_base_def bind_res_def
        split: prod.split sum.split)
  moreover have "if \<exists>a \<in> set as. isl a then isl (fst (super_call b ?rq (b_tag bt) (world s)))
      else \<exists>out. fst (super_call b ?rq (b_tag bt) (world s)) = Inr out
        \<and> decode_returnData b out = Inr (map projr as)"
    using law unfolding multicall_law_def Let_def as by blast
  ultimately show ?thesis
    by (auto simp: bind_res_def isl_def split: if_splits)
next
  case False
  with assms(3) obtain c where c: "b_calls bt = [c]"
    by (cases "b_calls bt" rule: list.exhaust; cases "tl (b_calls bt)") auto
  show ?thesis
    by (cases "super_call b (plain_request c) (b_tag bt) (world s)"; cases "fst (super_call b (plain_request c) (b_tag bt) (world s))")
       (simp_all add: batch_results_def c as bind_io_def on_base_def)
qed

lemma settlements_nth:
  assumes "distinct (b_callbacks bt)" and "j < length (b_callbacks bt)"
  shows "map_of (settlements (Inr rs) bt) (b_callbacks bt ! j) =
      Some (Inr (if j < length rs then Str (rs ! j) else Undefined))"
    and "map_of (settlements (Inl err) bt) (b_callbacks bt ! j) = Some (Inl err)"
proof -
  have d: "distinct (map fst (settlements q bt))" for q
    using assms(1) by (simp add: settlements_fst)
  have "(b_callbacks bt ! j, Inr (if j < length rs then Str (rs ! j) else Undefined)) \<in> set (settlements (Inr rs) bt)"
    using assms(2) by (auto simp: settlements_def set_zip)
  then show "map_of (settlements (Inr rs) bt) (b_callbacks bt ! j) =
      Some (Inr (if j < length rs then Str (rs ! j) else Undefined))"
    by (rule map_of_is_SomeI [OF d])
  have "(b_callbacks bt ! j, Inl err) \<in> set (settlements (Inl err) bt)"
    using assms(2) by (simp add: settlements_def)
  then show "map_of (settlements (Inl err) bt) (b_callbacks bt ! j) = Some (Inl err)"
    by (rule map_of_is_SomeI [OF d])
qed


section \<open>A node as an example\<close>

text \<open>A node that answers every call with its data, and a Multicall contract that lists them.\<close>

fun encode_strings :: "string list \<Rightarrow> string" where
  "encode_strings [] = []"
| "encode_strings (s # ss) = replicate (length s) (CHR ''1'') @ CHR ''0'' # s @ encode_strings ss"

fun decode_strings :: "nat \<Rightarrow> string \<Rightarrow> string list" where
  "decode_strings (Suc n) (x # xs) =
     (let k = length (takeWhile (\<lambda>c. c = CHR ''1'') (x # xs)); ys = drop (Suc k) (x # xs)
      in take k ys # decode_strings n (drop k ys))"
| "decode_strings _ _ = []"

lemma decode_encode: "length ss \<le> n \<Longrightarrow> decode_strings n (encode_strings ss) = ss"
proof (induction ss arbitrary: n)
  case (Cons s ss)
  then obtain m where n: "n = Suc m" "length ss \<le> m"
    by (cases n) auto
  have "encode_strings (s # ss) \<noteq> []" by simp
  then obtain x xs where x: "encode_strings (s # ss) = x # xs"
    by (cases "encode_strings (s # ss)") auto
  have "takeWhile (\<lambda>c. c = CHR ''1'') (replicate m (CHR ''1'') @ CHR ''0'' # t) = replicate m (CHR ''1'')" for m t
    by (induction m) simp_all
  then have "takeWhile (\<lambda>c. c = CHR ''1'') (encode_strings (s # ss)) = replicate (length s) (CHR ''1'')"
    by simp
  then have "length (takeWhile (\<lambda>c. c = CHR ''1'') (x # xs)) = length s"
    unfolding x by simp
  moreover have "drop (Suc (length s)) (x # xs) = s @ encode_strings ss"
    unfolding x [symmetric] by simp
  ultimately show ?case
    using Cons.IH [OF n(2)] unfolding x n(1) by (simp add: Let_def del: takeWhile.simps drop_Suc_Cons drop_drop)
qed (cases n, simp_all)

lemma decode_encode_length [simp]: "decode_strings (length (encode_strings ss)) (encode_strings ss) = ss"
proof (rule decode_encode)
  show "length ss \<le> length (encode_strings ss)"
    by (induction ss) simp_all
qed

definition payload :: "val \<Rightarrow> string" where
  "payload v = (case v of Str d \<Rightarrow> d | _ \<Rightarrow> [])"

definition echo_node :: "unit base" where
  "echo_node =
     \<lparr>super_call = (\<lambda>rq tag w. (Inr (payload (rq_data rq)), w)), super_getBalance = (\<lambda>_ _ w. (Inr 0, w)),
      isAddress = (\<lambda>_. True), encode_calls = (\<lambda>cs. encode_strings (map (\<lambda>c. payload (callData c)) cs)),
      decode_returnData = (\<lambda>out. let d = drop (length aggregate_selector) out in Inr (decode_strings (length d) d)),
      encode_getEthBalance = (\<lambda>a. ''0x4d2301cc'' @ a)\<rparr>"

lemma echo_law: "multicall_law echo_node address"
  by (auto simp: multicall_law_def echo_node_def aggregate_request_def plain_request_def payload_def Let_def o_def)

definition echo_request :: "string \<Rightarrow> request" where
  "echo_request d = plain_request \<lparr>target = Some ''0xc'', callData = Str d\<rparr>"

text \<open>Two calls, and the timer fires.\<close>

definition echo_state :: "unit batched" where
  "echo_state =
     dispatch_timer 1 (snd (batched_call echo_node 0 (echo_request ''y'') (Str ''latest'')
       (snd (batched_call echo_node 0 (echo_request ''x'') Undefined (snd (set_chainId 1 (new_batched ())))))))"

lemma echo_reachable: "batched_reachable echo_node echo_state"
proof -
  let ?s0 = "snd (set_chainId 1 (new_batched ()))"
  let ?s1 = "snd (batched_call echo_node 0 (echo_request ''x'') Undefined ?s0)"
  let ?s2 = "snd (batched_call echo_node 0 (echo_request ''y'') (Str ''latest'') ?s1)"
  have "batched_reachable echo_node ?s0"
    by (rule batched_reachable.Step [OF batched_reachable.Start], rule batched_step.Chain_Id)
       (rule prod.collapse [symmetric])
  then have "batched_reachable echo_node ?s1"
    by (rule batched_reachable.Step, intro batched_step.Call) (rule prod.collapse [symmetric])
  then have "batched_reachable echo_node ?s2"
    by (rule batched_reachable.Step, intro batched_step.Call) (rule prod.collapse [symmetric])
  moreover have "1 \<in> set (timers ?s2)"
    by code_simp
  ultimately show ?thesis
    unfolding echo_state_def by (blast intro: batched_reachable.Step batched_step.Timer)
qed

lemma echo_values:
  "multicall echo_state = map_of multicallAddress 1"
  "map b_callbacks (inflight echo_state) = [[0, 1]]" "current echo_state = emptyBatch"
  "map pr_result (promises echo_state) = [None, None]"
  "map (own_answer echo_node echo_state) [0, 1] = [Inr ''x'', Inr ''y'']"
  by code_simp+

theorem batching_loses_nothing_witness:
  "distinct (concat (map b_callbacks (current echo_state # inflight echo_state)))
    \<and> {0, 1} = {i. i < length (promises echo_state) \<and> pr_result (promises echo_state ! i) = None}"
  using batching_loses_nothing [OF echo_reachable] by (auto simp: echo_values emptyBatch_def)


end
