(* ===== verification/Validation.thy ===== *)
theory Validation
  imports Store
begin

text \<open>
  The rules that the frontend checks before it offers a transaction:
  \<^verbatim>\<open>dev-frontend/src/components/Trove/validation/validateTroveChange.tsx\<close> and
  \<^verbatim>\<open>Stability/validation/validateStabilityDepositChange.tsx\<close>, with the descriptions they show as the text of
  the elements, without their markup and in UTF-8.
\<close>

datatype description = ErrorDescription string | ActionDescription string

definition COIN :: string where "COIN = ''LUSD''"

definition GT :: string where "GT = ''LQTY''"

definition percent_of :: "decimal \<Rightarrow> string res" where
  "percent_of r = bind_res (Percent_new decimal_percentable r) (\<lambda>p. Percent_toString decimal_percentable p 0)"

definition mcrPercent :: "string res" where "mcrPercent = percent_of MINIMUM_COLLATERAL_RATIO"

definition ccrPercent :: "string res" where "ccrPercent = percent_of CRITICAL_COLLATERAL_RATIO"

text \<open>\<open>prettify()\<close> has two decimals by default.\<close>

definition pretty :: "decimal \<Rightarrow> string res" where
  "pretty d = Decimal_prettify d 2"

definition coins :: "decimal \<Rightarrow> string res" where
  "coins d = bind_res (pretty d) (\<lambda>s. Inr (s @ '' '' @ COIN))"

definition ethers_of :: "decimal \<Rightarrow> string res" where
  "ethers_of d = bind_res (pretty d) (\<lambda>s. Inr (s @ '' ETH''))"

section \<open>Troves\<close>

definition sentence :: "string \<Rightarrow> string res \<Rightarrow> string \<Rightarrow> string res \<Rightarrow> description res" where
  "sentence before x between y =
     bind_res x (\<lambda>x. bind_res y (\<lambda>y. Inr (ActionDescription (before @ x @ between @ y @ ''.''))))"

definition TroveChangeDescription :: "trove_change \<Rightarrow> description res" where
  "TroveChangeDescription change =
     (let deposit = (case change of Creation p \<Rightarrow> Some (depositCollateral p)
            | Adjustment p z \<Rightarrow> (case collateral_of p of Some (DepositCollateral x) \<Rightarrow> Some x | _ \<Rightarrow> None)
            | _ \<Rightarrow> None);
          withdraw = (case change of Closure p \<Rightarrow> Some (withdrawCollateral p)
            | Adjustment p z \<Rightarrow> (case collateral_of p of Some (WithdrawCollateral x) \<Rightarrow> Some x | _ \<Rightarrow> None)
            | _ \<Rightarrow> None);
          borrow = (case change of Creation p \<Rightarrow> Some (borrowLUSD p)
            | Adjustment p z \<Rightarrow> (case debt_of p of Some (BorrowLUSD x) \<Rightarrow> Some x | _ \<Rightarrow> None)
            | _ \<Rightarrow> None);
          repay = (case change of Closure p \<Rightarrow> repayLUSD p
            | Adjustment p z \<Rightarrow> (case debt_of p of Some (RepayLUSD x) \<Rightarrow> Some x | _ \<Rightarrow> None)
            | _ \<Rightarrow> None)
      in case (deposit, withdraw, borrow, repay) of
           (Some d, _, Some b, _) \<Rightarrow> sentence ''You will deposit '' (ethers_of d) '' and receive '' (coins b)
         | (_, Some w, _, Some r) \<Rightarrow> sentence ''You will pay '' (coins r) '' and receive '' (ethers_of w)
         | (Some d, _, _, Some r) \<Rightarrow> sentence ''You will deposit '' (ethers_of d) '' and pay '' (coins r)
         | (_, Some w, Some b, _) \<Rightarrow> sentence ''You will receive '' (ethers_of w) '' and '' (coins b)
         | (Some d, _, _, _) \<Rightarrow> sentence ''You will deposit '' (ethers_of d) [] (Inr [])
         | (_, Some w, _, _) \<Rightarrow> sentence ''You will receive '' (ethers_of w) [] (Inr [])
         | (_, _, Some b, _) \<Rightarrow> sentence ''You will receive '' (coins b) [] (Inr [])
         | (_, _, _, Some r) \<Rightarrow> sentence ''You will pay '' (coins r) [] (Inr [])
         | _ \<Rightarrow> Inl (TypeError ''Cannot read properties of undefined (reading prettify)''))"

record selected_state =
  sel_price :: decimal
  sel_total :: trove
  sel_accountBalance :: decimal
  sel_lusdBalance :: decimal
  sel_numberOfTroves :: int

definition selectForTroveChangeValidation :: "base_state \<Rightarrow> selected_state" where
  "selectForTroveChangeValidation b =
     \<lparr>sel_price = unbox (price b), sel_total = unbox (total b), sel_accountBalance = unbox (accountBalance b),
      sel_lusdBalance = unbox (lusdBalance b), sel_numberOfTroves = numberOfTroves b\<rparr>"

record validation_context = selected_state +
  originalTrove :: trove
  resultingTrove :: trove
  recovery_mode :: bool
  wouldTriggerRecoveryMode :: bool

definition complain :: "string \<Rightarrow> string res \<Rightarrow> string \<Rightarrow> description option res" where
  "complain before x after = bind_res x (\<lambda>x. Inr (Some (ErrorDescription (before @ x @ after))))"

definition exceeds_balance :: "string \<Rightarrow> decimal \<Rightarrow> decimal \<Rightarrow> (decimal \<Rightarrow> string res) \<Rightarrow> description option res" where
  "exceeds_balance action amount balance shw =
     complain (''The amount you'' @ [CHR 0x27] @ ''re trying to '' @ action @ '' exceeds your balance by '')
       (bind_res (Decimal_sub amount (DecimalV balance)) shw) ''.''"

definition validateTroveCreation :: "creation_params \<Rightarrow> validation_context \<Rightarrow> description option res" where
  "validateTroveCreation p ctx =
     bind_res (Decimal_lt (borrowLUSD p) (DecimalV LUSD_MINIMUM_NET_DEBT)) (\<lambda>tooLittle.
     if tooLittle then
       complain ''You must borrow at least ''
         (bind_res (Decimal_toString LUSD_MINIMUM_NET_DEBT None) (\<lambda>s. Inr (s @ '' '' @ COIN))) ''.''
     else
     bind_res (if recovery_mode ctx then
         bind_res (isOpenableInRecoveryMode (resultingTrove ctx) (DecimalV (sel_price ctx))) (\<lambda>openable.
         if \<not> openable then
           complain (''You'' @ [CHR 0x27] @ ''re not allowed to open a Trove with less than '') ccrPercent
             ('' Collateral Ratio during recovery mode. Please increase your Trove'' @ [CHR 0x27] @ ''s Collateral Ratio.'')
         else Inr None)
       else
         bind_res (collateralRatioIsBelowMinimum (resultingTrove ctx) (DecimalV (sel_price ctx))) (\<lambda>below.
         if below then complain ''Collateral ratio must be at least '' mcrPercent ''.''
         else if wouldTriggerRecoveryMode ctx then
           complain (''You'' @ [CHR 0x27] @ ''re not allowed to open a Trove that would cause the Total Collateral Ratio to fall below '')
             ccrPercent (''. Please increase your Trove'' @ [CHR 0x27] @ ''s Collateral Ratio.'')
         else Inr None)) (\<lambda>err.
     case err of Some d \<Rightarrow> Inr (Some d) | None \<Rightarrow>
     bind_res (Decimal_gt (depositCollateral p) (DecimalV (sel_accountBalance ctx))) (\<lambda>tooMuch.
     if tooMuch then exceeds_balance ''deposit'' (depositCollateral p) (sel_accountBalance ctx) ethers_of
     else Inr None)))"

definition validateTroveAdjustment :: "adjustment_params \<Rightarrow> validation_context \<Rightarrow> description option res" where
  "validateTroveAdjustment p ctx =
     (let price = DecimalV (sel_price ctx) in
     bind_res (if recovery_mode ctx then
         (case (collateral_of p, debt_of p) of
            (Some (WithdrawCollateral _), _) \<Rightarrow>
              complain (''You'' @ [CHR 0x27] @ ''re not allowed to withdraw collateral during recovery mode.'') (Inr []) []
          | (_, Some (BorrowLUSD _)) \<Rightarrow>
              bind_res (collateralRatioIsBelowCritical (resultingTrove ctx) price) (\<lambda>below.
              if below then
                complain ''Your collateral ratio must be at least '' ccrPercent
                  '' to borrow during recovery mode. Please improve your collateral ratio.''
              else
                bind_res (collateralRatio (resultingTrove ctx) price) (\<lambda>new.
                bind_res (collateralRatio (originalTrove ctx) price) (\<lambda>old.
                bind_res (Decimal_lt new (DecimalV old)) (\<lambda>lower.
                if lower then
                  complain (''You'' @ [CHR 0x27] @ ''re not allowed to decrease your collateral ratio during recovery mode.'')
                    (Inr []) []
                else Inr None))))
          | _ \<Rightarrow> Inr None)
       else
         bind_res (collateralRatioIsBelowMinimum (resultingTrove ctx) price) (\<lambda>below.
         if below then complain ''Collateral ratio must be at least '' mcrPercent ''.''
         else if wouldTriggerRecoveryMode ctx then
           complain (''The adjustment you'' @ [CHR 0x27] @ ''re trying to make would cause the Total Collateral Ratio to fall below '')
             ccrPercent (''. Please increase your Trove'' @ [CHR 0x27] @ ''s Collateral Ratio.'')
         else Inr None)) (\<lambda>err.
     case err of Some d \<Rightarrow> Inr (Some d) | None \<Rightarrow>
     bind_res (case debt_of p of
         Some (RepayLUSD x) \<Rightarrow>
           bind_res (Decimal_lt (debt (resultingTrove ctx)) (DecimalV LUSD_MINIMUM_DEBT)) (\<lambda>tooLittle.
           if tooLittle then
             complain ''Total debt must be at least ''
               (bind_res (Decimal_toString LUSD_MINIMUM_DEBT None) (\<lambda>s. Inr (s @ '' '' @ COIN))) ''.''
           else
             bind_res (Decimal_gt x (DecimalV (sel_lusdBalance ctx))) (\<lambda>tooMuch.
             if tooMuch then exceeds_balance ''repay'' x (sel_lusdBalance ctx) coins else Inr None))
       | _ \<Rightarrow> Inr None) (\<lambda>err.
     case err of Some d \<Rightarrow> Inr (Some d) | None \<Rightarrow>
     case collateral_of p of
       Some (DepositCollateral x) \<Rightarrow>
         bind_res (Decimal_gt x (DecimalV (sel_accountBalance ctx))) (\<lambda>tooMuch.
         if tooMuch then exceeds_balance ''deposit'' x (sel_accountBalance ctx) ethers_of else Inr None)
     | _ \<Rightarrow> Inr None)))"

definition validateTroveClosure :: "closure_params \<Rightarrow> validation_context \<Rightarrow> description option res" where
  "validateTroveClosure p ctx =
     (if sel_numberOfTroves ctx = 1 then
        complain (''You'' @ [CHR 0x27] @ ''re not allowed to close your Trove when there are no other Troves in the system.'')
          (Inr []) []
      else if recovery_mode ctx then
        complain (''You'' @ [CHR 0x27] @ ''re not allowed to close your Trove during recovery mode.'') (Inr []) []
      else
        bind_res (case repayLUSD p of
            None \<Rightarrow> Inr None
          | Some x \<Rightarrow>
              bind_res (Decimal_gt x (DecimalV (sel_lusdBalance ctx))) (\<lambda>tooMuch.
              if tooMuch then
                complain ''You need '' (bind_res (Decimal_sub x (DecimalV (sel_lusdBalance ctx))) coins)
                  '' more to close your Trove.''
              else Inr None)) (\<lambda>err.
        case err of Some d \<Rightarrow> Inr (Some d) | None \<Rightarrow>
        if wouldTriggerRecoveryMode ctx then
          complain (''You'' @ [CHR 0x27] @ ''re not allowed to close a Trove if it would cause the Total Collateralization Ratio to fall below '')
            ccrPercent ''. Please wait until the Total Collateral Ratio increases.''
        else Inr None))"

definition validateTroveChange ::
  "trove \<Rightarrow> trove \<Rightarrow> decimal \<Rightarrow> selected_state \<Rightarrow> (trove_change option \<times> description option) res" where
  "validateTroveChange original adjusted rate sel =
     bind_res (whatChanged original adjusted (DecimalV rate)) (\<lambda>change.
     case change of
       None \<Rightarrow> Inr (None, None)
     | Some ch \<Rightarrow>
         let price = DecimalV (sel_price sel) in
         bind_res (Trove_apply original change (DecimalV rate)) (\<lambda>resulting.
         bind_res (collateralRatioIsBelowCritical (sel_total sel) price) (\<lambda>recovery.
         bind_res (Trove_subtract (sel_total sel) original) (\<lambda>rest.
         bind_res (Trove_add rest resulting) (\<lambda>newTotal.
         bind_res (collateralRatioIsBelowCritical newTotal price) (\<lambda>triggers.
         let ctx = selected_state.extend sel
               (validation_context.fields original resulting recovery triggers)
         in bind_res (case ch of
              InvalidCreation _ _ \<Rightarrow>
                complain ''Total debt must be at least ''
                  (bind_res (Decimal_toString LUSD_MINIMUM_DEBT None) (\<lambda>s. Inr (s @ '' '' @ COIN))) ''.''
            | Creation p \<Rightarrow> validateTroveCreation p ctx
            | Closure p \<Rightarrow> validateTroveClosure p ctx
            | Adjustment p _ \<Rightarrow> validateTroveAdjustment p ctx) (\<lambda>err.
         case err of
           Some d \<Rightarrow> Inr (None, Some d)
         | None \<Rightarrow> bind_res (TroveChangeDescription ch) (\<lambda>d. Inr (Some ch, Some d)))))))))"

section \<open>Stability deposits\<close>

record deposit_selection =
  ds_trove :: user_trove
  ds_lusdBalance :: decimal
  haveOwnFrontend :: bool
  ds_haveUndercollateralizedTroves :: bool

definition selectForStabilityDepositChangeValidation :: "base_state \<Rightarrow> derived_state \<Rightarrow> deposit_selection" where
  "selectForStabilityDepositChangeValidation b d =
     \<lparr>ds_trove = unbox (d_trove d), ds_lusdBalance = unbox (lusdBalance b),
      haveOwnFrontend = (case unbox (ownFrontend b) of Registered _ \<Rightarrow> True | Unregistered \<Rightarrow> False),
      ds_haveUndercollateralizedTroves = haveUndercollateralizedTroves d\<rparr>"

definition gain :: "decimal \<Rightarrow> int \<Rightarrow> string \<Rightarrow> string option res" where
  "gain d precision unit =
     (case Decimal_nonZero d of
        None \<Rightarrow> Inr None
      | Some x \<Rightarrow> bind_res (Decimal_prettify x precision) (\<lambda>s. Inr (Some (s @ '' '' @ unit))))"

definition StabilityActionDescription :: "stability_deposit \<Rightarrow> decimal deposit_change \<Rightarrow> description res" where
  "StabilityActionDescription original change =
     bind_res (gain (collateralGain original) 4 ''ETH'') (\<lambda>collateralGain.
     bind_res (gain (lqtyReward original) 2 GT) (\<lambda>lqtyReward.
     bind_res (case change of
         DepositLUSD x \<Rightarrow> bind_res (coins x) (\<lambda>s. Inr (''You are depositing '' @ s @ '' in the Stability Pool''))
       | WithdrawLUSD x _ \<Rightarrow> bind_res (coins x) (\<lambda>s. Inr (''You are withdrawing '' @ s @ '' to your wallet''))) (\<lambda>action.
     Inr (ActionDescription (action
       @ (case (collateralGain, lqtyReward) of
            (None, None) \<Rightarrow> []
          | (Some c, Some l) \<Rightarrow> '' and claiming at least '' @ c @ '' and '' @ l
          | (Some c, None) \<Rightarrow> '' and claiming at least '' @ c
          | (None, Some l) \<Rightarrow> '' and claiming at least '' @ l)
       @ ''.'')))))"

definition validateStabilityDepositChange ::
  "stability_deposit \<Rightarrow> decimal \<Rightarrow> deposit_selection \<Rightarrow> (decimal deposit_change option \<times> description option) res" where
  "validateStabilityDepositChange original edited sel =
     bind_res (StabilityDeposit_whatChanged original (DecimalV edited)) (\<lambda>change.
     if haveOwnFrontend sel then
       Inr (None, Some (ErrorDescription
         (''You can'' @ [CHR 0xE2, CHR 0x80, CHR 0x99] @ ''t deposit using a wallet address that is registered as a frontend.'')))
     else case change of
       None \<Rightarrow> Inr (None, None)
     | Some ch \<Rightarrow>
         bind_res (case ch of
             DepositLUSD x \<Rightarrow>
               bind_res (Decimal_gt x (DecimalV (ds_lusdBalance sel))) (\<lambda>tooMuch.
               if tooMuch then exceeds_balance ''deposit'' x (ds_lusdBalance sel) coins else Inr None)
           | WithdrawLUSD _ _ \<Rightarrow>
               if ds_haveUndercollateralizedTroves sel then
                 complain (''You'' @ [CHR 0x27] @ ''re not allowed to withdraw LUSD from your Stability Deposit when there are ''
                   @ ''undercollateralized Troves. Please liquidate those Troves or try again later.'') (Inr []) []
               else Inr None) (\<lambda>err.
         case err of
           Some d \<Rightarrow> Inr (None, Some d)
         | None \<Rightarrow> bind_res (StabilityActionDescription original ch) (\<lambda>d. Inr (Some ch, Some d))))"

end
