(* ===== verification/Validation_Props.thy ===== *)
theory Validation_Props
  imports Validation Store_Update
begin

text \<open>
  What the validation of the frontend decides: it accepts exactly the changes that keep the rules of the
  protocol, stated here as inequalities between integers, and otherwise explains why it does not.
\<close>

section \<open>Descriptions exist\<close>

lemma pretty_total: "0 \<le> p \<Longrightarrow> \<exists>s. Decimal_prettify d p = Inr s"
proof -
  assume p: "0 \<le> p"
  have "\<exists>s. Decimal_toString d (Some p) = Inr s"
  proof (cases "d = INFINITY")
    case True
    then show ?thesis by (simp add: Decimal_toString_def Decimal_infinite_def)
  next
    case False
    then show ?thesis using toString_shape [of d p] p by blast
  qed
  then show ?thesis by (auto simp: Decimal_prettify_def Let_def)
qed

lemma amounts_total: "\<exists>s. coins d = Inr s" "\<exists>s. ethers_of d = Inr s"
  using pretty_total [of 2 d] by (auto simp: coins_def ethers_of_def pretty_def)

lemma toString_total: "0 \<le> p \<Longrightarrow> \<exists>s. Decimal_toString d (Some p) = Inr s"
  using pretty_total [of p d] by (cases "Decimal_toString d (Some p)") (auto simp: Decimal_prettify_def)

lemma percents_total: "\<exists>s. mcrPercent = Inr s" "\<exists>s. ccrPercent = Inr s"
proof -
  have "\<exists>s. percent_of r = Inr s" for r
  proof -
    have "\<exists>p. Percent_new decimal_percentable r = Inr p"
    proof -
      have "Decimal_from (NumberV ''100'') = Inr (Decimal (parse_nat ''100'' * 10 ^ 18))"
        by (rule literal_integer) (simp_all add: is_digit_def)
      then have "Decimal_mul r (NumberV ''100'') = Decimal_mul r (DecimalV (Decimal (parse_nat ''100'' * 10 ^ 18)))"
        by (simp add: Decimal_mul_def del: Decimal_from.simps(3))
      then show ?thesis
        by (simp add: Percent_new_def decimal_percentable_def Decimal_mul_simp split: option.split)
    qed
    then obtain p where p: "Percent_new decimal_percentable r = Inr p" by blast
    obtain s where s: "Decimal_toString p (Some 0) = Inr s"
      using toString_total [of 0 p] by auto
    then show ?thesis
      using p by (auto simp: percent_of_def Percent_toString_def decimal_percentable_def)
  qed
  then show "\<exists>s. mcrPercent = Inr s" "\<exists>s. ccrPercent = Inr s"
    by (simp_all add: mcrPercent_def ccrPercent_def)
qed

text \<open>A check has an outcome, and finds an error to explain exactly when not \<open>P\<close>.\<close>

definition decides :: "description option res \<Rightarrow> bool \<Rightarrow> bool" where
  "decides v P \<longleftrightarrow> (\<exists>r. v = Inr r \<and> (r = None \<longleftrightarrow> P) \<and> (\<forall>d. r = Some d \<longrightarrow> (\<exists>s. d = ErrorDescription s)))"

lemma texts:
  obtains m c f g h where "mcrPercent = Inr m" "ccrPercent = Inr c" "\<And>d. coins d = Inr (f d)"
    "\<And>d. ethers_of d = Inr (g d)" "\<And>d. Decimal_toString d None = Inr (h d)"
  using percents_total amounts_total toString_auto by metis

section \<open>The rules\<close>

text \<open>The collateral ratio is at least \<open>tenths / 10\<close>.\<close>

definition healthy :: "nat \<Rightarrow> decimal \<Rightarrow> 'a trove_scheme \<Rightarrow> bool" where
  "healthy tenths prc t \<longleftrightarrow>
     tenths * 10 ^ 18 * bigNumber (debt t) \<le> 10 * bigNumber (collateral t) * bigNumber prc"

lemma ratio_healthy:
  "collateralRatioIsBelowMinimum t (DecimalV prc) = Inr (\<not> healthy 11 prc t)"
  "collateralRatioIsBelowCritical t (DecimalV prc) = Inr (\<not> healthy 15 prc t)"
  "isOpenableInRecoveryMode t (DecimalV prc) = Inr (healthy 15 prc t)"
  by (auto simp: ratio_comparisons healthy_def constant_defs not_less mult.commute)

text \<open>The total after the change, and the rules for each kind of change.\<close>

definition total_after :: "selected_state \<Rightarrow> trove \<Rightarrow> trove \<Rightarrow> trove" where
  "total_after sel original result =
     \<lparr>collateral = collateral (sel_total sel) - collateral original + collateral result,
      debt = debt (sel_total sel) - debt original + debt result\<rparr>"

definition ratio_not_lowered :: "decimal \<Rightarrow> trove \<Rightarrow> trove \<Rightarrow> bool" where
  "ratio_not_lowered prc original result \<longleftrightarrow>
     (\<exists>x y. collateralRatio original (DecimalV prc) = Inr x
        \<and> collateralRatio result (DecimalV prc) = Inr y \<and> x \<le> y)"

fun permitted :: "selected_state \<Rightarrow> trove \<Rightarrow> trove \<Rightarrow> trove_change \<Rightarrow> bool" where
  "permitted sel original result (InvalidCreation _ _) = False"
| "permitted sel original result (Creation p) \<longleftrightarrow>
     LUSD_MINIMUM_NET_DEBT \<le> borrowLUSD p \<and> depositCollateral p \<le> sel_accountBalance sel
     \<and> (if healthy 15 (sel_price sel) (sel_total sel)
        then healthy 11 (sel_price sel) result \<and> healthy 15 (sel_price sel) (total_after sel original result)
        else healthy 15 (sel_price sel) result)"
| "permitted sel original result (Closure p) \<longleftrightarrow>
     sel_numberOfTroves sel \<noteq> 1 \<and> healthy 15 (sel_price sel) (sel_total sel)
     \<and> (\<forall>x. repayLUSD p = Some x \<longrightarrow> x \<le> sel_lusdBalance sel)
     \<and> healthy 15 (sel_price sel) (total_after sel original result)"
| "permitted sel original result (Adjustment p z) \<longleftrightarrow>
     (if healthy 15 (sel_price sel) (sel_total sel)
      then healthy 11 (sel_price sel) result \<and> healthy 15 (sel_price sel) (total_after sel original result)
      else (\<forall>x. collateral_of p \<noteq> Some (WithdrawCollateral x))
        \<and> (\<forall>x. debt_of p = Some (BorrowLUSD x) \<longrightarrow>
             healthy 15 (sel_price sel) result \<and> ratio_not_lowered (sel_price sel) original result))
     \<and> (\<forall>x. debt_of p = Some (RepayLUSD x) \<longrightarrow> LUSD_MINIMUM_DEBT \<le> debt result \<and> x \<le> sel_lusdBalance sel)
     \<and> (\<forall>x. collateral_of p = Some (DepositCollateral x) \<longrightarrow> x \<le> sel_accountBalance sel)"

text \<open>The context of the checks, for a given result.\<close>

definition context_of :: "selected_state \<Rightarrow> trove \<Rightarrow> trove \<Rightarrow> validation_context" where
  "context_of sel original result =
     selected_state.extend sel (validation_context.fields original result
       (\<not> healthy 15 (sel_price sel) (sel_total sel))
       (\<not> healthy 15 (sel_price sel) (total_after sel original result)))"

lemma context_simps [simp]:
  "sel_price (context_of sel a r) = sel_price sel" "sel_total (context_of sel a r) = sel_total sel"
  "sel_accountBalance (context_of sel a r) = sel_accountBalance sel"
  "sel_lusdBalance (context_of sel a r) = sel_lusdBalance sel"
  "sel_numberOfTroves (context_of sel a r) = sel_numberOfTroves sel"
  "originalTrove (context_of sel a r) = a" "resultingTrove (context_of sel a r) = r"
  "recovery_mode (context_of sel a r) \<longleftrightarrow> \<not> healthy 15 (sel_price sel) (sel_total sel)"
  "wouldTriggerRecoveryMode (context_of sel a r) \<longleftrightarrow> \<not> healthy 15 (sel_price sel) (total_after sel a r)"
  by (simp_all add: context_of_def selected_state.defs validation_context.defs)

lemma decides_None [simp]: "decides (Inr None) P \<longleftrightarrow> P"
  by (auto simp: decides_def)

lemma decides_complain [simp]: "x = Inr s \<Longrightarrow> decides (complain before x after) P \<longleftrightarrow> \<not> P"
  by (auto simp: decides_def complain_def)

lemma decides_exceeds [simp]:
  "balance < amount \<Longrightarrow> shw (amount - balance) = Inr s \<Longrightarrow>
   decides (exceeds_balance action amount balance shw) P \<longleftrightarrow> \<not> P"
  by (simp add: exceeds_balance_def dec_simps less_imp_le)

lemma decides_then:
  assumes "decides v P" and "P \<Longrightarrow> decides w Q"
  shows "decides (bind_res v (\<lambda>err. case err of Some d \<Rightarrow> Inr (Some d) | None \<Rightarrow> w)) (P \<and> Q)"
  using assms by (auto simp: decides_def)

lemma decides_iff: "decides v P \<Longrightarrow> P \<longleftrightarrow> Q \<Longrightarrow> decides v Q"
  by simp

lemmas checks = ratio_healthy dec_simps not_less not_le less_imp_le

lemma creation_decided: "decides (validateTroveCreation p (context_of sel a r)) (permitted sel a r (Creation p))"
proof (rule texts)
  fix m c f g h
  assume [simp]: "mcrPercent = Inr m" "ccrPercent = Inr c" "\<And>d. coins d = Inr (f d)"
    "\<And>d. ethers_of d = Inr (g d)" "\<And>d. Decimal_toString d None = Inr (h d)"
  show ?thesis
    unfolding validateTroveCreation_def
    by (auto intro!: decides_iff [OF decides_then] simp: checks split: option.split)
qed

lemma closure_decided: "decides (validateTroveClosure p (context_of sel a r)) (permitted sel a r (Closure p))"
proof (rule texts)
  fix m c f g h
  assume [simp]: "mcrPercent = Inr m" "ccrPercent = Inr c" "\<And>d. coins d = Inr (f d)"
  show ?thesis
    unfolding validateTroveClosure_def
    by (auto intro!: decides_iff [OF decides_then] simp: checks split: option.split)
qed

lemma ratio_total: "\<exists>x. collateralRatio t (DecimalV prc) = Inr x"
  by (simp add: collateralRatio_def dec_simps)

lemma adjustment_decided:
  "decides (validateTroveAdjustment p (context_of sel a r)) (permitted sel a r (Adjustment p z))"
proof (rule texts)
  fix m c f g h
  assume [simp]: "mcrPercent = Inr m" "ccrPercent = Inr c" "\<And>d. coins d = Inr (f d)"
    "\<And>d. ethers_of d = Inr (g d)" "\<And>d. Decimal_toString d None = Inr (h d)"
  obtain x y where [simp]: "collateralRatio a (DecimalV (sel_price sel)) = Inr x"
      "collateralRatio r (DecimalV (sel_price sel)) = Inr y"
    using ratio_total by metis
  let ?modes = "if healthy 15 (sel_price sel) (sel_total sel)
      then healthy 11 (sel_price sel) r \<and> healthy 15 (sel_price sel) (total_after sel a r)
      else (\<forall>x. collateral_of p \<noteq> Some (WithdrawCollateral x))
        \<and> (\<forall>x. debt_of p = Some (BorrowLUSD x) \<longrightarrow>
             healthy 15 (sel_price sel) r \<and> ratio_not_lowered (sel_price sel) a r)"
  let ?repayment = "\<forall>x. debt_of p = Some (RepayLUSD x) \<longrightarrow> LUSD_MINIMUM_DEBT \<le> debt r \<and> x \<le> sel_lusdBalance sel"
  let ?deposit = "\<forall>x. collateral_of p = Some (DepositCollateral x) \<longrightarrow> x \<le> sel_accountBalance sel"
  have "decides (validateTroveAdjustment p (context_of sel a r)) (?modes \<and> ?repayment \<and> ?deposit)"
    unfolding validateTroveAdjustment_def Let_def context_simps
  proof (intro decides_then, goal_cases)
    case 1
    show ?case
      by (cases "collateral_of p"; cases "debt_of p")
        (simp_all add: checks ratio_not_lowered_def split: collateral_change.split debt_change.split)
  next
    case 2
    show ?case
      by (cases "debt_of p") (simp_all add: checks split: debt_change.split)
  next
    case 3
    show ?case
      by (cases "collateral_of p") (simp_all add: checks split: collateral_change.split)
  qed
  then show ?thesis by simp
qed

section \<open>The decision on a Trove\<close>

definition check_change :: "trove_change \<Rightarrow> validation_context \<Rightarrow> description option res" where
  "check_change ch ctx =
     (case ch of
        InvalidCreation _ _ \<Rightarrow>
          complain ''Total debt must be at least ''
            (bind_res (Decimal_toString LUSD_MINIMUM_DEBT None) (\<lambda>s. Inr (s @ '' '' @ COIN))) ''.''
      | Creation p \<Rightarrow> validateTroveCreation p ctx
      | Closure p \<Rightarrow> validateTroveClosure p ctx
      | Adjustment p _ \<Rightarrow> validateTroveAdjustment p ctx)"

lemma change_decided: "decides (check_change ch (context_of sel a r)) (permitted sel a r ch)"
proof (cases ch)
  case InvalidCreation
  obtain s where "Decimal_toString LUSD_MINIMUM_DEBT None = Inr s"
    using toString_auto by blast
  with InvalidCreation show ?thesis
    by (simp add: check_change_def)
qed (simp_all add: check_change_def creation_decided closure_decided adjustment_decided del: permitted.simps)

lemma validateTroveChange_checks:
  assumes "whatChanged a b (DecimalV rate) = Inr (Some ch)" and "Trove_apply a (Some ch) (DecimalV rate) = Inr r"
  shows "validateTroveChange a b rate sel =
    bind_res (check_change ch (context_of sel a r)) (\<lambda>err.
      case err of Some d \<Rightarrow> Inr (None, Some d)
      | None \<Rightarrow> bind_res (TroveChangeDescription ch) (\<lambda>d. Inr (Some ch, Some d)))"
  using assms
  by (simp add: validateTroveChange_def Let_def ratio_healthy Trove_arith_simps context_of_def total_after_def
      check_change_def)

lemma description_total:
  assumes "permitted sel a r ch"
  shows "\<exists>s. TroveChangeDescription ch = Inr (ActionDescription s)"
proof (rule texts)
  fix m c f g h
  assume texts [simp]: "\<And>d. coins d = Inr (f d)" "\<And>d. ethers_of d = Inr (g d)"
  show ?thesis
  proof (cases ch)
    case (Adjustment p z)
    then show ?thesis
      by (cases p) (auto simp: TroveChangeDescription_def sentence_def split: collateral_change.split debt_change.split)
  qed (use assms in \<open>auto simp: TroveChangeDescription_def sentence_def split: option.split\<close>)
qed


definition example_selection :: selected_state where
  "example_selection =
     \<lparr>sel_price = Decimal (2000 * 10 ^ 18), sel_total = emptyTrove, sel_accountBalance = Decimal (3 * 10 ^ 18),
      sel_lusdBalance = ZERO, sel_numberOfTroves = 1\<rparr>"


section \<open>The decision on a deposit\<close>

lemma gain_total: "0 \<le> p \<Longrightarrow> \<exists>s. gain d p unit = Inr s"
  using pretty_total [of p d] by (auto simp: gain_def dec_simps)

lemma deposit_description_total: "\<exists>s. StabilityActionDescription original ch = Inr (ActionDescription s)"
proof -
  obtain c where c: "gain (collateralGain original) 4 ''ETH'' = Inr c" using gain_total by fastforce
  obtain l where l: "gain (lqtyReward original) 2 GT = Inr l" using gain_total by fastforce
  obtain s where "coins (case ch of DepositLUSD x \<Rightarrow> x | WithdrawLUSD x _ \<Rightarrow> x) = Inr s"
    using amounts_total by blast
  then show ?thesis
    by (cases ch) (simp_all add: StabilityActionDescription_def c l)
qed

fun deposit_permitted :: "deposit_selection \<Rightarrow> decimal deposit_change \<Rightarrow> bool" where
  "deposit_permitted sel (DepositLUSD x) \<longleftrightarrow> \<not> haveOwnFrontend sel \<and> x \<le> ds_lusdBalance sel"
| "deposit_permitted sel (WithdrawLUSD x _) \<longleftrightarrow>
     \<not> haveOwnFrontend sel \<and> \<not> ds_haveUndercollateralizedTroves sel"

text \<open>The validation of a stability deposit always decides. It offers the change that \<open>whatChanged\<close>
  finds exactly when the wallet is not a registered frontend and, for a deposit, the amount is within the
  balance or, for a withdrawal, no Trove is undercollateralized; otherwise the result holds an explanation,
  and nothing at all only when nothing changed in a wallet that is no frontend.\<close>

theorem deposit_validation_decides:
  "\<exists>change v d. StabilityDeposit_whatChanged original (DecimalV edited) = Inr change
    \<and> validateStabilityDepositChange original edited sel = Inr (v, d)
    \<and> v = (if \<exists>ch. change = Some ch \<and> deposit_permitted sel ch then change else None)
    \<and> (d = None \<longleftrightarrow> change = None \<and> \<not> haveOwnFrontend sel)
    \<and> (v \<noteq> None \<longleftrightarrow> (\<exists>s. d = Some (ActionDescription s)))"
proof -
  have "\<exists>change. StabilityDeposit_whatChanged original (DecimalV edited) = Inr change"
    by (simp add: StabilityDeposit_whatChanged_def dec_simps less_imp_le)
  then obtain change where change: "StabilityDeposit_whatChanged original (DecimalV edited) = Inr change"
    by blast
  obtain f where [simp]: "\<And>d. coins d = Inr (f d)"
    using amounts_total by metis
  show ?thesis
  proof (cases change)
    case None
    with change show ?thesis by (simp add: validateStabilityDepositChange_def)
  next
    case (Some ch)
    then show ?thesis
      using change deposit_description_total [of original ch]
      by (cases ch) (auto simp: validateStabilityDepositChange_def dec_simps complain_def exceeds_balance_def)
  qed
qed

end
