(* ===== verification/Subgraph.thy ===== *)
theory Subgraph
  imports Effects
begin

text \<open>
  \<^verbatim>\<open>packages/subgraph\<close>: the mappings that index the events of the contracts into entities. The store of
  entities is a table per entity type; loading gives a copy of an entity and saving writes it back. What the
  mappings use of \<^verbatim>\<open>graph-ts\<close> is a record of parameters: a \<open>BigDecimal\<close> is a rational number whose
  operations round their results, truncation, the division of big integers, and the calls of a token contract.
  A field that may be unset is an option; reading one that is needed, like every other trap, is an exception,
  after which the indexer stops. An address is its hexadecimal string. Counters, \<open>i32\<close> in the source, are
  integers.
\<close>

section \<open>The library\<close>

record graph_ts =
  bd_round :: "rat \<Rightarrow> rat"
  bd_truncate :: "nat \<Rightarrow> rat \<Rightarrow> rat"
  bi_div :: "int \<Rightarrow> int \<Rightarrow> int"
  erc20_name :: "string \<Rightarrow> string res"
  erc20_symbol :: "string \<Rightarrow> string res"

definition bd_plus :: "graph_ts \<Rightarrow> rat \<Rightarrow> rat \<Rightarrow> rat" where
  "bd_plus lib x y = bd_round lib (x + y)"

definition bd_minus :: "graph_ts \<Rightarrow> rat \<Rightarrow> rat \<Rightarrow> rat" where
  "bd_minus lib x y = bd_round lib (x - y)"

definition bd_times :: "graph_ts \<Rightarrow> rat \<Rightarrow> rat \<Rightarrow> rat" where
  "bd_times lib x y = bd_round lib (x * y)"

definition bd_div :: "graph_ts \<Rightarrow> rat \<Rightarrow> rat \<Rightarrow> rat res" where
  "bd_div lib x y = (if y = 0 then Inl (Error ''attempted to divide by zero'') else Inr (bd_round lib (x / y)))"

definition big_div :: "graph_ts \<Rightarrow> int \<Rightarrow> int \<Rightarrow> int res" where
  "big_div lib x y = (if y = 0 then Inl (Error ''attempted to divide by zero'') else Inr (bi_div lib x y))"

section \<open>Numbers and operations\<close>

definition DECIMAL_PRECISION :: nat where "DECIMAL_PRECISION = 18"

definition DECIMAL_SCALING_FACTOR :: rat where "DECIMAL_SCALING_FACTOR = 1000000000000000000"

definition BIGINT_SCALING_FACTOR :: int where "BIGINT_SCALING_FACTOR = 10 ^ 18"

definition DECIMAL_COLLATERAL_GAS_COMPENSATION_DIVISOR :: rat where
  "DECIMAL_COLLATERAL_GAS_COMPENSATION_DIVISOR = 200"

definition decimalize :: "graph_ts \<Rightarrow> int \<Rightarrow> rat" where
  "decimalize lib n = bd_round lib (of_int n / DECIMAL_SCALING_FACTOR)"

definition calculateCollateralRatio :: "graph_ts \<Rightarrow> rat \<Rightarrow> rat \<Rightarrow> rat \<Rightarrow> rat option res" where
  "calculateCollateralRatio lib collateral debt price =
     (if debt = 0 then Inr None
      else bind_res (bd_div lib (bd_times lib collateral price) debt) (\<lambda>r.
           Inr (Some (bd_truncate lib DECIMAL_PRECISION r))))"

definition ZERO_ADDRESS :: string where
  "ZERO_ADDRESS = ''0x'' @ replicate 40 (CHR ''0'')"

text \<open>The operations of the two contracts that report Troves, by their number in the event.\<close>

definition getTroveOperationFromBorrowerOperation :: "int \<Rightarrow> string" where
  "getTroveOperationFromBorrowerOperation op =
     (if op = 0 then ''openTrove'' else if op = 1 then ''closeTrove'' else if op = 2 then ''adjustTrove''
      else ''unreached'')"

definition isBorrowerOperation :: "string \<Rightarrow> bool" where
  "isBorrowerOperation op \<longleftrightarrow> op = ''openTrove'' \<or> op = ''closeTrove'' \<or> op = ''adjustTrove''"

definition getTroveOperationFromTroveManagerOperation :: "int \<Rightarrow> string" where
  "getTroveOperationFromTroveManagerOperation op =
     (if op = 0 then ''accrueRewards'' else if op = 1 then ''liquidateInNormalMode''
      else if op = 2 then ''liquidateInRecoveryMode'' else if op = 3 then ''redeemCollateral''
      else ''unreached'')"

definition isLiquidation :: "string \<Rightarrow> bool" where
  "isLiquidation op \<longleftrightarrow> op = ''liquidateInNormalMode'' \<or> op = ''liquidateInRecoveryMode''"

definition isRecoveryModeLiquidation :: "string \<Rightarrow> bool" where
  "isRecoveryModeLiquidation op \<longleftrightarrow> op = ''liquidateInRecoveryMode''"

definition isRedemption :: "string \<Rightarrow> bool" where
  "isRedemption op \<longleftrightarrow> op = ''redeemCollateral''"

section \<open>Entities\<close>

record global =
  systemStateCount :: int
  transactionCount :: int
  changeCount :: int
  liquidationCount :: int
  redemptionCount :: int
  numberOfOpenTroves :: int
  numberOfLiquidatedTroves :: int
  numberOfRedeemedTroves :: int
  numberOfTrovesClosedByOwner :: int
  totalNumberOfTroves :: int
  totalNumberOfLQTYStakes :: int
  numberOfActiveLQTYStakes :: int
  totalBorrowingFeesPaid :: rat
  totalRedemptionFeesPaid :: rat
  rawTotalRedistributedCollateral :: int
  rawTotalRedistributedDebt :: int
  currentSystemState :: "string option"
  currentLiquidation :: "string option"
  currentRedemption :: "string option"
  tmpDepositUpdate :: "int option"

record system_state =
  ss_id :: string
  ss_sequenceNumber :: int
  ss_price :: "rat option"
  totalCollateral :: rat
  totalDebt :: rat
  totalCollateralRatio :: "rat option"
  tokensInStabilityPool :: rat
  collSurplusPoolBalance :: rat
  totalLQTYTokensStaked :: rat

record user =
  u_id :: string
  u_trove :: "string option"
  u_stabilityDeposit :: "string option"
  u_stake :: "string option"
  u_frontend :: "string option"
  u_collSurplus :: rat

record trove =
  tr_id :: string
  tr_owner :: string
  tr_status :: string
  tr_collateral :: rat
  tr_debt :: rat
  rawCollateral :: "int option"
  rawDebt :: "int option"
  rawStake :: "int option"
  rawSnapshotOfTotalRedistributedCollateral :: "int option"
  rawSnapshotOfTotalRedistributedDebt :: "int option"
  collateralRatioSortKey :: "int option"

record stability_deposit =
  sd_id :: string
  sd_owner :: string
  depositedAmount :: rat
  sd_frontend :: "string option"

record lqty_stake =
  ls_id :: string
  ls_owner :: string
  ls_amount :: rat

record 'c change =
  ch_id :: string
  ch_sequenceNumber :: int
  ch_transaction :: "string option"
  systemStateBefore :: "string option"
  systemStateAfter :: "string option"
  ch_details :: 'c

record trove_change_details =
  tc_trove :: string
  troveOperation :: string
  collateralBefore :: rat
  collateralChange :: rat
  collateralAfter :: rat
  debtBefore :: rat
  debtChange :: rat
  debtAfter :: rat
  borrowingFee :: "rat option"
  collateralRatioBefore :: "rat option"
  collateralRatioAfter :: "rat option"
  tc_liquidation :: "string option"
  tc_redemption :: "string option"

record stability_deposit_change_details =
  sdc_stabilityDeposit :: string
  stabilityDepositOperation :: string
  depositedAmountBefore :: rat
  depositedAmountChange :: rat
  depositedAmountAfter :: rat
  sdc_collateralGain :: "rat option"

record coll_surplus_change_details =
  csc_user :: string
  collSurplusBefore :: rat
  collSurplusChange :: rat
  collSurplusAfter :: rat

record lqty_stake_change_details =
  lsc_stake :: string
  stakeOperation :: string
  stakedAmountBefore :: rat
  stakedAmountChange :: rat
  stakedAmountAfter :: rat
  issuanceGain :: rat
  redemptionGain :: rat

record transaction =
  tx_id :: string
  tx_sequenceNumber :: int
  tx_blockNumber :: int
  tx_timestamp :: int

record liquidation =
  lq_id :: string
  lq_sequenceNumber :: int
  lq_transaction :: string
  liquidator :: string
  liquidatedDebt :: rat
  liquidatedCollateral :: rat
  collGasCompensation :: rat
  tokenGasCompensation :: rat

record redemption =
  rd_id :: string
  rd_sequenceNumber :: int
  rd_transaction :: string
  redeemer :: string
  tokensAttemptedToRedeem :: rat
  tokensActuallyRedeemed :: rat
  collateralRedeemed :: rat
  rd_partial :: bool
  rd_fee :: rat

record token =
  tk_id :: string
  tk_name :: string
  tk_symbol :: string
  totalSupply :: int

record token_balance =
  tb_id :: string
  tb_token :: string
  tb_owner :: string
  tb_balance :: int

record token_allowance =
  ta_id :: string
  ta_token :: string
  ta_owner :: string
  ta_spender :: string
  ta_value :: int

record frontend =
  fe_id :: string
  fe_owner :: string
  kickbackRate :: rat

text \<open>The store, with the one \<open>Global\<close>, whose id is \<open>only\<close>.\<close>

record graph =
  Global :: "global option"
  SystemState :: "string \<rightharpoonup> system_state"
  Transaction :: "string \<rightharpoonup> transaction"
  User :: "string \<rightharpoonup> user"
  Trove :: "string \<rightharpoonup> trove"
  StabilityDeposit :: "string \<rightharpoonup> stability_deposit"
  LqtyStake :: "string \<rightharpoonup> lqty_stake"
  TroveChange :: "string \<rightharpoonup> trove_change_details change"
  StabilityDepositChange :: "string \<rightharpoonup> stability_deposit_change_details change"
  PriceChange :: "string \<rightharpoonup> rat change"
  CollSurplusChange :: "string \<rightharpoonup> coll_surplus_change_details change"
  LqtyStakeChange :: "string \<rightharpoonup> lqty_stake_change_details change"
  Liquidation :: "string \<rightharpoonup> liquidation"
  Redemption :: "string \<rightharpoonup> redemption"
  Token :: "string \<rightharpoonup> token"
  TokenBalance :: "string \<rightharpoonup> token_balance"
  TokenAllowance :: "string \<rightharpoonup> token_allowance"
  Frontend :: "string \<rightharpoonup> frontend"

definition empty_graph :: graph where
  "empty_graph =
     \<lparr>Global = None, SystemState = Map.empty, Transaction = Map.empty, User = Map.empty, Trove = Map.empty,
      StabilityDeposit = Map.empty, LqtyStake = Map.empty, TroveChange = Map.empty,
      StabilityDepositChange = Map.empty, PriceChange = Map.empty, CollSurplusChange = Map.empty,
      LqtyStakeChange = Map.empty, Liquidation = Map.empty, Redemption = Map.empty, Token = Map.empty,
      TokenBalance = Map.empty, TokenAllowance = Map.empty, Frontend = Map.empty\<rparr>"

text \<open>What a handler knows of the event besides its parameters.\<close>

record eth_event =
  ev_address :: string
  ev_hash :: string
  ev_from :: string
  ev_blockNumber :: int
  ev_timestamp :: int

text \<open>Reading a field that is not set.\<close>

definition get_set :: "'a option \<Rightarrow> ('s, 'a) io" where
  "get_set x = (case x of Some y \<Rightarrow> return_io y | None \<Rightarrow> throw_io (TypeError ''unexpected null''))"

section \<open>Global\<close>

definition new_Global :: global where
  "new_Global =
     \<lparr>systemStateCount = 0, transactionCount = 0, changeCount = 0, liquidationCount = 0, redemptionCount = 0,
      numberOfOpenTroves = 0, numberOfLiquidatedTroves = 0, numberOfRedeemedTroves = 0,
      numberOfTrovesClosedByOwner = 0, totalNumberOfTroves = 0, totalNumberOfLQTYStakes = 0,
      numberOfActiveLQTYStakes = 0, totalBorrowingFeesPaid = 0, totalRedemptionFeesPaid = 0,
      rawTotalRedistributedCollateral = 0, rawTotalRedistributedDebt = 0, currentSystemState = None,
      currentLiquidation = None, currentRedemption = None, tmpDepositUpdate = None\<rparr>"

definition getGlobal :: "(graph, global) io" where
  "getGlobal = bind_io get_io (\<lambda>s. return_io (case Global s of Some g \<Rightarrow> g | None \<Rightarrow> new_Global))"

text \<open>Loading the entity, changing it and saving it.\<close>

definition update_Global :: "(global \<Rightarrow> global) \<Rightarrow> (graph, unit) io" where
  "update_Global f = bind_io getGlobal (\<lambda>g. modify_io (\<lambda>s. s\<lparr>Global := Some (f g)\<rparr>))"

text \<open>The key of a counter is its field, as the function that reads it and the one that updates it.\<close>

definition increaseCounter ::
  "(global \<Rightarrow> int) \<Rightarrow> ((int \<Rightarrow> int) \<Rightarrow> global \<Rightarrow> global) \<Rightarrow> (graph, int) io" where
  "increaseCounter field field_update =
     bind_io getGlobal (\<lambda>g.
     let count = field g
     in seq_io (modify_io (\<lambda>s. s\<lparr>Global := Some (field_update (\<lambda>_. count + 1) g)\<rparr>)) (return_io count))"

definition getSystemStateSequenceNumber :: "(graph, int) io" where
  "getSystemStateSequenceNumber = increaseCounter systemStateCount systemStateCount_update"

definition getTransactionSequenceNumber :: "(graph, int) io" where
  "getTransactionSequenceNumber = increaseCounter transactionCount transactionCount_update"

definition getChangeSequenceNumber :: "(graph, int) io" where
  "getChangeSequenceNumber = increaseCounter changeCount changeCount_update"

definition getLastChangeSequenceNumber :: "(graph, int) io" where
  "getLastChangeSequenceNumber = bind_io getGlobal (\<lambda>g. return_io (changeCount g - 1))"

definition getLiquidationSequenceNumber :: "(graph, int) io" where
  "getLiquidationSequenceNumber = increaseCounter liquidationCount liquidationCount_update"

definition getRedemptionSequenceNumber :: "(graph, int) io" where
  "getRedemptionSequenceNumber = increaseCounter redemptionCount redemptionCount_update"

definition updateTotalRedistributed :: "int \<Rightarrow> int \<Rightarrow> (graph, unit) io" where
  "updateTotalRedistributed L_COLL L_LUSDDebt =
     update_Global (\<lambda>g. g\<lparr>rawTotalRedistributedCollateral := L_COLL, rawTotalRedistributedDebt := L_LUSDDebt\<rparr>)"

definition increaseNumberOfOpenTroves :: "(graph, unit) io" where
  "increaseNumberOfOpenTroves =
     update_Global (\<lambda>g. g\<lparr>numberOfOpenTroves := numberOfOpenTroves g + 1,
       totalNumberOfTroves := totalNumberOfTroves g + 1\<rparr>)"

definition increaseNumberOfLiquidatedTroves :: "(graph, unit) io" where
  "increaseNumberOfLiquidatedTroves =
     update_Global (\<lambda>g. g\<lparr>numberOfLiquidatedTroves := numberOfLiquidatedTroves g + 1,
       numberOfOpenTroves := numberOfOpenTroves g - 1\<rparr>)"

definition decreaseNumberOfLiquidatedTroves :: "(graph, unit) io" where
  "decreaseNumberOfLiquidatedTroves =
     update_Global (\<lambda>g. g\<lparr>numberOfLiquidatedTroves := numberOfLiquidatedTroves g - 1,
       numberOfOpenTroves := numberOfOpenTroves g + 1\<rparr>)"

definition increaseNumberOfRedeemedTroves :: "(graph, unit) io" where
  "increaseNumberOfRedeemedTroves =
     update_Global (\<lambda>g. g\<lparr>numberOfRedeemedTroves := numberOfRedeemedTroves g + 1,
       numberOfOpenTroves := numberOfOpenTroves g - 1\<rparr>)"

definition decreaseNumberOfRedeemedTroves :: "(graph, unit) io" where
  "decreaseNumberOfRedeemedTroves =
     update_Global (\<lambda>g. g\<lparr>numberOfRedeemedTroves := numberOfRedeemedTroves g - 1,
       numberOfOpenTroves := numberOfOpenTroves g + 1\<rparr>)"

definition increaseNumberOfTrovesClosedByOwner :: "(graph, unit) io" where
  "increaseNumberOfTrovesClosedByOwner =
     update_Global (\<lambda>g. g\<lparr>numberOfTrovesClosedByOwner := numberOfTrovesClosedByOwner g + 1,
       numberOfOpenTroves := numberOfOpenTroves g - 1\<rparr>)"

definition decreaseNumberOfTrovesClosedByOwner :: "(graph, unit) io" where
  "decreaseNumberOfTrovesClosedByOwner =
     update_Global (\<lambda>g. g\<lparr>numberOfTrovesClosedByOwner := numberOfTrovesClosedByOwner g - 1,
       numberOfOpenTroves := numberOfOpenTroves g + 1\<rparr>)"

definition increaseTotalNumberOfLQTYStakes :: "(graph, unit) io" where
  "increaseTotalNumberOfLQTYStakes =
     update_Global (\<lambda>g. g\<lparr>totalNumberOfLQTYStakes := totalNumberOfLQTYStakes g + 1,
       numberOfActiveLQTYStakes := numberOfActiveLQTYStakes g + 1\<rparr>)"

definition increaseNumberOfActiveLQTYStakes :: "(graph, unit) io" where
  "increaseNumberOfActiveLQTYStakes =
     update_Global (\<lambda>g. g\<lparr>numberOfActiveLQTYStakes := numberOfActiveLQTYStakes g + 1\<rparr>)"

definition decreaseNumberOfActiveLQTYStakes :: "(graph, unit) io" where
  "decreaseNumberOfActiveLQTYStakes =
     update_Global (\<lambda>g. g\<lparr>numberOfActiveLQTYStakes := numberOfActiveLQTYStakes g - 1\<rparr>)"

definition increaseTotalBorrowingFeesPaid :: "graph_ts \<Rightarrow> int \<Rightarrow> (graph, unit) io" where
  "increaseTotalBorrowingFeesPaid lib fee =
     update_Global (\<lambda>g. g\<lparr>totalBorrowingFeesPaid :=
       bd_plus lib (totalBorrowingFeesPaid g) (decimalize lib fee)\<rparr>)"

section \<open>Users, transactions and changes\<close>

definition getUser :: "string \<Rightarrow> (graph, user) io" where
  "getUser address =
     bind_io get_io (\<lambda>s.
     case User s address of
       Some u \<Rightarrow> return_io u
     | None \<Rightarrow>
         let u = \<lparr>u_id = address, u_trove = None, u_stabilityDeposit = None, u_stake = None,
                   u_frontend = None, u_collSurplus = 0\<rparr>
         in seq_io (modify_io (\<lambda>s. s\<lparr>User := (User s)(address \<mapsto> u)\<rparr>)) (return_io u))"

definition save_User :: "user \<Rightarrow> (graph, unit) io" where
  "save_User u = modify_io (\<lambda>s. s\<lparr>User := (User s)(u_id u \<mapsto> u)\<rparr>)"

definition getTransaction :: "eth_event \<Rightarrow> (graph, transaction) io" where
  "getTransaction ev =
     bind_io get_io (\<lambda>s.
     case Transaction s (ev_hash ev) of
       Some t \<Rightarrow> return_io t
     | None \<Rightarrow>
         bind_io getTransactionSequenceNumber (\<lambda>n.
         let t = \<lparr>tx_id = ev_hash ev, tx_sequenceNumber = n, tx_blockNumber = ev_blockNumber ev,
                   tx_timestamp = ev_timestamp ev\<rparr>
         in seq_io (modify_io (\<lambda>s. s\<lparr>Transaction := (Transaction s)(tx_id t \<mapsto> t)\<rparr>)) (return_io t)))"

text \<open>The current state of the system, which is created when there is none.\<close>

definition new_SystemState :: "int \<Rightarrow> system_state" where
  "new_SystemState n =
     \<lparr>ss_id = show_int n, ss_sequenceNumber = n, ss_price = None, totalCollateral = 0, totalDebt = 0,
      totalCollateralRatio = None, tokensInStabilityPool = 0, collSurplusPoolBalance = 0,
      totalLQTYTokensStaked = 0\<rparr>"

definition save_SystemState :: "system_state \<Rightarrow> (graph, unit) io" where
  "save_SystemState st = modify_io (\<lambda>s. s\<lparr>SystemState := (SystemState s)(ss_id st \<mapsto> st)\<rparr>)"

definition getCurrentSystemState :: "(graph, system_state) io" where
  "getCurrentSystemState =
     bind_io getGlobal (\<lambda>g.
     bind_io get_io (\<lambda>s.
     case Option.bind (currentSystemState g) (SystemState s) of
       Some st \<Rightarrow> return_io st
     | None \<Rightarrow>
         bind_io getSystemStateSequenceNumber (\<lambda>n.
         let st = new_SystemState n
         in seq_io (save_SystemState st)
           (seq_io (update_Global (\<lambda>g. g\<lparr>currentSystemState := Some (ss_id st)\<rparr>)) (return_io st)))))"

definition bumpSystemState :: "system_state \<Rightarrow> (graph, unit) io" where
  "bumpSystemState st =
     bind_io getSystemStateSequenceNumber (\<lambda>n.
     let st = st\<lparr>ss_id := show_int n, ss_sequenceNumber := n\<rparr>
     in seq_io (save_SystemState st) (update_Global (\<lambda>g. g\<lparr>currentSystemState := Some (ss_id st)\<rparr>)))"

definition beginChange :: "(graph, int) io" where
  "beginChange = getChangeSequenceNumber"

definition initChange :: "'c change \<Rightarrow> eth_event \<Rightarrow> int \<Rightarrow> (graph, 'c change) io" where
  "initChange c ev n =
     bind_io (getTransaction ev) (\<lambda>t.
     bind_io getCurrentSystemState (\<lambda>st.
     return_io (c\<lparr>ch_sequenceNumber := n, ch_transaction := Some (tx_id t), systemStateBefore := Some (ss_id st)\<rparr>)))"

definition finishChange :: "'c change \<Rightarrow> (graph, 'c change) io" where
  "finishChange c = bind_io getCurrentSystemState (\<lambda>st. return_io (c\<lparr>systemStateAfter := Some (ss_id st)\<rparr>))"

text \<open>The functions that create the change of each type differ in that type only.\<close>

definition create_change :: "'c \<Rightarrow> eth_event \<Rightarrow> (graph, 'c change) io" where
  "create_change d ev =
     bind_io beginChange (\<lambda>n.
     initChange \<lparr>ch_id = show_int n, ch_sequenceNumber = 0, ch_transaction = None, systemStateBefore = None,
       systemStateAfter = None, ch_details = d\<rparr> ev n)"

section \<open>The price\<close>

definition getCurrentPrice :: "(graph, rat) io" where
  "getCurrentPrice = bind_io getCurrentSystemState (\<lambda>st. get_set (ss_price st))"

definition createPriceChange :: "eth_event \<Rightarrow> (graph, rat change) io" where
  "createPriceChange = create_change 0"

definition finishPriceChange :: "rat change \<Rightarrow> (graph, unit) io" where
  "finishPriceChange c =
     bind_io (finishChange c) (\<lambda>c. modify_io (\<lambda>s. s\<lparr>PriceChange := (PriceChange s)(ch_id c \<mapsto> c)\<rparr>))"

definition updatePrice :: "graph_ts \<Rightarrow> eth_event \<Rightarrow> int \<Rightarrow> (graph, unit) io" where
  "updatePrice lib ev lastGoodPrice =
     bind_io getCurrentSystemState (\<lambda>st.
     let newPrice = decimalize lib lastGoodPrice
     in case ss_price st of
          None \<Rightarrow> save_SystemState (st\<lparr>ss_price := Some newPrice\<rparr>)
        | Some oldPrice \<Rightarrow>
            when_io (newPrice \<noteq> oldPrice)
              (bind_io (createPriceChange ev) (\<lambda>c.
               seq_io (bumpSystemState (st\<lparr>ss_price := Some newPrice\<rparr>))
                 (finishPriceChange (c\<lparr>ch_details := bd_minus lib newPrice oldPrice\<rparr>)))))"

section \<open>Effects of changes on the state of the system\<close>

definition tryToOffsetWithTokensFromStabilityPool ::
  "graph_ts \<Rightarrow> system_state \<Rightarrow> rat \<Rightarrow> rat \<Rightarrow> system_state res" where
  "tryToOffsetWithTokensFromStabilityPool lib st collateralToLiquidate debtToLiquidate =
     (if debtToLiquidate \<le> tokensInStabilityPool st then
        Inr (st\<lparr>totalCollateral := bd_minus lib (totalCollateral st) collateralToLiquidate,
                totalDebt := bd_minus lib (totalDebt st) debtToLiquidate,
                tokensInStabilityPool := bd_minus lib (tokensInStabilityPool st) debtToLiquidate\<rparr>)
      else if 0 < tokensInStabilityPool st then
        bind_res (bd_div lib (bd_times lib collateralToLiquidate (tokensInStabilityPool st)) debtToLiquidate)
          (\<lambda>q.
        Inr (st\<lparr>totalCollateral := bd_minus lib (totalCollateral st) (bd_truncate lib DECIMAL_PRECISION q),
                totalDebt := bd_minus lib (totalDebt st) (tokensInStabilityPool st),
                tokensInStabilityPool := 0\<rparr>))
      else Inr st)"

definition system_after_trove_change :: "graph_ts \<Rightarrow> trove_change_details \<Rightarrow> system_state \<Rightarrow> system_state res" where
  "system_after_trove_change lib c st =
     (if isBorrowerOperation (troveOperation c) \<or> isRedemption (troveOperation c) then
        Inr (st\<lparr>totalCollateral := bd_plus lib (totalCollateral st) (collateralChange c),
                totalDebt := bd_plus lib (totalDebt st) (debtChange c)\<rparr>)
      else if isLiquidation (troveOperation c) then
        bind_res (bd_div lib (collateralBefore c) DECIMAL_COLLATERAL_GAS_COMPENSATION_DIVISOR) (\<lambda>q.
        let gasCompensation = bd_truncate lib DECIMAL_PRECISION q;
            st = st\<lparr>totalCollateral := bd_minus lib (totalCollateral st) gasCompensation\<rparr>
        in bind_res (if \<not> isRecoveryModeLiquidation (troveOperation c) then Inr True
                     else case collateralRatioBefore c of
                       None \<Rightarrow> Inl (TypeError ''unexpected null'')
                     | Some r \<Rightarrow> Inr (1 < r)) (\<lambda>offset.
           if offset then
             tryToOffsetWithTokensFromStabilityPool lib st (bd_minus lib (collateralBefore c) gasCompensation)
               (debtBefore c)
           else Inr st))
      else Inr st)"

definition updateSystemStateByTroveChange :: "graph_ts \<Rightarrow> trove_change_details \<Rightarrow> (graph, unit) io" where
  "updateSystemStateByTroveChange lib c =
     bind_io getCurrentSystemState (\<lambda>st.
     bind_io (lift_io (system_after_trove_change lib c st)) (\<lambda>st.
     bind_io (get_set (ss_price st)) (\<lambda>price.
     bind_io (lift_io (calculateCollateralRatio lib (totalCollateral st) (totalDebt st) price)) (\<lambda>ratio.
     bumpSystemState (st\<lparr>totalCollateralRatio := ratio\<rparr>)))))"

definition updateSystemStateByStabilityDepositChange ::
  "graph_ts \<Rightarrow> stability_deposit_change_details \<Rightarrow> (graph, unit) io" where
  "updateSystemStateByStabilityDepositChange lib c =
     bind_io getCurrentSystemState (\<lambda>st.
     bumpSystemState
       (if stabilityDepositOperation c = ''depositTokens'' \<or> stabilityDepositOperation c = ''withdrawTokens''
        then st\<lparr>tokensInStabilityPool := bd_plus lib (tokensInStabilityPool st) (depositedAmountChange c)\<rparr>
        else st))"

definition updateSystemStateByCollSurplusChange ::
  "graph_ts \<Rightarrow> coll_surplus_change_details \<Rightarrow> (graph, unit) io" where
  "updateSystemStateByCollSurplusChange lib c =
     bind_io getCurrentSystemState (\<lambda>st.
     bumpSystemState (st\<lparr>collSurplusPoolBalance :=
       bd_plus lib (collSurplusPoolBalance st) (collSurplusChange c)\<rparr>))"

definition updateSystemStateByLqtyStakeChange ::
  "graph_ts \<Rightarrow> lqty_stake_change_details \<Rightarrow> (graph, unit) io" where
  "updateSystemStateByLqtyStakeChange lib c =
     bind_io getCurrentSystemState (\<lambda>st.
     bumpSystemState (st\<lparr>totalLQTYTokensStaked :=
       bd_plus lib (totalLQTYTokensStaked st) (stakedAmountChange c)\<rparr>))"

section \<open>Collateral surplus\<close>

definition createCollSurplusChange :: "eth_event \<Rightarrow> (graph, coll_surplus_change_details change) io" where
  "createCollSurplusChange =
     create_change \<lparr>csc_user = [], collSurplusBefore = 0, collSurplusChange = 0, collSurplusAfter = 0\<rparr>"

definition finishCollSurplusChange :: "coll_surplus_change_details change \<Rightarrow> (graph, unit) io" where
  "finishCollSurplusChange c =
     bind_io (finishChange c) (\<lambda>c.
     modify_io (\<lambda>s. s\<lparr>CollSurplusChange := (CollSurplusChange s)(ch_id c \<mapsto> c)\<rparr>))"

definition updateUserClaimColl :: "graph_ts \<Rightarrow> eth_event \<Rightarrow> string \<Rightarrow> int \<Rightarrow> (graph, unit) io" where
  "updateUserClaimColl lib ev borrower collSurplus =
     bind_io (getUser borrower) (\<lambda>u.
     let new = decimalize lib collSurplus
     in when_io (new \<noteq> u_collSurplus u)
       (bind_io (createCollSurplusChange ev) (\<lambda>c.
        let d = \<lparr>csc_user = u_id u, collSurplusBefore = u_collSurplus u,
                  collSurplusChange = bd_minus lib new (u_collSurplus u), collSurplusAfter = new\<rparr>
        in seq_io (updateSystemStateByCollSurplusChange lib d)
          (seq_io (finishCollSurplusChange (c\<lparr>ch_details := d\<rparr>))
            (save_User (u\<lparr>u_collSurplus := new\<rparr>))))))"

section \<open>Liquidations and redemptions\<close>

definition save_Liquidation :: "liquidation \<Rightarrow> (graph, unit) io" where
  "save_Liquidation l = modify_io (\<lambda>s. s\<lparr>Liquidation := (Liquidation s)(lq_id l \<mapsto> l)\<rparr>)"

definition getCurrentLiquidation :: "eth_event \<Rightarrow> (graph, liquidation) io" where
  "getCurrentLiquidation ev =
     bind_io getGlobal (\<lambda>g.
     bind_io get_io (\<lambda>s.
     case Option.bind (currentLiquidation g) (Liquidation s) of
       Some l \<Rightarrow> return_io l
     | None \<Rightarrow>
         bind_io getLiquidationSequenceNumber (\<lambda>n.
         bind_io (getTransaction ev) (\<lambda>t.
         bind_io (getUser (ev_from ev)) (\<lambda>u.
         let l = \<lparr>lq_id = show_int n, lq_sequenceNumber = n, lq_transaction = tx_id t, liquidator = u_id u,
                   liquidatedDebt = 0, liquidatedCollateral = 0, collGasCompensation = 0,
                   tokenGasCompensation = 0\<rparr>
         in seq_io (save_Liquidation l)
           (seq_io (update_Global (\<lambda>g. g\<lparr>currentLiquidation := Some (lq_id l)\<rparr>)) (return_io l)))))))"

definition finishCurrentLiquidation :: "graph_ts \<Rightarrow> eth_event \<Rightarrow> int \<Rightarrow> int \<Rightarrow> int \<Rightarrow> int \<Rightarrow> (graph, unit) io" where
  "finishCurrentLiquidation lib ev liquidatedColl debt collGas lusdGas =
     bind_io (getCurrentLiquidation ev) (\<lambda>l.
     seq_io (save_Liquidation (l\<lparr>liquidatedCollateral := decimalize lib liquidatedColl,
         liquidatedDebt := decimalize lib debt, collGasCompensation := decimalize lib collGas,
         tokenGasCompensation := decimalize lib lusdGas\<rparr>))
       (update_Global (\<lambda>g. g\<lparr>currentLiquidation := None\<rparr>)))"

definition save_Redemption :: "redemption \<Rightarrow> (graph, unit) io" where
  "save_Redemption r = modify_io (\<lambda>s. s\<lparr>Redemption := (Redemption s)(rd_id r \<mapsto> r)\<rparr>)"

definition getCurrentRedemption :: "eth_event \<Rightarrow> (graph, redemption) io" where
  "getCurrentRedemption ev =
     bind_io getGlobal (\<lambda>g.
     bind_io get_io (\<lambda>s.
     case Option.bind (currentRedemption g) (Redemption s) of
       Some r \<Rightarrow> return_io r
     | None \<Rightarrow>
         bind_io getRedemptionSequenceNumber (\<lambda>n.
         bind_io (getTransaction ev) (\<lambda>t.
         bind_io (getUser (ev_from ev)) (\<lambda>u.
         let r = \<lparr>rd_id = show_int n, rd_sequenceNumber = n, rd_transaction = tx_id t, redeemer = u_id u,
                   tokensAttemptedToRedeem = 0, tokensActuallyRedeemed = 0, collateralRedeemed = 0,
                   rd_partial = False, rd_fee = 0\<rparr>
         in seq_io (save_Redemption r)
           (seq_io (update_Global (\<lambda>g. g\<lparr>currentRedemption := Some (rd_id r)\<rparr>)) (return_io r)))))))"

definition finishCurrentRedemption :: "graph_ts \<Rightarrow> eth_event \<Rightarrow> int \<Rightarrow> int \<Rightarrow> int \<Rightarrow> int \<Rightarrow> (graph, unit) io" where
  "finishCurrentRedemption lib ev attempted actual sent collateralFee =
     (let fee = decimalize lib collateralFee
      in bind_io (getCurrentRedemption ev) (\<lambda>r.
         seq_io (save_Redemption (r\<lparr>tokensAttemptedToRedeem := decimalize lib attempted,
             tokensActuallyRedeemed := decimalize lib actual, collateralRedeemed := decimalize lib sent,
             rd_partial := actual < attempted, rd_fee := fee\<rparr>))
           (update_Global (\<lambda>g. g\<lparr>currentRedemption := None,
             totalRedemptionFeesPaid := bd_plus lib (totalRedemptionFeesPaid g) fee\<rparr>))))"

section \<open>Troves\<close>

definition getTrove :: "string \<Rightarrow> (graph, trove) io" where
  "getTrove address =
     bind_io get_io (\<lambda>s.
     case Trove s address of
       Some t \<Rightarrow> return_io t
     | None \<Rightarrow>
         bind_io (getUser address) (\<lambda>owner.
         seq_io increaseNumberOfOpenTroves
           (seq_io (save_User (owner\<lparr>u_trove := Some address\<rparr>))
             (return_io \<lparr>tr_id = address, tr_owner = u_id owner, tr_status = ''open'', tr_collateral = 0,
                tr_debt = 0, rawCollateral = None, rawDebt = None, rawStake = None,
                rawSnapshotOfTotalRedistributedCollateral = None,
                rawSnapshotOfTotalRedistributedDebt = None, collateralRatioSortKey = None\<rparr>))))"

definition setTroveStatus :: "trove \<Rightarrow> string \<Rightarrow> (graph, trove) io" where
  "setTroveStatus t status =
     (if status = tr_status t then return_io t
      else seq_io
        (if status = ''open'' then
           (if tr_status t = ''closedByOwner'' then decreaseNumberOfTrovesClosedByOwner
            else if tr_status t = ''closedByLiquidation'' then decreaseNumberOfLiquidatedTroves
            else if tr_status t = ''closedByRedemption'' then decreaseNumberOfRedeemedTroves
            else return_io ())
         else if status = ''closedByOwner'' then increaseNumberOfTrovesClosedByOwner
         else if status = ''closedByLiquidation'' then increaseNumberOfLiquidatedTroves
         else if status = ''closedByRedemption'' then increaseNumberOfRedeemedTroves
         else return_io ())
        (return_io (t\<lparr>tr_status := status\<rparr>)))"

definition createTroveChange :: "eth_event \<Rightarrow> (graph, trove_change_details change) io" where
  "createTroveChange =
     create_change \<lparr>tc_trove = [], troveOperation = [], collateralBefore = 0, collateralChange = 0,
       collateralAfter = 0, debtBefore = 0, debtChange = 0, debtAfter = 0, borrowingFee = None,
       collateralRatioBefore = None, collateralRatioAfter = None, tc_liquidation = None, tc_redemption = None\<rparr>"

definition save_TroveChange :: "trove_change_details change \<Rightarrow> (graph, unit) io" where
  "save_TroveChange c = modify_io (\<lambda>s. s\<lparr>TroveChange := (TroveChange s)(ch_id c \<mapsto> c)\<rparr>)"

definition finishTroveChange :: "trove_change_details change \<Rightarrow> (graph, unit) io" where
  "finishTroveChange c = bind_io (finishChange c) save_TroveChange"

text \<open>The raw amounts, snapshots and the key for sorting.\<close>

definition set_raw :: "graph_ts \<Rightarrow> global \<Rightarrow> int \<Rightarrow> int \<Rightarrow> int \<Rightarrow> trove \<Rightarrow> trove res" where
  "set_raw lib g coll debt stake t =
     (let t = t\<lparr>rawCollateral := Some coll, rawDebt := Some debt, rawStake := Some stake\<rparr>
      in if stake \<noteq> 0 then
           bind_res (big_div lib (debt * BIGINT_SCALING_FACTOR) stake) (\<lambda>q.
           Inr (t\<lparr>rawSnapshotOfTotalRedistributedCollateral := Some (rawTotalRedistributedCollateral g),
                  rawSnapshotOfTotalRedistributedDebt := Some (rawTotalRedistributedDebt g),
                  collateralRatioSortKey := Some (q - rawTotalRedistributedDebt g)\<rparr>))
         else
           Inr (t\<lparr>rawSnapshotOfTotalRedistributedCollateral := Some 0,
                  rawSnapshotOfTotalRedistributedDebt := Some 0, collateralRatioSortKey := None\<rparr>))"

definition status_after :: "string \<Rightarrow> int \<Rightarrow> string" where
  "status_after operation coll =
     (if coll = 0 then
        (if isLiquidation operation then ''closedByLiquidation''
         else if isRedemption operation then ''closedByRedemption''
         else ''closedByOwner'')
      else ''open'')"

definition updateTrove ::
  "graph_ts \<Rightarrow> eth_event \<Rightarrow> string \<Rightarrow> string \<Rightarrow> int \<Rightarrow> int \<Rightarrow> int \<Rightarrow> (graph, unit) io" where
  "updateTrove lib ev operation borrower coll debt stake =
     bind_io getGlobal (\<lambda>g.
     bind_io (getTrove borrower) (\<lambda>t.
     let newCollateral = decimalize lib coll; newDebt = decimalize lib debt
     in if newCollateral = tr_collateral t \<and> newDebt = tr_debt t then return_io ()
        else
          bind_io (createTroveChange ev) (\<lambda>c.
          bind_io getCurrentPrice (\<lambda>price.
          bind_io (lift_io (calculateCollateralRatio lib (tr_collateral t) (tr_debt t) price)) (\<lambda>ratioBefore.
          bind_io (lift_io (calculateCollateralRatio lib newCollateral newDebt price)) (\<lambda>ratioAfter.
          bind_io (if isLiquidation operation
              then bind_io (getCurrentLiquidation ev) (\<lambda>l. return_io (Some (lq_id l)))
              else return_io None) (\<lambda>l.
          bind_io (if isRedemption operation
              then bind_io (getCurrentRedemption ev) (\<lambda>r. return_io (Some (rd_id r)))
              else return_io None) (\<lambda>r.
          let d = \<lparr>tc_trove = tr_id t, troveOperation = operation, collateralBefore = tr_collateral t,
                    collateralChange = bd_minus lib newCollateral (tr_collateral t),
                    collateralAfter = newCollateral, debtBefore = tr_debt t,
                    debtChange = bd_minus lib newDebt (tr_debt t), debtAfter = newDebt, borrowingFee = None,
                    collateralRatioBefore = ratioBefore, collateralRatioAfter = ratioAfter,
                    tc_liquidation = l, tc_redemption = r\<rparr>
          in seq_io (updateSystemStateByTroveChange lib d)
            (seq_io (finishTroveChange (c\<lparr>ch_details := d\<rparr>))
              (bind_io (lift_io (set_raw lib g coll debt stake
                 (t\<lparr>tr_collateral := newCollateral, tr_debt := newDebt\<rparr>))) (\<lambda>t.
               bind_io (setTroveStatus t (status_after operation coll)) (\<lambda>t.
               modify_io (\<lambda>s. s\<lparr>Trove := (Trove s)(tr_id t \<mapsto> t)\<rparr>)))))))))))))"

definition setBorrowingFeeOfLastTroveChange :: "graph_ts \<Rightarrow> int \<Rightarrow> (graph, unit) io" where
  "setBorrowingFeeOfLastTroveChange lib fee =
     bind_io getLastChangeSequenceNumber (\<lambda>n.
     bind_io get_io (\<lambda>s.
     bind_io (get_set (TroveChange s (show_int n))) (\<lambda>c.
     save_TroveChange (c\<lparr>ch_details := (ch_details c)\<lparr>borrowingFee := Some (decimalize lib fee)\<rparr>\<rparr>))))"

definition redistributed :: "graph_ts \<Rightarrow> int \<Rightarrow> int option \<Rightarrow> int option \<Rightarrow> (graph, int) io" where
  "redistributed lib tot snapshot stake =
     bind_io (get_set snapshot) (\<lambda>snapshot.
     bind_io (get_set stake) (\<lambda>stake.
     lift_io (big_div lib ((tot - snapshot) * stake) BIGINT_SCALING_FACTOR)))"

definition applyRedistributionToTroveBeforeLiquidation ::
  "graph_ts \<Rightarrow> eth_event \<Rightarrow> string \<Rightarrow> (graph, unit) io" where
  "applyRedistributionToTroveBeforeLiquidation lib ev borrower =
     bind_io getGlobal (\<lambda>g.
     bind_io (getTrove borrower) (\<lambda>t.
     bind_io (redistributed lib (rawTotalRedistributedCollateral g)
       (rawSnapshotOfTotalRedistributedCollateral t) (rawStake t)) (\<lambda>collateral.
     bind_io (redistributed lib (rawTotalRedistributedDebt g)
       (rawSnapshotOfTotalRedistributedDebt t) (rawStake t)) (\<lambda>debt.
     bind_io (get_set (rawCollateral t)) (\<lambda>rawColl.
     bind_io (get_set (rawDebt t)) (\<lambda>rawDebt.
     updateTrove lib ev ''accrueRewards'' borrower (rawColl + collateral) (rawDebt + debt) 0))))))"

section \<open>Stability deposits and frontends\<close>

definition getStabilityDeposit :: "string \<Rightarrow> (graph, stability_deposit) io" where
  "getStabilityDeposit address =
     bind_io get_io (\<lambda>s.
     case StabilityDeposit s address of
       Some d \<Rightarrow> return_io d
     | None \<Rightarrow>
         bind_io (getUser address) (\<lambda>owner.
         seq_io (save_User (owner\<lparr>u_stabilityDeposit := Some address\<rparr>))
           (return_io \<lparr>sd_id = address, sd_owner = u_id owner, depositedAmount = 0, sd_frontend = None\<rparr>)))"

definition save_StabilityDeposit :: "stability_deposit \<Rightarrow> (graph, unit) io" where
  "save_StabilityDeposit d = modify_io (\<lambda>s. s\<lparr>StabilityDeposit := (StabilityDeposit s)(sd_id d \<mapsto> d)\<rparr>)"

definition createStabilityDepositChange :: "eth_event \<Rightarrow> (graph, stability_deposit_change_details change) io" where
  "createStabilityDepositChange =
     create_change \<lparr>sdc_stabilityDeposit = [], stabilityDepositOperation = [], depositedAmountBefore = 0,
       depositedAmountChange = 0, depositedAmountAfter = 0, sdc_collateralGain = None\<rparr>"

definition finishStabilityDepositChange :: "stability_deposit_change_details change \<Rightarrow> (graph, unit) io" where
  "finishStabilityDepositChange c =
     bind_io (finishChange c) (\<lambda>c.
     modify_io (\<lambda>s. s\<lparr>StabilityDepositChange := (StabilityDepositChange s)(ch_id c \<mapsto> c)\<rparr>))"

text \<open>The deposit is changed in place: the caller saves the one returned.\<close>

definition updateStabilityDepositByOperation ::
  "graph_ts \<Rightarrow> eth_event \<Rightarrow> stability_deposit \<Rightarrow> string \<Rightarrow> rat \<Rightarrow> rat option \<Rightarrow> (graph, stability_deposit) io" where
  "updateStabilityDepositByOperation lib ev sd operation new gain =
     bind_io (createStabilityDepositChange ev) (\<lambda>c.
     let d = \<lparr>sdc_stabilityDeposit = sd_id sd, stabilityDepositOperation = operation,
               depositedAmountBefore = depositedAmount sd,
               depositedAmountChange = bd_minus lib new (depositedAmount sd), depositedAmountAfter = new,
               sdc_collateralGain = gain\<rparr>
     in seq_io (updateSystemStateByStabilityDepositChange lib d)
       (seq_io (finishStabilityDepositChange (c\<lparr>ch_details := d\<rparr>))
         (return_io (sd\<lparr>depositedAmount := new\<rparr>))))"

definition updateStabilityDeposit :: "graph_ts \<Rightarrow> eth_event \<Rightarrow> string \<Rightarrow> int \<Rightarrow> (graph, unit) io" where
  "updateStabilityDeposit lib ev address amount =
     bind_io (getStabilityDeposit address) (\<lambda>sd.
     let new = decimalize lib amount
     in bind_io (getUser address) (\<lambda>owner.
        if new = depositedAmount sd then return_io ()
        else
          bind_io (updateStabilityDepositByOperation lib ev
            (if u_frontend owner \<noteq> sd_frontend sd then sd\<lparr>sd_frontend := u_frontend owner\<rparr> else sd)
            (if depositedAmount sd < new then ''depositTokens'' else ''withdrawTokens'') new None)
            save_StabilityDeposit))"

definition withdrawCollateralGainFromStabilityDeposit ::
  "graph_ts \<Rightarrow> eth_event \<Rightarrow> string \<Rightarrow> int \<Rightarrow> int \<Rightarrow> (graph, unit) io" where
  "withdrawCollateralGainFromStabilityDeposit lib ev address eth lusdLoss =
     (if eth = 0 \<and> lusdLoss = 0 then return_io ()
      else
        bind_io (getStabilityDeposit address) (\<lambda>sd.
        bind_io (updateStabilityDepositByOperation lib ev sd ''withdrawCollateralGain''
          (bd_minus lib (depositedAmount sd) (decimalize lib lusdLoss)) (Some (decimalize lib eth)))
          save_StabilityDeposit))"

definition registerFrontend :: "graph_ts \<Rightarrow> string \<Rightarrow> int \<Rightarrow> (graph, unit) io" where
  "registerFrontend lib address rate =
     bind_io (getUser address) (\<lambda>owner.
     modify_io (\<lambda>s. s\<lparr>Frontend := (Frontend s)(u_id owner \<mapsto>
       \<lparr>fe_id = u_id owner, fe_owner = u_id owner, kickbackRate = decimalize lib rate\<rparr>)\<rparr>))"

definition assignFrontendToDepositor :: "string \<Rightarrow> string \<Rightarrow> (graph, unit) io" where
  "assignFrontendToDepositor depositor address =
     bind_io get_io (\<lambda>s.
     case Frontend s address of
       None \<Rightarrow> return_io ()
     | Some f \<Rightarrow> bind_io (getUser depositor) (\<lambda>u. save_User (u\<lparr>u_frontend := Some (fe_id f)\<rparr>)))"

section \<open>Stakes\<close>

definition startLQTYStakeChange :: "eth_event \<Rightarrow> (graph, lqty_stake_change_details change) io" where
  "startLQTYStakeChange =
     create_change \<lparr>lsc_stake = [], stakeOperation = [], stakedAmountBefore = 0, stakedAmountChange = 0,
       stakedAmountAfter = 0, issuanceGain = 0, redemptionGain = 0\<rparr>"

definition finishLQTYStakeChange :: "lqty_stake_change_details change \<Rightarrow> (graph, unit) io" where
  "finishLQTYStakeChange c =
     bind_io (finishChange c) (\<lambda>c.
     modify_io (\<lambda>s. s\<lparr>LqtyStakeChange := (LqtyStakeChange s)(ch_id c \<mapsto> c)\<rparr>))"

definition getUserStake :: "string \<Rightarrow> (graph, lqty_stake option) io" where
  "getUserStake address =
     bind_io (getUser address) (\<lambda>u.
     bind_io get_io (\<lambda>s. return_io (Option.bind (u_stake u) (LqtyStake s))))"

definition createStake :: "string \<Rightarrow> (graph, lqty_stake) io" where
  "createStake address =
     bind_io (getUser address) (\<lambda>u.
     seq_io (save_User (u\<lparr>u_stake := Some address\<rparr>))
       (return_io \<lparr>ls_id = address, ls_owner = u_id u, ls_amount = 0\<rparr>))"

definition getOperationType :: "lqty_stake \<Rightarrow> rat \<Rightarrow> string" where
  "getOperationType stake next =
     (if ls_amount stake = 0 \<and> 0 < next then ''stakeCreated''
      else if ls_amount stake < next then ''stakeIncreased''
      else if next = 0 then ''stakeRemoved''
      else ''stakeDecreased'')"

definition save_LqtyStake :: "lqty_stake \<Rightarrow> (graph, unit) io" where
  "save_LqtyStake x = modify_io (\<lambda>s. s\<lparr>LqtyStake := (LqtyStake s)(ls_id x \<mapsto> x)\<rparr>)"

definition updateStake :: "graph_ts \<Rightarrow> eth_event \<Rightarrow> string \<Rightarrow> int \<Rightarrow> (graph, unit) io" where
  "updateStake lib ev address newStake =
     bind_io (getUserStake address) (\<lambda>found.
     bind_io (case found of Some x \<Rightarrow> return_io x | None \<Rightarrow> createStake address) (\<lambda>stake.
     let next = decimalize lib newStake
     in bind_io (startLQTYStakeChange ev) (\<lambda>c.
        let d = \<lparr>lsc_stake = ls_id stake, stakeOperation = getOperationType stake next,
                  stakedAmountBefore = ls_amount stake, stakedAmountChange = bd_minus lib next (ls_amount stake),
                  stakedAmountAfter = next, issuanceGain = 0, redemptionGain = 0\<rparr>
        in seq_io
          (if stakeOperation d = ''stakeCreated'' then
             (if found = None then increaseTotalNumberOfLQTYStakes else increaseNumberOfActiveLQTYStakes)
           else if stakeOperation d = ''stakeRemoved'' then decreaseNumberOfActiveLQTYStakes
           else return_io ())
          (seq_io (updateSystemStateByLqtyStakeChange lib d)
            (seq_io (finishLQTYStakeChange (c\<lparr>ch_details := d\<rparr>))
              (save_LqtyStake (stake\<lparr>ls_amount := next\<rparr>)))))))"

definition withdrawStakeGains :: "graph_ts \<Rightarrow> eth_event \<Rightarrow> string \<Rightarrow> int \<Rightarrow> int \<Rightarrow> (graph, unit) io" where
  "withdrawStakeGains lib ev address lusdGain ethGain =
     (if lusdGain = 0 \<and> ethGain = 0 then return_io ()
      else
        bind_io (getUserStake address) (\<lambda>found.
        bind_io (case found of Some x \<Rightarrow> return_io x | None \<Rightarrow> createStake address) (\<lambda>stake.
        bind_io (startLQTYStakeChange ev) (\<lambda>c.
        let d = \<lparr>lsc_stake = ls_id stake, stakeOperation = ''gainsWithdrawn'',
                  stakedAmountBefore = ls_amount stake, stakedAmountChange = 0,
                  stakedAmountAfter = ls_amount stake, issuanceGain = decimalize lib lusdGain,
                  redemptionGain = decimalize lib ethGain\<rparr>
        in seq_io (updateSystemStateByLqtyStakeChange lib d)
          (seq_io (finishLQTYStakeChange (c\<lparr>ch_details := d\<rparr>)) (save_LqtyStake stake))))))"

section \<open>Tokens\<close>

definition save_Token :: "token \<Rightarrow> (graph, unit) io" where
  "save_Token t = modify_io (\<lambda>s. s\<lparr>Token := (Token s)(tk_id t \<mapsto> t)\<rparr>)"

definition createToken :: "string \<Rightarrow> string \<Rightarrow> string \<Rightarrow> (graph, token) io" where
  "createToken address name symbol =
     (let t = \<lparr>tk_id = address, tk_name = name, tk_symbol = symbol, totalSupply = 0\<rparr>
      in seq_io (save_Token t) (return_io t))"

definition getToken :: "graph_ts \<Rightarrow> string \<Rightarrow> (graph, token) io" where
  "getToken lib address =
     bind_io get_io (\<lambda>s.
     case Token s address of
       Some t \<Rightarrow> return_io t
     | None \<Rightarrow>
         bind_io (lift_io (erc20_name lib address)) (\<lambda>name.
         bind_io (lift_io (erc20_symbol lib address)) (\<lambda>symbol.
         createToken address name symbol)))"

definition balance_id :: "string \<Rightarrow> string \<Rightarrow> string" where
  "balance_id token owner = token @ ''-'' @ owner"

definition save_TokenBalance :: "token_balance \<Rightarrow> (graph, unit) io" where
  "save_TokenBalance b = modify_io (\<lambda>s. s\<lparr>TokenBalance := (TokenBalance s)(tb_id b \<mapsto> b)\<rparr>)"

definition getTokenBalance :: "string \<Rightarrow> string \<Rightarrow> (graph, token_balance) io" where
  "getTokenBalance token owner =
     bind_io (getUser owner) (\<lambda>u.
     bind_io get_io (\<lambda>s.
     case TokenBalance s (balance_id token owner) of
       Some b \<Rightarrow> return_io b
     | None \<Rightarrow>
         let b = \<lparr>tb_id = balance_id token owner, tb_token = token, tb_owner = u_id u, tb_balance = 0\<rparr>
         in seq_io (save_TokenBalance b) (return_io b)))"

definition updateBalance :: "graph_ts \<Rightarrow> eth_event \<Rightarrow> string \<Rightarrow> string \<Rightarrow> int \<Rightarrow> (graph, unit) io" where
  "updateBalance lib ev sender receiver value =
     bind_io (getToken lib (ev_address ev)) (\<lambda>token.
     bind_io (if sender = ZERO_ADDRESS then
         (let token = token\<lparr>totalSupply := totalSupply token + value\<rparr>
          in seq_io (save_Token token) (return_io token))
       else
         bind_io (getTokenBalance (ev_address ev) sender) (\<lambda>b.
         seq_io (save_TokenBalance (b\<lparr>tb_balance := tb_balance b - value\<rparr>)) (return_io token))) (\<lambda>token.
     if receiver = ZERO_ADDRESS then save_Token (token\<lparr>totalSupply := totalSupply token - value\<rparr>)
     else
       bind_io (getTokenBalance (ev_address ev) receiver) (\<lambda>b.
       save_TokenBalance (b\<lparr>tb_balance := tb_balance b + value\<rparr>))))"

definition save_TokenAllowance :: "token_allowance \<Rightarrow> (graph, unit) io" where
  "save_TokenAllowance a = modify_io (\<lambda>s. s\<lparr>TokenAllowance := (TokenAllowance s)(ta_id a \<mapsto> a)\<rparr>)"

definition getTokenAllowance :: "string \<Rightarrow> string \<Rightarrow> string \<Rightarrow> (graph, token_allowance) io" where
  "getTokenAllowance token owner spender =
     (let id = token @ ''-'' @ owner @ ''-'' @ spender
      in bind_io (getUser owner) (\<lambda>owner.
         bind_io (getUser spender) (\<lambda>spender.
         bind_io get_io (\<lambda>s.
         case TokenAllowance s id of
           Some a \<Rightarrow> return_io a
         | None \<Rightarrow>
             let a = \<lparr>ta_id = id, ta_token = token, ta_owner = u_id owner, ta_spender = u_id spender, ta_value = 0\<rparr>
             in seq_io (save_TokenAllowance a) (return_io a)))))"

definition updateAllowance :: "eth_event \<Rightarrow> string \<Rightarrow> string \<Rightarrow> int \<Rightarrow> (graph, unit) io" where
  "updateAllowance ev owner spender value =
     bind_io (getTokenAllowance (ev_address ev) owner spender) (\<lambda>a. save_TokenAllowance (a\<lparr>ta_value := value\<rparr>))"

section \<open>Mappings\<close>

text \<open>The value of \<open>tmpDepositUpdate\<close>, which is replaced by the given one when it was unset and unset when it
  was not.\<close>

definition swapTmpDepositUpdate :: "int \<Rightarrow> (graph, int option) io" where
  "swapTmpDepositUpdate value =
     bind_io getGlobal (\<lambda>g.
     seq_io (update_Global (\<lambda>g. g\<lparr>tmpDepositUpdate := (if tmpDepositUpdate g = None then Some value else None)\<rparr>))
       (return_io (tmpDepositUpdate g)))"

definition handleUserDepositChanged :: "graph_ts \<Rightarrow> eth_event \<Rightarrow> string \<Rightarrow> int \<Rightarrow> (graph, unit) io" where
  "handleUserDepositChanged lib ev depositor newDeposit =
     bind_io (swapTmpDepositUpdate newDeposit) (\<lambda>withdrawn.
     when_io (withdrawn \<noteq> None) (updateStabilityDeposit lib ev depositor newDeposit))"

definition handleCollateralGainWithdrawn :: "graph_ts \<Rightarrow> eth_event \<Rightarrow> string \<Rightarrow> int \<Rightarrow> int \<Rightarrow> (graph, unit) io" where
  "handleCollateralGainWithdrawn lib ev depositor eth lusdLoss =
     bind_io (swapTmpDepositUpdate 0) (\<lambda>depositUpdate.
     seq_io (withdrawCollateralGainFromStabilityDeposit lib ev depositor eth lusdLoss)
       (case depositUpdate of
          None \<Rightarrow> return_io ()
        | Some new \<Rightarrow> updateStabilityDeposit lib ev depositor new))"

definition handleLUSDBorrowingFeePaid :: "graph_ts \<Rightarrow> int \<Rightarrow> (graph, unit) io" where
  "handleLUSDBorrowingFeePaid lib fee =
     seq_io (setBorrowingFeeOfLastTroveChange lib fee) (increaseTotalBorrowingFeesPaid lib fee)"

text \<open>The events, by the contract and the parameters that the handlers read.\<close>

datatype contract_event =
    TroveManager_TroveUpdated string int int int int
  | TroveManager_TroveLiquidated string
  | TroveManager_Liquidation int int int int
  | TroveManager_Redemption int int int int
  | TroveManager_LTermsUpdated int int
  | BorrowerOperations_TroveUpdated string int int int int
  | BorrowerOperations_LUSDBorrowingFeePaid int
  | PriceFeed_LastGoodPriceUpdated int
  | StabilityPool_UserDepositChanged string int
  | StabilityPool_CollateralGainWithdrawn string int int
  | StabilityPool_FrontEndRegistered string int
  | StabilityPool_FrontEndTagSet string string
  | CollSurplusPool_CollBalanceUpdated string int
  | LQTYStaking_StakeChanged string int
  | LQTYStaking_StakingGainsWithdrawn string int int
  | Token_Transfer string string int
  | Token_Approval string string int

fun handle :: "graph_ts \<Rightarrow> eth_event \<Rightarrow> contract_event \<Rightarrow> (graph, unit) io" where
  "handle lib ev (TroveManager_TroveUpdated borrower debt coll stake operation) =
     updateTrove lib ev (getTroveOperationFromTroveManagerOperation operation) borrower coll debt stake"
| "handle lib ev (TroveManager_TroveLiquidated borrower) =
     applyRedistributionToTroveBeforeLiquidation lib ev borrower"
| "handle lib ev (TroveManager_Liquidation debt coll collGas lusdGas) =
     finishCurrentLiquidation lib ev coll debt collGas lusdGas"
| "handle lib ev (TroveManager_Redemption attempted actual sent fee) =
     finishCurrentRedemption lib ev attempted actual sent fee"
| "handle lib ev (TroveManager_LTermsUpdated L_COLL L_LUSDDebt) = updateTotalRedistributed L_COLL L_LUSDDebt"
| "handle lib ev (BorrowerOperations_TroveUpdated borrower debt coll stake operation) =
     updateTrove lib ev (getTroveOperationFromBorrowerOperation operation) borrower coll debt stake"
| "handle lib ev (BorrowerOperations_LUSDBorrowingFeePaid fee) = handleLUSDBorrowingFeePaid lib fee"
| "handle lib ev (PriceFeed_LastGoodPriceUpdated price) = updatePrice lib ev price"
| "handle lib ev (StabilityPool_UserDepositChanged depositor newDeposit) =
     handleUserDepositChanged lib ev depositor newDeposit"
| "handle lib ev (StabilityPool_CollateralGainWithdrawn depositor eth lusdLoss) =
     handleCollateralGainWithdrawn lib ev depositor eth lusdLoss"
| "handle lib ev (StabilityPool_FrontEndRegistered owner rate) = registerFrontend lib owner rate"
| "handle lib ev (StabilityPool_FrontEndTagSet depositor frontend) = assignFrontendToDepositor depositor frontend"
| "handle lib ev (CollSurplusPool_CollBalanceUpdated account balance) = updateUserClaimColl lib ev account balance"
| "handle lib ev (LQTYStaking_StakeChanged staker newStake) = updateStake lib ev staker newStake"
| "handle lib ev (LQTYStaking_StakingGainsWithdrawn staker lusdGain ethGain) =
     withdrawStakeGains lib ev staker lusdGain ethGain"
| "handle lib ev (Token_Transfer sender receiver value) = updateBalance lib ev sender receiver value"
| "handle lib ev (Token_Approval owner spender value) = updateAllowance ev owner spender value"

end
