(* ===== verification/Subgraph_Props.thy ===== *)
theory Subgraph_Props
  imports Subgraph
begin

text \<open>
  Properties of the indexer: the history of changes has no gaps and links the states of the system, the
  totals of the current state are the sums over the entities, and the counts of Troves are right.
\<close>

section \<open>Partial correctness\<close>

text \<open>A handler that traps leaves nothing behind, so that only runs that return matter.\<close>

definition post :: "('s \<Rightarrow> bool) \<Rightarrow> ('s, 'a) io \<Rightarrow> ('a \<Rightarrow> 's \<Rightarrow> bool) \<Rightarrow> bool" where
  "post P m Q \<longleftrightarrow> (\<forall>s x s'. P s \<longrightarrow> m s = (Inr x, s') \<longrightarrow> Q x s')"

named_theorems post_rules \<open>rules that follow the structure of a computation\<close>

lemma postD: "post P m Q \<Longrightarrow> P s \<Longrightarrow> m s = (Inr x, s') \<Longrightarrow> Q x s'"
  by (simp add: post_def)

lemma post_weaken: "post P m Q \<Longrightarrow> (\<And>s. P' s \<Longrightarrow> P s) \<Longrightarrow> (\<And>x s. Q x s \<Longrightarrow> Q' x s) \<Longrightarrow> post P' m Q'"
  by (force simp: post_def)

lemma post_bind [post_rules]:
  "post P m Q \<Longrightarrow> (\<And>x. post (Q x) (f x) R) \<Longrightarrow> post P (bind_io m f) R"
  by (force simp: post_def bind_io_Inr)

lemma post_seq [post_rules]:
  "post P m (\<lambda>_. Q) \<Longrightarrow> post Q n R \<Longrightarrow> post P (seq_io m n) R"
  by (force simp: post_def bind_io_Inr)

lemma post_throw [post_rules]: "post P (throw_io e) Q"
  by (simp add: post_def)

lemma post_if [post_rules]:
  "(b \<Longrightarrow> post P m Q) \<Longrightarrow> (\<not> b \<Longrightarrow> post P n Q) \<Longrightarrow> post P (if b then m else n) Q"
  by simp

lemma post_when [post_rules]: "(b \<Longrightarrow> post P m (\<lambda>_. P)) \<Longrightarrow> post P (when_io b m) (\<lambda>_. P)"
  by (cases b) (simp_all add: post_def)

lemma post_option [post_rules]:
  "(x = None \<Longrightarrow> post P m Q) \<Longrightarrow> (\<And>y. x = Some y \<Longrightarrow> post P (f y) Q) \<Longrightarrow>
   post P (case x of None \<Rightarrow> m | Some y \<Rightarrow> f y) Q"
  by (cases x) simp_all

lemma post_Let [post_rules]: "post P (f x) Q \<Longrightarrow> post P (let y = x in f y) Q"
  by simp

lemma post_pure [post_rules]:
  "post P (return_io x) (\<lambda>_. P)" "post P (lift_io r) (\<lambda>_. P)" "post P get_io (\<lambda>_. P)" "post P (get_set y) (\<lambda>_. P)"
  by (auto simp: post_def get_set_def split: option.splits)

text \<open>Computations that keep a view of the state.\<close>

definition keeps :: "('s \<Rightarrow> 'v) \<Rightarrow> ('s, 'a) io \<Rightarrow> bool" where
  "keeps v m \<longleftrightarrow> (\<forall>s. v (snd (m s)) = v s)"

named_theorems keeps_rules \<open>rules for computations that keep a view\<close>

lemma keeps_basic [keeps_rules]:
  "keeps v (return_io x)" "keeps v (throw_io e)" "keeps v (lift_io r)" "keeps v get_io" "keeps v (get_set y)"
  by (simp_all add: keeps_def get_set_def split: option.split)

lemma keeps_bind [keeps_rules]: "keeps v m \<Longrightarrow> (\<And>x. keeps v (f x)) \<Longrightarrow> keeps v (bind_io m f)"
  by (simp add: keeps_def bind_io_def split: prod.split sum.split) (metis snd_conv)

lemma keeps_seq [keeps_rules]: "keeps v m \<Longrightarrow> keeps v n \<Longrightarrow> keeps v (seq_io m n)"
  by (simp add: keeps_bind)

lemma keeps_modify: "(\<And>s. v (f s) = v s) \<Longrightarrow> keeps v (modify_io f)"
  by (simp add: keeps_def)

lemma keeps_cases [keeps_rules]:
  "keeps v m \<Longrightarrow> keeps v n \<Longrightarrow> keeps v (if b then m else n)"
  "keeps v u \<Longrightarrow> keeps v (when_io b u)"
  "keeps v m' \<Longrightarrow> (\<And>y. keeps v (f y)) \<Longrightarrow> keeps v (case x of None \<Rightarrow> m' | Some y \<Rightarrow> f y)"
  "keeps v (g z) \<Longrightarrow> keeps v (let y = z in g y)"
  by (auto simp: keeps_basic when_io_def split: option.split)

lemma post_keeps: "keeps v m \<Longrightarrow> post (\<lambda>s. P (v s)) m (\<lambda>_ s. P (v s))"
  by (simp add: post_def keeps_def) (metis snd_conv)

section \<open>Sums over tables\<close>

text \<open>The sum of a function with finite support.\<close>

definition ssum :: "('k \<Rightarrow> 'a) \<Rightarrow> 'a::ab_group_add" where
  "ssum g = (\<Sum>k | g k \<noteq> 0. g k)"

lemma ssum_on: "finite A \<Longrightarrow> {k. g k \<noteq> 0} \<subseteq> A \<Longrightarrow> ssum g = sum g A"
  unfolding ssum_def by (rule sum.mono_neutral_left) auto

lemma ssum_upd:
  assumes "finite {k. g k \<noteq> 0}"
  shows "ssum (g(a := x)) = ssum g - g a + x"
proof -
  let ?A = "insert a {k. g k \<noteq> 0}"
  have "ssum (g(a := x)) = sum (g(a := x)) ?A"
    using assms by (intro ssum_on) auto
  also have "\<dots> = x + sum g (?A - {a})"
    using assms by (subst sum.remove [of _ a]) (auto intro!: sum.cong)
  also have "sum g (?A - {a}) = sum g ?A - g a"
    using assms sum.remove [of ?A a g] by simp
  also have "sum g ?A = ssum g"
    using assms by (intro ssum_on [symmetric]) auto
  finally show ?thesis by (simp add: fun_upd_def)
qed

lemma ssum_table:
  assumes "finite (dom m)"
  shows "ssum (\<lambda>k. case m k of None \<Rightarrow> 0 | Some x \<Rightarrow> f x) = (\<Sum>k\<in>dom m. f (the (m k)))"
    and "finite {k. (case m k of None \<Rightarrow> 0 | Some x \<Rightarrow> f x) \<noteq> 0}"
proof -
  have sub: "{k. (case m k of None \<Rightarrow> 0 | Some x \<Rightarrow> f x) \<noteq> 0} \<subseteq> dom m"
    by (auto split: option.splits)
  then show "finite {k. (case m k of None \<Rightarrow> 0 | Some x \<Rightarrow> f x) \<noteq> 0}"
    using assms by (rule finite_subset)
  show "ssum (\<lambda>k. case m k of None \<Rightarrow> 0 | Some x \<Rightarrow> f x) = (\<Sum>k\<in>dom m. f (the (m k)))"
    by (subst ssum_on [OF assms sub]) (auto intro!: sum.cong)
qed

section \<open>Runs of the indexer\<close>

inductive indexed :: "graph_ts \<Rightarrow> (eth_event \<Rightarrow> graph \<Rightarrow> contract_event \<Rightarrow> graph \<Rightarrow> bool) \<Rightarrow> graph \<Rightarrow> bool"
  for lib ok where
  indexed_start: "indexed lib ok empty_graph"
| indexed_event: "indexed lib ok s \<Longrightarrow> handle lib ev e s = (Inr (), s') \<Longrightarrow> ok ev s e s' \<Longrightarrow> indexed lib ok s'"

text \<open>The global entity, whether or not it has been saved.\<close>

definition gl :: "graph \<Rightarrow> global" where
  "gl s = (case Global s of Some g \<Rightarrow> g | None \<Rightarrow> new_Global)"

lemma gl_simps [simp]:
  "gl (s\<lparr>Global := Some g\<rparr>) = g" "gl (s\<lparr>SystemState := a\<rparr>) = gl s" "gl (s\<lparr>Transaction := b\<rparr>) = gl s"
  "gl (s\<lparr>User := c\<rparr>) = gl s" "gl (s\<lparr>Trove := d\<rparr>) = gl s" "gl (s\<lparr>StabilityDeposit := e\<rparr>) = gl s"
  "gl (s\<lparr>LqtyStake := f\<rparr>) = gl s" "gl (s\<lparr>TroveChange := h\<rparr>) = gl s"
  "gl (s\<lparr>StabilityDepositChange := i\<rparr>) = gl s" "gl (s\<lparr>PriceChange := j\<rparr>) = gl s"
  "gl (s\<lparr>CollSurplusChange := k\<rparr>) = gl s" "gl (s\<lparr>LqtyStakeChange := l\<rparr>) = gl s"
  "gl (s\<lparr>Liquidation := m\<rparr>) = gl s" "gl (s\<lparr>Redemption := n\<rparr>) = gl s" "gl (s\<lparr>Token := p\<rparr>) = gl s"
  "gl (s\<lparr>TokenBalance := q\<rparr>) = gl s" "gl (s\<lparr>TokenAllowance := r\<rparr>) = gl s" "gl (s\<lparr>Frontend := t\<rparr>) = gl s"
  by (simp_all add: gl_def)

lemma getGlobal_run [simp]: "getGlobal s = (Inr (gl s), s)"
  by (simp add: getGlobal_def gl_def)

lemma update_Global_run [simp]: "update_Global f s = (Inr (), s\<lparr>Global := Some (f (gl s))\<rparr>)"
  by (simp add: update_Global_def bind_io_def)

lemma increaseCounter_run [simp]:
  "increaseCounter field upd s = (Inr (field (gl s)), s\<lparr>Global := Some (upd (\<lambda>_. field (gl s) + 1) (gl s))\<rparr>)"
  by (simp add: increaseCounter_def bind_io_def Let_def)

section \<open>The history\<close>

text \<open>What identifies a change, and the changes under a key.\<close>

definition header :: "'c change \<Rightarrow> string \<times> int \<times> string option \<times> string option" where
  "header c = (ch_id c, ch_sequenceNumber c, systemStateBefore c, systemStateAfter c)"

definition headers :: "('k \<rightharpoonup> 'c change) \<Rightarrow> 'k \<Rightarrow> (string \<times> int \<times> string option \<times> string option) list" where
  "headers m k = (case m k of Some c \<Rightarrow> [header c] | None \<Rightarrow> [])"

definition changes_at :: "graph \<Rightarrow> string \<Rightarrow> (string \<times> int \<times> string option \<times> string option) list" where
  "changes_at s = (\<lambda>k. headers (TroveChange s) k @ headers (StabilityDepositChange s) k @ headers (PriceChange s) k
     @ headers (CollSurplusChange s) k @ headers (LqtyStakeChange s) k)"

definition hist :: "graph \<Rightarrow> _" where
  "hist s = (systemStateCount (gl s), changeCount (gl s), currentSystemState (gl s), SystemState s,
     changes_at s)"

text \<open>\<open>k\<close> states of the system, of which the last is the current one.\<close>

definition states_upto :: "nat \<Rightarrow> graph \<Rightarrow> bool" where
  "states_upto k s \<longleftrightarrow> systemStateCount (gl s) = int k
     \<and> currentSystemState (gl s) = (if k = 0 then None else Some (show_int (int k - 1)))
     \<and> dom (SystemState s) = (\<lambda>i. show_int (int i)) ` {..<k}
     \<and> (\<forall>i<k. \<exists>st. SystemState s (show_int (int i)) = Some st \<and> ss_id st = show_int (int i)
          \<and> ss_sequenceNumber st = int i)"

text \<open>\<open>n\<close> complete changes, each linking the state of its number to the next.\<close>

definition changes_upto :: "nat \<Rightarrow> graph \<Rightarrow> bool" where
  "changes_upto n s \<longleftrightarrow>
     (\<forall>key. changes_at s key =
        (if key \<in> (\<lambda>i. show_int (int i)) ` {..<n}
         then [(key, int (parse_nat key), Some key, Some (show_int (int (parse_nat key) + 1)))] else []))"

definition settled :: "graph \<Rightarrow> bool" where
  "settled s \<longleftrightarrow>
     (\<exists>n k. changeCount (gl s) = int n \<and> changes_upto n s \<and> states_upto k s \<and> k = (if n = 0 then min k 1 else n + 1))"

definition begun :: "string \<times> int \<times> string option \<times> string option \<Rightarrow> graph \<Rightarrow> bool" where
  "begun h s \<longleftrightarrow>
     (\<exists>n. changeCount (gl s) = int n + 1 \<and> changes_upto n s \<and> states_upto (n + 1) s
       \<and> h = (show_int (int n), int n, Some (show_int (int n)), None))"

definition bumped :: "string \<times> int \<times> string option \<times> string option \<Rightarrow> graph \<Rightarrow> bool" where
  "bumped h s \<longleftrightarrow>
     (\<exists>n. changeCount (gl s) = int n + 1 \<and> changes_upto n s \<and> states_upto (n + 2) s
       \<and> h = (show_int (int n), int n, Some (show_int (int n)), None))"

definition finished :: "string \<times> int \<times> string option \<times> string option \<Rightarrow> graph \<Rightarrow> bool" where
  "finished h s \<longleftrightarrow>
     (\<exists>n. changeCount (gl s) = int n + 1 \<and> changes_upto n s \<and> states_upto (n + 2) s
       \<and> h = (show_int (int n), int n, Some (show_int (int n)), Some (show_int (int n + 1))))"

lemmas stages = settled_def begun_def bumped_def finished_def

lemma show_int_nat [simp]: "show_int (int n) = show_nat n"
  by (simp add: show_int_def)

lemma show_int_Suc [simp]: "show_int (int n + 1) = show_nat (Suc n)" "show_int (1 + int n) = show_nat (Suc n)"
  using show_int_nat [of "Suc n"] by (simp_all add: algebra_simps del: show_int_nat)

lemma show_nat_inj [simp]: "show_nat m = show_nat n \<longleftrightarrow> m = n"
  by (metis parse_show_nat)

lemma header_details [simp]: "header (c\<lparr>ch_details := d\<rparr>) = header c"
  by (simp add: header_def)

lemma states_hist: "hist s = hist s' \<Longrightarrow> states_upto k s = states_upto k s'"
  and changes_hist: "hist s = hist s' \<Longrightarrow> changes_upto n s = changes_upto n s'"
  by (simp_all add: hist_def states_upto_def changes_upto_def)

lemma stage_hist:
  assumes "hist s = hist s'"
  shows "settled s = settled s'" "begun h s = begun h s'" "bumped h s = bumped h s'" "finished h s = finished h s'"
  using states_hist [OF assms] changes_hist [OF assms] assms by (simp_all add: stages hist_def)

lemma post_stage:
  assumes "keeps hist m"
  shows "post settled m (\<lambda>_. settled)" "post (begun h) m (\<lambda>_. begun h)" "post (bumped h) m (\<lambda>_. bumped h)"
    "post (finished h) m (\<lambda>_. finished h)"
proof -
  have "m s = (Inr x, s') \<Longrightarrow> hist s' = hist s" for s x s'
    using assms by (auto simp: keeps_def) (metis snd_conv)
  then show "post settled m (\<lambda>_. settled)" "post (begun h) m (\<lambda>_. begun h)" "post (bumped h) m (\<lambda>_. bumped h)"
    "post (finished h) m (\<lambda>_. finished h)"
    unfolding post_def using stage_hist by blast+
qed

subsection \<open>Operations that are not part of the history\<close>

lemma keeps_hist_Global:
  "keeps hist (update_Global f)"
  if "\<And>g. systemStateCount (f g) = systemStateCount g \<and> changeCount (f g) = changeCount g
     \<and> currentSystemState (f g) = currentSystemState g"
  using that by (simp add: keeps_def hist_def changes_at_def)

lemma keeps_hist_counters [keeps_rules]:
  "keeps hist getGlobal" "keeps hist getTransactionSequenceNumber" "keeps hist getLiquidationSequenceNumber"
  "keeps hist getRedemptionSequenceNumber" "keeps hist getLastChangeSequenceNumber"
  "keeps hist (updateTotalRedistributed x y)" "keeps hist increaseNumberOfOpenTroves"
  "keeps hist increaseNumberOfLiquidatedTroves" "keeps hist decreaseNumberOfLiquidatedTroves"
  "keeps hist increaseNumberOfRedeemedTroves" "keeps hist decreaseNumberOfRedeemedTroves"
  "keeps hist increaseNumberOfTrovesClosedByOwner" "keeps hist decreaseNumberOfTrovesClosedByOwner"
  "keeps hist increaseTotalNumberOfLQTYStakes" "keeps hist increaseNumberOfActiveLQTYStakes"
  "keeps hist decreaseNumberOfActiveLQTYStakes" "keeps hist (increaseTotalBorrowingFeesPaid lib fee)"
  by (simp_all add: keeps_def hist_def changes_at_def bind_io_def
      getTransactionSequenceNumber_def getLiquidationSequenceNumber_def getRedemptionSequenceNumber_def
      getLastChangeSequenceNumber_def updateTotalRedistributed_def increaseNumberOfOpenTroves_def
      increaseNumberOfLiquidatedTroves_def decreaseNumberOfLiquidatedTroves_def
      increaseNumberOfRedeemedTroves_def decreaseNumberOfRedeemedTroves_def
      increaseNumberOfTrovesClosedByOwner_def decreaseNumberOfTrovesClosedByOwner_def
      increaseTotalNumberOfLQTYStakes_def increaseNumberOfActiveLQTYStakes_def
      decreaseNumberOfActiveLQTYStakes_def increaseTotalBorrowingFeesPaid_def)

lemma keeps_hist_saves [keeps_rules]:
  "keeps hist (save_User u)" "keeps hist (save_Liquidation l)" "keeps hist (save_Redemption r)"
  "keeps hist (save_StabilityDeposit d)" "keeps hist (save_LqtyStake x)" "keeps hist (save_Token t)"
  "keeps hist (save_TokenBalance b)" "keeps hist (save_TokenAllowance a)"
  by (simp_all add: keeps_def hist_def changes_at_def save_User_def save_Liquidation_def save_Redemption_def
      save_StabilityDeposit_def save_LqtyStake_def save_Token_def save_TokenBalance_def save_TokenAllowance_def)

lemma keeps_hist_modify [keeps_rules]:
  "keeps hist (modify_io (\<lambda>s. s\<lparr>User := f1 s\<rparr>))" "keeps hist (modify_io (\<lambda>s. s\<lparr>Transaction := f2 s\<rparr>))"
  "keeps hist (modify_io (\<lambda>s. s\<lparr>Trove := f3 s\<rparr>))" "keeps hist (modify_io (\<lambda>s. s\<lparr>Frontend := f4 s\<rparr>))"
  by (simp_all add: keeps_def hist_def changes_at_def)

lemma keeps_hist_entities [keeps_rules]:
  "keeps hist (getUser a)" "keeps hist (getTransaction ev)" "keeps hist (getTrove a)"
  "keeps hist (setTroveStatus t st)" "keeps hist (getStabilityDeposit a)" "keeps hist (getUserStake a)"
  "keeps hist (createStake a)" "keeps hist (redistributed lib x y z)" "keeps hist (getToken lib a)"
  "keeps hist (getTokenBalance a b)" "keeps hist (getTokenAllowance a b c)"
  "keeps hist (swapTmpDepositUpdate v)"
  unfolding getUser_def getTransaction_def getTrove_def setTroveStatus_def getStabilityDeposit_def
    getUserStake_def createStake_def redistributed_def getToken_def createToken_def getTokenBalance_def
    getTokenAllowance_def swapTmpDepositUpdate_def
  by (intro keeps_rules keeps_hist_Global; simp)+

lemma keeps_hist_liquidation [keeps_rules]:
  "keeps hist (getCurrentLiquidation ev)" "keeps hist (getCurrentRedemption ev)"
  unfolding getCurrentLiquidation_def getCurrentRedemption_def
  by (intro keeps_rules keeps_hist_Global; simp)+

subsection \<open>The steps of a change\<close>

lemma current_known:
  assumes "states_upto (Suc k) s"
  shows "\<exists>st. getCurrentSystemState s = (Inr st, s) \<and> SystemState s (show_nat k) = Some st \<and> ss_id st = show_nat k"
  using assms by (force simp: states_upto_def getCurrentSystemState_def bind_io_def)

lemma current_created:
  assumes "states_upto 0 s"
  shows "\<exists>s'. getCurrentSystemState s = (Inr (new_SystemState 0), s') \<and> states_upto 1 s'
    \<and> changeCount (gl s') = changeCount (gl s) \<and> changes_at s' = changes_at s"
  using assms show_int_nat [of 0]
  by (simp add: states_upto_def getCurrentSystemState_def bind_io_def getSystemStateSequenceNumber_def Let_def
      save_SystemState_def changes_at_def new_SystemState_def lessThan_Suc del: show_int_nat)

lemma changes_upto_cong: "changes_at s = changes_at s' \<Longrightarrow> changes_upto n s = changes_upto n s'"
  by (simp add: changes_upto_def)

text \<open>Asking for the current state.\<close>

lemma current_states:
  assumes "states_upto k s" and "getCurrentSystemState s = (Inr st, s')"
  shows "states_upto (max k 1) s' \<and> changeCount (gl s') = changeCount (gl s) \<and> changes_at s' = changes_at s
    \<and> ss_id st = show_nat (k - 1)"
proof (cases k)
  case 0
  then show ?thesis
    using current_created [of s] assms show_int_nat [of 0] by (auto simp: new_SystemState_def simp del: show_int_nat)
next
  case (Suc j)
  then show ?thesis using current_known [of j s] assms by auto
qed

lemma post_current [post_rules]:
  "post settled getCurrentSystemState (\<lambda>_. settled)"
  "post (begun h) getCurrentSystemState (\<lambda>_. begun h)"
proof -
  show "post settled getCurrentSystemState (\<lambda>_. settled)"
    unfolding post_def
  proof (intro allI impI)
    fix s st s'
    assume "settled s" and run: "getCurrentSystemState s = (Inr st, s')"
    then obtain n k where "changeCount (gl s) = int n" "changes_upto n s" "states_upto k s"
        "k = (if n = 0 then min k 1 else n + 1)"
      by (auto simp: settled_def)
    then show "settled s'"
      using current_states [OF _ run, of k] changes_upto_cong [of s s' n]
      by (auto simp: settled_def intro!: exI [of _ n] exI [of _ "max k 1"] split: if_splits)
  qed
  show "post (begun h) getCurrentSystemState (\<lambda>_. begun h)"
    unfolding post_def
  proof (intro allI impI)
    fix s st s'
    assume "begun h s" and run: "getCurrentSystemState s = (Inr st, s')"
    then obtain n where "changeCount (gl s) = int n + 1" "changes_upto n s" "states_upto (n + 1) s"
        "h = (show_nat n, int n, Some (show_nat n), None)"
      by (auto simp: begun_def)
    then show "begun h s'"
      using current_states [OF _ run, of "n + 1"] changes_upto_cong [of s s' n] by (auto simp: begun_def)
  qed
qed

lemma create_begins [post_rules]: "post settled (create_change d ev) (\<lambda>c. begun (header c))"
  unfolding post_def
proof (intro allI impI)
  fix s c s'
  assume "settled s" and run: "create_change d ev s = (Inr c, s')"
  then obtain n k where n: "changeCount (gl s) = int n" "changes_upto n s" "states_upto k s"
      "k = (if n = 0 then min k 1 else n + 1)"
    by (auto simp: settled_def)
  define s1 where "s1 = s\<lparr>Global := Some ((gl s)\<lparr>changeCount := int n + 1\<rparr>)\<rparr>"
  from run n obtain t s2 st where
      t: "getTransaction ev s1 = (Inr t, s2)" and st: "getCurrentSystemState s2 = (Inr st, s')"
      and c: "header c = (show_nat n, int n, Some (ss_id st), None)"
    by (auto simp: create_change_def beginChange_def getChangeSequenceNumber_def bind_io_Inr initChange_def
        header_def s1_def)
  have h: "hist s2 = hist s1"
    using keeps_hist_entities(2) [of ev] t by (auto simp: keeps_def) (metis snd_conv)
  have "states_upto k s1" "changeCount (gl s1) = int n + 1" "changes_upto n s1"
    using n by (simp_all add: s1_def states_upto_def changes_upto_def changes_at_def)
  then have s2: "states_upto k s2" "changes_upto n s2" "changeCount (gl s2) = int n + 1"
    using states_hist [OF h] changes_hist [OF h] h by (simp_all add: hist_def)
  have "max k 1 = n + 1" "k - 1 = n"
    using n(4) by (auto split: if_splits)
  then show "begun (header c) s'"
    using current_states [OF s2(1) st] s2 c changes_upto_cong [of s' s2 n] by (auto simp: begun_def)
qed

lemma bump_states:
  assumes "states_upto (Suc k) s" and "bumpSystemState st s = (Inr x, s')"
  shows "states_upto (k + 2) s'" "changeCount (gl s') = changeCount (gl s)" "changes_at s' = changes_at s"
proof -
  let ?st = "st\<lparr>ss_id := show_nat (Suc k), ss_sequenceNumber := int (Suc k)\<rparr>"
  have count: "systemStateCount (gl s) = int (Suc k)"
    using assms(1) by (simp add: states_upto_def)
  then have "show_int (systemStateCount (gl s)) = show_nat (Suc k)"
    by simp
  then have s': "s' = s\<lparr>SystemState := (SystemState s)(show_nat (Suc k) \<mapsto> ?st), Global :=
      Some ((gl s)\<lparr>systemStateCount := int (Suc k) + 1, currentSystemState := Some (show_nat (Suc k))\<rparr>)\<rparr>"
    using assms(2) count
    by (simp add: bumpSystemState_def getSystemStateSequenceNumber_def bind_io_def Let_def save_SystemState_def)
  have "dom (SystemState s') = show_nat ` {..<k + 2}"
    using assms(1) by (simp add: s' states_upto_def lessThan_Suc)
  moreover have "\<exists>st. SystemState s' (show_nat i) = Some st \<and> ss_id st = show_nat i \<and> ss_sequenceNumber st = int i"
    if "i < k + 2" for i
  proof (cases "i = Suc k")
    case True
    then show ?thesis by (simp add: s')
  next
    case False
    then show ?thesis using assms(1) that by (simp add: s' states_upto_def)
  qed
  ultimately show "states_upto (k + 2) s'"
    by (simp add: states_upto_def) (simp add: s')
  show "changeCount (gl s') = changeCount (gl s)" "changes_at s' = changes_at s"
    by (simp_all add: s' changes_at_def)
qed

lemma bump_bumps [post_rules]: "post (begun h) (bumpSystemState st) (\<lambda>_. bumped h)"
  unfolding post_def
proof (intro allI impI)
  fix s x s'
  assume "begun h s" and run: "bumpSystemState st s = (Inr x, s')"
  then obtain n where n: "changeCount (gl s) = int n + 1" "changes_upto n s" "states_upto (Suc n) s"
      "h = (show_nat n, int n, Some (show_nat n), None)"
    by (auto simp: begun_def)
  then show "bumped h s'"
    using bump_states [OF n(3) run] changes_upto_cong [of s s' n] by (auto simp: bumped_def)
qed

lemma finish_finishes [post_rules]: "post (bumped (header c)) (finishChange c) (\<lambda>c'. finished (header c'))"
  unfolding post_def
proof (intro allI impI)
  fix s c' s'
  assume "bumped (header c) s" and run: "finishChange c s = (Inr c', s')"
  then obtain n where n: "changeCount (gl s) = int n + 1" "changes_upto n s" "states_upto (n + 2) s"
      "header c = (show_nat n, int n, Some (show_nat n), None)"
    by (auto simp: bumped_def)
  obtain st where "getCurrentSystemState s = (Inr st, s)" "ss_id st = show_nat (Suc n)"
    using current_known [of "Suc n" s] n by auto
  then show "finished (header c') s'"
    using run n by (auto simp: finishChange_def bind_io_Inr finished_def header_def)
qed

lemma save_completes:
  assumes "finished (header c) s" and "hist s' = (systemStateCount (gl s), changeCount (gl s), currentSystemState (gl s),
    SystemState s, (changes_at s)(ch_id c := [header c]))"
  shows "settled s'"
proof -
  obtain n where n: "changeCount (gl s) = int n + 1" "changes_upto n s" "states_upto (n + 2) s"
      "header c = (show_nat n, int n, Some (show_nat n), Some (show_nat (Suc n)))"
    using assms(1) by (auto simp: finished_def)
  then have "ch_id c = show_nat n" by (simp add: header_def)
  then have "changes_upto (Suc n) s'"
    using n assms(2) by (auto simp: changes_upto_def hist_def lessThan_Suc)
  moreover have "states_upto (n + 2) s'"
    using n(3) assms(2) by (simp add: states_upto_def hist_def)
  moreover have "changeCount (gl s') = int (Suc n)"
    using n(1) assms(2) by (simp add: hist_def)
  ultimately show ?thesis
    unfolding settled_def by (intro exI [of _ "Suc n"] exI [of _ "n + 2"]) simp
qed

lemma fresh_change: "finished (header c) s \<Longrightarrow> changes_at s (ch_id c) = []"
  by (auto simp: finished_def changes_upto_def header_def)

lemma post_save:
  assumes "\<And>s. changes_at s (ch_id c) = [] \<Longrightarrow> hist (f s) = (systemStateCount (gl s), changeCount (gl s),
    currentSystemState (gl s), SystemState s, (changes_at s)(ch_id c := [header c]))"
  shows "post (finished (header c)) (modify_io f) (\<lambda>_. settled)"
  unfolding post_def using save_completes [of c] fresh_change [of c] assms by (simp only: io_run prod.inject) blast

lemma save_change [post_rules]:
  "post (finished (header a)) (modify_io (\<lambda>s. s\<lparr>PriceChange := (PriceChange s)(ch_id a \<mapsto> a)\<rparr>)) (\<lambda>_. settled)"
  "post (finished (header b)) (modify_io (\<lambda>s. s\<lparr>CollSurplusChange := (CollSurplusChange s)(ch_id b \<mapsto> b)\<rparr>)) (\<lambda>_. settled)"
  "post (finished (header c)) (modify_io (\<lambda>s. s\<lparr>LqtyStakeChange := (LqtyStakeChange s)(ch_id c \<mapsto> c)\<rparr>)) (\<lambda>_. settled)"
  "post (finished (header d)) (modify_io (\<lambda>s. s\<lparr>StabilityDepositChange := (StabilityDepositChange s)(ch_id d \<mapsto> d)\<rparr>)) (\<lambda>_. settled)"
  "post (finished (header e)) (save_TroveChange e) (\<lambda>_. settled)"
  unfolding save_TroveChange_def
  by (rule post_save; auto simp: hist_def changes_at_def headers_def fun_eq_iff)+

subsection \<open>Handlers\<close>

lemma system_bumps [post_rules]:
  "post (begun h) (updateSystemStateByTroveChange lib a) (\<lambda>_. bumped h)"
  "post (begun h) (updateSystemStateByStabilityDepositChange lib b) (\<lambda>_. bumped h)"
  "post (begun h) (updateSystemStateByCollSurplusChange lib c) (\<lambda>_. bumped h)"
  "post (begun h) (updateSystemStateByLqtyStakeChange lib d) (\<lambda>_. bumped h)"
  unfolding updateSystemStateByTroveChange_def updateSystemStateByStabilityDepositChange_def
    updateSystemStateByCollSurplusChange_def updateSystemStateByLqtyStakeChange_def
  by (rule post_rules)+

lemma finish_settles [post_rules]:
  "post (bumped (header a)) (finishPriceChange (a\<lparr>ch_details := a'\<rparr>)) (\<lambda>_. settled)"
  "post (bumped (header b)) (finishCollSurplusChange (b\<lparr>ch_details := b'\<rparr>)) (\<lambda>_. settled)"
  "post (bumped (header c)) (finishLQTYStakeChange (c\<lparr>ch_details := c'\<rparr>)) (\<lambda>_. settled)"
  "post (bumped (header d)) (finishStabilityDepositChange (d\<lparr>ch_details := d'\<rparr>)) (\<lambda>_. settled)"
  "post (bumped (header e)) (finishTroveChange (e\<lparr>ch_details := e'\<rparr>)) (\<lambda>_. settled)"
  unfolding finishPriceChange_def finishCollSurplusChange_def finishLQTYStakeChange_def
    finishStabilityDepositChange_def finishTroveChange_def header_details [symmetric, of a a']
    header_details [symmetric, of b b'] header_details [symmetric, of c c'] header_details [symmetric, of d d']
    header_details [symmetric, of e e']
  by (rule post_rules)+

lemma create_settled [post_rules]:
  "post settled (createPriceChange ev) (\<lambda>c. begun (header c))"
  "post settled (createCollSurplusChange ev) (\<lambda>c. begun (header c))"
  "post settled (startLQTYStakeChange ev) (\<lambda>c. begun (header c))"
  "post settled (createStabilityDepositChange ev) (\<lambda>c. begun (header c))"
  "post settled (createTroveChange ev) (\<lambda>c. begun (header c))"
  unfolding createPriceChange_def createCollSurplusChange_def startLQTYStakeChange_def
    createStabilityDepositChange_def createTroveChange_def
  by (rule post_rules)+

lemma price_kept [post_rules]: "post (begun h) getCurrentPrice (\<lambda>_. begun h)"
  unfolding getCurrentPrice_def by (rule post_rules)+

text \<open>The first price is written into the current state.\<close>

lemma current_saved: "post settled getCurrentSystemState (\<lambda>st s. settled s \<and> SystemState s (ss_id st) = Some st)"
  unfolding post_def
proof (intro allI impI conjI)
  fix s st s'
  assume settled: "settled s" and run: "getCurrentSystemState s = (Inr st, s')"
  show "settled s'"
    by (rule postD [OF post_current(1) settled run])
  obtain k where k: "states_upto k s" using settled by (auto simp: settled_def)
  show "SystemState s' (ss_id st) = Some st"
  proof (cases k)
    case 0
    then show ?thesis
      using run k by (auto simp: getCurrentSystemState_def states_upto_def bind_io_def save_SystemState_def Let_def
          getSystemStateSequenceNumber_def)
  next
    case (Suc j)
    then show ?thesis using current_known [of j s] k run by auto
  qed
qed

lemma first_price_settled:
  "post (\<lambda>s. settled s \<and> SystemState s (ss_id st) = Some st) (save_SystemState (st\<lparr>ss_price := p\<rparr>)) (\<lambda>_. settled)"
  unfolding post_def
proof (intro allI impI)
  fix s x s'
  assume "settled s \<and> SystemState s (ss_id st) = Some st" and "save_SystemState (st\<lparr>ss_price := p\<rparr>) s = (Inr x, s')"
  then have settled: "settled s" and st: "SystemState s (ss_id st) = Some st"
    and s': "s' = s\<lparr>SystemState := (SystemState s)(ss_id st \<mapsto> st\<lparr>ss_price := p\<rparr>)\<rparr>"
    by (simp_all add: save_SystemState_def)
  have "states_upto k s'" if k: "states_upto k s" for k
  proof -
    have "ss_id st \<in> dom (SystemState s)" using st by auto
    then show ?thesis using k st by (fastforce simp: s' states_upto_def insert_absorb)
  qed
  moreover have "changes_at s' = changes_at s" "gl s' = gl s"
    by (simp_all add: s' changes_at_def)
  moreover note changes_upto_cong [of s' s]
  ultimately show "settled s'"
    using settled unfolding settled_def by metis
qed

lemma price_settled [post_rules]: "post settled (updatePrice lib ev p) (\<lambda>_. settled)"
  unfolding updatePrice_def Let_def
  by (rule post_bind [OF current_saved], rule post_option, rule first_price_settled,
      rule post_weaken [where P = settled and Q = "\<lambda>_. settled"])
    ((rule post_rules)+, simp_all)

lemma updates_settled [post_rules]:
  "post settled (updateUserClaimColl lib ev a x) (\<lambda>_. settled)"
  "post settled (updateTrove lib ev op a x y z) (\<lambda>_. settled)"
  "post settled (updateStabilityDepositByOperation lib ev sd op' n g) (\<lambda>_. settled)"
  "post settled (updateStake lib ev a x) (\<lambda>_. settled)"
  "post settled (withdrawStakeGains lib ev a x y) (\<lambda>_. settled)"
  unfolding updateUserClaimColl_def updateTrove_def updateStabilityDepositByOperation_def updateStake_def
    withdrawStakeGains_def
  by (rule post_rules | rule post_stage, (intro keeps_rules; fail))+

lemma fee_settled [post_rules]: "post settled (setBorrowingFeeOfLastTroveChange lib fee) (\<lambda>_. settled)"
  unfolding post_def
proof (intro allI impI)
  fix s x s'
  assume settled: "settled s" and run: "setBorrowingFeeOfLastTroveChange lib fee s = (Inr x, s')"
  let ?key = "show_int (changeCount (gl s) - 1)"
  obtain c where c: "TroveChange s ?key = Some c"
    and s': "s' = s\<lparr>TroveChange := (TroveChange s)(ch_id c \<mapsto>
      c\<lparr>ch_details := (ch_details c)\<lparr>borrowingFee := Some (decimalize lib fee)\<rparr>\<rparr>)\<rparr>"
    using run by (auto simp: setBorrowingFeeOfLastTroveChange_def getLastChangeSequenceNumber_def bind_io_Inr
        get_set_def save_TroveChange_def split: option.splits)
  have "ch_id c = ?key"
  proof -
    obtain n where "changes_upto n s" using settled by (auto simp: settled_def)
    then have "\<exists>a b d. changes_at s ?key = [(?key, a, b, d)]"
      using c by (auto simp: changes_upto_def changes_at_def headers_def split: if_splits)
    then show ?thesis using c by (auto simp: changes_at_def headers_def header_def)
  qed
  then have "hist s' = hist s"
    using c by (auto simp: s' hist_def changes_at_def headers_def fun_eq_iff header_def)
  then show "settled s'" using stage_hist(1) settled by blast
qed

lemma deposits_settled [post_rules]:
  "post settled (updateStabilityDeposit lib ev a x) (\<lambda>_. settled)"
  "post settled (withdrawCollateralGainFromStabilityDeposit lib ev a x y) (\<lambda>_. settled)"
  unfolding updateStabilityDeposit_def withdrawCollateralGainFromStabilityDeposit_def
  by (rule post_rules | rule post_stage, (intro keeps_rules; fail))+

lemmas handler_defs =
  applyRedistributionToTroveBeforeLiquidation_def finishCurrentLiquidation_def finishCurrentRedemption_def
  handleLUSDBorrowingFeePaid_def handleUserDepositChanged_def handleCollateralGainWithdrawn_def
  registerFrontend_def assignFrontendToDepositor_def updateBalance_def updateAllowance_def

lemma handle_settled: "post settled (handle lib ev e) (\<lambda>_. settled)"
  by (cases e; simp only: handle.simps)
    (unfold handler_defs Let_def,
      (rule post_rules | rule post_stage, (intro keeps_rules keeps_hist_Global; simp; fail))+)

lemma start_settled: "settled empty_graph"
  by (simp add: settled_def empty_graph_def gl_def new_Global_def states_upto_def changes_upto_def changes_at_def
      headers_def)

text \<open>C30: the history of a run has no gaps. The changes of all types together are numbered from 0 in the
  order in which they were made, each number occurs exactly once and under its own id, and the change of
  number \<open>i\<close> leads from the state of the system of number \<open>i\<close> to the next: the states form a chain that ends at the
  current one. The counters are the numbers of changes and of states.\<close>

theorem history_has_no_gaps:
  assumes "indexed lib ok s"
  shows "\<exists>n k. changeCount (gl s) = int n \<and> systemStateCount (gl s) = int k \<and> (n \<noteq> 0 \<longrightarrow> k = n + 1) \<and> k \<le> n + 1
    \<and> dom (SystemState s) = {show_int (int i) | i. i < k}
    \<and> (k \<noteq> 0 \<longrightarrow> currentSystemState (gl s) = Some (show_int (int k - 1)))
    \<and> (\<forall>i<n. changes_at s (show_int (int i)) =
         [(show_int (int i), int i, Some (show_int (int i)), Some (show_int (int i + 1)))])
    \<and> (\<forall>key. (\<forall>i<n. key \<noteq> show_int (int i)) \<longrightarrow> changes_at s key = [])"
proof -
  have "settled s"
    using assms
  proof (induction rule: indexed.induct)
    case indexed_start
    then show ?case by (rule start_settled)
  next
    case (indexed_event s ev e s')
    then show ?case using postD [OF handle_settled] by blast
  qed
  then obtain n k where n: "changeCount (gl s) = int n" "changes_upto n s" "states_upto k s"
      "k = (if n = 0 then min k 1 else n + 1)"
    by (auto simp: settled_def)
  show ?thesis
  proof (rule exI [of _ n], rule exI [of _ k], intro conjI)
    show "dom (SystemState s) = {show_int (int i) | i. i < k}"
      using n(3) by (auto simp: states_upto_def)
    show "\<forall>i<n. changes_at s (show_int (int i)) =
        [(show_int (int i), int i, Some (show_int (int i)), Some (show_int (int i + 1)))]"
      using n(2) by (simp add: changes_upto_def)
    show "\<forall>key. (\<forall>i<n. key \<noteq> show_int (int i)) \<longrightarrow> changes_at s key = []"
      using n(2) by (auto simp: changes_upto_def)
    show "n \<noteq> 0 \<longrightarrow> k = n + 1" "k \<le> n + 1"
      using n(4) by (auto split: if_splits)
  qed (use n(1,3) in \<open>simp_all add: states_upto_def\<close>)
qed

end
