(* ===== verification/Subgraph_Books.thy ===== *)
theory Subgraph_Books
  imports Subgraph_Props
begin

text \<open>
  The totals that the current state of the system keeps and the counts of the global entity, against the
  entities they are about. The part of the graph that matters is a view (\<open>books\<close>); each operation of the
  mappings either keeps it or changes it in one place.
\<close>

section \<open>The view\<close>

record totals =
  t_staked :: rat
  t_surplus :: rat
  t_collateral :: rat
  t_debt :: rat

record counts =
  n_open :: int
  n_liquidated :: int
  n_redeemed :: int
  n_closedByOwner :: int
  n_total :: int

record books =
  bk_totals :: totals
  bk_stakes :: "string \<rightharpoonup> lqty_stake"
  bk_surplus :: "string \<Rightarrow> rat"
  bk_pointer :: "string \<Rightarrow> string option"
  bk_troves :: "string \<rightharpoonup> trove"
  bk_counts :: counts

definition totals_of :: "system_state \<Rightarrow> totals" where
  "totals_of st = \<lparr>t_staked = totalLQTYTokensStaked st, t_surplus = collSurplusPoolBalance st,
     t_collateral = totalCollateral st, t_debt = totalDebt st\<rparr>"

definition cur :: "graph \<Rightarrow> system_state" where
  "cur s = (case Option.bind (currentSystemState (gl s)) (SystemState s) of Some st \<Rightarrow> st | None \<Rightarrow> new_SystemState 0)"

definition counts_of :: "global \<Rightarrow> counts" where
  "counts_of g = \<lparr>n_open = numberOfOpenTroves g, n_liquidated = numberOfLiquidatedTroves g,
     n_redeemed = numberOfRedeemedTroves g, n_closedByOwner = numberOfTrovesClosedByOwner g,
     n_total = totalNumberOfTroves g\<rparr>"

definition books_of :: "graph \<Rightarrow> books" where
  "books_of s =
     \<lparr>bk_totals = totals_of (cur s), bk_stakes = LqtyStake s,
      bk_surplus = (\<lambda>k. case User s k of None \<Rightarrow> 0 | Some u \<Rightarrow> u_collSurplus u),
      bk_pointer = (\<lambda>k. case User s k of None \<Rightarrow> None | Some u \<Rightarrow> u_stake u),
      bk_troves = Trove s,
      bk_counts = counts_of (gl s)\<rparr>"

text \<open>Entities are stored under their own ids, and there are finitely many.\<close>

definition well_stored :: "graph \<Rightarrow> bool" where
  "well_stored s \<longleftrightarrow> (\<forall>k u. User s k = Some u \<longrightarrow> u_id u = k) \<and> (\<forall>k x. LqtyStake s k = Some x \<longrightarrow> ls_id x = k)
     \<and> (\<forall>k t. Trove s k = Some t \<longrightarrow> tr_id t = k)
     \<and> finite (dom (User s)) \<and> finite (dom (LqtyStake s)) \<and> finite (dom (Trove s))"

definition booked :: "books \<Rightarrow> graph \<Rightarrow> bool" where
  "booked v s \<longleftrightarrow> well_stored s \<and> books_of s = v"

section \<open>Operations that keep the view\<close>

definition basis :: "graph \<Rightarrow> _" where
  "basis s = (User s, LqtyStake s, Trove s, totals_of (cur s), numberOfOpenTroves (gl s),
     numberOfLiquidatedTroves (gl s), numberOfRedeemedTroves (gl s), numberOfTrovesClosedByOwner (gl s),
     totalNumberOfTroves (gl s))"

lemma booked_basis: "basis s = basis s' \<Longrightarrow> booked v s = booked v s'"
  by (simp add: basis_def booked_def books_of_def well_stored_def counts_of_def)

named_theorems book_rules \<open>how the operations of the mappings change the books\<close>

lemma booked_keeps: "keeps basis m \<Longrightarrow> post (booked v) m (\<lambda>_. booked v)"
  unfolding post_def keeps_def using booked_basis by (metis snd_conv)

lemma keeps_basis_Global:
  "keeps basis (update_Global f)"
  if "\<And>g. currentSystemState (f g) = currentSystemState g \<and> numberOfOpenTroves (f g) = numberOfOpenTroves g
     \<and> numberOfLiquidatedTroves (f g) = numberOfLiquidatedTroves g
     \<and> numberOfRedeemedTroves (f g) = numberOfRedeemedTroves g
     \<and> numberOfTrovesClosedByOwner (f g) = numberOfTrovesClosedByOwner g
     \<and> totalNumberOfTroves (f g) = totalNumberOfTroves g"
  using that by (simp add: keeps_def basis_def cur_def)

lemma keeps_basis_counters [keeps_rules]:
  "keeps basis getGlobal" "keeps basis getTransactionSequenceNumber" "keeps basis getLiquidationSequenceNumber"
  "keeps basis getRedemptionSequenceNumber" "keeps basis getLastChangeSequenceNumber"
  "keeps basis getChangeSequenceNumber"
  "keeps basis (updateTotalRedistributed x y)" "keeps basis increaseTotalNumberOfLQTYStakes"
  "keeps basis increaseNumberOfActiveLQTYStakes" "keeps basis decreaseNumberOfActiveLQTYStakes"
  "keeps basis (increaseTotalBorrowingFeesPaid lib fee)"
  by (simp_all add: keeps_def basis_def cur_def bind_io_def
      getTransactionSequenceNumber_def getLiquidationSequenceNumber_def getRedemptionSequenceNumber_def
      getLastChangeSequenceNumber_def getChangeSequenceNumber_def updateTotalRedistributed_def
      increaseTotalNumberOfLQTYStakes_def increaseNumberOfActiveLQTYStakes_def
      decreaseNumberOfActiveLQTYStakes_def increaseTotalBorrowingFeesPaid_def)

lemma keeps_basis_saves [keeps_rules]:
  "keeps basis (save_Liquidation l)" "keeps basis (save_Redemption r)"
  "keeps basis (save_StabilityDeposit d)" "keeps basis (save_Token t)"
  "keeps basis (save_TokenBalance b)" "keeps basis (save_TokenAllowance a)" "keeps basis (save_TroveChange c)"
  by (simp_all add: keeps_def basis_def cur_def save_Liquidation_def save_Redemption_def
      save_StabilityDeposit_def save_Token_def save_TokenBalance_def save_TokenAllowance_def save_TroveChange_def)

lemma keeps_basis_modify [keeps_rules]:
  "keeps basis (modify_io (\<lambda>s. s\<lparr>Transaction := f2 s\<rparr>))" "keeps basis (modify_io (\<lambda>s. s\<lparr>Frontend := f4 s\<rparr>))"
  "keeps basis (modify_io (\<lambda>s. s\<lparr>PriceChange := f5 s\<rparr>))" "keeps basis (modify_io (\<lambda>s. s\<lparr>CollSurplusChange := f6 s\<rparr>))"
  "keeps basis (modify_io (\<lambda>s. s\<lparr>LqtyStakeChange := f7 s\<rparr>))"
  "keeps basis (modify_io (\<lambda>s. s\<lparr>StabilityDepositChange := f8 s\<rparr>))"
  by (simp_all add: keeps_def basis_def cur_def)

lemma keeps_basis_entities [keeps_rules]:
  "keeps basis (getTransaction ev)" "keeps basis (redistributed lib x y z)" "keeps basis (getToken lib a)"
  "keeps basis (swapTmpDepositUpdate v)"
  unfolding getTransaction_def redistributed_def getToken_def createToken_def swapTmpDepositUpdate_def
  by (intro keeps_rules keeps_basis_Global; simp)+

lemma keeps_basis_system [keeps_rules]: "keeps basis getCurrentSystemState"
  by (auto simp: keeps_def getCurrentSystemState_def bind_io_def getSystemStateSequenceNumber_def Let_def
      save_SystemState_def basis_def cur_def new_SystemState_def totals_of_def split: option.split)

lemma keeps_basis_change [keeps_rules]: "keeps basis (create_change d ev)" "keeps basis (finishChange c)"
  unfolding create_change_def beginChange_def initChange_def finishChange_def
  by (intro keeps_rules)+

lemma keeps_basis_changes [keeps_rules]:
  "keeps basis (createPriceChange ev)" "keeps basis (createCollSurplusChange ev)"
  "keeps basis (startLQTYStakeChange ev)" "keeps basis (createStabilityDepositChange ev)"
  "keeps basis (createTroveChange ev)" "keeps basis (finishPriceChange a)" "keeps basis (finishCollSurplusChange b)"
  "keeps basis (finishLQTYStakeChange c)" "keeps basis (finishStabilityDepositChange d)"
  "keeps basis (finishTroveChange e)" "keeps basis getCurrentPrice" "keeps basis (setBorrowingFeeOfLastTroveChange lib fee)"
  unfolding createPriceChange_def createCollSurplusChange_def startLQTYStakeChange_def
    createStabilityDepositChange_def createTroveChange_def finishPriceChange_def finishCollSurplusChange_def
    finishLQTYStakeChange_def finishStabilityDepositChange_def finishTroveChange_def getCurrentPrice_def
    setBorrowingFeeOfLastTroveChange_def
  by (intro keeps_rules)+

section \<open>Operations on users, states and Troves\<close>

lemma post_getUser:
  assumes "\<And>u. u_id u = a \<Longrightarrow> u_collSurplus u = bk_surplus v a \<Longrightarrow> u_stake u = bk_pointer v a \<Longrightarrow>
    post (booked v) (f u) R"
  shows "post (booked v) (bind_io (getUser a) f) R"
  unfolding post_def
proof (intro allI impI)
  fix s x s'
  assume v: "booked v s" and run: "bind_io (getUser a) f s = (Inr x, s')"
  obtain u s1 where u: "getUser a s = (Inr u, s1)" and f: "f u s1 = (Inr x, s')"
    using run by (auto simp: bind_io_Inr)
  have "booked v s1" "u_id u = a" "u_collSurplus u = bk_surplus v a" "u_stake u = bk_pointer v a"
    using u v by (auto simp: getUser_def bind_io_Inr booked_def well_stored_def books_of_def cur_def Let_def
        fun_eq_iff split: option.splits if_splits)
  then show "R x s'" using postD [OF assms] f by blast
qed

lemma post_save_User [book_rules]:
  "post (booked v) (save_User u) (\<lambda>_. booked (v\<lparr>bk_surplus := (bk_surplus v)(u_id u := u_collSurplus u),
     bk_pointer := (bk_pointer v)(u_id u := u_stake u)\<rparr>))"
  by (auto simp: post_def save_User_def booked_def well_stored_def books_of_def cur_def fun_eq_iff)

text \<open>A user that was just read is written back with the same surplus and stake.\<close>

lemma post_save_same [book_rules]:
  "u_id u = a \<Longrightarrow> u_collSurplus u = bk_surplus v a \<Longrightarrow> u_stake u = bk_pointer v a \<Longrightarrow>
   post (booked v) (save_User u) (\<lambda>_. booked v)"
  using post_save_User [of v u] by (simp add: fun_upd_idem)

lemma post_current_totals:
  assumes "\<And>st. bk_totals v = totals_of st \<Longrightarrow> post (booked v) (f st) R"
  shows "post (booked v) (bind_io getCurrentSystemState f) R"
  unfolding post_def
proof (intro allI impI)
  fix s x s'
  assume v: "booked v s" and run: "bind_io getCurrentSystemState f s = (Inr x, s')"
  obtain st s1 where st: "getCurrentSystemState s = (Inr st, s1)" and f: "f st s1 = (Inr x, s')"
    using run by (auto simp: bind_io_Inr)
  have "booked v s1"
    using postD [OF booked_keeps [OF keeps_basis_system] v st] .
  moreover have "bk_totals v = totals_of st"
    using st v by (auto simp: getCurrentSystemState_def bind_io_Inr booked_def books_of_def cur_def totals_of_def
        new_SystemState_def Let_def split: option.splits)
  ultimately show "R x s'" using postD [OF assms] f by blast
qed

lemma post_bump [book_rules]: "post (booked v) (bumpSystemState st) (\<lambda>_. booked (v\<lparr>bk_totals := totals_of st\<rparr>))"
  by (auto simp: post_def bumpSystemState_def getSystemStateSequenceNumber_def bind_io_Inr Let_def save_SystemState_def
      booked_def books_of_def cur_def well_stored_def totals_of_def counts_of_def)

lemma post_bump_same [book_rules]:
  "totals_of st = bk_totals v \<Longrightarrow> post (booked v) (bumpSystemState st) (\<lambda>_. booked v)"
  using post_bump [of v st] by simp

lemma post_save_state [book_rules]:
  "totals_of st = bk_totals v \<Longrightarrow> post (booked v) (save_SystemState st) (\<lambda>_. booked v)"
  by (auto simp: post_def save_SystemState_def booked_def books_of_def cur_def well_stored_def totals_of_def
      split: option.splits bind_splits if_splits)

text \<open>Handlers that leave the books alone.\<close>

lemma getUser_booked [book_rules]: "post (booked v) (getUser a) (\<lambda>_. booked v)"
  using post_getUser [of a v return_io "\<lambda>_. booked v"] by (simp add: post_pure bind_io_return)

lemma booked_same_totals:
  "totals_of (st\<lparr>ss_price := p\<rparr>) = totals_of st" "totals_of (st\<lparr>tokensInStabilityPool := x\<rparr>) = totals_of st"
  "totals_of (st\<lparr>totalCollateralRatio := r\<rparr>) = totals_of st"
  by (simp_all add: totals_of_def)

lemma steady_entities [book_rules]:
  "post (booked v) (getStabilityDeposit a) (\<lambda>_. booked v)"
  "post (booked v) (getTokenBalance a b) (\<lambda>_. booked v)"
  "post (booked v) (getTokenAllowance a b c) (\<lambda>_. booked v)"
  "post (booked v) (getCurrentLiquidation ev) (\<lambda>_. booked v)"
  "post (booked v) (getCurrentRedemption ev) (\<lambda>_. booked v)"
  "post (booked v) (updateSystemStateByStabilityDepositChange lib d) (\<lambda>_. booked v)"
  "post (booked v) (updatePrice lib ev p) (\<lambda>_. booked v)"
  unfolding getStabilityDeposit_def getTokenBalance_def getTokenAllowance_def getCurrentLiquidation_def
    getCurrentRedemption_def updateSystemStateByStabilityDepositChange_def updatePrice_def Let_def
  by (rule post_getUser post_current_totals | rule post_rules |
      (rule post_save_same post_bump_same post_save_state; simp add: booked_same_totals; fail) |
      (rule booked_keeps, (intro keeps_rules keeps_basis_Global; simp; fail)))+

lemma steady_deposits [book_rules]:
  "post (booked v) (updateStabilityDepositByOperation lib ev sd op n g) (\<lambda>_. booked v)"
  unfolding updateStabilityDepositByOperation_def Let_def
  by (rule post_rules | rule steady_entities | (rule booked_keeps, (intro keeps_rules; fail)))+

lemma steady_stability [book_rules]:
  "post (booked v) (updateStabilityDeposit lib ev a x) (\<lambda>_. booked v)"
  "post (booked v) (withdrawCollateralGainFromStabilityDeposit lib ev a x y) (\<lambda>_. booked v)"
  unfolding updateStabilityDeposit_def withdrawCollateralGainFromStabilityDeposit_def Let_def
  by (rule post_rules | rule steady_entities steady_deposits getUser_booked |
      (rule booked_keeps, (intro keeps_rules; fail)))+

fun about_books :: "contract_event \<Rightarrow> bool" where
  "about_books (TroveManager_TroveUpdated _ _ _ _ _) = True"
| "about_books (TroveManager_TroveLiquidated _) = True"
| "about_books (BorrowerOperations_TroveUpdated _ _ _ _ _) = True"
| "about_books (CollSurplusPool_CollBalanceUpdated _ _) = True"
| "about_books (LQTYStaking_StakeChanged _ _) = True"
| "about_books (LQTYStaking_StakingGainsWithdrawn _ _ _) = True"
| "about_books _ = False"

lemma steady_events: "\<not> about_books e \<Longrightarrow> post (booked v) (handle lib ev e) (\<lambda>_. booked v)"
  by (cases e; simp only: handle.simps about_books.simps not_True_eq_False)
    (unfold handler_defs Let_def,
      (rule post_getUser | rule post_rules | rule steady_entities steady_stability getUser_booked |
       (rule post_save_same; simp; fail) |
       (rule booked_keeps, (intro keeps_rules keeps_basis_Global; simp; fail)))+)

section \<open>Handlers that change the books\<close>

subsection \<open>Surplus\<close>

definition claim_books :: "graph_ts \<Rightarrow> string \<Rightarrow> rat \<Rightarrow> books \<Rightarrow> books" where
  "claim_books lib a new v =
     v\<lparr>bk_totals := (bk_totals v)\<lparr>t_surplus :=
         bd_plus lib (t_surplus (bk_totals v)) (bd_minus lib new (bk_surplus v a))\<rparr>,
       bk_surplus := (bk_surplus v)(a := new)\<rparr>"

lemma surplus_bumped:
  "collSurplusChange d = x \<Longrightarrow>
   post (booked v) (updateSystemStateByCollSurplusChange lib d)
     (\<lambda>_. booked (v\<lparr>bk_totals := (bk_totals v)\<lparr>t_surplus := bd_plus lib (t_surplus (bk_totals v)) x\<rparr>\<rparr>))"
  unfolding updateSystemStateByCollSurplusChange_def
  by (rule post_current_totals, rule post_weaken [OF post_bump]) (auto simp: totals_of_def)

lemma claim_booked:
  "post (booked v) (updateUserClaimColl lib ev a x)
     (\<lambda>_. booked (if decimalize lib x = bk_surplus v a then v else claim_books lib a (decimalize lib x) v))"
proof (cases "decimalize lib x = bk_surplus v a")
  case True
  then show ?thesis
    unfolding updateUserClaimColl_def Let_def by (intro post_getUser) (simp add: post_pure)
next
  case False
  let ?t = "v\<lparr>bk_totals := (bk_totals v)\<lparr>t_surplus :=
    bd_plus lib (t_surplus (bk_totals v)) (bd_minus lib (decimalize lib x) (bk_surplus v a))\<rparr>\<rparr>"
  have save: "post (booked ?t) (save_User (u\<lparr>u_collSurplus := new\<rparr>))
      (\<lambda>_. booked (claim_books lib a new v))"
    if "u_id u = a" "u_stake u = bk_pointer v a" "new = decimalize lib x" for u new
    using post_save_User [of ?t "u\<lparr>u_collSurplus := new\<rparr>"] that
    by (simp add: claim_books_def fun_upd_idem)
  show ?thesis
    unfolding updateUserClaimColl_def Let_def
    by (rule post_getUser, simp add: False del: seq_io_simp,
        rule post_bind [OF booked_keeps], intro keeps_rules,
        rule post_seq [OF surplus_bumped], simp,
        rule post_seq [OF booked_keeps], intro keeps_rules, rule save) simp_all
qed

subsection \<open>Stakes\<close>

definition linked :: "books \<Rightarrow> bool" where
  "linked v \<longleftrightarrow> (\<forall>k. bk_pointer v k = None \<or> bk_pointer v k = Some k)
     \<and> (\<forall>k x. bk_stakes v k = Some x \<longrightarrow> bk_pointer v k = Some k \<and> ls_id x = k)"

definition amount :: "books \<Rightarrow> string \<Rightarrow> rat" where
  "amount v a = (case bk_stakes v a of None \<Rightarrow> 0 | Some x \<Rightarrow> ls_amount x)"

definition stake_books :: "graph_ts \<Rightarrow> rat \<Rightarrow> lqty_stake \<Rightarrow> books \<Rightarrow> books" where
  "stake_books lib d x v =
     v\<lparr>bk_pointer := (bk_pointer v)(ls_id x := Some (ls_id x)),
       bk_totals := (bk_totals v)\<lparr>t_staked := bd_plus lib (t_staked (bk_totals v)) d\<rparr>,
       bk_stakes := (bk_stakes v)(ls_id x \<mapsto> x)\<rparr>"

lemma staked_bumped:
  "stakedAmountChange d = x \<Longrightarrow>
   post (booked v) (updateSystemStateByLqtyStakeChange lib d)
     (\<lambda>_. booked (v\<lparr>bk_totals := (bk_totals v)\<lparr>t_staked := bd_plus lib (t_staked (bk_totals v)) x\<rparr>\<rparr>))"
  unfolding updateSystemStateByLqtyStakeChange_def
  by (rule post_current_totals, rule post_weaken [OF post_bump]) (auto simp: totals_of_def)

lemma post_save_stake:
  "post (booked v) (save_LqtyStake x) (\<lambda>_. booked (v\<lparr>bk_stakes := (bk_stakes v)(ls_id x \<mapsto> x)\<rparr>))"
  by (auto simp: post_def save_LqtyStake_def booked_def well_stored_def books_of_def cur_def split: if_splits)

lemma post_getStake:
  assumes "linked v"
    and "\<And>x found. ls_id x = a \<Longrightarrow> ls_amount x = amount v a \<Longrightarrow>
      post (booked (v\<lparr>bk_pointer := (bk_pointer v)(a := Some a)\<rparr>)) (f found x) R"
  shows "post (booked v) (bind_io (getUserStake a) (\<lambda>found.
    bind_io (case found of Some x \<Rightarrow> return_io x | None \<Rightarrow> createStake a) (f found))) R"
proof -
  have found: "post (booked v) (getUserStake a) (\<lambda>found s. booked v s \<and> found = bk_stakes v a
      \<and> (found \<noteq> None \<longrightarrow> bk_pointer v a = Some a))"
    unfolding getUserStake_def
  proof (rule post_getUser)
    fix u
    assume u: "u_stake u = bk_pointer v a"
    have "Option.bind (u_stake u) (bk_stakes v) = bk_stakes v a \<and> (bk_stakes v a \<noteq> None \<longrightarrow> bk_pointer v a = Some a)"
    proof (cases "bk_stakes v a")
      case None
      have "bk_pointer v a = None \<or> bk_pointer v a = Some a" using assms(1) by (simp add: linked_def)
      then show ?thesis using None u by auto
    next
      case (Some x)
      then show ?thesis using assms(1) u by (auto simp: linked_def)
    qed
    moreover have "booked v s \<Longrightarrow> LqtyStake s = bk_stakes v" for s
      by (auto simp: booked_def books_of_def)
    ultimately show "post (booked v) (bind_io get_io (\<lambda>s. return_io (Option.bind (u_stake u) (LqtyStake s))))
        (\<lambda>found s. booked v s \<and> found = bk_stakes v a \<and> (found \<noteq> None \<longrightarrow> bk_pointer v a = Some a))"
      by (simp add: post_def)
  qed
  have create: "post (booked v) (createStake a) (\<lambda>x s. booked (v\<lparr>bk_pointer := (bk_pointer v)(a := Some a)\<rparr>) s
      \<and> ls_id x = a \<and> ls_amount x = 0)"
    unfolding createStake_def
    by (rule post_getUser, rule post_seq [OF post_save_User]) (auto simp: post_def fun_upd_idem)
  show ?thesis
  proof (rule post_bind [OF found])
    fix found
    show "post (\<lambda>s. booked v s \<and> found = bk_stakes v a \<and> (found \<noteq> None \<longrightarrow> bk_pointer v a = Some a))
      (bind_io (case found of Some x \<Rightarrow> return_io x | None \<Rightarrow> createStake a) (f found)) R"
    proof (cases found)
      case None
      have "post (booked v) (bind_io (createStake a) (f None)) R" if "bk_stakes v a = None"
      proof (rule post_bind [OF create])
        fix x
        show "post (\<lambda>s. booked (v\<lparr>bk_pointer := (bk_pointer v)(a := Some a)\<rparr>) s \<and> ls_id x = a \<and> ls_amount x = 0)
            (f None x) R"
          using assms(2) [of x None] that by (auto simp: post_def amount_def)
      qed
      then show ?thesis using None by (auto simp: post_def)
    next
      case (Some x)
      have "post (booked v) (f (Some x) x) R" if "bk_stakes v a = Some x" "bk_pointer v a = Some a"
        using assms(2) [of x "Some x"] assms(1) that by (simp add: amount_def linked_def fun_upd_idem)
      then show ?thesis using Some by (auto simp: post_def)
    qed
  qed
qed

lemma stake_change_booked:
  assumes "ls_id x = a" and "stakedAmountChange d = y"
  shows "post (booked (v\<lparr>bk_pointer := (bk_pointer v)(a := Some a)\<rparr>))
    (seq_io (updateSystemStateByLqtyStakeChange lib d) (seq_io (finishLQTYStakeChange c) (save_LqtyStake x)))
    (\<lambda>_. booked (stake_books lib y x v))"
  by (rule post_seq [OF staked_bumped [OF assms(2)]], rule post_seq [OF booked_keeps], intro keeps_rules,
      rule post_weaken [OF post_save_stake]) (auto simp: stake_books_def assms(1) [symmetric])

definition stake_after :: "graph_ts \<Rightarrow> string \<Rightarrow> rat \<Rightarrow> rat \<Rightarrow> books \<Rightarrow> graph \<Rightarrow> bool" where
  "stake_after lib a new d v s \<longleftrightarrow> (\<exists>x. ls_id x = a \<and> ls_amount x = new \<and> booked (stake_books lib d x v) s)"

lemma stake_booked:
  assumes "linked v"
  shows "post (booked v) (updateStake lib ev a n)
    (\<lambda>_. stake_after lib a (decimalize lib n) (bd_minus lib (decimalize lib n) (amount v a)) v)"
  unfolding updateStake_def Let_def
proof (rule post_getStake [OF assms], goal_cases)
  case (1 x found)
  then have "stake_after lib a (decimalize lib n) (bd_minus lib (decimalize lib n) (amount v a)) v s"
    if "booked (stake_books lib (bd_minus lib (decimalize lib n) (ls_amount x)) (x\<lparr>ls_amount := decimalize lib n\<rparr>) v) s"
    for s
    using that by (auto simp: stake_after_def intro!: exI [of _ "x\<lparr>ls_amount := decimalize lib n\<rparr>"])
  then show ?case
    by - (rule post_weaken [where P' = "booked (v\<lparr>bk_pointer := (bk_pointer v)(a := Some a)\<rparr>)"],
        rule post_bind [OF booked_keeps], intro keeps_rules, rule post_seq [OF booked_keeps], intro keeps_rules,
        rule stake_change_booked, simp_all add: 1)
qed

lemma gains_booked:
  assumes "linked v"
  shows "post (booked v) (withdrawStakeGains lib ev a m n)
    (\<lambda>_ s. booked v s \<or> stake_after lib a (amount v a) 0 v s)"
  unfolding withdrawStakeGains_def Let_def
proof (rule post_if, goal_cases)
  case 1
  then show ?case by (simp add: post_def)
next
  case 2
  show ?case
  proof (rule post_getStake [OF assms], goal_cases)
    case (1 x found)
    then show ?case
      by - (rule post_weaken [where P' = "booked (v\<lparr>bk_pointer := (bk_pointer v)(a := Some a)\<rparr>)"],
          rule post_bind [OF booked_keeps], intro keeps_rules, rule stake_change_booked,
          auto simp: stake_after_def)
  qed
qed

subsection \<open>Troves\<close>

definition coll_of :: "books \<Rightarrow> string \<Rightarrow> rat" where
  "coll_of v a = (case bk_troves v a of None \<Rightarrow> 0 | Some t \<Rightarrow> tr_collateral t)"

definition debt_of :: "books \<Rightarrow> string \<Rightarrow> rat" where
  "debt_of v a = (case bk_troves v a of None \<Rightarrow> 0 | Some t \<Rightarrow> tr_debt t)"

definition status_of :: "books \<Rightarrow> string \<Rightarrow> string" where
  "status_of v a = (case bk_troves v a of None \<Rightarrow> ''open'' | Some t \<Rightarrow> tr_status t)"

definition counted :: "string \<Rightarrow> books \<Rightarrow> counts" where
  "counted a v = (if bk_troves v a = None
     then (bk_counts v)\<lparr>n_open := n_open (bk_counts v) + 1, n_total := n_total (bk_counts v) + 1\<rparr>
     else bk_counts v)"

definition moved :: "string \<Rightarrow> string \<Rightarrow> counts \<Rightarrow> counts" where
  "moved old new c =
     (if new = old then c
      else if new = ''open'' then
        (if old = ''closedByOwner'' then c\<lparr>n_closedByOwner := n_closedByOwner c - 1, n_open := n_open c + 1\<rparr>
         else if old = ''closedByLiquidation'' then c\<lparr>n_liquidated := n_liquidated c - 1, n_open := n_open c + 1\<rparr>
         else if old = ''closedByRedemption'' then c\<lparr>n_redeemed := n_redeemed c - 1, n_open := n_open c + 1\<rparr>
         else c)
      else if new = ''closedByOwner'' then c\<lparr>n_closedByOwner := n_closedByOwner c + 1, n_open := n_open c - 1\<rparr>
      else if new = ''closedByLiquidation'' then c\<lparr>n_liquidated := n_liquidated c + 1, n_open := n_open c - 1\<rparr>
      else if new = ''closedByRedemption'' then c\<lparr>n_redeemed := n_redeemed c + 1, n_open := n_open c - 1\<rparr>
      else c)"

lemma post_count:
  assumes "\<And>g. currentSystemState (f g) = currentSystemState g" and "\<And>g. counts_of (f g) = h (counts_of g)"
    and "w = v\<lparr>bk_counts := h (bk_counts v)\<rparr>"
  shows "post (booked v) (update_Global f) (\<lambda>_. booked w)"
  using assms by (auto simp: post_def booked_def books_of_def cur_def well_stored_def)

lemma post_increaseOpen:
  "post (booked v) increaseNumberOfOpenTroves (\<lambda>_. booked (v\<lparr>bk_counts :=
     (bk_counts v)\<lparr>n_open := n_open (bk_counts v) + 1, n_total := n_total (bk_counts v) + 1\<rparr>\<rparr>))"
  unfolding increaseNumberOfOpenTroves_def
  by (rule post_count [where h = "\<lambda>c. c\<lparr>n_open := n_open c + 1, n_total := n_total c + 1\<rparr>"])
    (simp_all add: counts_of_def)

lemmas status_counters =
  decreaseNumberOfTrovesClosedByOwner_def decreaseNumberOfLiquidatedTroves_def
  decreaseNumberOfRedeemedTroves_def increaseNumberOfTrovesClosedByOwner_def
  increaseNumberOfLiquidatedTroves_def increaseNumberOfRedeemedTroves_def

lemma post_getTrove:
  assumes "\<And>t. tr_id t = a \<Longrightarrow> tr_collateral t = coll_of v a \<Longrightarrow> tr_debt t = debt_of v a \<Longrightarrow>
    tr_status t = status_of v a \<Longrightarrow> post (booked (v\<lparr>bk_counts := counted a v\<rparr>)) (f t) R"
  shows "post (booked v) (bind_io (getTrove a) f) R"
proof -
  have "post (booked v) (getTrove a) (\<lambda>t s. booked (v\<lparr>bk_counts := counted a v\<rparr>) s \<and> tr_id t = a
      \<and> tr_collateral t = coll_of v a \<and> tr_debt t = debt_of v a \<and> tr_status t = status_of v a)"
    unfolding post_def
  proof (intro allI impI)
    fix s t s'
    assume v: "booked v s" and run: "getTrove a s = (Inr t, s')"
    have troves: "bk_troves v = Trove s" using v by (auto simp: booked_def books_of_def)
    show "booked (v\<lparr>bk_counts := counted a v\<rparr>) s' \<and> tr_id t = a
      \<and> tr_collateral t = coll_of v a \<and> tr_debt t = debt_of v a \<and> tr_status t = status_of v a"
    proof (cases "Trove s a")
      case (Some t0)
      then have "tr_id t0 = a" using v by (auto simp: booked_def well_stored_def)
      then show ?thesis
        using run v Some troves by (auto simp: getTrove_def counted_def coll_of_def debt_of_def status_of_def)
    next
      case None
      have "post (booked v) (bind_io (getUser a) (\<lambda>owner.
         seq_io increaseNumberOfOpenTroves (seq_io (save_User (owner\<lparr>u_trove := Some a\<rparr>))
             (return_io \<lparr>tr_id = a, tr_owner = u_id owner, tr_status = ''open'', tr_collateral = 0,
                tr_debt = 0, rawCollateral = None, rawDebt = None, rawStake = None,
                rawSnapshotOfTotalRedistributedCollateral = None,
                rawSnapshotOfTotalRedistributedDebt = None, collateralRatioSortKey = None\<rparr>))))
         (\<lambda>t s. booked (v\<lparr>bk_counts := counted a v\<rparr>) s \<and> tr_id t = a \<and> tr_collateral t = 0 \<and> tr_debt t = 0
           \<and> tr_status t = ''open'')"
        by (rule post_getUser, rule post_seq [OF post_increaseOpen], rule post_seq [OF post_save_same [where a = a]])
          (simp_all add: post_def counted_def troves None)
      from postD [OF this v] run None show ?thesis
        by (simp add: getTrove_def coll_of_def debt_of_def status_of_def troves)
    qed
  qed
  then show ?thesis
    by (rule post_bind) (use assms in \<open>auto simp: post_def\<close>)
qed

lemma post_counters:
  "post (booked v) decreaseNumberOfTrovesClosedByOwner (\<lambda>_. booked (v\<lparr>bk_counts :=
     (bk_counts v)\<lparr>n_closedByOwner := n_closedByOwner (bk_counts v) - 1, n_open := n_open (bk_counts v) + 1\<rparr>\<rparr>))"
  "post (booked v) decreaseNumberOfLiquidatedTroves (\<lambda>_. booked (v\<lparr>bk_counts :=
     (bk_counts v)\<lparr>n_liquidated := n_liquidated (bk_counts v) - 1, n_open := n_open (bk_counts v) + 1\<rparr>\<rparr>))"
  "post (booked v) decreaseNumberOfRedeemedTroves (\<lambda>_. booked (v\<lparr>bk_counts :=
     (bk_counts v)\<lparr>n_redeemed := n_redeemed (bk_counts v) - 1, n_open := n_open (bk_counts v) + 1\<rparr>\<rparr>))"
  "post (booked v) increaseNumberOfTrovesClosedByOwner (\<lambda>_. booked (v\<lparr>bk_counts :=
     (bk_counts v)\<lparr>n_closedByOwner := n_closedByOwner (bk_counts v) + 1, n_open := n_open (bk_counts v) - 1\<rparr>\<rparr>))"
  "post (booked v) increaseNumberOfLiquidatedTroves (\<lambda>_. booked (v\<lparr>bk_counts :=
     (bk_counts v)\<lparr>n_liquidated := n_liquidated (bk_counts v) + 1, n_open := n_open (bk_counts v) - 1\<rparr>\<rparr>))"
  "post (booked v) increaseNumberOfRedeemedTroves (\<lambda>_. booked (v\<lparr>bk_counts :=
     (bk_counts v)\<lparr>n_redeemed := n_redeemed (bk_counts v) + 1, n_open := n_open (bk_counts v) - 1\<rparr>\<rparr>))"
  by (auto simp: post_def status_counters booked_def books_of_def cur_def well_stored_def counts_of_def)

lemma post_status:
  "post (booked v) (setTroveStatus t new) (\<lambda>t' s. booked (v\<lparr>bk_counts := moved (tr_status t) new (bk_counts v)\<rparr>) s
     \<and> t' = t\<lparr>tr_status := new\<rparr>)"
proof -
  have return: "post (booked w) (return_io x) (\<lambda>t' s. booked w s \<and> t' = x)" for w and x :: trove
    by (simp add: post_def)
  have same: "post (booked v) (return_io ()) (\<lambda>_. booked (v\<lparr>bk_counts := bk_counts v\<rparr>))"
    by (simp add: post_def)
  have both: "post P m (\<lambda>_. booked (v\<lparr>bk_counts := x\<rparr>)) \<Longrightarrow> post P n (\<lambda>_. booked (v\<lparr>bk_counts := y\<rparr>)) \<Longrightarrow>
      post P (if b then m else n) (\<lambda>_. booked (v\<lparr>bk_counts := if b then x else y\<rparr>))" for P m n b x y
    by simp
  show ?thesis
  proof (cases "new = tr_status t")
    case True
    then show ?thesis by (simp add: setTroveStatus_def moved_def post_def)
  next
    case False
    show ?thesis
      unfolding setTroveStatus_def moved_def if_not_P [OF False]
      by (rule post_seq [OF _ return], (rule both post_counters same)+)
  qed
qed

lemma post_save_Trove:
  "post (booked v) (modify_io (\<lambda>s. s\<lparr>Trove := (Trove s)(tr_id t \<mapsto> t)\<rparr>))
     (\<lambda>_. booked (v\<lparr>bk_troves := (bk_troves v)(tr_id t \<mapsto> t)\<rparr>))"
  by (auto simp: post_def booked_def well_stored_def books_of_def cur_def split: if_splits)

text \<open>The totals after the change of a Trove.\<close>

definition totals_after :: "graph_ts \<Rightarrow> trove_change_details \<Rightarrow> totals \<Rightarrow> totals \<Rightarrow> bool" where
  "totals_after lib d v v' \<longleftrightarrow> t_staked v' = t_staked v \<and> t_surplus v' = t_surplus v
     \<and> (isBorrowerOperation (troveOperation d) \<or> isRedemption (troveOperation d) \<longrightarrow>
          t_collateral v' = bd_plus lib (t_collateral v) (collateralChange d)
          \<and> t_debt v' = bd_plus lib (t_debt v) (debtChange d))"

lemma system_totals:
  "system_after_trove_change lib d st = Inr st' \<Longrightarrow> totals_after lib d (totals_of st) (totals_of st')"
  by (auto simp: system_after_trove_change_def totals_after_def totals_of_def bind_res_eq_Inr Let_def
      tryToOffsetWithTokensFromStabilityPool_def split: if_splits option.splits)

lemma trove_bumped:
  "post (booked v) (updateSystemStateByTroveChange lib d)
     (\<lambda>_ s. \<exists>tt. totals_after lib d (bk_totals v) tt \<and> booked (v\<lparr>bk_totals := tt\<rparr>) s)"
  unfolding updateSystemStateByTroveChange_def
proof (rule post_current_totals, goal_cases)
  case (1 st)
  have lift: "post (booked v) (lift_io (system_after_trove_change lib d st))
      (\<lambda>st' s. booked v s \<and> totals_after lib d (bk_totals v) (totals_of st'))"
    using 1 by (auto simp: post_def system_totals)
  have bump: "post (\<lambda>s. booked v s \<and> totals_after lib d (bk_totals v) (totals_of st')) (bumpSystemState (st'\<lparr>totalCollateralRatio := r\<rparr>))
      (\<lambda>_ s. \<exists>tt. totals_after lib d (bk_totals v) tt \<and> booked (v\<lparr>bk_totals := tt\<rparr>) s)" for st' r
    using post_bump [of v "st'\<lparr>totalCollateralRatio := r\<rparr>"] by (auto simp: post_def booked_same_totals)
  show ?case
    by (rule post_bind [OF lift], rule post_bind, rule post_pure, rule post_bind, rule post_pure, rule bump)
qed

definition trove_books :: "string \<Rightarrow> totals \<Rightarrow> string \<Rightarrow> trove \<Rightarrow> books \<Rightarrow> books" where
  "trove_books a tt status t v =
     v\<lparr>bk_totals := tt, bk_counts := moved (status_of v a) status (counted a v), bk_troves := (bk_troves v)(a \<mapsto> t)\<rparr>"

definition trove_after :: "graph_ts \<Rightarrow> string \<Rightarrow> string \<Rightarrow> int \<Rightarrow> int \<Rightarrow> books \<Rightarrow> graph \<Rightarrow> bool" where
  "trove_after lib op a coll debt v s \<longleftrightarrow>
     (if decimalize lib coll = coll_of v a \<and> decimalize lib debt = debt_of v a
      then booked (v\<lparr>bk_counts := counted a v\<rparr>) s
      else \<exists>t tt d. tr_id t = a \<and> tr_collateral t = decimalize lib coll \<and> tr_debt t = decimalize lib debt
        \<and> tr_status t = status_after op coll \<and> totals_after lib d (bk_totals v) tt \<and> troveOperation d = op
        \<and> collateralChange d = bd_minus lib (decimalize lib coll) (coll_of v a)
        \<and> debtChange d = bd_minus lib (decimalize lib debt) (debt_of v a)
        \<and> booked (trove_books a tt (status_after op coll) t v) s)"

lemma set_raw_keeps:
  "set_raw lib g coll debt stake t = Inr t' \<Longrightarrow>
   tr_id t' = tr_id t \<and> tr_collateral t' = tr_collateral t \<and> tr_debt t' = tr_debt t \<and> tr_status t' = tr_status t"
  by (auto simp: set_raw_def Let_def bind_res_eq_Inr split: if_splits)

lemma post_exists: "(\<And>x. post (\<lambda>s. P x s) m Q) \<Longrightarrow> post (\<lambda>s. \<exists>x. P x s) m Q"
  by (auto simp: post_def)

lemma post_pure_pre: "(C \<Longrightarrow> post P m Q) \<Longrightarrow> post (\<lambda>s. C \<and> P s) m Q" "(C \<Longrightarrow> post P m Q) \<Longrightarrow> post (\<lambda>s. P s \<and> C) m Q"
  by (auto simp: post_def)

text \<open>The end of an update: the Trove gets its raw amounts and its status and is saved.\<close>

lemma trove_saved:
  assumes "tr_id t = a" "tr_status t = status_of v a" "tr_collateral t = decimalize lib coll" "tr_debt t = decimalize lib debt"
    and "\<And>t'. tr_id t' = a \<Longrightarrow> tr_collateral t' = decimalize lib coll \<Longrightarrow> tr_debt t' = decimalize lib debt \<Longrightarrow>
      tr_status t' = st \<Longrightarrow> R (trove_books a tt st t' v)"
  shows "post (booked (v\<lparr>bk_counts := counted a v, bk_totals := tt\<rparr>))
    (bind_io (lift_io (set_raw lib g coll debt stake t)) (\<lambda>t.
     bind_io (setTroveStatus t st) (\<lambda>t. modify_io (\<lambda>s. s\<lparr>Trove := (Trove s)(tr_id t \<mapsto> t)\<rparr>))))
    (\<lambda>_ s. \<exists>w. R w \<and> booked w s)"
proof -
  let ?v = "v\<lparr>bk_counts := counted a v, bk_totals := tt\<rparr>"
  have lift: "post (booked ?v) (lift_io (set_raw lib g coll debt stake t)) (\<lambda>t' s. booked ?v s \<and> (tr_id t' = a
      \<and> tr_collateral t' = decimalize lib coll \<and> tr_debt t' = decimalize lib debt \<and> tr_status t' = status_of v a))"
    using assms(1-4) by (auto simp: post_def dest!: set_raw_keeps)
  show ?thesis
  proof (rule post_bind [OF lift], rule post_pure_pre, rule post_bind [OF post_status], rule post_pure_pre, goal_cases)
    case (1 t1 t2)
    then have "trove_books a tt st t2 v = (?v\<lparr>bk_counts := moved (tr_status t1) st (bk_counts ?v)\<rparr>)
        \<lparr>bk_troves := (bk_troves v)(tr_id t2 \<mapsto> t2)\<rparr>" and "R (trove_books a tt st t2 v)"
      using assms(5) [of t2] by (simp_all add: trove_books_def)
    then show ?case
      by - (rule post_weaken [OF post_save_Trove], auto)
  qed
qed

lemma trove_booked: "post (booked v) (updateTrove lib ev op a coll debt stake) (\<lambda>_. trove_after lib op a coll debt v)"
  unfolding updateTrove_def
proof (rule post_bind [OF booked_keeps], rule keeps_rules, rule post_getTrove, unfold Let_def, rule post_if, goal_cases)
  case (1 g t)
  then show ?case by (simp add: post_def trove_after_def)
next
  case (2 g t)
  let ?v = "v\<lparr>bk_counts := counted a v\<rparr>"
  have new: "\<not> (decimalize lib coll = coll_of v a \<and> decimalize lib debt = debt_of v a)"
    using 2 by simp
  have ref: "post (booked ?v) (if b then bind_io (getCurrentLiquidation ev) (\<lambda>l. return_io (Some (lq_id l))) else return_io None)
      (\<lambda>_. booked ?v)"
    "post (booked ?v) (if b then bind_io (getCurrentRedemption ev) (\<lambda>r. return_io (Some (rd_id r))) else return_io None)
      (\<lambda>_. booked ?v)" for b
    by (rule post_rules | rule steady_entities)+
  show ?case
  proof (rule post_bind [OF booked_keeps], intro keeps_rules, rule post_bind [OF booked_keeps], intro keeps_rules,
      rule post_bind, rule post_pure, rule post_bind, rule post_pure, rule post_bind, rule ref, rule post_bind, rule ref,
      rule post_seq [OF trove_bumped], rule post_exists, rule post_pure_pre, rule post_seq [OF booked_keeps],
      intro keeps_rules, goal_cases)
    case (1 c price before after l r tt)
    let ?d = "\<lparr>tc_trove = tr_id t, troveOperation = op, collateralBefore = tr_collateral t,
        collateralChange = bd_minus lib (decimalize lib coll) (tr_collateral t), collateralAfter = decimalize lib coll,
        debtBefore = tr_debt t, debtChange = bd_minus lib (decimalize lib debt) (tr_debt t),
        debtAfter = decimalize lib debt, borrowingFee = None, collateralRatioBefore = before,
        collateralRatioAfter = after, tc_liquidation = l, tc_redemption = r\<rparr>"
    have tt: "totals_after lib ?d (bk_totals v) tt"
      using 1 by simp
    show ?case
    proof (rule post_weaken [OF trove_saved [where R = "\<lambda>w. \<exists>t'. w = trove_books a tt (status_after op coll) t' v
          \<and> tr_id t' = a \<and> tr_collateral t' = decimalize lib coll \<and> tr_debt t' = decimalize lib debt
          \<and> tr_status t' = status_after op coll"]])
      fix x s
      assume "\<exists>w. (\<exists>t'. w = trove_books a tt (status_after op coll) t' v
          \<and> tr_id t' = a \<and> tr_collateral t' = decimalize lib coll \<and> tr_debt t' = decimalize lib debt
          \<and> tr_status t' = status_after op coll) \<and> booked w s"
      then obtain t' where t': "tr_id t' = a" "tr_collateral t' = decimalize lib coll" "tr_debt t' = decimalize lib debt"
          "tr_status t' = status_after op coll" "booked (trove_books a tt (status_after op coll) t' v) s"
        by blast
      show "trove_after lib op a coll debt v s"
        unfolding trove_after_def if_not_P [OF new]
        by (intro exI [of _ t'] exI [of _ tt] exI [of _ ?d]) (use t' tt 2 in simp)
    qed (use 2 in auto)
  qed
qed

end
