(* ===== verification/Subgraph_Sums.thy ===== *)
theory Subgraph_Sums
  imports Subgraph_Books
begin

text \<open>
  The totals of the current state of the system are the sums over the entities, and the counts of Troves are
  their numbers, as long as the amounts fit into the 34 digits that a \<open>BigDecimal\<close> keeps.
\<close>

section \<open>Exact amounts\<close>

text \<open>What \<open>BigDecimal\<close> promises: no digits are lost while there are at most 34 of them.\<close>

definition keeps_34_digits :: "graph_ts \<Rightarrow> bool" where
  "keeps_34_digits lib \<longleftrightarrow> (\<forall>n::int. \<bar>n\<bar> < 10 ^ 34 \<longrightarrow> bd_round lib (of_int n / 10 ^ 18) = of_int n / 10 ^ 18)"

definition whole :: "rat \<Rightarrow> bool" where
  "whole x \<longleftrightarrow> (\<exists>n::int. x = of_int n / 10 ^ 18)"

text \<open>An amount below \<open>10 ^ 16\<close>, in units of \<open>10 ^ -18\<close>.\<close>

definition fits :: "rat \<Rightarrow> bool" where
  "fits x \<longleftrightarrow> 0 \<le> x \<and> x < 10 ^ 16"

definition money :: "rat \<Rightarrow> bool" where
  "money x \<longleftrightarrow> whole x \<and> fits x"

lemma whole_simps [simp]:
  "whole 0" "whole x \<Longrightarrow> whole y \<Longrightarrow> whole (x + y)" "whole x \<Longrightarrow> whole y \<Longrightarrow> whole (x - y)"
proof -
  show "whole 0" by (auto simp: whole_def intro: exI [of _ 0])
  show "whole (x + y)" "whole (x - y)" if "whole x" "whole y"
    using that unfolding whole_def
    by (metis add_divide_distrib of_int_add, metis diff_divide_distrib of_int_diff)
qed

lemma money_0 [simp]: "money 0"
  by (simp add: money_def fits_def)

lemma round_exact:
  assumes "keeps_34_digits lib" and "whole x" and "\<bar>x\<bar> < 10 ^ 16"
  shows "bd_round lib x = x"
proof -
  obtain n :: int where n: "x = of_int n / 10 ^ 18" using assms(2) by (auto simp: whole_def)
  have "\<bar>of_int n :: rat\<bar> < 10 ^ 16 * 10 ^ 18"
    using assms(3) n by (simp add: abs_divide divide_less_eq)
  then have "of_int \<bar>n\<bar> < (of_int (10 ^ 34) :: rat)"
    by simp
  then have "\<bar>n\<bar> < 10 ^ 34"
    by (simp only: of_int_less_iff)
  then show ?thesis using assms(1) unfolding n keeps_34_digits_def by blast
qed

lemma decimalize_money:
  assumes "keeps_34_digits lib" and "0 \<le> n" and "n < 10 ^ 34"
  shows "decimalize lib n = of_int n / 10 ^ 18" and "money (decimalize lib n)"
proof -
  show d: "decimalize lib n = of_int n / 10 ^ 18"
    using assms by (simp add: decimalize_def DECIMAL_SCALING_FACTOR_def keeps_34_digits_def)
  have "(of_int n :: rat) < of_int (10 ^ 34)"
    using assms(3) by (simp only: of_int_less_iff)
  then have "(of_int n :: rat) < 10 ^ 16 * 10 ^ 18"
    by simp
  then show "money (decimalize lib n)"
    using assms(2) unfolding d money_def fits_def whole_def by (auto simp: divide_less_eq)
qed

lemma minus_exact: "keeps_34_digits lib \<Longrightarrow> money x \<Longrightarrow> money y \<Longrightarrow> bd_minus lib x y = x - y"
  by (auto simp: bd_minus_def money_def fits_def intro!: round_exact)

lemma plus_exact: "keeps_34_digits lib \<Longrightarrow> whole x \<Longrightarrow> whole y \<Longrightarrow> fits (x + y) \<Longrightarrow> bd_plus lib x y = x + y"
  by (auto simp: bd_plus_def fits_def intro!: round_exact)

lemma ssum_whole: "(\<And>k. whole (g k)) \<Longrightarrow> whole (ssum g)"
proof -
  assume g: "\<And>k. whole (g k)"
  have "whole (sum g A)" for A
    by (induction A rule: infinite_finite_induct) (use g in auto)
  then show ?thesis by (simp add: ssum_def)
qed

section \<open>Stakes and surplus\<close>

definition staked_sum :: "graph \<Rightarrow> rat" where
  "staked_sum s = (\<Sum>k\<in>dom (LqtyStake s). ls_amount (the (LqtyStake s k)))"

definition surplus_sum :: "graph \<Rightarrow> rat" where
  "surplus_sum s = (\<Sum>k\<in>dom (User s). u_collSurplus (the (User s k)))"

definition balanced :: "books \<Rightarrow> bool" where
  "balanced v \<longleftrightarrow> linked v \<and> (\<forall>k. money (amount v k)) \<and> (\<forall>k. money (bk_surplus v k))
     \<and> t_staked (bk_totals v) = ssum (amount v) \<and> t_surplus (bk_totals v) = ssum (bk_surplus v)"

lemma booked_sums:
  assumes "booked v s"
  shows "ssum (amount v) = staked_sum s" "ssum (bk_surplus v) = surplus_sum s"
    "finite {k. amount v k \<noteq> 0}" "finite {k. bk_surplus v k \<noteq> 0}"
  using ssum_table [of "LqtyStake s" ls_amount] ssum_table [of "User s" u_collSurplus] assms
  by (auto simp: booked_def books_of_def well_stored_def staked_sum_def surplus_sum_def amount_def [abs_def])

text \<open>The books after an event that changes neither stakes nor surplus.\<close>

definition same_shares :: "books \<Rightarrow> books \<Rightarrow> bool" where
  "same_shares v w \<longleftrightarrow> bk_stakes w = bk_stakes v \<and> bk_surplus w = bk_surplus v \<and> bk_pointer w = bk_pointer v
     \<and> t_staked (bk_totals w) = t_staked (bk_totals v) \<and> t_surplus (bk_totals w) = t_surplus (bk_totals v)"

lemma balanced_same: "same_shares v w \<Longrightarrow> balanced v \<Longrightarrow> balanced w"
  by (simp add: same_shares_def balanced_def linked_def amount_def [abs_def])

lemma trove_after_same: "trove_after lib op a coll debt v s \<Longrightarrow> \<exists>w. booked w s \<and> same_shares v w"
  by (fastforce simp: trove_after_def same_shares_def trove_books_def totals_after_def split: if_splits)

lemma redistribution_booked:
  "post (booked v) (applyRedistributionToTroveBeforeLiquidation lib ev a)
     (\<lambda>_ s. \<exists>coll debt. trove_after lib ''accrueRewards'' a coll debt (v\<lparr>bk_counts := counted a v\<rparr>) s)"
  unfolding applyRedistributionToTroveBeforeLiquidation_def
  by (rule post_bind [OF booked_keeps], rule keeps_rules, rule post_getTrove,
      rule post_bind [OF booked_keeps], rule keeps_rules, rule post_bind [OF booked_keeps], rule keeps_rules,
      rule post_bind, rule post_pure, rule post_bind, rule post_pure, rule post_weaken [OF trove_booked]) auto

lemma claim_balanced:
  assumes "keeps_34_digits lib" and "balanced v" and "booked v s" and "money new"
    and "booked (claim_books lib a new v) s'" and "fits (surplus_sum s')"
  shows "balanced (claim_books lib a new v)"
proof -
  let ?w = "claim_books lib a new v"
  have sum: "ssum (bk_surplus ?w) = ssum (bk_surplus v) - bk_surplus v a + new"
    using ssum_upd [OF booked_sums(4) [OF assms(3)]] by (simp add: claim_books_def)
  have money: "money (bk_surplus v a)" using assms(2) by (simp add: balanced_def)
  have "whole (ssum (bk_surplus v))"
    using assms(2) by (intro ssum_whole) (simp add: balanced_def money_def)
  moreover have "ssum (bk_surplus v) + (new - bk_surplus v a) = surplus_sum s'"
    using booked_sums(2) [OF assms(5)] sum by simp
  ultimately have "bd_plus lib (ssum (bk_surplus v)) (new - bk_surplus v a) = ssum (bk_surplus ?w)"
    using assms(1,4,6) money by (subst plus_exact) (auto simp: money_def sum)
  then show ?thesis
    using assms(1,2,4) minus_exact [OF assms(1,4) money]
    by (simp add: balanced_def claim_books_def linked_def amount_def [abs_def])
qed

lemma stake_balanced:
  assumes "keeps_34_digits lib" and "balanced v" and "booked v s" and "money (ls_amount x)" and "ls_id x = a"
    and d: "d = ls_amount x - amount v a"
    and "booked (stake_books lib d x v) s'" and "fits (staked_sum s')"
  shows "balanced (stake_books lib d x v)"
proof -
  let ?w = "stake_books lib d x v"
  have amount: "amount ?w = (amount v)(a := ls_amount x)"
    by (auto simp: amount_def stake_books_def assms(5) fun_eq_iff)
  then have sum: "ssum (amount ?w) = ssum (amount v) - amount v a + ls_amount x"
    using ssum_upd [OF booked_sums(3) [OF assms(3)]] by simp
  have money: "money (amount v a)" using assms(2) by (simp add: balanced_def)
  have "whole (ssum (amount v))"
    using assms(2) by (intro ssum_whole) (simp add: balanced_def money_def)
  moreover have "ssum (amount v) + d = staked_sum s'"
    using booked_sums(1) [OF assms(7)] sum by (simp add: d)
  ultimately have "bd_plus lib (ssum (amount v)) d = ssum (amount ?w)"
    using assms(1,4,8) money booked_sums(1) [OF assms(7)] by (subst plus_exact) (auto simp: money_def d)
  moreover have "linked ?w"
    using assms(2,5) by (auto simp: balanced_def linked_def stake_books_def)
  ultimately show ?thesis
    using assms(2,4) by (simp add: balanced_def amount) (simp add: stake_books_def)
qed

text \<open>The amounts of the events about stakes and surplus, and the sums after them, are within the range that is
  kept exactly.\<close>

fun shares_in_range :: "contract_event \<Rightarrow> bool" where
  "shares_in_range (CollSurplusPool_CollBalanceUpdated _ n) \<longleftrightarrow> 0 \<le> n \<and> n < 10 ^ 34"
| "shares_in_range (LQTYStaking_StakeChanged _ n) \<longleftrightarrow> 0 \<le> n \<and> n < 10 ^ 34"
| "shares_in_range _ \<longleftrightarrow> True"

definition shares_fit :: "graph \<Rightarrow> contract_event \<Rightarrow> graph \<Rightarrow> bool" where
  "shares_fit s e s' \<longleftrightarrow> shares_in_range e \<and> fits (staked_sum s') \<and> fits (surplus_sum s')"

lemma event_balanced:
  assumes lib: "keeps_34_digits lib" and v: "balanced v" "booked v s"
    and run: "handle lib ev e s = (Inr (), s')" and ok: "shares_fit s e s'"
  shows "\<exists>w. balanced w \<and> booked w s'"
proof (cases "about_books e")
  case False
  then show ?thesis
    using postD [OF steady_events [OF False] v(2) run] v(1) by blast
next
  case True
  have shares: "\<exists>w. balanced w \<and> booked w s'" if "\<exists>w. booked w s' \<and> same_shares v w"
    using that balanced_same v(1) by blast
  have link: "linked v" and amounts: "money (amount v a)" for a
    using v(1) by (simp_all add: balanced_def)
  show ?thesis
    using True
  proof (cases e)
    case (TroveManager_TroveUpdated a debt coll stake op)
    then show ?thesis
      using postD [OF trove_booked v(2)] run by (intro shares trove_after_same) auto
  next
    case (BorrowerOperations_TroveUpdated a debt coll stake op)
    then show ?thesis
      using postD [OF trove_booked v(2)] run by (intro shares trove_after_same) auto
  next
    case (TroveManager_TroveLiquidated a)
    then obtain coll debt where "trove_after lib ''accrueRewards'' a coll debt (v\<lparr>bk_counts := counted a v\<rparr>) s'"
      using postD [OF redistribution_booked v(2)] run by fastforce
    then show ?thesis
      by (intro shares) (auto dest!: trove_after_same simp: same_shares_def)
  next
    case (CollSurplusPool_CollBalanceUpdated a n)
    then have money: "money (decimalize lib n)"
      using ok decimalize_money(2) [OF lib] by (simp add: shares_fit_def)
    have "booked (if decimalize lib n = bk_surplus v a then v else claim_books lib a (decimalize lib n) v) s'"
      using postD [OF claim_booked v(2)] run CollSurplusPool_CollBalanceUpdated by simp
    then show ?thesis
      using v(1) claim_balanced [OF lib v money] ok by (auto simp: shares_fit_def split: if_splits)
  next
    case (LQTYStaking_StakeChanged a n)
    then have money: "money (decimalize lib n)"
      using ok decimalize_money(2) [OF lib] by (simp add: shares_fit_def)
    have "stake_after lib a (decimalize lib n) (bd_minus lib (decimalize lib n) (amount v a)) v s'"
      using postD [OF stake_booked [OF link] v(2)] run LQTYStaking_StakeChanged by simp
    then obtain x where x: "ls_id x = a" "ls_amount x = decimalize lib n"
        "booked (stake_books lib (decimalize lib n - amount v a) x v) s'"
      by (auto simp: stake_after_def minus_exact [OF lib money amounts])
    then show ?thesis
      using stake_balanced [OF lib v _ x(1) _ x(3)] money ok by (auto simp: shares_fit_def)
  next
    case (LQTYStaking_StakingGainsWithdrawn a m n)
    then consider "booked v s'" | "stake_after lib a (amount v a) 0 v s'"
      using postD [OF gains_booked [OF link] v(2)] run by fastforce
    then show ?thesis
    proof cases
      case 2
      then obtain x where x: "ls_id x = a" "ls_amount x = amount v a" "booked (stake_books lib 0 x v) s'"
        by (auto simp: stake_after_def)
      then show ?thesis
        using stake_balanced [OF lib v _ x(1) _ x(3)] amounts ok by (auto simp: shares_fit_def)
    qed (use v in blast)
  qed simp_all
qed

lemma start_booked: "booked (books_of empty_graph) empty_graph"
  by (simp add: booked_def well_stored_def empty_graph_def)

lemma start_balanced: "balanced (books_of empty_graph)"
  by (simp add: balanced_def books_of_def empty_graph_def linked_def amount_def [abs_def] totals_of_def cur_def gl_def
      new_Global_def new_SystemState_def ssum_def)

text \<open>In every state that the indexer reaches, the total of staked tokens of the current state of the system is
  the sum of the stakes of all stakers, and the balance of the surplus pool is the sum of the surplus of all users,
  provided the amounts reported and these sums stay below \<open>10 ^ 16\<close> tokens, so that the decimal numbers of the indexer
  lose no digits.\<close>

theorem shares_add_up:
  assumes "keeps_34_digits lib" and "indexed lib (\<lambda>_. shares_fit) s"
  shows "totalLQTYTokensStaked (cur s) = (\<Sum>k\<in>dom (LqtyStake s). ls_amount (the (LqtyStake s k)))
    \<and> collSurplusPoolBalance (cur s) = (\<Sum>k\<in>dom (User s). u_collSurplus (the (User s k)))"
proof -
  have "\<exists>v. balanced v \<and> booked v s"
    using assms(2)
  proof (induction rule: indexed.induct)
    case indexed_start
    show ?case using start_booked start_balanced by blast
  next
    case (indexed_event s ev e s')
    then show ?case using event_balanced [OF assms(1)] by blast
  qed
  then obtain v where v: "balanced v" "booked v s" by blast
  then have "bk_totals v = totals_of (cur s)" by (auto simp: booked_def books_of_def)
  then show ?thesis
    using v booked_sums(1,2) [OF v(2)] by (simp add: balanced_def totals_of_def staked_sum_def surplus_sum_def)
qed

end
