(* ===== verification/Subgraph_Troves.thy ===== *)
theory Subgraph_Troves
  imports Subgraph_Sums
begin

text \<open>
  The totals of collateral and debt against the Troves, and the counts of Troves by status.
\<close>

section \<open>Collateral and debt\<close>

definition collateral_sum :: "graph \<Rightarrow> rat" where
  "collateral_sum s = (\<Sum>k\<in>dom (Trove s). tr_collateral (the (Trove s k)))"

definition debt_sum :: "graph \<Rightarrow> rat" where
  "debt_sum s = (\<Sum>k\<in>dom (Trove s). tr_debt (the (Trove s k)))"

definition backed :: "books \<Rightarrow> bool" where
  "backed v \<longleftrightarrow> (\<forall>k. money (coll_of v k)) \<and> (\<forall>k. money (debt_of v k))
     \<and> t_collateral (bk_totals v) = ssum (coll_of v) \<and> t_debt (bk_totals v) = ssum (debt_of v)"

lemma booked_trove_sums:
  assumes "booked v s"
  shows "ssum (coll_of v) = collateral_sum s" "ssum (debt_of v) = debt_sum s"
    "finite {k. coll_of v k \<noteq> 0}" "finite {k. debt_of v k \<noteq> 0}"
  using ssum_table [of "Trove s" tr_collateral] ssum_table [of "Trove s" tr_debt] assms
  by (auto simp: booked_def books_of_def well_stored_def collateral_sum_def debt_sum_def coll_of_def [abs_def]
      debt_of_def [abs_def])

lemma total_after_change:
  assumes "keeps_34_digits lib" and "\<And>k. money (g k)" and "finite {k. g k \<noteq> 0}" and "money new"
    and "fits (ssum (g(a := new)))"
  shows "bd_plus lib (ssum g) (bd_minus lib new (g a)) = ssum (g(a := new))"
proof -
  have "ssum g + (new - g a) = ssum (g(a := new))"
    using ssum_upd [OF assms(3)] by simp
  then show ?thesis
    using assms ssum_whole [of g] minus_exact [OF assms(1,4) assms(2)]
    by (subst minus_exact [OF assms(1,4) assms(2)], subst plus_exact) (auto simp: money_def)
qed

fun only_owners :: "contract_event \<Rightarrow> bool" where
  "only_owners (TroveManager_TroveUpdated _ debt coll _ op) \<longleftrightarrow>
     op = 3 \<and> 0 \<le> coll \<and> coll < 10 ^ 34 \<and> 0 \<le> debt \<and> debt < 10 ^ 34"
| "only_owners (BorrowerOperations_TroveUpdated _ debt coll _ op) \<longleftrightarrow>
     0 \<le> op \<and> op \<le> 2 \<and> 0 \<le> coll \<and> coll < 10 ^ 34 \<and> 0 \<le> debt \<and> debt < 10 ^ 34"
| "only_owners (TroveManager_TroveLiquidated _) \<longleftrightarrow> False"
| "only_owners _ \<longleftrightarrow> True"

definition no_liquidations :: "graph \<Rightarrow> contract_event \<Rightarrow> graph \<Rightarrow> bool" where
  "no_liquidations s e s' \<longleftrightarrow> only_owners e \<and> fits (collateral_sum s') \<and> fits (debt_sum s')"

lemma trove_backed:
  assumes lib: "keeps_34_digits lib" and v: "backed v" "booked v s"
    and range: "0 \<le> coll" "coll < 10 ^ 34" "0 \<le> debt" "debt < 10 ^ 34"
    and op: "isBorrowerOperation op \<or> isRedemption op"
    and after: "trove_after lib op a coll debt v s'" and fits: "fits (collateral_sum s')" "fits (debt_sum s')"
  shows "\<exists>w. backed w \<and> booked w s'"
proof (cases "decimalize lib coll = coll_of v a \<and> decimalize lib debt = debt_of v a")
  case True
  then have "booked (v\<lparr>bk_counts := counted a v\<rparr>) s'" using after by (simp add: trove_after_def)
  moreover have "backed (v\<lparr>bk_counts := counted a v\<rparr>)"
    using v(1) by (simp add: backed_def coll_of_def [abs_def] debt_of_def [abs_def])
  ultimately show ?thesis by blast
next
  case False
  then obtain t tt d where t: "tr_id t = a" "tr_collateral t = decimalize lib coll" "tr_debt t = decimalize lib debt"
    and tt: "totals_after lib d (bk_totals v) tt" "troveOperation d = op"
      "collateralChange d = bd_minus lib (decimalize lib coll) (coll_of v a)"
      "debtChange d = bd_minus lib (decimalize lib debt) (debt_of v a)"
    and w: "booked (trove_books a tt (status_after op coll) t v) s'"
    using after unfolding trove_after_def if_not_P [OF False] by blast
  let ?w = "trove_books a tt (status_after op coll) t v"
  have of: "coll_of ?w = (coll_of v)(a := decimalize lib coll)" "debt_of ?w = (debt_of v)(a := decimalize lib debt)"
    by (auto simp: coll_of_def debt_of_def trove_books_def t fun_eq_iff)
  have money: "money (decimalize lib coll)" "money (decimalize lib debt)"
    using decimalize_money(2) [OF lib] range by blast+
  have "t_collateral tt = ssum (coll_of ?w)" "t_debt tt = ssum (debt_of ?w)"
    using tt op v(1) total_after_change [OF lib _ booked_trove_sums(3) [OF v(2)] money(1)]
      total_after_change [OF lib _ booked_trove_sums(4) [OF v(2)] money(2)]
      booked_trove_sums(1,2) [OF w] fits
    by (auto simp: totals_after_def backed_def of)
  then have "backed ?w"
    using v(1) money by (simp add: backed_def of) (simp add: trove_books_def)
  then show ?thesis using w by blast
qed

definition same_troves :: "books \<Rightarrow> books \<Rightarrow> bool" where
  "same_troves v w \<longleftrightarrow> bk_troves w = bk_troves v \<and> t_collateral (bk_totals w) = t_collateral (bk_totals v)
     \<and> t_debt (bk_totals w) = t_debt (bk_totals v) \<and> bk_counts w = bk_counts v"

text \<open>Events about stakes and surplus do not touch the Troves.\<close>

lemma stake_books_same: "same_troves v (stake_books lib d x v)" "same_troves v (claim_books lib a n v)"
  by (simp_all add: same_troves_def stake_books_def claim_books_def)

fun about_troves :: "contract_event \<Rightarrow> bool" where
  "about_troves (TroveManager_TroveUpdated _ _ _ _ _) = True"
| "about_troves (TroveManager_TroveLiquidated _) = True"
| "about_troves (BorrowerOperations_TroveUpdated _ _ _ _ _) = True"
| "about_troves _ = False"

lemma linked_stake: "linked v \<Longrightarrow> linked (stake_books lib d x v)"
  by (auto simp: linked_def stake_books_def)

lemma other_events:
  assumes v: "booked v s" "linked v" and run: "handle lib ev e s = (Inr (), s')" and e: "\<not> about_troves e"
  shows "\<exists>w. booked w s' \<and> linked w \<and> same_troves v w"
proof (cases "about_books e")
  case False
  then show ?thesis
    using postD [OF steady_events [OF False] v(1) run] v(2) by (auto simp: same_troves_def)
next
  case True
  have stake: ?thesis if "stake_after lib a new d v s'" for a new d
    using that linked_stake [OF v(2)] stake_books_same(1) by (auto simp: stake_after_def)
  show ?thesis
    using True e
  proof (cases e)
    case (CollSurplusPool_CollBalanceUpdated a n)
    have "linked (claim_books lib a (decimalize lib n) v)"
      using v(2) by (simp add: linked_def claim_books_def)
    then show ?thesis
      using postD [OF claim_booked v(1)] run CollSurplusPool_CollBalanceUpdated v(2) stake_books_same(2)
      by (fastforce simp: same_troves_def split: if_splits)
  next
    case (LQTYStaking_StakeChanged a n)
    then show ?thesis using postD [OF stake_booked [OF v(2)] v(1)] run by (intro stake) simp
  next
    case (LQTYStaking_StakingGainsWithdrawn a m n)
    then consider "booked v s'" | "stake_after lib a (amount v a) 0 v s'"
      using postD [OF gains_booked [OF v(2)] v(1)] run by fastforce
    then show ?thesis using v(2) stake by cases (auto simp: same_troves_def)
  qed simp_all
qed

text \<open>What an event about a Trove does, and that it leaves the links between users and stakes alone.\<close>

lemma trove_events:
  assumes v: "booked v s" and run: "handle lib ev e s = (Inr (), s')"
  shows "e = TroveManager_TroveUpdated a debt coll stake op \<Longrightarrow>
      trove_after lib (getTroveOperationFromTroveManagerOperation op) a coll debt v s'"
    and "e = BorrowerOperations_TroveUpdated a debt coll stake op \<Longrightarrow>
      trove_after lib (getTroveOperationFromBorrowerOperation op) a coll debt v s'"
    and "e = TroveManager_TroveLiquidated a \<Longrightarrow>
      \<exists>coll debt. trove_after lib ''accrueRewards'' a coll debt (v\<lparr>bk_counts := counted a v\<rparr>) s'"
  using postD [OF trove_booked v] postD [OF redistribution_booked v] run by simp_all

lemma booked_unique: "booked v s \<Longrightarrow> booked w s \<Longrightarrow> v = w"
  by (simp add: booked_def)

lemma trove_after_linked: "trove_after lib op a coll debt v s \<Longrightarrow> linked v \<Longrightarrow> booked w s \<Longrightarrow> linked w"
proof -
  assume after: "trove_after lib op a coll debt v s" and "linked v" and w: "booked w s"
  obtain w' where "booked w' s" "same_shares v w'" using trove_after_same [OF after] by blast
  then have "same_shares v w" using booked_unique [OF w] by simp
  then show "linked w" using \<open>linked v\<close> by (simp add: same_shares_def linked_def)
qed

lemma start_linked: "linked (books_of empty_graph)"
  by (simp add: linked_def books_of_def empty_graph_def)

lemma start_backed: "backed (books_of empty_graph)"
  by (simp add: backed_def books_of_def empty_graph_def coll_of_def [abs_def] debt_of_def [abs_def] totals_of_def
      cur_def gl_def new_Global_def new_SystemState_def ssum_def)

lemma event_backed:
  assumes lib: "keeps_34_digits lib" and v: "booked v s" "linked v" "backed v"
    and run: "handle lib ev e s = (Inr (), s')" and ok: "no_liquidations s e s'"
  shows "\<exists>w. booked w s' \<and> linked w \<and> backed w"
proof (cases "about_troves e")
  case False
  have "backed w" if "same_troves v w" for w
    using that v(3) by (simp add: same_troves_def backed_def coll_of_def [abs_def] debt_of_def [abs_def])
  then show ?thesis using other_events [OF v(1,2) run False] by blast
next
  case True
  note ops = getTroveOperationFromTroveManagerOperation_def getTroveOperationFromBorrowerOperation_def
    isBorrowerOperation_def isRedemption_def
  have trove: ?thesis
    if "trove_after lib op a coll debt v s'" "isBorrowerOperation op \<or> isRedemption op"
      "0 \<le> coll" "coll < 10 ^ 34" "0 \<le> debt" "debt < 10 ^ 34" for op a coll debt
    using trove_backed [OF lib v(3,1) that(3-6,2,1)] trove_after_linked [OF that(1) v(2)] ok
    by (auto simp: no_liquidations_def)
  show ?thesis
    using True
  proof (cases e)
    case (TroveManager_TroveUpdated a debt coll stake op)
    then show ?thesis
      using ok trove_events(1) [OF v(1) run] by (intro trove [of _ a coll debt]) (auto simp: no_liquidations_def ops)
  next
    case (BorrowerOperations_TroveUpdated a debt coll stake op)
    then have "op = 0 \<or> op = 1 \<or> op = 2"
      using ok by (auto simp: no_liquidations_def)
    then show ?thesis
      using ok trove_events(2) [OF v(1) run] BorrowerOperations_TroveUpdated
      by (intro trove [of _ a coll debt]) (auto simp: no_liquidations_def ops)
  qed (use ok in \<open>simp_all add: no_liquidations_def\<close>)
qed

text \<open>C32: as long as Troves are changed by their owners and by redemptions only, the total collateral and the total
  debt of the current state of the system are the sums over all Troves.\<close>

theorem troves_add_up:
  assumes "keeps_34_digits lib" and "indexed lib (\<lambda>_. no_liquidations) s"
  shows "totalCollateral (cur s) = (\<Sum>k\<in>dom (Trove s). tr_collateral (the (Trove s k)))
    \<and> totalDebt (cur s) = (\<Sum>k\<in>dom (Trove s). tr_debt (the (Trove s k)))"
proof -
  have "\<exists>v. booked v s \<and> linked v \<and> backed v"
    using assms(2)
  proof (induction rule: indexed.induct)
    case indexed_start
    show ?case using start_booked start_linked start_backed by blast
  next
    case (indexed_event s ev e s')
    then show ?case using event_backed [OF assms(1)] by blast
  qed
  then obtain v where v: "booked v s" "backed v" by blast
  then have "bk_totals v = totals_of (cur s)" by (auto simp: booked_def books_of_def)
  then show ?thesis
    using v booked_trove_sums(1,2) [OF v(1)] by (simp add: backed_def totals_of_def collateral_sum_def debt_sum_def)
qed

section \<open>The census of Troves\<close>

lemma booked_troves: "booked v s \<Longrightarrow> bk_troves v = Trove s"
  by (auto simp: booked_def books_of_def)

definition with_status :: "string \<Rightarrow> books \<Rightarrow> string \<Rightarrow> rat" where
  "with_status st v k = (case bk_troves v k of None \<Rightarrow> 0 | Some t \<Rightarrow> if tr_status t = st then 1 else 0)"

definition statuses :: "string list" where
  "statuses = [''open'', ''closedByOwner'', ''closedByLiquidation'', ''closedByRedemption'']"

definition census :: "(string \<Rightarrow> rat) \<Rightarrow> rat \<Rightarrow> counts \<Rightarrow> bool" where
  "census num tot c \<longleftrightarrow> of_int (n_open c) = num ''open'' \<and> of_int (n_closedByOwner c) = num ''closedByOwner''
     \<and> of_int (n_liquidated c) = num ''closedByLiquidation'' \<and> of_int (n_redeemed c) = num ''closedByRedemption''
     \<and> of_int (n_total c) = tot"

definition surveyed :: "books \<Rightarrow> bool" where
  "surveyed v \<longleftrightarrow> census (\<lambda>st. ssum (with_status st v)) (of_nat (card (dom (bk_troves v)))) (bk_counts v)
     \<and> (\<forall>k t. bk_troves v k = Some t \<longrightarrow> tr_status t \<in> set statuses
          \<and> (tr_status t \<noteq> ''open'' \<longrightarrow> tr_collateral t = 0 \<and> tr_debt t = 0))"

lemma with_status_finite: "booked v s \<Longrightarrow> finite {k. with_status st v k \<noteq> 0}" "booked v s \<Longrightarrow> finite (dom (bk_troves v))"
  using ssum_table(2) [of "Trove s" "\<lambda>t. if tr_status t = st then 1 else 0"]
  by (auto simp: booked_def books_of_def well_stored_def with_status_def)

text \<open>A new Trove is counted as an open one.\<close>

lemma census_counted:
  "census num tot (bk_counts v) \<Longrightarrow>
   census (\<lambda>st. num st + (if bk_troves v a = None \<and> st = ''open'' then 1 else 0))
     (tot + (if bk_troves v a = None then 1 else 0)) (counted a v)"
  by (simp add: census_def counted_def)

text \<open>Moving a Trove from one status to another, of which one is \<open>open\<close>.\<close>

lemma census_moved:
  assumes "census num tot c" and "old = ''open'' \<or> new = ''open''" and "old \<in> set statuses" and "new \<in> set statuses"
  shows "census (\<lambda>st. num st - (if st = old then 1 else 0) + (if st = new then 1 else 0)) tot (moved old new c)"
proof -
  have four: "x = ''open'' \<or> x = ''closedByOwner'' \<or> x = ''closedByLiquidation'' \<or> x = ''closedByRedemption''"
    if "x \<in> set statuses" for x
    using that by (simp add: statuses_def)
  from assms(2) show ?thesis
  proof
    assume "old = ''open''"
    then show ?thesis using four [OF assms(4)] assms(1) by (elim disjE) (simp_all add: census_def moved_def)
  next
    assume "new = ''open''"
    then show ?thesis using four [OF assms(3)] assms(1) by (elim disjE) (simp_all add: census_def moved_def)
  qed
qed

lemma trove_surveyed:
  assumes v: "booked v s" "surveyed v" and after: "trove_after lib op a coll debt v s'" and w: "booked w s'"
    and new: "bk_troves v a = None \<Longrightarrow> \<not> (decimalize lib coll = 0 \<and> decimalize lib debt = 0)"
    and move: "status_of v a = ''open'' \<or> status_after op coll = ''open''
      \<or> decimalize lib coll = coll_of v a \<and> decimalize lib debt = debt_of v a"
    and closed: "status_after op coll \<noteq> ''open'' \<Longrightarrow> decimalize lib coll = 0 \<and> decimalize lib debt = 0"
  shows "surveyed w"
proof (cases "decimalize lib coll = coll_of v a \<and> decimalize lib debt = debt_of v a")
  case True
  then have "bk_troves v a \<noteq> None" using new by (auto simp: coll_of_def debt_of_def)
  then have "counted a v = bk_counts v" by (simp add: counted_def)
  then have "w = v" using True after w booked_unique by (auto simp: trove_after_def)
  then show ?thesis using v by simp
next
  case False
  then obtain t tt where t: "tr_id t = a" "tr_collateral t = decimalize lib coll" "tr_debt t = decimalize lib debt"
      "tr_status t = status_after op coll" and "booked (trove_books a tt (status_after op coll) t v) s'"
    using after unfolding trove_after_def if_not_P [OF False] by blast
  then have w: "w = trove_books a tt (status_after op coll) t v" using w booked_unique by blast
  let ?old = "status_of v a" and ?new = "status_after op coll"
  have old: "?old \<in> set statuses"
    using v(2) by (auto simp: surveyed_def status_of_def statuses_def split: option.splits)
  have new: "?new \<in> set statuses" by (auto simp: status_after_def statuses_def)
  have "census (\<lambda>st. ssum (with_status st v)) (of_nat (card (dom (bk_troves v)))) (bk_counts v)"
    using v(2) by (simp add: surveyed_def)
  moreover have "?old = ''open'' \<or> ?new = ''open''" using False move by blast
  ultimately have "census (\<lambda>st. ssum (with_status st v) + (if bk_troves v a = None \<and> st = ''open'' then 1 else 0)
        - (if st = ?old then 1 else 0) + (if st = ?new then 1 else 0))
      (of_nat (card (dom (bk_troves v))) + (if bk_troves v a = None then 1 else 0)) (moved ?old ?new (counted a v))"
    by (intro census_moved census_counted old new)
  then have counts: "census (\<lambda>st. ssum (with_status st v) + (if bk_troves v a = None \<and> st = ''open'' then 1 else 0)
        - (if st = ?old then 1 else 0) + (if st = ?new then 1 else 0))
      (of_nat (card (dom (bk_troves v))) + (if bk_troves v a = None then 1 else 0)) (bk_counts w)"
    unfolding w trove_books_def by simp
  have "ssum (with_status st w) = ssum (with_status st v) + (if bk_troves v a = None \<and> st = ''open'' then 1 else 0)
      - (if st = ?old then 1 else 0) + (if st = ?new then 1 else 0)" for st
  proof -
    have "with_status st w = (with_status st v)(a := if st = ?new then 1 else 0)"
      using t(4) by (auto simp: with_status_def w trove_books_def fun_eq_iff)
    moreover have "with_status st v a =
        (if st = ?old then 1 else 0) - (if bk_troves v a = None \<and> st = ''open'' then 1 else 0)"
      by (auto simp: with_status_def status_of_def split: option.splits)
    ultimately show ?thesis
      using ssum_upd [OF with_status_finite(1) [OF v(1)], of st a] by simp
  qed
  moreover have "of_nat (card (dom (bk_troves w))) = (of_nat (card (dom (bk_troves v))) :: rat)
      + (if bk_troves v a = None then 1 else 0)"
    using with_status_finite(2) [OF v(1)] by (auto simp: w trove_books_def card_insert_if domIff)
  moreover have "\<forall>k t'. bk_troves w k = Some t' \<longrightarrow> tr_status t' \<in> set statuses
      \<and> (tr_status t' \<noteq> ''open'' \<longrightarrow> tr_collateral t' = 0 \<and> tr_debt t' = 0)"
    using v(2) t new closed by (simp add: surveyed_def w trove_books_def)
  ultimately show ?thesis
    using counts by (simp add: surveyed_def)
qed

text \<open>Reports of Troves as the contracts make them: the first report of a Trove has collateral, one without collateral
  has no debt, and a Trove that is reported as liquidated is open and stays so until the report that closes it.\<close>

fun plausible :: "graph \<Rightarrow> contract_event \<Rightarrow> graph \<Rightarrow> bool" where
  "plausible s (TroveManager_TroveUpdated a debt coll _ _) s' \<longleftrightarrow> 0 \<le> coll \<and> coll < 10 ^ 34 \<and> 0 \<le> debt \<and> debt < 10 ^ 34
     \<and> (coll = 0 \<longrightarrow> debt = 0) \<and> (Trove s a = None \<longrightarrow> coll \<noteq> 0)"
| "plausible s (BorrowerOperations_TroveUpdated a debt coll _ _) s' \<longleftrightarrow> 0 \<le> coll \<and> coll < 10 ^ 34 \<and> 0 \<le> debt \<and> debt < 10 ^ 34
     \<and> (coll = 0 \<longrightarrow> debt = 0) \<and> (Trove s a = None \<longrightarrow> coll \<noteq> 0)"
| "plausible s (TroveManager_TroveLiquidated a) s' \<longleftrightarrow>
     (\<exists>t. Trove s a = Some t \<and> tr_status t = ''open'') \<and> (\<exists>t. Trove s' a = Some t \<and> tr_status t = ''open'')"
| "plausible s _ s' \<longleftrightarrow> True"

lemma decimalize_0_iff: "keeps_34_digits lib \<Longrightarrow> 0 \<le> n \<Longrightarrow> n < 10 ^ 34 \<Longrightarrow> decimalize lib n = 0 \<longleftrightarrow> n = 0"
  by (simp add: decimalize_money(1))

lemma update_surveyed:
  assumes lib: "keeps_34_digits lib" and v: "booked v s" "surveyed v" and after: "trove_after lib op a coll debt v s'"
    and w: "booked w s'" and range: "0 \<le> coll" "coll < 10 ^ 34" "0 \<le> debt" "debt < 10 ^ 34" "coll = 0 \<longrightarrow> debt = 0"
    and first: "Trove s a = None \<longrightarrow> coll \<noteq> 0"
  shows "surveyed w"
proof (rule trove_surveyed [OF v after w])
  note zero = decimalize_0_iff [OF lib range(1,2)] decimalize_0_iff [OF lib range(3,4)]
  have troves: "bk_troves v = Trove s" using v(1) by (auto simp: booked_def books_of_def)
  show "\<not> (decimalize lib coll = 0 \<and> decimalize lib debt = 0)" if "bk_troves v a = None"
    using that first zero troves by simp
  show "decimalize lib coll = 0 \<and> decimalize lib debt = 0" if "status_after op coll \<noteq> ''open''"
    using that range(5) zero by (auto simp: status_after_def split: if_splits)
  have "coll_of v a = 0 \<and> debt_of v a = 0" if "status_of v a \<noteq> ''open''"
    using that v(2) by (auto simp: status_of_def surveyed_def coll_of_def debt_of_def split: option.splits)
  then show "status_of v a = ''open'' \<or> status_after op coll = ''open''
      \<or> decimalize lib coll = coll_of v a \<and> decimalize lib debt = debt_of v a"
    using zero range(5) by (auto simp: status_after_def)
qed

lemma liquidated_surveyed:
  assumes v: "booked v s" "surveyed v" and open_before: "Trove s a = Some t" "tr_status t = ''open''"
    and after: "trove_after lib op a coll debt v s'" and w: "booked w s'"
    and open_after: "Trove s' a = Some t'" "tr_status t' = ''open''"
  shows "surveyed w"
proof (cases "decimalize lib coll = coll_of v a \<and> decimalize lib debt = debt_of v a")
  case True
  have "bk_troves v a \<noteq> None" using v(1) open_before by (auto simp: booked_def books_of_def)
  then have "counted a v = bk_counts v" by (simp add: counted_def)
  then have "w = v" using True after w booked_unique by (auto simp: trove_after_def)
  then show ?thesis using v by simp
next
  case False
  obtain t2 tt where "tr_status t2 = status_after op coll" and b: "booked (trove_books a tt (status_after op coll) t2 v) s'"
    using after unfolding trove_after_def if_not_P [OF False] by blast
  moreover have "bk_troves (trove_books a tt (status_after op coll) t2 v) = Trove s'"
    using booked_troves [OF b] .
  ultimately have open_new: "status_after op coll = ''open''"
    using open_after by (auto simp: trove_books_def fun_eq_iff split: if_splits)
  have old: "status_of v a = ''open''" "bk_troves v a \<noteq> None"
    using v(1) open_before by (auto simp: booked_def books_of_def status_of_def)
  show ?thesis
    by (rule trove_surveyed [OF v after w]) (use open_new old in auto)
qed

lemma event_surveyed:
  assumes lib: "keeps_34_digits lib" and v: "booked v s" "linked v" "surveyed v"
    and run: "handle lib ev e s = (Inr (), s')" and ok: "plausible s e s'"
  shows "\<exists>w. booked w s' \<and> linked w \<and> surveyed w"
proof (cases "about_troves e")
  case False
  have "surveyed w" if "same_troves v w" for w
    using that v(3) by (simp add: same_troves_def surveyed_def with_status_def [abs_def])
  then show ?thesis using other_events [OF v(1,2) run False] by blast
next
  case True
  have trove: ?thesis if "trove_after lib op a coll debt v s'" "\<And>w. booked w s' \<Longrightarrow> surveyed w" for op a coll debt
    using trove_after_same [OF that(1)] trove_after_linked [OF that(1) v(2)] that(2) by blast
  show ?thesis
    using True
  proof (cases e)
    case (TroveManager_TroveUpdated a debt coll stake op)
    show ?thesis
      by (rule trove [OF trove_events(1) [OF v(1) run TroveManager_TroveUpdated]],
          rule update_surveyed [OF lib v(1,3) trove_events(1) [OF v(1) run TroveManager_TroveUpdated]])
        (use ok TroveManager_TroveUpdated in simp_all)
  next
    case (BorrowerOperations_TroveUpdated a debt coll stake op)
    show ?thesis
      by (rule trove [OF trove_events(2) [OF v(1) run BorrowerOperations_TroveUpdated]],
          rule update_surveyed [OF lib v(1,3) trove_events(2) [OF v(1) run BorrowerOperations_TroveUpdated]])
        (use ok BorrowerOperations_TroveUpdated in simp_all)
  next
    case (TroveManager_TroveLiquidated a)
    then obtain t t' where t: "Trove s a = Some t" "tr_status t = ''open''" "Trove s' a = Some t'" "tr_status t' = ''open''"
      using ok by auto
    then have "counted a v = bk_counts v"
      using v(1) by (auto simp: booked_def books_of_def counted_def)
    then obtain coll debt where after: "trove_after lib ''accrueRewards'' a coll debt v s'"
      using trove_events(3) [OF v(1) run TroveManager_TroveLiquidated] by auto
    show ?thesis
      by (rule trove [OF after], rule liquidated_surveyed [OF v(1,3) t(1,2) after _ t(3,4)])
  qed simp_all
qed

lemma start_surveyed: "surveyed (books_of empty_graph)"
  by (simp add: surveyed_def census_def books_of_def empty_graph_def with_status_def [abs_def] ssum_def counts_of_def
      gl_def new_Global_def)

lemma status_count: "booked v s \<Longrightarrow> ssum (with_status st v) = of_nat (card {k. \<exists>t. Trove s k = Some t \<and> tr_status t = st})"
proof -
  assume v: "booked v s"
  have "{k. with_status st v k \<noteq> 0} = {k. \<exists>t. Trove s k = Some t \<and> tr_status t = st}"
    by (auto simp: with_status_def booked_troves [OF v] split: option.splits)
  moreover have "(\<Sum>k | with_status st v k \<noteq> 0. with_status st v k) = (\<Sum>k | with_status st v k \<noteq> 0. 1)"
    by (rule sum.cong) (auto simp: with_status_def split: option.splits if_splits)
  ultimately show ?thesis by (simp add: ssum_def)
qed

text \<open>C31: in every state that the indexer reaches by plausible reports, the global entity has the right counts: the
  numbers of open Troves, of those closed by their owner, by liquidation and by redemption, and of all Troves
  are the numbers of Trove entities of that status; and a closed Trove has neither collateral nor debt.\<close>

theorem trove_census:
  assumes "keeps_34_digits lib" and "indexed lib (\<lambda>_. plausible) s"
  shows "numberOfOpenTroves (gl s) = int (card {k. \<exists>t. Trove s k = Some t \<and> tr_status t = ''open''})
    \<and> numberOfTrovesClosedByOwner (gl s) = int (card {k. \<exists>t. Trove s k = Some t \<and> tr_status t = ''closedByOwner''})
    \<and> numberOfLiquidatedTroves (gl s) = int (card {k. \<exists>t. Trove s k = Some t \<and> tr_status t = ''closedByLiquidation''})
    \<and> numberOfRedeemedTroves (gl s) = int (card {k. \<exists>t. Trove s k = Some t \<and> tr_status t = ''closedByRedemption''})
    \<and> totalNumberOfTroves (gl s) = int (card (dom (Trove s)))
    \<and> (\<forall>k t. Trove s k = Some t \<longrightarrow> tr_status t = ''open'' \<or> tr_collateral t = 0 \<and> tr_debt t = 0)"
proof -
  have "\<exists>v. booked v s \<and> linked v \<and> surveyed v"
    using assms(2)
  proof (induction rule: indexed.induct)
    case indexed_start
    show ?case using start_booked start_linked start_surveyed by blast
  next
    case (indexed_event s ev e s')
    then show ?case using event_surveyed [OF assms(1)] by blast
  qed
  then obtain v where v: "booked v s" "surveyed v" by blast
  have counts: "bk_counts v = counts_of (gl s)"
    using v(1) by (auto simp: booked_def books_of_def)
  have int: "of_int i = (of_nat n :: rat) \<Longrightarrow> i = int n" for i n
    by (metis of_int_eq_iff of_int_of_nat_eq)
  from v(2) show ?thesis
    unfolding surveyed_def census_def status_count [OF v(1)] counts booked_troves [OF v(1)]
    by (auto simp: counts_of_def dest!: int)
qed

end
