(* ===== verification/Subgraph_Tokens.thy ===== *)
theory Subgraph_Tokens
  imports Subgraph_Props
begin

text \<open>
  Tokens: the supply of a token is the sum of its balances.
\<close>

section \<open>Supply\<close>

definition ledger :: "graph \<Rightarrow> _" where
  "ledger s = (Token s, TokenBalance s)"

lemma keeps_ledger_Global: "keeps ledger (update_Global f)" "keeps ledger (increaseCounter g h)" "keeps ledger getGlobal"
  by (simp_all add: keeps_def ledger_def)

lemma keeps_ledger_modify [keeps_rules]:
  "keeps ledger (modify_io (\<lambda>s. s\<lparr>Transaction := f1 s\<rparr>))" "keeps ledger (modify_io (\<lambda>s. s\<lparr>Frontend := f2 s\<rparr>))"
  "keeps ledger (modify_io (\<lambda>s. s\<lparr>PriceChange := f3 s\<rparr>))" "keeps ledger (modify_io (\<lambda>s. s\<lparr>CollSurplusChange := f4 s\<rparr>))"
  "keeps ledger (modify_io (\<lambda>s. s\<lparr>LqtyStakeChange := f5 s\<rparr>))" "keeps ledger (modify_io (\<lambda>s. s\<lparr>User := f6 s\<rparr>))"
  "keeps ledger (modify_io (\<lambda>s. s\<lparr>StabilityDepositChange := f7 s\<rparr>))" "keeps ledger (modify_io (\<lambda>s. s\<lparr>Trove := f8 s\<rparr>))"
  "keeps ledger (modify_io (\<lambda>s. s\<lparr>SystemState := f9 s\<rparr>))" "keeps ledger (modify_io (\<lambda>s. s\<lparr>TroveChange := g1 s\<rparr>))"
  "keeps ledger (modify_io (\<lambda>s. s\<lparr>Liquidation := g2 s\<rparr>))" "keeps ledger (modify_io (\<lambda>s. s\<lparr>Redemption := g3 s\<rparr>))"
  "keeps ledger (modify_io (\<lambda>s. s\<lparr>StabilityDeposit := g4 s\<rparr>))" "keeps ledger (modify_io (\<lambda>s. s\<lparr>LqtyStake := g5 s\<rparr>))"
  "keeps ledger (modify_io (\<lambda>s. s\<lparr>TokenAllowance := g6 s\<rparr>))"
  by (simp_all add: keeps_def ledger_def)

lemmas counter_defs =
  getSystemStateSequenceNumber_def getTransactionSequenceNumber_def getChangeSequenceNumber_def
  getLastChangeSequenceNumber_def getLiquidationSequenceNumber_def getRedemptionSequenceNumber_def
  updateTotalRedistributed_def increaseNumberOfOpenTroves_def increaseNumberOfLiquidatedTroves_def
  decreaseNumberOfLiquidatedTroves_def increaseNumberOfRedeemedTroves_def decreaseNumberOfRedeemedTroves_def
  increaseNumberOfTrovesClosedByOwner_def decreaseNumberOfTrovesClosedByOwner_def
  increaseTotalNumberOfLQTYStakes_def increaseNumberOfActiveLQTYStakes_def decreaseNumberOfActiveLQTYStakes_def
  increaseTotalBorrowingFeesPaid_def

lemmas entity_defs =
  getUser_def save_User_def getTransaction_def save_SystemState_def getCurrentSystemState_def bumpSystemState_def
  save_Liquidation_def save_Redemption_def getCurrentLiquidation_def getCurrentRedemption_def getTrove_def
  setTroveStatus_def save_TroveChange_def getStabilityDeposit_def save_StabilityDeposit_def getUserStake_def
  createStake_def save_LqtyStake_def save_TokenAllowance_def getTokenAllowance_def redistributed_def

lemmas change_defs =
  create_change_def beginChange_def initChange_def finishChange_def createPriceChange_def createCollSurplusChange_def
  createTroveChange_def createStabilityDepositChange_def startLQTYStakeChange_def finishPriceChange_def
  finishCollSurplusChange_def finishTroveChange_def finishStabilityDepositChange_def finishLQTYStakeChange_def
  getCurrentPrice_def updateSystemStateByTroveChange_def updateSystemStateByStabilityDepositChange_def
  updateSystemStateByCollSurplusChange_def updateSystemStateByLqtyStakeChange_def

lemmas update_defs =
  updatePrice_def updateUserClaimColl_def finishCurrentLiquidation_def finishCurrentRedemption_def updateTrove_def
  setBorrowingFeeOfLastTroveChange_def applyRedistributionToTroveBeforeLiquidation_def
  updateStabilityDepositByOperation_def updateStabilityDeposit_def withdrawCollateralGainFromStabilityDeposit_def
  registerFrontend_def assignFrontendToDepositor_def updateStake_def withdrawStakeGains_def updateAllowance_def
  swapTmpDepositUpdate_def handleUserDepositChanged_def handleCollateralGainWithdrawn_def
  handleLUSDBorrowingFeePaid_def

fun about_tokens :: "contract_event \<Rightarrow> bool" where
  "about_tokens (Token_Transfer _ _ _) = True"
| "about_tokens _ = False"

lemma other_ledger: "\<not> about_tokens e \<Longrightarrow> keeps ledger (handle lib ev e)"
  by (cases e; simp only: handle.simps about_tokens.simps not_True_eq_False)
    (unfold update_defs change_defs entity_defs counter_defs Let_def, (intro keeps_rules keeps_ledger_Global; fail)+)

definition supply_of :: "graph \<Rightarrow> string \<Rightarrow> int" where
  "supply_of s a = (case Token s a of None \<Rightarrow> 0 | Some t \<Rightarrow> totalSupply t)"

definition held :: "graph \<Rightarrow> string \<Rightarrow> string \<Rightarrow> int" where
  "held s a k = (case TokenBalance s k of None \<Rightarrow> 0 | Some b \<Rightarrow> if tb_token b = a then tb_balance b else 0)"

text \<open>Balances are stored under the id made of token and owner; the addresses of tokens have 42 characters.\<close>

definition ledger_wf :: "graph \<Rightarrow> bool" where
  "ledger_wf s \<longleftrightarrow> (\<forall>k t. Token s k = Some t \<longrightarrow> tk_id t = k)
     \<and> (\<forall>k b. TokenBalance s k = Some b \<longrightarrow> tb_id b = k \<and> (\<exists>r. k = balance_id (tb_token b) r) \<and> length (tb_token b) = 42)
     \<and> finite (dom (TokenBalance s))"

lemma held_finite: "ledger_wf s \<Longrightarrow> finite {k. held s a k \<noteq> 0}"
  using ssum_table(2) [of "TokenBalance s" "\<lambda>b. if tb_token b = a then tb_balance b else 0"]
  by (simp add: ledger_wf_def held_def)

lemma balance_id_inj: "length t = length t' \<Longrightarrow> balance_id t r = balance_id t' r' \<longleftrightarrow> t = t' \<and> r = r'"
  by (simp add: balance_id_def)

lemma getUser_ledger: "getUser a s = (Inr u, s') \<Longrightarrow> Token s' = Token s \<and> TokenBalance s' = TokenBalance s"
  by (auto simp: getUser_def bind_io_Inr Let_def split: option.splits)

lemma getTokenBalance_held:
  assumes wf: "ledger_wf s" and len: "length token = 42" and run: "getTokenBalance token owner s = (Inr b, s')"
  shows "ledger_wf s' \<and> Token s' = Token s \<and> held s' = held s \<and> TokenBalance s' (tb_id b) = Some b \<and> tb_token b = token"
proof -
  let ?id = "balance_id token owner"
  obtain u s1 where u: "getUser owner s = (Inr u, s1)"
    and b: "(case TokenBalance s1 ?id of Some b \<Rightarrow> return_io b
      | None \<Rightarrow> let b = \<lparr>tb_id = ?id, tb_token = token, tb_owner = u_id u, tb_balance = 0\<rparr>
         in seq_io (save_TokenBalance b) (return_io b)) s1 = (Inr b, s')"
    using run by (auto simp: getTokenBalance_def bind_io_Inr)
  have s1: "Token s1 = Token s" "TokenBalance s1 = TokenBalance s"
    using getUser_ledger [OF u] by simp_all
  show ?thesis
  proof (cases "TokenBalance s ?id")
    case (Some b')
    then obtain r where "tb_id b' = ?id" "?id = balance_id (tb_token b') r" "length (tb_token b') = 42"
      using wf unfolding ledger_wf_def by blast
    then have "tb_token b' = token" "tb_id b' = ?id"
      using len balance_id_inj by auto
    moreover have "b = b'" "s' = s1" using b s1 Some by simp_all
    ultimately show ?thesis using wf s1 Some by (simp add: ledger_wf_def held_def [abs_def])
  next
    case None
    then have b': "b = \<lparr>tb_id = ?id, tb_token = token, tb_owner = u_id u, tb_balance = 0\<rparr>"
        "s' = s1\<lparr>TokenBalance := (TokenBalance s)(?id \<mapsto> b)\<rparr>"
      using b s1 by (auto simp: save_TokenBalance_def bind_io_def Let_def)
    have "held s' = held s"
      using None by (auto simp: held_def fun_eq_iff b')
    moreover have "ledger_wf s'"
      using wf len s1 by (auto simp: ledger_wf_def b')
    ultimately show ?thesis using s1 by (simp add: b')
  qed
qed

lemma save_balance_held:
  assumes wf: "ledger_wf s" and b: "TokenBalance s (tb_id b) = Some b"
    and run: "save_TokenBalance (b\<lparr>tb_balance := tb_balance b + d\<rparr>) s = (Inr x, s')"
  shows "ledger_wf s' \<and> Token s' = Token s \<and> (\<forall>a. ssum (held s' a) = ssum (held s a) + (if a = tb_token b then d else 0))"
proof -
  have s': "s' = s\<lparr>TokenBalance := (TokenBalance s)(tb_id b \<mapsto> b\<lparr>tb_balance := tb_balance b + d\<rparr>)\<rparr>"
    using run by (simp add: save_TokenBalance_def)
  have "tb_id b = tb_id b \<and> (\<exists>r. tb_id b = balance_id (tb_token b) r) \<and> length (tb_token b) = 42"
    using wf b unfolding ledger_wf_def by blast
  then have "ledger_wf s'"
    using wf by (simp add: ledger_wf_def s')
  moreover have "ssum (held s' a) = ssum (held s a) + (if a = tb_token b then d else 0)" for a
  proof -
    have "held s' a = (held s a)(tb_id b := if tb_token b = a then tb_balance b + d else 0)"
      by (auto simp: held_def s' fun_eq_iff)
    moreover have "held s a (tb_id b) = (if tb_token b = a then tb_balance b else 0)"
      using b by (simp add: held_def)
    ultimately show ?thesis
      using ssum_upd [OF held_finite [OF wf], of a "tb_id b"] by simp
  qed
  ultimately show ?thesis by (simp add: s')
qed

lemma getToken_supply:
  assumes wf: "ledger_wf s" and run: "getToken lib a s = (Inr t, s')"
  shows "ledger_wf s' \<and> held s' = held s \<and> supply_of s' = supply_of s \<and> Token s' a = Some t \<and> tk_id t = a"
  using wf run
  by (auto simp: getToken_def createToken_def save_Token_def bind_io_Inr Let_def ledger_wf_def held_def [abs_def]
      supply_of_def fun_eq_iff split: option.splits if_splits)

lemma save_token_supply:
  assumes wf: "ledger_wf s" and t: "Token s (tk_id t) = Some t0"
    and run: "save_Token (t\<lparr>totalSupply := n\<rparr>) s = (Inr x, s')"
  shows "ledger_wf s' \<and> held s' = held s \<and> supply_of s' = (supply_of s)(tk_id t := n) \<and> Token s' (tk_id t) = Some (t\<lparr>totalSupply := n\<rparr>)"
  using wf t run
  by (auto simp: save_Token_def ledger_wf_def held_def [abs_def] supply_of_def fun_eq_iff split: if_splits)

lemma transfer_supply:
  assumes wf: "ledger_wf s" and sum: "\<And>a. supply_of s a = ssum (held s a)" and len: "length (ev_address ev) = 42"
    and run: "updateBalance lib ev sender receiver n s = (Inr x, s')"
  shows "ledger_wf s' \<and> (\<forall>a. supply_of s' a = ssum (held s' a))"
proof -
  let ?a = "ev_address ev"
  obtain t s1 where t: "getToken lib ?a s = (Inr t, s1)" and rest: "bind_io (if sender = ZERO_ADDRESS then
         (let token = t\<lparr>totalSupply := totalSupply t + n\<rparr> in seq_io (save_Token token) (return_io token))
       else bind_io (getTokenBalance ?a sender) (\<lambda>b.
         seq_io (save_TokenBalance (b\<lparr>tb_balance := tb_balance b - n\<rparr>)) (return_io t))) (\<lambda>token.
     if receiver = ZERO_ADDRESS then save_Token (token\<lparr>totalSupply := totalSupply token - n\<rparr>)
     else bind_io (getTokenBalance ?a receiver) (\<lambda>b.
       save_TokenBalance (b\<lparr>tb_balance := tb_balance b + n\<rparr>))) s1 = (Inr x, s')"
    using run unfolding updateBalance_def bind_io_Inr [of "getToken lib ?a"] by blast
  note s1 = getToken_supply [OF wf t]
  text \<open>After the first half the supply and the balances differ by the amount on its way.\<close>
  obtain t2 s2 where half: "ledger_wf s2" "Token s2 ?a = Some t2" "tk_id t2 = ?a"
      "\<And>a. supply_of s2 a = ssum (held s2 a) + (if a = ?a then n else 0)"
    and rest2: "(if receiver = ZERO_ADDRESS then save_Token (t2\<lparr>totalSupply := totalSupply t2 - n\<rparr>)
     else bind_io (getTokenBalance ?a receiver) (\<lambda>b. save_TokenBalance (b\<lparr>tb_balance := tb_balance b + n\<rparr>))) s2 = (Inr x, s')"
  proof (cases "sender = ZERO_ADDRESS")
    case True
    define t2 where "t2 = t\<lparr>totalSupply := totalSupply t + n\<rparr>"
    then obtain s2 where s2: "save_Token (t\<lparr>totalSupply := totalSupply t + n\<rparr>) s1 = (Inr (), s2)"
      and r: "(if receiver = ZERO_ADDRESS then save_Token (t2\<lparr>totalSupply := totalSupply t2 - n\<rparr>)
     else bind_io (getTokenBalance ?a receiver) (\<lambda>b. save_TokenBalance (b\<lparr>tb_balance := tb_balance b + n\<rparr>))) s2 = (Inr x, s')"
      using rest unfolding if_P [OF True] Let_def t2_def [symmetric] bind_io_Inr by (auto simp: bind_io_Inr)
    have "Token s1 ?a = Some t" using s1 by blast
    then have "supply_of s1 ?a = totalSupply t" by (simp add: supply_of_def)
    then show ?thesis
      using that [of s2 t2] save_token_supply [OF _ _ s2] s1 sum r by (simp add: t2_def)
  next
    case False
    then obtain b s3 s2 where b: "getTokenBalance ?a sender s1 = (Inr b, s3)"
      and s2: "save_TokenBalance (b\<lparr>tb_balance := tb_balance b + (- n)\<rparr>) s3 = (Inr (), s2)"
      and r: "(if receiver = ZERO_ADDRESS then save_Token (t\<lparr>totalSupply := totalSupply t - n\<rparr>)
     else bind_io (getTokenBalance ?a receiver) (\<lambda>b. save_TokenBalance (b\<lparr>tb_balance := tb_balance b + n\<rparr>))) s2 = (Inr x, s')"
      using rest by (auto simp: bind_io_Inr)
    note s3 = getTokenBalance_held [OF conjunct1 [OF s1] len b]
    note s2 = save_balance_held [OF conjunct1 [OF s3] _ s2]
    have "supply_of s2 a = ssum (held s2 a) + (if a = ?a then n else 0)" for a
    proof -
      have "supply_of s2 a = supply_of s1 a" using s2 s3 by (simp add: supply_of_def)
      then show ?thesis using sum s1 s2 s3 by simp
    qed
    then show ?thesis
      using that [of s2 t] s1 s2 s3 r by simp
  qed
  show ?thesis
  proof (cases "receiver = ZERO_ADDRESS")
    case True
    then have "save_Token (t2\<lparr>totalSupply := totalSupply t2 - n\<rparr>) s2 = (Inr x, s')" using rest2 by simp
    moreover have "supply_of s2 ?a = totalSupply t2" using half(2) by (simp add: supply_of_def)
    ultimately show ?thesis
      using save_token_supply [OF half(1), of t2] half(2-4) by (auto simp: algebra_simps)
  next
    case False
    then obtain b s3 where b: "getTokenBalance ?a receiver s2 = (Inr b, s3)"
      and s': "save_TokenBalance (b\<lparr>tb_balance := tb_balance b + n\<rparr>) s3 = (Inr x, s')"
      using rest2 by (auto simp: bind_io_Inr)
    note s3 = getTokenBalance_held [OF half(1) len b]
    note s4 = save_balance_held [OF conjunct1 [OF s3] _ s']
    have "supply_of s' a = supply_of s2 a" for a using s3 s4 by (simp add: supply_of_def)
    then show ?thesis using half(4) s3 s4 by simp
  qed
qed

lemma ledger_kept: "keeps ledger m \<Longrightarrow> m s = (Inr x, s') \<Longrightarrow> Token s' = Token s \<and> TokenBalance s' = TokenBalance s"
  by (auto simp: keeps_def ledger_def) (metis snd_conv)+

lemma event_supply:
  assumes wf: "ledger_wf s" and sum: "\<forall>a. supply_of s a = ssum (held s a)" and len: "length (ev_address ev) = 42"
    and run: "handle lib ev e s = (Inr (), s')"
  shows "ledger_wf s' \<and> (\<forall>a. supply_of s' a = ssum (held s' a))"
proof (cases "about_tokens e")
  case False
  then show ?thesis
    using ledger_kept [OF other_ledger run] wf sum by (simp add: ledger_wf_def supply_of_def held_def [abs_def])
next
  case True
  then obtain sender receiver n where "e = Token_Transfer sender receiver n" by (cases e) auto
  then show ?thesis using transfer_supply [OF wf _ len] sum run by simp
qed

text \<open>In every state that the indexer reaches, the supply of a token is the sum of the balances recorded for it,
  whatever transfers, minting and burning were reported, transfers to oneself included.\<close>

theorem supply_is_sum_of_balances:
  assumes "indexed lib (\<lambda>ev s e s'. length (ev_address ev) = 42) s"
  shows "(case Token s a of None \<Rightarrow> 0 | Some t \<Rightarrow> totalSupply t) =
    (\<Sum>k | \<exists>b. TokenBalance s k = Some b \<and> tb_token b = a. tb_balance (the (TokenBalance s k)))"
proof -
  have wf: "ledger_wf s \<and> (\<forall>a. supply_of s a = ssum (held s a))"
    using assms
  proof (induction rule: indexed.induct)
    case indexed_start
    show ?case by (simp add: ledger_wf_def supply_of_def held_def [abs_def] empty_graph_def ssum_def)
  next
    case (indexed_event s ev e s')
    then show ?case using event_supply by blast
  qed
  let ?A = "{k. \<exists>b. TokenBalance s k = Some b \<and> tb_token b = a}"
  have "?A \<subseteq> dom (TokenBalance s)" by auto
  then have "finite ?A" using wf finite_subset unfolding ledger_wf_def by blast
  then have "ssum (held s a) = sum (held s a) ?A"
    by (rule ssum_on) (auto simp: held_def split: option.splits if_splits)
  also have "\<dots> = (\<Sum>k\<in>?A. tb_balance (the (TokenBalance s k)))"
    by (rule sum.cong) (auto simp: held_def)
  finally show ?thesis using wf by (simp add: supply_of_def)
qed

end
