(* ===== verification/Subgraph_Deposits.thy ===== *)
theory Subgraph_Deposits
  imports Subgraph_Props
begin

text \<open>
  Deposits into the stability pool: one operation of the pool emits two events, in either order, and the indexer
  makes the same of both orders. The first event leaves a mark in the global entity (\<open>tmpDepositUpdate\<close>),
  which nothing else depends on.
\<close>

section \<open>Computations that the mark does not matter to\<close>

definition set_tmp :: "int option \<Rightarrow> graph \<Rightarrow> graph" where
  "set_tmp x s = s\<lparr>Global := Some ((gl s)\<lparr>tmpDepositUpdate := x\<rparr>)\<rparr>"

definition ignores_tmp :: "(graph, 'a) io \<Rightarrow> bool" where
  "ignores_tmp m \<longleftrightarrow> (\<forall>s x. m (set_tmp x s) = (fst (m s), set_tmp x (snd (m s))))"

named_theorems tmp_rules \<open>computations that the mark does not matter to\<close>

lemma ignores_basic [tmp_rules]: "ignores_tmp (return_io x)" "ignores_tmp (throw_io e)" "ignores_tmp (lift_io r)"
  by (simp_all add: ignores_tmp_def)

lemma ignores_bind [tmp_rules]: "ignores_tmp m \<Longrightarrow> (\<And>x. ignores_tmp (f x)) \<Longrightarrow> ignores_tmp (bind_io m f)"
  by (simp add: ignores_tmp_def bind_io_def split: prod.split sum.split)

lemma ignores_seq [tmp_rules]: "ignores_tmp m \<Longrightarrow> ignores_tmp n \<Longrightarrow> ignores_tmp (seq_io m n)"
  by (simp add: ignores_bind)

lemma ignores_cases [tmp_rules]:
  "ignores_tmp m \<Longrightarrow> ignores_tmp n \<Longrightarrow> ignores_tmp (if b then m else n)"
  "ignores_tmp m' \<Longrightarrow> (\<And>y. ignores_tmp (f y)) \<Longrightarrow> ignores_tmp (case x of None \<Rightarrow> m' | Some y \<Rightarrow> f y)"
  by (simp_all split: option.split)

text \<open>Tables other than the global entity.\<close>

lemma set_tmp_simps [simp]:
  "User (set_tmp x s) = User s" "Transaction (set_tmp x s) = Transaction s" "SystemState (set_tmp x s) = SystemState s"
  "StabilityDeposit (set_tmp x s) = StabilityDeposit s" "gl (set_tmp x s) = (gl s)\<lparr>tmpDepositUpdate := x\<rparr>"
  by (simp_all add: set_tmp_def)

lemma ignores_modify [tmp_rules]:
  "ignores_tmp (modify_io (\<lambda>s. s\<lparr>User := (User s)(a \<mapsto> b)\<rparr>))"
  "ignores_tmp (modify_io (\<lambda>s. s\<lparr>Transaction := (Transaction s)(c \<mapsto> d)\<rparr>))"
  "ignores_tmp (modify_io (\<lambda>s. s\<lparr>SystemState := (SystemState s)(e \<mapsto> f)\<rparr>))"
  "ignores_tmp (modify_io (\<lambda>s. s\<lparr>StabilityDeposit := (StabilityDeposit s)(g \<mapsto> h)\<rparr>))"
  "ignores_tmp (modify_io (\<lambda>s. s\<lparr>StabilityDepositChange := (StabilityDepositChange s)(i \<mapsto> j)\<rparr>))"
  by (simp_all add: ignores_tmp_def set_tmp_def)

lemma ignores_get:
  "(\<And>y. ignores_tmp (f y)) \<Longrightarrow> ignores_tmp (bind_io get_io (\<lambda>s. f (User s a)))"
  "(\<And>y. ignores_tmp (g y)) \<Longrightarrow> ignores_tmp (bind_io get_io (\<lambda>s. g (Transaction s b)))"
  "(\<And>y. ignores_tmp (h y)) \<Longrightarrow> ignores_tmp (bind_io get_io (\<lambda>s. h (StabilityDeposit s c)))"
  by (simp_all add: ignores_tmp_def)

lemma ignores_counters [tmp_rules]:
  "ignores_tmp getSystemStateSequenceNumber" "ignores_tmp getTransactionSequenceNumber" "ignores_tmp getChangeSequenceNumber"
  by (simp_all add: ignores_tmp_def set_tmp_def getSystemStateSequenceNumber_def getTransactionSequenceNumber_def
      getChangeSequenceNumber_def)

lemma ignores_current_pointer [tmp_rules]: "ignores_tmp (update_Global (\<lambda>g. g\<lparr>currentSystemState := x\<rparr>))"
  by (simp add: ignores_tmp_def set_tmp_def)

lemma ignores_current [tmp_rules]: "ignores_tmp getCurrentSystemState"
proof -
  have "ignores_tmp (bind_io getSystemStateSequenceNumber (\<lambda>n. seq_io (save_SystemState (new_SystemState n))
      (seq_io (update_Global (\<lambda>g. g\<lparr>currentSystemState := Some (ss_id (new_SystemState n))\<rparr>)) (return_io (new_SystemState n)))))"
    unfolding save_SystemState_def by (intro tmp_rules)
  then show ?thesis
    by (auto simp: ignores_tmp_def getCurrentSystemState_def Let_def bind_io_def split: option.split)
qed

lemma ignores_entities [tmp_rules]:
  "ignores_tmp (getUser a)" "ignores_tmp (save_User u)" "ignores_tmp (getTransaction ev)"
  "ignores_tmp (getStabilityDeposit a)" "ignores_tmp (save_StabilityDeposit d)" "ignores_tmp (bumpSystemState st)"
  unfolding getUser_def save_User_def getTransaction_def getStabilityDeposit_def save_StabilityDeposit_def
    bumpSystemState_def save_SystemState_def Let_def
  by (intro tmp_rules ignores_get)+

lemma ignores_deposit [tmp_rules]:
  "ignores_tmp (withdrawCollateralGainFromStabilityDeposit lib ev a x y)"
  unfolding withdrawCollateralGainFromStabilityDeposit_def updateStabilityDepositByOperation_def
    createStabilityDepositChange_def create_change_def beginChange_def initChange_def finishStabilityDepositChange_def
    finishChange_def updateSystemStateByStabilityDepositChange_def Let_def
  by (intro tmp_rules)

section \<open>The two orders\<close>

lemma swap_run: "swapTmpDepositUpdate v s =
  (Inr (tmpDepositUpdate (gl s)), set_tmp (if tmpDepositUpdate (gl s) = None then Some v else None) s)"
  by (simp add: swapTmpDepositUpdate_def set_tmp_def bind_io_def)

lemma set_tmp_twice [simp]: "set_tmp x (set_tmp y s) = set_tmp x s"
  by (simp add: set_tmp_def)

text \<open>When no deposit is half reported, the indexer makes the same of the report of a new deposit followed by
  the report of the gain that was withdrawn, and of the two in the other order: one order is indexed exactly when the
  other is, and they lead to the same graph.\<close>

theorem deposit_events_commute:
  assumes "tmpDepositUpdate (gl s) = None"
  shows "bind_io (handle lib ev (StabilityPool_UserDepositChanged a n)) (\<lambda>_.
      handle lib ev (StabilityPool_CollateralGainWithdrawn a eth loss)) s = (Inr (), s')
    \<longleftrightarrow> bind_io (handle lib ev (StabilityPool_CollateralGainWithdrawn a eth loss)) (\<lambda>_.
      handle lib ev (StabilityPool_UserDepositChanged a n)) s = (Inr (), s')"
proof -
  let ?w = "withdrawCollateralGainFromStabilityDeposit lib ev a eth loss" and ?u = "updateStabilityDeposit lib ev a n"
  obtain r s1 where ws: "?w s = (r, s1)" by fastforce
  then have w: "?w (set_tmp x s) = (r, set_tmp x s1)" for x
    using ignores_deposit [of lib ev a eth loss] by (simp add: ignores_tmp_def)
  show ?thesis
    using assms
    by (cases r) (simp_all add: handleUserDepositChanged_def handleCollateralGainWithdrawn_def bind_io_def swap_run w)
qed

end
