(* ===== verification/Subgraph_Examples.thy ===== *)
theory Subgraph_Examples
  imports Subgraph_Troves Subgraph_Tokens Subgraph_Deposits
begin

text \<open>
  Short runs of the indexer at which the properties are applied: a library that computes exactly, and one event of
  each kind that matters.
\<close>

definition exact_lib :: graph_ts where
  "exact_lib = \<lparr>bd_round = (\<lambda>x. x), bd_truncate = (\<lambda>n x. of_int \<lfloor>x * 10 ^ n\<rfloor> / 10 ^ n), bi_div = (\<lambda>x y. x div y),
     erc20_name = (\<lambda>_. Inr ''LUSD''), erc20_symbol = (\<lambda>_. Inr ''LUSD'')\<rparr>"

lemma exact_lib_keeps: "keeps_34_digits exact_lib"
  by (simp add: keeps_34_digits_def exact_lib_def)

definition token_address :: string where
  "token_address = replicate 42 (CHR ''a'')"

definition example_event :: eth_event where
  "example_event = \<lparr>ev_address = token_address, ev_hash = ''0x1'', ev_from = ''0xb'', ev_blockNumber = 12178557,
     ev_timestamp = 1617611299\<rparr>"

lemmas run_defs =
  exact_lib_def example_event_def empty_graph_def gl_def new_Global_def new_SystemState_def bind_io_def Let_def get_set_def

lemmas run_simps =
  run_defs update_defs change_defs entity_defs counter_defs getOperationType_def decimalize_def
  DECIMAL_SCALING_FACTOR_def bd_minus_def bd_plus_def bd_times_def bd_div_def big_div_def

section \<open>A stake\<close>

definition stake_event :: contract_event where
  "stake_event = LQTYStaking_StakeChanged ''0xa'' (5 * 10 ^ 18)"

definition stake_graph :: graph where
  "stake_graph = snd (handle exact_lib example_event stake_event empty_graph)"

lemma stake_run:
  "handle exact_lib example_event stake_event empty_graph = (Inr (), stake_graph)"
  "LqtyStake stake_graph = [''0xa'' \<mapsto> \<lparr>ls_id = ''0xa'', ls_owner = ''0xa'', ls_amount = 5\<rparr>]"
  "User stake_graph = [''0xa'' \<mapsto> \<lparr>u_id = ''0xa'', u_trove = None, u_stabilityDeposit = None, u_stake = Some ''0xa'',
     u_frontend = None, u_collSurplus = 0\<rparr>]"
  by (simp_all add: stake_graph_def stake_event_def run_simps split: prod.split)

theorem shares_add_up_witness:
  "totalLQTYTokensStaked (cur stake_graph) = (\<Sum>k\<in>dom (LqtyStake stake_graph). ls_amount (the (LqtyStake stake_graph k)))
    \<and> collSurplusPoolBalance (cur stake_graph) = (\<Sum>k\<in>dom (User stake_graph). u_collSurplus (the (User stake_graph k)))"
proof (rule shares_add_up [OF exact_lib_keeps])
  show "indexed exact_lib (\<lambda>_. shares_fit) stake_graph"
    by (rule indexed_event [OF indexed_start stake_run(1)])
      (simp add: shares_fit_def stake_event_def staked_sum_def surplus_sum_def stake_run(2,3) fits_def)
qed

section \<open>A Trove\<close>

definition price_graph :: graph where
  "price_graph = snd (handle exact_lib example_event (PriceFeed_LastGoodPriceUpdated (2000 * 10 ^ 18)) empty_graph)"

definition trove_event :: contract_event where
  "trove_event = BorrowerOperations_TroveUpdated ''0xa'' (2000 * 10 ^ 18) (2 * 10 ^ 18) (2 * 10 ^ 18) 0"

definition trove_graph :: graph where
  "trove_graph = snd (handle exact_lib example_event trove_event price_graph)"

lemma price_run:
  "handle exact_lib example_event (PriceFeed_LastGoodPriceUpdated (2000 * 10 ^ 18)) empty_graph = (Inr (), price_graph)"
  "Trove price_graph = Map.empty"
  by (simp_all add: price_graph_def run_simps split: prod.split)

lemma trove_run:
  "handle exact_lib example_event trove_event price_graph = (Inr (), trove_graph)"
  "Trove trove_graph = [''0xa'' \<mapsto> \<lparr>tr_id = ''0xa'', tr_owner = ''0xa'', tr_status = ''open'', tr_collateral = 2,
     tr_debt = 2000, rawCollateral = Some (2 * 10 ^ 18), rawDebt = Some (2000 * 10 ^ 18), rawStake = Some (2 * 10 ^ 18),
     rawSnapshotOfTotalRedistributedCollateral = Some 0, rawSnapshotOfTotalRedistributedDebt = Some 0,
     collateralRatioSortKey = Some (1000 * 10 ^ 18)\<rparr>]"
  by (simp_all add: trove_graph_def trove_event_def price_graph_def run_simps getTroveOperationFromBorrowerOperation_def
      isLiquidation_def isRedemption_def isBorrowerOperation_def calculateCollateralRatio_def
      system_after_trove_change_def set_raw_def status_after_def DECIMAL_PRECISION_def BIGINT_SCALING_FACTOR_def
      split: prod.split)

lemma trove_indexed:
  assumes "ok example_event empty_graph (PriceFeed_LastGoodPriceUpdated (2000 * 10 ^ 18)) price_graph"
    and "ok example_event price_graph trove_event trove_graph"
  shows "indexed exact_lib ok trove_graph"
  by (rule indexed_event [OF indexed_event [OF indexed_start price_run(1)] trove_run(1)]) (rule assms)+

theorem troves_add_up_witness:
  "totalCollateral (cur trove_graph) = (\<Sum>k\<in>dom (Trove trove_graph). tr_collateral (the (Trove trove_graph k)))
    \<and> totalDebt (cur trove_graph) = (\<Sum>k\<in>dom (Trove trove_graph). tr_debt (the (Trove trove_graph k)))"
  by (rule troves_add_up [OF exact_lib_keeps], rule trove_indexed)
    (simp_all add: no_liquidations_def trove_event_def collateral_sum_def debt_sum_def price_run(2) trove_run(2) fits_def)

theorem trove_census_witness:
  "numberOfOpenTroves (gl trove_graph) = int (card {k. \<exists>t. Trove trove_graph k = Some t \<and> tr_status t = ''open''})
    \<and> numberOfTrovesClosedByOwner (gl trove_graph) = int (card {k. \<exists>t. Trove trove_graph k = Some t \<and> tr_status t = ''closedByOwner''})
    \<and> numberOfLiquidatedTroves (gl trove_graph) = int (card {k. \<exists>t. Trove trove_graph k = Some t \<and> tr_status t = ''closedByLiquidation''})
    \<and> numberOfRedeemedTroves (gl trove_graph) = int (card {k. \<exists>t. Trove trove_graph k = Some t \<and> tr_status t = ''closedByRedemption''})
    \<and> totalNumberOfTroves (gl trove_graph) = int (card (dom (Trove trove_graph)))
    \<and> tr_status (the (Trove trove_graph ''0xa'')) = ''open''"
proof -
  have "indexed exact_lib (\<lambda>_. plausible) trove_graph"
    by (rule trove_indexed) (simp_all add: trove_event_def)
  from trove_census [OF exact_lib_keeps this] show ?thesis by (simp only: trove_run(2)) simp
qed

theorem history_has_no_gaps_witness:
  "\<exists>n k. changeCount (gl trove_graph) = int n \<and> systemStateCount (gl trove_graph) = int k
    \<and> (n \<noteq> 0 \<longrightarrow> k = n + 1) \<and> k \<le> n + 1
    \<and> dom (SystemState trove_graph) = {show_int (int i) | i. i < k}
    \<and> (k \<noteq> 0 \<longrightarrow> currentSystemState (gl trove_graph) = Some (show_int (int k - 1)))
    \<and> (\<forall>i<n. changes_at trove_graph (show_int (int i)) =
         [(show_int (int i), int i, Some (show_int (int i)), Some (show_int (int i + 1)))])
    \<and> (\<forall>key. (\<forall>i<n. key \<noteq> show_int (int i)) \<longrightarrow> changes_at trove_graph key = [])"
  by (rule history_has_no_gaps [of exact_lib "\<lambda>_ _ _ _. True"], rule trove_indexed) simp_all

section \<open>Tokens and deposits\<close>

definition mint_graph :: graph where
  "mint_graph = snd (handle exact_lib example_event (Token_Transfer ZERO_ADDRESS ''0xa'' 100) empty_graph)"

lemma mint_run: "handle exact_lib example_event (Token_Transfer ZERO_ADDRESS ''0xa'' 100) empty_graph = (Inr (), mint_graph)"
  by (simp add: mint_graph_def run_simps updateBalance_def getToken_def createToken_def save_Token_def
      getTokenBalance_def save_TokenBalance_def ZERO_ADDRESS_def split: prod.split)

theorem supply_is_sum_of_balances_witness:
  "(case Token mint_graph token_address of None \<Rightarrow> 0 | Some t \<Rightarrow> totalSupply t) =
    (\<Sum>k | \<exists>b. TokenBalance mint_graph k = Some b \<and> tb_token b = token_address. tb_balance (the (TokenBalance mint_graph k)))"
  by (rule supply_is_sum_of_balances [of exact_lib], rule indexed_event [OF indexed_start mint_run])
    (simp add: example_event_def token_address_def)

theorem deposit_events_commute_witness:
  "\<exists>s'. bind_io (handle exact_lib example_event (StabilityPool_UserDepositChanged ''0xa'' (3 * 10 ^ 18))) (\<lambda>_.
      handle exact_lib example_event (StabilityPool_CollateralGainWithdrawn ''0xa'' 1 0)) empty_graph = (Inr (), s')
    \<and> bind_io (handle exact_lib example_event (StabilityPool_CollateralGainWithdrawn ''0xa'' 1 0)) (\<lambda>_.
      handle exact_lib example_event (StabilityPool_UserDepositChanged ''0xa'' (3 * 10 ^ 18))) empty_graph = (Inr (), s')"
proof -
  have "tmpDepositUpdate (gl empty_graph) = None"
    by (simp add: empty_graph_def gl_def new_Global_def)
  note commute = deposit_events_commute [OF this, of exact_lib example_event "''0xa''" "3 * 10 ^ 18" 1 0]
  have "\<exists>s'. bind_io (handle exact_lib example_event (StabilityPool_UserDepositChanged ''0xa'' (3 * 10 ^ 18))) (\<lambda>_.
      handle exact_lib example_event (StabilityPool_CollateralGainWithdrawn ''0xa'' 1 0)) empty_graph = (Inr (), s')"
    by (simp add: run_simps split: prod.split)
  then show ?thesis using commute by blast
qed

end
