(* ===== verification/Sendable.thy ===== *)
theory Sendable
  imports Populatable
begin

text \<open>
  Sending prepared transactions (\<^verbatim>\<open>lib-ethers/src/SendableEthersLiquity.ts\<close>) and waiting until they succeed
  (\<^verbatim>\<open>lib-ethers/src/EthersLiquity.ts\<close>): every method of the two classes that makes a transaction. A sent
  transaction is its hash with the parser of its receipt. The reads of \<^verbatim>\<open>EthersLiquity\<close> are those of the object it
  was built from.
\<close>

section \<open>\<^verbatim>\<open>SendableEthersLiquity\<close>\<close>

record 'd sent_transaction =
  rawSentTransaction :: string
  sent_parse :: "raw_receipt \<Rightarrow> 'd res"

text \<open>\<^verbatim>\<open>const sendTransaction = tx => tx.send()\<close>\<close>

definition send_populated :: "'w ethers \<Rightarrow> connection \<Rightarrow> 'd transaction \<Rightarrow> ('w, 'd sent_transaction) io" where
  "send_populated e c tx =
     bind_io (send e c tx) (\<lambda>hash. return_io \<lparr>rawSentTransaction = hash, sent_parse = parse_receipt tx\<rparr>)"

definition send_openTrove ::
  "'w ethers \<Rightarrow> connection \<Rightarrow> decimalish option entries \<Rightarrow> borrowing_options \<Rightarrow> overrides \<Rightarrow> ('w, creation_params trove_change_details sent_transaction) io" where
  "send_openTrove e c params options ov =
     bind_io (openTrove e c params options ov) (send_populated e c)"

definition send_closeTrove ::
  "'w ethers \<Rightarrow> connection \<Rightarrow> overrides \<Rightarrow> ('w, (decimal option \<times> decimal option) sent_transaction) io" where
  "send_closeTrove e c ov =
     bind_io (closeTrove e c ov) (send_populated e c)"

definition send_adjustTrove ::
  "'w ethers \<Rightarrow> connection \<Rightarrow> decimalish option entries \<Rightarrow> borrowing_options \<Rightarrow> overrides \<Rightarrow> ('w, adjustment_params trove_change_details sent_transaction) io" where
  "send_adjustTrove e c params options ov =
     bind_io (adjustTrove e c params options ov) (send_populated e c)"

definition send_depositCollateral ::
  "'w ethers \<Rightarrow> connection \<Rightarrow> decimalish \<Rightarrow> overrides \<Rightarrow> ('w, adjustment_params trove_change_details sent_transaction) io" where
  "send_depositCollateral e c amount ov =
     bind_io (depositCollateral_tx e c amount ov) (send_populated e c)"

definition send_withdrawCollateral ::
  "'w ethers \<Rightarrow> connection \<Rightarrow> decimalish \<Rightarrow> overrides \<Rightarrow> ('w, adjustment_params trove_change_details sent_transaction) io" where
  "send_withdrawCollateral e c amount ov =
     bind_io (withdrawCollateral_tx e c amount ov) (send_populated e c)"

definition send_borrowLUSD ::
  "'w ethers \<Rightarrow> connection \<Rightarrow> decimalish \<Rightarrow> decimalish option \<Rightarrow> overrides \<Rightarrow> ('w, adjustment_params trove_change_details sent_transaction) io" where
  "send_borrowLUSD e c amount maxBorrowingRate ov =
     bind_io (borrowLUSD_tx e c amount maxBorrowingRate ov) (send_populated e c)"

definition send_repayLUSD ::
  "'w ethers \<Rightarrow> connection \<Rightarrow> decimalish \<Rightarrow> overrides \<Rightarrow> ('w, adjustment_params trove_change_details sent_transaction) io" where
  "send_repayLUSD e c amount ov =
     bind_io (repayLUSD_tx e c amount ov) (send_populated e c)"

definition send_setPrice ::
  "'w ethers \<Rightarrow> connection \<Rightarrow> decimalish \<Rightarrow> overrides \<Rightarrow> ('w, unit sent_transaction) io" where
  "send_setPrice e c amount ov =
     bind_io (setPrice e c amount ov) (send_populated e c)"

definition send_liquidate ::
  "'w ethers \<Rightarrow> connection \<Rightarrow> (string + string list) \<Rightarrow> overrides \<Rightarrow> ('w, liquidation_details sent_transaction) io" where
  "send_liquidate e c address ov =
     bind_io (liquidate e c address ov) (send_populated e c)"

definition send_liquidateUpTo ::
  "'w ethers \<Rightarrow> connection \<Rightarrow> int \<Rightarrow> overrides \<Rightarrow> ('w, liquidation_details sent_transaction) io" where
  "send_liquidateUpTo e c maximumNumberOfTrovesToLiquidate ov =
     bind_io (liquidateUpTo e c maximumNumberOfTrovesToLiquidate ov) (send_populated e c)"

definition send_depositLUSDInStabilityPool ::
  "'w ethers \<Rightarrow> connection \<Rightarrow> decimalish \<Rightarrow> string option \<Rightarrow> overrides \<Rightarrow> ('w, (gains_details \<times> decimal) sent_transaction) io" where
  "send_depositLUSDInStabilityPool e c amount tag ov =
     bind_io (depositLUSDInStabilityPool e c amount tag ov) (send_populated e c)"

definition send_withdrawLUSDFromStabilityPool ::
  "'w ethers \<Rightarrow> connection \<Rightarrow> decimalish \<Rightarrow> overrides \<Rightarrow> ('w, (gains_details \<times> decimal option \<times> bool) sent_transaction) io" where
  "send_withdrawLUSDFromStabilityPool e c amount ov =
     bind_io (withdrawLUSDFromStabilityPool e c amount ov) (send_populated e c)"

definition send_withdrawGainsFromStabilityPool ::
  "'w ethers \<Rightarrow> connection \<Rightarrow> overrides \<Rightarrow> ('w, gains_details sent_transaction) io" where
  "send_withdrawGainsFromStabilityPool e c ov =
     bind_io (withdrawGainsFromStabilityPool e c ov) (send_populated e c)"

definition send_transferCollateralGainToTrove ::
  "'w ethers \<Rightarrow> connection \<Rightarrow> overrides \<Rightarrow> ('w, (gains_details \<times> trove option) sent_transaction) io" where
  "send_transferCollateralGainToTrove e c ov =
     bind_io (transferCollateralGainToTrove e c ov) (send_populated e c)"

definition send_sendLUSD ::
  "'w ethers \<Rightarrow> connection \<Rightarrow> string \<Rightarrow> decimalish \<Rightarrow> overrides \<Rightarrow> ('w, unit sent_transaction) io" where
  "send_sendLUSD e c toAddress amount ov =
     bind_io (sendLUSD e c toAddress amount ov) (send_populated e c)"

definition send_sendLQTY ::
  "'w ethers \<Rightarrow> connection \<Rightarrow> string \<Rightarrow> decimalish \<Rightarrow> overrides \<Rightarrow> ('w, unit sent_transaction) io" where
  "send_sendLQTY e c toAddress amount ov =
     bind_io (sendLQTY e c toAddress amount ov) (send_populated e c)"

definition send_redeemLUSD ::
  "'w ethers \<Rightarrow> connection \<Rightarrow> decimalish \<Rightarrow> decimalish option \<Rightarrow> overrides \<Rightarrow> ('w, redemption_details option sent_transaction) io" where
  "send_redeemLUSD e c amount maxRedemptionRate ov =
     bind_io (redeemLUSD e c amount maxRedemptionRate ov) (\<lambda>r. send_populated e c (r_transaction r))"

definition send_claimCollateralSurplus ::
  "'w ethers \<Rightarrow> connection \<Rightarrow> overrides \<Rightarrow> ('w, unit sent_transaction) io" where
  "send_claimCollateralSurplus e c ov =
     bind_io (claimCollateralSurplus e c ov) (send_populated e c)"

definition send_stakeLQTY ::
  "'w ethers \<Rightarrow> connection \<Rightarrow> decimalish \<Rightarrow> overrides \<Rightarrow> ('w, unit sent_transaction) io" where
  "send_stakeLQTY e c amount ov =
     bind_io (stakeLQTY e c amount ov) (send_populated e c)"

definition send_unstakeLQTY ::
  "'w ethers \<Rightarrow> connection \<Rightarrow> decimalish \<Rightarrow> overrides \<Rightarrow> ('w, unit sent_transaction) io" where
  "send_unstakeLQTY e c amount ov =
     bind_io (unstakeLQTY e c amount ov) (send_populated e c)"

definition send_withdrawGainsFromStaking ::
  "'w ethers \<Rightarrow> connection \<Rightarrow> overrides \<Rightarrow> ('w, unit sent_transaction) io" where
  "send_withdrawGainsFromStaking e c ov =
     bind_io (withdrawGainsFromStaking e c ov) (send_populated e c)"

definition send_registerFrontend ::
  "'w ethers \<Rightarrow> connection \<Rightarrow> decimalish \<Rightarrow> overrides \<Rightarrow> ('w, unit sent_transaction) io" where
  "send_registerFrontend e c rate ov =
     bind_io (registerFrontend e c rate ov) (send_populated e c)"

definition send_mintUniToken ::
  "'w ethers \<Rightarrow> connection \<Rightarrow> decimalish \<Rightarrow> string option \<Rightarrow> overrides \<Rightarrow> ('w, unit sent_transaction) io" where
  "send_mintUniToken e c amount address ov =
     bind_io (mintUniToken e c amount address ov) (send_populated e c)"

definition send_approveUniTokens ::
  "'w ethers \<Rightarrow> connection \<Rightarrow> decimalish option \<Rightarrow> overrides \<Rightarrow> ('w, unit sent_transaction) io" where
  "send_approveUniTokens e c allowance ov =
     bind_io (approveUniTokens e c allowance ov) (send_populated e c)"

definition send_stakeUniTokens ::
  "'w ethers \<Rightarrow> connection \<Rightarrow> decimalish \<Rightarrow> overrides \<Rightarrow> ('w, unit sent_transaction) io" where
  "send_stakeUniTokens e c amount ov =
     bind_io (stakeUniTokens e c amount ov) (send_populated e c)"

definition send_unstakeUniTokens ::
  "'w ethers \<Rightarrow> connection \<Rightarrow> decimalish \<Rightarrow> overrides \<Rightarrow> ('w, unit sent_transaction) io" where
  "send_unstakeUniTokens e c amount ov =
     bind_io (unstakeUniTokens e c amount ov) (send_populated e c)"

definition send_withdrawLQTYRewardFromLiquidityMining ::
  "'w ethers \<Rightarrow> connection \<Rightarrow> overrides \<Rightarrow> ('w, unit sent_transaction) io" where
  "send_withdrawLQTYRewardFromLiquidityMining e c ov =
     bind_io (withdrawLQTYRewardFromLiquidityMining e c ov) (send_populated e c)"

definition send_exitLiquidityMining ::
  "'w ethers \<Rightarrow> connection \<Rightarrow> overrides \<Rightarrow> ('w, unit sent_transaction) io" where
  "send_exitLiquidityMining e c ov =
     bind_io (exitLiquidityMining e c ov) (send_populated e c)"

section \<open>\<^verbatim>\<open>EthersLiquity\<close>\<close>

text \<open>What the methods of \<^verbatim>\<open>EthersLiquity\<close> throw: an error on the way, or the failure of the transaction with its
  receipt, \<open>None\<close> for a receipt that is pending.\<close>

datatype transaction_error = Raised js_error | EthersTransactionFailedError string "raw_receipt option"

type_synonym ('w, 'd) transacting = "'w \<Rightarrow> (transaction_error + 'd) \<times> 'w"

definition waitForSuccess :: "'w ethers \<Rightarrow> 'd sent_transaction \<Rightarrow> ('w, 'd) transacting" where
  "waitForSuccess e tx = (\<lambda>w.
     case waitForReceipt e (sent_parse tx) (rawSentTransaction tx) w of
       (Inl err, w) \<Rightarrow> (Inl (Raised err), w)
     | (Inr receipt, w) \<Rightarrow>
         (case receipt of
            SuccessfulReceipt _ details \<Rightarrow> Inr details
          | FailedReceipt r \<Rightarrow> Inl (EthersTransactionFailedError ''Transaction failed'' (Some r))
          | PendingReceipt \<Rightarrow> Inl (EthersTransactionFailedError ''Transaction failed'' None), w))"

text \<open>\<^verbatim>\<open>.then(waitForSuccess)\<close>\<close>

definition then_wait :: "'w ethers \<Rightarrow> ('w, 'd sent_transaction) io \<Rightarrow> ('w, 'd) transacting" where
  "then_wait e m = (\<lambda>w. case m w of (Inl err, w) \<Rightarrow> (Inl (Raised err), w) | (Inr tx, w) \<Rightarrow> waitForSuccess e tx w)"

definition liquity_openTrove ::
  "'w ethers \<Rightarrow> connection \<Rightarrow> decimalish option entries \<Rightarrow> borrowing_options \<Rightarrow> overrides \<Rightarrow> ('w, creation_params trove_change_details) transacting" where
  "liquity_openTrove e c params options ov = then_wait e (send_openTrove e c params options ov)"

definition liquity_closeTrove ::
  "'w ethers \<Rightarrow> connection \<Rightarrow> overrides \<Rightarrow> ('w, decimal option \<times> decimal option) transacting" where
  "liquity_closeTrove e c ov = then_wait e (send_closeTrove e c ov)"

definition liquity_adjustTrove ::
  "'w ethers \<Rightarrow> connection \<Rightarrow> decimalish option entries \<Rightarrow> borrowing_options \<Rightarrow> overrides \<Rightarrow> ('w, adjustment_params trove_change_details) transacting" where
  "liquity_adjustTrove e c params options ov = then_wait e (send_adjustTrove e c params options ov)"

definition liquity_depositCollateral ::
  "'w ethers \<Rightarrow> connection \<Rightarrow> decimalish \<Rightarrow> overrides \<Rightarrow> ('w, adjustment_params trove_change_details) transacting" where
  "liquity_depositCollateral e c amount ov = then_wait e (send_depositCollateral e c amount ov)"

definition liquity_withdrawCollateral ::
  "'w ethers \<Rightarrow> connection \<Rightarrow> decimalish \<Rightarrow> overrides \<Rightarrow> ('w, adjustment_params trove_change_details) transacting" where
  "liquity_withdrawCollateral e c amount ov = then_wait e (send_withdrawCollateral e c amount ov)"

definition liquity_borrowLUSD ::
  "'w ethers \<Rightarrow> connection \<Rightarrow> decimalish \<Rightarrow> decimalish option \<Rightarrow> overrides \<Rightarrow> ('w, adjustment_params trove_change_details) transacting" where
  "liquity_borrowLUSD e c amount maxBorrowingRate ov = then_wait e (send_borrowLUSD e c amount maxBorrowingRate ov)"

definition liquity_repayLUSD ::
  "'w ethers \<Rightarrow> connection \<Rightarrow> decimalish \<Rightarrow> overrides \<Rightarrow> ('w, adjustment_params trove_change_details) transacting" where
  "liquity_repayLUSD e c amount ov = then_wait e (send_repayLUSD e c amount ov)"

definition liquity_setPrice ::
  "'w ethers \<Rightarrow> connection \<Rightarrow> decimalish \<Rightarrow> overrides \<Rightarrow> ('w, unit) transacting" where
  "liquity_setPrice e c amount ov = then_wait e (send_setPrice e c amount ov)"

definition liquity_liquidate ::
  "'w ethers \<Rightarrow> connection \<Rightarrow> (string + string list) \<Rightarrow> overrides \<Rightarrow> ('w, liquidation_details) transacting" where
  "liquity_liquidate e c address ov = then_wait e (send_liquidate e c address ov)"

definition liquity_liquidateUpTo ::
  "'w ethers \<Rightarrow> connection \<Rightarrow> int \<Rightarrow> overrides \<Rightarrow> ('w, liquidation_details) transacting" where
  "liquity_liquidateUpTo e c maximumNumberOfTrovesToLiquidate ov = then_wait e (send_liquidateUpTo e c maximumNumberOfTrovesToLiquidate ov)"

definition liquity_depositLUSDInStabilityPool ::
  "'w ethers \<Rightarrow> connection \<Rightarrow> decimalish \<Rightarrow> string option \<Rightarrow> overrides \<Rightarrow> ('w, gains_details \<times> decimal) transacting" where
  "liquity_depositLUSDInStabilityPool e c amount tag ov = then_wait e (send_depositLUSDInStabilityPool e c amount tag ov)"

definition liquity_withdrawLUSDFromStabilityPool ::
  "'w ethers \<Rightarrow> connection \<Rightarrow> decimalish \<Rightarrow> overrides \<Rightarrow> ('w, gains_details \<times> decimal option \<times> bool) transacting" where
  "liquity_withdrawLUSDFromStabilityPool e c amount ov = then_wait e (send_withdrawLUSDFromStabilityPool e c amount ov)"

definition liquity_withdrawGainsFromStabilityPool ::
  "'w ethers \<Rightarrow> connection \<Rightarrow> overrides \<Rightarrow> ('w, gains_details) transacting" where
  "liquity_withdrawGainsFromStabilityPool e c ov = then_wait e (send_withdrawGainsFromStabilityPool e c ov)"

definition liquity_transferCollateralGainToTrove ::
  "'w ethers \<Rightarrow> connection \<Rightarrow> overrides \<Rightarrow> ('w, gains_details \<times> trove option) transacting" where
  "liquity_transferCollateralGainToTrove e c ov = then_wait e (send_transferCollateralGainToTrove e c ov)"

definition liquity_sendLUSD ::
  "'w ethers \<Rightarrow> connection \<Rightarrow> string \<Rightarrow> decimalish \<Rightarrow> overrides \<Rightarrow> ('w, unit) transacting" where
  "liquity_sendLUSD e c toAddress amount ov = then_wait e (send_sendLUSD e c toAddress amount ov)"

definition liquity_sendLQTY ::
  "'w ethers \<Rightarrow> connection \<Rightarrow> string \<Rightarrow> decimalish \<Rightarrow> overrides \<Rightarrow> ('w, unit) transacting" where
  "liquity_sendLQTY e c toAddress amount ov = then_wait e (send_sendLQTY e c toAddress amount ov)"

definition liquity_redeemLUSD ::
  "'w ethers \<Rightarrow> connection \<Rightarrow> decimalish \<Rightarrow> decimalish option \<Rightarrow> overrides \<Rightarrow> ('w, redemption_details option) transacting" where
  "liquity_redeemLUSD e c amount maxRedemptionRate ov = then_wait e (send_redeemLUSD e c amount maxRedemptionRate ov)"

definition liquity_claimCollateralSurplus ::
  "'w ethers \<Rightarrow> connection \<Rightarrow> overrides \<Rightarrow> ('w, unit) transacting" where
  "liquity_claimCollateralSurplus e c ov = then_wait e (send_claimCollateralSurplus e c ov)"

definition liquity_stakeLQTY ::
  "'w ethers \<Rightarrow> connection \<Rightarrow> decimalish \<Rightarrow> overrides \<Rightarrow> ('w, unit) transacting" where
  "liquity_stakeLQTY e c amount ov = then_wait e (send_stakeLQTY e c amount ov)"

definition liquity_unstakeLQTY ::
  "'w ethers \<Rightarrow> connection \<Rightarrow> decimalish \<Rightarrow> overrides \<Rightarrow> ('w, unit) transacting" where
  "liquity_unstakeLQTY e c amount ov = then_wait e (send_unstakeLQTY e c amount ov)"

definition liquity_withdrawGainsFromStaking ::
  "'w ethers \<Rightarrow> connection \<Rightarrow> overrides \<Rightarrow> ('w, unit) transacting" where
  "liquity_withdrawGainsFromStaking e c ov = then_wait e (send_withdrawGainsFromStaking e c ov)"

definition liquity_registerFrontend ::
  "'w ethers \<Rightarrow> connection \<Rightarrow> decimalish \<Rightarrow> overrides \<Rightarrow> ('w, unit) transacting" where
  "liquity_registerFrontend e c rate ov = then_wait e (send_registerFrontend e c rate ov)"

definition liquity_mintUniToken ::
  "'w ethers \<Rightarrow> connection \<Rightarrow> decimalish \<Rightarrow> string option \<Rightarrow> overrides \<Rightarrow> ('w, unit) transacting" where
  "liquity_mintUniToken e c amount address ov = then_wait e (send_mintUniToken e c amount address ov)"

definition liquity_approveUniTokens ::
  "'w ethers \<Rightarrow> connection \<Rightarrow> decimalish option \<Rightarrow> overrides \<Rightarrow> ('w, unit) transacting" where
  "liquity_approveUniTokens e c allowance ov = then_wait e (send_approveUniTokens e c allowance ov)"

definition liquity_stakeUniTokens ::
  "'w ethers \<Rightarrow> connection \<Rightarrow> decimalish \<Rightarrow> overrides \<Rightarrow> ('w, unit) transacting" where
  "liquity_stakeUniTokens e c amount ov = then_wait e (send_stakeUniTokens e c amount ov)"

definition liquity_unstakeUniTokens ::
  "'w ethers \<Rightarrow> connection \<Rightarrow> decimalish \<Rightarrow> overrides \<Rightarrow> ('w, unit) transacting" where
  "liquity_unstakeUniTokens e c amount ov = then_wait e (send_unstakeUniTokens e c amount ov)"

definition liquity_withdrawLQTYRewardFromLiquidityMining ::
  "'w ethers \<Rightarrow> connection \<Rightarrow> overrides \<Rightarrow> ('w, unit) transacting" where
  "liquity_withdrawLQTYRewardFromLiquidityMining e c ov = then_wait e (send_withdrawLQTYRewardFromLiquidityMining e c ov)"

definition liquity_exitLiquidityMining ::
  "'w ethers \<Rightarrow> connection \<Rightarrow> overrides \<Rightarrow> ('w, unit) transacting" where
  "liquity_exitLiquidityMining e c ov = then_wait e (send_exitLiquidityMining e c ov)"

end
