(* ===== verification/Sendable_Props.thy ===== *)
theory Sendable_Props
  imports Sendable
begin

text \<open>
  What a transaction of \<^verbatim>\<open>EthersLiquity\<close> does to the chain: preparing it sends nothing, and then at most the
  prepared transaction is sent, once. The calls to the provider that only read are those that keep what was sent.
\<close>

section \<open>Preparing sends nothing\<close>

text \<open>An observation of the transactions sent so far: only a transaction that the provider accepts adds to it.\<close>

definition records :: "('w \<Rightarrow> populated list) \<Rightarrow> 'w ethers \<Rightarrow> bool" where
  "records sent e \<longleftrightarrow>
     (\<forall>k fn args ov w. sent (snd (ethers_call e k fn args ov w)) = sent w)
     \<and> (\<forall>k fn args ov w. sent (snd (estimateGas e k fn args ov w)) = sent w)
     \<and> (\<forall>tag w. sent (snd (timestampOf e tag w)) = sent w)
     \<and> (\<forall>a tag w. sent (snd (getBalance e a tag w)) = sent w)
     \<and> (\<forall>w. sent (snd (randomInteger e w)) = sent w)
     \<and> (\<forall>tx n w. sent (snd (wait_tx e tx n w)) = sent w)
     \<and> (\<forall>tx w. case sendTransaction e tx w of (Inl _, w') \<Rightarrow> sent w' = sent w | (Inr _, w') \<Rightarrow> sent w' = sent w @ [tx])"

definition quiet :: "('w \<Rightarrow> populated list) \<Rightarrow> ('w, 'a) io \<Rightarrow> bool" where
  "quiet sent m \<longleftrightarrow> (\<forall>l. io_keeps (\<lambda>w. sent w = l) m)"

named_theorems quiet_intros \<open>computations that send nothing\<close>

lemma quietD: "quiet sent m \<Longrightarrow> m w = (r, w') \<Longrightarrow> sent w' = sent w"
  using io_keepsD [of "\<lambda>x. sent x = sent w" m w] by (simp add: quiet_def)

lemma quiet_steps [quiet_intros]:
  "quiet sent (return_io x)" "quiet sent (throw_io err)" "quiet sent (lift_io r)" "quiet sent (assert_io msg b)"
  "quiet sent m \<Longrightarrow> (\<And>x. quiet sent (f x)) \<Longrightarrow> quiet sent (bind_io m f)"
  "(b \<Longrightarrow> quiet sent n) \<Longrightarrow> quiet sent (when_io b n)"
  "(\<And>b x. quiet sent (g b x)) \<Longrightarrow> quiet sent (foldM_io g b0 xs)"
  by (simp_all add: quiet_def keeps_intros)

lemma quiet_cases [quiet_intros]:
  "quiet sent m \<Longrightarrow> quiet sent n \<Longrightarrow> quiet sent (if b then m else n)"
  "quiet sent m \<Longrightarrow> (\<And>y. quiet sent (f y)) \<Longrightarrow> quiet sent (case x of None \<Rightarrow> m | Some y \<Rightarrow> f y)"
  "(\<And>a b. quiet sent (g a b)) \<Longrightarrow> quiet sent (case p of (a, b) \<Rightarrow> g a b)"
  "(\<And>a. quiet sent (h a)) \<Longrightarrow> (\<And>b. quiet sent (k b)) \<Longrightarrow> quiet sent (case s of Inl a \<Rightarrow> h a | Inr b \<Rightarrow> k b)"
  by (simp_all split: option.split prod.split sum.split)

lemma quiet_provider [quiet_intros]:
  assumes "records sent e"
  shows "quiet sent (ethers_call e k fn args ov)" "quiet sent (estimateGas e k fn args ov)" "quiet sent (timestampOf e tag)"
    "quiet sent (getBalance e a tag)" "quiet sent (randomInteger e)"
  using assms by (auto simp: records_def quiet_def io_keeps_def)

lemma quiet_calls [quiet_intros]:
  assumes "records sent e"
  shows "quiet sent (call_decimal e k fn args ov)" "quiet sent (call_number e k fn args ov)" "quiet sent (str_call e k fn args)"
    "quiet sent (estimateAndPopulate e k fn ov adjust args)"
  unfolding call_decimal_def call_number_def str_call_def estimateAndPopulate_def
  by (intro quiet_intros assms)+

lemma quiet_reads [quiet_intros]:
  assumes "records sent e"
  shows "quiet sent (getTotalRedistributed e ov)" "quiet sent (getNumberOfTroves e ov)" "quiet sent (getPrice e ov)"
    "quiet sent (pool_trove e k ov)" "quiet sent (getBlockTimestamp e tag)" "quiet sent (getFeesFactory e ov)"
    "quiet sent (getTroveBeforeRedistribution e c a ov)" "quiet sent (getStabilityDeposit e c a ov)"
  unfolding getTotalRedistributed_def getNumberOfTroves_def getPrice_def pool_trove_def getBlockTimestamp_def
    getFeesFactory_def getTroveBeforeRedistribution_def getStabilityDeposit_def Let_def
  by (intro quiet_intros assms)+

lemma quiet_more_reads [quiet_intros]:
  assumes "records sent e"
  shows "quiet sent (getTotal e ov)" "quiet sent (getTrove e c a ov)"
  unfolding getTotal_def getTrove_def getActivePool_def getDefaultPool_def
  by (intro quiet_intros assms)+

lemma quiet_hints [quiet_intros]:
  assumes "records sent e"
  shows "quiet sent (getFees e ov)" "quiet sent (findHints e t own)" "quiet sent (findRedemptionHints e d)"
  unfolding getFees_def findHints_def findRedemptionHints_def findHintsForNominalCollateralRatio_def
    collectApproxHint_def jump_over_def Let_def
  by (intro quiet_intros assms)+

section \<open>Preparing each transaction\<close>

lemma quiet_wrapped [quiet_intros]:
  assumes "records sent e"
  shows "quiet sent (simple_tx e c ov k fn adjust args wrap)" "quiet sent (amount_tx e c ov d k fn adjust args' wrap')"
  unfolding simple_tx_def amount_tx_def with_overrides_def
  by (intro quiet_intros assms)+

lemma quiet_openTrove [quiet_intros]: "records sent e \<Longrightarrow> quiet sent (openTrove e c params options ov)"
  unfolding openTrove_def estimate_openTrove_def decay_error_def Let_def by (intro quiet_intros)

lemma quiet_adjustTrove [quiet_intros]: "records sent e \<Longrightarrow> quiet sent (adjustTrove e c params options ov)"
  unfolding adjustTrove_def decay_error_def Let_def by (intro quiet_intros)

lemma quiet_redeemLUSD [quiet_intros]: "records sent e \<Longrightarrow> quiet sent (redeemLUSD e c amount rate ov)"
  unfolding redeemLUSD_def populateRedemption_def by (intro quiet_intros)

lemma quiet_transferCollateralGainToTrove [quiet_intros]:
  "records sent e \<Longrightarrow> quiet sent (transferCollateralGainToTrove e c ov)"
  unfolding transferCollateralGainToTrove_def with_overrides_def by (intro quiet_intros)

lemma quiet_guarded [quiet_intros]:
  assumes "records sent e"
  shows "quiet sent (setPrice e c amount ov)" "quiet sent (mintUniToken e c amount address ov)"
  unfolding setPrice_def mintUniToken_def with_overrides_def by (intro quiet_intros assms)+

lemmas alias_defs =
  depositCollateral_tx_def withdrawCollateral_tx_def borrowLUSD_tx_def repayLUSD_tx_def closeTrove_def
  claimCollateralSurplus_def liquidate_def liquidateUpTo_def depositLUSDInStabilityPool_def
  withdrawLUSDFromStabilityPool_def withdrawGainsFromStabilityPool_def send_token_def sendLUSD_def sendLQTY_def
  stakeLQTY_def unstakeLQTY_def withdrawGainsFromStaking_def registerFrontend_def approveUniTokens_def stakeUniTokens_def
  unstakeUniTokens_def withdrawLQTYRewardFromLiquidityMining_def exitLiquidityMining_def

section \<open>At most one transaction\<close>

text \<open>\<open>transacts e c sent prepare tx_of op\<close>: \<open>op\<close> prepares, sends what was prepared, and waits. It throws what preparing
  throws, with nothing sent. Otherwise it returns exactly the details of a receipt that succeeded, and throws
  the failure exactly for a receipt that failed; then the prepared transaction was sent, and nothing else
  ever is.\<close>

definition mined :: "'w ethers \<Rightarrow> connection \<Rightarrow> populated \<Rightarrow> 'w \<Rightarrow> raw_receipt \<Rightarrow> 'w \<Rightarrow> bool" where
  "mined e c tx w r w' \<longleftrightarrow> hasSigner c
     \<and> (\<exists>hash w1. sendTransaction e tx w = (Inr hash, w1) \<and> waitForRawReceipt e hash None w1 = (Inr (Some r), w'))"

definition transacts ::
  "'w ethers \<Rightarrow> connection \<Rightarrow> ('w \<Rightarrow> populated list) \<Rightarrow> ('w, 'p) io \<Rightarrow> ('p \<Rightarrow> 'd transaction) \<Rightarrow> ('w, 'd) transacting \<Rightarrow> bool" where
  "transacts e c sent prepare tx_of op \<longleftrightarrow> (\<forall>w.
     (\<forall>err w1. prepare w = (Inl err, w1) \<longrightarrow> op w = (Inl (Raised err), w1) \<and> sent w1 = sent w)
     \<and> (\<forall>p w1. prepare w = (Inr p, w1) \<longrightarrow>
       (let raw = rawPopulatedTransaction (tx_of p) in
          (\<forall>d w2. op w = (Inr d, w2) \<longleftrightarrow> (\<exists>r. mined e c raw w1 r w2 \<and> rx_status r \<and> parse_receipt (tx_of p) r = Inr d))
          \<and> (\<forall>msg r w2. op w = (Inl (EthersTransactionFailedError msg r), w2) \<longleftrightarrow>
               msg = ''Transaction failed'' \<and> (\<exists>r'. r = Some r' \<and> mined e c raw w1 r' w2 \<and> \<not> rx_status r'))
          \<and> (sent (snd (op w)) = sent w \<or> sent (snd (op w)) = sent w @ [raw])
          \<and> ((\<forall>err. fst (op w) \<noteq> Inl (Raised err)) \<longrightarrow> sent (snd (op w)) = sent w @ [raw]))))"

lemma waitForSuccess_run:
  "waitForSuccess e tx w = (Inr d, w') \<longleftrightarrow>
     (\<exists>r. waitForRawReceipt e (rawSentTransaction tx) None w = (Inr (Some r), w') \<and> rx_status r \<and> sent_parse tx r = Inr d)"
  "waitForSuccess e tx w = (Inl (EthersTransactionFailedError msg ro), w') \<longleftrightarrow> msg = ''Transaction failed'' \<and>
     (\<exists>r. ro = Some r \<and> waitForRawReceipt e (rawSentTransaction tx) None w = (Inr (Some r), w') \<and> \<not> rx_status r)"
  by (auto simp: waitForSuccess_def waitForReceipt_def receiptFrom_def bind_io_def assert_io_def
      bind_res_eq_Inr bind_res_eq_Inl split: prod.splits sum.splits option.splits if_splits receipt.splits)

lemma waitForSuccess_quiet:
  assumes "records sent e"
  shows "sent (snd (waitForSuccess e tx w)) = sent w"
proof -
  have raw: "sent w' = sent w" if "waitForRawReceipt e h n w = (r, w')" for h n r w'
    using assms that by (auto simp: records_def waitForRawReceipt_def split: prod.splits sum.splits) (metis snd_conv)+
  show ?thesis
    by (auto dest: raw simp: waitForSuccess_def waitForReceipt_def bind_io_def assert_io_def assert_res_def
        split: prod.splits sum.splits)
qed

lemma transacts_then_wait:
  assumes R: "records sent e" and Q: "quiet sent prepare"
  shows "transacts e c sent prepare tx_of (then_wait e (bind_io prepare (\<lambda>p. send_populated e c (tx_of p))))"
proof -
  have outcome: "case sendTransaction e tx w of (Inl _, w') \<Rightarrow> sent w' = sent w | (Inr _, w') \<Rightarrow> sent w' = sent w @ [tx]"
    for tx w
    using R by (simp add: records_def)
  have accepted: "sent w2 = sent w1 @ [tx]" if "sendTransaction e tx w1 = (Inr h, w2)" for tx w1 h w2
    using outcome [where tx = tx and w = w1] that by simp
  have rejected: "sent w2 = sent w1" if "sendTransaction e tx w1 = (Inl err, w2)" for tx w1 err w2
    using outcome [where tx = tx and w = w1] that by simp
  show ?thesis
    by (auto simp: transacts_def mined_def then_wait_def send_populated_def send_def requireSigner_def bind_io_def Let_def
        waitForSuccess_run waitForSuccess_quiet [OF R] dest: quietD [OF Q] split: prod.splits sum.splits)
      (metis accepted rejected quietD [OF Q])+
qed

lemmas send_defs =
  send_openTrove_def send_closeTrove_def send_adjustTrove_def send_depositCollateral_def
  send_withdrawCollateral_def send_borrowLUSD_def send_repayLUSD_def send_setPrice_def send_liquidate_def
  send_liquidateUpTo_def send_depositLUSDInStabilityPool_def send_withdrawLUSDFromStabilityPool_def
  send_withdrawGainsFromStabilityPool_def send_transferCollateralGainToTrove_def send_sendLUSD_def
  send_sendLQTY_def send_redeemLUSD_def send_claimCollateralSurplus_def send_stakeLQTY_def
  send_unstakeLQTY_def send_withdrawGainsFromStaking_def send_registerFrontend_def send_mintUniToken_def
  send_approveUniTokens_def send_stakeUniTokens_def send_unstakeUniTokens_def
  send_withdrawLQTYRewardFromLiquidityMining_def send_exitLiquidityMining_def

lemmas liquity_defs =
  liquity_openTrove_def liquity_closeTrove_def liquity_adjustTrove_def liquity_depositCollateral_def
  liquity_withdrawCollateral_def liquity_borrowLUSD_def liquity_repayLUSD_def liquity_setPrice_def
  liquity_liquidate_def liquity_liquidateUpTo_def liquity_depositLUSDInStabilityPool_def
  liquity_withdrawLUSDFromStabilityPool_def liquity_withdrawGainsFromStabilityPool_def
  liquity_transferCollateralGainToTrove_def liquity_sendLUSD_def liquity_sendLQTY_def liquity_redeemLUSD_def
  liquity_claimCollateralSurplus_def liquity_stakeLQTY_def liquity_unstakeLQTY_def
  liquity_withdrawGainsFromStaking_def liquity_registerFrontend_def liquity_mintUniToken_def
  liquity_approveUniTokens_def liquity_stakeUniTokens_def liquity_unstakeUniTokens_def
  liquity_withdrawLQTYRewardFromLiquidityMining_def liquity_exitLiquidityMining_def

lemma quiet_aliases [quiet_intros]:
  assumes "records sent e"
  shows "quiet sent (closeTrove e c ov)"
    "quiet sent (depositCollateral_tx e c amount ov)"
    "quiet sent (withdrawCollateral_tx e c amount ov)"
    "quiet sent (borrowLUSD_tx e c amount maxBorrowingRate ov)"
    "quiet sent (repayLUSD_tx e c amount ov)"
    "quiet sent (liquidate e c liquidated ov)"
    "quiet sent (liquidateUpTo e c maximumNumberOfTrovesToLiquidate ov)"
    "quiet sent (depositLUSDInStabilityPool e c amount tag ov)"
    "quiet sent (withdrawLUSDFromStabilityPool e c amount ov)"
    "quiet sent (withdrawGainsFromStabilityPool e c ov)"
    "quiet sent (sendLUSD e c toAddress amount ov)"
    "quiet sent (sendLQTY e c toAddress amount ov)"
    "quiet sent (claimCollateralSurplus e c ov)"
    "quiet sent (stakeLQTY e c amount ov)"
    "quiet sent (unstakeLQTY e c amount ov)"
    "quiet sent (withdrawGainsFromStaking e c ov)"
    "quiet sent (registerFrontend e c rate ov)"
    "quiet sent (approveUniTokens e c allowance ov)"
    "quiet sent (stakeUniTokens e c amount ov)"
    "quiet sent (unstakeUniTokens e c amount ov)"
    "quiet sent (withdrawLQTYRewardFromLiquidityMining e c ov)"
    "quiet sent (exitLiquidityMining e c ov)"
  unfolding alias_defs by (intro quiet_intros assms)+

text \<open>C15: every transaction method of \<^verbatim>\<open>EthersLiquity\<close>, over a provider that records what is sent: it prepares the
  transaction of the corresponding method of \<^verbatim>\<open>PopulatableEthersLiquity\<close> and throws, with nothing sent, if that throws.
  Otherwise at most that transaction is sent, once; the method returns exactly when it was mined with a
  receipt that succeeded, with the details parsed from it, and throws \<^verbatim>\<open>EthersTransactionFailedError\<close> with the receipt
  exactly when it was mined and failed.\<close>

theorem one_transaction_per_call:
  assumes "records sent e"
  shows "transacts e c sent (openTrove e c params options ov) (\<lambda>tx. tx) (liquity_openTrove e c params options ov)
    \<and> transacts e c sent (closeTrove e c ov) (\<lambda>tx. tx) (liquity_closeTrove e c ov)
    \<and> transacts e c sent (adjustTrove e c params options ov) (\<lambda>tx. tx) (liquity_adjustTrove e c params options ov)
    \<and> transacts e c sent (depositCollateral_tx e c amount ov) (\<lambda>tx. tx) (liquity_depositCollateral e c amount ov)
    \<and> transacts e c sent (withdrawCollateral_tx e c amount ov) (\<lambda>tx. tx) (liquity_withdrawCollateral e c amount ov)
    \<and> transacts e c sent (borrowLUSD_tx e c amount maxBorrowingRate ov) (\<lambda>tx. tx) (liquity_borrowLUSD e c amount maxBorrowingRate ov)
    \<and> transacts e c sent (repayLUSD_tx e c amount ov) (\<lambda>tx. tx) (liquity_repayLUSD e c amount ov)
    \<and> transacts e c sent (setPrice e c amount ov) (\<lambda>tx. tx) (liquity_setPrice e c amount ov)
    \<and> transacts e c sent (liquidate e c liquidated ov) (\<lambda>tx. tx) (liquity_liquidate e c liquidated ov)
    \<and> transacts e c sent (liquidateUpTo e c maximumNumberOfTrovesToLiquidate ov) (\<lambda>tx. tx) (liquity_liquidateUpTo e c maximumNumberOfTrovesToLiquidate ov)
    \<and> transacts e c sent (depositLUSDInStabilityPool e c amount tag ov) (\<lambda>tx. tx) (liquity_depositLUSDInStabilityPool e c amount tag ov)
    \<and> transacts e c sent (withdrawLUSDFromStabilityPool e c amount ov) (\<lambda>tx. tx) (liquity_withdrawLUSDFromStabilityPool e c amount ov)
    \<and> transacts e c sent (withdrawGainsFromStabilityPool e c ov) (\<lambda>tx. tx) (liquity_withdrawGainsFromStabilityPool e c ov)
    \<and> transacts e c sent (transferCollateralGainToTrove e c ov) (\<lambda>tx. tx) (liquity_transferCollateralGainToTrove e c ov)
    \<and> transacts e c sent (sendLUSD e c toAddress amount ov) (\<lambda>tx. tx) (liquity_sendLUSD e c toAddress amount ov)
    \<and> transacts e c sent (sendLQTY e c toAddress amount ov) (\<lambda>tx. tx) (liquity_sendLQTY e c toAddress amount ov)
    \<and> transacts e c sent (redeemLUSD e c amount maxRedemptionRate ov) r_transaction (liquity_redeemLUSD e c amount maxRedemptionRate ov)
    \<and> transacts e c sent (claimCollateralSurplus e c ov) (\<lambda>tx. tx) (liquity_claimCollateralSurplus e c ov)
    \<and> transacts e c sent (stakeLQTY e c amount ov) (\<lambda>tx. tx) (liquity_stakeLQTY e c amount ov)
    \<and> transacts e c sent (unstakeLQTY e c amount ov) (\<lambda>tx. tx) (liquity_unstakeLQTY e c amount ov)
    \<and> transacts e c sent (withdrawGainsFromStaking e c ov) (\<lambda>tx. tx) (liquity_withdrawGainsFromStaking e c ov)
    \<and> transacts e c sent (registerFrontend e c rate ov) (\<lambda>tx. tx) (liquity_registerFrontend e c rate ov)
    \<and> transacts e c sent (mintUniToken e c amount recipient ov) (\<lambda>tx. tx) (liquity_mintUniToken e c amount recipient ov)
    \<and> transacts e c sent (approveUniTokens e c allowance ov) (\<lambda>tx. tx) (liquity_approveUniTokens e c allowance ov)
    \<and> transacts e c sent (stakeUniTokens e c amount ov) (\<lambda>tx. tx) (liquity_stakeUniTokens e c amount ov)
    \<and> transacts e c sent (unstakeUniTokens e c amount ov) (\<lambda>tx. tx) (liquity_unstakeUniTokens e c amount ov)
    \<and> transacts e c sent (withdrawLQTYRewardFromLiquidityMining e c ov) (\<lambda>tx. tx) (liquity_withdrawLQTYRewardFromLiquidityMining e c ov)
    \<and> transacts e c sent (exitLiquidityMining e c ov) (\<lambda>tx. tx) (liquity_exitLiquidityMining e c ov)"
proof -
  have tx: "transacts e c sent prepare (\<lambda>tx. tx) (then_wait e (bind_io prepare (send_populated e c)))"
    if "quiet sent prepare" for prepare :: "('a, 'd transaction) io"
    using transacts_then_wait [OF assms that, of c "\<lambda>tx. tx"] by simp
  show ?thesis
    unfolding liquity_defs send_defs
    by (intro conjI; (rule tx transacts_then_wait [OF assms], rule quiet_intros, rule assms))
qed

section \<open>An example\<close>

text \<open>A chain that accepts every transaction and whose receipts succeed without events.\<close>

definition ledger :: "populated list ethers" where
  "ledger = \<lparr>ethers_call = (\<lambda>_ _ _ _. return_io (BN 0)), estimateGas = (\<lambda>_ _ _ _. return_io 100000), contractAddress = id,
     parse_log = (\<lambda>_ _. Inl (Error [])), sendTransaction = (\<lambda>tx w. (Inr ''0x1'', w @ [tx])),
     wait_tx = (\<lambda>_ _ w. (Inr (Some \<lparr>rx_status = True, rx_logs = [], rx_from = ''0xa''\<rparr>), w)),
     timestampOf = (\<lambda>_. return_io 0), getBalance = (\<lambda>_ _. return_io (BN 0)), randomInteger = return_io 0\<rparr>"

definition ledger_connection :: connection where
  "ledger_connection = \<lparr>hasSigner = True, userAddress = Some ''0xa'', frontendTag = None,
     totalStabilityPoolLQTYReward = ZERO, priceFeedIsTestnet = False, uniTokenIsMock = False\<rparr>"

lemma ledger_records: "records (\<lambda>w. w) ledger"
  by (simp add: records_def ledger_def)

theorem one_transaction_per_call_witness:
  "snd (liquity_claimCollateralSurplus ledger ledger_connection [] []) =
     [populateTransaction ''borrowerOperations'' ''claimCollateral'' [] [(''from'', Str ''0xa''), (''gasLimit'', BN 100000)]]"
proof -
  let ?tx = "populateTransaction ''borrowerOperations'' ''claimCollateral'' [] [(''from'', Str ''0xa''), (''gasLimit'', BN 100000)]"
  have run: "claimCollateralSurplus ledger ledger_connection [] [] = (Inr (wrapSimpleTransaction ?tx), [])"
    by (simp add: claimCollateralSurplus_def simple_tx_def with_overrides_def prepareOverrides_def requireAddress_def
        ledger_connection_def ledger_def estimateAndPopulate_def override_def populateTransaction_def bind_io_def)
  have "transacts ledger ledger_connection (\<lambda>w. w) (claimCollateralSurplus ledger ledger_connection []) (\<lambda>tx. tx)
      (liquity_claimCollateralSurplus ledger ledger_connection [])"
    using one_transaction_per_call [OF ledger_records, of ledger_connection] by blast
  moreover have "mined ledger ledger_connection ?tx [] \<lparr>rx_status = True, rx_logs = [], rx_from = ''0xa''\<rparr> [?tx]"
    by (simp add: mined_def ledger_def ledger_connection_def waitForRawReceipt_def)
  moreover have "parse_receipt (wrapSimpleTransaction ?tx) \<lparr>rx_status = True, rx_logs = [], rx_from = ''0xa''\<rparr> = Inr ()"
    "rawPopulatedTransaction (wrapSimpleTransaction ?tx) = ?tx"
    by (simp_all add: wrapSimpleTransaction_def no_details_def)
  ultimately have "liquity_claimCollateralSurplus ledger ledger_connection [] [] = (Inr (), [?tx])"
    using run by (auto simp: transacts_def Let_def)
  then show ?thesis by simp
qed

end
