(* ===== verification/Connecting.thy ===== *)
theory Connecting
  imports Ethers Decimal_Text
begin

text \<open>
  Making a connection (\<^verbatim>\<open>lib-ethers/src/EthersLiquityConnection.ts\<close>): the deployment of a chain, the contract objects
  (\<^verbatim>\<open>contracts.ts\<close>, \<^verbatim>\<open>_Multicall.ts\<close>), and the parameters of the user. The deployments are generated files, and providers and
  signers are objects of ethers: both are parameters. \<open>connection_view\<close> gives the part of a connection
  that the rest of the SDK reads.
\<close>

section \<open>\<^verbatim>\<open>contracts.ts\<close>\<close>

record deployment =
  d_chainId :: int
  d_addresses :: "(string \<times> string) list"
  d_version :: string
  d_deploymentDate :: int
  d_startBlock :: int
  d_bootstrapPeriod :: int
  d_totalStabilityPoolLQTYReward :: string
  d_liquidityMiningLQTYRewardRate :: string
  d_priceFeedIsTestnet :: bool
  d_uniTokenIsMock :: bool
  d_isDev :: bool

text \<open>A contract object: its address and the name of its ABI, \<open>None\<close> for an undefined one.\<close>

record contract_object =
  co_address :: string
  co_abi :: "string option"

definition getAbi :: "bool \<Rightarrow> bool \<Rightarrow> (string \<times> string) list" where
  "getAbi testnet mock =
     [(''activePool'', ''ActivePool''), (''borrowerOperations'', ''BorrowerOperations''), (''troveManager'', ''TroveManager''),
      (''lusdToken'', ''LUSDToken''), (''communityIssuance'', ''CommunityIssuance''), (''defaultPool'', ''DefaultPool''),
      (''lqtyToken'', ''LQTYToken''), (''hintHelpers'', ''HintHelpers''), (''lockupContractFactory'', ''LockupContractFactory''),
      (''lqtyStaking'', ''LQTYStaking''), (''multiTroveGetter'', ''MultiTroveGetter''),
      (''priceFeed'', if testnet then ''PriceFeedTestnet'' else ''PriceFeed''), (''sortedTroves'', ''SortedTroves''),
      (''stabilityPool'', ''StabilityPool''), (''gasPool'', ''GasPool''), (''collSurplusPool'', ''CollSurplusPool''),
      (''unipool'', ''Unipool''), (''uniToken'', if mock then ''ERC20Mock'' else ''IERC20'')]"

definition mapLiquityContracts :: "(string \<times> 'a) list \<Rightarrow> ('a \<Rightarrow> string \<Rightarrow> 'b) \<Rightarrow> (string \<times> 'b) list" where
  "mapLiquityContracts contracts f = map (\<lambda>(key, t). (key, f t key)) contracts"

definition connectToContracts :: "deployment \<Rightarrow> (string \<times> contract_object) list" where
  "connectToContracts d =
     (let abi = getAbi (d_priceFeedIsTestnet d) (d_uniTokenIsMock d)
      in mapLiquityContracts (d_addresses d) (\<lambda>address key. \<lparr>co_address = address, co_abi = map_of abi key\<rparr>))"

text \<open>\<^verbatim>\<open>"setPrice" in priceFeed\<close> and \<^verbatim>\<open>"mint" in uniToken\<close>: the functions of the test contracts.\<close>

definition has_abi :: "(string \<times> contract_object) list \<Rightarrow> string \<Rightarrow> string \<Rightarrow> bool" where
  "has_abi contracts key abi \<longleftrightarrow> (case map_of contracts key of None \<Rightarrow> False | Some k \<Rightarrow> co_abi k = Some abi)"

section \<open>\<^verbatim>\<open>_Multicall.ts\<close>\<close>

definition multicallAddress :: "(int \<times> string) list" where
  "multicallAddress =
     [(1, ''0xeefba1e63905ef1d7acba5a8513c70307c1ce441''), (3, ''0x53c43764255c17bd724f74c4ef150724ac50a3ed''),
      (4, ''0x42ad527de7d4e9d9d011ac45b31d8551f8fe9821''), (5, ''0x77dca2c955b15e9de4dbbcf1246b4b85b651e50e''),
      (42, ''0x2cc8688c5f75e365aaeeb4ea8d6a480405a48d2a'')]"

definition hasMulticall :: "int \<Rightarrow> bool" where
  "hasMulticall chainId \<longleftrightarrow> chainId \<in> set (map fst multicallAddress)"

definition connectToMulticall :: "int \<Rightarrow> string option" where
  "connectToMulticall chainId = (if hasMulticall chainId then map_of multicallAddress chainId else None)"

section \<open>\<^verbatim>\<open>EthersLiquityConnection.ts\<close>\<close>

record optional_params =
  o_userAddress :: "string option"
  o_frontendTag :: "string option"
  o_useStore :: "string option"

definition no_params :: optional_params where
  "no_params = \<lparr>o_userAddress = None, o_frontendTag = None, o_useStore = None\<rparr>"

record ('p, 's) full_connection =
  cn_provider :: 'p
  cn_signer :: "'s option"
  cn_contracts :: "(string \<times> contract_object) list"
  cn_multicall :: "string option"
  cn_deploymentDate :: int
  cn_totalStabilityPoolLQTYReward :: decimal
  cn_liquidityMiningLQTYRewardRate :: decimal
  cn_deployment :: deployment
  cn_params :: optional_params

definition validStoreOptions :: "string list" where
  "validStoreOptions = [''blockPolled'']"

definition connectionFrom ::
  "'p \<Rightarrow> 's option \<Rightarrow> (string \<times> contract_object) list \<Rightarrow> string option \<Rightarrow> deployment \<Rightarrow> optional_params option \<Rightarrow>
   ('p, 's) full_connection res" where
  "connectionFrom prov sig contracts multicall d params =
     bind_res (case params of
         None \<Rightarrow> Inr ()
       | Some q \<Rightarrow> (case o_useStore q of
           None \<Rightarrow> Inr ()
         | Some store \<Rightarrow> if store \<in> set validStoreOptions then Inr ()
                         else Inl (Error (''Invalid useStore value '' @ store)))) (\<lambda>_.
     bind_res (Decimal_from (StringV (d_totalStabilityPoolLQTYReward d))) (\<lambda>reward.
     bind_res (Decimal_from (StringV (d_liquidityMiningLQTYRewardRate d))) (\<lambda>rate.
     Inr \<lparr>cn_provider = prov, cn_signer = sig, cn_contracts = contracts, cn_multicall = multicall,
          cn_deploymentDate = d_deploymentDate d, cn_totalStabilityPoolLQTYReward = reward,
          cn_liquidityMiningLQTYRewardRate = rate, cn_deployment = d,
          cn_params = (case params of None \<Rightarrow> no_params | Some q \<Rightarrow> q)\<rparr>)))"

text \<open>What the SDK reads of a connection.\<close>

definition connection_view :: "('p, 's) full_connection \<Rightarrow> connection" where
  "connection_view cn =
     \<lparr>hasSigner = (cn_signer cn \<noteq> None), userAddress = o_userAddress (cn_params cn),
      frontendTag = o_frontendTag (cn_params cn),
      totalStabilityPoolLQTYReward = cn_totalStabilityPoolLQTYReward cn,
      priceFeedIsTestnet = has_abi (cn_contracts cn) ''priceFeed'' ''PriceFeedTestnet'',
      uniTokenIsMock = has_abi (cn_contracts cn) ''uniToken'' ''ERC20Mock''\<rparr>"

definition usingStore :: "('p, 's) full_connection \<Rightarrow> bool" where
  "usingStore cn \<longleftrightarrow> o_useStore (cn_params cn) \<noteq> None"

definition new_UnsupportedNetworkError :: "int \<Rightarrow> js_error" where
  "new_UnsupportedNetworkError chainId = Error (''Unsupported network (chainId = '' @ show_int chainId @ '')'')"

text \<open>What connecting uses of ethers: a signer's provider and address, and a provider's chain.\<close>

datatype ('p, 's) signer_or_provider = OfSigner 's | OfProvider 'p

record ('w, 'p, 's) ethers_objects =
  signer_provider :: "'s \<Rightarrow> 'p option"
  getAddress :: "'s \<Rightarrow> ('w, string) io"
  getNetwork :: "'p \<Rightarrow> ('w, int) io"

definition getProviderAndSigner ::
  "('w, 'p, 's) ethers_objects \<Rightarrow> ('p, 's) signer_or_provider \<Rightarrow> ('p \<times> 's option) res" where
  "getProviderAndSigner eo sp =
     (case sp of
        OfSigner s \<Rightarrow> (case signer_provider eo s of
            None \<Rightarrow> Inl (Error ''Signer must have a Provider'')
          | Some p \<Rightarrow> Inr (p, Some s))
      | OfProvider p \<Rightarrow> Inr (p, None))"

definition connectToDeployment ::
  "('w, 'p, 's) ethers_objects \<Rightarrow> deployment \<Rightarrow> ('p, 's) signer_or_provider \<Rightarrow> optional_params option \<Rightarrow>
   ('p, 's) full_connection res" where
  "connectToDeployment eo d sp params =
     bind_res (getProviderAndSigner eo sp) (\<lambda>(p, s). connectionFrom p s (connectToContracts d) None d params)"

definition connectByChainId ::
  "(int \<Rightarrow> deployment option) \<Rightarrow> 'p \<Rightarrow> 's option \<Rightarrow> int \<Rightarrow> optional_params option \<Rightarrow> ('p, 's) full_connection res" where
  "connectByChainId deployments p s chainId params =
     (case deployments chainId of
        None \<Rightarrow> Inl (new_UnsupportedNetworkError chainId)
      | Some d \<Rightarrow> connectionFrom p s (connectToContracts d) (connectToMulticall chainId) d params)"

definition connect_liquity ::
  "('w, 'p, 's) ethers_objects \<Rightarrow> (int \<Rightarrow> deployment option) \<Rightarrow> ('p, 's) signer_or_provider \<Rightarrow> optional_params option \<Rightarrow>
   ('w, ('p, 's) full_connection) io" where
  "connect_liquity eo deployments sp params =
     bind_io (lift_io (getProviderAndSigner eo sp)) (\<lambda>(p, s).
     bind_io (case s of
         None \<Rightarrow> return_io params
       | Some s \<Rightarrow>
           if (case params of None \<Rightarrow> None | Some q \<Rightarrow> o_userAddress q) \<noteq> None
           then throw_io (Error ''Can't override userAddress when connecting through Signer'')
           else bind_io (getAddress eo s) (\<lambda>a.
                return_io (Some ((case params of None \<Rightarrow> no_params | Some q \<Rightarrow> q)\<lparr>o_userAddress := Some a\<rparr>)))) (\<lambda>params.
     bind_io (getNetwork eo p) (\<lambda>chainId.
     lift_io (connectByChainId deployments p s chainId params))))"

section \<open>The store option\<close>

text \<open>\<^verbatim>\<open>ReadableEthersLiquity._from\<close> and \<^verbatim>\<open>EthersLiquity._from\<close>: whether an object with a store is made; and \<^verbatim>\<open>hasStore\<close> of the
  classes with and without one.\<close>

definition readable_from_has_store :: "('p, 's) full_connection \<Rightarrow> bool" where
  "readable_from_has_store cn \<longleftrightarrow> o_useStore (cn_params cn) = Some ''blockPolled''"

definition liquity_from_has_store :: "('p, 's) full_connection \<Rightarrow> bool" where
  "liquity_from_has_store cn \<longleftrightarrow> usingStore cn"

definition hasStore :: "bool \<Rightarrow> ('p, 's) full_connection \<Rightarrow> string option \<Rightarrow> bool" where
  "hasStore with_store cn st \<longleftrightarrow>
     with_store \<and> (st = None \<or> st = o_useStore (cn_params cn))"

section \<open>What a connection gives\<close>

lemma connectionFrom_params:
  "connectionFrom p s k m d params = Inr cn \<Longrightarrow>
     cn_provider cn = p \<and> cn_signer cn = s \<and> cn_contracts cn = k \<and> cn_multicall cn = m \<and> cn_deployment cn = d
     \<and> cn_params cn = (case params of None \<Rightarrow> no_params | Some q \<Rightarrow> q)
     \<and> (case o_useStore (cn_params cn) of None \<Rightarrow> True | Some st \<Rightarrow> st = ''blockPolled'')"
  by (auto simp: connectionFrom_def bind_res_eq_Inr validStoreOptions_def no_params_def split: option.splits if_splits)

lemma connectionFrom_ok:
  assumes "o_useStore q = None \<or> o_useStore q = Some ''blockPolled''"
    and "is_ok (Decimal_from (StringV (d_totalStabilityPoolLQTYReward d)))"
    and "is_ok (Decimal_from (StringV (d_liquidityMiningLQTYRewardRate d)))"
  shows "is_ok (connectionFrom p s k m d (Some q))"
  using assms by (auto simp: connectionFrom_def validStoreOptions_def is_ok_def split: sum.splits simp del: Decimal_from.simps)

text \<open>The two factory functions decide alike for every connection that could be made: an \<^verbatim>\<open>EthersLiquity\<close> with a
  store is built from a reader with a store.\<close>

theorem factories_agree:
  assumes "connectionFrom p s k m d params = Inr cn"
  shows "liquity_from_has_store cn = readable_from_has_store cn"
  using connectionFrom_params [OF assms]
  by (auto simp: liquity_from_has_store_def readable_from_has_store_def usingStore_def split: option.splits)

lemma map_of_contracts:
  "map_of (connectToContracts d) key = map_option (\<lambda>a. \<lparr>co_address = a,
     co_abi = map_of (getAbi (d_priceFeedIsTestnet d) (d_uniTokenIsMock d)) key\<rparr>) (map_of (d_addresses d) key)"
proof -
  have "map_of (map (\<lambda>(key, t). (key, f t key)) xs) key = map_option (\<lambda>t. f t key) (map_of xs key)"
    for f :: "string \<Rightarrow> string \<Rightarrow> contract_object" and xs
    by (induction xs) auto
  then show ?thesis by (simp add: connectToContracts_def mapLiquityContracts_def Let_def)
qed


section \<open>An example\<close>

definition example_deployment :: deployment where
  "example_deployment = \<lparr>d_chainId = 1, d_addresses = [(''priceFeed'', ''0xf''), (''troveManager'', ''0xb'')], d_version = ''0'',
     d_deploymentDate = 0, d_startBlock = 0, d_bootstrapPeriod = 0, d_totalStabilityPoolLQTYReward = ''1'',
     d_liquidityMiningLQTYRewardRate = ''1'', d_priceFeedIsTestnet = True, d_uniTokenIsMock = False, d_isDev = False\<rparr>"

definition example_objects :: "(unit, unit, unit) ethers_objects" where
  "example_objects = \<lparr>signer_provider = Some, getAddress = (\<lambda>_. return_io ''0xa''), getNetwork = (\<lambda>_. return_io 1)\<rparr>"

definition example_connect :: "(unit, unit) full_connection res \<times> unit" where
  "example_connect = connect_liquity example_objects [1 \<mapsto> example_deployment] (OfSigner ())
     (Some (no_params\<lparr>o_useStore := Some ''blockPolled''\<rparr>)) ()"


end
