(* ===== verification/Observable.thy ===== *)
theory Observable
  imports Readable
begin

text \<open>
  Watching the protocol by its events (\<^verbatim>\<open>lib-ethers/src/ObservableEthersLiquity.ts\<close>): which events each method of the class
  subscribes to and what it then reads, and the function \<^verbatim>\<open>debounce\<close>, which makes one read of a burst of events.
  A watch with its timers is a step relation: events delivered, timers that fire, and the end of the watch.
\<close>

section \<open>What is watched\<close>

text \<open>A subscription: the filter of a contract's events, \<open>None\<close> for an argument that may be anything, and the only address for
  which the listener acts, if it looks at the first argument.\<close>

record subscription =
  su_contract :: string
  su_event :: string
  su_filter :: "string option list"
  su_onlyTo :: "string option"

text \<open>A watch: its subscriptions, and the read whose result goes to the callback.\<close>

type_synonym ('w, 'a) watch = "subscription list \<times> (int \<Rightarrow> ('w, 'a) io)"

definition at_tag :: "int \<Rightarrow> overrides" where
  "at_tag b = [(''blockTag'', Num b)]"

definition watchTotalRedistributed :: "'w ethers \<Rightarrow> ('w, trove) watch" where
  "watchTotalRedistributed e =
     ([\<lparr>su_contract = ''activePool'', su_event = ''CollateralSent'', su_filter = [],
        su_onlyTo = Some (contractAddress e ''defaultPool'')\<rparr>],
      \<lambda>b. getTotalRedistributed e (at_tag b))"

definition watchTroveWithoutRewards :: "'w ethers \<Rightarrow> connection \<Rightarrow> string option \<Rightarrow> ('w, pending_trove) watch res" where
  "watchTroveWithoutRewards e c address =
     bind_res (default_address c address) (\<lambda>a.
     Inr ([\<lparr>su_contract = ''troveManager'', su_event = ''TroveUpdated'', su_filter = [Some a], su_onlyTo = None\<rparr>,
           \<lparr>su_contract = ''borrowerOperations'', su_event = ''TroveUpdated'', su_filter = [Some a], su_onlyTo = None\<rparr>],
          \<lambda>b. getTroveBeforeRedistribution e c (Some a) (at_tag b)))"

definition watchNumberOfTroves :: "'w ethers \<Rightarrow> ('w, int) watch" where
  "watchNumberOfTroves e =
     ([\<lparr>su_contract = ''troveManager'', su_event = ''TroveUpdated'', su_filter = [], su_onlyTo = None\<rparr>],
      \<lambda>b. getNumberOfTroves e (at_tag b))"

definition watchPrice :: "('w, decimal) watch res" where
  "watchPrice = Inl (Error ''Method not implemented.'')"

definition watchTotal :: "'w ethers \<Rightarrow> ('w, trove) watch" where
  "watchTotal e =
     ([\<lparr>su_contract = ''troveManager'', su_event = ''TroveUpdated'', su_filter = [], su_onlyTo = None\<rparr>],
      \<lambda>b. getTotal e (at_tag b))"

definition watchStabilityDeposit :: "'w ethers \<Rightarrow> connection \<Rightarrow> string option \<Rightarrow> ('w, stability_deposit) watch res" where
  "watchStabilityDeposit e c address =
     bind_res (default_address c address) (\<lambda>a.
     Inr ([\<lparr>su_contract = ''stabilityPool'', su_event = ''UserDepositChanged'', su_filter = [Some a], su_onlyTo = None\<rparr>,
           \<lparr>su_contract = ''activePool'', su_event = ''CollateralSent'', su_filter = [],
            su_onlyTo = Some (contractAddress e ''stabilityPool'')\<rparr>],
          \<lambda>b. getStabilityDeposit e c (Some a) (at_tag b)))"

definition watchLUSDInStabilityPool :: "'w ethers \<Rightarrow> ('w, decimal) watch" where
  "watchLUSDInStabilityPool e =
     ([\<lparr>su_contract = ''lusdToken'', su_event = ''Transfer'', su_filter = [Some (contractAddress e ''stabilityPool'')],
        su_onlyTo = None\<rparr>,
       \<lparr>su_contract = ''lusdToken'', su_event = ''Transfer'', su_filter = [None, Some (contractAddress e ''stabilityPool'')],
        su_onlyTo = None\<rparr>],
      \<lambda>b. getLUSDInStabilityPool e (at_tag b))"

definition watchLUSDBalance :: "'w ethers \<Rightarrow> connection \<Rightarrow> string option \<Rightarrow> ('w, decimal) watch res" where
  "watchLUSDBalance e c address =
     bind_res (default_address c address) (\<lambda>a.
     Inr ([\<lparr>su_contract = ''lusdToken'', su_event = ''Transfer'', su_filter = [Some a], su_onlyTo = None\<rparr>,
           \<lparr>su_contract = ''lusdToken'', su_event = ''Transfer'', su_filter = [None, Some a], su_onlyTo = None\<rparr>],
          \<lambda>b. getLUSDBalance e c (Some a) (at_tag b)))"

section \<open>\<^verbatim>\<open>debounce\<close>\<close>

text \<open>The closure of a debounced listener with the timers of the runtime, and the blocks at which the listener was
  called, which is where the read is made.\<close>

record watching =
  subscribed :: bool
  timeoutId :: "nat option"
  latestBlock :: int
  timers :: "nat list"
  next_timer :: nat
  reads :: "int list"

definition new_watch :: watching where
  "new_watch = \<lparr>subscribed = True, timeoutId = None, latestBlock = 0, timers = [], next_timer = 0, reads = []\<rparr>"

definition clearTimeout :: "nat option \<Rightarrow> watching \<Rightarrow> watching" where
  "clearTimeout t s = (case t of None \<Rightarrow> s | Some t \<Rightarrow> s\<lparr>timers := removeAll t (timers s)\<rparr>)"

definition setTimeout :: "watching \<Rightarrow> watching" where
  "setTimeout s = s\<lparr>timers := timers s @ [next_timer s], timeoutId := Some (next_timer s), next_timer := next_timer s + 1\<rparr>"

definition debounced :: "int option \<Rightarrow> watching \<Rightarrow> watching" where
  "debounced blockNumber s =
     (let s = (case blockNumber of None \<Rightarrow> s | Some b \<Rightarrow> if b > latestBlock s then s\<lparr>latestBlock := b\<rparr> else s)
      in setTimeout (clearTimeout (timeoutId s) s))"

definition timer_fires :: "nat \<Rightarrow> watching \<Rightarrow> watching" where
  "timer_fires t s = s\<lparr>timers := removeAll t (timers s), reads := reads s @ [latestBlock s], timeoutId := None\<rparr>"

definition listener :: "subscription \<Rightarrow> string \<Rightarrow> int option \<Rightarrow> watching \<Rightarrow> watching" where
  "listener su toAddress blockNumber s =
     (case su_onlyTo su of
        None \<Rightarrow> debounced blockNumber s
      | Some a \<Rightarrow> if toAddress = a then debounced blockNumber s else s)"

definition unwatch :: "watching \<Rightarrow> watching" where
  "unwatch s = s\<lparr>subscribed := False\<rparr>"

datatype watch_label = Delivered subscription string "int option" | Fired nat | Unwatched

text \<open>The provider delivers events to the subscriptions while there are any; a timer fires once; the watch is ended by
  the function that the method returned.\<close>

inductive watches :: "subscription list \<Rightarrow> watch_label list \<Rightarrow> watching \<Rightarrow> bool" for subs where
  watches_start: "watches subs [] new_watch"
| watches_event: "watches subs ls s \<Longrightarrow> subscribed s \<Longrightarrow> su \<in> set subs \<Longrightarrow>
    watches subs (ls @ [Delivered su toAddress b]) (listener su toAddress b s)"
| watches_fire: "watches subs ls s \<Longrightarrow> t \<in> set (timers s) \<Longrightarrow> watches subs (ls @ [Fired t]) (timer_fires t s)"
| watches_end: "watches subs ls s \<Longrightarrow> watches subs (ls @ [Unwatched]) (unwatch s)"

section \<open>One read per burst of events\<close>

text \<open>An event that the listener acts on, at a known block.\<close>

fun acts_at :: "int \<Rightarrow> watch_label \<Rightarrow> bool" where
  "acts_at b (Delivered su toAddress n) \<longleftrightarrow> n = Some b \<and> (case su_onlyTo su of None \<Rightarrow> True | Some a \<Rightarrow> toAddress = a)"
| "acts_at b _ \<longleftrightarrow> False"

fun is_delivery :: "watch_label \<Rightarrow> bool" where
  "is_delivery (Delivered _ _ _) \<longleftrightarrow> True"
| "is_delivery _ \<longleftrightarrow> False"

definition watch_inv :: "watch_label list \<Rightarrow> watching \<Rightarrow> bool" where
  "watch_inv ls s \<longleftrightarrow>
     timers s = (case timeoutId s of None \<Rightarrow> [] | Some t \<Rightarrow> [t])
     \<and> 0 \<le> latestBlock s \<and> (latestBlock s = 0 \<or> (\<exists>l\<in>set ls. acts_at (latestBlock s) l))
     \<and> (\<forall>l\<in>set ls. \<forall>b. acts_at b l \<longrightarrow> b \<le> latestBlock s)
     \<and> sorted (reads s) \<and> (\<forall>r\<in>set (reads s). r \<le> latestBlock s \<and> (r = 0 \<or> (\<exists>l\<in>set ls. acts_at r l)))
     \<and> (timers s = [] \<longrightarrow> latestBlock s = 0 \<or> latestBlock s \<in> set (reads s))
     \<and> length (reads s) + length (timers s) \<le> length (filter is_delivery ls)"

lemma debounced_eq:
  assumes "watch_inv ls s"
  shows "debounced n s = s\<lparr>latestBlock := (case n of None \<Rightarrow> latestBlock s | Some b \<Rightarrow> max (latestBlock s) b),
     timers := [next_timer s], timeoutId := Some (next_timer s), next_timer := next_timer s + 1\<rparr>"
  using assms
  by (auto simp: watch_inv_def debounced_def setTimeout_def clearTimeout_def Let_def split: option.split)

lemma watch_inv_debounced:
  assumes inv: "watch_inv ls s" and acts: "case su_onlyTo su of None \<Rightarrow> True | Some a \<Rightarrow> toAddress = a"
  shows "watch_inv (ls @ [Delivered su toAddress n]) (debounced n s)"
proof (cases n)
  case None
  then show ?thesis
    using inv unfolding debounced_eq [OF inv] by (auto simp: watch_inv_def)
next
  case (Some b)
  have "r \<le> max (latestBlock s) b" if "r \<le> latestBlock s" for r
    using that by (rule max.coboundedI1)
  moreover have "max (latestBlock s) b = 0 \<or> (\<exists>l\<in>set (ls @ [Delivered su toAddress n]). acts_at (max (latestBlock s) b) l)"
    using inv acts Some by (cases "b \<le> latestBlock s") (auto simp: watch_inv_def max_absorb1 max_absorb2)
  ultimately show ?thesis
    using inv acts Some unfolding debounced_eq [OF inv] by (simp add: watch_inv_def) blast
qed

lemma watch_inv_listener:
  assumes "watch_inv ls s"
  shows "watch_inv (ls @ [Delivered su toAddress n]) (listener su toAddress n s)"
proof (cases "case su_onlyTo su of None \<Rightarrow> True | Some a \<Rightarrow> toAddress = a")
  case True
  then show ?thesis
    using watch_inv_debounced [OF assms True, of n] by (simp add: listener_def split: option.splits)
next
  case False
  then show ?thesis
    using assms by (auto simp: watch_inv_def listener_def split: option.splits)
qed

lemma watch_inv_fire:
  assumes "watch_inv ls s" and "t \<in> set (timers s)"
  shows "watch_inv (ls @ [Fired t]) (timer_fires t s)"
  using assms by (cases "timeoutId s") (auto simp: watch_inv_def timer_fires_def sorted_append)

lemma watches_inv: "watches subs ls s \<Longrightarrow> watch_inv ls s"
proof (induction rule: watches.induct)
  case watches_start
  show ?case by (simp add: watch_inv_def new_watch_def)
next
  case (watches_end ls s)
  then show ?case by (auto simp: watch_inv_def unwatch_def)
qed (simp_all add: watch_inv_listener watch_inv_fire)

text \<open>C19: the reads of a watch, however events and timers interleave. At most one timer is ever pending; there are no
  more reads than events; they are made at blocks in ascending order, each the block of an event the listener acts on
  (or 0, when no event had a block number); and no event is lost: once no timer is pending, a read was made
  at its block or a later one.\<close>

theorem one_read_per_burst:
  assumes "watches subs ls s"
  shows "length (timers s) \<le> 1 \<and> length (reads s) \<le> length (filter is_delivery ls) \<and> sorted (reads s)
    \<and> (\<forall>r\<in>set (reads s). r = 0 \<or> (\<exists>l\<in>set ls. acts_at r l))
    \<and> (timers s = [] \<longrightarrow> (\<forall>l\<in>set ls. \<forall>b. acts_at b l \<and> 0 < b \<longrightarrow> (\<exists>r\<in>set (reads s). b \<le> r)))"
proof -
  have inv: "watch_inv ls s" by (rule watches_inv [OF assms])
  then have "length (timers s) \<le> 1" by (simp add: watch_inv_def split: option.splits)
  moreover have "\<exists>r\<in>set (reads s). b \<le> r" if "timers s = []" "l \<in> set ls" "acts_at b l" "0 < b" for l b
    using inv that by (force simp: watch_inv_def)
  ultimately show ?thesis using inv by (auto simp: watch_inv_def)
qed

section \<open>Examples\<close>

definition trove_updated :: subscription where
  "trove_updated = \<lparr>su_contract = ''troveManager'', su_event = ''TroveUpdated'', su_filter = [], su_onlyTo = None\<rparr>"

definition after_burst :: watching where
  "after_burst = timer_fires 1 (debounced (Some 7) (debounced (Some 8) new_watch))"

lemma burst_run:
  "watches [trove_updated] [Delivered trove_updated [] (Some 8), Delivered trove_updated [] (Some 7), Fired 1] after_burst"
proof -
  have "watches [trove_updated] ([] @ [Delivered trove_updated [] (Some 8)]) (listener trove_updated [] (Some 8) new_watch)"
    by (rule watches_event [OF watches_start]) (simp_all add: new_watch_def)
  then have "watches [trove_updated] ([] @ [Delivered trove_updated [] (Some 8)] @ [Delivered trove_updated [] (Some 7)])
      (listener trove_updated [] (Some 7) (listener trove_updated [] (Some 8) new_watch))"
    unfolding append_assoc [symmetric]
    by (rule watches_event) (simp_all add: new_watch_def listener_def trove_updated_def debounced_def setTimeout_def clearTimeout_def)
  then have "watches [trove_updated] (([] @ [Delivered trove_updated [] (Some 8)] @ [Delivered trove_updated [] (Some 7)]) @ [Fired 1])
      (timer_fires 1 (listener trove_updated [] (Some 7) (listener trove_updated [] (Some 8) new_watch)))"
    by (rule watches_fire) (simp add: new_watch_def listener_def trove_updated_def debounced_def setTimeout_def clearTimeout_def)
  then show ?thesis
    by (simp add: after_burst_def listener_def trove_updated_def)
qed

theorem one_read_per_burst_witness:
  "length (timers after_burst) \<le> 1 \<and> reads after_burst = [8] \<and> (\<exists>r\<in>set (reads after_burst). 7 \<le> r)"
proof -
  have run: "reads after_burst = [8]" "timers after_burst = []"
    by (simp_all add: after_burst_def new_watch_def timer_fires_def debounced_def setTimeout_def clearTimeout_def)
  then show ?thesis
    using one_read_per_burst [OF burst_run] by (simp add: trove_updated_def)
qed

text \<open>The end of a watch does not clear its timer: the callback may still be called afterwards.\<close>

theorem read_after_unwatching:
  "\<exists>s. watches [trove_updated] [Delivered trove_updated [] (Some 5), Unwatched, Fired 0] s \<and> \<not> subscribed s \<and> reads s = [5]"
proof -
  let ?s = "listener trove_updated [] (Some 5) new_watch"
  have "watches [trove_updated] ([] @ [Delivered trove_updated [] (Some 5)]) ?s"
    by (rule watches_event [OF watches_start]) (simp_all add: new_watch_def)
  then have "watches [trove_updated] (([] @ [Delivered trove_updated [] (Some 5)]) @ [Unwatched]) (unwatch ?s)"
    by (rule watches_end)
  then have "watches [trove_updated] ((([] @ [Delivered trove_updated [] (Some 5)]) @ [Unwatched]) @ [Fired 0]) (timer_fires 0 (unwatch ?s))"
    by (rule watches_fire)
      (simp add: unwatch_def new_watch_def listener_def trove_updated_def debounced_def setTimeout_def clearTimeout_def)
  moreover have "\<not> subscribed (timer_fires 0 (unwatch ?s)) \<and> reads (timer_fires 0 (unwatch ?s)) = [5]"
    by (simp add: timer_fires_def unwatch_def new_watch_def listener_def trove_updated_def debounced_def setTimeout_def clearTimeout_def)
  ultimately show ?thesis by (auto simp: trove_updated_def)
qed

end
