(* ===== verification/ParseLogs.thy ===== *)
theory ParseLogs
  imports Ethers
begin

text \<open>
  The text of a receipt's logs (\<^verbatim>\<open>lib-ethers/src/parseLogs.ts\<close>). The contracts are given by name and address in the order of
  their object; parsing a log with the interface of a contract is the parameter \<open>parse_log\<close>. Lookup objects are
  maps: names that every object inherits are not addresses. Warnings on the console are left out.
\<close>

type_synonym contract_lookup = "(string \<times> string) list" \<comment> \<open>names with addresses\<close>

text \<open>\<^verbatim>\<open>Object.fromEntries\<close>: a later entry replaces an earlier one of the same key.\<close>

definition fromEntries :: "('k \<times> 'v) list \<Rightarrow> 'k \<rightharpoonup> 'v" where
  "fromEntries es = map_of (rev es)"

text \<open>The interface of an address, by the name of its contract.\<close>

definition interfaceLookupFrom :: "contract_lookup \<Rightarrow> string \<rightharpoonup> string" where
  "interfaceLookupFrom contracts = fromEntries (map (\<lambda>(name, address). (address, name)) contracts)"

definition nameLookupFrom :: "contract_lookup \<Rightarrow> string \<rightharpoonup> string" where
  "nameLookupFrom contracts = fromEntries (map (\<lambda>(name, address). (address, name)) contracts)"

record parsed_log =
  pl_address :: string
  pl_name :: string
  pl_args :: val

definition tryToParseLog :: "'w ethers \<Rightarrow> log \<Rightarrow> (string \<rightharpoonup> string) \<Rightarrow> parsed_log option" where
  "tryToParseLog e l interfaceLookup =
     (case interfaceLookup (log_address l) of
        None \<Rightarrow> None
      | Some contract \<Rightarrow> (case parse_log e contract l of
          Inl _ \<Rightarrow> None
        | Inr (name, args) \<Rightarrow> Some \<lparr>pl_address = log_address l, pl_name = name, pl_args = args\<rparr>))"

fun parseLogs :: "'w ethers \<Rightarrow> log list \<Rightarrow> (string \<rightharpoonup> string) \<Rightarrow> parsed_log list \<times> log list \<Rightarrow> parsed_log list \<times> log list" where
  "parseLogs e [] lookup acc = acc"
| "parseLogs e (l # logs) lookup (parsedLogs, unparsedLogs) =
     (case tryToParseLog e l lookup of
        Some parsedLog \<Rightarrow> parseLogs e logs lookup (parsedLogs @ [parsedLog], unparsedLogs)
      | None \<Rightarrow> parseLogs e logs lookup (parsedLogs, unparsedLogs @ [l]))"

definition VERY_BIG :: int where
  "VERY_BIG = 10 ^ 9"

definition prettify :: "val \<Rightarrow> (string \<rightharpoonup> string) \<Rightarrow> string res" where
  "prettify arg nameLookup =
     (case arg of
        BN i \<Rightarrow> if i \<ge> VERY_BIG then bind_res (decimalify arg) (\<lambda>d. bind_res (Decimal_toString d None) (\<lambda>s. Inr (s @ ''e18'')))
                else Inr (show_int i)
      | Str s \<Rightarrow> Inr (if s = AddressZero then ''address(0)'' else case nameLookup s of Some n \<Rightarrow> n | None \<Rightarrow> s)
      | _ \<Rightarrow> Inr (to_string arg))"

text \<open>\<^verbatim>\<open>Object.entries\<close>, and the keys that \<^verbatim>\<open>/^[0-9]/\<close> does not match.\<close>

definition entries_of :: "val \<Rightarrow> (string \<times> val) list res" where
  "entries_of v =
     (case v of
        Obj es \<Rightarrow> Inr es
      | Arr xs \<Rightarrow> Inr (zip (map show_nat [0..<length xs]) xs)
      | Undefined \<Rightarrow> Inl (TypeError ''Cannot convert undefined or null to object'')
      | Str s \<Rightarrow> Inr (zip (map show_nat [0..<length s]) (map (\<lambda>c. Str [c]) s))
      | _ \<Rightarrow> Inr [])"

definition is_named :: "string \<times> val \<Rightarrow> bool" where
  "is_named entry \<longleftrightarrow> (case fst entry of [] \<Rightarrow> True | c # _ \<Rightarrow> \<not> is_digit c)"

definition logDescriptionToString :: "parsed_log \<Rightarrow> (string \<rightharpoonup> string) \<Rightarrow> string res" where
  "logDescriptionToString l nameLookup =
     bind_res (entries_of (pl_args l)) (\<lambda>es.
     bind_res (map_res (\<lambda>(key, v). bind_res (prettify v nameLookup) (\<lambda>s. Inr (key @ '': '' @ s))) (filter is_named es))
       (\<lambda>prettyEntries. Inr (pl_name l @ ''({ '' @ join_strings '', '' prettyEntries @ '' })'')))"

definition logsToString :: "'w ethers \<Rightarrow> string \<Rightarrow> raw_receipt \<Rightarrow> contract_lookup \<Rightarrow> string res" where
  "logsToString e transactionHash receipt contracts =
     (let interfaceLookup = interfaceLookupFrom contracts;
          contractNameLookup = nameLookupFrom contracts;
          nameLookup = [rx_from receipt \<mapsto> ''user''] ++ contractNameLookup;
          (parsedLogs, unparsedLogs) = parseLogs e (rx_logs receipt) interfaceLookup ([], [])
      in if parsedLogs \<noteq> [] then
           bind_res (map_res (\<lambda>l. bind_res (logDescriptionToString l nameLookup) (\<lambda>s.
             Inr (''  '' @ (case contractNameLookup (pl_address l) of Some n \<Rightarrow> n | None \<Rightarrow> ''undefined'') @ ''.'' @ s))) parsedLogs)
             (\<lambda>ls. Inr (''Logs of tx '' @ transactionHash @ '':'' @ [CHR 0x0A] @ join_strings [CHR 0x0A] ls))
         else Inr (''No logs were parsed in tx '' @ transactionHash))"

section \<open>Every log is accounted for\<close>

lemma parseLogs_eq:
  "parseLogs e logs lookup (ps, us) =
     (ps @ List.map_filter (\<lambda>l. tryToParseLog e l lookup) logs, us @ filter (\<lambda>l. tryToParseLog e l lookup = None) logs)"
  by (induction logs arbitrary: ps us) (auto simp: List.map_filter_def split: option.splits)

lemma map_of_swapped:
  assumes "distinct (map snd contracts)" and "(name, address) \<in> set contracts"
  shows "nameLookupFrom contracts address = Some name"
proof -
  have "distinct (map fst (rev (map (\<lambda>(name, address). (address, name)) contracts)))"
    using assms(1) by (simp add: rev_map [symmetric] case_prod_unfold comp_def distinct_rev)
  moreover have "(address, name) \<in> set (rev (map (\<lambda>(name, address). (address, name)) contracts))"
    using assms(2) by force
  ultimately show ?thesis
    unfolding nameLookupFrom_def fromEntries_def by simp
qed

text \<open>Every log is parsed or reported as unparsed, in order: parsed are those of a contract of the
  deployment that its interface can parse, each with the contract's own name in the text.\<close>

theorem parseLogs_partition:
  assumes "distinct (map snd contracts)"
    and "parseLogs e logs (interfaceLookupFrom contracts) ([], []) = (parsedLogs, unparsedLogs)"
  shows "length parsedLogs + length unparsedLogs = length logs
    \<and> unparsedLogs = filter (\<lambda>l. tryToParseLog e l (interfaceLookupFrom contracts) = None) logs
    \<and> (\<forall>p\<in>set parsedLogs. \<exists>l\<in>set logs. \<exists>name. (name, pl_address p) \<in> set contracts \<and> log_address l = pl_address p
        \<and> parse_log e name l = Inr (pl_name p, pl_args p) \<and> nameLookupFrom contracts (pl_address p) = Some name)"
proof -
  let ?parsed = "\<lambda>l. tryToParseLog e l (interfaceLookupFrom contracts)"
  have ps: "parsedLogs = List.map_filter ?parsed logs" and us: "unparsedLogs = filter (\<lambda>l. ?parsed l = None) logs"
    using assms(2) by (simp_all add: parseLogs_eq)
  have "length (List.map_filter ?parsed logs) + length (filter (\<lambda>l. ?parsed l = None) logs) = length logs"
    by (induction logs) (auto simp: List.map_filter_def)
  moreover have "\<exists>l\<in>set logs. \<exists>name. (name, pl_address p) \<in> set contracts \<and> log_address l = pl_address p
      \<and> parse_log e name l = Inr (pl_name p, pl_args p) \<and> nameLookupFrom contracts (pl_address p) = Some name"
    if "p \<in> set parsedLogs" for p
  proof -
    from that obtain l where l: "l \<in> set logs" "?parsed l = Some p"
      unfolding ps by (auto simp: List.map_filter_def)
    then obtain name where name: "interfaceLookupFrom contracts (log_address l) = Some name" "log_address l = pl_address p"
      "parse_log e name l = Inr (pl_name p, pl_args p)"
      by (auto simp: tryToParseLog_def split: option.splits sum.splits)
    then have "(name, pl_address p) \<in> set contracts"
      by (auto simp: interfaceLookupFrom_def fromEntries_def dest!: map_of_SomeD)
    with l name map_of_swapped [OF assms(1) this] show ?thesis by auto
  qed
  ultimately show ?thesis using ps us by simp
qed

end
