(* ===== verification/Managers.thy ===== *)
theory Managers
  imports Deposits Trove_Change Decimal_Text
begin

text \<open>
  The reducers behind the editors of the frontend: \<^verbatim>\<open>Trove/TroveManager.tsx\<close>, \<^verbatim>\<open>Stability/StabilityDepositManager.tsx\<close>,
  \<^verbatim>\<open>Staking/StakingManager.tsx\<close> and \<^verbatim>\<open>Staking/context/StakingViewProvider.tsx\<close>, and the amounts of \<^verbatim>\<open>Trove/Adjusting.tsx\<close>. An
  editor keeps the position as the store has it and the position the user wants. An action of the store is
  given by the parts that the reducer reads.
\<close>

section \<open>\<^verbatim>\<open>TroveManager\<close>\<close>

record trove_manager =
  tm_original :: user_trove
  tm_edited :: trove
  tm_changePending :: bool
  debtDirty :: bool
  addedMinimumDebt :: bool

definition tm_init :: "user_trove \<Rightarrow> trove_manager" where
  "tm_init t = \<lparr>tm_original = t, tm_edited = \<lparr>collateral = collateral t, debt = debt t\<rparr>, tm_changePending = False,
     debtDirty = False, addedMinimumDebt = False\<rparr>"

datatype trove_manager_action =
    TM_StartChange
  | TM_FinishChange
  | TM_Revert
  | TM_AddMinimumDebt
  | TM_RemoveMinimumDebt
  | TM_SetCollateral decimalish
  | TM_SetDebt decimalish
  | TM_UpdateStore user_trove bool  \<comment> \<open>the new Trove, and whether \<^verbatim>\<open>troveBeforeRedistribution\<close> changed\<close>

definition tm_addMinimumDebt :: "trove_manager \<Rightarrow> trove_manager res" where
  "tm_addMinimumDebt st = bind_res (setDebt (tm_edited st) (DecimalV LUSD_MINIMUM_DEBT)) (\<lambda>t.
     Inr (st\<lparr>tm_edited := t, addedMinimumDebt := True\<rparr>))"

definition tm_removeMinimumDebt :: "trove_manager \<Rightarrow> trove_manager res" where
  "tm_removeMinimumDebt st = bind_res (setDebt (tm_edited st) (NumberV ''0'')) (\<lambda>t.
     Inr (st\<lparr>tm_edited := t, addedMinimumDebt := False\<rparr>))"

definition tm_revert :: "trove_manager \<Rightarrow> trove_manager" where
  "tm_revert st = st\<lparr>tm_edited := \<lparr>collateral = collateral (tm_original st), debt = debt (tm_original st)\<rparr>,
     debtDirty := False, addedMinimumDebt := False\<rparr>"

definition tm_finishChange :: "trove_manager \<Rightarrow> trove_manager" where
  "tm_finishChange st = st\<lparr>tm_changePending := False\<rparr>"

definition tm_setCollateral :: "trove_manager \<Rightarrow> decimalish \<Rightarrow> trove_manager res" where
  "tm_setCollateral st newValue =
     bind_res (Decimal_from newValue) (\<lambda>newCollateral.
     bind_res (setCollateral (tm_edited st) (DecimalV newCollateral)) (\<lambda>t.
     let newState = st\<lparr>tm_edited := t\<rparr> in
     if \<not> debtDirty st \<and> Trove_isEmpty (tm_edited st) \<and> Decimal_nonZero newCollateral \<noteq> None then tm_addMinimumDebt newState
     else if \<not> debtDirty st \<and> addedMinimumDebt st \<and> Decimal_isZero newCollateral then tm_removeMinimumDebt newState
     else Inr newState))"

definition tm_updateStore :: "trove_manager \<Rightarrow> user_trove \<Rightarrow> bool \<Rightarrow> trove_manager res" where
  "tm_updateStore st t changeCommitted =
     (let newState = st\<lparr>tm_original := t\<rparr> in
      if tm_changePending st \<and> changeCommitted then Inr (tm_finishChange (tm_revert newState))
      else bind_res (whatChanged (tm_original st) (tm_edited st) (NumberV ''0'')) (\<lambda>change.
        if (case change of Some (Creation _) \<Rightarrow> \<not> Trove_isEmpty t | Some (Closure _) \<Rightarrow> Trove_isEmpty t | _ \<Rightarrow> False)
        then Inr (tm_revert newState)
        else bind_res (Trove_apply t change (NumberV ''0'')) (\<lambda>edited. Inr (newState\<lparr>tm_edited := edited\<rparr>))))"

fun tm_reduce :: "trove_manager \<Rightarrow> trove_manager_action \<Rightarrow> trove_manager res" where
  "tm_reduce st TM_StartChange = Inr (st\<lparr>tm_changePending := True\<rparr>)"
| "tm_reduce st TM_FinishChange = Inr (tm_finishChange st)"
| "tm_reduce st TM_Revert = Inr (tm_revert st)"
| "tm_reduce st TM_AddMinimumDebt = tm_addMinimumDebt st"
| "tm_reduce st TM_RemoveMinimumDebt = tm_removeMinimumDebt st"
| "tm_reduce st (TM_SetCollateral v) = tm_setCollateral st v"
| "tm_reduce st (TM_SetDebt v) = bind_res (setDebt (tm_edited st) v) (\<lambda>t. Inr (st\<lparr>tm_edited := t, debtDirty := True\<rparr>))"
| "tm_reduce st (TM_UpdateStore t committed) = tm_updateStore st t committed"

definition feeFrom :: "'a trove_scheme \<Rightarrow> trove \<Rightarrow> decimal \<Rightarrow> decimal res" where
  "feeFrom original edited rate =
     bind_res (whatChanged original edited (DecimalV rate)) (\<lambda>change.
     case (case change of
         Some (Creation p) \<Rightarrow> Some (borrowLUSD p)
       | Some (Adjustment p _) \<Rightarrow> (case debt_of p of Some (BorrowLUSD x) \<Rightarrow> Some x | _ \<Rightarrow> None)
       | _ \<Rightarrow> None) of
       Some x \<Rightarrow> Decimal_mul x (DecimalV rate)
     | None \<Rightarrow> Inr ZERO)"

section \<open>\<^verbatim>\<open>StabilityDepositManager\<close>\<close>

record deposit_manager =
  originalDeposit :: stability_deposit
  editedLUSD :: decimal
  dm_changePending :: bool

definition dm_init :: "stability_deposit \<Rightarrow> deposit_manager" where
  "dm_init d = \<lparr>originalDeposit = d, editedLUSD = currentLUSD d, dm_changePending = False\<rparr>"

datatype deposit_manager_action =
    DM_StartChange
  | DM_FinishChange
  | DM_Revert
  | DM_SetDeposit decimalish
  | DM_UpdateStore "stability_deposit option"  \<comment> \<open>\<^verbatim>\<open>stateChange.stabilityDeposit\<close>\<close>

definition dm_revert :: "deposit_manager \<Rightarrow> deposit_manager" where
  "dm_revert st = st\<lparr>editedLUSD := currentLUSD (originalDeposit st)\<rparr>"

definition dm_finishChange :: "deposit_manager \<Rightarrow> deposit_manager" where
  "dm_finishChange st = st\<lparr>dm_changePending := False\<rparr>"

text \<open>\<^verbatim>\<open>||\<close> on comparisons that may throw.\<close>

definition or_res :: "bool res \<Rightarrow> bool res \<Rightarrow> bool res" where
  "or_res a b = bind_res a (\<lambda>x. if x then Inr True else b)"

definition deposit_committed :: "stability_deposit \<Rightarrow> stability_deposit \<Rightarrow> bool res" where
  "deposit_committed old new =
     or_res (bind_res (Decimal_eq (initialLUSD new) (DecimalV (initialLUSD old))) (\<lambda>b. Inr (\<not> b)))
     (or_res (Decimal_gt (currentLUSD new) (DecimalV (currentLUSD old)))
     (or_res (Decimal_lt (collateralGain new) (DecimalV (collateralGain old)))
       (Decimal_lt (lqtyReward new) (DecimalV (lqtyReward old)))))"

definition dm_updateStore :: "deposit_manager \<Rightarrow> stability_deposit \<Rightarrow> deposit_manager res" where
  "dm_updateStore st updated =
     bind_res (deposit_committed (originalDeposit st) updated) (\<lambda>changeCommitted.
     let newState = st\<lparr>originalDeposit := updated\<rparr> in
     if dm_changePending st \<and> changeCommitted then Inr (dm_finishChange (dm_revert newState))
     else bind_res (StabilityDeposit_whatChanged (originalDeposit st) (DecimalV (editedLUSD st))) (\<lambda>change.
          bind_res (StabilityDeposit_apply updated (map_option (map_deposit_change DecimalV) change)) (\<lambda>edited.
          Inr (newState\<lparr>editedLUSD := edited\<rparr>))))"

fun dm_reduce :: "deposit_manager \<Rightarrow> deposit_manager_action \<Rightarrow> deposit_manager res" where
  "dm_reduce st DM_StartChange = Inr (st\<lparr>dm_changePending := True\<rparr>)"
| "dm_reduce st DM_FinishChange = Inr (dm_finishChange st)"
| "dm_reduce st DM_Revert = Inr (dm_revert st)"
| "dm_reduce st (DM_SetDeposit v) = bind_res (Decimal_from v) (\<lambda>d. Inr (st\<lparr>editedLUSD := d\<rparr>))"
| "dm_reduce st (DM_UpdateStore None) = Inr st"
| "dm_reduce st (DM_UpdateStore (Some updated)) = dm_updateStore st updated"

section \<open>\<^verbatim>\<open>StakingManager\<close> and \<^verbatim>\<open>StakingViewProvider\<close>\<close>

record stake_manager =
  originalStake :: lqty_stake
  editedLQTY :: decimal

definition sm_init :: "lqty_stake \<Rightarrow> stake_manager" where
  "sm_init s = \<lparr>originalStake = s, editedLQTY = stakedLQTY s\<rparr>"

datatype stake_manager_action = SM_Revert | SM_SetStake decimalish | SM_UpdateStore "lqty_stake option"

fun sm_reduce :: "stake_manager \<Rightarrow> stake_manager_action \<Rightarrow> stake_manager res" where
  "sm_reduce st (SM_SetStake v) = bind_res (Decimal_from v) (\<lambda>d. Inr (st\<lparr>editedLQTY := d\<rparr>))"
| "sm_reduce st SM_Revert = Inr (st\<lparr>editedLQTY := stakedLQTY (originalStake st)\<rparr>)"
| "sm_reduce st (SM_UpdateStore None) = Inr st"
| "sm_reduce st (SM_UpdateStore (Some updated)) =
     bind_res (LQTYStake_whatChanged (originalStake st) (DecimalV (editedLQTY st))) (\<lambda>change.
     bind_res (LQTYStake_apply updated (map_option (map_stake_change DecimalV) change)) (\<lambda>edited.
     Inr \<lparr>originalStake = updated, editedLQTY = edited\<rparr>))"

record staking_view =
  sv_lqtyStake :: lqty_stake
  sv_changePending :: bool
  sv_adjusting :: bool

definition sv_init :: "lqty_stake \<Rightarrow> staking_view" where
  "sv_init s = \<lparr>sv_lqtyStake = s, sv_changePending = False, sv_adjusting = False\<rparr>"

datatype staking_view_action =
    StartAdjusting
  | CancelAdjusting
  | StartChange
  | AbortChange
  | UpdateStake lqty_stake "lqty_stake option"  \<comment> \<open>\<^verbatim>\<open>oldState\<close> and \<^verbatim>\<open>stateChange\<close>\<close>

definition stake_committed :: "lqty_stake \<Rightarrow> lqty_stake \<Rightarrow> bool res" where
  "stake_committed old new =
     or_res (bind_res (Decimal_eq (stakedLQTY new) (DecimalV (stakedLQTY old))) (\<lambda>b. Inr (\<not> b)))
     (or_res (Decimal_lt (stakeCollateralGain new) (DecimalV (stakeCollateralGain old)))
       (Decimal_lt (lusdGain new) (DecimalV (lusdGain old))))"

fun sv_reduce :: "staking_view \<Rightarrow> staking_view_action \<Rightarrow> staking_view res" where
  "sv_reduce st StartAdjusting = Inr (st\<lparr>sv_adjusting := True\<rparr>)"
| "sv_reduce st CancelAdjusting = Inr (st\<lparr>sv_adjusting := False\<rparr>)"
| "sv_reduce st StartChange = Inr (st\<lparr>sv_changePending := True\<rparr>)"
| "sv_reduce st AbortChange = Inr (st\<lparr>sv_changePending := False\<rparr>)"
| "sv_reduce st (UpdateStake old None) = Inr st"
| "sv_reduce st (UpdateStake old (Some updated)) =
     bind_res (stake_committed old updated) (\<lambda>committed.
     Inr (st\<lparr>sv_lqtyStake := updated, sv_adjusting := False,
       sv_changePending := (if committed then False else sv_changePending st)\<rparr>))"

datatype staking_view_name = Staking_ACTIVE | Staking_ADJUSTING | Staking_NONE

definition staking_view_of :: "staking_view \<Rightarrow> staking_view_name" where
  "staking_view_of st =
     (if sv_adjusting st then Staking_ADJUSTING
      else if LQTYStake_isEmpty (sv_lqtyStake st) then Staking_NONE else Staking_ACTIVE)"

section \<open>\<^verbatim>\<open>Adjusting\<close>\<close>

text \<open>An amount of the store, moved by the difference that the user has made and not saved.\<close>

definition applyUnsaved :: "difference \<Rightarrow> decimal \<Rightarrow> decimal res" where
  "applyUnsaved unsavedChanges amount =
     (case Difference_absoluteValue unsavedChanges of
        None \<Rightarrow> Inr amount
      | Some x \<Rightarrow>
          if Difference_positive unsavedChanges \<noteq> None then Decimal_add amount (DecimalV x)
          else if Difference_negative unsavedChanges \<noteq> None then
            bind_res (Decimal_lt x (DecimalV amount)) (\<lambda>less. if less then Decimal_sub amount (DecimalV x) else Inr amount)
          else Inr amount)"

definition applyUnsavedCollateralChanges :: "difference \<Rightarrow> 'a trove_scheme \<Rightarrow> decimal res" where
  "applyUnsavedCollateralChanges unsavedChanges t = applyUnsaved unsavedChanges (collateral t)"

definition applyUnsavedNetDebtChanges :: "difference \<Rightarrow> 'a trove_scheme \<Rightarrow> decimal res" where
  "applyUnsavedNetDebtChanges unsavedChanges t = bind_res (netDebt t) (applyUnsaved unsavedChanges)"

record adjusting =
  previousTrove :: user_trove
  adj_collateral :: decimal
  adj_netDebt :: decimal

text \<open>The effect that runs when the Trove of the store has changed.\<close>

definition adjusting_effect :: "adjusting \<Rightarrow> user_trove \<Rightarrow> adjusting res" where
  "adjusting_effect st t =
     bind_res (Decimal_eq (collateral (previousTrove st)) (DecimalV (collateral t))) (\<lambda>sameCollateral.
     bind_res (if sameCollateral then Inr (adj_collateral st)
       else bind_res (Difference_between (Some (DecimalV (adj_collateral st))) (Some (DecimalV (collateral (previousTrove st)))))
         (\<lambda>unsavedChanges. applyUnsavedCollateralChanges unsavedChanges t)) (\<lambda>nextCollateral.
     bind_res (netDebt (previousTrove st)) (\<lambda>previousNetDebt.
     bind_res (netDebt t) (\<lambda>newNetDebt.
     bind_res (Decimal_eq previousNetDebt (DecimalV newNetDebt)) (\<lambda>sameNetDebt.
     bind_res (if sameNetDebt then Inr (adj_netDebt st)
       else bind_res (Difference_between (Some (DecimalV (adj_netDebt st))) (Some (DecimalV previousNetDebt)))
         (\<lambda>unsavedChanges. applyUnsavedNetDebtChanges unsavedChanges t)) (\<lambda>nextNetDebt.
     Inr \<lparr>previousTrove = t, adj_collateral = nextCollateral, adj_netDebt = nextNetDebt\<rparr>))))))"

section \<open>Edits survive changes of the store\<close>

text \<open>The amount wanted after the store moved from \<open>a\<close> to \<open>c\<close>, when \<open>b\<close> was wanted before: nothing stays nothing,
  otherwise the same amount is added or taken, as far as there is one.\<close>

definition carried :: "decimal \<Rightarrow> decimal \<Rightarrow> decimal \<Rightarrow> decimal" where
  "carried a b c = (if b = a then c else if b = 0 then 0 else if a < b then c + (b - a) else c - (a - b))"

context position
begin

lemma rebase:
  assumes "Decimal_from v = Inr d"
  shows "bind_res (whatChanged s v) (apply_change s') = Inr (carried (amount s) d (amount s'))"
  using assms by (auto simp: whatChanged_decimal apply_None apply_increase apply_decrease carried_def decimal_order)

end

lemma bind_map_sum: "bind_res (map_sum id f m) g = bind_res m (\<lambda>x. g (f x))"
  by (cases m) auto

lemma or_res_simp [simp]: "or_res (Inr a) (Inr b) = Inr (a \<or> b)"
  by (simp add: or_res_def)

lemma committed_simps:
  "deposit_committed old new = Inr (initialLUSD new \<noteq> initialLUSD old \<or> currentLUSD old < currentLUSD new
     \<or> collateralGain new < collateralGain old \<or> lqtyReward new < lqtyReward old)"
  "stake_committed s s' = Inr (stakedLQTY s' \<noteq> stakedLQTY s \<or> stakeCollateralGain s' < stakeCollateralGain s \<or> lusdGain s' < lusdGain s)"
  by (simp_all add: deposit_committed_def stake_committed_def dec_simps)

theorem deposit_edit_survives_update:
  "dm_reduce st (DM_UpdateStore (Some updated)) = Inr (
     let committed = (initialLUSD updated \<noteq> initialLUSD (originalDeposit st) \<or> currentLUSD (originalDeposit st) < currentLUSD updated
           \<or> collateralGain updated < collateralGain (originalDeposit st) \<or> lqtyReward updated < lqtyReward (originalDeposit st))
     in if dm_changePending st \<and> committed then dm_init updated
        else st\<lparr>originalDeposit := updated,
          editedLUSD := carried (currentLUSD (originalDeposit st)) (editedLUSD st) (currentLUSD updated)\<rparr>)"
  using deposit.rebase [of "DecimalV (editedLUSD st)" "editedLUSD st" "originalDeposit st" updated]
  by (auto simp: dm_updateStore_def committed_simps bind_map_sum Let_def dm_finishChange_def dm_revert_def dm_init_def
      bind_res_eq_Inr)

theorem stake_edit_survives_update:
  "sm_reduce st (SM_UpdateStore (Some updated)) =
     Inr \<lparr>originalStake = updated, editedLQTY = carried (stakedLQTY (originalStake st)) (editedLQTY st) (stakedLQTY updated)\<rparr>"
  using lqty.rebase [of "DecimalV (editedLQTY st)" "editedLQTY st" "originalStake st" updated]
  by (auto simp: bind_map_sum bind_res_eq_Inr)

text \<open>Without a fee, the change and its application are exact.\<close>

lemma from_zero: "Decimal_from (NumberV ''0'') = Inr 0"
  by (simp add: fromString_integer is_digit_def parse_nat_def char_digit_def decimal_eq_iff)

lemma fee_zero [simp]: "applyFee (NumberV ''0'') x = Inr x" "unapplyFee (NumberV ''0'') x = Inr x"
proof -
  have "Decimal_add ONE (NumberV ''0'') = Decimal_add ONE (DecimalV 0)"
    unfolding Decimal_add_def from_zero by simp
  then have "applyFee (NumberV ''0'') x = applyFee (DecimalV 0) x" "unapplyFee (NumberV ''0'') x = unapplyFee (DecimalV 0) x"
    by (simp_all only: applyFee_def unapplyFee_def)
  moreover have "(bigNumber x * DIGITS + (DIGITS - 1)) div DIGITS = bigNumber x"
    by (simp add: DIGITS_eq)
  ultimately show "applyFee (NumberV ''0'') x = Inr x" "unapplyFee (NumberV ''0'') x = Inr x"
    by (simp_all add: dec_simps withFee_def withoutFee_def feeFactor_def decimal_eq_iff)
qed

lemma debtChange_zero:
  "debtChange t u (NumberV ''0'') = Inr (if debt t < debt u then BorrowLUSD (debt u - debt t) else RepayLUSD (debt t - debt u))"
  by (auto simp: debtChange_def dec_simps)

lemma applyAdjustment_zero:
  "applyAdjustment t p z (NumberV ''0'') =
     Inr \<lparr>collateral = (if z = Some ZeroCollateral then 0 else adjust_collateral (collateral t) (collateral_of p)),
          debt = (if z = Some ZeroDebt then 0 else
            case debt_of p of None \<Rightarrow> debt t | Some (BorrowLUSD d) \<Rightarrow> debt t + d | Some (RepayLUSD d) \<Rightarrow> debt t - d)\<rparr>"
  by (auto simp: applyAdjustment_def dec_simps split: option.splits collateral_change.splits debt_change.splits zeroed.splits)

lemmas change_zero_simps =
  whatChanged_def Trove_apply_def debtChange_zero applyAdjustment_zero dec_simps netDebt_simp tm_updateStore_def tm_revert_def
  carried_def

lemma carry_adjustment:
  assumes "\<not> Trove_isEmpty a" "\<not> Trove_isEmpty b" "collateral a \<noteq> collateral b \<or> debt a \<noteq> debt b"
  shows "\<exists>p z. whatChanged a b (NumberV ''0'') = Inr (Some (Adjustment p z)) \<and> applyAdjustment t p z (NumberV ''0'') =
     Inr \<lparr>collateral = carried (collateral a) (collateral b) (collateral t), debt = carried (debt a) (debt b) (debt t)\<rparr>"
proof -
  consider (debt) "collateral a = collateral b" "debt a \<noteq> debt b" | (coll) "collateral a \<noteq> collateral b" "debt a = debt b"
    | (both) "collateral a \<noteq> collateral b" "debt a \<noteq> debt b"
    using assms(3) by blast
  then show ?thesis
  proof cases
    case debt
    then show ?thesis
      using assms by (simp add: change_zero_simps) auto
  next
    case coll
    then show ?thesis
      using assms by (simp add: change_zero_simps) auto
  next
    case both
    then show ?thesis
      using assms by (simp add: change_zero_simps) auto
  qed
qed


definition edited_manager :: trove_manager where
  "edited_manager = (tm_init \<lparr>collateral = ONE, debt = LUSD_MINIMUM_DEBT, ownerAddress = ''0xa'', status = Open\<rparr>)
     \<lparr>tm_edited := \<lparr>collateral = ONE + HALF, debt = LUSD_MINIMUM_DEBT\<rparr>\<rparr>"


text \<open>The reducer throws when a Trove with too little debt is being created and another one has been opened meanwhile: the
  test for that compares the type of the change with \<^verbatim>\<open>"creation"\<close> only.\<close>

theorem update_throws_on_invalid_creation:
  assumes "Trove_isEmpty (tm_original st)" and "\<not> Trove_isEmpty (tm_edited st)" and "debt (tm_edited st) < LUSD_LIQUIDATION_RESERVE"
    and "\<not> Trove_isEmpty t" and "\<not> tm_changePending st"
  shows "tm_reduce st (TM_UpdateStore t committed) = Inl (Error (''Can'' @ [CHR 0x27] @ ''t create onto existing Trove''))"
  using assms by (auto simp: change_zero_simps Let_def)

text \<open>While adjusting, a smaller amount that can no longer be reached is replaced by the amount of the store.\<close>

theorem unsaved_changes_carried:
  assumes "Decimal_infinite a = None" and "Decimal_infinite b = None"
  shows "bind_res (Difference_between (Some (DecimalV b)) (Some (DecimalV a))) (\<lambda>unsaved. applyUnsaved unsaved c) =
     Inr (if a \<le> b then c + (b - a) else if a - b < c then c - (a - b) else c)"
proof -
  have "Difference_between (Some (DecimalV b)) (Some (DecimalV a)) =
      Inr (Some (if a < b then \<lparr>sign = Plus, absoluteValue = b - a\<rparr>
        else if b < a then \<lparr>sign = Minus, absoluteValue = a - b\<rparr> else \<lparr>sign = NoSign, absoluteValue = 0\<rparr>))"
    using assms by (simp add: Difference_between_def Difference_of_def dec_simps) (auto simp: decimal_order)
  moreover have "a \<le> b \<longleftrightarrow> a < b \<or> a = b"
    by (simp add: decimal_order) linarith
  ultimately show ?thesis
    by (auto simp: applyUnsaved_def Difference_absoluteValue_def Difference_positive_def Difference_negative_def dec_simps)
qed

end
