(* ===== verification/Views.thy ===== *)
theory Views
  imports Trove
begin

text \<open>
  The views of the frontend as state machines: the Trove and the Stability Pool panels (\<^verbatim>\<open>Trove/context/TroveViewProvider.tsx\<close>,
  \<^verbatim>\<open>Stability/context/StabilityViewProvider.tsx\<close>), which move along a table of transitions, and the steps of a wizard
  (\<^verbatim>\<open>Wizard/Context.tsx\<close>). An update of React's state is committed, with the effects of the component, before the next
  event is handled.
\<close>

section \<open>Transitions by a table\<close>

text \<open>The state that a provider keeps, and the reference to it that its callbacks read.\<close>

record 'v view_state =
  view :: 'v
  viewRef :: 'v

definition transition :: "('v \<Rightarrow> 'e \<Rightarrow> 'v option) \<Rightarrow> 'v \<Rightarrow> 'e \<Rightarrow> 'v" where
  "transition transitions v event = (case transitions v event of Some next \<Rightarrow> next | None \<Rightarrow> v)"

definition dispatchEvent :: "('v \<Rightarrow> 'e \<Rightarrow> 'v option) \<Rightarrow> 'e \<Rightarrow> 'v view_state \<Rightarrow> 'v view_state" where
  "dispatchEvent transitions event s = s\<lparr>view := transition transitions (viewRef s) event\<rparr>"

text \<open>The effect that follows a change of the view.\<close>

definition commit_view :: "'v view_state \<Rightarrow> 'v view_state" where
  "commit_view s = s\<lparr>viewRef := view s\<rparr>"

definition initial_view :: "'v \<Rightarrow> 'v view_state" where
  "initial_view v = \<lparr>view = v, viewRef = v\<rparr>"

section \<open>The Trove panel\<close>

datatype trove_view = NoneView | LiquidatedView | RedeemedView | OpeningView | AdjustingView | ClosingView | ActiveView

datatype trove_event =
    OpenTrovePressed
  | AdjustTrovePressed
  | CloseTrovePressed
  | CancelAdjustTrovePressed
  | TroveClosed
  | TroveLiquidated
  | TroveRedeemed
  | TroveAdjusted
  | TroveSurplusCollateralClaimed
  | TroveOpened

fun trove_transitions :: "trove_view \<Rightarrow> trove_event \<Rightarrow> trove_view option" where
  "trove_transitions NoneView e =
     (case e of OpenTrovePressed \<Rightarrow> Some OpeningView | TroveOpened \<Rightarrow> Some ActiveView | _ \<Rightarrow> None)"
| "trove_transitions LiquidatedView e =
     (case e of OpenTrovePressed \<Rightarrow> Some OpeningView | TroveSurplusCollateralClaimed \<Rightarrow> Some NoneView
      | TroveOpened \<Rightarrow> Some ActiveView | _ \<Rightarrow> None)"
| "trove_transitions RedeemedView e =
     (case e of OpenTrovePressed \<Rightarrow> Some OpeningView | TroveSurplusCollateralClaimed \<Rightarrow> Some NoneView
      | TroveOpened \<Rightarrow> Some ActiveView | _ \<Rightarrow> None)"
| "trove_transitions OpeningView e =
     (case e of CancelAdjustTrovePressed \<Rightarrow> Some NoneView | TroveOpened \<Rightarrow> Some ActiveView | _ \<Rightarrow> None)"
| "trove_transitions AdjustingView e =
     (case e of CancelAdjustTrovePressed \<Rightarrow> Some ActiveView | TroveAdjusted \<Rightarrow> Some ActiveView | TroveClosed \<Rightarrow> Some NoneView
      | TroveLiquidated \<Rightarrow> Some LiquidatedView | TroveRedeemed \<Rightarrow> Some RedeemedView | _ \<Rightarrow> None)"
| "trove_transitions ClosingView e =
     (case e of CancelAdjustTrovePressed \<Rightarrow> Some ActiveView | TroveClosed \<Rightarrow> Some NoneView | TroveAdjusted \<Rightarrow> Some ActiveView
      | TroveLiquidated \<Rightarrow> Some LiquidatedView | TroveRedeemed \<Rightarrow> Some RedeemedView | _ \<Rightarrow> None)"
| "trove_transitions ActiveView e =
     (case e of AdjustTrovePressed \<Rightarrow> Some AdjustingView | CloseTrovePressed \<Rightarrow> Some ClosingView | TroveClosed \<Rightarrow> Some NoneView
      | TroveLiquidated \<Rightarrow> Some LiquidatedView | TroveRedeemed \<Rightarrow> Some RedeemedView | _ \<Rightarrow> None)"

fun troveStatusEvents :: "user_trove_status \<Rightarrow> trove_event option" where
  "troveStatusEvents Open = Some TroveOpened"
| "troveStatusEvents ClosedByOwner = Some TroveClosed"
| "troveStatusEvents ClosedByLiquidation = Some TroveLiquidated"
| "troveStatusEvents ClosedByRedemption = Some TroveRedeemed"
| "troveStatusEvents NonExistent = None"

fun getInitialView :: "user_trove_status \<Rightarrow> trove_view" where
  "getInitialView ClosedByLiquidation = LiquidatedView"
| "getInitialView ClosedByRedemption = RedeemedView"
| "getInitialView Open = ActiveView"
| "getInitialView _ = NoneView"

text \<open>The provider: the effect on a changed status dispatches its event, if it has one.\<close>

definition trove_status_effect :: "user_trove_status \<Rightarrow> trove_view view_state \<Rightarrow> trove_view view_state" where
  "trove_status_effect st s =
     (case troveStatusEvents st of None \<Rightarrow> s | Some event \<Rightarrow> dispatchEvent trove_transitions event s)"

text \<open>What happens to the panel: the events that its components dispatch, which are those of the buttons and of
  confirmed transactions, and a status of the store that differs from the one before. A Trove
  that has existed never becomes non-existent. The last component tells that the store has not reported the closure
  of a Trove whose transaction was confirmed.\<close>

fun from_components :: "trove_event \<Rightarrow> bool" where
  "from_components TroveOpened = False"
| "from_components TroveLiquidated = False"
| "from_components TroveRedeemed = False"
| "from_components _ = True"

inductive trove_panel :: "user_trove_status \<Rightarrow> trove_view view_state \<Rightarrow> bool \<Rightarrow> bool" where
  panel_start: "trove_panel st (commit_view (trove_status_effect st (initial_view (getInitialView st)))) False"
| panel_event: "trove_panel st s b \<Longrightarrow> from_components event \<Longrightarrow>
    trove_panel st (commit_view (dispatchEvent trove_transitions event s)) (b \<or> event = TroveClosed)"
| panel_status: "trove_panel st s b \<Longrightarrow> st' \<noteq> st \<Longrightarrow> st' \<noteq> NonExistent \<Longrightarrow>
    trove_panel st' (commit_view (trove_status_effect st' (commit_view s))) False"

definition shows_open :: "trove_view \<Rightarrow> bool" where
  "shows_open v \<longleftrightarrow> v \<in> {ActiveView, AdjustingView, ClosingView}"

lemma transition_components:
  "from_components event \<Longrightarrow> event \<noteq> TroveClosed \<Longrightarrow> shows_open (transition trove_transitions v event) = shows_open v"
  "\<not> shows_open v \<Longrightarrow> from_components event \<Longrightarrow> \<not> shows_open (transition trove_transitions v event)"
  by (cases v; cases event; simp add: shows_open_def transition_def)+

lemma transition_status:
  "troveStatusEvents st = Some event \<Longrightarrow> shows_open (transition trove_transitions v event) \<longleftrightarrow> st = Open"
  by (cases st; cases v) (auto simp: shows_open_def transition_def)

text \<open>C22: whatever the user does and however the status of the Trove changes, the panel shows a Trove (active, being adjusted
  or being closed) exactly if the status is open; only between the confirmation of a closure and the report
  of the store it may show none although the status is still open. And a Trove that is shown when its status
  becomes closed, liquidated or redeemed is then shown as such.\<close>

theorem trove_panel_follows_status:
  assumes "trove_panel st s b"
  shows "(b \<or> (shows_open (view s) \<longleftrightarrow> st = Open)) \<and> (shows_open (view s) \<longrightarrow> st = Open) \<and> viewRef s = view s
    \<and> (shows_open (view s) \<longrightarrow>
        view (trove_status_effect ClosedByLiquidation s) = LiquidatedView
        \<and> view (trove_status_effect ClosedByRedemption s) = RedeemedView \<and> view (trove_status_effect ClosedByOwner s) = NoneView)"
proof -
  have "(b \<or> (shows_open (view s) \<longleftrightarrow> st = Open)) \<and> (shows_open (view s) \<longrightarrow> st = Open) \<and> viewRef s = view s"
    using assms
  proof (induction rule: trove_panel.induct)
    case (panel_start st)
    show ?case
      by (cases st) (simp_all add: trove_status_effect_def dispatchEvent_def commit_view_def initial_view_def transition_def shows_open_def)
  next
    case (panel_event st s b event)
    then show ?case
      using transition_components [where event = event and v = "view s"]
      by (auto simp: dispatchEvent_def commit_view_def)
  next
    case (panel_status st s b st')
    then show ?case
      using transition_status [of st' _ "view s"]
      by (cases st') (auto simp: trove_status_effect_def dispatchEvent_def commit_view_def)
  qed
  moreover have "view (trove_status_effect ClosedByLiquidation s) = LiquidatedView
        \<and> view (trove_status_effect ClosedByRedemption s) = RedeemedView \<and> view (trove_status_effect ClosedByOwner s) = NoneView"
    if "shows_open (view s)" "viewRef s = view s"
    using that by (auto simp: shows_open_def trove_status_effect_def dispatchEvent_def transition_def)
  ultimately show ?thesis by blast
qed

definition adjusting_panel :: "trove_view view_state" where
  "adjusting_panel = commit_view (dispatchEvent trove_transitions AdjustTrovePressed
     (commit_view (trove_status_effect Open (initial_view (getInitialView Open)))))"

theorem trove_panel_follows_status_witness:
  "shows_open (view adjusting_panel) \<and> view adjusting_panel = AdjustingView
    \<and> view (trove_status_effect ClosedByLiquidation adjusting_panel) = LiquidatedView"
proof -
  have "trove_panel Open adjusting_panel (False \<or> AdjustTrovePressed = TroveClosed)"
    unfolding adjusting_panel_def by (rule panel_event [OF panel_start]) simp
  moreover have view: "view adjusting_panel = AdjustingView"
    by (simp add: adjusting_panel_def trove_status_effect_def dispatchEvent_def commit_view_def initial_view_def transition_def)
  ultimately show ?thesis
    using trove_panel_follows_status [of Open adjusting_panel "False \<or> AdjustTrovePressed = TroveClosed"]
    by (simp add: shows_open_def)
qed

text \<open>Opening a Trove after a liquidation and cancelling does not lead back: the panel shows no Trove, and not the
  liquidated one, whose surplus may be claimed.\<close>

theorem cancel_forgets_liquidation:
  "transition trove_transitions (transition trove_transitions LiquidatedView OpenTrovePressed) CancelAdjustTrovePressed = NoneView"
  by (simp add: transition_def)

section \<open>The Stability Pool panel\<close>

datatype stability_view = NoDepositView | DepositingView | ActiveDepositView | AdjustingDepositView

datatype stability_event =
    DepositPressed
  | AdjustDepositPressed
  | CancelPressed
  | DepositConfirmed
  | RewardsClaimed
  | DepositEmptied

fun stability_transitions :: "stability_view \<Rightarrow> stability_event \<Rightarrow> stability_view option" where
  "stability_transitions NoDepositView e = (case e of DepositPressed \<Rightarrow> Some DepositingView | _ \<Rightarrow> None)"
| "stability_transitions DepositingView e =
     (case e of CancelPressed \<Rightarrow> Some NoDepositView | DepositConfirmed \<Rightarrow> Some ActiveDepositView | _ \<Rightarrow> None)"
| "stability_transitions ActiveDepositView e =
     (case e of RewardsClaimed \<Rightarrow> Some ActiveDepositView | AdjustDepositPressed \<Rightarrow> Some AdjustingDepositView
      | DepositEmptied \<Rightarrow> Some NoDepositView | _ \<Rightarrow> None)"
| "stability_transitions AdjustingDepositView e =
     (case e of CancelPressed \<Rightarrow> Some ActiveDepositView | DepositConfirmed \<Rightarrow> Some ActiveDepositView
      | DepositEmptied \<Rightarrow> Some NoDepositView | _ \<Rightarrow> None)"

definition stability_initial :: "bool \<Rightarrow> stability_view" where
  "stability_initial isEmpty = (if isEmpty then NoDepositView else ActiveDepositView)"

definition stability_effect :: "bool \<Rightarrow> stability_view view_state \<Rightarrow> stability_view view_state" where
  "stability_effect isEmpty s = (if isEmpty then dispatchEvent stability_transitions DepositEmptied s else s)"

text \<open>An emptied deposit is never shown, whatever the view was; but a deposit that appears without the panel's own confirmation
  leaves the view as it was.\<close>

theorem stability_panel_emptied:
  "view (stability_effect True (commit_view s)) \<in> {NoDepositView, DepositingView}"
  "view (stability_effect False (commit_view s)) = view s"
  by (cases "view s"; simp add: stability_effect_def commit_view_def dispatchEvent_def transition_def)+

section \<open>Wizards\<close>

record wizard =
  w_step :: int
  w_history :: "int list"

text \<open>\<open>None\<close>: the callback is called instead of a step.\<close>

definition wizard_next :: "nat \<Rightarrow> bool \<Rightarrow> wizard \<Rightarrow> wizard option" where
  "wizard_next children has_onFinish w =
     (if w_step w = int children - 1 \<and> has_onFinish then None
      else Some (w\<lparr>w_step := min (int children - 1) (w_step w + 1), w_history := w_history w @ [w_step w]\<rparr>))"

definition wizard_back :: "bool \<Rightarrow> wizard \<Rightarrow> wizard option" where
  "wizard_back has_onCancel w =
     (if w_step w = 0 \<and> has_onCancel then None
      else Some (w\<lparr>w_step := (if w_history w = [] then 0 else last (w_history w)), w_history := butlast (w_history w)\<rparr>))"

definition wizard_go :: "string list \<Rightarrow> string \<Rightarrow> wizard \<Rightarrow> wizard" where
  "wizard_go children name w =
     (case map_of (zip children [0..<length children]) name of
        None \<Rightarrow> w
      | Some idx \<Rightarrow> w\<lparr>w_step := int idx, w_history := w_history w @ [w_step w]\<rparr>)"

definition wizard_ok :: "nat \<Rightarrow> wizard \<Rightarrow> bool" where
  "wizard_ok children w \<longleftrightarrow> (\<forall>k\<in>set (w_step w # w_history w). 0 \<le> k \<and> k < int children)"

text \<open>Every step is a page of the wizard, and going back undoes a step forward, unless that led to the first page.\<close>

theorem wizard_back_undoes:
  assumes "wizard_ok n w" and "0 < n"
  shows "\<exists>w'. wizard_next n False w = Some w' \<and> wizard_ok n w' \<and> (w_step w' \<noteq> 0 \<or> \<not> c \<longrightarrow> wizard_back c w' = Some w)"
  using assms by (auto simp: wizard_next_def wizard_back_def wizard_ok_def)

theorem wizard_go_ok:
  assumes "wizard_ok (length children) w"
  shows "wizard_ok (length children) (wizard_go children name w)"
  using assms by (auto simp: wizard_go_def wizard_ok_def split: option.splits dest!: map_of_SomeD set_zip_rightD)

end
