(* ===== verification/JsError.thy ===== *)
theory JsError
  imports Prelude
begin

text \<open>The message of a caught error, and \<^verbatim>\<open>String.prototype.includes\<close>.\<close>

text \<open>A thrown string has no message.\<close>

fun message_of :: "js_error \<Rightarrow> string option" where
  "message_of (Thrown _) = None"
| "message_of (Error m) = Some m"
| "message_of (AssertionError m) = Some m"
| "message_of (TypeError m) = Some m"
| "message_of (ReferenceError m) = Some m"
| "message_of (RangeError m) = Some m"

definition includes_text :: "string \<Rightarrow> string \<Rightarrow> bool" where
  "includes_text s t \<longleftrightarrow> list_ex (\<lambda>n. take (length t) (drop n s) = t) [0..<length s + 1]"

definition message_includes :: "js_error \<Rightarrow> string \<Rightarrow> bool" where
  "message_includes err t \<longleftrightarrow> (case message_of err of None \<Rightarrow> False | Some m \<Rightarrow> includes_text m t)"

lemma includes_text_self: "includes_text (s @ t @ u) t"
  by (auto simp: includes_text_def list_ex_iff intro!: bexI [of _ "length s"])

end
