(* ===== verification/Transactions.thy ===== *)
theory Transactions
  imports Populatable JsError
begin

text \<open>
  The transaction button and monitor of the frontend (\<^verbatim>\<open>dev-frontend/src/components/Transaction.tsx\<close>). One state, shared by all
  buttons, says which transaction is being made and how far it is. Sending a transaction, waiting for its receipt, asking
  for the reason of a failure and the timer that ends the display are answered by the environment at any time. React
  commits an update and runs the effects whose dependencies changed, first the clean-up of the old ones; the updates
  that these make are then committed together, the last one winning.
\<close>

section \<open>The state\<close>

text \<open>A sent transaction is an object, given by its number.\<close>

datatype tx_state =
    Tx_Idle
  | Tx_Failed string string  \<comment> \<open>the id, and the message of the error\<close>
  | Tx_WaitingForApproval string
  | Tx_Cancelled string
  | Tx_WaitingForConfirmation string nat
  | Tx_Confirmed string
  | Tx_ConfirmedOneShot string

fun tx_id :: "tx_state \<Rightarrow> string option" where
  "tx_id Tx_Idle = None"
| "tx_id (Tx_Failed i _) = Some i"
| "tx_id (Tx_WaitingForApproval i) = Some i"
| "tx_id (Tx_Cancelled i) = Some i"
| "tx_id (Tx_WaitingForConfirmation i _) = Some i"
| "tx_id (Tx_Confirmed i) = Some i"
| "tx_id (Tx_ConfirmedOneShot i) = Some i"

fun tx_object :: "tx_state \<Rightarrow> nat option" where
  "tx_object (Tx_WaitingForConfirmation _ t) = Some t"
| "tx_object _ = None"

fun tx_type :: "tx_state \<Rightarrow> string" where
  "tx_type Tx_Idle = ''idle''"
| "tx_type (Tx_Failed _ _) = ''failed''"
| "tx_type (Tx_WaitingForApproval _) = ''waitingForApproval''"
| "tx_type (Tx_Cancelled _) = ''cancelled''"
| "tx_type (Tx_WaitingForConfirmation _ _) = ''waitingForConfirmation''"
| "tx_type (Tx_Confirmed _) = ''confirmed''"
| "tx_type (Tx_ConfirmedOneShot _) = ''confirmedOneShot''"

text \<open>\<^verbatim>\<open>useMyTransactionState\<close>, for an id or a pattern.\<close>

definition useMyTransactionState :: "(string \<Rightarrow> bool) \<Rightarrow> tx_state \<Rightarrow> tx_state" where
  "useMyTransactionState mine st =
     (case tx_id st of None \<Rightarrow> Tx_Idle | Some i \<Rightarrow> if mine i then st else Tx_Idle)"

text \<open>A running monitor: \<^verbatim>\<open>waitForConfirmation\<close> with the variables of its effect.\<close>

datatype monitor_phase = AwaitingReceipt | AwaitingReason | Settled

record tx_monitor =
  mo_id :: string
  mo_tx :: nat
  mo_cancelled :: bool
  mo_finished :: bool
  mo_phase :: monitor_phase

text \<open>The interface: the committed state, the calls of \<^verbatim>\<open>send\<close> without an answer (with their ids), the next transaction object,
  all monitors that were started and the one whose effect is mounted, the pending timers with whether they were cancelled,
  and the one whose effect is mounted.\<close>

record tx_ui =
  current :: tx_state
  sending :: "string list"
  next_tx :: nat
  monitors :: "tx_monitor list"
  mounted_monitor :: "nat option"
  pending_timers :: "(nat \<times> bool) list"
  next_timeout :: nat
  mounted_timer :: "nat option"

definition TransactionProvider :: tx_ui where
  "TransactionProvider = \<lparr>current = Tx_Idle, sending = [], next_tx = 0, monitors = [], mounted_monitor = None,
     pending_timers = [], next_timeout = 0, mounted_timer = None\<rparr>"

section \<open>\<^verbatim>\<open>TransactionMonitor\<close>: the effects\<close>

text \<open>The clean-up of the first effect; it returns the updates that it makes.\<close>

definition unmount_monitor :: "tx_ui \<Rightarrow> tx_ui \<times> tx_state list" where
  "unmount_monitor ui =
     (case mounted_monitor ui of
        None \<Rightarrow> (ui, [])
      | Some k \<Rightarrow>
          if mo_finished (monitors ui ! k) then (ui\<lparr>mounted_monitor := None\<rparr>, [])
          else (ui\<lparr>mounted_monitor := None, monitors := (monitors ui)[k := (monitors ui ! k)\<lparr>mo_cancelled := True\<rparr>]\<rparr>, [Tx_Idle]))"

definition mount_monitor :: "tx_state \<Rightarrow> tx_ui \<Rightarrow> tx_ui" where
  "mount_monitor st ui =
     (case (tx_id st, tx_object st) of
        (Some i, Some t) \<Rightarrow>
          if i = [] then ui
          else ui\<lparr>monitors := monitors ui @ [\<lparr>mo_id = i, mo_tx = t, mo_cancelled = False, mo_finished = False, mo_phase = AwaitingReceipt\<rparr>],
                  mounted_monitor := Some (length (monitors ui))\<rparr>
      | _ \<Rightarrow> ui)"

text \<open>The second effect: the display of a result ends after five seconds.\<close>

definition unmount_timer :: "tx_ui \<Rightarrow> tx_ui" where
  "unmount_timer ui =
     (case mounted_timer ui of
        None \<Rightarrow> ui
      | Some t \<Rightarrow> ui\<lparr>mounted_timer := None,
                     pending_timers := map (\<lambda>(u, c). (u, if u = t then True else c)) (pending_timers ui)\<rparr>)"

definition mount_timer :: "tx_state \<Rightarrow> tx_ui \<Rightarrow> tx_ui \<times> tx_state list" where
  "mount_timer st ui =
     (case st of
        Tx_ConfirmedOneShot i \<Rightarrow> (ui, if i = [] then [] else [Tx_Confirmed i])
      | _ \<Rightarrow>
          if tx_type st \<in> {''confirmed'', ''failed'', ''cancelled''}
          then (ui\<lparr>pending_timers := pending_timers ui @ [(next_timeout ui, False)],
                  mounted_timer := Some (next_timeout ui), next_timeout := next_timeout ui + 1\<rparr>, [])
          else (ui, []))"

text \<open>Committing a state: the effects whose dependencies \<^verbatim>\<open>[id, tx]\<close> and \<^verbatim>\<open>[type, id]\<close> changed.\<close>

definition commit_effects :: "tx_state \<Rightarrow> tx_ui \<Rightarrow> tx_ui \<times> tx_state list" where
  "commit_effects st ui =
     (let old = current ui;
          first = (tx_id st, tx_object st) \<noteq> (tx_id old, tx_object old);
          second = (tx_type st, tx_id st) \<noteq> (tx_type old, tx_id old);
          (ui, cleared) = (if first then unmount_monitor ui else (ui, []));
          ui = (if second then unmount_timer ui else ui);
          ui = ui\<lparr>current := st\<rparr>;
          ui = (if first then mount_monitor st ui else ui);
          (ui, set) = (if second then mount_timer st ui else (ui, []))
      in (ui, cleared @ set))"

text \<open>How many more commits a commit may cause.\<close>

fun state_weight :: "tx_state \<Rightarrow> nat" where
  "state_weight (Tx_WaitingForConfirmation _ _) = 2"
| "state_weight (Tx_ConfirmedOneShot _) = 2"
| "state_weight _ = 0"

definition commit_weight :: "tx_state \<Rightarrow> tx_ui \<Rightarrow> nat" where
  "commit_weight st ui = state_weight st + (if mounted_monitor ui = None then 0 else 1)"

lemma unmount_monitor_mounted [simp]: "mounted_monitor (fst (unmount_monitor ui)) = None"
  by (simp add: unmount_monitor_def split: option.splits)

lemma unmount_monitor_sets: "set (snd (unmount_monitor ui)) \<subseteq> {Tx_Idle}" "snd (unmount_monitor ui) \<noteq> [] \<Longrightarrow> mounted_monitor ui \<noteq> None"
  by (auto simp: unmount_monitor_def split: option.splits if_splits)

lemma commit_weight_decreases:
  assumes "commit_effects st ui = (ui', sets)" and "sets \<noteq> []"
  shows "commit_weight (last sets) ui' < commit_weight st ui"
  using assms
  by (cases st)
    (auto simp: commit_effects_def Let_def commit_weight_def unmount_monitor_def mount_monitor_def unmount_timer_def mount_timer_def
      split: if_splits option.splits prod.splits)

function setTransactionState :: "tx_state \<Rightarrow> tx_ui \<Rightarrow> tx_ui" where
  "setTransactionState st ui =
     (case commit_effects st ui of
        (ui', sets) \<Rightarrow> if sets = [] then ui' else setTransactionState (last sets) ui')"
  by pat_completeness auto
termination
  by (relation "measure (\<lambda>(st, ui). commit_weight st ui)") (auto simp: commit_weight_decreases)

declare setTransactionState.simps [simp del]

section \<open>\<^verbatim>\<open>useTransactionFunction\<close>\<close>

definition press :: "string \<Rightarrow> tx_ui \<Rightarrow> tx_ui" where
  "press i ui = (let ui = setTransactionState (Tx_WaitingForApproval i) ui in ui\<lparr>sending := sending ui @ [i]\<rparr>)"

definition send_resolves :: "string \<Rightarrow> tx_ui \<Rightarrow> tx_ui" where
  "send_resolves i ui =
     setTransactionState (Tx_WaitingForConfirmation i (next_tx ui)) (ui\<lparr>sending := remove1 i (sending ui), next_tx := next_tx ui + 1\<rparr>)"

definition send_rejects :: "string \<Rightarrow> js_error \<Rightarrow> tx_ui \<Rightarrow> tx_ui" where
  "send_rejects i err ui =
     setTransactionState
       (if message_includes err ''User denied transaction signature''
        then Tx_Cancelled i else Tx_Failed i ''Failed to send transaction (try again)'')
       (ui\<lparr>sending := remove1 i (sending ui)\<rparr>)"

section \<open>\<^verbatim>\<open>TransactionMonitor\<close>: waiting for the receipt\<close>

text \<open>What is used of ethers: the length and parts of hexadecimal data, and the decoder of a string.\<close>

record abi_tools =
  hexDataLength :: "string \<Rightarrow> int option"
  hexDataSlice :: "string \<Rightarrow> int \<Rightarrow> int option \<Rightarrow> string res"
  decode_string :: "string \<Rightarrow> string res"

text \<open>The call of the failed transaction, at its block, is answered by \<open>result\<close>. \<^verbatim>\<open>null % 32\<close> is 0.\<close>

definition tryToGetRevertReason :: "abi_tools \<Rightarrow> string res \<Rightarrow> string option" where
  "tryToGetRevertReason abi result =
     (case bind_res result (\<lambda>data.
        if (case hexDataLength abi data of None \<Rightarrow> 0 | Some n \<Rightarrow> n mod 32) = 4 then
          bind_res (hexDataSlice abi data 0 (Some 4)) (\<lambda>selector.
          if selector = ''0x08c379a0''
          then bind_res (hexDataSlice abi data 4 None) (\<lambda>rest. bind_res (decode_string abi rest) (\<lambda>reason. Inr (Some reason)))
          else Inr None)
        else Inr None) of
        Inl _ \<Rightarrow> None
      | Inr reason \<Rightarrow> reason)"

definition receipt_arrives :: "nat \<Rightarrow> bool \<Rightarrow> tx_ui \<Rightarrow> tx_ui" where
  "receipt_arrives k succeeded ui =
     (let m = monitors ui ! k in
      if mo_cancelled m then ui\<lparr>monitors := (monitors ui)[k := m\<lparr>mo_phase := Settled\<rparr>]\<rparr>
      else if succeeded then
        setTransactionState (Tx_ConfirmedOneShot (mo_id m))
          (ui\<lparr>monitors := (monitors ui)[k := m\<lparr>mo_finished := True, mo_phase := Settled\<rparr>]\<rparr>)
      else ui\<lparr>monitors := (monitors ui)[k := m\<lparr>mo_finished := True, mo_phase := AwaitingReason\<rparr>]\<rparr>)"

definition reason_arrives :: "nat \<Rightarrow> string option \<Rightarrow> tx_ui \<Rightarrow> tx_ui" where
  "reason_arrives k reason ui =
     (let m = monitors ui ! k;
          ui = ui\<lparr>monitors := (monitors ui)[k := m\<lparr>mo_phase := Settled\<rparr>]\<rparr>
      in if mo_cancelled m then ui
         else setTransactionState (Tx_Failed (mo_id m)
           (case reason of None \<Rightarrow> ''Failed'' | Some r \<Rightarrow> if r = [] then ''Failed'' else ''Reverted: '' @ r)) ui)"

text \<open>The receipt cannot be had: the transaction was cancelled, or another error.\<close>

definition receipt_fails :: "nat \<Rightarrow> bool \<Rightarrow> tx_ui \<Rightarrow> tx_ui" where
  "receipt_fails k was_cancelled ui =
     (let m = monitors ui ! k in
      if mo_cancelled m then ui\<lparr>monitors := (monitors ui)[k := m\<lparr>mo_phase := Settled\<rparr>]\<rparr>
      else setTransactionState (if was_cancelled then Tx_Cancelled (mo_id m) else Tx_Failed (mo_id m) ''Failed'')
          (ui\<lparr>monitors := (monitors ui)[k := m\<lparr>mo_finished := True, mo_phase := Settled\<rparr>]\<rparr>))"

definition timeout_fires :: "nat \<Rightarrow> tx_ui \<Rightarrow> tx_ui" where
  "timeout_fires t ui =
     (let cancelled = (t, True) \<in> set (pending_timers ui);
          ui = ui\<lparr>pending_timers := filter (\<lambda>(u, _). u \<noteq> t) (pending_timers ui)\<rparr>
      in if cancelled then ui else setTransactionState Tx_Idle ui)"

section \<open>\<^verbatim>\<open>Transaction\<close>: the button\<close>

definition failureReasons :: "(bool \<times> string) list \<Rightarrow> tx_state \<Rightarrow> string list" where
  "failureReasons requires st =
     map snd (filter (\<lambda>(requirement, _). \<not> requirement) requires)
     @ (if tx_type st = ''waitingForApproval'' \<or> tx_type st = ''waitingForConfirmation'' then [''You must wait for confirmation''] else [])"

datatype failure_display = AsTooltip | AsChildText

record tx_button =
  bt_disabled :: bool
  bt_text :: "string option"  \<comment> \<open>the text that replaces the children\<close>
  bt_tooltip :: "string option"

definition Transaction :: "string option \<Rightarrow> failure_display option \<Rightarrow> (bool \<times> string) list \<Rightarrow> tx_state \<Rightarrow> tx_button" where
  "Transaction tooltip showFailure requires st =
     (let reasons = failureReasons requires st in
      if reasons = [] then \<lparr>bt_disabled = False, bt_text = None, bt_tooltip = tooltip\<rparr>
      else case (case showFailure of Some d \<Rightarrow> d | None \<Rightarrow> if tooltip = None \<or> tooltip = Some [] then AsChildText else AsTooltip) of
          AsChildText \<Rightarrow> \<lparr>bt_disabled = True, bt_text = Some (hd reasons), bt_tooltip = tooltip\<rparr>
        | AsTooltip \<Rightarrow> \<lparr>bt_disabled = True, bt_text = None, bt_tooltip = Some (hd reasons)\<rparr>)"

section \<open>Runs\<close>

text \<open>An answer of the environment: to a call of \<^verbatim>\<open>send\<close>, to a monitor, or a timer that fires.\<close>

inductive answered :: "tx_ui \<Rightarrow> tx_ui \<Rightarrow> bool" where
  answer_sent: "i \<in> set (sending ui) \<Longrightarrow> answered ui (send_resolves i ui)"
| answer_not_sent: "i \<in> set (sending ui) \<Longrightarrow> answered ui (send_rejects i err ui)"
| answer_receipt: "k < length (monitors ui) \<Longrightarrow> mo_phase (monitors ui ! k) = AwaitingReceipt \<Longrightarrow>
    answered ui (receipt_arrives k succeeded ui)"
| answer_no_receipt: "k < length (monitors ui) \<Longrightarrow> mo_phase (monitors ui ! k) = AwaitingReceipt \<Longrightarrow>
    answered ui (receipt_fails k was_cancelled ui)"
| answer_reason: "k < length (monitors ui) \<Longrightarrow> mo_phase (monitors ui ! k) = AwaitingReason \<Longrightarrow>
    answered ui (reason_arrives k reason ui)"
| answer_timeout: "(t, c) \<in> set (pending_timers ui) \<Longrightarrow> answered ui (timeout_fires t ui)"

text \<open>Runs in which the buttons of \<^verbatim>\<open>Transaction\<close> are pressed, which are disabled while there is a reason.\<close>

inductive guarded_run :: "tx_ui \<Rightarrow> bool" where
  run_start: "guarded_run TransactionProvider"
| run_press: "guarded_run ui \<Longrightarrow> i \<noteq> [] \<Longrightarrow> \<not> bt_disabled (Transaction tooltip showFailure requires (current ui)) \<Longrightarrow>
    guarded_run (press i ui)"
| run_answer: "guarded_run ui \<Longrightarrow> answered ui ui' \<Longrightarrow> guarded_run ui'"

section \<open>What is displayed is what is under way\<close>

fun idle_or_done :: "tx_state \<Rightarrow> bool" where
  "idle_or_done (Tx_WaitingForApproval _) \<longleftrightarrow> False"
| "idle_or_done (Tx_WaitingForConfirmation _ _) \<longleftrightarrow> False"
| "idle_or_done (Tx_ConfirmedOneShot _) \<longleftrightarrow> False"
| "idle_or_done _ \<longleftrightarrow> True"

text \<open>The timers that are not cancelled belong to the mounted effect; every monitor that is not mounted has settled.\<close>

definition tx_inv :: "tx_ui \<Rightarrow> bool" where
  "tx_inv ui \<longleftrightarrow>
     (\<forall>(t, c)\<in>set (pending_timers ui). t < next_timeout ui \<and> (\<not> c \<longleftrightarrow> mounted_timer ui = Some t))
     \<and> (\<forall>k<length (monitors ui). mo_phase (monitors ui ! k) \<noteq> Settled \<longrightarrow> mounted_monitor ui = Some k)
     \<and> (case current ui of
          Tx_Idle \<Rightarrow> sending ui = [] \<and> mounted_monitor ui = None \<and> mounted_timer ui = None
        | Tx_WaitingForApproval i \<Rightarrow> i \<noteq> [] \<and> sending ui = [i] \<and> mounted_monitor ui = None \<and> mounted_timer ui = None
        | Tx_WaitingForConfirmation i t \<Rightarrow> i \<noteq> [] \<and> sending ui = [] \<and> mounted_timer ui = None
            \<and> (\<exists>k<length (monitors ui). mounted_monitor ui = Some k \<and> mo_id (monitors ui ! k) = i \<and> mo_tx (monitors ui ! k) = t
                \<and> \<not> mo_cancelled (monitors ui ! k) \<and> mo_phase (monitors ui ! k) \<noteq> Settled
                \<and> (mo_finished (monitors ui ! k) \<longleftrightarrow> mo_phase (monitors ui ! k) = AwaitingReason))
        | Tx_ConfirmedOneShot _ \<Rightarrow> False
        | _ \<Rightarrow> sending ui = [] \<and> mounted_monitor ui = None \<and> (\<exists>t. mounted_timer ui = Some t \<and> (t, False) \<in> set (pending_timers ui)))"

lemmas effect_defs = commit_effects_def unmount_monitor_def mount_monitor_def unmount_timer_def mount_timer_def Let_def

lemma set_quiet: "commit_effects st ui = (ui', []) \<Longrightarrow> setTransactionState st ui = ui'"
  by (simp add: setTransactionState.simps)

lemma set_again: "commit_effects st ui = (ui', [st']) \<Longrightarrow> setTransactionState st ui = setTransactionState st' ui'"
  by (simp add: setTransactionState.simps [of st])

lemma set_idle:
  assumes "mounted_monitor ui = None" and "current ui \<noteq> Tx_Idle"
  shows "setTransactionState Tx_Idle ui = (unmount_timer ui)\<lparr>current := Tx_Idle\<rparr>"
  using assms by (cases "current ui") (auto intro!: set_quiet simp: effect_defs split: option.splits)

lemma set_approval:
  assumes "mounted_monitor ui = None" and "idle_or_done (current ui)"
  shows "setTransactionState (Tx_WaitingForApproval i) ui = (unmount_timer ui)\<lparr>current := Tx_WaitingForApproval i\<rparr>"
  using assms by (cases "current ui") (auto intro!: set_quiet simp: effect_defs split: option.splits)

lemma set_confirmation:
  assumes "mounted_monitor ui = None" and "mounted_timer ui = None" and "current ui = Tx_WaitingForApproval j" and "i \<noteq> []"
  shows "setTransactionState (Tx_WaitingForConfirmation i t) ui = ui\<lparr>current := Tx_WaitingForConfirmation i t,
    monitors := monitors ui @ [\<lparr>mo_id = i, mo_tx = t, mo_cancelled = False, mo_finished = False, mo_phase = AwaitingReceipt\<rparr>],
    mounted_monitor := Some (length (monitors ui))\<rparr>"
  using assms by (intro set_quiet) (simp add: effect_defs)

text \<open>A result is displayed, for a call of \<^verbatim>\<open>send\<close> or a monitor that has finished.\<close>

definition displayed :: "tx_state \<Rightarrow> tx_ui \<Rightarrow> tx_ui" where
  "displayed st ui = ui\<lparr>current := st, mounted_monitor := None, pending_timers := pending_timers ui @ [(next_timeout ui, False)],
     mounted_timer := Some (next_timeout ui), next_timeout := next_timeout ui + 1\<rparr>"

fun is_waiting :: "tx_state \<Rightarrow> bool" where
  "is_waiting (Tx_WaitingForApproval _) \<longleftrightarrow> True"
| "is_waiting (Tx_WaitingForConfirmation _ _) \<longleftrightarrow> True"
| "is_waiting _ \<longleftrightarrow> False"

lemma set_result:
  assumes "case mounted_monitor ui of None \<Rightarrow> True | Some k \<Rightarrow> mo_finished (monitors ui ! k)"
    and "mounted_monitor ui = None \<longleftrightarrow> tx_object (current ui) = None"
    and "mounted_timer ui = None" and "is_waiting (current ui)" and "idle_or_done st" and "st \<noteq> Tx_Idle"
  shows "setTransactionState st ui = displayed st ui"
  using assms
  by (cases st; cases "current ui") (auto intro!: set_quiet simp: effect_defs displayed_def split: option.splits)

lemma set_one_shot:
  assumes "mounted_monitor ui = Some k" and "mo_finished (monitors ui ! k)" and "mounted_timer ui = None"
    and "current ui = Tx_WaitingForConfirmation i t" and "i \<noteq> []"
  shows "setTransactionState (Tx_ConfirmedOneShot i) ui = displayed (Tx_Confirmed i) ui"
  using assms
  by (subst set_again [where st' = "Tx_Confirmed i"], simp add: effect_defs)
    (rule set_quiet, simp add: effect_defs displayed_def)

lemma inv_displayed:
  assumes "\<forall>(t, c)\<in>set (pending_timers ui). t < next_timeout ui \<and> c" and "\<forall>m\<in>set (monitors ui). mo_phase m = Settled"
    and "sending ui = []" and "idle_or_done st" and "st \<noteq> Tx_Idle"
  shows "tx_inv (displayed st ui)"
  using assms by (cases st) (fastforce simp: tx_inv_def displayed_def)+

lemma inv_press:
  assumes "tx_inv ui" and "i \<noteq> []" and "\<not> is_waiting (current ui)"
  shows "tx_inv (press i ui)"
proof -
  have "mounted_monitor ui = None" "idle_or_done (current ui)"
    using assms(1,3) by (auto simp: tx_inv_def split: tx_state.splits)
  then have "press i ui = (unmount_timer ui)\<lparr>current := Tx_WaitingForApproval i, sending := sending ui @ [i]\<rparr>"
    by (simp add: press_def set_approval unmount_timer_def Let_def split: option.splits)
  then show ?thesis
    using assms by (auto simp: tx_inv_def unmount_timer_def split: tx_state.splits option.splits)
qed

lemma inv_waiting_approval:
  assumes "tx_inv ui" and "i \<in> set (sending ui)"
  shows "current ui = Tx_WaitingForApproval i" "i \<noteq> []" "sending ui = [i]" "mounted_monitor ui = None" "mounted_timer ui = None"
    "\<forall>m\<in>set (monitors ui). mo_phase m = Settled" "\<forall>(t, c)\<in>set (pending_timers ui). t < next_timeout ui \<and> c"
  using assms by (auto simp: tx_inv_def in_set_conv_nth split: tx_state.splits)

lemma inv_send_resolves:
  assumes "tx_inv ui" and "i \<in> set (sending ui)"
  shows "tx_inv (send_resolves i ui)"
proof -
  note w = inv_waiting_approval [OF assms]
  show ?thesis
    using w by (simp add: send_resolves_def set_confirmation [of _ i i]) (auto simp: tx_inv_def nth_append less_Suc_eq)
qed

lemma inv_send_rejects:
  assumes "tx_inv ui" and "i \<in> set (sending ui)"
  shows "\<exists>st. send_rejects i err ui = displayed st (ui\<lparr>sending := []\<rparr>) \<and> idle_or_done st \<and> st \<noteq> Tx_Idle \<and> tx_id st = Some i"
    "tx_inv (send_rejects i err ui)"
proof -
  note w = inv_waiting_approval [OF assms]
  have set_st: "setTransactionState st (ui\<lparr>sending := []\<rparr>) = displayed st (ui\<lparr>sending := []\<rparr>)" if "idle_or_done st" "st \<noteq> Tx_Idle" for st
    using w that by (intro set_result) simp_all
  then show *: "\<exists>st. send_rejects i err ui = displayed st (ui\<lparr>sending := []\<rparr>) \<and> idle_or_done st \<and> st \<noteq> Tx_Idle \<and> tx_id st = Some i"
    using w by (auto simp: send_rejects_def)
  show "tx_inv (send_rejects i err ui)"
    using * w inv_displayed [of "ui\<lparr>sending := []\<rparr>"] by auto
qed

text \<open>A monitor without an answer is the one of the transaction that is displayed.\<close>

lemma inv_waiting_confirmation:
  assumes "tx_inv ui" and "k < length (monitors ui)" and "mo_phase (monitors ui ! k) \<noteq> Settled"
  shows "current ui = Tx_WaitingForConfirmation (mo_id (monitors ui ! k)) (mo_tx (monitors ui ! k))" "mo_id (monitors ui ! k) \<noteq> []"
    "mounted_monitor ui = Some k" "\<not> mo_cancelled (monitors ui ! k)" "sending ui = []" "mounted_timer ui = None"
    "mo_finished (monitors ui ! k) \<longleftrightarrow> mo_phase (monitors ui ! k) = AwaitingReason"
    "\<forall>(t, c)\<in>set (pending_timers ui). t < next_timeout ui \<and> c"
    "\<And>j. j < length (monitors ui) \<Longrightarrow> j \<noteq> k \<Longrightarrow> mo_phase (monitors ui ! j) = Settled"
proof -
  have parts: "\<forall>(t, c)\<in>set (pending_timers ui). t < next_timeout ui \<and> (\<not> c \<longleftrightarrow> mounted_timer ui = Some t)"
    "\<forall>k<length (monitors ui). mo_phase (monitors ui ! k) \<noteq> Settled \<longrightarrow> mounted_monitor ui = Some k"
    using assms(1) unfolding tx_inv_def by blast+
  then have m: "mounted_monitor ui = Some k" using assms by blast
  obtain i t where c: "current ui = Tx_WaitingForConfirmation i t"
    using assms(1) m by (cases "current ui") (simp_all add: tx_inv_def)
  have w: "i \<noteq> []" "sending ui = []" "mounted_timer ui = None" "mo_id (monitors ui ! k) = i" "mo_tx (monitors ui ! k) = t"
    "\<not> mo_cancelled (monitors ui ! k)" "mo_finished (monitors ui ! k) \<longleftrightarrow> mo_phase (monitors ui ! k) = AwaitingReason"
    using assms(1) c m by (simp_all add: tx_inv_def)
  show "current ui = Tx_WaitingForConfirmation (mo_id (monitors ui ! k)) (mo_tx (monitors ui ! k))" "mo_id (monitors ui ! k) \<noteq> []"
    "mounted_monitor ui = Some k" "\<not> mo_cancelled (monitors ui ! k)" "sending ui = []" "mounted_timer ui = None"
    "mo_finished (monitors ui ! k) \<longleftrightarrow> mo_phase (monitors ui ! k) = AwaitingReason"
    using c m w by simp_all
  show "\<forall>(t, c)\<in>set (pending_timers ui). t < next_timeout ui \<and> c"
    using parts(1) w(3) by fastforce
  show "mo_phase (monitors ui ! j) = Settled" if "j < length (monitors ui)" "j \<noteq> k" for j
    using parts(2) m that by auto
qed

text \<open>The monitor finishes with a result.\<close>

lemma inv_settles:
  assumes inv: "tx_inv ui" and k: "k < length (monitors ui)" "mo_phase (monitors ui ! k) \<noteq> Settled"
    and m': "mo_finished m'" "mo_phase m' = Settled"
    and st: "idle_or_done st" "st \<noteq> Tx_Idle"
  defines "ui' \<equiv> ui\<lparr>monitors := (monitors ui)[k := m']\<rparr>"
  shows "setTransactionState st ui' = displayed st ui'" "tx_inv (displayed st ui')"
    "setTransactionState (Tx_ConfirmedOneShot (mo_id (monitors ui ! k))) ui' = displayed (Tx_Confirmed (mo_id (monitors ui ! k))) ui'"
proof -
  note w = inv_waiting_confirmation [OF inv k]
  show "setTransactionState st ui' = displayed st ui'"
    using w k m' st by (intro set_result) (simp_all add: ui'_def)
  show "setTransactionState (Tx_ConfirmedOneShot (mo_id (monitors ui ! k))) ui' = displayed (Tx_Confirmed (mo_id (monitors ui ! k))) ui'"
    using w k m' by (intro set_one_shot [where k = k]) (simp_all add: ui'_def)
  have "\<forall>m\<in>set (monitors ui'). mo_phase m = Settled"
    using w(9) k m'(2) by (auto simp: ui'_def in_set_conv_nth nth_list_update)
  then show "tx_inv (displayed st ui')"
    using w st by (intro inv_displayed) (simp_all add: ui'_def)
qed

lemma inv_receipt_arrives:
  assumes inv: "tx_inv ui" and k: "k < length (monitors ui)" "mo_phase (monitors ui ! k) = AwaitingReceipt"
  shows "tx_inv (receipt_arrives k succeeded ui)"
    "current (receipt_arrives k True ui) = Tx_Confirmed (mo_id (monitors ui ! k))"
proof -
  have k': "mo_phase (monitors ui ! k) \<noteq> Settled" using k by simp
  note w = inv_waiting_confirmation [OF inv k(1) k']
  let ?m = "(monitors ui ! k)\<lparr>mo_finished := True, mo_phase := Settled\<rparr>"
  let ?c = "Tx_Confirmed (mo_id (monitors ui ! k))"
  have ok: "receipt_arrives k True ui = displayed ?c (ui\<lparr>monitors := (monitors ui)[k := ?m]\<rparr>)"
    using w inv_settles(3) [OF inv k(1) k', of ?m ?c] by (simp add: receipt_arrives_def Let_def)
  then show "current (receipt_arrives k True ui) = ?c" by (simp add: displayed_def)
  have "tx_inv (receipt_arrives k False ui)"
    using w k unfolding receipt_arrives_def tx_inv_def by (simp add: nth_list_update Let_def)
  then show "tx_inv (receipt_arrives k succeeded ui)"
    using ok inv_settles(2) [OF inv k(1) k', of ?m ?c] by (cases succeeded) simp_all
qed

lemma inv_reason_arrives:
  assumes inv: "tx_inv ui" and k: "k < length (monitors ui)" "mo_phase (monitors ui ! k) = AwaitingReason"
  shows "\<exists>st. reason_arrives k reason ui = displayed st (ui\<lparr>monitors := (monitors ui)[k := (monitors ui ! k)\<lparr>mo_phase := Settled\<rparr>]\<rparr>)
      \<and> idle_or_done st \<and> st \<noteq> Tx_Idle"
    "tx_inv (reason_arrives k reason ui)"
proof -
  have k': "mo_phase (monitors ui ! k) \<noteq> Settled" using k by simp
  note w = inv_waiting_confirmation [OF inv k(1) k']
  let ?m = "(monitors ui ! k)\<lparr>mo_phase := Settled\<rparr>"
  have m: "mo_finished ?m" "mo_phase ?m = Settled" using w(7) k by simp_all
  show *: "\<exists>st. reason_arrives k reason ui = displayed st (ui\<lparr>monitors := (monitors ui)[k := ?m]\<rparr>) \<and> idle_or_done st \<and> st \<noteq> Tx_Idle"
    using w inv_settles(1) [OF inv k(1) k' m] by (auto simp: reason_arrives_def Let_def)
  show "tx_inv (reason_arrives k reason ui)"
    using * inv_settles(2) [OF inv k(1) k' m] by auto
qed

lemma inv_receipt_fails:
  assumes inv: "tx_inv ui" and k: "k < length (monitors ui)" "mo_phase (monitors ui ! k) = AwaitingReceipt"
  shows "\<exists>st m. receipt_fails k was_cancelled ui = displayed st (ui\<lparr>monitors := (monitors ui)[k := m]\<rparr>)
      \<and> idle_or_done st \<and> st \<noteq> Tx_Idle"
    "tx_inv (receipt_fails k was_cancelled ui)"
proof -
  have k': "mo_phase (monitors ui ! k) \<noteq> Settled" using k by simp
  note w = inv_waiting_confirmation [OF inv k(1) k']
  let ?m = "(monitors ui ! k)\<lparr>mo_finished := True, mo_phase := Settled\<rparr>"
  have m: "mo_finished ?m" "mo_phase ?m = Settled" by simp_all
  have *: "\<exists>st. receipt_fails k was_cancelled ui = displayed st (ui\<lparr>monitors := (monitors ui)[k := ?m]\<rparr>) \<and> idle_or_done st \<and> st \<noteq> Tx_Idle"
    using w inv_settles(1) [OF inv k(1) k' m] by (auto simp: receipt_fails_def Let_def)
  then show "\<exists>st m. receipt_fails k was_cancelled ui = displayed st (ui\<lparr>monitors := (monitors ui)[k := m]\<rparr>)
      \<and> idle_or_done st \<and> st \<noteq> Tx_Idle" by blast
  show "tx_inv (receipt_fails k was_cancelled ui)"
    using * inv_settles(2) [OF inv k(1) k' m] by auto
qed

lemma inv_timeout:
  assumes inv: "tx_inv ui" and t: "(t, c) \<in> set (pending_timers ui)"
  defines "ui' \<equiv> ui\<lparr>pending_timers := filter (\<lambda>(u, _). u \<noteq> t) (pending_timers ui)\<rparr>"
  shows "timeout_fires t ui = (if c then ui' else ui'\<lparr>current := Tx_Idle, mounted_timer := None\<rparr>)"
    "tx_inv (timeout_fires t ui)" "\<not> c \<Longrightarrow> idle_or_done (current ui) \<and> current ui \<noteq> Tx_Idle"
proof -
  have parts: "\<forall>(t, c)\<in>set (pending_timers ui). t < next_timeout ui \<and> (\<not> c \<longleftrightarrow> mounted_timer ui = Some t)"
    "\<forall>k<length (monitors ui). mo_phase (monitors ui ! k) \<noteq> Settled \<longrightarrow> mounted_monitor ui = Some k"
    using inv unfolding tx_inv_def by blast+
  have flag: "d \<longleftrightarrow> mounted_timer ui \<noteq> Some t" if "(t, d) \<in> set (pending_timers ui)" for d
    using bspec [OF parts(1) that] by auto
  have c: "c \<longleftrightarrow> mounted_timer ui \<noteq> Some t" by (rule flag [OF t])
  have "(t, True) \<in> set (pending_timers ui) \<longleftrightarrow> c"
    using t flag [of True] c by (cases c) auto
  then have fires: "timeout_fires t ui = (if c then ui' else setTransactionState Tx_Idle ui')"
    by (simp add: timeout_fires_def Let_def ui'_def)
  show live: "idle_or_done (current ui) \<and> current ui \<noteq> Tx_Idle" if "\<not> c"
    using inv c that by (cases "current ui") (simp_all add: tx_inv_def)
  have idle: "setTransactionState Tx_Idle ui' = ui'\<lparr>current := Tx_Idle, mounted_timer := None\<rparr>" if "\<not> c"
  proof -
    have "mounted_monitor ui = None"
      using inv live [OF that] by (cases "current ui") (simp_all add: tx_inv_def)
    then have "mounted_monitor ui' = None" "current ui' \<noteq> Tx_Idle" "mounted_timer ui' = Some t"
      using live [OF that] c that by (simp_all add: ui'_def)
    moreover have "map (\<lambda>(u, c). (u, if u = t then True else c)) (pending_timers ui') = pending_timers ui'"
      by (auto simp: ui'_def intro!: map_idI)
    ultimately show ?thesis by (simp add: set_idle unmount_timer_def)
  qed
  with fires show eq: "timeout_fires t ui = (if c then ui' else ui'\<lparr>current := Tx_Idle, mounted_timer := None\<rparr>)" by simp
  show "tx_inv (timeout_fires t ui)"
  proof (cases c)
    case True
    then have "mounted_timer ui \<noteq> Some t" using c by simp
    then show ?thesis
      using inv True by (auto simp: eq ui'_def tx_inv_def split: tx_state.splits)
  next
    case False
    have "sending ui = []" "mounted_monitor ui = None"
      using inv live [OF False] by (cases "current ui"; simp add: tx_inv_def)+
    then show ?thesis
      using parts False c unfolding eq ui'_def by (auto simp: tx_inv_def)
  qed
qed

lemma inv_answered: "answered ui ui' \<Longrightarrow> tx_inv ui \<Longrightarrow> tx_inv ui'"
  by (induction rule: answered.induct)
    (simp_all add: inv_send_resolves inv_send_rejects inv_receipt_arrives inv_receipt_fails inv_reason_arrives inv_timeout(2))

lemma enabled_not_waiting: "\<not> bt_disabled (Transaction tooltip showFailure requires st) \<Longrightarrow> \<not> is_waiting st"
  by (cases st) (auto simp: Transaction_def failureReasons_def Let_def split: failure_display.splits)

lemma guarded_inv: "guarded_run ui \<Longrightarrow> tx_inv ui"
proof (induction rule: guarded_run.induct)
  case run_start
  show ?case by (simp add: tx_inv_def TransactionProvider_def)
next
  case (run_press ui i tooltip showFailure requires)
  then show ?case using enabled_not_waiting inv_press by blast
next
  case (run_answer ui ui')
  then show ?case using inv_answered by blast
qed

text \<open>What is under way: the calls of \<^verbatim>\<open>send\<close> and the transactions that are monitored.\<close>

definition under_way :: "tx_ui \<Rightarrow> (string \<times> nat option) list" where
  "under_way ui = map (\<lambda>i. (i, None)) (sending ui)
     @ map (\<lambda>m. (mo_id m, Some (mo_tx m))) (filter (\<lambda>m. mo_phase m \<noteq> Settled \<and> \<not> mo_cancelled m) (monitors ui))"

fun displayed_as :: "tx_state \<Rightarrow> (string \<times> nat option) list" where
  "displayed_as (Tx_WaitingForApproval i) = [(i, None)]"
| "displayed_as (Tx_WaitingForConfirmation i t) = [(i, Some t)]"
| "displayed_as _ = []"

text \<open>How many answers are left.\<close>

definition state_rank :: "tx_ui \<Rightarrow> nat" where
  "state_rank ui =
     (case current ui of
        Tx_Idle \<Rightarrow> 0
      | Tx_WaitingForApproval _ \<Rightarrow> 4
      | Tx_WaitingForConfirmation _ _ \<Rightarrow> if list_ex (\<lambda>m. mo_phase m = AwaitingReceipt) (monitors ui) then 3 else 2
      | _ \<Rightarrow> 1)"

definition work_left :: "tx_ui \<Rightarrow> nat" where
  "work_left ui = 2 * state_rank ui + length (pending_timers ui)"

lemma filter_single:
  "k < length xs \<Longrightarrow> P (xs ! k) \<Longrightarrow> (\<And>j. j < length xs \<Longrightarrow> j \<noteq> k \<Longrightarrow> \<not> P (xs ! j)) \<Longrightarrow> filter P xs = [xs ! k]"
proof (induction xs arbitrary: k)
  case (Cons x xs)
  have tail: "\<And>j. j < length xs \<Longrightarrow> Suc j \<noteq> k \<Longrightarrow> \<not> P (xs ! j)" using Cons.prems(3) [of "Suc j" for j] by simp
  show ?case
  proof (cases k)
    case 0
    then have "filter P xs = []" using tail by (auto simp: filter_empty_conv in_set_conv_nth)
    with 0 Cons.prems(2) show ?thesis by simp
  next
    case (Suc j)
    then show ?thesis using Cons.IH [of j] Cons.prems tail Cons.prems(3) [of 0] by simp
  qed
qed simp

lemma inv_under_way: "tx_inv ui \<Longrightarrow> under_way ui = displayed_as (current ui)"
proof -
  assume inv: "tx_inv ui"
  show ?thesis
  proof (cases "\<exists>k<length (monitors ui). mo_phase (monitors ui ! k) \<noteq> Settled")
    case True
    then obtain k where k: "k < length (monitors ui)" "mo_phase (monitors ui ! k) \<noteq> Settled" by blast
    note w = inv_waiting_confirmation [OF inv k]
    have "filter (\<lambda>m. mo_phase m \<noteq> Settled \<and> \<not> mo_cancelled m) (monitors ui) = [monitors ui ! k]"
      using k w by (intro filter_single) auto
    then show ?thesis using w(1,5) by (simp add: under_way_def)
  next
    case False
    then have "filter (\<lambda>m. mo_phase m \<noteq> Settled \<and> \<not> mo_cancelled m) (monitors ui) = []"
      by (auto simp: filter_empty_conv in_set_conv_nth)
    moreover have "map (\<lambda>i. (i, None)) (sending ui) = displayed_as (current ui)"
      using inv False by (cases "current ui") (auto simp: tx_inv_def)
    ultimately show ?thesis by (simp add: under_way_def)
  qed
qed

lemma displayed_work: "idle_or_done st \<Longrightarrow> st \<noteq> Tx_Idle \<Longrightarrow> work_left (displayed st ui) = length (pending_timers ui) + 3"
  by (cases st) (simp_all add: work_left_def state_rank_def displayed_def)

lemma answered_work:
  assumes "answered ui ui'" and inv: "tx_inv ui"
  shows "work_left ui' < work_left ui"
  using assms(1)
proof cases
  case (answer_sent i)
  note w = inv_waiting_approval [OF inv answer_sent(2)]
  show ?thesis
    unfolding answer_sent send_resolves_def using w
    by (subst set_confirmation [where j = i]) (simp_all add: work_left_def state_rank_def)
next
  case (answer_not_sent i err)
  then show ?thesis
    using inv_send_rejects(1) [OF inv answer_not_sent(2), of err] inv_waiting_approval(1) [OF inv answer_not_sent(2)]
    by (auto simp: displayed_work work_left_def [of ui] state_rank_def)
next
  case (answer_receipt k succeeded)
  have k: "mo_phase (monitors ui ! k) \<noteq> Settled" using answer_receipt(3) by simp
  note w = inv_waiting_confirmation [OF inv answer_receipt(2) k]
  have rank: "state_rank ui = 3"
    using w(1) answer_receipt(2,3) by (auto simp: state_rank_def list_ex_iff)
  show ?thesis
  proof (cases succeeded)
    case True
    let ?m = "(monitors ui ! k)\<lparr>mo_finished := True, mo_phase := Settled\<rparr>"
    have "ui' = displayed (Tx_Confirmed (mo_id (monitors ui ! k))) (ui\<lparr>monitors := (monitors ui)[k := ?m]\<rparr>)"
      using answer_receipt(1) True w inv_settles(3) [OF inv answer_receipt(2) k, of ?m "Tx_Confirmed []"]
      by (simp add: receipt_arrives_def Let_def)
    then show ?thesis using rank by (simp add: displayed_work work_left_def [of ui])
  next
    case False
    let ?m = "(monitors ui ! k)\<lparr>mo_finished := True, mo_phase := AwaitingReason\<rparr>"
    have ui': "ui' = ui\<lparr>monitors := (monitors ui)[k := ?m]\<rparr>"
      using answer_receipt(1) False w(4) by (simp add: receipt_arrives_def Let_def)
    have "mo_phase ((monitors ui)[k := ?m] ! j) \<noteq> AwaitingReceipt" if "j < length (monitors ui)" for j
      using w(9) [OF that] that by (cases "j = k") simp_all
    then have "\<not> list_ex (\<lambda>m. mo_phase m = AwaitingReceipt) (monitors ui')"
      by (auto simp: ui' list_ex_iff in_set_conv_nth)
    then have "state_rank ui' = 2" "pending_timers ui' = pending_timers ui"
      using w(1) by (simp_all add: ui' state_rank_def)
    then show ?thesis using rank by (simp add: work_left_def)
  qed
next
  case (answer_no_receipt k c)
  have k: "mo_phase (monitors ui ! k) \<noteq> Settled" using answer_no_receipt(3) by simp
  then show ?thesis
    using answer_no_receipt inv_receipt_fails(1) [OF inv answer_no_receipt(2,3), of c] inv_waiting_confirmation(1) [OF inv answer_no_receipt(2) k]
    by (auto simp: displayed_work work_left_def [of ui] state_rank_def)
next
  case (answer_reason k reason)
  have k: "mo_phase (monitors ui ! k) \<noteq> Settled" using answer_reason(3) by simp
  then show ?thesis
    using answer_reason inv_reason_arrives(1) [OF inv answer_reason(2,3), of reason] inv_waiting_confirmation(1) [OF inv answer_reason(2) k]
    by (auto simp: displayed_work work_left_def [of ui] state_rank_def)
next
  case (answer_timeout t c)
  have less: "length (filter (\<lambda>(u, _). u \<noteq> t) (pending_timers ui)) < length (pending_timers ui)"
    using answer_timeout(2) by (auto intro!: length_filter_less)
  have "state_rank ui' \<le> state_rank ui \<and> pending_timers ui' = filter (\<lambda>(u, _). u \<noteq> t) (pending_timers ui)"
    using inv_timeout(1) [OF inv answer_timeout(2)] answer_timeout(1) by (auto simp: state_rank_def)
  with less show ?thesis by (simp add: work_left_def)
qed

lemma busy_answered: "tx_inv ui \<Longrightarrow> current ui \<noteq> Tx_Idle \<Longrightarrow> \<exists>ui'. answered ui ui'"
proof -
  assume inv: "tx_inv ui" and busy: "current ui \<noteq> Tx_Idle"
  then consider (send) i where "i \<in> set (sending ui)" | (timer) t where "(t, False) \<in> set (pending_timers ui)"
    | (monitor) k where "k < length (monitors ui)" "mo_phase (monitors ui ! k) \<noteq> Settled"
    by (cases "current ui") (auto simp: tx_inv_def)
  then show ?thesis
  proof cases
    case send
    then show ?thesis by (blast intro: answer_sent)
  next
    case timer
    then show ?thesis by (blast intro: answer_timeout)
  next
    case (monitor k)
    then show ?thesis by (cases "mo_phase (monitors ui ! k)") (blast intro: answer_receipt answer_reason)+
  qed
qed

text \<open>C23: with the buttons of \<^verbatim>\<open>Transaction\<close>, in every state that can be reached: what the interface displays is what is
  under way, at most one transaction; nothing else awaits an answer. Unless it is idle, an answer is outstanding; every
  answer brings it closer to being idle, after at most four and the firing of old timers; and a transaction whose
  receipt succeeded is displayed as confirmed.\<close>

theorem transactions_settle:
  assumes "guarded_run ui"
  shows "under_way ui = displayed_as (current ui)
    \<and> (current ui \<noteq> Tx_Idle \<longrightarrow> (\<exists>ui'. answered ui ui'))
    \<and> (\<forall>ui'. answered ui ui' \<longrightarrow> guarded_run ui' \<and> work_left ui' < work_left ui)
    \<and> (\<forall>k<length (monitors ui). mo_phase (monitors ui ! k) = AwaitingReceipt \<longrightarrow>
         current (receipt_arrives k True ui) = Tx_Confirmed (mo_id (monitors ui ! k)))"
proof -
  have inv: "tx_inv ui" by (rule guarded_inv [OF assms])
  then show ?thesis
    using inv_under_way busy_answered answered_work inv_receipt_arrives(2) run_answer [OF assms] by blast
qed

theorem transactions_settle_witness:
  "under_way (send_resolves ''trove'' (press ''trove'' TransactionProvider)) = [(''trove'', Some 0)]
    \<and> (\<exists>ui'. answered (send_resolves ''trove'' (press ''trove'' TransactionProvider)) ui')
    \<and> current (receipt_arrives 0 True (send_resolves ''trove'' (press ''trove'' TransactionProvider))) = Tx_Confirmed ''trove''"
proof -
  let ?p = "press ''trove'' TransactionProvider" and ?s = "send_resolves ''trove'' (press ''trove'' TransactionProvider)"
  have p: "?p = TransactionProvider\<lparr>current := Tx_WaitingForApproval ''trove'', sending := [''trove'']\<rparr>"
    by (simp add: press_def set_approval TransactionProvider_def unmount_timer_def Let_def)
  then have s: "current ?s = Tx_WaitingForConfirmation ''trove'' 0"
    "monitors ?s = [\<lparr>mo_id = ''trove'', mo_tx = 0, mo_cancelled = False, mo_finished = False, mo_phase = AwaitingReceipt\<rparr>]"
    by (simp_all add: send_resolves_def set_confirmation [where j = "''trove''"] TransactionProvider_def)
  have "guarded_run ?p"
    by (rule run_press [OF run_start, where tooltip = None and showFailure = None and requires = "[]"])
      (simp_all add: Transaction_def failureReasons_def TransactionProvider_def)
  moreover have "answered ?p ?s" by (rule answer_sent) (simp add: p)
  ultimately have "guarded_run ?s" by (rule run_answer)
  from transactions_settle [OF this] show ?thesis by (simp add: s)
qed

text \<open>The components that call \<^verbatim>\<open>useTransactionFunction\<close> themselves do not disable their button. A second call before the first
  is answered: both transactions are sent, neither is monitored, and the interface is idle.\<close>

theorem second_press_loses_both:
  "let ui = send_resolves ''b'' (send_resolves ''a'' (press ''b'' (press ''a'' TransactionProvider)))
   in current ui = Tx_Idle \<and> next_tx ui = 2 \<and> under_way ui = []"
proof -
  have "press ''b'' (press ''a'' TransactionProvider) =
      TransactionProvider\<lparr>current := Tx_WaitingForApproval ''b'', sending := [''a'', ''b'']\<rparr>" (is "?p = ?q")
    by (simp add: press_def set_approval TransactionProvider_def unmount_timer_def Let_def set_quiet effect_defs)
  moreover have "send_resolves ''a'' ?q = ?q\<lparr>current := Tx_WaitingForConfirmation ''a'' 0, sending := [''b''], next_tx := 1,
      monitors := [\<lparr>mo_id = ''a'', mo_tx = 0, mo_cancelled = False, mo_finished = False, mo_phase = AwaitingReceipt\<rparr>],
      mounted_monitor := Some 0\<rparr>" (is "_ = ?r")
    by (simp add: send_resolves_def set_confirmation [where j = "''b''"] TransactionProvider_def)
  moreover have "send_resolves ''b'' ?r = ?r\<lparr>current := Tx_Idle, sending := [], next_tx := 2, mounted_monitor := None,
      monitors := [\<lparr>mo_id = ''a'', mo_tx = 0, mo_cancelled = True, mo_finished = False, mo_phase = AwaitingReceipt\<rparr>,
        \<lparr>mo_id = ''b'', mo_tx = 1, mo_cancelled = True, mo_finished = False, mo_phase = AwaitingReceipt\<rparr>]\<rparr>"
    unfolding send_resolves_def
    by (subst set_again [where st' = Tx_Idle], simp add: effect_defs TransactionProvider_def)
      (subst set_again [where st' = Tx_Idle], simp add: effect_defs TransactionProvider_def,
       rule set_quiet, simp add: effect_defs TransactionProvider_def)
  ultimately show ?thesis by (simp add: under_way_def Let_def)
qed

end
