(* ===== verification/Augmented.thy ===== *)
theory Augmented
  imports Effects
begin

text \<open>
  The provider that listens for new blocks on a WebSocket and falls back to the base provider
  (\<^verbatim>\<open>providers/src/WebSocketAugmentedProvider.ts\<close>): opening, closing and reconnecting the socket, the listeners for
  blocks and receipts, and the timers between them. A socket is an object, given by its number, and so is a listener.
  The registrations of \<^verbatim>\<open>_blockListener\<close> with a provider are counted: \<^verbatim>\<open>on\<close> adds one and \<^verbatim>\<open>off\<close> removes at most one.
\<close>

section \<open>State\<close>

text \<open>What a listener is told: a block, or a receipt.\<close>

datatype delivery = NewBlock int | NewReceipt string

text \<open>The wrappers that \<^verbatim>\<open>_wrap\<close> makes: \<^verbatim>\<open>pass\<close>, \<^verbatim>\<open>passOnce\<close>, \<^verbatim>\<open>waitFor(fetchReceipt)\<close>, and \<^verbatim>\<open>sequence(waitFor(fetchReceipt), passOnce)\<close>.\<close>

datatype wrapper = Pass | PassOnce | WaitFor string | WaitForOnce string

record receipt_fetch =
  rf_hash :: string
  rf_latestBlock :: "int option"
  rf_listener :: nat
  rf_once :: bool

record augmented =
  wsProvider :: "nat option"
  wsParams :: "(string \<times> string) option"
  reconnectTimerId :: "nat option"
  seenBlock :: int
  blockListenerScheduled :: bool
  blockListeners :: "(nat \<times> wrapper) list"
  live_sockets :: "nat list"  \<comment> \<open>those not closed, with their \<^verbatim>\<open>onClose\<close>\<close>
  next_socket :: nat
  base_subs :: nat
  socket_subs :: "nat \<Rightarrow> nat"
  reconnect_timers :: "nat list"
  next_timer :: nat
  block_timers :: nat
  fetches :: "receipt_fetch list"
  deferred :: "(nat \<times> delivery) list"
  called :: "(nat \<times> delivery) list"

definition new_augmented :: augmented where
  "new_augmented = \<lparr>wsProvider = None, wsParams = None, reconnectTimerId = None, seenBlock = 0, blockListenerScheduled = False,
     blockListeners = [], live_sockets = [], next_socket = 0, base_subs = 0, socket_subs = (\<lambda>_. 0), reconnect_timers = [],
     next_timer = 0, block_timers = 0, fetches = [], deferred = [], called = []\<rparr>"

section \<open>Block events\<close>

definition startBlockEvents :: "augmented \<Rightarrow> augmented" where
  "startBlockEvents s =
     (case wsProvider s of
        Some k \<Rightarrow> s\<lparr>socket_subs := (socket_subs s)(k := socket_subs s k + 1)\<rparr>
      | None \<Rightarrow> s\<lparr>base_subs := base_subs s + 1\<rparr>)"

definition stopBlockEvents :: "augmented \<Rightarrow> augmented" where
  "stopBlockEvents s =
     (case wsProvider s of
        Some k \<Rightarrow> s\<lparr>socket_subs := (socket_subs s)(k := socket_subs s k - 1)\<rparr>
      | None \<Rightarrow> s\<lparr>base_subs := base_subs s - 1\<rparr>)"

definition switchover :: "augmented \<Rightarrow> augmented" where
  "switchover s =
     (if blockListeners s \<noteq> []
      then startBlockEvents (if wsProvider s \<noteq> None then s\<lparr>base_subs := base_subs s - 1\<rparr> else s)
      else s)"

definition onBlock :: "int \<Rightarrow> augmented \<Rightarrow> augmented" where
  "onBlock n s =
     (let s = s\<lparr>seenBlock := n\<rparr>
      in if blockListenerScheduled s then s
         else s\<lparr>blockListenerScheduled := True, block_timers := block_timers s + 1\<rparr>)"

section \<open>The socket\<close>

definition openWebSocket :: "string \<Rightarrow> string \<Rightarrow> augmented \<Rightarrow> augmented" where
  "openWebSocket url network s =
     switchover (s\<lparr>wsProvider := Some (next_socket s), live_sockets := live_sockets s @ [next_socket s],
       next_socket := next_socket s + 1, wsParams := Some (url, network)\<rparr>)"

definition closeWebSocket :: "augmented \<Rightarrow> augmented" where
  "closeWebSocket s =
     (case wsProvider s of
        None \<Rightarrow> s
      | Some k \<Rightarrow>
          (let s = switchover (s\<lparr>live_sockets := removeAll k (live_sockets s), wsProvider := None\<rparr>)
           in case reconnectTimerId s of
                None \<Rightarrow> s
              | Some t \<Rightarrow> s\<lparr>reconnect_timers := removeAll t (reconnect_timers s), reconnectTimerId := None\<rparr>))"

definition onWebSocketClose :: "augmented \<Rightarrow> augmented" where
  "onWebSocketClose s =
     (let s = closeWebSocket s
      in s\<lparr>reconnectTimerId := Some (next_timer s), reconnect_timers := reconnect_timers s @ [next_timer s],
           next_timer := next_timer s + 1\<rparr>)"

text \<open>A socket is closed by the other side.\<close>

definition socket_closes :: "nat \<Rightarrow> augmented \<Rightarrow> augmented" where
  "socket_closes k s = onWebSocketClose (s\<lparr>live_sockets := removeAll k (live_sockets s)\<rparr>)"

definition reconnect_fires :: "nat \<Rightarrow> augmented \<Rightarrow> augmented" where
  "reconnect_fires t s =
     (let s = s\<lparr>reconnect_timers := removeAll t (reconnect_timers s)\<rparr>
      in case wsParams s of None \<Rightarrow> s | Some (url, network) \<Rightarrow> openWebSocket url network s)"

section \<open>Listeners\<close>

definition has_listener :: "nat \<Rightarrow> augmented \<Rightarrow> bool" where
  "has_listener f s \<longleftrightarrow> f \<in> fst ` set (blockListeners s)"

definition removeMe :: "nat \<Rightarrow> augmented \<Rightarrow> augmented" where
  "removeMe f s = s\<lparr>blockListeners := filter (\<lambda>(g, _). g \<noteq> f) (blockListeners s)\<rparr>"

definition defer_call :: "nat \<Rightarrow> delivery \<Rightarrow> augmented \<Rightarrow> augmented" where
  "defer_call f d s = s\<lparr>deferred := deferred s @ [(f, d)]\<rparr>"

definition waitFor :: "nat \<Rightarrow> string \<Rightarrow> bool \<Rightarrow> int option \<Rightarrow> augmented \<Rightarrow> augmented" where
  "waitFor f hash once latestBlock s =
     s\<lparr>fetches := fetches s @ [\<lparr>rf_hash = hash, rf_latestBlock = latestBlock, rf_listener = f, rf_once = once\<rparr>]\<rparr>"

text \<open>A wrapped listener is called with a block.\<close>

fun call_wrapped :: "int \<Rightarrow> nat \<times> wrapper \<Rightarrow> augmented \<Rightarrow> augmented" where
  "call_wrapped n (f, Pass) s = defer_call f (NewBlock n) s"
| "call_wrapped n (f, PassOnce) s = removeMe f (defer_call f (NewBlock n) s)"
| "call_wrapped n (f, WaitFor hash) s = waitFor f hash False (Some n) s"
| "call_wrapped n (f, WaitForOnce hash) s = waitFor f hash True (Some n) s"

text \<open>The timer that \<open>onBlock\<close> has set.\<close>

definition block_timer_fires :: "augmented \<Rightarrow> augmented" where
  "block_timer_fires s =
     (let s = s\<lparr>blockListenerScheduled := False, block_timers := block_timers s - 1\<rparr>
      in fold (call_wrapped (seenBlock s)) (blockListeners s) s)"

text \<open>A fetch of \<open>waitFor\<close> is answered.\<close>

definition fetch_answered :: "nat \<Rightarrow> string option \<Rightarrow> augmented \<Rightarrow> augmented" where
  "fetch_answered i receipt s =
     (let q = fetches s ! i;
          s = s\<lparr>fetches := take i (fetches s) @ drop (Suc i) (fetches s)\<rparr>
      in case receipt of
           None \<Rightarrow> s
         | Some r \<Rightarrow>
             if has_listener (rf_listener q) s
             then let s = defer_call (rf_listener q) (NewReceipt r) s in if rf_once q then removeMe (rf_listener q) s else s
             else s)"

definition addBlockListener :: "nat \<Rightarrow> wrapper \<Rightarrow> augmented \<Rightarrow> augmented" where
  "addBlockListener f g s =
     (if has_listener f s then s
      else let s = s\<lparr>blockListeners := blockListeners s @ [(f, g)]\<rparr>
           in if length (blockListeners s) = 1 then startBlockEvents s else s)"

definition removeBlockListener :: "nat \<Rightarrow> augmented \<Rightarrow> augmented" where
  "removeBlockListener f s =
     (if has_listener f s
      then let s = removeMe f s in if blockListeners s = [] then stopBlockEvents s else s
      else s)"

text \<open>An event: blocks, or a transaction by its hash; the other events are those of the base provider.\<close>

datatype event_name = BlockEvent | TransactionHash string

fun on_event :: "event_name \<Rightarrow> nat \<Rightarrow> augmented \<Rightarrow> augmented" where
  "on_event BlockEvent f s = addBlockListener f Pass s"
| "on_event (TransactionHash h) f s = addBlockListener f (WaitFor h) (waitFor f h False None s)"

fun once_event :: "event_name \<Rightarrow> nat \<Rightarrow> augmented \<Rightarrow> augmented" where
  "once_event BlockEvent f s = addBlockListener f PassOnce s"
| "once_event (TransactionHash h) f s = addBlockListener f (WaitForOnce h) (waitFor f h True None s)"

definition off_event :: "nat \<Rightarrow> augmented \<Rightarrow> augmented" where
  "off_event f s = removeBlockListener f s"

text \<open>The callback of \<^verbatim>\<open>setTimeout(..., 0)\<close>.\<close>

definition deferred_runs :: "augmented \<Rightarrow> augmented" where
  "deferred_runs s =
     (case deferred s of [] \<Rightarrow> s | x # rest \<Rightarrow> s\<lparr>deferred := rest, called := called s @ [x]\<rparr>)"

section \<open>Runs\<close>

datatype aug_label =
    Opened string string
  | Closed
  | SocketClosed nat
  | Reconnected nat
  | BaseBlock int
  | SocketBlock nat int
  | BlockTimer
  | On event_name nat
  | Once event_name nat
  | Off nat
  | Fetched nat "string option"
  | DeferredRun

text \<open>Whether a step is possible: a provider reports blocks while \<^verbatim>\<open>_blockListener\<close> is registered with it. A socket is opened
  by the user only while there is none and none is about to be opened.\<close>

fun possible :: "aug_label \<Rightarrow> augmented \<Rightarrow> bool" where
  "possible (Opened _ _) s \<longleftrightarrow> wsProvider s = None \<and> reconnect_timers s = []"
| "possible (SocketClosed k) s \<longleftrightarrow> k \<in> set (live_sockets s)"
| "possible (Reconnected t) s \<longleftrightarrow> t \<in> set (reconnect_timers s)"
| "possible (BaseBlock _) s \<longleftrightarrow> 0 < base_subs s"
| "possible (SocketBlock k _) s \<longleftrightarrow> k \<in> set (live_sockets s) \<and> 0 < socket_subs s k"
| "possible BlockTimer s \<longleftrightarrow> 0 < block_timers s"
| "possible (Fetched i _) s \<longleftrightarrow> i < length (fetches s)"
| "possible DeferredRun s \<longleftrightarrow> deferred s \<noteq> []"
| "possible _ _ \<longleftrightarrow> True"

fun aug_step :: "aug_label \<Rightarrow> augmented \<Rightarrow> augmented" where
  "aug_step (Opened url network) s = openWebSocket url network s"
| "aug_step Closed s = closeWebSocket s"
| "aug_step (SocketClosed k) s = socket_closes k s"
| "aug_step (Reconnected t) s = reconnect_fires t s"
| "aug_step (BaseBlock n) s = onBlock n s"
| "aug_step (SocketBlock _ n) s = onBlock n s"
| "aug_step BlockTimer s = block_timer_fires s"
| "aug_step (On e f) s = on_event e f s"
| "aug_step (Once e f) s = once_event e f s"
| "aug_step (Off f) s = off_event f s"
| "aug_step (Fetched i r) s = fetch_answered i r s"
| "aug_step DeferredRun s = deferred_runs s"

inductive aug_run :: "aug_label list \<Rightarrow> augmented \<Rightarrow> bool" where
  aug_start: "aug_run [] new_augmented"
| aug_next: "aug_run ls s \<Longrightarrow> possible l s \<Longrightarrow> aug_run (ls @ [l]) (aug_step l s)"

end
