(* ===== verification/Augmented_Props.thy ===== *)
theory Augmented_Props
  imports Augmented
begin

text \<open>
  Properties of the provider with a WebSocket over all interleavings of its user, the socket, the base provider and the
  timers: listeners always hear of new blocks, and a listener added with \<^verbatim>\<open>once\<close> is called once.
\<close>

section \<open>What the operations change\<close>

fun told :: "int \<Rightarrow> nat \<times> wrapper \<Rightarrow> (nat \<times> delivery) list" where
  "told n (f, Pass) = [(f, NewBlock n)]"
| "told n (f, PassOnce) = [(f, NewBlock n)]"
| "told n _ = []"

fun asked :: "int \<Rightarrow> nat \<times> wrapper \<Rightarrow> receipt_fetch list" where
  "asked n (f, WaitFor h) = [\<lparr>rf_hash = h, rf_latestBlock = Some n, rf_listener = f, rf_once = False\<rparr>]"
| "asked n (f, WaitForOnce h) = [\<lparr>rf_hash = h, rf_latestBlock = Some n, rf_listener = f, rf_once = True\<rparr>]"
| "asked n _ = []"

lemma call_wrapped_eq:
  "call_wrapped n x s = s\<lparr>deferred := deferred s @ told n x, fetches := fetches s @ asked n x,
     blockListeners := filter (\<lambda>(g, _). (g, PassOnce) \<noteq> x) (blockListeners s)\<rparr>"
proof -
  obtain f g where x: "x = (f, g)" by force
  show ?thesis
    by (cases g) (simp_all add: x defer_call_def removeMe_def waitFor_def case_prod_unfold)
qed

lemma fold_call_wrapped:
  "fold (call_wrapped n) xs s = s\<lparr>deferred := deferred s @ concat (map (told n) xs), fetches := fetches s @ concat (map (asked n) xs),
     blockListeners := filter (\<lambda>(g, _). (g, PassOnce) \<notin> set xs) (blockListeners s)\<rparr>"
proof (induction xs arbitrary: s)
  case Nil
  show ?case by simp
next
  case (Cons x xs)
  have "filter (\<lambda>(g, _). (g, PassOnce) \<notin> set xs) (filter (\<lambda>(g, _). (g, PassOnce) \<noteq> x) ys)
      = filter (\<lambda>(g, _). (g, PassOnce) \<notin> set (x # xs)) ys" for ys :: "(nat \<times> wrapper) list"
    by (auto simp: case_prod_unfold intro!: filter_cong)
  then show ?case by (simp add: Cons.IH call_wrapped_eq [of n x s])
qed

lemma block_timer_fires_eq:
  "block_timer_fires s = s\<lparr>blockListenerScheduled := False, block_timers := block_timers s - 1,
     deferred := deferred s @ concat (map (told (seenBlock s)) (blockListeners s)),
     fetches := fetches s @ concat (map (asked (seenBlock s)) (blockListeners s)),
     blockListeners := filter (\<lambda>(g, _). (g, PassOnce) \<notin> set (blockListeners s)) (blockListeners s)\<rparr>"
  by (simp add: block_timer_fires_def fold_call_wrapped Let_def)

section \<open>Sources of blocks\<close>

text \<open>The registrations with the provider that is in use.\<close>

definition active_subs :: "augmented \<Rightarrow> nat" where
  "active_subs s = (case wsProvider s of None \<Rightarrow> base_subs s | Some k \<Rightarrow> socket_subs s k)"

definition aug_inv :: "augmented \<Rightarrow> bool" where
  "aug_inv s \<longleftrightarrow>
     distinct (map fst (blockListeners s)) \<and> (blockListeners s \<noteq> [] \<longrightarrow> 0 < active_subs s)
     \<and> block_timers s = (if blockListenerScheduled s then 1 else 0)
     \<and> live_sockets s = (case wsProvider s of None \<Rightarrow> [] | Some k \<Rightarrow> [k])
     \<and> (case wsProvider s of None \<Rightarrow> True | Some k \<Rightarrow> k < next_socket s \<and> reconnect_timers s = [])
     \<and> (reconnect_timers s = [] \<or> (wsParams s \<noteq> None \<and> (\<exists>t. reconnect_timers s = [t] \<and> reconnectTimerId s = Some t)))
     \<and> (wsProvider s \<noteq> None \<longrightarrow> wsParams s \<noteq> None)
     \<and> (\<forall>k\<ge>next_socket s. socket_subs s k = 0)"

lemmas source_defs = startBlockEvents_def stopBlockEvents_def switchover_def active_subs_def

lemma active_subs_start [simp]: "active_subs (startBlockEvents s) = active_subs s + 1"
  by (simp add: source_defs split: option.splits)

lemma inv_open: "aug_inv s \<Longrightarrow> wsProvider s = None \<Longrightarrow> reconnect_timers s = [] \<Longrightarrow> aug_inv (openWebSocket url network s)"
  by (auto simp: aug_inv_def openWebSocket_def source_defs)

lemma inv_close: "aug_inv s \<Longrightarrow> aug_inv (closeWebSocket s)"
  by (auto simp: aug_inv_def closeWebSocket_def source_defs Let_def split: option.splits)

lemma inv_socket_closes:
  assumes "aug_inv s" and "k \<in> set (live_sockets s)"
  shows "aug_inv (socket_closes k s)"
proof -
  have k: "wsProvider s = Some k" "live_sockets s = [k]"
    using assms by (auto simp: aug_inv_def split: option.splits)
  then show ?thesis
    using assms(1)
    by (auto simp: aug_inv_def socket_closes_def onWebSocketClose_def closeWebSocket_def source_defs Let_def split: option.splits)
qed

lemma inv_reconnect:
  assumes inv: "aug_inv s" and t: "t \<in> set (reconnect_timers s)"
  shows "aug_inv (reconnect_fires t s)"
proof -
  obtain url network where p: "wsParams s = Some (url, network)" "reconnect_timers s = [t]" "wsProvider s = None"
    using inv t by (auto simp: aug_inv_def split: option.splits)
  have "aug_inv (s\<lparr>reconnect_timers := []\<rparr>)"
    using inv p by (auto simp: aug_inv_def active_subs_def)
  then show ?thesis
    using p inv_open by (simp add: reconnect_fires_def Let_def)
qed

lemma inv_add: "aug_inv s \<Longrightarrow> aug_inv (addBlockListener f g s)"
  by (auto simp: aug_inv_def addBlockListener_def has_listener_def source_defs Let_def split: option.splits)

lemma inv_fewer:
  "aug_inv s \<Longrightarrow> aug_inv (s\<lparr>blockListeners := filter P (blockListeners s)\<rparr>)"
  by (auto simp: aug_inv_def active_subs_def distinct_map_filter split: option.splits)

lemma inv_remove: "aug_inv s \<Longrightarrow> aug_inv (removeBlockListener f s)"
  using inv_fewer [of s "\<lambda>(g, _). g \<noteq> f"]
  by (auto simp: removeBlockListener_def removeMe_def aug_inv_def source_defs Let_def split: option.splits)

lemma inv_other:
  "aug_inv s \<Longrightarrow> aug_inv (s\<lparr>fetches := x\<rparr>)" "aug_inv s \<Longrightarrow> aug_inv (s\<lparr>deferred := y\<rparr>)" "aug_inv s \<Longrightarrow> aug_inv (s\<lparr>called := z\<rparr>)"
  by (auto simp: aug_inv_def active_subs_def split: option.splits)

lemma inv_onBlock: "aug_inv s \<Longrightarrow> aug_inv (onBlock n s)"
  unfolding onBlock_def aug_inv_def active_subs_def by (cases "wsProvider s") (simp_all add: Let_def)

lemma inv_deferred_runs: "aug_inv s \<Longrightarrow> aug_inv (deferred_runs s)"
  by (cases "deferred s") (simp_all add: deferred_runs_def inv_other)

lemma inv_step: "aug_inv s \<Longrightarrow> possible l s \<Longrightarrow> aug_inv (aug_step l s)"
proof (cases l)
  case BlockTimer
  assume inv: "aug_inv s" and "possible l s"
  with BlockTimer have "blockListenerScheduled s" by (simp add: aug_inv_def split: if_splits)
  with inv have "aug_inv (s\<lparr>blockListenerScheduled := False, block_timers := block_timers s - 1\<rparr>)"
    by (auto simp: aug_inv_def active_subs_def split: option.splits)
  from inv_fewer [OF inv_other(1) [OF inv_other(2) [OF this]]] BlockTimer show ?thesis
    by (simp add: block_timer_fires_eq)
next
  case (On e f)
  assume inv: "aug_inv s"
  then show ?thesis using On by (cases e) (simp_all add: inv_add inv_other(1) waitFor_def)
next
  case (Once e f)
  assume inv: "aug_inv s"
  then show ?thesis using Once by (cases e) (simp_all add: inv_add inv_other(1) waitFor_def)
next
  case (Fetched i r)
  assume inv: "aug_inv s"
  let ?q = "fetches s ! i"
  have "aug_inv (removeMe f (defer_call f d s))" "aug_inv (defer_call f d s)" if "aug_inv s" for f d s
    using inv_fewer [OF inv_other(2) [OF that]] inv_other(2) [OF that] by (simp_all add: removeMe_def defer_call_def)
  then show ?thesis
    using Fetched inv_other(1) [OF inv] by (simp add: fetch_answered_def Let_def split: option.splits)
qed (simp_all add: inv_open inv_close inv_socket_closes inv_reconnect inv_remove off_event_def inv_onBlock inv_deferred_runs)

text \<open>Without \<^verbatim>\<open>once\<close>: exactly one registration, with the provider in use, while there are listeners.\<close>

fun is_once :: "wrapper \<Rightarrow> bool" where
  "is_once PassOnce \<longleftrightarrow> True"
| "is_once (WaitForOnce _) \<longleftrightarrow> True"
| "is_once _ \<longleftrightarrow> False"

definition exact :: "augmented \<Rightarrow> bool" where
  "exact s \<longleftrightarrow>
     base_subs s = (if wsProvider s = None \<and> blockListeners s \<noteq> [] then 1 else 0)
     \<and> active_subs s = (if blockListeners s = [] then 0 else 1)
     \<and> (\<forall>(f, g)\<in>set (blockListeners s). \<not> is_once g) \<and> (\<forall>q\<in>set (fetches s). \<not> rf_once q)"

lemma exact_open:
  "exact s \<Longrightarrow> aug_inv s \<Longrightarrow> wsProvider s = None \<Longrightarrow> exact (openWebSocket url network s)"
  by (auto simp: exact_def aug_inv_def openWebSocket_def source_defs)

lemma exact_close: "exact s \<Longrightarrow> exact (closeWebSocket s)"
  by (auto simp: exact_def closeWebSocket_def source_defs Let_def split: option.splits if_splits)

lemma exact_fields:
  "exact (s\<lparr>live_sockets := a\<rparr>) = exact s" "exact (s\<lparr>reconnect_timers := b\<rparr>) = exact s"
  "exact (s\<lparr>reconnectTimerId := c\<rparr>) = exact s" "exact (s\<lparr>next_timer := d\<rparr>) = exact s"
  "exact (s\<lparr>deferred := e\<rparr>) = exact s" "exact (s\<lparr>called := f\<rparr>) = exact s" "exact (s\<lparr>seenBlock := g\<rparr>) = exact s"
  "exact (s\<lparr>block_timers := h\<rparr>) = exact s" "exact (s\<lparr>blockListenerScheduled := i\<rparr>) = exact s"
  by (simp_all add: exact_def active_subs_def split: option.splits)

lemma exact_add: "exact s \<Longrightarrow> \<not> is_once g \<Longrightarrow> exact (addBlockListener f g s)"
  by (auto simp: exact_def addBlockListener_def has_listener_def source_defs Let_def split: option.splits if_splits)

lemma exact_remove: "exact s \<Longrightarrow> exact (removeBlockListener f s)"
  by (auto simp: exact_def removeBlockListener_def has_listener_def removeMe_def source_defs Let_def split: option.splits if_splits)

lemma exact_waitFor: "exact s \<Longrightarrow> exact (waitFor f h False n s)"
  by (auto simp: exact_def waitFor_def active_subs_def split: option.splits)

lemma told_asked_once: "q \<in> set (asked n x) \<Longrightarrow> \<not> is_once (snd x) \<Longrightarrow> \<not> rf_once q"
  by (cases x; cases "snd x") auto

lemma exact_timer: "exact s \<Longrightarrow> exact (block_timer_fires s)"
proof -
  assume ex: "exact s"
  have keep: "filter (\<lambda>(g, _). (g, PassOnce) \<notin> set (blockListeners s)) (blockListeners s) = blockListeners s"
    using ex by (auto simp: exact_def filter_id_conv)
  have "\<not> rf_once q" if "q \<in> set (concat (map (asked (seenBlock s)) (blockListeners s)))" for q
    using that ex told_asked_once by (fastforce simp: exact_def)
  then show ?thesis
    using ex unfolding block_timer_fires_eq keep by (auto simp: exact_def active_subs_def split: option.splits)
qed

lemma exact_fetched: "exact s \<Longrightarrow> i < length (fetches s) \<Longrightarrow> exact (fetch_answered i r s)"
proof -
  assume ex: "exact s" and i: "i < length (fetches s)"
  have "\<not> rf_once (fetches s ! i)" using ex i by (auto simp: exact_def)
  moreover have "exact (s\<lparr>fetches := take i (fetches s) @ drop (Suc i) (fetches s)\<rparr>)"
    using ex by (auto simp: exact_def active_subs_def dest: in_set_takeD in_set_dropD split: option.splits)
  ultimately show ?thesis
    by (simp add: fetch_answered_def defer_call_def exact_fields Let_def split: option.splits)
qed

lemma exact_step:
  assumes "exact s" and "aug_inv s" and "possible l s" and "\<And>e f. l \<noteq> Once e f"
  shows "exact (aug_step l s)"
proof (cases l)
  case (Reconnected t)
  then have "wsProvider s = None" "aug_inv (s\<lparr>reconnect_timers := []\<rparr>)" "removeAll t (reconnect_timers s) = []"
    using assms(2,3) by (auto simp: aug_inv_def active_subs_def split: option.splits)
  then show ?thesis
    using Reconnected assms(1) by (auto simp: reconnect_fires_def Let_def exact_open exact_fields split: option.splits)
next
  case (On e f)
  then show ?thesis using assms(1) by (cases e) (simp_all add: exact_add exact_waitFor)
next
  case (Once e f)
  then show ?thesis using assms(4) by blast
qed (use assms in \<open>auto simp: exact_open exact_close exact_remove exact_timer exact_fetched exact_fields socket_closes_def
    onWebSocketClose_def off_event_def deferred_runs_def onBlock_def Let_def split: list.splits\<close>)

section \<open>Listeners added with \<^verbatim>\<open>once\<close>\<close>

lemma has_listener_iff: "has_listener f s \<longleftrightarrow> (\<exists>g. (f, g) \<in> set (blockListeners s))"
  by (force simp: has_listener_def)

definition calls_of :: "nat \<Rightarrow> augmented \<Rightarrow> nat" where
  "calls_of f s = length (filter (\<lambda>x. fst x = f) (called s @ deferred s))"

fun adds_once :: "nat \<Rightarrow> aug_label \<Rightarrow> bool" where
  "adds_once f (Once _ g) \<longleftrightarrow> g = f"
| "adds_once f _ \<longleftrightarrow> False"

text \<open>The calls of a listener that is only ever added with \<^verbatim>\<open>once\<close>, together with the one it waits for, are at most \<open>m\<close>.\<close>

definition once_inv :: "nat \<Rightarrow> nat \<Rightarrow> augmented \<Rightarrow> bool" where
  "once_inv f m s \<longleftrightarrow>
     calls_of f s + (if has_listener f s then 1 else 0) \<le> m
     \<and> (\<forall>g. (f, g) \<in> set (blockListeners s) \<longrightarrow> is_once g) \<and> (\<forall>q\<in>set (fetches s). rf_listener q = f \<longrightarrow> rf_once q)"

lemma once_inv_cong:
  assumes "once_inv f m s" and "called s' @ deferred s' = called s @ deferred s" and "blockListeners s' = blockListeners s"
    and "fetches s' = fetches s"
  shows "once_inv f m s'"
  using assms by (simp add: once_inv_def calls_of_def has_listener_iff)

lemma sources_keep [simp]:
  "called (startBlockEvents s) = called s" "deferred (startBlockEvents s) = deferred s"
  "blockListeners (startBlockEvents s) = blockListeners s" "fetches (startBlockEvents s) = fetches s"
  "called (stopBlockEvents s) = called s" "deferred (stopBlockEvents s) = deferred s"
  "blockListeners (stopBlockEvents s) = blockListeners s" "fetches (stopBlockEvents s) = fetches s"
  "called (switchover s) = called s" "deferred (switchover s) = deferred s"
  "blockListeners (switchover s) = blockListeners s" "fetches (switchover s) = fetches s"
  "called (openWebSocket u w s) = called s" "deferred (openWebSocket u w s) = deferred s"
  "blockListeners (openWebSocket u w s) = blockListeners s" "fetches (openWebSocket u w s) = fetches s"
  "called (closeWebSocket s) = called s" "deferred (closeWebSocket s) = deferred s"
  "blockListeners (closeWebSocket s) = blockListeners s" "fetches (closeWebSocket s) = fetches s"
  by (simp_all add: startBlockEvents_def stopBlockEvents_def switchover_def openWebSocket_def closeWebSocket_def Let_def split: option.splits)

lemma once_waitFor: "once_inv f m s \<Longrightarrow> (g = f \<Longrightarrow> once) \<Longrightarrow> once_inv f m (waitFor g h once n s)"
  by (auto simp: once_inv_def waitFor_def calls_of_def has_listener_iff)

lemma once_add_other: "once_inv f m s \<Longrightarrow> g \<noteq> f \<Longrightarrow> once_inv f m (addBlockListener g w s)"
  by (auto simp: once_inv_def addBlockListener_def calls_of_def has_listener_iff Let_def split: if_splits)

lemma once_add: "once_inv f m s \<Longrightarrow> is_once w \<Longrightarrow> once_inv f (Suc m) (addBlockListener f w s)"
  by (auto simp: once_inv_def addBlockListener_def calls_of_def has_listener_iff Let_def split: if_splits)

lemma once_remove: "once_inv f m s \<Longrightarrow> once_inv f m (removeBlockListener g s)"
  by (auto simp: once_inv_def removeBlockListener_def removeMe_def calls_of_def has_listener_iff Let_def split: if_splits)

lemma told_once:
  "distinct (map fst xs) \<Longrightarrow> (\<And>g. (f, g) \<in> set xs \<Longrightarrow> is_once g) \<Longrightarrow>
   length (filter (\<lambda>x. fst x = f) (concat (map (told n) xs))) = (if (f, PassOnce) \<in> set xs then 1 else 0)"
proof (induction xs)
  case (Cons x xs)
  obtain h w where x: "x = (h, w)" by force
  have "(f, PassOnce) \<notin> set xs" if "h = f" using Cons.prems(1) that by (force simp: x)
  moreover have "w \<noteq> Pass" if "h = f" using Cons.prems(2) [of w] that by (auto simp: x)
  ultimately show ?case
    using Cons by (cases w) (auto simp: x)
qed simp

lemma once_timer: "once_inv f m s \<Longrightarrow> distinct (map fst (blockListeners s)) \<Longrightarrow> once_inv f m (block_timer_fires s)"
proof -
  assume o: "once_inv f m s" and d: "distinct (map fst (blockListeners s))"
  let ?s = "block_timer_fires s"
  have "calls_of f ?s = calls_of f s + (if (f, PassOnce) \<in> set (blockListeners s) then 1 else 0)"
    using told_once [OF d, of f "seenBlock s"] o by (simp add: calls_of_def block_timer_fires_eq once_inv_def)
  moreover have "has_listener f ?s \<Longrightarrow> has_listener f s \<and> (f, PassOnce) \<notin> set (blockListeners s)"
    "(f, PassOnce) \<in> set (blockListeners s) \<Longrightarrow> has_listener f s"
    by (auto simp: has_listener_iff block_timer_fires_eq)
  moreover have "rf_once q" if "q \<in> set (asked n x)" "rf_listener q = f" "x \<in> set (blockListeners s)" for q n x
    using that o by (cases x; cases "snd x") (auto simp: once_inv_def)
  ultimately show ?thesis
    using o by (auto simp: once_inv_def block_timer_fires_eq split: if_splits)
qed

lemma once_fetched: "once_inv f m s \<Longrightarrow> i < length (fetches s) \<Longrightarrow> once_inv f m (fetch_answered i r s)"
proof -
  assume o: "once_inv f m s" and i: "i < length (fetches s)"
  let ?s = "s\<lparr>fetches := take i (fetches s) @ drop (Suc i) (fetches s)\<rparr>" and ?q = "fetches s ! i"
  have o': "once_inv f m ?s"
    using o by (auto simp: once_inv_def calls_of_def has_listener_iff dest: in_set_takeD in_set_dropD)
  have q: "rf_once ?q" if "rf_listener ?q = f" using o i that by (simp add: once_inv_def)
  have other: "once_inv f m (defer_call g d t)" "once_inv f m (removeMe g t)" if "once_inv f m t" "g \<noteq> f" for g d t
    using that by (auto simp: once_inv_def defer_call_def removeMe_def calls_of_def has_listener_iff split: if_splits)
  have mine: "once_inv f m (removeMe f (defer_call f d ?s))" if "has_listener f ?s" for d
    using o' that by (auto simp: once_inv_def defer_call_def removeMe_def calls_of_def has_listener_iff)
  show ?thesis
    using o' q mine other by (cases "rf_listener ?q = f") (auto simp: fetch_answered_def Let_def split: option.splits)
qed

lemma once_step:
  assumes o: "once_inv f m s" and inv: "aug_inv s" and "possible l s" and "\<And>e. l \<noteq> On e f"
  shows "once_inv f (m + (if adds_once f l then 1 else 0)) (aug_step l s)"
proof (cases l)
  case (On e g)
  then have "g \<noteq> f" using assms(4) by blast
  then show ?thesis using On o by (cases e) (simp_all add: once_add_other once_waitFor)
next
  case (Once e g)
  show ?thesis
  proof (cases "g = f")
    case True
    then show ?thesis using Once o by (cases e) (simp_all add: once_add once_waitFor)
  next
    case False
    then show ?thesis using Once o by (cases e) (simp_all add: once_add_other once_waitFor)
  qed
next
  case (Reconnected t)
  then show ?thesis
    using once_inv_cong [OF o, of "reconnect_fires t s"] by (simp add: reconnect_fires_def Let_def split: option.splits)
next
  case DeferredRun
  then show ?thesis
    using once_inv_cong [OF o, of "deferred_runs s"] by (simp add: deferred_runs_def split: list.splits)
next
  case BlockTimer
  then show ?thesis using o inv once_timer by (simp add: aug_inv_def)
next
  case (Fetched i r)
  then show ?thesis using o assms(3) once_fetched by simp
next
  case (Off g)
  then show ?thesis using o once_remove by (simp add: off_event_def)
qed (use once_inv_cong [OF o, of "aug_step l s"] in \<open>simp_all add: socket_closes_def onWebSocketClose_def onBlock_def Let_def\<close>)

section \<open>All runs\<close>

lemma run_inv: "aug_run ls s \<Longrightarrow> aug_inv s"
proof (induction rule: aug_run.induct)
  case aug_start
  show ?case by (simp add: aug_inv_def new_augmented_def active_subs_def)
next
  case (aug_next ls s l)
  then show ?case by (simp add: inv_step)
qed

lemma run_exact: "aug_run ls s \<Longrightarrow> \<forall>e f. Once e f \<notin> set ls \<Longrightarrow> exact s"
proof (induction rule: aug_run.induct)
  case aug_start
  show ?case by (simp add: exact_def new_augmented_def active_subs_def)
next
  case (aug_next ls s l)
  then show ?case using exact_step [of s l] run_inv by auto
qed

lemma run_once: "aug_run ls s \<Longrightarrow> \<forall>e. On e f \<notin> set ls \<Longrightarrow> once_inv f (length (filter (adds_once f) ls)) s"
proof (induction rule: aug_run.induct)
  case aug_start
  show ?case by (simp add: once_inv_def new_augmented_def calls_of_def has_listener_def)
next
  case (aug_next ls s l)
  have "\<And>e. l \<noteq> On e f" using aug_next.prems by auto
  then show ?case
    using once_step [of f "length (filter (adds_once f) ls)" s l] aug_next run_inv [of ls s] by auto
qed

text \<open>C26: however the user, the socket and the timers interleave, when a socket is opened only while there is none: while
  there are listeners, the block listener is registered with the provider in use, and, unless \<^verbatim>\<open>once\<close> was used, once and with no
  other; at most one timer for blocks is pending, and when it fires every block listener is told the last block seen;
  only the socket in use is live, and the timer that reconnects is pending only while there is none; a listener that is
  only added with \<^verbatim>\<open>once\<close> is called at most as often as it was added.\<close>

theorem listeners_hear_blocks:
  assumes "aug_run ls s"
  shows "(blockListeners s \<noteq> [] \<longrightarrow> 0 < active_subs s)
    \<and> ((\<forall>e f. Once e f \<notin> set ls) \<longrightarrow> active_subs s = (if blockListeners s = [] then 0 else 1) \<and> (wsProvider s \<noteq> None \<longrightarrow> base_subs s = 0))
    \<and> block_timers s = (if blockListenerScheduled s then 1 else 0)
    \<and> (\<forall>f g. (f, g) \<in> set (blockListeners s) \<and> (g = Pass \<or> g = PassOnce) \<longrightarrow>
         (f, NewBlock (seenBlock s)) \<in> set (deferred (block_timer_fires s)))
    \<and> live_sockets s = (case wsProvider s of None \<Rightarrow> [] | Some k \<Rightarrow> [k])
    \<and> length (reconnect_timers s) \<le> (case wsProvider s of None \<Rightarrow> 1 | Some k \<Rightarrow> 0)
    \<and> (\<forall>f. (\<forall>e. On e f \<notin> set ls) \<longrightarrow> length (filter (\<lambda>x. fst x = f) (called s)) \<le> length (filter (adds_once f) ls))"
proof -
  have inv: "aug_inv s" by (rule run_inv [OF assms])
  have "active_subs s = (if blockListeners s = [] then 0 else 1) \<and> (wsProvider s \<noteq> None \<longrightarrow> base_subs s = 0)"
    if "\<forall>e f. Once e f \<notin> set ls"
    using run_exact [OF assms that] by (simp add: exact_def)
  moreover have "(f, NewBlock (seenBlock s)) \<in> set (deferred (block_timer_fires s))"
    if "(f, g) \<in> set (blockListeners s)" "g = Pass \<or> g = PassOnce" for f g
    using that by (force simp: block_timer_fires_eq)
  moreover have "length (filter (\<lambda>x. fst x = f) (called s)) \<le> length (filter (adds_once f) ls)" if "\<forall>e. On e f \<notin> set ls" for f
    using run_once [OF assms that] by (simp add: once_inv_def calls_of_def)
  moreover have "length (reconnect_timers s) \<le> (case wsProvider s of None \<Rightarrow> 1 | Some k \<Rightarrow> 0)"
    using inv by (auto simp: aug_inv_def split: option.splits)
  ultimately show ?thesis using inv by (auto simp: aug_inv_def)
qed

lemmas aug_eval = new_augmented_def openWebSocket_def closeWebSocket_def socket_closes_def onWebSocketClose_def reconnect_fires_def
  switchover_def startBlockEvents_def stopBlockEvents_def addBlockListener_def removeBlockListener_def has_listener_def removeMe_def
  onBlock_def block_timer_fires_eq off_event_def deferred_runs_def

text \<open>Running a list of steps that are possible.\<close>

fun all_possible :: "aug_label list \<Rightarrow> augmented \<Rightarrow> bool" where
  "all_possible [] s \<longleftrightarrow> True"
| "all_possible (l # ls) s \<longleftrightarrow> possible l s \<and> all_possible ls (aug_step l s)"

lemma run_all: "aug_run ks s \<Longrightarrow> all_possible ls s \<Longrightarrow> aug_run (ks @ ls) (fold aug_step ls s)"
proof (induction ls arbitrary: ks s)
  case (Cons l ls)
  then have "aug_run ((ks @ [l]) @ ls) (fold aug_step ls (aug_step l s))"
    by (intro Cons.IH aug_next) simp_all
  then show ?case by simp
qed simp

definition switching :: "aug_label list" where
  "switching = [On BlockEvent 7, Opened ''ws'' ''net'', SocketBlock 0 12, SocketClosed 0, BlockTimer, DeferredRun, Reconnected 0]"

theorem listeners_hear_blocks_witness:
  "active_subs (fold aug_step switching new_augmented) = 1 \<and> base_subs (fold aug_step switching new_augmented) = 0
    \<and> live_sockets (fold aug_step switching new_augmented) = [1] \<and> called (fold aug_step switching new_augmented) = [(7, NewBlock 12)]"
proof -
  have "all_possible switching new_augmented"
    by (simp add: switching_def aug_eval)
  from run_all [OF aug_start this]
  have run: "aug_run switching (fold aug_step switching new_augmented)" by simp
  have "wsProvider (fold aug_step switching new_augmented) = Some 1" "blockListeners (fold aug_step switching new_augmented) \<noteq> []"
    "called (fold aug_step switching new_augmented) = [(7, NewBlock 12)]" "\<forall>e f. Once e f \<notin> set switching"
    by (simp_all add: switching_def aug_eval)
  with listeners_hear_blocks [OF run] show ?thesis by simp
qed

text \<open>Closing the socket while it is to be reconnected does not stop the timer: the socket is opened again.\<close>

theorem closed_socket_reopens:
  "\<exists>s. aug_run [Opened ''ws'' ''net'', SocketClosed 0, Closed, Reconnected 0] s \<and> wsProvider s = Some 1"
proof -
  let ?ls = "[Opened ''ws'' ''net'', SocketClosed 0, Closed, Reconnected 0]"
  have "all_possible ?ls new_augmented" "wsProvider (fold aug_step ?ls new_augmented) = Some 1"
    by (simp_all add: aug_eval)
  with run_all [OF aug_start, of ?ls] show ?thesis by force
qed

text \<open>A listener that \<^verbatim>\<open>once\<close> removes leaves the registration behind: there is one more after each use, and they remain when the
  last listener is removed.\<close>

theorem once_leaves_registration:
  "\<exists>s. aug_run [Once BlockEvent 1, BaseBlock 5, BlockTimer, Once BlockEvent 1, BaseBlock 6, BlockTimer, On BlockEvent 2, Off 2] s
     \<and> blockListeners s = [] \<and> base_subs s = 2"
proof -
  let ?ls = "[Once BlockEvent 1, BaseBlock 5, BlockTimer, Once BlockEvent 1, BaseBlock 6, BlockTimer, On BlockEvent 2, Off 2]"
  have "all_possible ?ls new_augmented" "blockListeners (fold aug_step ?ls new_augmented) = []"
    "base_subs (fold aug_step ?ls new_augmented) = 2"
    by (simp_all add: aug_eval)
  with run_all [OF aug_start, of ?ls] show ?thesis by force
qed

end
