(* ===== verification/Augmented_Reads.thy ===== *)
theory Augmented_Reads
  imports Effects JsError
begin

text \<open>
  The requests of the provider with a WebSocket (\<^verbatim>\<open>providers/src/WebSocketAugmentedProvider.ts\<close>): each goes to the socket
  when it is ready and otherwise to the base provider; those for the last block seen are repeated while a node behind a
  load balancer does not know the block yet; and \<^verbatim>\<open>waitForTransaction\<close> waits for confirmations. The two providers and the
  passing of time are parameters. A loop may run forever, which is the value \<open>None\<close>.
\<close>

section \<open>Providers\<close>

datatype block_tag = BlockNumber int | BlockName string

record tx_receipt =
  rc_blockNumber :: int
  rc_confirmations :: int

record 'w backend =
  be_call :: "string \<Rightarrow> block_tag option \<Rightarrow> ('w, string) io"
  be_getBalance :: "string \<Rightarrow> block_tag option \<Rightarrow> ('w, int) io"
  be_getTransaction :: "string \<Rightarrow> ('w, string option) io"
  be_getTransactionReceipt :: "string \<Rightarrow> ('w, tx_receipt option) io"
  be_getTransactionCount :: "string \<Rightarrow> block_tag option \<Rightarrow> ('w, int) io"
  be_getBlock :: "block_tag \<Rightarrow> ('w, string list option) io"  \<comment> \<open>the hashes of its transactions\<close>
  be_waitForTransaction :: "string \<Rightarrow> int option \<Rightarrow> int \<Rightarrow> ('w, tx_receipt) io"

text \<open>The environment: \<^verbatim>\<open>_wsProvider?.isReady\<close>, \<^verbatim>\<open>_seenBlock\<close>, which of two requests is answered first, \<^verbatim>\<open>delay\<close>, and the block that
  \<^verbatim>\<open>once("block", ...)\<close> waits for.\<close>

record 'w aug_env =
  base_provider :: "'w backend"
  socket_provider :: "'w backend"
  isReady :: "'w \<Rightarrow> bool"
  seen :: "'w \<Rightarrow> int"
  socket_first :: "'w \<Rightarrow> bool"
  delay :: "'w \<Rightarrow> 'w"
  next_block :: "('w, int) io"

definition provider_of :: "'w aug_env \<Rightarrow> 'w \<Rightarrow> 'w backend" where
  "provider_of env w = (if isReady env w then socket_provider env else base_provider env)"

definition isHeaderNotFoundError :: "js_error \<Rightarrow> bool" where
  "isHeaderNotFoundError err \<longleftrightarrow>
     message_includes err ''header not found''
     \<or> message_includes err ''request is not supported because your node is running with state pruning''"

section \<open>Reads\<close>

partial_function (option) retrySeenBlock :: "'w aug_env \<Rightarrow> ('w, 'a) io \<Rightarrow> int \<Rightarrow> 'w \<Rightarrow> ('a res \<times> 'w) option" where
  "retrySeenBlock env perform startingBlock w =
     (case perform w of
        (Inr ret, w') \<Rightarrow> Some (Inr ret, w')
      | (Inl err, w') \<Rightarrow>
          if seen env w' \<noteq> startingBlock \<or> \<not> isHeaderNotFoundError err then Some (Inl err, w')
          else retrySeenBlock env perform startingBlock (delay env w'))"

definition read_at :: "'w aug_env \<Rightarrow> ('w, 'a) io \<Rightarrow> block_tag option \<Rightarrow> 'w \<Rightarrow> ('a res \<times> 'w) option" where
  "read_at env perform resolvedBlockTag w =
     (if resolvedBlockTag = Some (BlockNumber (seen env w)) then retrySeenBlock env perform (seen env w) w
      else Some (perform w))"

definition aug_call :: "'w aug_env \<Rightarrow> string \<Rightarrow> block_tag option \<Rightarrow> 'w \<Rightarrow> (string res \<times> 'w) option" where
  "aug_call env tx tag = read_at env (\<lambda>w. be_call (provider_of env w) tx tag w) tag"

definition aug_getBalance :: "'w aug_env \<Rightarrow> string \<Rightarrow> block_tag option \<Rightarrow> 'w \<Rightarrow> (int res \<times> 'w) option" where
  "aug_getBalance env a tag = read_at env (\<lambda>w. be_getBalance (provider_of env w) a tag w) tag"

definition aug_getTransactionReceipt :: "'w aug_env \<Rightarrow> string \<Rightarrow> ('w, tx_receipt option) io" where
  "aug_getTransactionReceipt env h = (\<lambda>w. be_getTransactionReceipt (provider_of env w) h w)"

definition aug_getTransactionCount :: "'w aug_env \<Rightarrow> string \<Rightarrow> block_tag option \<Rightarrow> ('w, int) io" where
  "aug_getTransactionCount env a tag = (\<lambda>w. be_getTransactionCount (provider_of env w) a tag w)"

definition aug_getBlock :: "'w aug_env \<Rightarrow> block_tag \<Rightarrow> ('w, string list option) io" where
  "aug_getBlock env tag = (\<lambda>w. be_getBlock (provider_of env w) tag w)"

text \<open>\<^verbatim>\<open>Promise.race\<close>, and \<^verbatim>\<open>Promise.all\<close> when the first answer is null; a rejection is thrown.\<close>

definition aug_getTransaction :: "'w aug_env \<Rightarrow> string \<Rightarrow> ('w, string option) io" where
  "aug_getTransaction env h w =
     (let (base, w1) = be_getTransaction (base_provider env) h w
      in if isReady env w then
           let (socket, w2) = be_getTransaction (socket_provider env) h w1
           in (bind_res (if socket_first env w2 then socket else base) (\<lambda>first.
               case first of
                 Some t \<Rightarrow> Inr (Some t)
               | None \<Rightarrow> bind_res base (\<lambda>b. bind_res socket (\<lambda>s. Inr (case b of Some t \<Rightarrow> Some t | None \<Rightarrow> s)))), w2)
         else (base, w1))"

section \<open>Waiting for a transaction\<close>

partial_function (option) blockContainsTx :: "'w aug_env \<Rightarrow> int \<Rightarrow> string \<Rightarrow> 'w \<Rightarrow> (bool res \<times> 'w) option" where
  "blockContainsTx env blockNumber txHash w =
     (case aug_getBlock env (BlockNumber blockNumber) (delay env w) of
        (Inl err, w') \<Rightarrow> Some (Inl err, w')
      | (Inr block, w') \<Rightarrow>
          (case block of
             None \<Rightarrow> blockContainsTx env blockNumber txHash w'
           | Some transactions \<Rightarrow> Some (Inr (txHash \<in> set transactions), w')))"

partial_function (option) getTransactionReceiptFromLatest ::
  "'w aug_env \<Rightarrow> string \<Rightarrow> int option \<Rightarrow> 'w \<Rightarrow> (tx_receipt option res \<times> 'w) option" where
  "getTransactionReceiptFromLatest env txHash latestBlock w =
     (case aug_getTransactionReceipt env txHash w of
        (Inl err, w') \<Rightarrow> Some (Inl err, w')
      | (Inr receipt, w') \<Rightarrow>
          (case latestBlock of
             None \<Rightarrow> Some (Inr receipt, w')
           | Some latest \<Rightarrow>
               (case receipt of
                  None \<Rightarrow>
                    (case blockContainsTx env latest txHash w' of
                       None \<Rightarrow> None
                     | Some r \<Rightarrow>
                         (case r of
                            (Inl err, w2) \<Rightarrow> Some (Inl err, w2)
                          | (Inr inBlock, w2) \<Rightarrow>
                              if inBlock then getTransactionReceiptFromLatest env txHash latestBlock (delay env w2)
                              else Some (Inr None, w2)))
                | Some rc \<Rightarrow>
                    if latest \<le> rc_blockNumber rc + rc_confirmations rc - 1 then Some (Inr receipt, w')
                    else getTransactionReceiptFromLatest env txHash latestBlock (delay env w'))))"

definition enough :: "int option \<Rightarrow> tx_receipt \<Rightarrow> bool" where
  "enough confirmations rc \<longleftrightarrow> (case confirmations of None \<Rightarrow> True | Some n \<Rightarrow> n \<le> rc_confirmations rc)"

partial_function (option) wait_loop ::
  "'w aug_env \<Rightarrow> string \<Rightarrow> int option \<Rightarrow> int option \<Rightarrow> 'w \<Rightarrow> (tx_receipt res \<times> 'w) option" where
  "wait_loop env txHash confirmations latestBlock w =
     (case getTransactionReceiptFromLatest env txHash latestBlock w of
        None \<Rightarrow> None
      | Some r \<Rightarrow>
          (case r of
             (Inl err, w') \<Rightarrow> Some (Inl err, w')
           | (Inr receipt, w') \<Rightarrow>
               if (case receipt of None \<Rightarrow> False | Some rc \<Rightarrow> enough confirmations rc) then Some (Inr (the receipt), w')
               else (case next_block env w' of
                       (Inl err, w2) \<Rightarrow> Some (Inl err, w2)
                     | (Inr latest, w2) \<Rightarrow> wait_loop env txHash confirmations (Some latest) w2)))"

definition aug_waitForTransaction ::
  "'w aug_env \<Rightarrow> string \<Rightarrow> int option \<Rightarrow> int option \<Rightarrow> 'w \<Rightarrow> (tx_receipt res \<times> 'w) option" where
  "aug_waitForTransaction env txHash confirmations timeout w =
     (case timeout of
        Some t \<Rightarrow> Some (be_waitForTransaction (base_provider env) txHash confirmations t w)
      | None \<Rightarrow> wait_loop env txHash confirmations None w)"

section \<open>Repeated reads\<close>

text \<open>The node asked does not know the block, and it is still the last one seen.\<close>

definition glitch :: "'w aug_env \<Rightarrow> ('w, 'a) io \<Rightarrow> int \<Rightarrow> 'w \<Rightarrow> bool" where
  "glitch env perform start w \<longleftrightarrow>
     (case perform w of (Inl err, w') \<Rightarrow> isHeaderNotFoundError err \<and> seen env w' = start | (Inr _, _) \<Rightarrow> False)"

fun attempt :: "'w aug_env \<Rightarrow> ('w, 'a) io \<Rightarrow> nat \<Rightarrow> 'w \<Rightarrow> 'w" where
  "attempt env perform 0 w = w"
| "attempt env perform (Suc n) w = attempt env perform n (delay env (snd (perform w)))"

lemma retry_step:
  "retrySeenBlock env perform start w =
     (if glitch env perform start w then retrySeenBlock env perform start (delay env (snd (perform w))) else Some (perform w))"
  by (subst retrySeenBlock.simps) (auto simp: glitch_def split: prod.splits sum.splits)

lemma retry_ends:
  "(\<And>m. m < n \<Longrightarrow> glitch env perform start (attempt env perform m w)) \<Longrightarrow> \<not> glitch env perform start (attempt env perform n w) \<Longrightarrow>
   retrySeenBlock env perform start w = Some (perform (attempt env perform n w))"
proof (induction n arbitrary: w)
  case 0
  then show ?case by (simp add: retry_step [of env perform start w])
next
  case (Suc n)
  have "glitch env perform start w" using Suc.prems(1) [of 0] by simp
  then show ?case
    using Suc.IH [of "delay env (snd (perform w))"] Suc.prems(1) [of "Suc m" for m] Suc.prems(2)
    by (simp add: retry_step [of env perform start w])
qed

definition first_without :: "'w aug_env \<Rightarrow> ('w, 'a) io \<Rightarrow> int \<Rightarrow> 'w \<Rightarrow> nat \<Rightarrow> bool" where
  "first_without env perform start w n \<longleftrightarrow>
     \<not> glitch env perform start (attempt env perform n w) \<and> (\<forall>m<n. glitch env perform start (attempt env perform m w))"

lemma retry_returns:
  assumes "retrySeenBlock env perform start w = Some r"
  shows "\<exists>n. first_without env perform start w n \<and> r = perform (attempt env perform n w)"
proof (rule retrySeenBlock.raw_induct [OF _ assms])
  fix self :: "'b aug_env \<Rightarrow> ('b, 'a) io \<Rightarrow> int \<Rightarrow> 'b \<Rightarrow> ('a res \<times> 'b) option" and env :: "'b aug_env" and perform :: "('b, 'a) io" and start w r
  assume IH: "\<And>env perform start w r. self env perform start w = Some r \<Longrightarrow>
      \<exists>n. first_without env perform start w n \<and> r = perform (attempt env perform n w)"
    and body: "(case perform w of (Inl err, w') \<Rightarrow>
        if seen env w' \<noteq> start \<or> \<not> isHeaderNotFoundError err then Some (Inl err, w') else self env perform start (delay env w')
      | (Inr ret, w') \<Rightarrow> Some (Inr ret, w')) = Some r"
  show "\<exists>n. first_without env perform start w n \<and> r = perform (attempt env perform n w)"
  proof (cases "glitch env perform start w")
    case True
    then have "self env perform start (delay env (snd (perform w))) = Some r"
      using body by (auto simp: glitch_def split: prod.splits sum.splits if_splits)
    from IH [OF this] obtain n where n: "first_without env perform start (delay env (snd (perform w))) n"
      "r = perform (attempt env perform (Suc n) w)" by auto
    have "first_without env perform start w (Suc n)"
      unfolding first_without_def
    proof (intro conjI allI impI)
      fix m assume "m < Suc n"
      then show "glitch env perform start (attempt env perform m w)"
        using True n(1) by (cases m) (simp_all add: first_without_def)
    qed (use n(1) in \<open>simp add: first_without_def\<close>)
    with n(2) show ?thesis by blast
  next
    case False
    then have "r = perform w" using body by (auto simp: glitch_def split: prod.splits sum.splits if_splits)
    with False show ?thesis by (intro exI [of _ 0]) (simp add: first_without_def)
  qed
qed

text \<open>A call for the last block seen is answered by the first attempt that is not such a glitch, and returns exactly if there
  is one; any other call is made once.\<close>

theorem seen_block_calls:
  "aug_call env tx tag w = Some r \<longleftrightarrow>
     (if tag = Some (BlockNumber (seen env w))
      then \<exists>n. first_without env (\<lambda>w. be_call (provider_of env w) tx tag w) (seen env w) w n
             \<and> r = (\<lambda>w. be_call (provider_of env w) tx tag w) (attempt env (\<lambda>w. be_call (provider_of env w) tx tag w) n w)
      else r = be_call (provider_of env w) tx tag w)"
  using retry_returns [of env "\<lambda>w. be_call (provider_of env w) tx tag w" "seen env w" w r]
    retry_ends [of _ env "\<lambda>w. be_call (provider_of env w) tx tag w" "seen env w" w]
  by (auto simp: aug_call_def read_at_def first_without_def)

section \<open>Confirmations\<close>

text \<open>A transaction is mined in block \<open>b\<close> of a chain whose head never falls back: the receipt is known from then on, the blocks
  up to the head are known, and new blocks come.\<close>

definition mined_in :: "'w aug_env \<Rightarrow> ('w \<Rightarrow> int) \<Rightarrow> string \<Rightarrow> int \<Rightarrow> bool" where
  "mined_in env head h b \<longleftrightarrow>
     (\<forall>w. \<exists>w'. aug_getTransactionReceipt env h w =
            (Inr (if b \<le> head w then Some \<lparr>rc_blockNumber = b, rc_confirmations = head w - b + 1\<rparr> else None), w') \<and> head w \<le> head w')
     \<and> (\<forall>w n. n \<le> head w \<longrightarrow>
          (\<exists>txs w'. aug_getBlock env (BlockNumber n) w = (Inr (Some txs), w') \<and> head w \<le> head w' \<and> (h \<in> set txs \<longleftrightarrow> n = b)))
     \<and> (\<forall>w. head w \<le> head (delay env w))
     \<and> (\<forall>w. \<exists>n w'. next_block env w = (Inr n, w') \<and> head w < n \<and> n \<le> head w')"

lemma mined_contains:
  assumes "mined_in env head h b" and "n \<le> head w" and "n < b"
  shows "\<exists>w'. blockContainsTx env n h w = Some (Inr False, w') \<and> head w \<le> head w'"
proof -
  have d: "head w \<le> head (delay env w)" using assms(1) by (simp add: mined_in_def)
  then have "n \<le> head (delay env w)" using assms(2) by simp
  then obtain txs w' where b: "aug_getBlock env (BlockNumber n) (delay env w) = (Inr (Some txs), w')"
    "head (delay env w) \<le> head w'" "h \<in> set txs \<longleftrightarrow> n = b"
    using assms(1) unfolding mined_in_def by blast
  with d assms(3) have "head w \<le> head w'" "h \<notin> set txs" by simp_all
  with b(1) show ?thesis by (subst blockContainsTx.simps) simp
qed

lemma mined_receipt:
  assumes m: "mined_in env head h b" and latest: "\<forall>n. latest = Some n \<longrightarrow> n \<le> head w"
  shows "\<exists>w'. getTransactionReceiptFromLatest env h latest w =
      Some (Inr (if b \<le> head w then Some \<lparr>rc_blockNumber = b, rc_confirmations = head w - b + 1\<rparr> else None), w') \<and> head w \<le> head w'"
proof -
  let ?r = "if b \<le> head w then Some \<lparr>rc_blockNumber = b, rc_confirmations = head w - b + 1\<rparr> else None"
  obtain w' where w': "aug_getTransactionReceipt env h w = (Inr ?r, w')" "head w \<le> head w'"
    using m unfolding mined_in_def by blast
  show ?thesis
  proof (cases latest)
    case None
    then show ?thesis using w' by (subst getTransactionReceiptFromLatest.simps) simp
  next
    case (Some n)
    then have n: "n \<le> head w" using latest by simp
    show ?thesis
    proof (cases "b \<le> head w")
      case True
      then show ?thesis using w' n Some by (subst getTransactionReceiptFromLatest.simps) simp
    next
      case False
      then obtain w2 where "blockContainsTx env n h w' = Some (Inr False, w2)" "head w' \<le> head w2"
        using mined_contains [OF m, of n w'] n w'(2) by auto
      then show ?thesis using w' False Some by (subst getTransactionReceiptFromLatest.simps) auto
    qed
  qed
qed

lemma mined_wait:
  assumes m: "mined_in env head h b"
  shows "\<forall>n. latest = Some n \<longrightarrow> n \<le> head w \<Longrightarrow>
    \<exists>rc w'. wait_loop env h c latest w = Some (Inr rc, w') \<and> enough c rc \<and> rc_blockNumber rc = b"
proof (induction "nat (b + (case c of None \<Rightarrow> 1 | Some n \<Rightarrow> max n 1) - head w)" arbitrary: latest w rule: less_induct)
  case less
  let ?r = "if b \<le> head w then Some \<lparr>rc_blockNumber = b, rc_confirmations = head w - b + 1\<rparr> else None"
  obtain w' where w': "getTransactionReceiptFromLatest env h latest w = Some (Inr ?r, w')" "head w \<le> head w'"
    using mined_receipt [OF m less.prems] by blast
  show ?case
  proof (cases "b \<le> head w \<and> enough c (the ?r)")
    case True
    then show ?thesis using w' by (subst wait_loop.simps) auto
  next
    case False
    obtain n w2 where n: "next_block env w' = (Inr n, w2)" "head w' < n" "n \<le> head w2"
      using m unfolding mined_in_def by blast
    have "head w < head w2" "head w < b + (case c of None \<Rightarrow> 1 | Some n \<Rightarrow> max n 1)"
      using n w'(2) False by (auto simp: enough_def split: option.splits if_splits)
    then have "\<exists>rc w'. wait_loop env h c (Some n) w2 = Some (Inr rc, w') \<and> enough c rc \<and> rc_blockNumber rc = b"
      using n by (intro less.hyps) auto
    then show ?thesis using False w' n by (subst wait_loop.simps) auto
  qed
qed

lemma wait_loop_enough:
  assumes "wait_loop env h c latest w = Some r"
  shows "\<forall>rc w'. r = (Inr rc, w') \<longrightarrow> enough c rc"
  by (rule wait_loop.raw_induct [OF _ assms])
    (auto split: option.splits sum.splits prod.splits if_splits)

text \<open>C27: \<^verbatim>\<open>waitForTransaction\<close> without a timeout never returns a receipt with too few confirmations; and it does return, with the
  receipt of the block, for a transaction that is mined in a chain whose head never falls back, however the head moves
  while it waits. With a timeout the base provider is asked.\<close>

theorem waits_for_confirmations:
  shows "(\<forall>rc w'. aug_waitForTransaction env h confirmations None w = Some (Inr rc, w') \<longrightarrow> enough confirmations rc)
    \<and> (mined_in env head h b \<longrightarrow>
        (\<exists>rc w'. aug_waitForTransaction env h confirmations None w = Some (Inr rc, w') \<and> enough confirmations rc \<and> rc_blockNumber rc = b))
    \<and> aug_waitForTransaction env h confirmations (Some t) w = Some (be_waitForTransaction (base_provider env) h confirmations t w)"
  using wait_loop_enough [of env h confirmations None w] mined_wait [of env head h b None w confirmations]
  by (auto simp: aug_waitForTransaction_def)

text \<open>A chain that grows by a block whenever it is waited for; the transaction is in block 3.\<close>

definition growing_backend :: "int backend" where
  "growing_backend = \<lparr>be_call = (\<lambda>_ _. return_io ''0x''), be_getBalance = (\<lambda>_ _. return_io 0), be_getTransaction = (\<lambda>_. return_io None),
     be_getTransactionReceipt = (\<lambda>_ w. (Inr (if 3 \<le> w then Some \<lparr>rc_blockNumber = 3, rc_confirmations = w - 3 + 1\<rparr> else None), w)),
     be_getTransactionCount = (\<lambda>_ _. return_io 0),
     be_getBlock = (\<lambda>t. return_io (case t of BlockNumber n \<Rightarrow> Some (if n = 3 then [''0x1''] else []) | BlockName _ \<Rightarrow> None)),
     be_waitForTransaction = (\<lambda>_ _ _. throw_io (Error ''timeout exceeded''))\<rparr>"

definition growing :: "int aug_env" where
  "growing = \<lparr>base_provider = growing_backend, socket_provider = growing_backend, isReady = (\<lambda>w. w mod 2 = 0), seen = (\<lambda>w. w),
     socket_first = (\<lambda>_. False), delay = (\<lambda>w. w), next_block = (\<lambda>w. (Inr (w + 1), w + 1))\<rparr>"

theorem waits_for_confirmations_witness:
  "\<exists>rc w'. aug_waitForTransaction growing ''0x1'' (Some 2) None 0 = Some (Inr rc, w') \<and> 2 \<le> rc_confirmations rc \<and> rc_blockNumber rc = 3"
proof -
  have "mined_in growing (\<lambda>w. w) ''0x1'' 3"
    by (simp add: mined_in_def growing_def growing_backend_def aug_getTransactionReceipt_def aug_getBlock_def provider_of_def return_io_def)
  then show ?thesis
    using waits_for_confirmations [of growing "''0x1''" "Some 2" 0 "\<lambda>w. w" 3 0] by (simp add: enough_def)
qed

end
