(* ===== verification/Fuzzer.thy ===== *)
theory Fuzzer
  imports Trove_Change Effects JsError
begin

text \<open>
  The fuzzer of the protocol (\<^verbatim>\<open>packages/fuzzer/src\<close>): the statistics of gas (\<^verbatim>\<open>GasHistogram.ts\<close>), the checks after every step
  (\<^verbatim>\<open>utils.ts\<close>) and what it expects of an operation (\<^verbatim>\<open>fixture.ts\<close>). What is read from the chain is an argument; random choices
  and the driving of the operations are left out.
\<close>

section \<open>\<^verbatim>\<open>GasHistogram\<close>\<close>

definition intervalWidth :: nat where "intervalWidth = 10000"

definition numberOfBins :: nat where "numberOfBins = 800"

record mined_receipt =
  mn_succeeded :: bool
  mn_gasUsed :: nat

record 'w sent =
  st_gasLimit :: nat
  st_waitForReceipt :: "('w, mined_receipt) io"

record gas_histogram =
  expectedFailures :: nat
  outOfGasFailures :: nat
  gasUsedBins :: "nat list"

definition new_GasHistogram :: gas_histogram where
  "new_GasHistogram = \<lparr>expectedFailures = 0, outOfGasFailures = 0, gasUsedBins = replicate numberOfBins 0\<rparr>"

text \<open>The loop of \<^verbatim>\<open>retryUpTo\<close>, with the retries that are left.\<close>

fun retry_left :: "nat \<Rightarrow> nat \<Rightarrow> ('w, 'w sent) io \<Rightarrow> ('w, nat \<times> mined_receipt) io" where
  "retry_left left retries sendTx =
     bind_io sendTx (\<lambda>tx. bind_io (st_waitForReceipt tx) (\<lambda>receipt.
       if mn_succeeded receipt \<or> mn_gasUsed receipt < st_gasLimit tx \<or> left = 0 then return_io (retries, receipt)
       else case left of 0 \<Rightarrow> return_io (retries, receipt) | Suc l \<Rightarrow> retry_left l (retries + 1) sendTx))"

declare retry_left.simps [simp del]

definition retryUpTo :: "nat \<Rightarrow> ('w, 'w sent) io \<Rightarrow> ('w, nat \<times> mined_receipt) io" where
  "retryUpTo n sendTx = retry_left n 0 sendTx"

definition addToGasUsedHisto :: "nat \<Rightarrow> gas_histogram \<Rightarrow> gas_histogram res" where
  "addToGasUsedHisto gasUsed h =
     (let binIndex = gasUsed div intervalWidth in
      if binIndex < length (gasUsedBins h)
      then Inr (h\<lparr>gasUsedBins := (gasUsedBins h)[binIndex := gasUsedBins h ! binIndex + 1]\<rparr>)
      else Inl (AssertionError ''binIndex < this.gasUsedBins.length''))"

text \<open>\<^verbatim>\<open>findIndex\<close> and \<^verbatim>\<open>slice\<close>, where a negative start counts from the end.\<close>

fun findIndex_from :: "int \<Rightarrow> ('a \<Rightarrow> bool) \<Rightarrow> 'a list \<Rightarrow> int" where
  "findIndex_from i P [] = -1"
| "findIndex_from i P (x # xs) = (if P x then i else findIndex_from (i + 1) P xs)"

definition findIndex :: "('a \<Rightarrow> bool) \<Rightarrow> 'a list \<Rightarrow> int" where
  "findIndex P xs = findIndex_from 0 P xs"

definition slice_index :: "int \<Rightarrow> nat \<Rightarrow> nat" where
  "slice_index i n = (if i < 0 then nat (max 0 (int n + i)) else min (nat i) n)"

definition js_slice :: "int \<Rightarrow> int \<Rightarrow> 'a list \<Rightarrow> 'a list" where
  "js_slice a b xs = drop (slice_index a (length xs)) (take (slice_index b (length xs)) xs)"

definition getResults :: "gas_histogram \<Rightarrow> (int \<times> nat) list" where
  "getResults h =
     (let bins = gasUsedBins h;
          first = findIndex (\<lambda>x. 0 < x) bins;
          fromEnd = findIndex (\<lambda>x. 0 < x) (rev bins);
          used = js_slice first (int (length bins) - fromEnd) bins
      in map (\<lambda>i. (int intervalWidth * (first + int i), used ! i)) [0..<length used])"

text \<open>The histogram is an object: what was counted before an exception stays.\<close>

definition expectSuccess :: "gas_histogram \<Rightarrow> ('w, 'w sent) io \<Rightarrow> 'w \<Rightarrow> unit res \<times> gas_histogram \<times> 'w" where
  "expectSuccess h sendTx w =
     (case retryUpTo 1 sendTx w of
        (Inl err, w') \<Rightarrow> (Inl err, h, w')
      | (Inr (retries, receipt), w') \<Rightarrow>
          (let h = h\<lparr>outOfGasFailures := outOfGasFailures h + retries\<rparr> in
           if \<not> mn_succeeded receipt then (Inl (Error ''Transaction failed''), h, w')
           else case addToGasUsedHisto (mn_gasUsed receipt) h of
                  Inl err \<Rightarrow> (Inl err, h, w')
                | Inr h' \<Rightarrow> (Inr (), h', w')))"

definition expectFailure :: "gas_histogram \<Rightarrow> ('w, 'a) io \<Rightarrow> 'w \<Rightarrow> unit res \<times> gas_histogram \<times> 'w" where
  "expectFailure h waitForSuccess w =
     (case waitForSuccess w of
        (Inl err, w') \<Rightarrow> (Inr (), h\<lparr>expectedFailures := expectedFailures h + 1\<rparr>, w')
      | (Inr _, w') \<Rightarrow> (Inl (Error ''Unexpected success''), h, w'))"

section \<open>\<^verbatim>\<open>utils.ts\<close>\<close>

definition tinyDifference :: decimal where
  "tinyDifference = Decimal (10 ^ 9)"  \<comment> \<open>\<^verbatim>\<open>Decimal.from("0.000000001")\<close>\<close>

fun ordered_after :: "user_trove \<Rightarrow> pending_trove list \<Rightarrow> trove \<Rightarrow> decimalish \<Rightarrow> bool res" where
  "ordered_after currentTrove [] totalRedistributed prc = Inr True"
| "ordered_after currentTrove (t # ts) totalRedistributed prc =
     bind_res (applyRedistribution t totalRedistributed) (\<lambda>nextTrove.
     bind_res (collateralRatio nextTrove prc) (\<lambda>next.
     bind_res (collateralRatio currentTrove prc) (\<lambda>current.
     bind_res (Decimal_add current (DecimalV tinyDifference)) (\<lambda>bound.
     bind_res (Decimal_gt next (DecimalV bound)) (\<lambda>greater.
     if greater then Inr False else ordered_after nextTrove ts totalRedistributed prc)))))"

definition sortedByICR :: "pending_trove list \<Rightarrow> trove \<Rightarrow> decimalish \<Rightarrow> bool res" where
  "sortedByICR listOfTroves totalRedistributed prc =
     (case listOfTroves of
        t # u # ts \<Rightarrow>
          bind_res (applyRedistribution t totalRedistributed) (\<lambda>currentTrove.
          ordered_after currentTrove (u # ts) totalRedistributed prc)
      | _ \<Rightarrow> Inr True)"

definition listDifference :: "string list \<Rightarrow> string list \<Rightarrow> string list" where
  "listDifference listA listB = filter (\<lambda>x. x \<notin> set listB) listA"

fun each_equal :: "pending_trove list \<Rightarrow> (string \<rightharpoonup> pending_trove) \<Rightarrow> unit res" where
  "each_equal [] mapB = Inr ()"
| "each_equal (troveA # rest) mapB =
     (case mapB (ownerAddress troveA) of
        None \<Rightarrow> Inl (Error (ownerAddress troveA @ '' has no trove in listB''))
      | Some troveB \<Rightarrow>
          bind_res (TroveWithPendingRedistribution_equals troveA troveB) (\<lambda>equal.
          if \<not> equal then Inl (Error (ownerAddress troveA @ '' has different troves in listA & listB''))
          else each_equal rest mapB))"

definition listOfTrovesShouldBeEqual :: "pending_trove list \<Rightarrow> pending_trove list \<Rightarrow> unit res" where
  "listOfTrovesShouldBeEqual listA listB =
     (if length listA \<noteq> length listB then Inl (Error ''length of trove lists is different'')
      else each_equal listA (map_of (rev (map (\<lambda>t. (ownerAddress t, t)) listB))))"

text \<open>The lists that are printed when the check fails are left out.\<close>

definition checkTroveOrdering :: "pending_trove list \<Rightarrow> trove \<Rightarrow> decimal \<Rightarrow> unit res" where
  "checkTroveOrdering listOfTroves totalRedistributed prc =
     bind_res (sortedByICR listOfTroves totalRedistributed (DecimalV prc)) (\<lambda>sorted.
     if \<not> sorted then Inl (Error ''ordering is broken'') else Inr ())"

fun pool_totals :: "pending_trove list \<Rightarrow> trove \<Rightarrow> trove \<Rightarrow> trove \<Rightarrow> (trove \<times> trove) res" where
  "pool_totals [] totalRedistributed activeTotal defaultTotal = Inr (activeTotal, defaultTotal)"
| "pool_totals (troveActive # rest) totalRedistributed activeTotal defaultTotal =
     bind_res (applyRedistribution troveActive totalRedistributed) (\<lambda>troveTotal.
     bind_res (Trove_subtract troveTotal troveActive) (\<lambda>troveDefault.
     bind_res (Trove_add activeTotal troveActive) (\<lambda>active.
     bind_res (Trove_add defaultTotal troveDefault) (\<lambda>default.
     pool_totals rest totalRedistributed active default))))"

definition roughly :: "decimal \<Rightarrow> decimal \<Rightarrow> bool res" where
  "roughly a b =
     bind_res (Difference_between (Some (DecimalV a)) (Some (DecimalV b))) (\<lambda>diff.
     case Difference_absoluteValue diff of
       None \<Rightarrow> Inr False
     | Some x \<Rightarrow> Decimal_lt x (DecimalV tinyDifference))"

fun every_res :: "bool res list \<Rightarrow> bool res" where
  "every_res [] = Inr True"
| "every_res (b # bs) = bind_res b (\<lambda>x. if x then every_res bs else Inr False)"

definition checkPoolBalances :: "trove \<Rightarrow> trove \<Rightarrow> pending_trove list \<Rightarrow> trove \<Rightarrow> unit res" where
  "checkPoolBalances activePool defaultPool listOfTroves totalRedistributed =
     bind_res (pool_totals listOfTroves totalRedistributed emptyTrove emptyTrove) (\<lambda>(activeTotal, defaultTotal).
     bind_res (every_res [roughly (collateral activePool) (collateral activeTotal), roughly (debt activePool) (debt activeTotal),
       roughly (collateral defaultPool) (collateral defaultTotal), roughly (debt defaultPool) (debt defaultTotal)]) (\<lambda>ok.
     if \<not> ok then Inl (Error ''discrepancy between Troves & Pools'') else Inr ()))"

definition trovesRoughlyEqual :: "trove \<Rightarrow> trove \<Rightarrow> bool res" where
  "trovesRoughlyEqual troveA troveB =
     every_res [roughly (collateral troveA) (collateral troveB), roughly (debt troveA) (debt troveB)]"

definition shortenAddress :: "string \<Rightarrow> string" where
  "shortenAddress address = take 6 address @ ''...'' @ drop (length address - 4) address"

definition truncateLastDigits :: "int \<Rightarrow> int" where
  "truncateLastDigits n =
     (if n > 100000 then 1000 * (n div 1000)
      else if n > 10000 then 100 * (n div 100)
      else if n > 1000 then 10 * (n div 10)
      else n)"

section \<open>\<^verbatim>\<open>fixture.ts\<close>: what is expected to fail\<close>

definition cannotOpen :: "decimal \<Rightarrow> trove \<Rightarrow> trove \<Rightarrow> bool res" where
  "cannotOpen prc total0 newTrove =
     bind_res (Decimal_lt (debt newTrove) (DecimalV LUSD_MINIMUM_DEBT)) (\<lambda>small.
     if small then Inr True
     else bind_res (collateralRatioIsBelowCritical total0 (DecimalV prc)) (\<lambda>recovery.
       if recovery then bind_res (isOpenableInRecoveryMode newTrove (DecimalV prc)) (\<lambda>openable. Inr (\<not> openable))
       else bind_res (collateralRatioIsBelowMinimum newTrove (DecimalV prc)) (\<lambda>below.
         if below then Inr True
         else bind_res (Trove_add total0 newTrove) (\<lambda>newTotal. collateralRatioIsBelowCritical newTotal (DecimalV prc)))))"

text \<open>The parameters of a random adjustment: at most one change of the collateral and one of the debt.\<close>

record random_change =
  rnd_withdrawCollateral :: "decimal option"
  rnd_depositCollateral :: "decimal option"
  rnd_repayLUSD :: "decimal option"
  rnd_borrowLUSD :: "decimal option"

definition change_entries :: "random_change \<Rightarrow> decimalish option entries" where
  "change_entries p =
     (case rnd_withdrawCollateral p of None \<Rightarrow> [] | Some x \<Rightarrow> [(''withdrawCollateral'', Some (DecimalV x))])
     @ (case rnd_depositCollateral p of None \<Rightarrow> [] | Some x \<Rightarrow> [(''depositCollateral'', Some (DecimalV x))])
     @ (case rnd_repayLUSD p of None \<Rightarrow> [] | Some x \<Rightarrow> [(''repayLUSD'', Some (DecimalV x))])
     @ (case rnd_borrowLUSD p of None \<Rightarrow> [] | Some x \<Rightarrow> [(''borrowLUSD'', Some (DecimalV x))])"

definition some_nonZero :: "decimal option \<Rightarrow> bool" where
  "some_nonZero x \<longleftrightarrow> (case x of None \<Rightarrow> False | Some d \<Rightarrow> Decimal_nonZero d \<noteq> None)"

definition cannotAdjust :: "decimal \<Rightarrow> trove \<Rightarrow> decimal \<Rightarrow> trove \<Rightarrow> random_change \<Rightarrow> bool res" where
  "cannotAdjust prc total0 rate t p =
     bind_res (case rnd_withdrawCollateral p of None \<Rightarrow> Inr False | Some x \<Rightarrow> Decimal_gte x (DecimalV (collateral t))) (\<lambda>tooMuch.
     bind_res (if tooMuch then Inr True
       else case rnd_repayLUSD p of
           None \<Rightarrow> Inr False
         | Some x \<Rightarrow> bind_res (Decimal_sub (debt t) (DecimalV LUSD_MINIMUM_DEBT)) (\<lambda>most. Decimal_gt x (DecimalV most))) (\<lambda>invalid.
     if invalid then Inr True
     else bind_res (Trove_adjust t (change_entries p) (Some (DecimalV rate))) (\<lambda>adjusted.
       if \<not> (some_nonZero (rnd_withdrawCollateral p) \<or> some_nonZero (rnd_borrowLUSD p)) then Inr False
       else bind_res (collateralRatioIsBelowMinimum adjusted (DecimalV prc)) (\<lambda>below.
         if below then Inr True
         else bind_res (collateralRatioIsBelowCritical total0 (DecimalV prc)) (\<lambda>recovery.
           if recovery then
             bind_res (nominalCollateralRatio adjusted) (\<lambda>new.
             bind_res (nominalCollateralRatio t) (\<lambda>old. Decimal_lt new (DecimalV old)))
           else bind_res (Trove_add total0 adjusted) (\<lambda>sum.
             bind_res (Trove_subtract sum t) (\<lambda>newTotal. collateralRatioIsBelowCritical newTotal (DecimalV prc))))))))"

end
