(* ===== verification/Fuzzer_Props.thy ===== *)
theory Fuzzer_Props
  imports Fuzzer Validation_Props
begin

text \<open>
  What the checks of the fuzzer establish, that its histogram accounts for every success, and that it expects no failure
  of what the frontend offers.
\<close>

section \<open>The histogram\<close>

lemma findIndex_eq:
  "findIndex P xs = (if \<exists>x\<in>set xs. P x then int (length (takeWhile (\<lambda>x. \<not> P x) xs)) else -1)"
proof -
  have "findIndex_from i P xs = (if \<exists>x\<in>set xs. P x then i + int (length (takeWhile (\<lambda>x. \<not> P x) xs)) else -1)" for i
    by (induction xs arbitrary: i) auto
  then show ?thesis by (simp add: findIndex_def)
qed

text \<open>The first used bin, and the one after the last.\<close>

definition used_from :: "nat list \<Rightarrow> nat" where
  "used_from bins = length (takeWhile (\<lambda>x. x = 0) bins)"

definition used_to :: "nat list \<Rightarrow> nat" where
  "used_to bins = length bins - length (takeWhile (\<lambda>x. x = 0) (rev bins))"

lemma takeWhile_shorter: "\<exists>x\<in>set xs. \<not> P x \<Longrightarrow> length (takeWhile P xs) < length xs"
  by (induction xs) auto

lemma used_bins:
  assumes "\<exists>x\<in>set bins. 0 < x"
  shows "used_from bins < used_to bins" "used_to bins \<le> length bins" "0 < bins ! used_from bins" "0 < bins ! (used_to bins - 1)"
    "\<And>i. i < used_from bins \<Longrightarrow> bins ! i = 0" "\<And>i. used_to bins \<le> i \<Longrightarrow> i < length bins \<Longrightarrow> bins ! i = 0"
proof -
  let ?n = "length bins" and ?a = "used_from bins" and ?c = "length (takeWhile (\<lambda>x. x = 0) (rev bins))"
  have a: "?a < ?n"
    using assms takeWhile_shorter [of bins "\<lambda>x. x = 0"] by (auto simp: used_from_def)
  then have pos_a: "0 < bins ! ?a"
    using nth_length_takeWhile [of "\<lambda>x. x = 0" bins] by (simp add: used_from_def)
  have c: "?c < ?n"
    using assms takeWhile_shorter [of "rev bins" "\<lambda>x. x = 0"] by auto
  have pos_b: "0 < bins ! (used_to bins - 1)"
    using nth_length_takeWhile [of "\<lambda>x. x = 0" "rev bins"] c by (simp add: used_to_def rev_nth)
  show zero_b: "bins ! i = 0" if "used_to bins \<le> i" "i < ?n" for i
  proof -
    have "?n - Suc i < ?c" using that by (simp add: used_to_def)
    then have "rev bins ! (?n - Suc i) = 0"
      using takeWhile_nth [of "?n - Suc i" "\<lambda>x. x = 0" "rev bins"] nth_mem [of "?n - Suc i" "takeWhile (\<lambda>x. x = 0) (rev bins)"]
      by (auto dest!: set_takeWhileD)
    then show ?thesis using that by (simp add: rev_nth)
  qed
  show "bins ! i = 0" if "i < ?a" for i
    using that takeWhile_nth [of i "\<lambda>x. x = 0" bins] nth_mem [of i "takeWhile (\<lambda>x. x = 0) bins"]
    by (auto simp: used_from_def dest!: set_takeWhileD)
  show "0 < bins ! ?a" "0 < bins ! (used_to bins - 1)" by (fact pos_a, fact pos_b)
  show "used_to bins \<le> ?n" by (simp add: used_to_def)
  show "?a < used_to bins"
    using zero_b [of ?a] a pos_a by (cases "?a < used_to bins") simp_all
qed

lemma getResults_eq:
  assumes "\<exists>x\<in>set (gasUsedBins h). 0 < x"
  shows "getResults h = map (\<lambda>i. (10000 * int i, gasUsedBins h ! i)) [used_from (gasUsedBins h)..<used_to (gasUsedBins h)]"
proof -
  let ?b = "gasUsedBins h"
  note u = used_bins [OF assms]
  have first: "findIndex (\<lambda>x. 0 < x) ?b = int (used_from ?b)"
    using assms by (simp add: findIndex_eq used_from_def)
  have "int (length ?b) - findIndex (\<lambda>x. 0 < x) (rev ?b) = int (used_to ?b)"
    using assms u(1,2) length_takeWhile_le [of "\<lambda>x. x = 0" "rev ?b"] by (simp add: findIndex_eq used_to_def of_nat_diff)
  then have slice: "js_slice (findIndex (\<lambda>x. 0 < x) ?b) (int (length ?b) - findIndex (\<lambda>x. 0 < x) (rev ?b)) ?b
      = drop (used_from ?b) (take (used_to ?b) ?b)"
    using u(1,2) by (simp add: first js_slice_def slice_index_def)
  have "getResults h = map (\<lambda>i. (10000 * (int (used_from ?b) + int i), ?b ! (used_from ?b + i))) [0..<used_to ?b - used_from ?b]"
    using u(1,2) unfolding getResults_def Let_def slice by (auto simp: first intervalWidth_def min_def)
  also have "\<dots> = map (\<lambda>i. (10000 * int i, ?b ! i)) [used_from ?b..<used_to ?b]"
    using u(1) by (intro nth_equalityI) simp_all
  finally show ?thesis .
qed

lemma results_sum:
  assumes "\<exists>x\<in>set (gasUsedBins h). 0 < x"
  shows "sum_list (map snd (getResults h)) = sum_list (gasUsedBins h)"
proof -
  let ?b = "gasUsedBins h"
  note u = used_bins [OF assms]
  have "sum_list ?b = (\<Sum>i<length ?b. ?b ! i)"
    by (simp add: sum_list_sum_nth atLeast0LessThan)
  also have "\<dots> = (\<Sum>i\<in>{used_from ?b..<used_to ?b}. ?b ! i)"
    using u by (intro sum.mono_neutral_right) (auto simp: not_le)
  also have "\<dots> = sum_list (map snd (getResults h))"
    by (simp add: getResults_eq [OF assms] sum_list_distinct_conv_sum_set o_def)
  finally show ?thesis by simp
qed

text \<open>Expecting several transactions in turn to succeed.\<close>

fun expect_all :: "gas_histogram \<Rightarrow> ('w, 'w sent) io list \<Rightarrow> 'w \<Rightarrow> unit res \<times> gas_histogram \<times> 'w" where
  "expect_all h [] w = (Inr (), h, w)"
| "expect_all h (tx # txs) w =
     (case expectSuccess h tx w of (Inl err, h', w') \<Rightarrow> (Inl err, h', w') | (Inr _, h', w') \<Rightarrow> expect_all h' txs w')"

lemma expectSuccess_counts:
  assumes "expectSuccess h tx w = (Inr (), h', w')"
  shows "sum_list (gasUsedBins h') = sum_list (gasUsedBins h) + 1" "length (gasUsedBins h') = length (gasUsedBins h)"
    "expectedFailures h' = expectedFailures h"
proof -
  obtain g k where g: "addToGasUsedHisto g (h\<lparr>outOfGasFailures := k\<rparr>) = Inr h'"
    using assms by (auto simp: expectSuccess_def Let_def split: prod.splits sum.splits if_splits)
  then show "sum_list (gasUsedBins h') = sum_list (gasUsedBins h) + 1" "length (gasUsedBins h') = length (gasUsedBins h)"
    "expectedFailures h' = expectedFailures h"
    by (auto simp: addToGasUsedHisto_def Let_def sum_list_update elem_le_sum_list split: if_splits)
qed

text \<open>The histogram of transactions that all succeeded: the frequencies add up to their number, they are those of the
  intervals from the first to the last that was used, and no failure is counted.\<close>

theorem histogram_accounts:
  assumes "expect_all new_GasHistogram txs w = (Inr (), h, w')" and "txs \<noteq> []"
  shows "sum_list (map snd (getResults h)) = length txs \<and> expectedFailures h = 0
    \<and> map fst (getResults h) = map (\<lambda>i. 10000 * int i) [used_from (gasUsedBins h)..<used_to (gasUsedBins h)]
    \<and> 0 < snd (hd (getResults h)) \<and> 0 < snd (last (getResults h))"
proof -
  have "sum_list (gasUsedBins h') = sum_list (gasUsedBins g) + length txs \<and> expectedFailures h' = expectedFailures g"
    if "expect_all g txs w = (Inr (), h', w')" for g h' w
    using that
  proof (induction txs arbitrary: g w)
    case (Cons tx txs)
    then obtain g' w'' where "expectSuccess g tx w = (Inr (), g', w'')" "expect_all g' txs w'' = (Inr (), h', w')"
      by (auto split: prod.splits sum.splits)
    then show ?case using Cons.IH expectSuccess_counts by fastforce
  qed simp
  from this [OF assms(1)] have n: "sum_list (gasUsedBins h) = length txs" "expectedFailures h = 0"
    by (simp_all add: new_GasHistogram_def)
  then have pos: "\<exists>x\<in>set (gasUsedBins h). 0 < x"
    using assms(2) by (metis bot_nat_0.not_eq_extremum length_0_conv sum_list_eq_0_iff)
  note u = used_bins [OF pos]
  have "hd [used_from (gasUsedBins h)..<used_to (gasUsedBins h)] = used_from (gasUsedBins h)"
    "last [used_from (gasUsedBins h)..<used_to (gasUsedBins h)] = used_to (gasUsedBins h) - 1"
    using u(1) by simp_all
  then show ?thesis
    using n u results_sum [OF pos] by (simp add: getResults_eq [OF pos] hd_map last_map o_def)
qed

text \<open>Without a success there is a result nevertheless: an interval below zero.\<close>

theorem empty_histogram_reports: "getResults new_GasHistogram = [(- 10000, 0)]"
proof -
  have "findIndex (\<lambda>x. 0 < x) (replicate n (0 :: nat)) = -1" for n
    by (simp add: findIndex_eq)
  then show ?thesis
    by (simp add: getResults_def new_GasHistogram_def Let_def js_slice_def slice_index_def numberOfBins_def intervalWidth_def)
qed

section \<open>The checks\<close>

definition applied :: "trove \<Rightarrow> pending_trove \<Rightarrow> user_trove" where
  "applied tot t = \<lparr>collateral = collateral t + (collateral tot - collateral (snapshotOfTotalRedistributed t)) * stake t,
     debt = debt t + (debt tot - debt (snapshotOfTotalRedistributed t)) * stake t, ownerAddress = ownerAddress t, status = status t\<rparr>"

lemma applyRedistribution_applied: "applyRedistribution t tot = Inr (applied tot t)"
  by (simp add: applyRedistribution_simp applied_def)

text \<open>The collateral ratio of a Trove with its share, in units of the last place.\<close>

definition icr :: "trove \<Rightarrow> decimal \<Rightarrow> pending_trove \<Rightarrow> nat" where
  "icr tot prc t =
     bigNumber (if debt (applied tot t) = 0 then INFINITY
       else Decimal (bigNumber (collateral (applied tot t)) * bigNumber prc div bigNumber (debt (applied tot t))))"

lemma ratio_applied: "collateralRatio (applied tot t) (DecimalV prc) = Inr (Decimal (icr tot prc t))"
  by (simp add: collateralRatio_simp icr_def)

definition barely_rises :: "nat \<Rightarrow> nat \<Rightarrow> bool" where
  "barely_rises x y \<longleftrightarrow> y \<le> x + 10 ^ 9"

lemma ordered_after_eq:
  "ordered_after (applied tot t) ts tot (DecimalV prc) = Inr (successively barely_rises (map (icr tot prc) (t # ts)))"
  by (induction ts arbitrary: t)
    (auto simp: applyRedistribution_applied ratio_applied dec_simps tinyDifference_def decimal_order barely_rises_def not_less)

lemma sortedByICR_eq: "sortedByICR l tot (DecimalV prc) = Inr (successively barely_rises (map (icr tot prc) l))"
proof (cases l)
  case (Cons t ts)
  then show ?thesis
    using ordered_after_eq [of tot t ts prc] by (cases ts) (simp_all add: sortedByICR_def applyRedistribution_applied)
qed (simp add: sortedByICR_def)

lemma successively_drift:
  "successively barely_rises xs \<Longrightarrow> i \<le> j \<Longrightarrow> j < length xs \<Longrightarrow> xs ! j \<le> xs ! i + (j - i) * 10 ^ 9"
proof (induction j)
  case (Suc j)
  show ?case
  proof (cases "i = Suc j")
    case False
    then have "xs ! j \<le> xs ! i + (j - i) * 10 ^ 9" "xs ! Suc j \<le> xs ! j + 10 ^ 9" "i \<le> j"
      using Suc successively_nth [of barely_rises xs j] by (auto simp: barely_rises_def)
    then show ?thesis by (simp add: Suc_diff_le)
  qed simp
qed simp

lemma pending_equals: "TroveWithPendingRedistribution_equals t u = Inr (t = u)" for t u :: pending_trove
  by (cases t; cases u; cases "snapshotOfTotalRedistributed t"; cases "snapshotOfTotalRedistributed u")
    (auto simp: TroveWithPendingRedistribution_equals_def UserTrove_equals_def Trove_equals_def dec_simps)

lemma each_equal_ok: "each_equal xs m = Inr () \<longleftrightarrow> (\<forall>t\<in>set xs. m (ownerAddress t) = Some t)"
  by (induction xs) (auto simp: pending_equals split: option.splits)

lemma map_of_owner: "map_of (rev (map (\<lambda>t. (ownerAddress t, t)) B)) x = Some t \<Longrightarrow> t \<in> set B \<and> ownerAddress t = x" for t :: pending_trove
  by (auto dest!: map_of_SomeD)

lemma lists_equal_ok:
  assumes "distinct (map ownerAddress A)"
  shows "listOfTrovesShouldBeEqual A B = Inr () \<longleftrightarrow> length A = length B \<and> set A = set B"
proof -
  let ?m = "map_of (rev (map (\<lambda>t. (ownerAddress t, t)) B))"
  have dA: "distinct A" using assms by (simp add: distinct_map)
  have same: "set A = set B" if "\<forall>t\<in>set A. ?m (ownerAddress t) = Some t" "length A = length B"
  proof (rule card_subset_eq)
    show sub: "set A \<subseteq> set B" using that(1) map_of_owner by blast
    show "card (set A) = card (set B)"
      using card_mono [OF _ sub] card_length [of B] distinct_card [OF dA] that(2) by simp
  qed simp
  have found: "?m (ownerAddress t) = Some t" if t: "t \<in> set A" "set A = set B" for t
  proof -
    obtain u where u: "?m (ownerAddress t) = Some u"
      using t by (cases "?m (ownerAddress t)") (force simp: map_of_eq_None_iff)+
    then have "u \<in> set A" "ownerAddress u = ownerAddress t" using map_of_owner t(2) by blast+
    then show ?thesis using u t(1) assms by (auto simp: distinct_map dest: inj_onD)
  qed
  have "listOfTrovesShouldBeEqual A B = Inr () \<longleftrightarrow> length A = length B \<and> (\<forall>t\<in>set A. ?m (ownerAddress t) = Some t)"
    by (simp add: listOfTrovesShouldBeEqual_def each_equal_ok)
  then show ?thesis using same found by blast
qed

text \<open>Two decimals differ by less than \<open>10 ^ 9\<close> units of the last place.\<close>

definition close :: "decimal \<Rightarrow> decimal \<Rightarrow> bool" where
  "close a b \<longleftrightarrow> \<bar>int (bigNumber a) - int (bigNumber b)\<bar> < 10 ^ 9"

lemma roughly_close: "a \<noteq> INFINITY \<Longrightarrow> b \<noteq> INFINITY \<Longrightarrow> roughly a b = Inr (close a b)"
  by (auto simp: roughly_def Difference_between_def Difference_of_def Difference_absoluteValue_def dec_simps close_def
      tinyDifference_def decimal_order)

definition active_sum :: "pending_trove list \<Rightarrow> trove" where
  "active_sum l = \<lparr>collateral = sum_list (map collateral l), debt = sum_list (map debt l)\<rparr>"

definition default_sum :: "trove \<Rightarrow> pending_trove list \<Rightarrow> trove" where
  "default_sum tot l = \<lparr>collateral = sum_list (map (\<lambda>t. (collateral tot - collateral (snapshotOfTotalRedistributed t)) * stake t) l),
     debt = sum_list (map (\<lambda>t. (debt tot - debt (snapshotOfTotalRedistributed t)) * stake t) l)\<rparr>"

lemma decimal_diff_add: "a + b - a = (b :: decimal)"
  by (simp add: decimal_order)

lemma pool_totals_eq:
  "pool_totals l tot a d = Inr
     (\<lparr>collateral = collateral a + collateral (active_sum l), debt = debt a + debt (active_sum l)\<rparr>,
      \<lparr>collateral = collateral d + collateral (default_sum tot l), debt = debt d + debt (default_sum tot l)\<rparr>)"
  by (induction l arbitrary: a d)
    (simp_all add: active_sum_def default_sum_def applyRedistribution_applied applied_def dec_simps decimal_diff_add add.assoc)

definition finite_trove :: "trove \<Rightarrow> bool" where
  "finite_trove t \<longleftrightarrow> collateral t \<noteq> INFINITY \<and> debt t \<noteq> INFINITY"

lemma pool_balances_ok:
  assumes "finite_trove active" "finite_trove dflt" "finite_trove (active_sum l)" "finite_trove (default_sum tot l)"
  shows "checkPoolBalances active dflt l tot = Inr () \<longleftrightarrow>
    close (collateral active) (collateral (active_sum l)) \<and> close (debt active) (debt (active_sum l))
    \<and> close (collateral dflt) (collateral (default_sum tot l)) \<and> close (debt dflt) (debt (default_sum tot l))"
  using assms by (simp add: checkPoolBalances_def pool_totals_eq finite_trove_def roughly_close emptyTrove_def zero_decimal_def [symmetric])

text \<open>C29: what the checks of the fuzzer establish. When the order of the Troves passes, their ratios fall along the list but for a
  drift of \<open>10 ^ 9\<close> units of the last place per Trove, and falling ratios pass. Two lists of Troves with distinct owners
  pass exactly if they have the same Troves. The pools pass exactly if each differs by less than \<open>10 ^ 9\<close> units from the
  sum over the Troves: what they hold, and their shares of what was redistributed.\<close>

theorem fuzzer_checks_exact:
  shows "(checkTroveOrdering l tot prc = Inr () \<longrightarrow>
      (\<forall>j<length l. \<forall>i\<le>j. icr tot prc (l ! j) \<le> icr tot prc (l ! i) + (j - i) * 10 ^ 9))
    \<and> (sorted_wrt (\<lambda>t u. icr tot prc u \<le> icr tot prc t) l \<longrightarrow> checkTroveOrdering l tot prc = Inr ())
    \<and> (distinct (map ownerAddress l) \<longrightarrow>
      (listOfTrovesShouldBeEqual l l' = Inr () \<longleftrightarrow> length l = length l' \<and> set l = set l'))
    \<and> (finite_trove active \<and> finite_trove dflt \<and> finite_trove (active_sum l) \<and> finite_trove (default_sum tot l) \<longrightarrow>
      (checkPoolBalances active dflt l tot = Inr () \<longleftrightarrow>
        close (collateral active) (collateral (active_sum l)) \<and> close (debt active) (debt (active_sum l))
        \<and> close (collateral dflt) (collateral (default_sum tot l)) \<and> close (debt dflt) (debt (default_sum tot l))))"
proof -
  have ok: "checkTroveOrdering l tot prc = Inr () \<longleftrightarrow> successively barely_rises (map (icr tot prc) l)"
    by (simp add: checkTroveOrdering_def sortedByICR_eq)
  have "icr tot prc (l ! j) \<le> icr tot prc (l ! i) + (j - i) * 10 ^ 9"
    if "checkTroveOrdering l tot prc = Inr ()" "j < length l" "i \<le> j" for i j
    using successively_drift [of "map (icr tot prc) l" i j] that ok by simp
  moreover have "successively barely_rises (map (icr tot prc) l)" if "sorted_wrt (\<lambda>t u. icr tot prc u \<le> icr tot prc t) l"
    using that by (auto simp: successively_conv_nth sorted_wrt_iff_nth_less barely_rises_def trans_le_add1)
  ultimately show ?thesis
    using ok lists_equal_ok pool_balances_ok by blast
qed

definition one_trove :: pending_trove where
  "one_trove = \<lparr>collateral = ONE, debt = ONE, ownerAddress = ''0xa'', status = Open, stake = ONE, snapshotOfTotalRedistributed = emptyTrove\<rparr>"

theorem fuzzer_checks_exact_witness:
  "checkTroveOrdering [one_trove, one_trove] emptyTrove ONE = Inr ()
    \<and> icr emptyTrove ONE one_trove \<le> icr emptyTrove ONE one_trove + 10 ^ 9
    \<and> listOfTrovesShouldBeEqual [one_trove] [one_trove] = Inr ()
    \<and> checkPoolBalances \<lparr>collateral = ONE, debt = ONE\<rparr> emptyTrove [one_trove] emptyTrove = Inr ()"
proof -
  have fin: "finite_trove \<lparr>collateral = ONE, debt = ONE\<rparr>" "finite_trove emptyTrove" "finite_trove (active_sum [one_trove])"
    "finite_trove (default_sum emptyTrove [one_trove])"
    by (simp_all add: finite_trove_def active_sum_def default_sum_def one_trove_def emptyTrove_def ONE_def INFINITY_def MAX_UINT_256_def
        zero_decimal_def [symmetric] decimal_eq_iff decimal_order)
  have sums: "active_sum [one_trove] = \<lparr>collateral = ONE, debt = ONE\<rparr>" "default_sum emptyTrove [one_trove] = emptyTrove"
    by (simp_all add: active_sum_def default_sum_def one_trove_def emptyTrove_def decimal_order decimal_eq_iff)
  have order: "checkTroveOrdering [one_trove, one_trove] emptyTrove ONE = Inr ()"
    using fuzzer_checks_exact [of "[one_trove, one_trove]" emptyTrove ONE] by simp
  moreover have "icr emptyTrove ONE one_trove \<le> icr emptyTrove ONE one_trove + 10 ^ 9"
    using fuzzer_checks_exact [of "[one_trove, one_trove]" emptyTrove ONE] order by force
  ultimately show ?thesis
    using fuzzer_checks_exact [of "[one_trove]" emptyTrove ONE "[one_trove]" "\<lparr>collateral = ONE, debt = ONE\<rparr>" emptyTrove] fin
    by (simp add: sums close_def)
qed

section \<open>Expectations\<close>

lemma withoutFee_le: "withoutFee rate x \<le> x"
proof -
  have "bigNumber x * DIGITS \<le> bigNumber x * feeFactor rate"
    by (simp add: feeFactor_def)
  then have "bigNumber x * DIGITS + (feeFactor rate - 1) < bigNumber x * feeFactor rate + feeFactor rate"
    using feeFactor_pos(1) [of rate] by linarith
  then have "bigNumber x * DIGITS + (feeFactor rate - 1) < (bigNumber x + 1) * feeFactor rate"
    by simp
  then have "(bigNumber x * DIGITS + (feeFactor rate - 1)) div feeFactor rate < bigNumber x + 1"
    by (simp add: div_less_iff_less_mult)
  then show ?thesis by (simp add: withoutFee_def decimal_order)
qed

lemma healthy_less_debt: "healthy n prc r \<Longrightarrow> collateral t = collateral r \<Longrightarrow> debt t \<le> debt r \<Longrightarrow> healthy n prc t" for t :: trove and r :: trove
  unfolding healthy_def less_eq_decimal_def by (metis mult_le_mono2 order_trans)

text \<open>What the frontend offers, the fuzzer expects to succeed: if the creation of a Trove passes the validation, the fuzzer
  does not count on its failure.\<close>

theorem frontend_permits_fuzzer_expects:
  assumes "validateTroveChange emptyTrove t rate sel = Inr (Some ch, d)"
  shows "cannotOpen (sel_price sel) (sel_total sel) t = Inr False"
proof -
  have "closable emptyTrove t" by (simp add: closable_def emptyTrove_def zero_decimal_def [symmetric])
  then obtain change r where c: "whatChanged emptyTrove t (DecimalV rate) = Inr change"
    "Trove_apply emptyTrove change (DecimalV rate) = Inr r" "collateral r = collateral t" "debt t \<le> debt r"
    using apply_change_between [of emptyTrove t rate] by (auto simp: debt_reached_def)
  obtain ch' where ch': "change = Some ch'"
    using assms c(1) by (cases change) (auto simp: validateTroveChange_def)
  have "permitted sel emptyTrove r ch'"
    using assms change_decided [of ch' sel emptyTrove r]
      validateTroveChange_checks [OF c(1) [unfolded ch'] c(2) [unfolded ch'], of sel]
    by (auto simp: decides_def bind_res_eq_Inr split: option.splits simp del: permitted.simps)
  moreover obtain p where p: "ch' = Creation p" "borrowLUSD p = withoutFee rate (debt t - LUSD_LIQUIDATION_RESERVE)"
    "LUSD_LIQUIDATION_RESERVE \<le> debt t"
    using c(1) calculation
    by (auto simp: ch' whatChanged_def dec_simps netDebt_simp emptyTrove_def zero_decimal_def [symmetric] not_less split: if_splits)
  ultimately have borrow: "LUSD_MINIMUM_NET_DEBT \<le> borrowLUSD p"
    and ok: "if healthy 15 (sel_price sel) (sel_total sel)
      then healthy 11 (sel_price sel) r \<and> healthy 15 (sel_price sel) (total_after sel emptyTrove r)
      else healthy 15 (sel_price sel) r" by simp_all
  have "LUSD_MINIMUM_NET_DEBT \<le> debt t - LUSD_LIQUIDATION_RESERVE"
    using borrow withoutFee_le [of rate "debt t - LUSD_LIQUIDATION_RESERVE"] by (simp add: p(2))
  then have min: "\<not> debt t < LUSD_MINIMUM_DEBT"
    using p(3) by (simp add: constant_defs decimal_order)
  have mine: "healthy n (sel_price sel) r \<Longrightarrow> healthy n (sel_price sel) t" for n
    using healthy_less_debt c(3,4) by metis
  have total: "healthy 15 (sel_price sel) (total_after sel emptyTrove r) \<Longrightarrow>
      healthy 15 (sel_price sel) \<lparr>collateral = collateral (sel_total sel) + collateral t, debt = debt (sel_total sel) + debt t\<rparr>"
    by (erule healthy_less_debt) (use c(3,4) in \<open>simp_all add: total_after_def emptyTrove_def zero_decimal_def [symmetric] decimal_order\<close>)
  show ?thesis
  proof (cases "healthy 15 (sel_price sel) (sel_total sel)")
    case True
    then show ?thesis
      using ok mine total min by (simp add: cannotOpen_def Decimal_compare_simps ratio_healthy Trove_arith_simps)
  next
    case False
    then show ?thesis
      using ok mine min by (simp add: cannotOpen_def Decimal_compare_simps ratio_healthy)
  qed
qed

end
