(* ===== verification/Bonds.thy ===== *)
theory Bonds
  imports Views
begin

text \<open>
  The bonds panel of the frontend: its views and events (\<^verbatim>\<open>Bonds/context/transitions.ts\<close>), the handler that carries out the
  operation of a view and confirms it (\<^verbatim>\<open>dispatchEvent\<close> in \<^verbatim>\<open>Bonds/context/BondViewProvider.tsx\<close>), and the status of an operation
  (\<^verbatim>\<open>hooks/useTransaction.ts\<close>). An operation that was started is answered later, while the user may go on; the transactions
  themselves are those of contracts that are not part of the repository.
\<close>

section \<open>\<^verbatim>\<open>transitions.ts\<close>\<close>

datatype bond_view = BondIdle | BondCreating | BondCancelling | BondClaiming | BondSwapping | BondManagingLiquidity

datatype bond_event =
    CreateBondPressed | CancelBondPressed | ClaimBondPressed | SwapPressed | AddLiquidityPressed | ManageLiquidityPressed
  | ApprovePressed | ConfirmPressed | AbortPressed | BackPressed
  | CreateBondConfirmed | CancelBondConfirmed | ClaimBondConfirmed | SwapConfirmed | ManageLiquidityConfirmed

fun bond_transitions :: "bond_view \<Rightarrow> bond_event \<Rightarrow> bond_view option" where
  "bond_transitions BondIdle CreateBondPressed = Some BondCreating"
| "bond_transitions BondIdle CancelBondPressed = Some BondCancelling"
| "bond_transitions BondIdle ClaimBondPressed = Some BondClaiming"
| "bond_transitions BondIdle SwapPressed = Some BondSwapping"
| "bond_transitions BondIdle ManageLiquidityPressed = Some BondManagingLiquidity"
| "bond_transitions BondCreating AbortPressed = Some BondIdle"
| "bond_transitions BondCreating CreateBondConfirmed = Some BondIdle"
| "bond_transitions BondCreating BackPressed = Some BondIdle"
| "bond_transitions BondCreating ApprovePressed = Some BondCreating"
| "bond_transitions BondCreating ConfirmPressed = Some BondCreating"
| "bond_transitions BondClaiming AbortPressed = Some BondIdle"
| "bond_transitions BondClaiming BackPressed = Some BondIdle"
| "bond_transitions BondClaiming ConfirmPressed = Some BondClaiming"
| "bond_transitions BondClaiming ClaimBondConfirmed = Some BondIdle"
| "bond_transitions BondCancelling AbortPressed = Some BondIdle"
| "bond_transitions BondCancelling BackPressed = Some BondIdle"
| "bond_transitions BondCancelling ConfirmPressed = Some BondCancelling"
| "bond_transitions BondCancelling CancelBondConfirmed = Some BondIdle"
| "bond_transitions BondSwapping AbortPressed = Some BondIdle"
| "bond_transitions BondSwapping BackPressed = Some BondIdle"
| "bond_transitions BondSwapping ApprovePressed = Some BondSwapping"
| "bond_transitions BondSwapping ConfirmPressed = Some BondSwapping"
| "bond_transitions BondSwapping SwapConfirmed = Some BondIdle"
| "bond_transitions BondManagingLiquidity AbortPressed = Some BondIdle"
| "bond_transitions BondManagingLiquidity BackPressed = Some BondIdle"
| "bond_transitions BondManagingLiquidity ApprovePressed = Some BondManagingLiquidity"
| "bond_transitions BondManagingLiquidity ConfirmPressed = Some BondManagingLiquidity"
| "bond_transitions BondManagingLiquidity ManageLiquidityConfirmed = Some BondIdle"
| "bond_transitions _ _ = None"

section \<open>\<^verbatim>\<open>dispatchEvent\<close>\<close>

datatype amm_token = BLUSD | LUSD

text \<open>The payload of an event; what \<^verbatim>\<open>manageLiquidity\<close> and the approvals make of theirs is left open.\<close>

record bond_payload =
  pl_bondId :: "string option"
  pl_inputToken :: "amm_token option"
  pl_deposit :: "decimal option"
  pl_swap :: "(decimal \<times> decimal) option"  \<comment> \<open>\<^verbatim>\<open>inputAmount\<close> and \<^verbatim>\<open>minOutputAmount\<close>\<close>
  pl_details :: string

datatype bond_operation =
    ApproveInfiniteBond
  | CreateBond decimal
  | CancelBond string
  | ClaimBond string
  | ApproveAmm amm_token
  | SwapTokens amm_token decimal decimal
  | ApproveTokens string
  | ManageLiquidity string

record bond_panel =
  bp_view :: bond_view
  selectedBondId :: "string option"
  inputToken :: amm_token
  operations :: "bond_operation list"  \<comment> \<open>awaited\<close>

definition new_bond_panel :: bond_panel where
  "new_bond_panel = \<lparr>bp_view = BondIdle, selectedBondId = None, inputToken = BLUSD, operations = []\<rparr>"

definition isValidEvent :: "bond_view \<Rightarrow> bond_event \<Rightarrow> bool" where
  "isValidEvent v event \<longleftrightarrow> bond_transitions v event \<noteq> None"

text \<open>The operation that an event starts, by the view it was dispatched in. The bond is the selected one, if the account has it;
  the cast of a payload without the field is \<^verbatim>\<open>undefined\<close>, on which the operation throws.\<close>

fun operation_of :: "(string \<Rightarrow> bool) \<Rightarrow> bond_panel \<Rightarrow> bond_view \<Rightarrow> bond_event \<Rightarrow> bond_payload option \<Rightarrow> bond_operation option" where
  "operation_of has_bond p BondCreating ApprovePressed pl = Some ApproveInfiniteBond"
| "operation_of has_bond p BondCreating ConfirmPressed pl = map_option CreateBond (Option.bind pl pl_deposit)"
| "operation_of has_bond p BondCancelling ConfirmPressed pl =
     (case selectedBondId p of None \<Rightarrow> None | Some i \<Rightarrow> if has_bond i then Some (CancelBond i) else None)"
| "operation_of has_bond p BondClaiming ConfirmPressed pl =
     (case selectedBondId p of None \<Rightarrow> None | Some i \<Rightarrow> if has_bond i then Some (ClaimBond i) else None)"
| "operation_of has_bond p BondSwapping ApprovePressed pl = Some (ApproveAmm (inputToken p))"
| "operation_of has_bond p BondSwapping ConfirmPressed pl =
     map_option (\<lambda>(a, m). SwapTokens (inputToken p) a m) (Option.bind pl pl_swap)"
| "operation_of has_bond p BondManagingLiquidity ApprovePressed pl = map_option (\<lambda>q. ApproveTokens (pl_details q)) pl"
| "operation_of has_bond p BondManagingLiquidity ConfirmPressed pl = map_option (\<lambda>q. ManageLiquidity (pl_details q)) pl"
| "operation_of has_bond p _ _ pl = None"

text \<open>The operation is chosen with the bond and token that were rendered, before the payload is taken over.\<close>

definition dispatch_bond_event :: "(string \<Rightarrow> bool) \<Rightarrow> bond_event \<Rightarrow> bond_payload option \<Rightarrow> bond_panel \<Rightarrow> bond_panel" where
  "dispatch_bond_event has_bond event pl p =
     (if \<not> isValidEvent (bp_view p) event then p
      else p\<lparr>bp_view := transition bond_transitions (bp_view p) event,
             selectedBondId := (case Option.bind pl pl_bondId of Some i \<Rightarrow> Some i | None \<Rightarrow> selectedBondId p),
             inputToken := (case Option.bind pl pl_inputToken of Some t \<Rightarrow> t | None \<Rightarrow> inputToken p),
             operations := operations p @ (case operation_of has_bond p (bp_view p) event pl of None \<Rightarrow> [] | Some x \<Rightarrow> [x])\<rparr>)"

fun confirmation_of :: "bond_operation \<Rightarrow> bond_event option" where
  "confirmation_of (CreateBond _) = Some CreateBondConfirmed"
| "confirmation_of (CancelBond _) = Some CancelBondConfirmed"
| "confirmation_of (ClaimBond _) = Some ClaimBondConfirmed"
| "confirmation_of (SwapTokens _ _ _) = Some SwapConfirmed"
| "confirmation_of (ManageLiquidity _) = Some ManageLiquidityConfirmed"
| "confirmation_of _ = None"

text \<open>An operation that was awaited is answered: confirmed, or failed, which is only logged.\<close>

definition operation_answered :: "(string \<Rightarrow> bool) \<Rightarrow> bond_operation \<Rightarrow> bool \<Rightarrow> bond_panel \<Rightarrow> bond_panel" where
  "operation_answered has_bond x ok p =
     (let p = p\<lparr>operations := remove1 x (operations p)\<rparr> in
      if ok then (case confirmation_of x of None \<Rightarrow> p | Some event \<Rightarrow> dispatch_bond_event has_bond event None p)
      else p)"

section \<open>\<^verbatim>\<open>useTransaction\<close>\<close>

datatype operation_status = StatusIdle | StatusPending | StatusConfirmed | StatusFailed

record operation_hook =
  hook_status :: operation_status
  hook_calls :: nat  \<comment> \<open>calls without an answer\<close>
  hook_timer :: bool  \<comment> \<open>whether the timeout is pending\<close>

definition new_hook :: operation_hook where
  "new_hook = \<lparr>hook_status = StatusIdle, hook_calls = 0, hook_timer = False\<rparr>"

text \<open>\<^verbatim>\<open>setStatus\<close> with the effect on the status, whose clean-up clears the timeout.\<close>

definition setStatus :: "operation_status \<Rightarrow> operation_hook \<Rightarrow> operation_hook" where
  "setStatus st h =
     (if st = hook_status h then h
      else h\<lparr>hook_status := st, hook_timer := (st = StatusConfirmed \<or> st = StatusFailed)\<rparr>)"

definition hook_called :: "operation_hook \<Rightarrow> operation_hook" where
  "hook_called h = (setStatus StatusPending h)\<lparr>hook_calls := hook_calls h + 1\<rparr>"

definition hook_answered :: "bool \<Rightarrow> operation_hook \<Rightarrow> operation_hook" where
  "hook_answered ok h = setStatus (if ok then StatusConfirmed else StatusFailed) (h\<lparr>hook_calls := hook_calls h - 1\<rparr>)"

definition hook_timeout :: "operation_hook \<Rightarrow> operation_hook" where
  "hook_timeout h = setStatus StatusIdle (h\<lparr>hook_timer := False\<rparr>)"

text \<open>Runs in which an operation is called only while none is pending.\<close>

inductive hook_run :: "operation_hook \<Rightarrow> bool" where
  hook_start: "hook_run new_hook"
| hook_call: "hook_run h \<Longrightarrow> hook_status h \<noteq> StatusPending \<Longrightarrow> hook_run (hook_called h)"
| hook_answer: "hook_run h \<Longrightarrow> 0 < hook_calls h \<Longrightarrow> hook_run (hook_answered ok h)"
| hook_fire: "hook_run h \<Longrightarrow> hook_timer h \<Longrightarrow> hook_run (hook_timeout h)"

text \<open>The status is pending exactly while a call is, and a result is shown exactly while its timeout is pending.\<close>

theorem hook_status_exact:
  "hook_run h \<Longrightarrow> hook_calls h = (if hook_status h = StatusPending then 1 else 0)
     \<and> (hook_timer h \<longleftrightarrow> hook_status h = StatusConfirmed \<or> hook_status h = StatusFailed)"
proof (induction rule: hook_run.induct)
  case (hook_answer h ok)
  then have "hook_status h = StatusPending" by (simp split: if_splits)
  with hook_answer show ?case by (simp add: hook_answered_def setStatus_def)
qed (auto simp: new_hook_def hook_called_def hook_timeout_def setStatus_def split: if_splits)

section \<open>Operations and confirmations\<close>

fun home_view :: "bond_operation \<Rightarrow> bond_view" where
  "home_view ApproveInfiniteBond = BondCreating"
| "home_view (CreateBond _) = BondCreating"
| "home_view (CancelBond _) = BondCancelling"
| "home_view (ClaimBond _) = BondClaiming"
| "home_view (ApproveAmm _) = BondSwapping"
| "home_view (SwapTokens _ _ _) = BondSwapping"
| "home_view (ApproveTokens _) = BondManagingLiquidity"
| "home_view (ManageLiquidity _) = BondManagingLiquidity"

lemma operation_at_home:
  "operation_of has_bond p v event pl = Some x \<Longrightarrow> home_view x = v \<and> (event = ApprovePressed \<or> event = ConfirmPressed)
     \<and> bond_transitions v event = Some v"
  by (cases "(has_bond, p, v, event, pl)" rule: operation_of.cases) (auto split: option.splits if_splits)

lemma confirmation_at_home:
  "confirmation_of x = Some event \<Longrightarrow> bond_transitions v event = (if v = home_view x then Some BondIdle else None)"
  by (cases x; cases v) auto

text \<open>An event starts at most one operation: on a press to approve or confirm, in the view that the operation belongs to and that stays. An
  event that the view does not know changes nothing. A confirmed operation closes its own view and leaves every other as it
  is, and so does a failure.\<close>

theorem bond_operations_at_home:
  "(operations (dispatch_bond_event has_bond event pl p) = operations p
     \<or> (\<exists>x. operations (dispatch_bond_event has_bond event pl p) = operations p @ [x] \<and> home_view x = bp_view p
         \<and> bp_view (dispatch_bond_event has_bond event pl p) = bp_view p \<and> (event = ApprovePressed \<or> event = ConfirmPressed)))
   \<and> (\<not> isValidEvent (bp_view p) event \<longrightarrow> dispatch_bond_event has_bond event pl p = p)
   \<and> operation_answered has_bond x ok p = p\<lparr>operations := remove1 x (operations p),
       bp_view := (if ok \<and> confirmation_of x \<noteq> None \<and> bp_view p = home_view x then BondIdle else bp_view p)\<rparr>"
proof -
  have "operations (dispatch_bond_event has_bond event pl p) = operations p
     \<or> (\<exists>x. operations (dispatch_bond_event has_bond event pl p) = operations p @ [x] \<and> home_view x = bp_view p
         \<and> bp_view (dispatch_bond_event has_bond event pl p) = bp_view p \<and> (event = ApprovePressed \<or> event = ConfirmPressed))"
    using operation_at_home [of has_bond p "bp_view p" event pl]
    by (cases "operation_of has_bond p (bp_view p) event pl") (auto simp: dispatch_bond_event_def transition_def)
  moreover have "operation_answered has_bond x ok p = p\<lparr>operations := remove1 x (operations p),
       bp_view := (if ok \<and> confirmation_of x \<noteq> None \<and> bp_view p = home_view x then BondIdle else bp_view p)\<rparr>"
  proof (cases "ok \<and> confirmation_of x \<noteq> None")
    case True
    then obtain event where e: "confirmation_of x = Some event" by auto
    have none: "operation_of has_bond q v event None = None" for q v
      using operation_at_home [of has_bond q v event None] e by (cases x) (auto simp: not_Some_eq [symmetric] simp del: not_Some_eq)
    show ?thesis
      using True e none confirmation_at_home [OF e, of "bp_view p"]
      by (auto simp: operation_answered_def dispatch_bond_event_def isValidEvent_def transition_def Let_def)
  next
    case False
    then show ?thesis by (auto simp: operation_answered_def Let_def split: option.splits)
  qed
  ultimately show ?thesis by (auto simp: dispatch_bond_event_def)
qed

text \<open>The confirmation of an operation whose dialog was left closes a later dialog of the same kind.\<close>

theorem old_confirmation_closes_dialog:
  assumes "has_bond i" and "i \<noteq> j"
  defines "sel k \<equiv> Some \<lparr>pl_bondId = Some k, pl_inputToken = None, pl_deposit = None, pl_swap = None, pl_details = []\<rparr>"
  shows "\<exists>p. p = fold (\<lambda>(event, pl). dispatch_bond_event has_bond event pl)
        [(ClaimBondPressed, sel i), (ConfirmPressed, None), (AbortPressed, None), (ClaimBondPressed, sel j)] new_bond_panel
    \<and> operations p = [ClaimBond i] \<and> bp_view p = BondClaiming \<and> selectedBondId p = Some j
    \<and> bp_view (operation_answered has_bond (ClaimBond i) True p) = BondIdle"
  using assms
  by (simp add: new_bond_panel_def dispatch_bond_event_def isValidEvent_def transition_def operation_answered_def Let_def)

end
