(* ===== verification/CachedReads.thy ===== *)
theory CachedReads
  imports BlockPolled Store_Update
begin

text \<open>
  \<^verbatim>\<open>lib-base/src/_CachedReadableLiquity.ts\<close>: reads that ask a cache first. The cache has a method for each read, called with the same
  parameters; it may answer from the state it is in, or not. The class is shown to be transparent over a cache that answers
  with what would be read, and to be what the block-polled reader does when the store is its cache.
\<close>

section \<open>The reads and the cache\<close>

text \<open>\<^verbatim>\<open>_ReadableLiquityWithExtraParams\<close>: the methods of \<^verbatim>\<open>ReadableLiquity\<close>; \<^typ>\<open>'x\<close> are the extra parameters.\<close>

record ('w, 'x) readable =
  rd_getTotalRedistributed :: "'x \<Rightarrow> ('w, trove) io"
  rd_getTroveBeforeRedistribution :: "string option \<Rightarrow> 'x \<Rightarrow> ('w, pending_trove) io"
  rd_getTrove :: "string option \<Rightarrow> 'x \<Rightarrow> ('w, user_trove) io"
  rd_getNumberOfTroves :: "'x \<Rightarrow> ('w, int) io"
  rd_getPrice :: "'x \<Rightarrow> ('w, decimal) io"
  rd_getTotal :: "'x \<Rightarrow> ('w, trove) io"
  rd_getStabilityDeposit :: "string option \<Rightarrow> 'x \<Rightarrow> ('w, stability_deposit) io"
  rd_getRemainingStabilityPoolLQTYReward :: "'x \<Rightarrow> ('w, decimal) io"
  rd_getLUSDInStabilityPool :: "'x \<Rightarrow> ('w, decimal) io"
  rd_getLUSDBalance :: "string option \<Rightarrow> 'x \<Rightarrow> ('w, decimal) io"
  rd_getLQTYBalance :: "string option \<Rightarrow> 'x \<Rightarrow> ('w, decimal) io"
  rd_getUniTokenBalance :: "string option \<Rightarrow> 'x \<Rightarrow> ('w, decimal) io"
  rd_getUniTokenAllowance :: "string option \<Rightarrow> 'x \<Rightarrow> ('w, decimal) io"
  rd_getRemainingLiquidityMiningLQTYReward :: "'x \<Rightarrow> ('w, decimal) io"
  rd_getLiquidityMiningStake :: "string option \<Rightarrow> 'x \<Rightarrow> ('w, decimal) io"
  rd_getTotalStakedUniTokens :: "'x \<Rightarrow> ('w, decimal) io"
  rd_getLiquidityMiningLQTYReward :: "string option \<Rightarrow> 'x \<Rightarrow> ('w, decimal) io"
  rd_getCollateralSurplusBalance :: "string option \<Rightarrow> 'x \<Rightarrow> ('w, decimal) io"
  rd_getFees :: "'x \<Rightarrow> ('w, fees) io"
  rd_getLQTYStake :: "string option \<Rightarrow> 'x \<Rightarrow> ('w, lqty_stake) io"
  rd_getTotalStakedLQTY :: "'x \<Rightarrow> ('w, decimal) io"
  rd_getFrontendStatus :: "string option \<Rightarrow> 'x \<Rightarrow> ('w, frontend_status) io"
  rd_getTroves :: "listing \<Rightarrow> 'x \<Rightarrow> ('w, pending_trove list + user_trove list) io"

text \<open>\<^verbatim>\<open>_LiquityReadCache\<close>: an answer at once, or \<^verbatim>\<open>undefined\<close>. A cached list is one before redistribution, the only one
  asked for.\<close>

record ('w, 'x) read_cache =
  ca_getTotalRedistributed :: "'x \<Rightarrow> 'w \<Rightarrow> trove option"
  ca_getTroveBeforeRedistribution :: "string option \<Rightarrow> 'x \<Rightarrow> 'w \<Rightarrow> pending_trove option"
  ca_getTrove :: "string option \<Rightarrow> 'x \<Rightarrow> 'w \<Rightarrow> user_trove option"
  ca_getNumberOfTroves :: "'x \<Rightarrow> 'w \<Rightarrow> int option"
  ca_getPrice :: "'x \<Rightarrow> 'w \<Rightarrow> decimal option"
  ca_getTotal :: "'x \<Rightarrow> 'w \<Rightarrow> trove option"
  ca_getStabilityDeposit :: "string option \<Rightarrow> 'x \<Rightarrow> 'w \<Rightarrow> stability_deposit option"
  ca_getRemainingStabilityPoolLQTYReward :: "'x \<Rightarrow> 'w \<Rightarrow> decimal option"
  ca_getLUSDInStabilityPool :: "'x \<Rightarrow> 'w \<Rightarrow> decimal option"
  ca_getLUSDBalance :: "string option \<Rightarrow> 'x \<Rightarrow> 'w \<Rightarrow> decimal option"
  ca_getLQTYBalance :: "string option \<Rightarrow> 'x \<Rightarrow> 'w \<Rightarrow> decimal option"
  ca_getUniTokenBalance :: "string option \<Rightarrow> 'x \<Rightarrow> 'w \<Rightarrow> decimal option"
  ca_getUniTokenAllowance :: "string option \<Rightarrow> 'x \<Rightarrow> 'w \<Rightarrow> decimal option"
  ca_getRemainingLiquidityMiningLQTYReward :: "'x \<Rightarrow> 'w \<Rightarrow> decimal option"
  ca_getLiquidityMiningStake :: "string option \<Rightarrow> 'x \<Rightarrow> 'w \<Rightarrow> decimal option"
  ca_getTotalStakedUniTokens :: "'x \<Rightarrow> 'w \<Rightarrow> decimal option"
  ca_getLiquidityMiningLQTYReward :: "string option \<Rightarrow> 'x \<Rightarrow> 'w \<Rightarrow> decimal option"
  ca_getCollateralSurplusBalance :: "string option \<Rightarrow> 'x \<Rightarrow> 'w \<Rightarrow> decimal option"
  ca_getFees :: "'x \<Rightarrow> 'w \<Rightarrow> fees option"
  ca_getLQTYStake :: "string option \<Rightarrow> 'x \<Rightarrow> 'w \<Rightarrow> lqty_stake option"
  ca_getTotalStakedLQTY :: "'x \<Rightarrow> 'w \<Rightarrow> decimal option"
  ca_getFrontendStatus :: "string option \<Rightarrow> 'x \<Rightarrow> 'w \<Rightarrow> frontend_status option"
  ca_getTroves :: "listing \<Rightarrow> 'x \<Rightarrow> 'w \<Rightarrow> pending_trove list option"

text \<open>\<^verbatim>\<open>cached ?? read\<close>.\<close>

definition or_read :: "('w \<Rightarrow> 'a option) \<Rightarrow> ('w, 'a) io \<Rightarrow> ('w, 'a) io" where
  "or_read hit read w = (case hit w of Some v \<Rightarrow> (Inr v, w) | None \<Rightarrow> read w)"

section \<open>\<^verbatim>\<open>_CachedReadableLiquity\<close>\<close>

definition cached_getTotalRedistributed :: "('w, 'x) readable \<Rightarrow> ('w, 'x) read_cache \<Rightarrow> 'x \<Rightarrow> ('w, trove) io" where
  "cached_getTotalRedistributed rd ca x =
     or_read (ca_getTotalRedistributed ca x) (rd_getTotalRedistributed rd x)"

definition cached_getTroveBeforeRedistribution :: "('w, 'x) readable \<Rightarrow> ('w, 'x) read_cache \<Rightarrow> string option \<Rightarrow> 'x \<Rightarrow> ('w, pending_trove) io" where
  "cached_getTroveBeforeRedistribution rd ca a x =
     or_read (ca_getTroveBeforeRedistribution ca a x) (rd_getTroveBeforeRedistribution rd a x)"

definition cached_getTrove :: "('w, 'x) readable \<Rightarrow> ('w, 'x) read_cache \<Rightarrow> string option \<Rightarrow> 'x \<Rightarrow> ('w, user_trove) io" where
  "cached_getTrove rd ca a x =
     bind_io (cached_getTroveBeforeRedistribution rd ca a x) (\<lambda>t.
     bind_io (cached_getTotalRedistributed rd ca x) (\<lambda>total.
     lift_io (applyRedistribution t total)))"

definition cached_getNumberOfTroves :: "('w, 'x) readable \<Rightarrow> ('w, 'x) read_cache \<Rightarrow> 'x \<Rightarrow> ('w, int) io" where
  "cached_getNumberOfTroves rd ca x =
     or_read (ca_getNumberOfTroves ca x) (rd_getNumberOfTroves rd x)"

definition cached_getPrice :: "('w, 'x) readable \<Rightarrow> ('w, 'x) read_cache \<Rightarrow> 'x \<Rightarrow> ('w, decimal) io" where
  "cached_getPrice rd ca x =
     or_read (ca_getPrice ca x) (rd_getPrice rd x)"

definition cached_getTotal :: "('w, 'x) readable \<Rightarrow> ('w, 'x) read_cache \<Rightarrow> 'x \<Rightarrow> ('w, trove) io" where
  "cached_getTotal rd ca x =
     or_read (ca_getTotal ca x) (rd_getTotal rd x)"

definition cached_getStabilityDeposit :: "('w, 'x) readable \<Rightarrow> ('w, 'x) read_cache \<Rightarrow> string option \<Rightarrow> 'x \<Rightarrow> ('w, stability_deposit) io" where
  "cached_getStabilityDeposit rd ca a x =
     or_read (ca_getStabilityDeposit ca a x) (rd_getStabilityDeposit rd a x)"

definition cached_getRemainingStabilityPoolLQTYReward :: "('w, 'x) readable \<Rightarrow> ('w, 'x) read_cache \<Rightarrow> 'x \<Rightarrow> ('w, decimal) io" where
  "cached_getRemainingStabilityPoolLQTYReward rd ca x =
     or_read (ca_getRemainingStabilityPoolLQTYReward ca x) (rd_getRemainingStabilityPoolLQTYReward rd x)"

definition cached_getLUSDInStabilityPool :: "('w, 'x) readable \<Rightarrow> ('w, 'x) read_cache \<Rightarrow> 'x \<Rightarrow> ('w, decimal) io" where
  "cached_getLUSDInStabilityPool rd ca x =
     or_read (ca_getLUSDInStabilityPool ca x) (rd_getLUSDInStabilityPool rd x)"

definition cached_getLUSDBalance :: "('w, 'x) readable \<Rightarrow> ('w, 'x) read_cache \<Rightarrow> string option \<Rightarrow> 'x \<Rightarrow> ('w, decimal) io" where
  "cached_getLUSDBalance rd ca a x =
     or_read (ca_getLUSDBalance ca a x) (rd_getLUSDBalance rd a x)"

definition cached_getLQTYBalance :: "('w, 'x) readable \<Rightarrow> ('w, 'x) read_cache \<Rightarrow> string option \<Rightarrow> 'x \<Rightarrow> ('w, decimal) io" where
  "cached_getLQTYBalance rd ca a x =
     or_read (ca_getLQTYBalance ca a x) (rd_getLQTYBalance rd a x)"

definition cached_getUniTokenBalance :: "('w, 'x) readable \<Rightarrow> ('w, 'x) read_cache \<Rightarrow> string option \<Rightarrow> 'x \<Rightarrow> ('w, decimal) io" where
  "cached_getUniTokenBalance rd ca a x =
     or_read (ca_getUniTokenBalance ca a x) (rd_getUniTokenBalance rd a x)"

definition cached_getUniTokenAllowance :: "('w, 'x) readable \<Rightarrow> ('w, 'x) read_cache \<Rightarrow> string option \<Rightarrow> 'x \<Rightarrow> ('w, decimal) io" where
  "cached_getUniTokenAllowance rd ca a x =
     or_read (ca_getUniTokenAllowance ca a x) (rd_getUniTokenAllowance rd a x)"

definition cached_getRemainingLiquidityMiningLQTYReward :: "('w, 'x) readable \<Rightarrow> ('w, 'x) read_cache \<Rightarrow> 'x \<Rightarrow> ('w, decimal) io" where
  "cached_getRemainingLiquidityMiningLQTYReward rd ca x =
     or_read (ca_getRemainingLiquidityMiningLQTYReward ca x) (rd_getRemainingLiquidityMiningLQTYReward rd x)"

definition cached_getLiquidityMiningStake :: "('w, 'x) readable \<Rightarrow> ('w, 'x) read_cache \<Rightarrow> string option \<Rightarrow> 'x \<Rightarrow> ('w, decimal) io" where
  "cached_getLiquidityMiningStake rd ca a x =
     or_read (ca_getLiquidityMiningStake ca a x) (rd_getLiquidityMiningStake rd a x)"

definition cached_getTotalStakedUniTokens :: "('w, 'x) readable \<Rightarrow> ('w, 'x) read_cache \<Rightarrow> 'x \<Rightarrow> ('w, decimal) io" where
  "cached_getTotalStakedUniTokens rd ca x =
     or_read (ca_getTotalStakedUniTokens ca x) (rd_getTotalStakedUniTokens rd x)"

definition cached_getLiquidityMiningLQTYReward :: "('w, 'x) readable \<Rightarrow> ('w, 'x) read_cache \<Rightarrow> string option \<Rightarrow> 'x \<Rightarrow> ('w, decimal) io" where
  "cached_getLiquidityMiningLQTYReward rd ca a x =
     or_read (ca_getLiquidityMiningLQTYReward ca a x) (rd_getLiquidityMiningLQTYReward rd a x)"

definition cached_getCollateralSurplusBalance :: "('w, 'x) readable \<Rightarrow> ('w, 'x) read_cache \<Rightarrow> string option \<Rightarrow> 'x \<Rightarrow> ('w, decimal) io" where
  "cached_getCollateralSurplusBalance rd ca a x =
     or_read (ca_getCollateralSurplusBalance ca a x) (rd_getCollateralSurplusBalance rd a x)"

text \<open>The list is always taken before redistribution. A Trove that had been redistributed has no method to apply another.\<close>

definition cached_getTroves ::
  "('w, 'x) readable \<Rightarrow> ('w, 'x) read_cache \<Rightarrow> listing \<Rightarrow> 'x \<Rightarrow> ('w, pending_trove list + user_trove list) io" where
  "cached_getTroves rd ca params x =
     bind_io (if beforeRedistribution params then return_io None
              else bind_io (cached_getTotalRedistributed rd ca x) (\<lambda>t. return_io (Some t))) (\<lambda>totalRedistributed.
     bind_io (or_read (\<lambda>w. map_option Inl (ca_getTroves ca (params\<lparr>beforeRedistribution := True\<rparr>) x w))
                (rd_getTroves rd (params\<lparr>beforeRedistribution := True\<rparr>) x)) (\<lambda>troves.
     case totalRedistributed of
       None \<Rightarrow> return_io troves
     | Some redistributed \<Rightarrow>
         (case troves of
            Inl ts \<Rightarrow> bind_io (lift_io (map_res (\<lambda>t. applyRedistribution t redistributed) ts)) (\<lambda>us. return_io (Inr us))
          | Inr _ \<Rightarrow> throw_io (TypeError ''trove.applyRedistribution is not a function''))))"

definition cached_getFees :: "('w, 'x) readable \<Rightarrow> ('w, 'x) read_cache \<Rightarrow> 'x \<Rightarrow> ('w, fees) io" where
  "cached_getFees rd ca x =
     or_read (ca_getFees ca x) (rd_getFees rd x)"

definition cached_getLQTYStake :: "('w, 'x) readable \<Rightarrow> ('w, 'x) read_cache \<Rightarrow> string option \<Rightarrow> 'x \<Rightarrow> ('w, lqty_stake) io" where
  "cached_getLQTYStake rd ca a x =
     or_read (ca_getLQTYStake ca a x) (rd_getLQTYStake rd a x)"

definition cached_getTotalStakedLQTY :: "('w, 'x) readable \<Rightarrow> ('w, 'x) read_cache \<Rightarrow> 'x \<Rightarrow> ('w, decimal) io" where
  "cached_getTotalStakedLQTY rd ca x =
     or_read (ca_getTotalStakedLQTY ca x) (rd_getTotalStakedLQTY rd x)"

definition cached_getFrontendStatus :: "('w, 'x) readable \<Rightarrow> ('w, 'x) read_cache \<Rightarrow> string option \<Rightarrow> 'x \<Rightarrow> ('w, frontend_status) io" where
  "cached_getFrontendStatus rd ca a x =
     or_read (ca_getFrontendStatus ca a x) (rd_getFrontendStatus rd a x)"

section \<open>Transparency\<close>

text \<open>A cache is coherent if it answers only what a read would, and the read would change nothing.\<close>

definition truthful :: "('w \<Rightarrow> 'a option) \<Rightarrow> ('w, 'a) io \<Rightarrow> bool" where
  "truthful hit read \<longleftrightarrow> (\<forall>w v. hit w = Some v \<longrightarrow> read w = (Inr v, w))"

definition coherent_cache :: "('w, 'x) readable \<Rightarrow> ('w, 'x) read_cache \<Rightarrow> 'x \<Rightarrow> bool" where
  "coherent_cache rd ca x \<longleftrightarrow>
     truthful (ca_getTotalRedistributed ca x) (rd_getTotalRedistributed rd x)
     \<and> (\<forall>a. truthful (ca_getTroveBeforeRedistribution ca a x) (rd_getTroveBeforeRedistribution rd a x))
     \<and> truthful (ca_getNumberOfTroves ca x) (rd_getNumberOfTroves rd x)
     \<and> truthful (ca_getPrice ca x) (rd_getPrice rd x)
     \<and> truthful (ca_getTotal ca x) (rd_getTotal rd x)
     \<and> (\<forall>a. truthful (ca_getStabilityDeposit ca a x) (rd_getStabilityDeposit rd a x))
     \<and> truthful (ca_getRemainingStabilityPoolLQTYReward ca x) (rd_getRemainingStabilityPoolLQTYReward rd x)
     \<and> truthful (ca_getLUSDInStabilityPool ca x) (rd_getLUSDInStabilityPool rd x)
     \<and> (\<forall>a. truthful (ca_getLUSDBalance ca a x) (rd_getLUSDBalance rd a x))
     \<and> (\<forall>a. truthful (ca_getLQTYBalance ca a x) (rd_getLQTYBalance rd a x))
     \<and> (\<forall>a. truthful (ca_getUniTokenBalance ca a x) (rd_getUniTokenBalance rd a x))
     \<and> (\<forall>a. truthful (ca_getUniTokenAllowance ca a x) (rd_getUniTokenAllowance rd a x))
     \<and> truthful (ca_getRemainingLiquidityMiningLQTYReward ca x) (rd_getRemainingLiquidityMiningLQTYReward rd x)
     \<and> (\<forall>a. truthful (ca_getLiquidityMiningStake ca a x) (rd_getLiquidityMiningStake rd a x))
     \<and> truthful (ca_getTotalStakedUniTokens ca x) (rd_getTotalStakedUniTokens rd x)
     \<and> (\<forall>a. truthful (ca_getLiquidityMiningLQTYReward ca a x) (rd_getLiquidityMiningLQTYReward rd a x))
     \<and> (\<forall>a. truthful (ca_getCollateralSurplusBalance ca a x) (rd_getCollateralSurplusBalance rd a x))
     \<and> truthful (ca_getFees ca x) (rd_getFees rd x)
     \<and> (\<forall>a. truthful (ca_getLQTYStake ca a x) (rd_getLQTYStake rd a x))
     \<and> truthful (ca_getTotalStakedLQTY ca x) (rd_getTotalStakedLQTY rd x)
     \<and> (\<forall>a. truthful (ca_getFrontendStatus ca a x) (rd_getFrontendStatus rd a x))
     \<and> (\<forall>l. truthful (\<lambda>w. map_option Inl (ca_getTroves ca (l\<lparr>beforeRedistribution := True\<rparr>) x w)) (rd_getTroves rd (l\<lparr>beforeRedistribution := True\<rparr>) x))"

lemma truthful_or_read: "truthful hit read \<Longrightarrow> or_read hit read = read"
  by (auto simp: or_read_def truthful_def fun_eq_iff split: option.splits)

lemma coherent_list:
  "coherent_cache rd ca x \<Longrightarrow> or_read (\<lambda>w. map_option Inl (ca_getTroves ca (l\<lparr>beforeRedistribution := True\<rparr>) x w))
     (rd_getTroves rd (l\<lparr>beforeRedistribution := True\<rparr>) x) = rd_getTroves rd (l\<lparr>beforeRedistribution := True\<rparr>) x"
  by (rule truthful_or_read) (simp add: coherent_cache_def)

lemma coherent_total:
  "coherent_cache rd ca x \<Longrightarrow> or_read (ca_getTotalRedistributed ca x) (rd_getTotalRedistributed rd x) = rd_getTotalRedistributed rd x"
  by (rule truthful_or_read) (simp add: coherent_cache_def)

text \<open>What the class relies on, of the reads it is given: a Trove is the one before redistribution with its share of what was
  redistributed, and a list that is accepted likewise.\<close>

locale redistributing =
  fixes rd :: "('w, 'x) readable" and accepted :: "listing \<Rightarrow> bool"
  assumes trove_law: "rd_getTrove rd a x =
      bind_io (rd_getTroveBeforeRedistribution rd a x) (\<lambda>t.
      bind_io (rd_getTotalRedistributed rd x) (\<lambda>total. lift_io (applyRedistribution t total)))"
    and troves_before: "accepted l \<Longrightarrow> beforeRedistribution l \<Longrightarrow> rd_getTroves rd l x w = (Inr (Inr us), w') \<Longrightarrow> False"
    and troves_law: "accepted l \<Longrightarrow> \<not> beforeRedistribution l \<Longrightarrow> rd_getTroves rd l x =
      bind_io (rd_getTotalRedistributed rd x) (\<lambda>total.
      bind_io (rd_getTroves rd (l\<lparr>beforeRedistribution := True\<rparr>) x) (\<lambda>troves.
      bind_io (lift_io (map_res (\<lambda>t. applyRedistribution t total) (projl troves))) (\<lambda>us. return_io (Inr us))))"
    and accepted_before: "accepted l \<Longrightarrow> accepted (l\<lparr>beforeRedistribution := True\<rparr>)"
begin

lemma cached_trove:
  assumes "coherent_cache rd ca x"
  shows "cached_getTrove rd ca a x = rd_getTrove rd a x"
  using assms
  by (simp add: coherent_cache_def cached_getTrove_def cached_getTroveBeforeRedistribution_def cached_getTotalRedistributed_def
      truthful_or_read trove_law)

lemma cached_troves:
  assumes c: "coherent_cache rd ca x" and ok: "accepted l"
  shows "cached_getTroves rd ca l x = rd_getTroves rd l x"
proof (cases "beforeRedistribution l")
  case True
  then have eq: "l\<lparr>beforeRedistribution := True\<rparr> = l" by (cases l) simp
  have "cached_getTroves rd ca l x = rd_getTroves rd (l\<lparr>beforeRedistribution := True\<rparr>) x"
    by (simp add: cached_getTroves_def coherent_list [OF c] True bind_io_return)
  then show ?thesis by (simp only: eq)
next
  case False
  let ?l = "l\<lparr>beforeRedistribution := True\<rparr>"
  have list: "bind_io (rd_getTroves rd ?l x) (case_sum g h) = bind_io (rd_getTroves rd ?l x) (\<lambda>troves. g (projl troves))"
    for g and h :: "user_trove list \<Rightarrow> ('w, pending_trove list + user_trove list) io"
  proof
    fix w
    show "bind_io (rd_getTroves rd ?l x) (case_sum g h) w = bind_io (rd_getTroves rd ?l x) (\<lambda>troves. g (projl troves)) w"
      using troves_before [OF accepted_before [OF ok], of x w]
      by (auto simp: bind_io_def split: prod.splits sum.splits)
  qed
  show ?thesis
    by (simp add: cached_getTroves_def cached_getTotalRedistributed_def coherent_list [OF c] coherent_total [OF c] troves_law [OF ok False]
        False bind_io_assoc list)
qed

end

section \<open>The reads of \<^verbatim>\<open>ReadableEthersLiquity\<close>\<close>

definition ethers_readable :: "'w ethers \<Rightarrow> connection \<Rightarrow> ('w, overrides) readable" where
  "ethers_readable e c =
     \<lparr>rd_getTotalRedistributed = getTotalRedistributed e,
      rd_getTroveBeforeRedistribution = getTroveBeforeRedistribution e c,
      rd_getTrove = getTrove e c,
      rd_getNumberOfTroves = getNumberOfTroves e,
      rd_getPrice = getPrice e,
      rd_getTotal = getTotal e,
      rd_getStabilityDeposit = getStabilityDeposit e c,
      rd_getRemainingStabilityPoolLQTYReward = getRemainingStabilityPoolLQTYReward e c,
      rd_getLUSDInStabilityPool = getLUSDInStabilityPool e,
      rd_getLUSDBalance = getLUSDBalance e c,
      rd_getLQTYBalance = getLQTYBalance e c,
      rd_getUniTokenBalance = getUniTokenBalance e c,
      rd_getUniTokenAllowance = getUniTokenAllowance e c,
      rd_getRemainingLiquidityMiningLQTYReward = getRemainingLiquidityMiningLQTYReward e,
      rd_getLiquidityMiningStake = getLiquidityMiningStake e c,
      rd_getTotalStakedUniTokens = getTotalStakedUniTokens e,
      rd_getLiquidityMiningLQTYReward = getLiquidityMiningLQTYReward e c,
      rd_getCollateralSurplusBalance = getCollateralSurplusBalance e c,
      rd_getFees = getFees e,
      rd_getLQTYStake = getLQTYStake e c,
      rd_getTotalStakedLQTY = getTotalStakedLQTY e,
      rd_getFrontendStatus = getFrontendStatus e c,
      rd_getTroves = getTroves e\<rparr>"

text \<open>The listings that \<^verbatim>\<open>getTroves\<close> accepts; it rejects the others before it reads.\<close>

definition accepted_listing :: "listing \<Rightarrow> bool" where
  "accepted_listing l \<longleftrightarrow>
     expectPositiveInt ''first'' (Some (l_first l)) = Inr () \<and> expectPositiveInt ''startingAt'' (startingAt l) = Inr ()
     \<and> sortedBy l \<in> set validSortingOptions"

lemma getTroves_accepted:
  "accepted_listing l \<Longrightarrow> getTroves e l ov =
     bind_io (if beforeRedistribution l then return_io None
              else bind_io (getTotalRedistributed e ov) (\<lambda>t. return_io (Some t))) (\<lambda>totalRedistributed.
     bind_io (ethers_call e ''multiTroveGetter'' ''getMultipleSortedTroves''
       [Num (let start = (case startingAt l of None \<Rightarrow> 0 | Some n \<Rightarrow> number_val n)
             in if sortedBy l = ''descendingCollateralRatio'' then start else - (start + 1)),
        Num (number_val (l_first l))] ov) (\<lambda>backendTroves.
     bind_io (lift_io (bind_res (as_list backendTroves) mapBackendTroves)) (\<lambda>troves.
       case totalRedistributed of
         None \<Rightarrow> return_io (Inl troves)
       | Some redistributed \<Rightarrow>
           bind_io (lift_io (map_res (\<lambda>t. applyRedistribution t redistributed) troves)) (\<lambda>ts. return_io (Inr ts)))))"
  by (simp add: accepted_listing_def getTroves_def Let_def)

interpretation er: redistributing "ethers_readable e c" accepted_listing for e :: "'w ethers" and c
proof
  fix a and x :: overrides
  show "rd_getTrove (ethers_readable e c) a x =
      bind_io (rd_getTroveBeforeRedistribution (ethers_readable e c) a x) (\<lambda>t.
      bind_io (rd_getTotalRedistributed (ethers_readable e c) x) (\<lambda>total. lift_io (applyRedistribution t total)))"
    by (simp add: ethers_readable_def getTrove_def)
next
  fix l :: listing and x :: overrides and w us w'
  assume "accepted_listing l" "beforeRedistribution l" "rd_getTroves (ethers_readable e c) l x w = (Inr (Inr us), w')"
  then show False
    by (auto simp: ethers_readable_def getTroves_accepted bind_io_Inr)
next
  fix l :: listing and x :: overrides
  assume l: "accepted_listing l" "\<not> beforeRedistribution l"
  then have "accepted_listing (l\<lparr>beforeRedistribution := True\<rparr>)" by (simp add: accepted_listing_def)
  with l show "rd_getTroves (ethers_readable e c) l x =
      bind_io (rd_getTotalRedistributed (ethers_readable e c) x) (\<lambda>total.
      bind_io (rd_getTroves (ethers_readable e c) (l\<lparr>beforeRedistribution := True\<rparr>) x) (\<lambda>troves.
      bind_io (lift_io (map_res (\<lambda>t. applyRedistribution t total) (projl troves))) (\<lambda>us. return_io (Inr us))))"
    by (simp add: ethers_readable_def getTroves_accepted bind_io_assoc)
next
  show "accepted_listing l \<Longrightarrow> accepted_listing (l\<lparr>beforeRedistribution := True\<rparr>)" for l
    by (simp add: accepted_listing_def)
qed

text \<open>Over a coherent cache every method reads what \<^verbatim>\<open>ReadableEthersLiquity\<close> does, with the same effects and errors; a list for
  parameters that it accepts.\<close>

theorem cached_reads_transparent:
  assumes c: "coherent_cache (ethers_readable e c) ca ov"
  shows "cached_getTotalRedistributed (ethers_readable e c) ca ov = getTotalRedistributed e ov
    \<and> cached_getTroveBeforeRedistribution (ethers_readable e c) ca a ov = getTroveBeforeRedistribution e c a ov
    \<and> cached_getTrove (ethers_readable e c) ca a ov = getTrove e c a ov
    \<and> cached_getNumberOfTroves (ethers_readable e c) ca ov = getNumberOfTroves e ov
    \<and> cached_getPrice (ethers_readable e c) ca ov = getPrice e ov
    \<and> cached_getTotal (ethers_readable e c) ca ov = getTotal e ov
    \<and> cached_getStabilityDeposit (ethers_readable e c) ca a ov = getStabilityDeposit e c a ov
    \<and> cached_getRemainingStabilityPoolLQTYReward (ethers_readable e c) ca ov = getRemainingStabilityPoolLQTYReward e c ov
    \<and> cached_getLUSDInStabilityPool (ethers_readable e c) ca ov = getLUSDInStabilityPool e ov
    \<and> cached_getLUSDBalance (ethers_readable e c) ca a ov = getLUSDBalance e c a ov
    \<and> cached_getLQTYBalance (ethers_readable e c) ca a ov = getLQTYBalance e c a ov
    \<and> cached_getUniTokenBalance (ethers_readable e c) ca a ov = getUniTokenBalance e c a ov
    \<and> cached_getUniTokenAllowance (ethers_readable e c) ca a ov = getUniTokenAllowance e c a ov
    \<and> cached_getRemainingLiquidityMiningLQTYReward (ethers_readable e c) ca ov = getRemainingLiquidityMiningLQTYReward e ov
    \<and> cached_getLiquidityMiningStake (ethers_readable e c) ca a ov = getLiquidityMiningStake e c a ov
    \<and> cached_getTotalStakedUniTokens (ethers_readable e c) ca ov = getTotalStakedUniTokens e ov
    \<and> cached_getLiquidityMiningLQTYReward (ethers_readable e c) ca a ov = getLiquidityMiningLQTYReward e c a ov
    \<and> cached_getCollateralSurplusBalance (ethers_readable e c) ca a ov = getCollateralSurplusBalance e c a ov
    \<and> cached_getFees (ethers_readable e c) ca ov = getFees e ov
    \<and> cached_getLQTYStake (ethers_readable e c) ca a ov = getLQTYStake e c a ov
    \<and> cached_getTotalStakedLQTY (ethers_readable e c) ca ov = getTotalStakedLQTY e ov
    \<and> cached_getFrontendStatus (ethers_readable e c) ca a ov = getFrontendStatus e c a ov
    \<and> (accepted_listing l \<longrightarrow> cached_getTroves (ethers_readable e c) ca l ov = getTroves e l ov)"
  using c er.cached_trove [OF c, of a] er.cached_troves [OF c, of l]
  by (simp add: coherent_cache_def truthful_or_read ethers_readable_def
      cached_getTotalRedistributed_def
      cached_getTroveBeforeRedistribution_def
      cached_getNumberOfTroves_def
      cached_getPrice_def
      cached_getTotal_def
      cached_getStabilityDeposit_def
      cached_getRemainingStabilityPoolLQTYReward_def
      cached_getLUSDInStabilityPool_def
      cached_getLUSDBalance_def
      cached_getLQTYBalance_def
      cached_getUniTokenBalance_def
      cached_getUniTokenAllowance_def
      cached_getRemainingLiquidityMiningLQTYReward_def
      cached_getLiquidityMiningStake_def
      cached_getTotalStakedUniTokens_def
      cached_getLiquidityMiningLQTYReward_def
      cached_getCollateralSurplusBalance_def
      cached_getFees_def
      cached_getLQTYStake_def
      cached_getTotalStakedLQTY_def
      cached_getFrontendStatus_def)

section \<open>The block-polled reader is a cached reader\<close>

text \<open>The reads on the chain, for a state that has the store as well, and the store as a cache.\<close>

definition beside_store :: "('w, 'x) readable \<Rightarrow> (('w, 'l) polled, 'x) readable" where
  "beside_store rd =
     \<lparr>rd_getTotalRedistributed = (\<lambda>x. on_chain (rd_getTotalRedistributed rd x)),
      rd_getTroveBeforeRedistribution = (\<lambda>a x. on_chain (rd_getTroveBeforeRedistribution rd a x)),
      rd_getTrove = (\<lambda>a x. on_chain (rd_getTrove rd a x)),
      rd_getNumberOfTroves = (\<lambda>x. on_chain (rd_getNumberOfTroves rd x)),
      rd_getPrice = (\<lambda>x. on_chain (rd_getPrice rd x)),
      rd_getTotal = (\<lambda>x. on_chain (rd_getTotal rd x)),
      rd_getStabilityDeposit = (\<lambda>a x. on_chain (rd_getStabilityDeposit rd a x)),
      rd_getRemainingStabilityPoolLQTYReward = (\<lambda>x. on_chain (rd_getRemainingStabilityPoolLQTYReward rd x)),
      rd_getLUSDInStabilityPool = (\<lambda>x. on_chain (rd_getLUSDInStabilityPool rd x)),
      rd_getLUSDBalance = (\<lambda>a x. on_chain (rd_getLUSDBalance rd a x)),
      rd_getLQTYBalance = (\<lambda>a x. on_chain (rd_getLQTYBalance rd a x)),
      rd_getUniTokenBalance = (\<lambda>a x. on_chain (rd_getUniTokenBalance rd a x)),
      rd_getUniTokenAllowance = (\<lambda>a x. on_chain (rd_getUniTokenAllowance rd a x)),
      rd_getRemainingLiquidityMiningLQTYReward = (\<lambda>x. on_chain (rd_getRemainingLiquidityMiningLQTYReward rd x)),
      rd_getLiquidityMiningStake = (\<lambda>a x. on_chain (rd_getLiquidityMiningStake rd a x)),
      rd_getTotalStakedUniTokens = (\<lambda>x. on_chain (rd_getTotalStakedUniTokens rd x)),
      rd_getLiquidityMiningLQTYReward = (\<lambda>a x. on_chain (rd_getLiquidityMiningLQTYReward rd a x)),
      rd_getCollateralSurplusBalance = (\<lambda>a x. on_chain (rd_getCollateralSurplusBalance rd a x)),
      rd_getFees = (\<lambda>x. on_chain (rd_getFees rd x)),
      rd_getLQTYStake = (\<lambda>a x. on_chain (rd_getLQTYStake rd a x)),
      rd_getTotalStakedLQTY = (\<lambda>x. on_chain (rd_getTotalStakedLQTY rd x)),
      rd_getFrontendStatus = (\<lambda>a x. on_chain (rd_getFrontendStatus rd a x)),
      rd_getTroves = (\<lambda>l x. on_chain (rd_getTroves rd l x))\<rparr>"

definition stored ::
  "((block_extra, 'l) store \<Rightarrow> bool) \<Rightarrow> ((block_extra, 'l) store \<Rightarrow> 'a option) \<Rightarrow> ('w, 'l) polled \<Rightarrow> 'a option" where
  "stored hit field p = (if hit (poll_store p) then field (poll_store p) else None)"

definition store_cache :: "connection \<Rightarrow> (('w, 'l) polled, overrides) read_cache" where
  "store_cache c =
     \<lparr>ca_getTotalRedistributed = (\<lambda>ov. stored (blockHit ov) (of_base (\<lambda>b. unbox (totalRedistributed b)))),
      ca_getTroveBeforeRedistribution = (\<lambda>a ov. stored (userHit c a ov) (of_base (\<lambda>b. unbox (troveBeforeRedistribution b)))),
      ca_getTrove = (\<lambda>a ov. stored (userHit c a ov) (of_derived (\<lambda>d. unbox (d_trove d)))),
      ca_getNumberOfTroves = (\<lambda>ov. stored (blockHit ov) (of_base numberOfTroves)),
      ca_getPrice = (\<lambda>ov. stored (blockHit ov) (of_base (\<lambda>b. unbox (price b)))),
      ca_getTotal = (\<lambda>ov. stored (blockHit ov) (of_base (\<lambda>b. unbox (total b)))),
      ca_getStabilityDeposit = (\<lambda>a ov. stored (userHit c a ov) (of_base (\<lambda>b. unbox (stabilityDeposit b)))),
      ca_getRemainingStabilityPoolLQTYReward = (\<lambda>ov. stored (blockHit ov) (of_base (\<lambda>b. unbox (remainingStabilityPoolLQTYReward b)))),
      ca_getLUSDInStabilityPool = (\<lambda>ov. stored (blockHit ov) (of_base (\<lambda>b. unbox (lusdInStabilityPool b)))),
      ca_getLUSDBalance = (\<lambda>a ov. stored (userHit c a ov) (of_base (\<lambda>b. unbox (lusdBalance b)))),
      ca_getLQTYBalance = (\<lambda>a ov. stored (userHit c a ov) (of_base (\<lambda>b. unbox (lqtyBalance b)))),
      ca_getUniTokenBalance = (\<lambda>a ov. stored (userHit c a ov) (of_base (\<lambda>b. unbox (uniTokenBalance b)))),
      ca_getUniTokenAllowance = (\<lambda>a ov. stored (userHit c a ov) (of_base (\<lambda>b. unbox (uniTokenAllowance b)))),
      ca_getRemainingLiquidityMiningLQTYReward = (\<lambda>ov. stored (blockHit ov) (of_base (\<lambda>b. unbox (remainingLiquidityMiningLQTYReward b)))),
      ca_getLiquidityMiningStake = (\<lambda>a ov. stored (userHit c a ov) (of_base (\<lambda>b. unbox (liquidityMiningStake b)))),
      ca_getTotalStakedUniTokens = (\<lambda>ov. stored (blockHit ov) (of_base (\<lambda>b. unbox (totalStakedUniTokens b)))),
      ca_getLiquidityMiningLQTYReward = (\<lambda>a ov. stored (userHit c a ov) (of_base (\<lambda>b. unbox (liquidityMiningLQTYReward b)))),
      ca_getCollateralSurplusBalance = (\<lambda>a ov. stored (userHit c a ov) (of_base (\<lambda>b. unbox (collateralSurplusBalance b)))),
      ca_getFees = (\<lambda>ov. stored (blockHit ov) (of_derived (\<lambda>d. unbox (d_fees d)))),
      ca_getLQTYStake = (\<lambda>a ov. stored (userHit c a ov) (of_base (\<lambda>b. unbox (lqtyStake b)))),
      ca_getTotalStakedLQTY = (\<lambda>ov. stored (blockHit ov) (of_base (\<lambda>b. unbox (totalStakedLQTY b)))),
      ca_getFrontendStatus = (\<lambda>a ov. stored (frontendHit c a ov) (of_base (\<lambda>b. unbox (frontend b)))),
      ca_getTroves = (\<lambda>_ _ _. None)\<rparr>"

definition some_answer :: "'a res \<times> 's \<Rightarrow> 'a option res \<times> 's" where
  "some_answer r = (map_sum id Some (fst r), snd r)"

lemma from_store_cached:
  assumes "hit (poll_store p) \<Longrightarrow> field (poll_store p) \<noteq> None"
  shows "from_store hit field read p = some_answer (or_read (stored hit field) (on_chain read) p)"
proof (cases "hit (poll_store p)")
  case True
  then show ?thesis
    using assms by (auto simp: from_store_def or_read_def stored_def some_answer_def)
next
  case False
  then show ?thesis
    by (auto simp: from_store_def or_read_def stored_def some_answer_def bind_io_def on_chain_def split: prod.splits sum.splits)
qed

lemma on_chain_bind: "on_chain (bind_io m f) = bind_io (on_chain m) (\<lambda>x. on_chain (f x))"
  by (auto simp: on_chain_def bind_io_def fun_eq_iff split: prod.splits sum.splits)

lemma on_chain_lift [simp]: "on_chain (lift_io r) = lift_io r"
  by (simp add: on_chain_def fun_eq_iff)

lemma on_chain_store: "on_chain m p = (r, p') \<Longrightarrow> poll_store p' = poll_store p"
  by (auto simp: on_chain_def split: prod.splits)

text \<open>A Trove: from the store for its user, from the chain when the store has another block. For another user at the block of the
  store the class would combine the user's Trove on the chain with the redistribution that the store has.\<close>

lemma polled_trove_cached:
  assumes b: "baseState (poll_store p) = Some b" and d: "derivedState (poll_store p) = Some d"
    and "derived_spec b (derived_values d)" and hit: "userHit c a ov (poll_store p) \<or> \<not> blockHit ov (poll_store p)"
  shows "polled_getTrove e c a ov p = some_answer (cached_getTrove (beside_store (ethers_readable e c)) (store_cache c) a ov p)"
proof (cases "userHit c a ov (poll_store p)")
  case True
  then have "blockHit ov (poll_store p)" by (simp add: userHit_def)
  with True assms show ?thesis
    by (auto simp: polled_getTrove_def cached_getTrove_def cached_getTroveBeforeRedistribution_def cached_getTotalRedistributed_def
        from_store_def or_read_def store_cache_def stored_def of_base_def of_derived_def some_answer_def bind_io_def derived_spec_def
        derived_values_def)
next
  case False
  with hit have "\<not> blockHit ov (poll_store p)" by simp
  then have miss: "or_read (ca_getTroveBeforeRedistribution (store_cache c) a ov) m p = m p"
    "poll_store q = poll_store p \<Longrightarrow> or_read (ca_getTotalRedistributed (store_cache c) ov) n q = n q" for m n q
    by (auto simp: or_read_def store_cache_def stored_def userHit_def)
  have "cached_getTrove (beside_store (ethers_readable e c)) (store_cache c) a ov p = on_chain (getTrove e c a ov) p"
    unfolding cached_getTrove_def cached_getTroveBeforeRedistribution_def cached_getTotalRedistributed_def getTrove_def on_chain_bind
    by (auto simp: beside_store_def ethers_readable_def bind_io_def miss on_chain_store split: prod.splits sum.splits)
  then show ?thesis
    using False
    by (auto simp: polled_getTrove_def from_store_def some_answer_def bind_io_def split: prod.splits sum.splits)
qed

text \<open>Once the store is loaded, the block-polled reader is the cached reader whose cache is the store.\<close>

theorem polled_reader_is_cached:
  assumes b: "baseState (poll_store p) = Some b" and d: "derivedState (poll_store p) = Some d"
    and spec: "derived_spec b (derived_values d)"
  shows "polled_getTotalRedistributed e ov p = some_answer (cached_getTotalRedistributed (beside_store (ethers_readable e c)) (store_cache c) ov p)
    \<and> polled_getTroveBeforeRedistribution e c a ov p = some_answer (cached_getTroveBeforeRedistribution (beside_store (ethers_readable e c)) (store_cache c) a ov p)
    \<and> (userHit c a ov (poll_store p) \<or> \<not> blockHit ov (poll_store p) \<longrightarrow> polled_getTrove e c a ov p = some_answer (cached_getTrove (beside_store (ethers_readable e c)) (store_cache c) a ov p))
    \<and> polled_getNumberOfTroves e ov p = some_answer (cached_getNumberOfTroves (beside_store (ethers_readable e c)) (store_cache c) ov p)
    \<and> polled_getPrice e ov p = some_answer (cached_getPrice (beside_store (ethers_readable e c)) (store_cache c) ov p)
    \<and> polled_getTotal e ov p = some_answer (cached_getTotal (beside_store (ethers_readable e c)) (store_cache c) ov p)
    \<and> polled_getStabilityDeposit e c a ov p = some_answer (cached_getStabilityDeposit (beside_store (ethers_readable e c)) (store_cache c) a ov p)
    \<and> polled_getRemainingStabilityPoolLQTYReward e c ov p = some_answer (cached_getRemainingStabilityPoolLQTYReward (beside_store (ethers_readable e c)) (store_cache c) ov p)
    \<and> polled_getLUSDInStabilityPool e ov p = some_answer (cached_getLUSDInStabilityPool (beside_store (ethers_readable e c)) (store_cache c) ov p)
    \<and> polled_getLUSDBalance e c a ov p = some_answer (cached_getLUSDBalance (beside_store (ethers_readable e c)) (store_cache c) a ov p)
    \<and> polled_getLQTYBalance e c a ov p = some_answer (cached_getLQTYBalance (beside_store (ethers_readable e c)) (store_cache c) a ov p)
    \<and> polled_getUniTokenBalance e c a ov p = some_answer (cached_getUniTokenBalance (beside_store (ethers_readable e c)) (store_cache c) a ov p)
    \<and> polled_getUniTokenAllowance e c a ov p = some_answer (cached_getUniTokenAllowance (beside_store (ethers_readable e c)) (store_cache c) a ov p)
    \<and> polled_getRemainingLiquidityMiningLQTYReward e ov p = some_answer (cached_getRemainingLiquidityMiningLQTYReward (beside_store (ethers_readable e c)) (store_cache c) ov p)
    \<and> polled_getLiquidityMiningStake e c a ov p = some_answer (cached_getLiquidityMiningStake (beside_store (ethers_readable e c)) (store_cache c) a ov p)
    \<and> polled_getTotalStakedUniTokens e ov p = some_answer (cached_getTotalStakedUniTokens (beside_store (ethers_readable e c)) (store_cache c) ov p)
    \<and> polled_getLiquidityMiningLQTYReward e c a ov p = some_answer (cached_getLiquidityMiningLQTYReward (beside_store (ethers_readable e c)) (store_cache c) a ov p)
    \<and> polled_getCollateralSurplusBalance e c a ov p = some_answer (cached_getCollateralSurplusBalance (beside_store (ethers_readable e c)) (store_cache c) a ov p)
    \<and> polled_getFees e ov p = some_answer (cached_getFees (beside_store (ethers_readable e c)) (store_cache c) ov p)
    \<and> polled_getLQTYStake e c a ov p = some_answer (cached_getLQTYStake (beside_store (ethers_readable e c)) (store_cache c) a ov p)
    \<and> polled_getTotalStakedLQTY e ov p = some_answer (cached_getTotalStakedLQTY (beside_store (ethers_readable e c)) (store_cache c) ov p)
    \<and> polled_getFrontendStatus e c a ov p = some_answer (cached_getFrontendStatus (beside_store (ethers_readable e c)) (store_cache c) a ov p)"
  using assms
  by (simp add: polled_trove_cached from_store_cached of_base_def of_derived_def beside_store_def ethers_readable_def store_cache_def
      polled_getTotalRedistributed_def cached_getTotalRedistributed_def
      polled_getTroveBeforeRedistribution_def cached_getTroveBeforeRedistribution_def
      polled_getNumberOfTroves_def cached_getNumberOfTroves_def
      polled_getPrice_def cached_getPrice_def
      polled_getTotal_def cached_getTotal_def
      polled_getStabilityDeposit_def cached_getStabilityDeposit_def
      polled_getRemainingStabilityPoolLQTYReward_def cached_getRemainingStabilityPoolLQTYReward_def
      polled_getLUSDInStabilityPool_def cached_getLUSDInStabilityPool_def
      polled_getLUSDBalance_def cached_getLUSDBalance_def
      polled_getLQTYBalance_def cached_getLQTYBalance_def
      polled_getUniTokenBalance_def cached_getUniTokenBalance_def
      polled_getUniTokenAllowance_def cached_getUniTokenAllowance_def
      polled_getRemainingLiquidityMiningLQTYReward_def cached_getRemainingLiquidityMiningLQTYReward_def
      polled_getLiquidityMiningStake_def cached_getLiquidityMiningStake_def
      polled_getTotalStakedUniTokens_def cached_getTotalStakedUniTokens_def
      polled_getLiquidityMiningLQTYReward_def cached_getLiquidityMiningLQTYReward_def
      polled_getCollateralSurplusBalance_def cached_getCollateralSurplusBalance_def
      polled_getFees_def cached_getFees_def
      polled_getLQTYStake_def cached_getLQTYStake_def
      polled_getTotalStakedLQTY_def cached_getTotalStakedLQTY_def
      polled_getFrontendStatus_def cached_getFrontendStatus_def)

end
