(* ===== verification/Spec2Isabelle.thy ===== *)
theory Spec2Isabelle
  imports Store_Diff Deposits Trove_Change Decimal_Text TestHelpers_Par Proxy_Props Deployment_Props
    MainnetDeployment_Props EthMutants_Props Liqbot_Props BlockPolled_Props Batched_Props Validation_Props
    Subgraph_Examples Sendable_Props Connecting Observable ParseLogs Managers Views
    Transactions Augmented_Props Augmented_Reads Fuzzer_Props Bonds CachedReads
begin

text \<open>
  A verification library for the JavaScript and TypeScript code of a fork of Liquity, a lending protocol on
  Ethereum: the SDK (\<^verbatim>\<open>packages/lib-base\<close>, \<^verbatim>\<open>packages/lib-ethers\<close>), its providers and example bot, the rules of
  the frontend, and the scripts that deploy, test and mutate the contracts (\<^verbatim>\<open>packages/contracts\<close>).

  \<^bold>\<open>How the parts fit together.\<close> Amounts, rates and ratios are fixed-point decimals. A \<open>Trove\<close> is a
  position of collateral and debt in decimals; \<open>Fees\<close> computes rates that decay with time. The store
  (\<open>LiquityStore\<close>) keeps the state read from the chain and derives more from it; the block-polled store fills it
  by a fetch per block, through the reads of \<open>ReadableEthersLiquity\<close>, which a batching provider may collect.
  \<open>PopulatableEthersLiquity\<close> turns changes of a Trove into transactions with hints into the contract's sorted
  list, \<open>SendableEthersLiquity\<close> and \<open>EthersLiquity\<close> send them and wait, and the liquidation bot uses all of this. The
  frontend keeps what the user edits apart from what the store reports, and validates a change before it offers it. The
  contracts' scripts deploy and connect the contracts, drive them in tests and mutate their sources.

  \<^bold>\<open>Conventions.\<close> A function that may throw returns \<open>'a res\<close>, a sum with the error on the left
  (\<open>Prelude\<close>). Code with effects is a function of the state that returns the result with the state reached, which an
  exception keeps (\<open>Effects\<close>: \<open>('s, 'a) io\<close>). Dynamically typed values of JavaScript are the datatype \<open>val\<close>
  (\<open>JsValue\<close>). Objects compared by identity carry one (\<open>obj\<close>, in \<open>Store\<close>). Code outside the repository (ethers, web3, the Solidity
  compiler and parser, file system tools) and the chain are records of functions passed as
  parameters (\<open>Chain\<close>, \<open>Ethers\<close>); what a theorem needs of them is a named hypothesis, and its witness gives
  a concrete one. Interleavings (timers, fetches, answers) are step relations with reachable states.

  \<^bold>\<open>Theories.\<close> For each part: the theory of the model, the theories of its properties, and what they show.

  \<^item> Prelude, Effects, JsValue, Chain: results, strings, truncating division, effects, values, contracts.

  \<^item> \<open>Decimal\<close> models \<^verbatim>\<open>lib-base/src/Decimal.ts\<close>: \<open>Decimal\<close>, \<open>Difference\<close> and \<open>Percent\<close>. \<open>Decimal_Arith\<close>: the error of
    \<open>mul\<close>, \<open>div\<close> and of the square-and-multiply loop of \<open>pow\<close>. \<open>Decimal_Text\<close>: the literals accepted and their values, printing and reading
    back, rounding of \<open>toString(precision)\<close>, digit groups.

  \<^item> \<open>Fees\<close> models \<^verbatim>\<open>lib-base/src/Fees.ts\<close> and \<^verbatim>\<open>constants.ts\<close>: decay of the base rate with its error, bounds and monotonicity of the
    borrowing and redemption rates.

  \<^item> \<open>Trove\<close> models \<^verbatim>\<open>lib-base/src/Trove.ts\<close>. \<open>Trove_Change\<close>: \<open>apply\<close> after \<open>whatChanged\<close> reaches the target up to
    the rounding of the fee, likewise \<open>create\<close>/\<open>recreate\<close> and \<open>adjust\<close>/\<open>adjustTo\<close>; the parameters that are accepted; collateral ratios as
    exact inequalities; redistributions hand out no more than there is.

  \<^item> \<open>Deposits\<close> models \<^verbatim>\<open>StabilityDeposit.ts\<close> and \<^verbatim>\<open>LQTYStake.ts\<close>; the contract they share is the locale
    \<open>position\<close>, interpreted on both.

  \<^item> \<open>Store\<close> models \<^verbatim>\<open>LiquityStore.ts\<close> with its runtime. \<open>Store_Props\<close>: listeners and timers. \<open>Store_Update\<close>, \<open>Store_Diff\<close>: the state after an
    update, and that the reported change, found by identity, is the change of the values.

  \<^item> \<open>SortedTroves\<close> models \<^verbatim>\<open>contracts/SortedTroves.sol\<close>, which the hints refer to. \<open>SortedTroves_Props\<close>: the linked list refines a sorted list;
    the searches end.

  \<^item> \<open>Ethers\<close> models the parts of \<^verbatim>\<open>lib-ethers/src\<close> \<^verbatim>\<open>contracts.ts\<close>, \<^verbatim>\<open>EthersLiquityConnection.ts\<close> and \<^verbatim>\<open>_utils.ts\<close> that the
    following use. \<open>Readable\<close>: \<^verbatim>\<open>ReadableEthersLiquity.ts\<close>. \<open>Populatable\<close>: \<^verbatim>\<open>PopulatableEthersLiquity.ts\<close>;
    \<open>Populatable_Props\<close>: trials, hints (over the locale \<open>sorted_list\<close>, interpreted on the linked list), gas, amounts.

  \<^item> \<open>Connecting\<close> models the rest of \<^verbatim>\<open>EthersLiquityConnection.ts\<close> and \<^verbatim>\<open>contracts.ts\<close>, with \<^verbatim>\<open>_Multicall.ts\<close>: what a connection made through a
    signer or provider gives the other parts, and when it fails. \<open>Sendable\<close> models \<^verbatim>\<open>SendableEthersLiquity.ts\<close> and the transactions of
    \<^verbatim>\<open>EthersLiquity.ts\<close>; \<open>Sendable_Props\<close>: each call sends one transaction and returns what its receipt says. \<open>Observable\<close> models
    \<^verbatim>\<open>ObservableEthersLiquity.ts\<close>: a burst of events leads to one read, at the last block. \<open>ParseLogs\<close> models \<^verbatim>\<open>parseLogs.ts\<close>.

  \<^item> \<open>BlockPolled\<close> models \<^verbatim>\<open>BlockPolledLiquityStore.ts\<close> and the reader that answers from it. \<open>BlockPolled_Reads\<close>, \<open>BlockPolled_Props\<close>: timers and
    fetches over all interleavings, and that reads answered by the store are those of the chain at its block.
    \<open>CachedReads\<close> models \<^verbatim>\<open>lib-base/src/_CachedReadableLiquity.ts\<close>: with a coherent cache it reads as \<^verbatim>\<open>ReadableEthersLiquity\<close> does (locale \<open>redistributing\<close>), and
    the block-polled reader is the cached reader whose cache is the store.

  \<^item> \<open>Batched\<close> models \<^verbatim>\<open>providers/src/BatchedProvider.ts\<close>. \<open>Batched_Props\<close>: no call is lost or answered twice, and each gets its own answer.

  \<^item> \<open>Augmented\<close> models the sockets and listeners of \<^verbatim>\<open>providers/src/WebSocketAugmentedProvider.ts\<close> as a step relation over what the user,
    the network and the timers do. \<open>Augmented_Props\<close>: listeners hear of blocks from the provider in use, over all interleavings. \<open>Augmented_Reads\<close>
    models its reads, which retry, and shows that waiting for a mined transaction ends.

  \<^item> \<open>Validation\<close> models \<^verbatim>\<open>validateTroveChange.tsx\<close> and \<^verbatim>\<open>validateStabilityDepositChange.tsx\<close> of the
    frontend. \<open>Validation_Props\<close>: they decide exactly the rules of the protocol. \<open>Managers\<close> models the reducers of its editors
    (\<^verbatim>\<open>TroveManager\<close>, \<^verbatim>\<open>StabilityDepositManager\<close>, \<^verbatim>\<open>StakingManager\<close>, \<^verbatim>\<open>StakingViewProvider\<close>, \<^verbatim>\<open>Adjusting\<close>): an edit is carried over when the store
    changes. \<open>Views\<close> models the state machines of its panels (\<^verbatim>\<open>TroveViewProvider\<close>, \<^verbatim>\<open>StabilityViewProvider\<close>, the wizard): the panel follows the
    status of the Trove. \<open>Transactions\<close> models \<^verbatim>\<open>Transaction.tsx\<close> (errors: \<open>JsError\<close>), with the effects in the order in which React runs them: what is displayed is
    what is under way, and it ends. \<open>Bonds\<close> models the transitions of the bonds panel and \<^verbatim>\<open>useTransaction.ts\<close>.

  \<^item> \<open>Liqbot\<close>, \<open>Liqbot_Props\<close>: \<^verbatim>\<open>examples/src/liqbot.js\<close> sends only profitable liquidations.

  \<^item> \<open>Fuzzer\<close> models the checks and gas histograms of \<^verbatim>\<open>packages/fuzzer\<close>. \<open>Fuzzer_Props\<close>: what a check that passes establishes, and that the
    fuzzer expects success of what the frontend permits.

  \<^item> \<open>TestHelpers_Math\<close>, \<open>TestHelpers_Pool\<close>, \<open>TestHelpers_Ops\<close>, \<open>TestHelpers_Par\<close>: \<^verbatim>\<open>contracts/utils/testHelpers.js\<close>.

  \<^item> \<open>Proxy\<close>, \<open>Proxy_Props\<close>: \<^verbatim>\<open>contracts/utils/proxyHelpers.js\<close>, where a forwarded call goes and with which data, against
    the script contracts.

  \<^item> \<open>Deployment\<close>, \<open>Deployment_Props\<close>, \<open>Wiring\<close>: \<^verbatim>\<open>contracts/utils/deploymentHelpers.js\<close>; the calls that connect the contracts,
    against the parameters of the Solidity setters. \<open>MainnetDeployment\<close>, \<open>MainnetDeployment_Props\<close>:
    \<^verbatim>\<open>mainnetDeploymentHelpers.js\<close>; a deployment can be resumed.

  \<^item> \<open>EthMutants\<close>, \<open>EthMutants_Props\<close>: \<^verbatim>\<open>contracts/eth-mutants-custom\<close>; the loop over the mutations refines a
    specification without a file system.

  \<^item> \<open>Subgraph\<close>: \<^verbatim>\<open>packages/subgraph\<close>, the event handlers that index the protocol and the entities they load and save.
    \<open>Subgraph_Props\<close>: a small logic of what an operation keeps, and runs over sequences of events: the
    history of changes has no gaps. \<open>Subgraph_Sums\<close> (with \<open>Subgraph_Books\<close>): what the owners hold of the pools adds up to the
    totals; \<open>Subgraph_Troves\<close>: so do the stored Troves, and they are as many as counted; \<open>Subgraph_Tokens\<close>: a token's supply is
    the sum of its balances; \<open>Subgraph_Deposits\<close>: the order of two deposit events does not matter;
    \<open>Subgraph_Examples\<close>: their witnesses. The counters of type i32 are integers. The rounding of
    \<^verbatim>\<open>BigDecimal\<close> is a parameter, exact up to 34 digits, and the sums are stated for amounts below \<open>10 ^ 16\<close>.

  \<^bold>\<open>Bounds and fuel.\<close> The searches of the sorted list are \<open>partial_function (option)\<close>: they are shown to return for
  every hint on a represented list. The loop of \<^verbatim>\<open>driveICRToTargetWithPar\<close> has the source's own bound of 256 rounds.
  Numbers of JavaScript are integers where the source keeps them integral and small enough: the exponent of \<open>pow\<close> is
  an unsigned 32-bit number as in the source, the number of trials is exact for fewer than \<open>10 ^ 13\<close> Troves, and the logarithm of the gas
  estimate below \<open>2 ^ 32\<close>. Decimals are unbounded, as \<open>BigNumber\<close> is.

  The loops of the augmented provider that wait for the network are \<open>partial_function (option)\<close>; that they return is proved where the
  chain makes progress.

  \<^bold>\<open>Not modelled.\<close> The rendering of the frontend and of \<^verbatim>\<open>lib-react\<close>, the bonds API and its synchronisation (mostly generated bindings and
  queries), the queries of \<^verbatim>\<open>lib-subgraph\<close>, the socket transport, the random choices of the fuzzer, the
  other Solidity contracts apart from the parameter lists of their setters, the test suites and gas measurements (they only call
  the helpers modelled here), development scripts, account lists, ABIs, generated bindings and documentation.
\<close>

end
